(* ===== verification/Prelude.thy ===== *)
theory Prelude
  imports Main "HOL-Library.List_Lexorder" "HOL-Library.Char_ord" "HOL-Library.Sublist"
begin

text \<open>
  Shared vocabulary of the development: results that may raise (\<open>'e + 'a\<close>, with
  \<open>Inl\<close> for the exception), the loops the scripts write over lists (\<open>for\<close> with
  early exit, \<open>any\<close>, \<open>all\<close>), and the string operations of Python the scripts use.
  A string is a list of characters; one \<open>char\<close> stands for one code point below 256.
  The order on strings is the code point order of the imported lexicographic order, so
  \<open>sort\<close> is Python's \<open>sorted\<close> on strings.
\<close>

named_theorems res_simps "evaluation and inversion of results"
named_theorems str_simps "facts about the string operations"

section \<open>Results\<close>

definition bindE :: "'e + 'a \<Rightarrow> ('a \<Rightarrow> 'e + 'b) \<Rightarrow> 'e + 'b" where
  "bindE m f = (case m of Inl e \<Rightarrow> Inl e | Inr x \<Rightarrow> f x)"

definition ensure :: "bool \<Rightarrow> 'e \<Rightarrow> 'e + unit" where
  "ensure c e = (if c then Inr () else Inl e)"

definition is_ok :: "'e + 'a \<Rightarrow> bool" where
  "is_ok m = (case m of Inl _ \<Rightarrow> False | Inr _ \<Rightarrow> True)"

lemma bindE_Inl [simp]: "bindE (Inl e) f = Inl e"
  by (simp add: bindE_def)

lemma bindE_Inr [simp]: "bindE (Inr x) f = f x"
  by (simp add: bindE_def)

lemma bindE_eq_Inr [res_simps]: "bindE m f = Inr y \<longleftrightarrow> (\<exists>x. m = Inr x \<and> f x = Inr y)"
  by (cases m) auto

lemma bindE_eq_Inl: "bindE m f = Inl e \<longleftrightarrow> m = Inl e \<or> (\<exists>x. m = Inr x \<and> f x = Inl e)"
  by (cases m) auto

lemma bindE_InrE:
  assumes "bindE m f = Inr y"
  obtains x where "m = Inr x" and "f x = Inr y"
  using assms by (auto simp: bindE_eq_Inr)

lemma bindE_assoc: "bindE (bindE m f) g = bindE m (\<lambda>x. bindE (f x) g)"
  by (cases m) auto

lemma bindE_cong [fundef_cong]:
  "m = m' \<Longrightarrow> (\<And>x. m' = Inr x \<Longrightarrow> f x = g x) \<Longrightarrow> bindE m f = bindE m' g"
  by (cases m') auto

text \<open>Two computations with equal errors and related results.\<close>

lemma bindE_rel:
  assumes "rel_sum (=) R m n" and "\<And>x y. m = Inr x \<Longrightarrow> R x y \<Longrightarrow> rel_sum (=) S (f x) (g y)"
  shows "rel_sum (=) S (bindE m f) (bindE n g)"
  using assms by (cases m; cases n) auto

lemma rel_sum_same: "(\<And>x. m = Inr x \<Longrightarrow> R x x) \<Longrightarrow> rel_sum (=) R m m"
  by (cases m) auto

lemma ensure_eq_Inr [simp, res_simps]: "ensure c e = Inr u \<longleftrightarrow> c"
  by (simp add: ensure_def)

lemma ensure_eq_Inl [simp, res_simps]: "ensure c e = Inl e' \<longleftrightarrow> \<not> c \<and> e' = e"
  by (auto simp: ensure_def)

lemma ensure_simps [simp]: "ensure True e = Inr ()" "ensure False e = Inl e"
  by (simp_all add: ensure_def)

lemma is_ok_simps [simp]: "is_ok (Inr x)" "\<not> is_ok (Inl e)"
  by (simp_all add: is_ok_def)

lemma is_ok_iff: "is_ok m \<longleftrightarrow> (\<exists>x. m = Inr x)"
  by (cases m) auto

lemma if_Inl_eq_Inr [res_simps]:
  "(if c then Inl e else m) = Inr y \<longleftrightarrow> \<not> c \<and> m = Inr y"
  by auto

section \<open>Loops with early exit\<close>

fun foldE :: "('s \<Rightarrow> 'x \<Rightarrow> 'e + 's) \<Rightarrow> 's \<Rightarrow> 'x list \<Rightarrow> 'e + 's" where
  "foldE f s [] = Inr s"
| "foldE f s (x # xs) = bindE (f s x) (\<lambda>s'. foldE f s' xs)"

fun mapE :: "('x \<Rightarrow> 'e + 'y) \<Rightarrow> 'x list \<Rightarrow> 'e + 'y list" where
  "mapE f [] = Inr []"
| "mapE f (x # xs) = bindE (f x) (\<lambda>y. bindE (mapE f xs) (\<lambda>ys. Inr (y # ys)))"

fun filterE :: "('x \<Rightarrow> 'e + bool) \<Rightarrow> 'x list \<Rightarrow> 'e + 'x list" where
  "filterE p [] = Inr []"
| "filterE p (x # xs) =
     bindE (p x) (\<lambda>b. bindE (filterE p xs) (\<lambda>ys. Inr (if b then x # ys else ys)))"

fun anyE :: "('x \<Rightarrow> 'e + bool) \<Rightarrow> 'x list \<Rightarrow> 'e + bool" where
  "anyE p [] = Inr False"
| "anyE p (x # xs) = bindE (p x) (\<lambda>b. if b then Inr True else anyE p xs)"

lemma foldE_cong [fundef_cong]:
  assumes "xs = ys" and "s = t" and "\<And>u x. x \<in> set ys \<Longrightarrow> f u x = g u x"
  shows "foldE f s xs = foldE g t ys"
proof -
  have "foldE f s ys = foldE g s ys" if "\<And>u x. x \<in> set ys \<Longrightarrow> f u x = g u x" for s ys
    using that
  proof (induction ys arbitrary: s)
    case Nil
    then show ?case by simp
  next
    case (Cons y ys)
    have "f s y = g s y" by (rule Cons.prems) simp
    moreover have "foldE f u ys = foldE g u ys" for u
      by (rule Cons.IH) (rule Cons.prems, simp)
    ultimately show ?case by simp
  qed
  note fg = this
  show ?thesis
    unfolding assms(1,2) by (rule fg) (rule assms(3))
qed

lemma foldE_append: "foldE f s (xs @ ys) = bindE (foldE f s xs) (\<lambda>s'. foldE f s' ys)"
  by (induction xs arbitrary: s) (simp_all add: bindE_assoc)

lemma foldE_map: "foldE f s (map g xs) = foldE (\<lambda>s x. f s (g x)) s xs"
  by (induction xs arbitrary: s) auto

lemma mapE_map: "mapE f (map g xs) = mapE (\<lambda>x. f (g x)) xs"
  by (induction xs) auto

text \<open>An invariant of one iteration is an invariant of the loop.\<close>

lemma foldE_invariant:
  assumes "foldE f s xs = Inr t" and "P s"
    and "\<And>u x v. x \<in> set xs \<Longrightarrow> P u \<Longrightarrow> f u x = Inr v \<Longrightarrow> P v"
  shows "P t"
  using assms
proof (induction xs arbitrary: s)
  case Nil
  then show ?case by simp
next
  case (Cons x xs)
  from Cons.prems(1) obtain v where v: "f s x = Inr v" and rest: "foldE f v xs = Inr t"
    by (auto simp: bindE_eq_Inr)
  have "P v" by (rule Cons.prems(3) [OF _ Cons.prems(2) v]) simp
  then show ?case
  proof (rule Cons.IH [OF rest])
    fix u y w
    assume "y \<in> set xs" and "P u" and "f u y = Inr w"
    then show "P w" by (intro Cons.prems(3) [of y u w]) simp_all
  qed
qed

text \<open>
  Three ways a property of one iteration becomes a property of the loop: a flag that every
  iteration may clear, a fact one element establishes and the others keep, and a number
  every element contributes to.
\<close>

lemma foldE_flag:
  assumes "foldE f s xs = Inr t"
    and "\<And>u x v. x \<in> set xs \<Longrightarrow> f u x = Inr v \<Longrightarrow> P v \<longleftrightarrow> P u \<and> Q x"
  shows "P t \<longleftrightarrow> P s \<and> (\<forall>x \<in> set xs. Q x)"
  using assms
proof (induction xs arbitrary: s)
  case Nil
  then show ?case by simp
next
  case (Cons x xs)
  from Cons.prems(1) obtain v where v: "f s x = Inr v" and rest: "foldE f v xs = Inr t"
    by (auto simp: bindE_eq_Inr)
  have "P t \<longleftrightarrow> P v \<and> (\<forall>x \<in> set xs. Q x)"
  proof (rule Cons.IH [OF rest])
    fix u y w
    assume "y \<in> set xs" and "f u y = Inr w"
    then show "P w \<longleftrightarrow> P u \<and> Q y" by (intro Cons.prems(2)) simp_all
  qed
  moreover have "P v \<longleftrightarrow> P s \<and> Q x" by (rule Cons.prems(2) [OF _ v]) simp
  ultimately show ?case by auto
qed

lemma foldE_reaches:
  assumes "foldE f s xs = Inr t" and "x \<in> set xs"
    and "\<And>u v. f u x = Inr v \<Longrightarrow> P v"
    and "\<And>u y v. y \<in> set xs \<Longrightarrow> P u \<Longrightarrow> f u y = Inr v \<Longrightarrow> P v"
  shows "P t"
proof -
  from assms(2) obtain as bs where xs: "xs = as @ x # bs" by (meson split_list)
  with assms(1) obtain u v where v: "f u x = Inr v" and rest: "foldE f v bs = Inr t"
    by (auto simp: foldE_append bindE_eq_Inr)
  from v have "P v" by (rule assms(3))
  with rest show ?thesis
  proof (rule foldE_invariant)
    fix u y w
    assume "y \<in> set bs" and "P u" and "f u y = Inr w"
    then show "P w" using xs by (intro assms(4) [of y u w]) simp_all
  qed
qed

lemma foldE_sum:
  assumes "foldE f s xs = Inr t"
    and "\<And>u x v. x \<in> set xs \<Longrightarrow> f u x = Inr v \<Longrightarrow> n v = n u + (g x :: int)"
  shows "n t = n s + sum_list (map g xs)"
  using assms
proof (induction xs arbitrary: s)
  case Nil
  then show ?case by simp
next
  case (Cons x xs)
  from Cons.prems(1) obtain v where v: "f s x = Inr v" and rest: "foldE f v xs = Inr t"
    by (auto simp: bindE_eq_Inr)
  have "n t = n v + sum_list (map g xs)"
  proof (rule Cons.IH [OF rest])
    fix u y w
    assume "y \<in> set xs" and "f u y = Inr w"
    then show "n w = n u + g y" by (intro Cons.prems(2)) simp_all
  qed
  moreover have "n v = n s + g x" by (rule Cons.prems(2) [OF _ v]) simp
  ultimately show ?case by simp
qed

text \<open>A list every element appends to, and a fact that some element introduced.\<close>

lemma foldE_collect:
  assumes "foldE f s xs = Inr t"
    and "\<And>u x v. x \<in> set xs \<Longrightarrow> f u x = Inr v \<Longrightarrow> c v = c u @ g x"
  shows "c t = c s @ concat (map g xs)"
  using assms
proof (induction xs arbitrary: s)
  case Nil
  then show ?case by simp
next
  case (Cons x xs)
  from Cons.prems(1) obtain v where v: "f s x = Inr v" and rest: "foldE f v xs = Inr t"
    by (auto simp: bindE_eq_Inr)
  have "c t = c v @ concat (map g xs)"
  proof (rule Cons.IH [OF rest])
    fix u y w
    assume "y \<in> set xs" and "f u y = Inr w"
    then show "c w = c u @ g y" by (intro Cons.prems(2)) simp_all
  qed
  moreover have "c v = c s @ g x" by (rule Cons.prems(2) [OF _ v]) simp
  ultimately show ?case by simp
qed

lemma foldE_origin:
  assumes "foldE f s xs = Inr t" and "P t" and "\<not> P s"
    and "\<And>u x v. x \<in> set xs \<Longrightarrow> f u x = Inr v \<Longrightarrow> P v \<Longrightarrow> P u \<or> Q x"
  shows "\<exists>x \<in> set xs. Q x"
proof (rule ccontr)
  assume none: "\<not> ?thesis"
  have "\<not> P t"
    by (rule foldE_invariant [OF assms(1), where P = "\<lambda>u. \<not> P u"]) (use none assms(3,4) in blast)+
  with assms(2) show False by simp
qed

lemma foldE_ok: "foldE f s xs = Inr t \<Longrightarrow> x \<in> set xs \<Longrightarrow> \<exists>u v. f u x = Inr v"
  by (induction xs arbitrary: s) (auto simp: bindE_eq_Inr)

text \<open>
  A loop that only inspects its elements and carries no state succeeds exactly when every
  iteration does.
\<close>

lemma foldE_unit: "foldE (\<lambda>u x. f x) () xs = Inr () \<longleftrightarrow> (\<forall>x \<in> set xs. f x = Inr ())"
  by (induction xs) (auto simp: bindE_eq_Inr)

lemma mapE_eq_Inr [res_simps]:
  "mapE f xs = Inr ys \<longleftrightarrow> list_all2 (\<lambda>x y. f x = Inr y) xs ys"
proof (induction xs arbitrary: ys)
  case Nil
  then show ?case by auto
next
  case (Cons x xs)
  then show ?case by (cases ys) (auto simp: bindE_eq_Inr)
qed

lemma mapE_concat_nil:
  "mapE f xs = Inr ys \<Longrightarrow> concat ys = [] \<longleftrightarrow> (\<forall>x \<in> set xs. f x = Inr [])"
  by (induction xs arbitrary: ys) (auto simp: bindE_eq_Inr)

lemma mapE_length: "mapE f xs = Inr ys \<Longrightarrow> length ys = length xs"
  by (auto simp: mapE_eq_Inr dest: list_all2_lengthD)

lemma mapE_pure [simp]: "mapE (\<lambda>x. Inr (f x)) xs = Inr (map f xs)"
  by (induction xs) auto

lemma mapE_cong [fundef_cong]:
  assumes "xs = ys" and "\<And>x. x \<in> set ys \<Longrightarrow> f x = g x"
  shows "mapE f xs = mapE g ys"
proof -
  have "mapE f ys = mapE g ys" if "\<And>x. x \<in> set ys \<Longrightarrow> f x = g x" for ys
    using that
  proof (induction ys)
    case Nil
    then show ?case by simp
  next
    case (Cons y ys)
    have "f y = g y" by (rule Cons.prems) simp
    moreover have "mapE f ys = mapE g ys"
      by (rule Cons.IH) (rule Cons.prems, simp)
    ultimately show ?case by simp
  qed
  note fg = this
  show ?thesis
    unfolding assms(1) by (rule fg) (rule assms(2))
qed

lemma mapE_all_Inr: "(\<And>x. x \<in> set xs \<Longrightarrow> f x = Inr (g x)) \<Longrightarrow> mapE f xs = Inr (map g xs)"
  by (induction xs) auto

lemma filterE_eq_Inr:
  assumes "filterE p xs = Inr ys"
  shows "(\<forall>x \<in> set xs. \<exists>b. p x = Inr b) \<and> ys = filter (\<lambda>x. p x = Inr True) xs"
  using assms by (induction xs arbitrary: ys) (auto simp: bindE_eq_Inr split: if_splits)

lemma filterE_pure [simp]: "filterE (\<lambda>x. Inr (p x)) xs = Inr (filter p xs)"
  by (induction xs) auto

lemma anyE_pure [simp]: "anyE (\<lambda>x. Inr (p x)) xs = Inr (\<exists>x \<in> set xs. p x)"
  by (induction xs) auto

lemma anyE_False:
  "anyE p xs = Inr False \<longleftrightarrow> (\<forall>x \<in> set xs. p x = Inr False)"
  by (induction xs) (auto simp: bindE_eq_Inr split: if_splits)

lemma list_all2_set1: "list_all2 P xs ys \<Longrightarrow> x \<in> set xs \<Longrightarrow> \<exists>y \<in> set ys. P x y"
  by (auto simp: list_all2_conv_all_nth in_set_conv_nth) (metis nth_mem)

lemma list_all2_set2: "list_all2 P xs ys \<Longrightarrow> y \<in> set ys \<Longrightarrow> \<exists>x \<in> set xs. P x y"
  by (auto simp: list_all2_conv_all_nth in_set_conv_nth) (metis nth_mem)

section \<open>Association lists in insertion order\<close>

text \<open>A Python dict keeps the position of a key when its value is replaced.\<close>

fun al_set :: "('k \<times> 'v) list \<Rightarrow> 'k \<Rightarrow> 'v \<Rightarrow> ('k \<times> 'v) list" where
  "al_set [] k v = [(k, v)]"
| "al_set ((k', v') # ps) k v =
     (if k' = k then (k', v) # ps else (k', v') # al_set ps k v)"

lemma map_of_al_set [simp]: "map_of (al_set ps k v) = (map_of ps)(k \<mapsto> v)"
  by (induction ps) (auto simp: fun_eq_iff)

lemma dom_al_set [simp]: "fst ` set (al_set ps k v) = insert k (fst ` set ps)"
proof (induction ps)
  case Nil
  then show ?case by simp
next
  case (Cons p ps)
  then show ?case by (cases p) auto
qed

lemma distinct_al_set: "distinct (map fst ps) \<Longrightarrow> distinct (map fst (al_set ps k v))"
proof (induction ps)
  case Nil
  then show ?case by simp
next
  case (Cons p ps)
  then show ?case using dom_al_set [of ps k v] by (cases p) (auto simp: image_iff)
qed

section \<open>Strings\<close>

definition starts_with :: "string \<Rightarrow> string \<Rightarrow> bool" where
  "starts_with s p = (take (length p) s = p)"

definition ends_with :: "string \<Rightarrow> string \<Rightarrow> bool" where
  "ends_with s p = (length p \<le> length s \<and> drop (length s - length p) s = p)"

definition remove_suffix :: "string \<Rightarrow> string \<Rightarrow> string" where
  "remove_suffix s p = (if ends_with s p then take (length s - length p) s else s)"

fun contains_str :: "string \<Rightarrow> string \<Rightarrow> bool" where
  "contains_str [] p = (p = [])"
| "contains_str (c # s) p = (starts_with (c # s) p \<or> contains_str s p)"

definition digits10 :: string where
  "digits10 = ''0123456789''"

definition hex16 :: string where
  "hex16 = ''0123456789abcdef''"

definition is_digit :: "char \<Rightarrow> bool" where
  "is_digit c = (c \<in> set digits10)"

definition is_hex :: "char \<Rightarrow> bool" where
  "is_hex c = (c \<in> set hex16)"

text \<open>\<open>str.isspace\<close> below 256, the characters \<open>str.strip\<close> removes.\<close>

definition is_space :: "char \<Rightarrow> bool" where
  "is_space c = (c \<in> {CHR 0x09, CHR 0x0A, CHR 0x0B, CHR 0x0C, CHR 0x0D, CHR 0x1C, CHR 0x1D,
     CHR 0x1E, CHR 0x1F, CHR '' '', CHR 0x85, CHR 0xA0})"

definition strip :: "string \<Rightarrow> string" where
  "strip s = rev (dropWhile is_space (rev (dropWhile is_space s)))"

definition newline :: char where
  "newline = CHR 0x0A"

lemma starts_with_code [code]:
  "starts_with s [] = True" "starts_with [] (c # p) = False"
  "starts_with (d # s) (c # p) = (if d = c then starts_with s p else False)"
  by (simp_all add: starts_with_def)

lemma starts_with_append [simp, str_simps]: "starts_with (p @ s) p"
  by (simp add: starts_with_def)

lemma ends_with_append [simp, str_simps]: "ends_with (s @ p) p"
  by (simp add: ends_with_def)

lemma ends_with_iff: "ends_with s p \<longleftrightarrow> (\<exists>q. s = q @ p)"
proof
  assume "ends_with s p"
  then have "s = take (length s - length p) s @ p"
    by (metis append_take_drop_id ends_with_def)
  then show "\<exists>q. s = q @ p" by blast
qed auto

lemma starts_with_iff: "starts_with s p \<longleftrightarrow> (\<exists>q. s = p @ q)"
  by (metis append_eq_conv_conj append_take_drop_id starts_with_def)

lemma remove_suffix_append [simp, str_simps]: "remove_suffix (s @ p) p = s"
  by (simp add: remove_suffix_def)

lemma contains_str_iff: "contains_str s p \<longleftrightarrow> (\<exists>a b. s = a @ p @ b)"
proof (induction s)
  case Nil
  then show ?case by simp
next
  case (Cons c s)
  have "(\<exists>a b. c # s = a @ p @ b) \<longleftrightarrow> (\<exists>b. c # s = p @ b) \<or> (\<exists>a b. s = a @ p @ b)"
    by (metis append_Cons append_Nil append_eq_Cons_conv)
  with Cons.IH show ?case by (simp add: starts_with_iff)
qed

lemma strip_idem_nil: "strip s = [] \<longleftrightarrow> (\<forall>c \<in> set s. is_space c)"
proof -
  have "strip s = [] \<longleftrightarrow> (\<forall>c \<in> set (dropWhile is_space s). is_space c)"
    by (simp add: strip_def)
  also have "\<dots> \<longleftrightarrow> (\<forall>c \<in> set s. is_space c)"
    by (induction s) auto
  finally show ?thesis .
qed

section \<open>Decimal notation of naturals\<close>

definition digit_char :: "nat \<Rightarrow> char" where
  "digit_char n = digits10 ! n"

definition digit_val :: "char \<Rightarrow> nat" where
  "digit_val c = (let n = of_char c in if 48 \<le> n \<and> n < 58 then n - 48 else 0)"

fun nat_str :: "nat \<Rightarrow> string" where
  "nat_str n = (if n < 10 then [digit_char n] else nat_str (n div 10) @ [digit_char (n mod 10)])"

declare nat_str.simps [simp del]

definition str_nat :: "string \<Rightarrow> nat" where
  "str_nat s = foldl (\<lambda>a c. 10 * a + digit_val c) 0 s"

definition int_str :: "int \<Rightarrow> string" where
  "int_str i = (if i < 0 then ''-'' @ nat_str (nat (- i)) else nat_str (nat i))"

text \<open>\<open>str.zfill\<close> on a digit string: the \<open>%0kd\<close> of time formats.\<close>

definition zfill :: "nat \<Rightarrow> string \<Rightarrow> string" where
  "zfill k s = replicate (k - length s) (CHR ''0'') @ s"

lemma digit_cases: "n < 10 \<Longrightarrow> n \<in> {0, 1, 2, 3, 4, 5, 6, 7, 8, 9 :: nat}"
  by (simp; arith)

lemma digit_val_char [simp]: "n < 10 \<Longrightarrow> digit_val (digit_char n) = n"
  by (drule digit_cases) (auto simp: digit_char_def digits10_def digit_val_def)

lemma is_digit_char [simp]: "n < 10 \<Longrightarrow> is_digit (digit_char n)"
  by (drule digit_cases) (auto simp: digit_char_def digits10_def is_digit_def)

lemma digit_val_bound [simp]: "digit_val c < 10"
  unfolding digit_val_def Let_def by (cases "(of_char c :: nat) < 58") auto

lemma digit_char_val: "is_digit c \<Longrightarrow> digit_char (digit_val c) = c"
  by (auto simp: digit_char_def digits10_def is_digit_def digit_val_def)

lemma nat_str_nonempty [simp]: "nat_str n \<noteq> []"
  by (subst nat_str.simps) simp

lemma nat_str_digits: "c \<in> set (nat_str n) \<Longrightarrow> is_digit c"
proof (induction n rule: nat_str.induct)
  case (1 n)
  then show ?case by (subst (asm) (2) nat_str.simps) (auto split: if_splits)
qed

lemma str_nat_append_digit: "str_nat (s @ [c]) = 10 * str_nat s + digit_val c"
  by (simp add: str_nat_def)

lemma str_nat_nat_str [simp]: "str_nat (nat_str n) = n"
proof (induction n rule: nat_str.induct)
  case (1 n)
  show ?case
  proof (cases "n < 10")
    case True
    then show ?thesis by (subst nat_str.simps) (simp add: str_nat_def)
  next
    case False
    with 1 have "str_nat (nat_str (n div 10)) = n div 10" by simp
    with False show ?thesis
      by (subst nat_str.simps) (simp add: str_nat_append_digit)
  qed
qed

lemma nat_str_inject [simp]: "nat_str m = nat_str n \<longleftrightarrow> m = n"
  by (metis str_nat_nat_str)

lemma str_nat_append: "str_nat (s @ t) = str_nat s * 10 ^ length t + str_nat t"
proof (induction t rule: rev_induct)
  case Nil
  then show ?case by (simp add: str_nat_def)
next
  case (snoc c t)
  have "str_nat (s @ t @ [c]) = 10 * str_nat (s @ t) + digit_val c"
    by (metis append_assoc str_nat_append_digit)
  with snoc show ?case by (simp add: str_nat_append_digit algebra_simps)
qed

lemma str_nat_bound: "str_nat s < 10 ^ length s"
proof (induction s rule: rev_induct)
  case Nil
  then show ?case by (simp add: str_nat_def)
next
  case (snoc c s)
  have "digit_val c < 10" by simp
  with snoc have "10 * str_nat s + digit_val c < 10 * 10 ^ length s" by linarith
  then show ?case by (simp add: str_nat_append_digit)
qed

lemma str_nat_zeros [simp]: "str_nat (replicate k (CHR ''0'') @ s) = str_nat s"
proof -
  have "str_nat (replicate k (CHR ''0'')) = 0"
    by (induction k) (simp_all add: str_nat_def digit_val_def)
  then show ?thesis by (simp add: str_nat_append)
qed

lemma nat_str_length_pos: "0 < length (nat_str n)"
  by simp

text \<open>A number below \<open>10 ^ k\<close> prints in at most \<open>k\<close> digits, and conversely.\<close>

lemma nat_str_length_le: "0 < k \<Longrightarrow> n < 10 ^ k \<Longrightarrow> length (nat_str n) \<le> k"
proof (induction k arbitrary: n)
  case 0
  then show ?case by simp
next
  case (Suc k)
  show ?case
  proof (cases "n < 10")
    case True
    then show ?thesis by (subst nat_str.simps) simp
  next
    case False
    with Suc.prems have "0 < k" by (cases k) auto
    moreover from Suc.prems have "n div 10 < 10 ^ k"
      by (simp add: less_mult_imp_div_less mult.commute)
    ultimately have "length (nat_str (n div 10)) \<le> k" by (rule Suc.IH)
    with False show ?thesis by (subst nat_str.simps) simp
  qed
qed

lemma nat_str_bound: "n < 10 ^ length (nat_str n)"
  by (metis str_nat_bound str_nat_nat_str)

lemma zfill_length [simp]: "length s \<le> k \<Longrightarrow> length (zfill k s) = k"
  by (simp add: zfill_def)

lemma str_nat_zfill [simp]: "str_nat (zfill k s) = str_nat s"
  by (simp add: zfill_def)

text \<open>
  A digit string of length \<open>k\<close> is the zero-padded print of its value: parsing a fixed
  width field and printing it again gives the field back.
\<close>

lemma zfill_nat_str_unique:
  assumes "\<And>c. c \<in> set s \<Longrightarrow> is_digit c" and "length s = k" and "0 < k"
  shows "zfill k (nat_str (str_nat s)) = s"
  using assms
proof (induction s arbitrary: k rule: rev_induct)
  case Nil
  then show ?case by simp
next
  case (snoc c s)
  have c: "digit_char (digit_val c) = c" using snoc.prems(1) by (auto intro: digit_char_val)
  let ?n = "10 * str_nat s + digit_val c"
  have val: "str_nat (s @ [c]) = ?n" by (rule str_nat_append_digit)
  have dm: "?n div 10 = str_nat s" "?n mod 10 = digit_val c"
    using digit_val_bound [of c] by (simp_all add: div_less mod_less del: digit_val_bound)
  show ?case
  proof (cases "s = []")
    case True
    have "nat_str (digit_val c) = [c]" using c by (subst nat_str.simps) simp
    with True snoc.prems show ?thesis by (simp add: zfill_def str_nat_def)
  next
    case False
    from snoc.IH [of "length s"] snoc.prems False
    have ih: "zfill (length s) (nat_str (str_nat s)) = s" by simp
    show ?thesis
    proof (cases "?n < 10")
      case True
      then have z: "str_nat s = 0" by arith
      have n1: "nat_str ?n = [c]" using c True z by (subst nat_str.simps) simp
      have n0: "nat_str 0 = [CHR ''0'']"
        by (subst nat_str.simps) (simp add: digit_char_def digits10_def)
      have "s = replicate (length s - 1) (CHR ''0'') @ [CHR ''0'']"
        using ih z n0 by (simp add: zfill_def)
      also have "\<dots> = replicate (length s) (CHR ''0'')"
        using False by (metis Suc_diff_1 length_greater_0_conv replicate_Suc replicate_append_same)
      finally have s: "s = replicate (length s) (CHR ''0'')" .
      have k: "k - 1 = length s" using snoc.prems by simp
      have "zfill k (nat_str ?n) = replicate (length s) (CHR ''0'') @ [c]"
        using k by (simp add: zfill_def n1)
      with s val show ?thesis by simp
    next
      case f: False
      have "nat_str ?n = nat_str (str_nat s) @ [c]"
        using f c dm by (subst nat_str.simps) simp
      then have "zfill k (nat_str ?n) = zfill (length s) (nat_str (str_nat s)) @ [c]"
        using snoc.prems(2) by (simp add: zfill_def)
      with ih val show ?thesis by simp
    qed
  qed
qed

end
