(* ===== verification/Py_Decimal.thy ===== *)
theory Py_Decimal
  imports Prelude Complex_Main
begin

text \<open>
  Python's \<open>decimal.Decimal\<close> as the price and quota scripts use it: a finite value is a
  sign, a coefficient and an exponent; the constructor parses a string exactly, arithmetic
  rounds half to even at the default context's 28 digits, and \<open>str\<close> prints the shortest
  of the fixed and the scientific notation. The context's exponent limits
  (\<open>Emax = 999999\<close>) are not modelled. A Python float is represented by the decimal of its
  \<open>repr\<close>, which determines it.
\<close>

section \<open>Values and their order\<close>

datatype dec = Dec (dneg: bool) (dcoef: nat) (dexp: int)

datatype num = Fin dec | Infinite bool | NaN

definition dec_of_int :: "int \<Rightarrow> dec" where
  "dec_of_int i = Dec (i < 0) (nat \<bar>i\<bar>) 0"

text \<open>The signed coefficient of a value written with the exponent \<open>e\<close> (at most its own).\<close>

definition dec_at :: "int \<Rightarrow> dec \<Rightarrow> int" where
  "dec_at e d = (if dneg d then - 1 else 1) * int (dcoef d) * 10 ^ nat (dexp d - e)"

definition dec_val :: "dec \<Rightarrow> rat" where
  "dec_val d = of_int ((if dneg d then - 1 else 1) * int (dcoef d)) * 10 powi dexp d"

definition dec_cmp_exp :: "dec \<Rightarrow> dec \<Rightarrow> int" where
  "dec_cmp_exp a b = min (dexp a) (dexp b)"

definition dec_lt :: "dec \<Rightarrow> dec \<Rightarrow> bool" where
  "dec_lt a b = (dec_at (dec_cmp_exp a b) a < dec_at (dec_cmp_exp a b) b)"

definition dec_le :: "dec \<Rightarrow> dec \<Rightarrow> bool" where
  "dec_le a b = (dec_at (dec_cmp_exp a b) a \<le> dec_at (dec_cmp_exp a b) b)"

definition dec_eq :: "dec \<Rightarrow> dec \<Rightarrow> bool" where
  "dec_eq a b = (dec_at (dec_cmp_exp a b) a = dec_at (dec_cmp_exp a b) b)"

lemma powi_split: "e \<le> f \<Longrightarrow> (10 :: rat) powi f = 10 ^ nat (f - e) * 10 powi e"
proof -
  assume "e \<le> f"
  then have "f = int (nat (f - e)) + e" by simp
  then show ?thesis by (metis power_int_add power_int_of_nat zero_neq_numeral)
qed

lemma dec_val_at: "e \<le> dexp d \<Longrightarrow> dec_val d = of_int (dec_at e d) * 10 powi e"
  by (simp add: dec_val_def dec_at_def powi_split [of e "dexp d"])

lemma powi10_pos [simp]: "(0 :: rat) < 10 powi e"
  by (simp add: zero_less_power_int)

lemma dec_cmp_exp_le [simp]: "dec_cmp_exp a b \<le> dexp a" "dec_cmp_exp a b \<le> dexp b"
  by (simp_all add: dec_cmp_exp_def)

text \<open>Comparison of aligned coefficients is comparison of values.\<close>

lemma dec_lt_val: "dec_lt a b \<longleftrightarrow> dec_val a < dec_val b"
  by (simp add: dec_lt_def dec_val_at [where e = "dec_cmp_exp a b"])

lemma dec_le_val: "dec_le a b \<longleftrightarrow> dec_val a \<le> dec_val b"
  by (simp add: dec_le_def dec_val_at [where e = "dec_cmp_exp a b"])

lemma dec_eq_val: "dec_eq a b \<longleftrightarrow> dec_val a = dec_val b"
  by (simp add: dec_eq_def dec_val_at [where e = "dec_cmp_exp a b"])

lemma dec_val_of_int [simp]: "dec_val (dec_of_int i) = of_int i"
  by (simp add: dec_val_def dec_of_int_def)

text \<open>
  Numerically equal decimals may differ in their exponents (\<open>1.0\<close> and \<open>1.00\<close>), so the
  order on decimals is a preorder.
\<close>

instantiation dec :: preorder
begin

definition less_eq_dec :: "dec \<Rightarrow> dec \<Rightarrow> bool" where
  "less_eq_dec a b = dec_le a b"

definition less_dec :: "dec \<Rightarrow> dec \<Rightarrow> bool" where
  "less_dec a b = dec_lt a b"

instance
  by standard (auto simp: less_eq_dec_def less_dec_def dec_le_val dec_lt_val)

end

lemmas dec_order = less_eq_dec_def less_dec_def dec_le_val dec_lt_val

fun num_eq :: "num \<Rightarrow> num \<Rightarrow> bool" where
  "num_eq (Fin a) (Fin b) = dec_eq a b"
| "num_eq (Infinite s) (Infinite t) = (s = t)"
| "num_eq _ _ = False"

text \<open>\<open>Infinite True\<close> is the negative infinity; every comparison with NaN is false.\<close>

fun num_lt :: "num \<Rightarrow> num \<Rightarrow> bool" where
  "num_lt (Fin a) (Fin b) = dec_lt a b"
| "num_lt (Infinite s) (Fin b) = s"
| "num_lt (Fin a) (Infinite t) = (\<not> t)"
| "num_lt (Infinite s) (Infinite t) = (s \<and> \<not> t)"
| "num_lt _ _ = False"

section \<open>Parsing\<close>

definition to_lower_char :: "char \<Rightarrow> char" where
  "to_lower_char c =
     (let n = of_char c :: nat in if 65 \<le> n \<and> n \<le> 90 then char_of (n + 32) else c)"

definition str_lower :: "string \<Rightarrow> string" where
  "str_lower s = map to_lower_char s"

definition parse_exponent :: "string \<Rightarrow> int option" where
  "parse_exponent s =
     (case s of
        [] \<Rightarrow> Some 0
      | c # r \<Rightarrow>
          if c = CHR ''e'' \<or> c = CHR ''E'' then
            (let neg = (r \<noteq> [] \<and> hd r = CHR ''-'');
                 ds = (if r \<noteq> [] \<and> (hd r = CHR ''-'' \<or> hd r = CHR ''+'') then tl r else r)
             in if ds \<noteq> [] \<and> list_all is_digit ds
                then Some ((if neg then - 1 else 1) * int (str_nat ds)) else None)
          else None)"

definition parse_finite :: "bool \<Rightarrow> string \<Rightarrow> num option" where
  "parse_finite neg s =
     (let ip = takeWhile is_digit s; r = dropWhile is_digit s;
          dot = (r \<noteq> [] \<and> hd r = CHR ''.'');
          fp = (if dot then takeWhile is_digit (tl r) else []);
          q = (if dot then dropWhile is_digit (tl r) else r)
      in if ip = [] \<and> fp = [] then None
         else (case parse_exponent q of
                 None \<Rightarrow> None
               | Some e \<Rightarrow> Some (Fin (Dec neg (str_nat (ip @ fp)) (e - int (length fp))))))"

definition is_nan_text :: "string \<Rightarrow> bool" where
  "is_nan_text s =
     ((starts_with s ''nan'' \<and> list_all is_digit (drop 3 s)) \<or>
      (starts_with s ''snan'' \<and> list_all is_digit (drop 4 s)))"

text \<open>
  The constructor \<open>Decimal(text)\<close>: surrounding white space and underscores are dropped,
  then an optional sign and a number, an infinity or a NaN; \<open>None\<close> is
  \<open>InvalidOperation\<close>.
\<close>

definition dec_parse :: "string \<Rightarrow> num option" where
  "dec_parse text =
     (let t = filter (\<lambda>c. c \<noteq> CHR ''_'') (strip text);
          neg = (t \<noteq> [] \<and> hd t = CHR ''-'');
          s = (if t \<noteq> [] \<and> (hd t = CHR ''-'' \<or> hd t = CHR ''+'') then tl t else t);
          low = str_lower s
      in if low = ''inf'' \<or> low = ''infinity'' then Some (Infinite neg)
         else if is_nan_text low then Some NaN
         else parse_finite neg s)"

section \<open>Printing\<close>

definition dec_point :: "dec \<Rightarrow> int" where
  "dec_point d =
     (let left = dexp d + int (length (nat_str (dcoef d)))
      in if dexp d \<le> 0 \<and> left > - 6 then left else 1)"

definition dec_str :: "dec \<Rightarrow> string" where
  "dec_str d =
     (let ds = nat_str (dcoef d); n = int (length ds); left = dexp d + n; dot = dec_point d;
          body = (if dot \<le> 0 then ''0.'' @ replicate (nat (- dot)) (CHR ''0'') @ ds
                  else if n \<le> dot then ds @ replicate (nat (dot - n)) (CHR ''0'')
                  else take (nat dot) ds @ ''.'' @ drop (nat dot) ds);
          ex = (if left = dot then ''''
                else if left < dot then ''E-'' @ nat_str (nat (dot - left))
                else ''E+'' @ nat_str (nat (left - dot)))
      in (if dneg d then ''-'' else '''') @ body @ ex)"

text \<open>\<open>format(value, 'f')\<close>: fixed notation with all the digits of the value.\<close>

definition dec_text :: "dec \<Rightarrow> string" where
  "dec_text d =
     (let e = (if dcoef d = 0 \<and> 0 < dexp d then 0 else dexp d);
          ds = nat_str (dcoef d); n = int (length ds); dot = e + n;
          body = (if dot < 0 then ''0.'' @ replicate (nat (- dot)) (CHR ''0'') @ ds
                  else if n < dot then ds @ replicate (nat (dot - n)) (CHR ''0'')
                  else (if dot = 0 then ''0'' else take (nat dot) ds) @
                       (if dot = n then '''' else ''.'' @ drop (nat dot) ds))
      in (if dneg d then ''-'' else '''') @ body)"

definition half_even :: "nat \<Rightarrow> nat \<Rightarrow> nat" where
  \<comment> \<open>\<open>c\<close> divided by \<open>10 ^ k\<close>, rounded half to even\<close>
  "half_even c k =
     (let m = 10 ^ k; q = c div m; r = c mod m
      in if 2 * r > m \<or> (2 * r = m \<and> odd q) then Suc q else q)"

text \<open>\<open>format(value, '.kf')\<close>: rounded half to even at \<open>k\<close> places.\<close>

definition dec_fixed :: "nat \<Rightarrow> dec \<Rightarrow> string" where
  "dec_fixed k d =
     (let c = (if - int k \<le> dexp d then dcoef d * 10 ^ nat (dexp d + int k)
               else half_even (dcoef d) (nat (- int k - dexp d)));
          ds = zfill (Suc k) (nat_str c)
      in (if dneg d then ''-'' else '''') @ take (length ds - k) ds @
         (if k = 0 then '''' else ''.'' @ drop (length ds - k) ds))"

section \<open>Arithmetic in the default context\<close>

definition dec_prec :: nat where
  "dec_prec = 28"

definition dec_digits :: "nat \<Rightarrow> nat" where
  "dec_digits c = length (nat_str c)"

definition dec_fix :: "dec \<Rightarrow> dec" where
  "dec_fix d =
     (let k = dec_digits (dcoef d) - dec_prec; q = half_even (dcoef d) k
      in if k = 0 then d
         else if q = 10 ^ dec_prec then Dec (dneg d) (q div 10) (dexp d + int k + 1)
         else Dec (dneg d) q (dexp d + int k))"

definition dec_mul :: "dec \<Rightarrow> dec \<Rightarrow> dec" where
  "dec_mul a b = dec_fix (Dec (dneg a \<noteq> dneg b) (dcoef a * dcoef b) (dexp a + dexp b))"

definition dec_add :: "dec \<Rightarrow> dec \<Rightarrow> dec" where
  "dec_add a b =
     (let e = dec_cmp_exp a b; v = dec_at e a + dec_at e b
      in dec_fix (Dec (v < 0) (nat \<bar>v\<bar>) e))"

definition dec_neg :: "dec \<Rightarrow> dec" where
  "dec_neg d = Dec (\<not> dneg d) (dcoef d) (dexp d)"

definition dec_sub :: "dec \<Rightarrow> dec \<Rightarrow> dec" where
  "dec_sub a b = dec_add a (dec_neg b)"

definition dec_abs :: "dec \<Rightarrow> dec" where
  "dec_abs d = dec_fix (Dec False (dcoef d) (dexp d))"

text \<open>An exact quotient moves towards the ideal exponent, dropping trailing zeros.\<close>

fun dec_strip_zeros :: "nat \<Rightarrow> nat \<Rightarrow> int \<Rightarrow> nat \<times> int" where
  "dec_strip_zeros 0 c e = (c, e)"
| "dec_strip_zeros (Suc n) c e =
     (if c mod 10 = 0 then dec_strip_zeros n (c div 10) (e + 1) else (c, e))"

definition dec_div :: "dec \<Rightarrow> dec \<Rightarrow> dec option" where
  "dec_div a b =
     (if dcoef b = 0 then None
      else if dcoef a = 0 then Some (dec_fix (Dec (dneg a \<noteq> dneg b) 0 (dexp a - dexp b)))
      else
        (let shift = int (dec_digits (dcoef b)) - int (dec_digits (dcoef a)) + int dec_prec + 1;
             e = dexp a - dexp b - shift;
             n = dcoef a * 10 ^ nat shift; m = dcoef b * 10 ^ nat (- shift);
             q = n div m; r = n mod m
         in if r \<noteq> 0 then
              Some (dec_fix (Dec (dneg a \<noteq> dneg b) (if q mod 5 = 0 then q + 1 else q) e))
            else
              (let (c, e') = dec_strip_zeros (nat (dexp a - dexp b - e)) q e
               in Some (dec_fix (Dec (dneg a \<noteq> dneg b) c e')))))"

section \<open>Printing and parsing are inverse\<close>

lemma takeWhile_digits:
  assumes "\<And>c. c \<in> set ds \<Longrightarrow> is_digit c" and "r = [] \<or> \<not> is_digit (hd r)"
  shows "takeWhile is_digit (ds @ r) = ds" and "dropWhile is_digit (ds @ r) = r"
  using assms by (induction ds) (cases r; auto)+

lemma not_is_digit [simp]:
  "\<not> is_digit (CHR ''.'')" "\<not> is_digit (CHR ''E'')" "\<not> is_digit (CHR ''-'')"
  "\<not> is_digit (CHR ''+'')" "\<not> is_digit (CHR ''e'')" "\<not> is_digit (CHR ''_'')"
  by (simp_all add: is_digit_def digits10_def)

lemma is_digit_zero [simp]: "is_digit (CHR ''0'')"
  by (simp add: is_digit_def digits10_def)

lemma digit_not_space: "is_digit c \<Longrightarrow> \<not> is_space c"
  by (auto simp: is_digit_def digits10_def is_space_def)

lemma strip_no_space: "(\<And>c. c \<in> set s \<Longrightarrow> \<not> is_space c) \<Longrightarrow> strip s = s"
proof -
  assume ns: "\<And>c. c \<in> set s \<Longrightarrow> \<not> is_space c"
  have "dropWhile is_space t = t" if "\<And>c. c \<in> set t \<Longrightarrow> \<not> is_space c" for t
    using that by (cases t) auto
  note dw = this
  have 1: "dropWhile is_space s = s" by (rule dw) (rule ns)
  have 2: "dropWhile is_space (rev s) = rev s" by (rule dw) (simp add: ns)
  show ?thesis by (simp add: strip_def 1 2)
qed

text \<open>
  A body \<open>ip.fp\<close> followed by an exponent part parses to the digits \<open>ip fp\<close> with the
  exponent lowered by the number of fractional digits.
\<close>

lemma parse_finite_parts:
  assumes ip: "\<And>c. c \<in> set ip \<Longrightarrow> is_digit c" "ip \<noteq> []"
    and fp: "\<And>c. c \<in> set fp \<Longrightarrow> is_digit c"
    and ex: "ex = [] \<or> hd ex = CHR ''E''" "parse_exponent ex = Some x"
    and s: "s = ip @ (if fp = [] then [] else CHR ''.'' # fp) @ ex"
  shows "parse_finite neg s = Some (Fin (Dec neg (str_nat (ip @ fp)) (x - int (length fp))))"
proof (cases "fp = []")
  case True
  have "takeWhile is_digit s = ip" and "dropWhile is_digit s = ex"
    using takeWhile_digits [OF ip(1), of ip ex] ex(1) True s by auto
  with True ip(2) ex show ?thesis by (auto simp: parse_finite_def Let_def)
next
  case False
  have "takeWhile is_digit s = ip" and "dropWhile is_digit s = CHR ''.'' # fp @ ex"
    using takeWhile_digits [OF ip(1), of ip "CHR ''.'' # fp @ ex"] False s by auto
  moreover have "takeWhile is_digit (fp @ ex) = fp" and "dropWhile is_digit (fp @ ex) = ex"
    using takeWhile_digits [OF fp, of fp ex] ex(1) by auto
  ultimately show ?thesis using ip(2) ex by (simp add: parse_finite_def Let_def)
qed

lemma parse_exponent_signed:
  "parse_exponent (CHR ''E'' # CHR ''-'' # nat_str k) = Some (- int k)"
  "parse_exponent (CHR ''E'' # CHR ''+'' # nat_str k) = Some (int k)"
  by (auto simp: parse_exponent_def list_all_iff Let_def dest: nat_str_digits)

lemma parse_exponent_Nil [simp]: "parse_exponent [] = Some 0"
  by (simp add: parse_exponent_def)

lemma dec_point_le: "dec_point d \<le> int (length (nat_str (dcoef d)))"
  using nat_str_length_pos [of "dcoef d"] by (auto simp: dec_point_def Let_def Suc_le_eq)

text \<open>The three parts of a printed value.\<close>

lemma dec_str_parts:
  obtains ip fp ex where
    "dec_str d = (if dneg d then ''-'' else '''') @ ip @ (if fp = [] then [] else CHR ''.'' # fp) @ ex"
    and "\<And>c. c \<in> set ip \<Longrightarrow> is_digit c" and "ip \<noteq> []"
    and "\<And>c. c \<in> set fp \<Longrightarrow> is_digit c" and "str_nat (ip @ fp) = dcoef d"
    and "ex = [] \<or> hd ex = CHR ''E''"
    and "parse_exponent ex = Some (dexp d + int (length fp))"
    and "ex = [] \<longleftrightarrow> dexp d + int (length (nat_str (dcoef d))) = dec_point d"
    and "\<And>c. c \<in> set ex \<Longrightarrow> is_digit c \<or> c \<in> {CHR ''E'', CHR ''+'', CHR ''-''}"
proof -
  let ?ds = "nat_str (dcoef d)" and ?dot = "dec_point d"
  let ?n = "int (length ?ds)"
  let ?left = "dexp d + ?n"
  let ?ex = "if ?left = ?dot then ''''
             else if ?left < ?dot then ''E-'' @ nat_str (nat (?dot - ?left))
             else ''E+'' @ nat_str (nat (?left - ?dot))"
  let ?ip = "if ?dot \<le> 0 then ''0'' else take (nat ?dot) ?ds"
  let ?fp = "if ?dot \<le> 0 then replicate (nat (- ?dot)) (CHR ''0'') @ ?ds
             else drop (nat ?dot) ?ds"
  have le: "?dot \<le> ?n" by (rule dec_point_le)
  have len: "int (length ?fp) = ?n - ?dot" using le by auto
  have eq: "dec_str d =
      (if dneg d then ''-'' else '''') @ ?ip @ (if ?fp = [] then [] else CHR ''.'' # ?fp) @ ?ex"
    using le by (auto simp: dec_str_def Let_def)
  have ipd: "is_digit c" if "c \<in> set ?ip" for c
    using that nat_str_digits [of c "dcoef d"] by (auto split: if_splits dest: in_set_takeD)
  have fpd: "is_digit c" if "c \<in> set ?fp" for c
    using that nat_str_digits [of c "dcoef d"]
    by (auto split: if_splits dest: in_set_dropD)
  have val: "str_nat (?ip @ ?fp) = dcoef d"
  proof (cases "?dot \<le> 0")
    case True
    have "str_nat ((CHR ''0'' # replicate (nat (- ?dot)) (CHR ''0'')) @ ?ds) = dcoef d"
      using str_nat_zeros [of "Suc (nat (- ?dot))" ?ds] by simp
    with True show ?thesis by simp
  next
    case False
    then show ?thesis by simp
  qed
  have exv: "parse_exponent ?ex = Some (?left - ?dot)"
    by (auto simp: parse_exponent_signed)
  have lf: "?left - ?dot = dexp d + int (length ?fp)" using len by simp
  have exs: "is_digit c \<or> c \<in> {CHR ''E'', CHR ''+'', CHR ''-''}" if "c \<in> set ?ex" for c
    using that by (auto split: if_splits dest: nat_str_digits)
  show ?thesis
  proof (rule that [of ?ip ?fp ?ex, OF eq ipd _ fpd val])
    show "?ip \<noteq> []" by auto
    show "?ex = [] \<or> hd ?ex = CHR ''E''" by auto
    show "parse_exponent ?ex = Some (dexp d + int (length ?fp))" using exv lf by simp
    show "?ex = [] \<longleftrightarrow> ?left = ?dot" by simp
    show "\<And>c. c \<in> set ?ex \<Longrightarrow> is_digit c \<or> c \<in> {CHR ''E'', CHR ''+'', CHR ''-''}"
      by (rule exs)
  qed
qed

lemma digit_no_lower_n: "is_digit c \<Longrightarrow> to_lower_char c = c \<and> c \<noteq> CHR ''i'' \<and> c \<noteq> CHR ''n'' \<and> c \<noteq> CHR ''s''"
  by (auto simp: is_digit_def digits10_def to_lower_char_def)

lemma dec_parse_finite:
  assumes "ip \<noteq> []" and "is_digit (hd ip)"
    and t: "t = (if neg then ''-'' else '''') @ ip"
    and chars: "\<And>c. c \<in> set ip \<Longrightarrow> \<not> is_space c \<and> c \<noteq> CHR ''_''"
  shows "dec_parse t = parse_finite neg ip"
proof -
  obtain c r where ip: "ip = c # r" using assms(1) by (cases ip) auto
  with assms(2) have c: "is_digit c" by simp
  have "\<not> is_space (CHR ''-'')" by (simp add: is_space_def)
  with chars t have "strip t = t" by (intro strip_no_space) (auto split: if_splits)
  moreover have "filter (\<lambda>c. c \<noteq> CHR ''_'') t = t"
    using chars t by (auto simp: filter_id_conv)
  moreover have "c \<noteq> CHR ''-''" "c \<noteq> CHR ''+''" using c by auto
  moreover have low: "str_lower ip = c # str_lower r"
    using digit_no_lower_n [OF c] ip by (simp add: str_lower_def)
  moreover have "str_lower ip \<noteq> ''inf''" "str_lower ip \<noteq> ''infinity''"
    "\<not> is_nan_text (str_lower ip)"
    using digit_no_lower_n [OF c] low by (auto simp: is_nan_text_def starts_with_def)
  ultimately show ?thesis using t ip by (auto simp: dec_parse_def Let_def)
qed

text \<open>\<open>Decimal(str(d)) = d\<close>, sign and trailing zeros included.\<close>

lemma dec_parse_str: "dec_parse (dec_str d) = Some (Fin d)"
proof -
  obtain ip fp ex where
    eq: "dec_str d = (if dneg d then ''-'' else '''') @ ip @ (if fp = [] then [] else CHR ''.'' # fp) @ ex"
    and ip: "\<And>c. c \<in> set ip \<Longrightarrow> is_digit c" "ip \<noteq> []"
    and fp: "\<And>c. c \<in> set fp \<Longrightarrow> is_digit c" and v: "str_nat (ip @ fp) = dcoef d"
    and ex: "ex = [] \<or> hd ex = CHR ''E''" "parse_exponent ex = Some (dexp d + int (length fp))"
    and exn: "ex = [] \<longleftrightarrow> dexp d + int (length (nat_str (dcoef d))) = dec_point d"
    and exc: "\<And>c. c \<in> set ex \<Longrightarrow> is_digit c \<or> c \<in> {CHR ''E'', CHR ''+'', CHR ''-''}"
    by (rule dec_str_parts [of d]) (rule that; assumption)
  let ?body = "ip @ (if fp = [] then [] else CHR ''.'' # fp) @ ex"
  have ns: "\<not> is_space (CHR ''.'')" "\<not> is_space (CHR ''E'')" "\<not> is_space (CHR ''-'')"
    "\<not> is_space (CHR ''+'')" by (simp_all add: is_space_def)
  have "\<not> is_space c \<and> c \<noteq> CHR ''_''" if "c \<in> set ?body" for c
    using that ip(1) [of c] fp [of c] exc [of c] ns digit_not_space [of c]
    by (auto split: if_splits)
  moreover have "is_digit (hd ?body)" using ip by (cases ip) auto
  ultimately have "dec_parse (dec_str d) = parse_finite (dneg d) ?body"
    using eq ip(2) by (intro dec_parse_finite) auto
  also have "\<dots> = Some (Fin (Dec (dneg d) (str_nat (ip @ fp))
      (dexp d + int (length fp) - int (length fp))))"
    by (rule parse_finite_parts [OF ip fp ex]) simp_all
  finally show ?thesis using v by simp
qed

lemma dec_str_inject [simp]: "dec_str a = dec_str b \<longleftrightarrow> a = b"
  by (metis dec_parse_str num.inject(1) option.inject)

section \<open>Rounding\<close>

lemma half_even_0 [simp]: "half_even c 0 = c"
  by (simp add: half_even_def)

lemma half_even_error: "2 * \<bar>int (half_even c k) * 10 ^ k - int c\<bar> \<le> 10 ^ k"
proof -
  let ?m = "10 ^ k :: nat"
  define q r where "q = c div ?m" and "r = c mod ?m"
  have c: "int c = int q * 10 ^ k + int r"
  proof -
    have "c = q * 10 ^ k + r" by (simp only: q_def r_def div_mult_mod_eq)
    then have "int c = int (q * 10 ^ k + r)" by simp
    then show ?thesis by simp
  qed
  have r: "r < ?m" by (simp add: r_def)
  then have "int r < int ?m" by (simp only: of_nat_less_iff)
  then have ri: "int r < 10 ^ k" by simp
  have h: "half_even c k = (if 2 * r > ?m \<or> (2 * r = ?m \<and> odd q) then Suc q else q)"
    by (simp add: half_even_def q_def r_def Let_def)
  show ?thesis
  proof (cases "2 * r > ?m \<or> (2 * r = ?m \<and> odd q)")
    case True
    then have "?m \<le> 2 * r" by auto
    then have "int ?m \<le> int (2 * r)" by (simp only: of_nat_le_iff)
    then have "10 ^ k \<le> 2 * int r" by simp
    with True h c ri show ?thesis by (simp add: algebra_simps)
  next
    case False
    then have "2 * r \<le> ?m" by auto
    then have "int (2 * r) \<le> int ?m" by (simp only: of_nat_le_iff)
    then have "2 * int r \<le> 10 ^ k" by simp
    moreover from False h have "half_even c k = q" by auto
    ultimately show ?thesis using c by simp
  qed
qed

lemma half_even_mono: "c \<le> d \<Longrightarrow> half_even c k \<le> half_even d k"
proof -
  assume le: "c \<le> d"
  let ?m = "10 ^ k :: nat"
  have q: "c div ?m \<le> d div ?m" using le by (rule div_le_mono)
  show ?thesis
  proof (cases "c div ?m = d div ?m")
    case True
    have "c mod ?m \<le> d mod ?m" using le True
      by (metis add_le_cancel_left div_mult_mod_eq)
    with True show ?thesis by (auto simp: half_even_def Let_def)
  next
    case False
    with q have "Suc (c div ?m) \<le> d div ?m" by simp
    then show ?thesis by (auto simp: half_even_def Let_def)
  qed
qed

text \<open>Results that fit the context's 28 digits are exact.\<close>

lemma dec_fix_exact: "dcoef d < 10 ^ dec_prec \<Longrightarrow> dec_fix d = d"
proof -
  assume "dcoef d < 10 ^ dec_prec"
  then have "dec_digits (dcoef d) \<le> dec_prec"
    unfolding dec_digits_def by (intro nat_str_length_le) (simp_all add: dec_prec_def)
  then show ?thesis by (simp add: dec_fix_def Let_def)
qed

lemma dec_mul_exact:
  assumes "dcoef a * dcoef b < 10 ^ dec_prec"
  shows "dec_val (dec_mul a b) = dec_val a * dec_val b"
proof -
  have "dec_mul a b = Dec (dneg a \<noteq> dneg b) (dcoef a * dcoef b) (dexp a + dexp b)"
    using assms by (simp add: dec_mul_def dec_fix_exact)
  then show ?thesis by (simp add: dec_val_def power_int_add)
qed

lemma dec_add_exact:
  assumes "\<bar>dec_at (dec_cmp_exp a b) a + dec_at (dec_cmp_exp a b) b\<bar> < 10 ^ dec_prec"
  shows "dec_val (dec_add a b) = dec_val a + dec_val b"
proof -
  let ?e = "dec_cmp_exp a b"
  let ?v = "dec_at ?e a + dec_at ?e b"
  have "nat \<bar>?v\<bar> < 10 ^ dec_prec"
    using assms by (simp add: nat_less_iff)
  then have "dec_add a b = Dec (?v < 0) (nat \<bar>?v\<bar>) ?e"
    by (simp add: dec_add_def Let_def dec_fix_exact)
  then have "dec_val (dec_add a b) = of_int ?v * 10 powi ?e"
    by (auto simp: dec_val_def)
  also have "\<dots> = dec_val a + dec_val b"
    by (simp add: dec_val_at [of ?e a] dec_val_at [of ?e b] algebra_simps)
  finally show ?thesis .
qed

text \<open>Evaluation of the operations on numerals that need no rounding.\<close>

lemma dec_digits_step: "dec_digits c = (if c < 10 then 1 else Suc (dec_digits (c div 10)))"
  unfolding dec_digits_def by (subst nat_str.simps) simp

lemma dec_fix_small: "c < 10000000000000000000000000000 \<Longrightarrow> dec_fix (Dec s c e) = Dec s c e"
  by (rule dec_fix_exact) (simp add: dec_prec_def)

lemma dec_strip_zeros_numeral:
  "dec_strip_zeros (numeral k) c e =
     (if c mod 10 = 0 then dec_strip_zeros (pred_numeral k) (c div 10) (e + 1) else (c, e))"
  by (subst numeral_eq_Suc) (rule dec_strip_zeros.simps(2))

lemmas dec_eval = dec_div_def dec_mul_def dec_add_def dec_fix_small dec_at_def dec_cmp_exp_def
  dec_prec_def dec_digits_step dec_strip_zeros_numeral Let_def

end
