(* ===== verification/Py_Value.thy ===== *)
theory Py_Value
  imports Py_Decimal
begin

text \<open>
  The dynamically typed values the scripts read with \<open>json.loads\<close>, and the Python
  operations on them that can raise: \<open>==\<close> (under which \<open>True\<close>, \<open>1\<close> and
  \<open>1.0\<close> are equal), truth, \<open>.get\<close>, indexing, iteration, \<open>in\<close>, \<open><\<close>
  and \<open>sorted\<close>. A dict is the list of its items in insertion order, with distinct keys
  (\<open>wf_json\<close>). A raised exception is an error class with its message template and the
  values the f-string inserts, or one of Python's own exceptions.
\<close>

section \<open>Values and exceptions\<close>

datatype json =
    JNull
  | JBool bool
  | JInt int
  | JFloat num
  | JStr string
  | JArr "json list"
  | JObj "(string \<times> json) list"

type_synonym obj = "(string \<times> json) list"

datatype py_exc =
  AttributeError | TypeError | KeyError | IndexError | ValueError | OSError | OverflowError | RecursionError

datatype err_class =
    StageError | EvidenceError | AccountError | InventoryError | PreflightError
  | CaptureError | ObservationPending | RehearsalError | DemoError | VerificationError

datatype exn =
    Err err_class string "json list"
  | SystemExit string "json list"
  | Py py_exc

type_synonym 'a res = "exn + 'a"

datatype msg = Msg string "json list"

abbreviation raise :: "err_class \<Rightarrow> string \<Rightarrow> json list \<Rightarrow> 'a res" where
  "raise c t args \<equiv> Inl (Err c t args)"

abbreviation py_raise :: "py_exc \<Rightarrow> 'a res" where
  "py_raise e \<equiv> Inl (Py e)"

text \<open>\<open>try: m except E as error: raise C(text) from error\<close> for one of Python's exceptions.\<close>

definition reraise :: "py_exc list \<Rightarrow> exn \<Rightarrow> 'a res \<Rightarrow> 'a res" where
  "reraise caught e m =
     (case m of Inl (Py x) \<Rightarrow> if x \<in> set caught then Inl e else Inl (Py x) | _ \<Rightarrow> m)"

lemma reraise_Inr [simp]: "reraise c e (Inr x) = Inr x"
  by (simp add: reraise_def)

lemma reraise_eq_Inr [res_simps]: "reraise c e m = Inr x \<longleftrightarrow> m = Inr x"
  by (auto simp: reraise_def split: sum.splits exn.splits)

section \<open>Types, truth and numbers\<close>

fun is_dict :: "json \<Rightarrow> bool" where
  "is_dict (JObj _) = True"
| "is_dict _ = False"

fun is_list :: "json \<Rightarrow> bool" where
  "is_list (JArr _) = True"
| "is_list _ = False"

fun is_str :: "json \<Rightarrow> bool" where
  "is_str (JStr _) = True"
| "is_str _ = False"

text \<open>\<open>type(v) is int\<close>; \<open>isinstance(v, int)\<close> also accepts a bool.\<close>

fun is_int :: "json \<Rightarrow> bool" where
  "is_int (JInt _) = True"
| "is_int _ = False"

fun is_bool :: "json \<Rightarrow> bool" where
  "is_bool (JBool _) = True"
| "is_bool _ = False"

fun num_of :: "json \<Rightarrow> num option" where
  "num_of (JBool b) = Some (Fin (dec_of_int (of_bool b)))"
| "num_of (JInt i) = Some (Fin (dec_of_int i))"
| "num_of (JFloat n) = Some n"
| "num_of _ = None"

fun truthy :: "json \<Rightarrow> bool" where
  "truthy JNull = False"
| "truthy (JBool b) = b"
| "truthy (JInt i) = (i \<noteq> 0)"
| "truthy (JFloat n) = (case n of Fin d \<Rightarrow> dcoef d \<noteq> 0 | _ \<Rightarrow> True)"
| "truthy (JStr s) = (s \<noteq> [])"
| "truthy (JArr xs) = (xs \<noteq> [])"
| "truthy (JObj ps) = (ps \<noteq> [])"

definition py_or :: "json \<Rightarrow> json \<Rightarrow> json" where
  "py_or v d = (if truthy v then v else d)"

fun str_of :: "json \<Rightarrow> string" where
  "str_of (JStr s) = s"
| "str_of _ = []"

fun items_of :: "json \<Rightarrow> json list" where
  "items_of (JArr xs) = xs"
| "items_of _ = []"

fun obj_of :: "json \<Rightarrow> obj" where
  "obj_of (JObj ps) = ps"
| "obj_of _ = []"

fun int_of :: "json \<Rightarrow> int" where
  "int_of (JInt i) = i"
| "int_of (JBool b) = of_bool b"
| "int_of _ = 0"

lemma is_dict_iff: "is_dict v \<longleftrightarrow> (\<exists>ps. v = JObj ps)"
  by (cases v) auto

lemma is_list_iff: "is_list v \<longleftrightarrow> (\<exists>xs. v = JArr xs)"
  by (cases v) auto

lemma is_str_iff: "is_str v \<longleftrightarrow> (\<exists>s. v = JStr s)"
  by (cases v) auto

lemma is_int_iff: "is_int v \<longleftrightarrow> (\<exists>i. v = JInt i)"
  by (cases v) auto

lemma is_bool_iff: "is_bool v \<longleftrightarrow> (\<exists>b. v = JBool b)"
  by (cases v) auto

lemmas type_iffs = is_dict_iff is_list_iff is_str_iff is_int_iff is_bool_iff

text \<open>Dicts have distinct keys, at every depth.\<close>

fun wf_json :: "json \<Rightarrow> bool" where
  "wf_json (JArr xs) = (\<forall>x \<in> set xs. wf_json x)"
| "wf_json (JObj ps) = (distinct (map fst ps) \<and> (\<forall>p \<in> set ps. wf_json (snd p)))"
| "wf_json _ = True"

lemma size_obj_value: "p \<in> set ps \<Longrightarrow> size (snd p) < Suc (size_list (size_prod (\<lambda>x. 0) size) ps)"
  by (induction ps) (auto simp: size_prod_def split: prod.splits)

lemma size_arr_item: "x \<in> set xs \<Longrightarrow> size x < Suc (size_list size xs)"
  by (induction xs) auto

section \<open>Text of values\<close>

definition hex_digit :: "nat \<Rightarrow> char" where
  "hex_digit n = hex16 ! n"

definition repr_char :: "char \<Rightarrow> char \<Rightarrow> string" where
  "repr_char q c =
     (let n = of_char c :: nat
      in if c = q \<or> c = CHR 0x5C then [CHR 0x5C, c]
         else if n = 9 then [CHR 0x5C, CHR ''t'']
         else if n = 10 then [CHR 0x5C, CHR ''n'']
         else if n = 13 then [CHR 0x5C, CHR ''r'']
         else if n < 32 \<or> (127 \<le> n \<and> n \<le> 160) \<or> n = 173
           then [CHR 0x5C, CHR ''x'', hex_digit (n div 16), hex_digit (n mod 16)]
         else [c])"

definition repr_str :: "string \<Rightarrow> string" where
  "repr_str s =
     (let q = (if CHR 0x27 \<in> set s \<and> CHR 0x22 \<notin> set s then CHR 0x22 else CHR 0x27)
      in [q] @ concat (map (repr_char q) s) @ [q])"

definition repr_float :: "num \<Rightarrow> string" where
  "repr_float n =
     (case n of
        NaN \<Rightarrow> ''nan''
      | Infinite neg \<Rightarrow> if neg then ''-inf'' else ''inf''
      | Fin d \<Rightarrow>
          (let ds = nat_str (dcoef d); adj = dexp d + int (length ds) - 1
           in if dcoef d = 0 \<or> (- 4 \<le> adj \<and> adj < 16) then dec_text d
              else (if dneg d then ''-'' else '''') @ take 1 ds @
                (if length ds = 1 then '''' else ''.'' @ drop 1 ds) @
                (if adj < 0 then ''e-'' else ''e+'') @ zfill 2 (nat_str (nat \<bar>adj\<bar>))))"

definition comma_list :: "string list \<Rightarrow> string" where
  "comma_list ss =
     (case ss of [] \<Rightarrow> '''' | t # ts \<Rightarrow> t @ concat (map (\<lambda>u. '', '' @ u) ts))"

fun py_repr :: "json \<Rightarrow> string" where
  "py_repr JNull = ''None''"
| "py_repr (JBool b) = (if b then ''True'' else ''False'')"
| "py_repr (JInt i) = int_str i"
| "py_repr (JFloat n) = repr_float n"
| "py_repr (JStr s) = repr_str s"
| "py_repr (JArr xs) = ''['' @ comma_list (map py_repr xs) @ '']''"
| "py_repr (JObj ps) =
     ''{'' @ comma_list (map (\<lambda>p. repr_str (fst p) @ '': '' @ py_repr (snd p)) ps) @ ''}''"

definition py_str :: "json \<Rightarrow> string" where
  "py_str v = (case v of JStr s \<Rightarrow> s | _ \<Rightarrow> py_repr v)"

lemma py_str_str [simp]: "py_str (JStr s) = s"
  by (simp add: py_str_def)

section \<open>Equality\<close>

function py_eq :: "json \<Rightarrow> json \<Rightarrow> bool" where
  "py_eq v w =
     (case (num_of v, num_of w) of
        (Some a, Some b) \<Rightarrow> num_eq a b
      | _ \<Rightarrow>
        (case v of
           JArr xs \<Rightarrow> (case w of JArr ys \<Rightarrow> list_all2 py_eq xs ys | _ \<Rightarrow> False)
         | JObj ps \<Rightarrow>
             (case w of
                JObj qs \<Rightarrow> length ps = length qs \<and>
                  (\<forall>p \<in> set ps. case map_of qs (fst p) of
                                  None \<Rightarrow> False | Some y \<Rightarrow> py_eq (snd p) y)
              | _ \<Rightarrow> False)
         | JStr s \<Rightarrow> (case w of JStr t \<Rightarrow> s = t | _ \<Rightarrow> False)
         | JNull \<Rightarrow> w = JNull
         | _ \<Rightarrow> False))"
  by pat_completeness auto

termination
  by (relation "measure (\<lambda>(v, w). size v)") (auto dest: size_obj_value size_arr_item)

declare py_eq.simps [simp del]

lemma py_eq_str [simp]: "py_eq v (JStr s) \<longleftrightarrow> v = JStr s" "py_eq (JStr s) v \<longleftrightarrow> v = JStr s"
  by (cases v; subst py_eq.simps; auto)+

lemma py_eq_null [simp]: "py_eq v JNull \<longleftrightarrow> v = JNull" "py_eq JNull v \<longleftrightarrow> v = JNull"
  by (cases v; subst py_eq.simps; auto)+

lemma dec_eq_int [simp]: "dec_eq (dec_of_int i) (dec_of_int j) \<longleftrightarrow> i = j"
  by (simp add: dec_eq_val)

lemma py_eq_ints [simp]:
  "py_eq (JInt i) (JInt j) \<longleftrightarrow> i = j"
  "py_eq (JBool b) (JInt j) \<longleftrightarrow> of_bool b = j"
  "py_eq (JInt i) (JBool c) \<longleftrightarrow> i = of_bool c"
  "py_eq (JBool b) (JBool c) \<longleftrightarrow> b = c"
  by (subst py_eq.simps; auto)+

lemma py_eq_float [simp]:
  "py_eq (JFloat n) (JInt j) \<longleftrightarrow> num_eq n (Fin (dec_of_int j))"
  "py_eq (JFloat n) (JFloat m) \<longleftrightarrow> num_eq n m"
  by (subst py_eq.simps; simp)+

lemma py_eq_int_other [simp]:
  "\<not> py_eq (JArr xs) (JInt j)" "\<not> py_eq (JObj ps) (JInt j)"
  by (subst py_eq.simps; simp)+

lemma py_eq_arr [simp]: "py_eq (JArr xs) (JArr ys) \<longleftrightarrow> list_all2 py_eq xs ys"
  by (subst py_eq.simps) simp

lemma py_eq_arr_right: "py_eq v (JArr ys) \<longleftrightarrow> (\<exists>xs. v = JArr xs \<and> list_all2 py_eq xs ys)"
  by (cases v; subst py_eq.simps; auto)

lemma py_eq_arr_nil [simp]: "py_eq v (JArr []) \<longleftrightarrow> v = JArr []"
  by (auto simp: py_eq_arr_right)

lemma py_eq_obj [simp]:
  "py_eq (JObj ps) (JObj qs) \<longleftrightarrow> length ps = length qs \<and>
     (\<forall>p \<in> set ps. case map_of qs (fst p) of None \<Rightarrow> False | Some y \<Rightarrow> py_eq (snd p) y)"
  by (subst py_eq.simps) simp

lemma py_eq_obj_right: "py_eq v (JObj qs) \<Longrightarrow> \<exists>ps. v = JObj ps"
  by (cases v) (auto simp: py_eq.simps [of _ "JObj qs"])

text \<open>An integer compares equal to an int exactly when it is that int, as a bool or a float it
  may also.\<close>

lemma py_eq_int_iff: "is_int v \<Longrightarrow> py_eq v (JInt j) \<longleftrightarrow> v = JInt j"
  by (cases v) auto

section \<open>Dict access\<close>

definition has_key :: "json \<Rightarrow> string \<Rightarrow> bool" where
  "has_key v k = (map_of (obj_of v) k \<noteq> None)"

text \<open>\<open>v.get(k)\<close> where \<open>v\<close> is known to be a dict.\<close>

definition jget :: "json \<Rightarrow> string \<Rightarrow> json" where
  "jget v k = (case map_of (obj_of v) k of None \<Rightarrow> JNull | Some x \<Rightarrow> x)"

definition jget_or :: "json \<Rightarrow> string \<Rightarrow> json \<Rightarrow> json" where
  "jget_or v k d = (case map_of (obj_of v) k of None \<Rightarrow> d | Some x \<Rightarrow> x)"

text \<open>\<open>v.get(k, d)\<close> where \<open>v\<close> may be anything.\<close>

definition py_get :: "json \<Rightarrow> string \<Rightarrow> json \<Rightarrow> json res" where
  "py_get v k d = (if is_dict v then Inr (jget_or v k d) else py_raise AttributeError)"

text \<open>\<open>v[k]\<close> with a string key.\<close>

definition py_index :: "json \<Rightarrow> string \<Rightarrow> json res" where
  "py_index v k =
     (case v of
        JObj ps \<Rightarrow> (case map_of ps k of None \<Rightarrow> py_raise KeyError | Some x \<Rightarrow> Inr x)
      | _ \<Rightarrow> py_raise TypeError)"

definition jset :: "json \<Rightarrow> string \<Rightarrow> json \<Rightarrow> json" where
  "jset v k x = JObj (al_set (obj_of v) k x)"

text \<open>The set of keys, as the scripts compare it with \<open>set(v) == {...}\<close>.\<close>

definition keys_eq :: "json \<Rightarrow> string list \<Rightarrow> bool" where
  "keys_eq v ks = (set (map fst (obj_of v)) = set ks)"

lemma jget_obj: "jget (JObj ps) k = (case map_of ps k of None \<Rightarrow> JNull | Some x \<Rightarrow> x)"
  by (simp add: jget_def)

lemma jget_Cons [simp]:
  "jget (JObj ((k, v) # ps)) k' = (if k' = k then v else jget (JObj ps) k')"
  by (simp add: jget_def)

lemma jget_Nil [simp]: "jget (JObj []) k = JNull"
  by (simp add: jget_def)

lemma jget_not_dict: "\<not> is_dict v \<Longrightarrow> jget v k = JNull"
  by (cases v) (simp_all add: jget_def)

lemma jget_or_obj [simp]:
  "jget_or (JObj ((k, v) # ps)) k' d = (if k' = k then v else jget_or (JObj ps) k' d)"
  "jget_or (JObj []) k' d = d"
  by (simp_all add: jget_or_def)

lemma has_key_obj [simp]:
  "has_key (JObj ((k, v) # ps)) k' \<longleftrightarrow> k' = k \<or> has_key (JObj ps) k'"
  "\<not> has_key (JObj []) k'"
  by (auto simp: has_key_def)

lemma jget_or_jget: "jget_or v k d = (if has_key v k then jget v k else d)"
  by (auto simp: jget_or_def has_key_def jget_def split: option.splits)

lemma py_get_obj [simp]: "py_get (JObj ps) k d = Inr (jget_or (JObj ps) k d)"
  by (simp add: py_get_def)

lemma py_get_eq_Inr [res_simps]: "py_get v k d = Inr x \<longleftrightarrow> is_dict v \<and> x = jget_or v k d"
  by (auto simp: py_get_def)

lemma py_index_eq_Inr [res_simps]:
  "py_index v k = Inr x \<longleftrightarrow> is_dict v \<and> has_key v k \<and> x = jget v k"
  by (cases v) (auto simp: py_index_def has_key_def jget_def split: option.splits)

lemma py_index_obj [simp]:
  "py_index (JObj ((k, v) # ps)) k' = (if k' = k then Inr v else py_index (JObj ps) k')"
  "py_index (JObj []) k' = py_raise KeyError"
  by (simp_all add: py_index_def)

lemma jget_jset [simp]: "jget (jset v k x) k' = (if k' = k then x else jget v k')"
  by (simp add: jget_def jset_def)

lemma has_key_jset [simp]: "has_key (jset v k x) k' \<longleftrightarrow> k' = k \<or> has_key v k'"
  by (auto simp: has_key_def jset_def)

lemma is_dict_jset [simp]: "is_dict (jset v k x)"
  by (simp add: jset_def)

lemma has_key_keys: "has_key v k \<longleftrightarrow> k \<in> set (map fst (obj_of v))"
  by (auto simp: has_key_def map_of_eq_None_iff)

lemma keys_eq_has_key: "keys_eq v ks \<Longrightarrow> has_key v k \<longleftrightarrow> k \<in> set ks"
  by (auto simp: keys_eq_def has_key_keys)

lemma jget_in_obj: "has_key v k \<Longrightarrow> (k, jget v k) \<in> set (obj_of v)"
  by (auto simp: has_key_def jget_def dest: map_of_SomeD)

text \<open>
  What the scripts rely on in a dict: a value stored under a key is read back under it and
  leaves the other keys alone. The interface is stated once; the receipts' updates
  (\<open>receipt["k"] = v\<close> in sequence) are proved over it.
\<close>

locale py_dict =
  fixes get :: "'d \<Rightarrow> 'k \<Rightarrow> 'v option"
    and put :: "'d \<Rightarrow> 'k \<Rightarrow> 'v \<Rightarrow> 'd"
  assumes get_put: "get (put d k v) k' = (if k' = k then Some v else get d k')"
begin

definition put_all :: "'d \<Rightarrow> ('k \<times> 'v) list \<Rightarrow> 'd" where
  "put_all d kvs = foldl (\<lambda>d' kv. put d' (fst kv) (snd kv)) d kvs"

lemma put_all_Nil [simp]: "put_all d [] = d"
  by (simp add: put_all_def)

lemma put_all_Cons [simp]: "put_all d ((k, v) # kvs) = put_all (put d k v) kvs"
  by (simp add: put_all_def)

lemma put_all_other: "k \<notin> fst ` set kvs \<Longrightarrow> get (put_all d kvs) k = get d k"
  by (induction kvs arbitrary: d) (auto simp: get_put)

lemma put_all_last:
  assumes "k \<notin> fst ` set later"
  shows "get (put_all d (earlier @ (k, v) # later)) k = Some v"
  using assms by (induction earlier arbitrary: d) (auto simp: put_all_other get_put)

end

definition obj_get :: "json \<Rightarrow> string \<Rightarrow> json option" where
  "obj_get v k = map_of (obj_of v) k"

interpretation objd: py_dict obj_get jset
  by unfold_locales (simp add: obj_get_def jset_def)

lemma jget_obj_get: "jget v k = (case obj_get v k of None \<Rightarrow> JNull | Some x \<Rightarrow> x)"
  by (simp add: jget_def obj_get_def)

section \<open>Iteration, membership, order\<close>

definition py_iter :: "json \<Rightarrow> json list res" where
  "py_iter v =
     (case v of
        JArr xs \<Rightarrow> Inr xs
      | JObj ps \<Rightarrow> Inr (map (\<lambda>p. JStr (fst p)) ps)
      | JStr s \<Rightarrow> Inr (map (\<lambda>c. JStr [c]) s)
      | _ \<Rightarrow> py_raise TypeError)"

text \<open>\<open>s in v\<close> for a string \<open>s\<close>.\<close>

definition py_str_in :: "string \<Rightarrow> json \<Rightarrow> bool res" where
  "py_str_in s v =
     (case v of
        JArr xs \<Rightarrow> Inr (\<exists>x \<in> set xs. x = JStr s)
      | JObj ps \<Rightarrow> Inr (has_key (JObj ps) s)
      | JStr t \<Rightarrow> Inr (contains_str t s)
      | _ \<Rightarrow> py_raise TypeError)"

text \<open>\<open>v in {...}\<close> for a set of strings; lists and dicts are not hashable.\<close>

definition py_in_set :: "json \<Rightarrow> string list \<Rightarrow> bool res" where
  "py_in_set v ss =
     (case v of
        JArr _ \<Rightarrow> py_raise TypeError
      | JObj _ \<Rightarrow> py_raise TypeError
      | JStr s \<Rightarrow> Inr (s \<in> set ss)
      | _ \<Rightarrow> Inr False)"

definition py_lt :: "json \<Rightarrow> json \<Rightarrow> bool res" where
  "py_lt v w =
     (case (num_of v, num_of w) of
        (Some a, Some b) \<Rightarrow> Inr (num_lt a b)
      | _ \<Rightarrow> (case (v, w) of (JStr s, JStr t) \<Rightarrow> Inr (s < t) | _ \<Rightarrow> py_raise TypeError))"

text \<open>
  \<open>sorted(xs, key=key)\<close> where the keys are strings. With at most one element nothing is
  compared; keys of another type raise (Terraform and AWS addresses are strings).
\<close>

definition py_sorted :: "('x \<Rightarrow> json) \<Rightarrow> 'x list \<Rightarrow> 'x list res" where
  "py_sorted key xs =
     (if length xs \<le> 1 then Inr xs
      else if \<forall>x \<in> set xs. is_str (key x) then Inr (sort_key (\<lambda>x. str_of (key x)) xs)
      else py_raise TypeError)"

lemma py_iter_simps [simp]:
  "py_iter (JArr xs) = Inr xs"
  "py_iter JNull = py_raise TypeError"
  by (simp_all add: py_iter_def)

lemma py_lt_ints [simp]: "py_lt (JInt i) (JInt j) = Inr (i < j)"
  by (simp add: py_lt_def dec_lt_val)

lemma py_in_set_str [simp]: "py_in_set (JStr s) ss = Inr (s \<in> set ss)"
  by (simp add: py_in_set_def)

lemma py_in_set_True [res_simps]: "py_in_set v ss = Inr True \<longleftrightarrow> (\<exists>s \<in> set ss. v = JStr s)"
  by (cases v) (auto simp: py_in_set_def)

lemma py_sorted_set: "py_sorted key xs = Inr ys \<Longrightarrow> set ys = set xs"
  by (auto simp: py_sorted_def split: if_splits)

lemma py_sorted_length: "py_sorted key xs = Inr ys \<Longrightarrow> length ys = length xs"
  by (auto simp: py_sorted_def split: if_splits)

section \<open>Fail-closed gates\<close>

text \<open>
  Several receipts end in \<open>{"passed": not failures, "failures": failures}\<close>. A gate is
  a check that returns the list of failures it found, or raises; it passes when the list is
  empty. Its contract is what an empty list means. The scripts run a check over a list and
  collect the failures, in a comprehension or by extending a list in a loop.
\<close>

definition gate_passed :: "'f list \<Rightarrow> bool" where
  "gate_passed failures = (failures = [])"

locale gate =
  fixes check :: "'a \<Rightarrow> 'e + 'f list"
    and holds :: "'a \<Rightarrow> bool"
  assumes clean: "check x = Inr fs \<Longrightarrow> fs = [] \<longleftrightarrow> holds x"
begin

lemma passed_iff: "check x = Inr fs \<Longrightarrow> gate_passed fs \<longleftrightarrow> holds x"
  by (simp add: gate_passed_def clean)

lemma all_clean: "mapE check xs = Inr fss \<Longrightarrow> concat fss = [] \<longleftrightarrow> (\<forall>x \<in> set xs. holds x)"
proof (induction xs arbitrary: fss)
  case Nil
  then show ?case by simp
next
  case (Cons x xs)
  then obtain fs rest where "check x = Inr fs" "mapE check xs = Inr rest" "fss = fs # rest"
    by (auto simp: bindE_eq_Inr)
  with Cons.IH [of rest] clean [of x fs] show ?case by auto
qed

lemma loop_clean:
  assumes "foldE (\<lambda>fs x. bindE (check x) (\<lambda>new. Inr (fs @ new))) fs0 xs = Inr fs"
  shows "fs = [] \<longleftrightarrow> fs0 = [] \<and> (\<forall>x \<in> set xs. holds x)"
  by (rule foldE_flag [OF assms]) (use clean in \<open>auto simp: bindE_eq_Inr\<close>)

end

end
