(* ===== verification/Plan_Gate.thy ===== *)
theory Plan_Gate
  imports Py_Value
begin

text \<open>
  \<open>scripts/check-aws-plan.py\<close>: the gate over a saved Terraform plan. The plan is the
  JSON document \<open>terraform show -json\<close> prints; the checks walk the tree of planned modules
  and the list of resource changes and collect failures. A generator is modelled by the
  list of values it yields and the exception it ends with, if any. The order in which
  Python iterates over the set \<open>HOURLY_RESOURCE_TYPES\<close> is not fixed by the language and
  is the parameter \<open>order\<close>.
\<close>

section \<open>Resource types\<close>

definition hourly_resource_types :: "string list" where
  "hourly_resource_types =
     [''aws_db_instance'', ''aws_eks_cluster'', ''aws_eks_node_group'',
      ''aws_msk_serverless_cluster'', ''aws_nat_gateway'']"

definition reviewed_resource_types :: "string list" where
  "reviewed_resource_types =
     hourly_resource_types @ [''aws_ecr_repository'', ''aws_kms_alias'', ''aws_kms_key'']"

definition cost_tag_resource_types :: "string list" where
  "cost_tag_resource_types =
     hourly_resource_types @
     [''aws_s3_bucket'', ''aws_sns_topic'', ''aws_sqs_queue'', ''aws_ecr_repository'',
      ''aws_eip'', ''aws_cloudwatch_log_group'', ''aws_secretsmanager_secret'',
      ''aws_instance'', ''aws_ebs_volume'', ''aws_ebs_snapshot'', ''aws_kms_key'']"

definition eks_network_addons :: "string list" where
  "eks_network_addons = [''coredns'', ''eks-pod-identity-agent'', ''kube-proxy'', ''vpc-cni'']"

definition cni_policy_suffix :: string where
  "cni_policy_suffix = '':policy/AmazonEKS_CNI_Policy''"

section \<open>The module tree\<close>

type_synonym 'x gen = "'x list \<times> exn option"

fun gen_concat :: "'x gen list \<Rightarrow> 'x gen" where
  "gen_concat [] = ([], None)"
| "gen_concat ((xs, Some e) # _) = (xs, Some e)"
| "gen_concat ((xs, None) # gs) = (let (ys, e) = gen_concat gs in (xs @ ys, e))"

lemma size_nested:
  assumes "map_of ps k = Some (JArr xs)" and "x \<in> set xs"
  shows "size x < size (JObj ps)"
proof -
  from assms(1) have "(k, JArr xs) \<in> set ps" by (rule map_of_SomeD)
  then have "size (JArr xs) < size (JObj ps)" using size_obj_value by fastforce
  moreover have "size x < size (JArr xs)" using size_arr_item [OF assms(2)] by simp
  ultimately show ?thesis by simp
qed

text \<open>
  \<open>modules(root)\<close>: the root, then the modules of each child. A child that is not an
  object is yielded before its \<open>.get\<close> raises.
\<close>

function modules :: "json \<Rightarrow> json gen" where
  "modules m =
     (case m of
        JObj ps \<Rightarrow>
          (case map_of ps ''child_modules'' of
             None \<Rightarrow> ([m], None)
           | Some (JArr xs) \<Rightarrow>
               (let (ys, e) = gen_concat (map modules xs) in (m # ys, e))
           | Some v \<Rightarrow>
               (case py_iter v of
                  Inl e \<Rightarrow> ([m], Some e)
                | Inr [] \<Rightarrow> ([m], None)
                | Inr (y # _) \<Rightarrow> ([m, y], Some (Py AttributeError))))
      | _ \<Rightarrow> ([m], Some (Py AttributeError)))"
  by pat_completeness auto

termination
  by (relation "measure size") (auto dest: size_nested simp del: json.size)

declare modules.simps [simp del]

definition for_gen :: "('s \<Rightarrow> 'x \<Rightarrow> 's res) \<Rightarrow> 's \<Rightarrow> 'x gen \<Rightarrow> 's res" where
  "for_gen f s g =
     bindE (foldE f s (fst g)) (\<lambda>t. case snd g of None \<Rightarrow> Inr t | Some e \<Rightarrow> Inl e)"

lemma for_gen_eq_Inr [res_simps]:
  "for_gen f s g = Inr t \<longleftrightarrow> snd g = None \<and> foldE f s (fst g) = Inr t"
  by (auto simp: for_gen_def bindE_eq_Inr split: option.splits)

text \<open>
  The loop every check runs,
  \<open>for module in modules(root): for resource in module.get("resources", [])\<close>,
  as the generator of the pairs of a module and one of its resources.
\<close>

definition module_resources :: "json \<Rightarrow> (json \<times> json) gen" where
  "module_resources m =
     (case bindE (py_get m ''resources'' (JArr [])) py_iter of
        Inl e \<Rightarrow> ([], Some e)
      | Inr rs \<Rightarrow> (map (\<lambda>r. (m, r)) rs, None))"

definition planned_root :: "json \<Rightarrow> json res" where
  "planned_root plan =
     bindE (py_get plan ''planned_values'' (JObj [])) (\<lambda>values.
       py_get values ''root_module'' (JObj []))"

definition planned_resources :: "json \<Rightarrow> (json \<times> json) gen" where
  "planned_resources plan =
     (case planned_root plan of
        Inl e \<Rightarrow> ([], Some e)
      | Inr rt \<Rightarrow>
          (let (ms, e) = modules rt
           in gen_concat (map module_resources ms @ [([], e)])))"

text \<open>\<open>resource.get("mode", "managed") != "managed"\<close>, the guard of the checks.\<close>

definition is_managed :: "json \<Rightarrow> bool res" where
  "is_managed r = bindE (py_get r ''mode'' (JStr ''managed'')) (\<lambda>m. Inr (m = JStr ''managed''))"

section \<open>Counting\<close>

type_synonym type_counts = "(json \<times> int) list"

definition count_of :: "type_counts \<Rightarrow> string \<Rightarrow> int" where
  "count_of cs t = (case map_of cs (JStr t) of None \<Rightarrow> 0 | Some n \<Rightarrow> n)"

definition bump_count :: "type_counts \<Rightarrow> json \<Rightarrow> type_counts res" where
  "bump_count cs k =
     (if is_list k \<or> is_dict k then py_raise TypeError
      else Inr (al_set cs k (1 + (case map_of cs k of None \<Rightarrow> 0 | Some n \<Rightarrow> n))))"

definition planned_resource_type_counts :: "json \<Rightarrow> type_counts res" where
  "planned_resource_type_counts plan =
     bindE (for_gen (\<lambda>cs mr. bindE (py_index (snd mr) ''type'') (bump_count cs)) []
              (planned_resources plan))
       (py_sorted fst)"

definition create_resource_type_counts :: "json \<Rightarrow> type_counts res" where
  "create_resource_type_counts plan =
     bindE (py_get plan ''resource_changes'' (JArr [])) (\<lambda>cs.
     bindE (py_iter cs) (\<lambda>changes.
     bindE (foldE (\<lambda>counts change.
              bindE (py_get change ''change'' (JObj [])) (\<lambda>c.
              bindE (py_get c ''actions'' (JArr [])) (\<lambda>actions.
              bindE (py_str_in ''create'' actions) (\<lambda>b.
                if b then bindE (py_index change ''type'') (bump_count counts)
                else Inr counts)))) [] changes)
       (py_sorted fst)))"

definition hourly_counts :: "type_counts \<Rightarrow> string \<Rightarrow> int" where
  "hourly_counts counts = (\<lambda>t. if t \<in> set hourly_resource_types then count_of counts t else 0)"

record change =
  ch_address :: json
  ch_type :: json
  ch_actions :: json

definition selected_changes :: "json \<Rightarrow> string list \<Rightarrow> change list res" where
  "selected_changes plan types =
     bindE (py_get plan ''resource_changes'' (JArr [])) (\<lambda>cs.
     bindE (py_iter cs) (\<lambda>raw.
     bindE (foldE (\<lambda>acc c.
              bindE (py_get c ''type'' JNull) (\<lambda>kind.
              bindE (py_in_set kind types) (\<lambda>sel.
                if \<not> sel then Inr acc else
                bindE (py_get c ''change'' (JObj [])) (\<lambda>inner.
                bindE (py_get inner ''actions'' (JArr [])) (\<lambda>actions.
                  if py_eq actions (JArr [JStr ''no-op'']) then Inr acc
                  else Inr (acc @ [\<lparr>ch_address = jget c ''address'', ch_type = kind,
                                    ch_actions = actions\<rparr>])))))) [] raw)
       (py_sorted ch_address)))"

definition hourly_changes :: "json \<Rightarrow> change list res" where
  "hourly_changes plan = selected_changes plan hourly_resource_types"

section \<open>Project tags\<close>

record coverage =
  cov_resources :: "json list"
  cov_templates :: "json list"
  cov_failures :: "msg list"

definition launch_types :: "string list" where
  "launch_types = [''instance'', ''network-interface'', ''volume'']"

definition project_tag_ok :: "json \<Rightarrow> bool res" where
  "project_tag_ok tags =
     bindE (py_get tags ''Project'' JNull) (\<lambda>p. Inr (p = JStr ''my-local-platform''))"

text \<open>The dict comprehension \<open>by_type\<close>; a later item replaces an earlier one.\<close>

definition tags_by_type :: "json \<Rightarrow> (json \<times> json) list res" where
  "tags_by_type specifications =
     bindE (py_iter specifications) (\<lambda>items.
       foldE (\<lambda>acc item.
         bindE (py_get item ''resource_type'' JNull) (\<lambda>k.
         bindE (py_get item ''tags'' JNull) (\<lambda>t.
           if is_list k \<or> is_dict k then py_raise TypeError
           else Inr (al_set acc k (py_or t (JObj [])))))) [] items)"

definition template_tags_ok :: "json \<Rightarrow> bool res" where
  "template_tags_ok values =
     bindE (py_get values ''tag_specifications'' JNull) (\<lambda>s.
     bindE (tags_by_type (py_or s (JArr []))) (\<lambda>by_type.
       if \<not> (\<forall>k \<in> set launch_types. map_of by_type (JStr k) \<noteq> None) then Inr False
       else bindE (anyE (\<lambda>k. bindE (project_tag_ok
                      (case map_of by_type (JStr k) of None \<Rightarrow> JObj [] | Some t \<Rightarrow> t))
                    (\<lambda>ok. Inr (\<not> ok))) launch_types)
              (\<lambda>bad. Inr (\<not> bad))))"

definition cover_resource :: "coverage \<Rightarrow> json \<Rightarrow> coverage res" where
  "cover_resource c r =
     bindE (is_managed r) (\<lambda>managed.
     if \<not> managed then Inr c else
     bindE (py_get r ''type'' JNull) (\<lambda>kind.
     bindE (py_get r ''address'' kind) (\<lambda>address.
     bindE (py_get r ''values'' JNull) (\<lambda>v.
     let values = py_or v (JObj []) in
     bindE (py_in_set kind cost_tag_resource_types) (\<lambda>cost.
     bindE (if cost then
              bindE (py_get values ''tags_all'' JNull) (\<lambda>t.
              bindE (project_tag_ok (py_or t (JObj []))) (\<lambda>ok.
                Inr (c\<lparr>cov_failures := cov_failures c @
                         (if ok then [] else [Msg ''{} lacks Project=my-local-platform'' [address]]),
                       cov_resources := cov_resources c @ [address]\<rparr>)))
            else Inr c) (\<lambda>c1.
     if kind = JStr ''aws_launch_template'' then
       bindE (template_tags_ok values) (\<lambda>ok.
         Inr (c1\<lparr>cov_templates := cov_templates c1 @ [address],
                 cov_failures := cov_failures c1 @
                   (if ok then [] else [Msg ''{} lacks propagated Project tags'' [address]])\<rparr>))
     else Inr c1))))))"

definition no_coverage :: coverage where
  "no_coverage = \<lparr>cov_resources = [], cov_templates = [], cov_failures = []\<rparr>"

definition project_tag_coverage :: "json \<Rightarrow> json \<Rightarrow> coverage res" where
  "project_tag_coverage plan eks_enabled =
     bindE (for_gen (\<lambda>c mr. cover_resource c (snd mr)) no_coverage (planned_resources plan)) (\<lambda>c.
     let failures = cov_failures c @
           (if truthy eks_enabled \<and> length (cov_templates c) \<noteq> 1
            then [Msg ''EKS requires exactly one reviewed tagged launch template'' []] else []) in
     bindE (py_sorted (\<lambda>a. a) (cov_resources c)) (\<lambda>rs.
     bindE (py_sorted (\<lambda>a. a) (cov_templates c)) (\<lambda>ts.
       Inr \<lparr>cov_resources = rs, cov_templates = ts, cov_failures = failures\<rparr>)))"

section \<open>EKS dependencies\<close>

record eks_state =
  clusters :: "json list"
  node_groups :: "json list"
  cni_modules :: "json list"
  addons :: "(string \<times> json \<times> json) list"  \<comment> \<open>name, placement, version\<close>
  dup_failures :: "msg list"

definition known_version :: "json \<Rightarrow> json" where
  "known_version v = (if is_str v \<and> truthy v then v else JNull)"

definition review_resource :: "eks_state \<Rightarrow> json \<Rightarrow> json \<Rightarrow> eks_state res" where
  "review_resource s m r =
     bindE (py_get m ''address'' (JStr '''')) (\<lambda>address.
     bindE (is_managed r) (\<lambda>managed.
     if \<not> managed then Inr s else
     bindE (py_get r ''type'' JNull) (\<lambda>kind.
     bindE (py_get r ''values'' JNull) (\<lambda>v.
     let values = py_or v (JObj []) in
     if kind = JStr ''aws_eks_cluster'' then Inr (s\<lparr>clusters := clusters s @ [values]\<rparr>)
     else if kind = JStr ''aws_eks_node_group'' then
       Inr (s\<lparr>node_groups := node_groups s @ [address]\<rparr>)
     else if kind = JStr ''aws_iam_role_policy_attachment'' then
       bindE (py_get values ''policy_arn'' (JStr '''')) (\<lambda>arn.
         if \<not> ends_with (py_str arn) cni_policy_suffix then Inr s
         else if is_list address \<or> is_dict address then py_raise TypeError
         else Inr (s\<lparr>cni_modules := cni_modules s @ [address]\<rparr>))
     else if kind = JStr ''aws_eks_addon'' then
       bindE (py_get values ''addon_name'' JNull) (\<lambda>given.
       let name = py_str (py_or given (jget r ''index'')) in
       bindE (py_get values ''addon_version'' JNull) (\<lambda>version.
         Inr (s\<lparr>dup_failures := dup_failures s @
                  (if map_of (addons s) name \<noteq> None
                   then [Msg ''EKS add-on {} is planned more than once'' [JStr name]] else []),
                addons := al_set (addons s) name (jget r ''name'', known_version version)\<rparr>)))
     else Inr s))))"

definition no_eks :: eks_state where
  "no_eks = \<lparr>clusters = [], node_groups = [], cni_modules = [], addons = [], dup_failures = []\<rparr>"

definition addon_failures :: "(string \<times> json \<times> json) list \<Rightarrow> string \<Rightarrow> msg list" where
  "addon_failures as name =
     (case map_of as name of
        None \<Rightarrow> [Msg ''EKS add-on {} is missing while self-managed networking bootstrap is disabled''
                   [JStr name]]
      | Some (placement, version) \<Rightarrow>
          if version = JNull
          then [Msg ''EKS add-on {} has no known version in the saved plan'' [JStr name]] else [])"

definition network_failures :: "json \<Rightarrow> (string \<times> json \<times> json) list \<Rightarrow> msg list" where
  "network_failures bootstrap as =
     (if bootstrap = JBool False then
        concat (map (addon_failures as) eks_network_addons) @
        (case map_of as ''vpc-cni'' of
           Some (placement, version) \<Rightarrow>
             if placement \<noteq> JStr ''before_compute''
             then [Msg (''vpc-cni must be a before_compute add-on: other add-ons wait '' @
                        ''for the node groups, which cannot become Ready without it'') []]
             else []
         | None \<Rightarrow> [])
      else if bootstrap \<noteq> JBool True then
        [Msg (''cannot confirm how EKS networking is installed: '' @
              ''bootstrap_self_managed_addons is unknown'') []]
      else [])"

definition node_group_failures :: "eks_state \<Rightarrow> msg list res" where
  "node_group_failures s =
     bindE (mapE (\<lambda>address.
              if is_list address \<or> is_dict address then py_raise TypeError
              else Inr (if address \<in> set (cni_modules s) then []
                        else [Msg (''{} node group role lacks AmazonEKS_CNI_Policy; '' @
                                   ''another CNI identity needs a reviewed gate change'')
                                [py_or address (JStr ''root module'')]])) (node_groups s))
       (\<lambda>fs. Inr (concat fs))"

record eks_review =
  rev_required :: bool
  rev_bootstrap :: json
  rev_addons :: "(string \<times> json \<times> json) list"
  rev_cni_groups :: "json list"
  rev_failures :: "msg list"

definition eks_dependency_review :: "json \<Rightarrow> json \<Rightarrow> eks_review res" where
  "eks_dependency_review plan eks_enabled =
     bindE (if truthy eks_enabled
            then for_gen (\<lambda>s mr. review_resource s (fst mr) (snd mr)) no_eks (planned_resources plan)
            else Inr no_eks) (\<lambda>s.
     bindE (if \<not> truthy eks_enabled then Inr (JNull, [])
            else
              bindE (if length (clusters s) \<noteq> 1
                     then Inr (JNull, [Msg ''EKS dependency review expects exactly one planned cluster'' []])
                     else bindE (py_get (hd (clusters s)) ''bootstrap_self_managed_addons'' JNull)
                            (\<lambda>b. Inr (b, network_failures b (addons s)))) (\<lambda>bn.
              bindE (node_group_failures s) (\<lambda>ng.
                Inr (fst bn, dup_failures s @ snd bn @
                  (if node_groups s = []
                   then [Msg ''EKS dependency review found no managed node group'' []] else []) @ ng))))
       (\<lambda>bf.
     bindE (py_sorted (\<lambda>a. a) (filter (\<lambda>a. a \<in> set (cni_modules s)) (node_groups s))) (\<lambda>gs.
       Inr \<lparr>rev_required = truthy eks_enabled, rev_bootstrap = fst bf,
            rev_addons = sort_key fst (addons s), rev_cni_groups = gs,
            rev_failures = snd bf\<rparr>)))"

section \<open>Node group shape\<close>

definition scaling_of :: "json \<Rightarrow> json" where
  "scaling_of scaling =
     (case scaling of
        JArr [JObj ps] \<Rightarrow> JObj ps
      | _ \<Rightarrow> JObj [])"

definition shape_mismatches :: "(string \<times> json) list \<Rightarrow> json \<Rightarrow> msg list res" where
  "shape_mismatches expected r =
     bindE (is_managed r) (\<lambda>managed.
     if \<not> managed \<or> jget r ''type'' \<noteq> JStr ''aws_eks_node_group'' then Inr [] else
     bindE (py_get r ''values'' JNull) (\<lambda>v.
     let values = py_or v (JObj []) in
     bindE (py_get values ''scaling_config'' JNull) (\<lambda>sc.
     let planned = [(''desired_size'', jget (scaling_of sc) ''desired_size''),
                    (''max_size'', jget (scaling_of sc) ''max_size''),
                    (''capacity_type'', jget values ''capacity_type'')];
         address = jget_or r ''address'' (JStr ''aws_eks_node_group'') in
       Inr (concat (map (\<lambda>(key, value).
              let p = (case map_of planned key of None \<Rightarrow> JNull | Some x \<Rightarrow> x) in
              if py_eq p value then []
              else [Msg ''{} plans {} {!r}, but the reported shape says {!r}''
                      [address, JStr key, p, value]]) expected)))))"

definition node_group_shape_failures :: "json \<Rightarrow> json \<Rightarrow> msg list res" where
  "node_group_shape_failures plan shape =
     bindE (py_index shape ''enable_eks'') (\<lambda>enabled.
     if \<not> truthy enabled then Inr [] else
     bindE (py_index shape ''eks'') (\<lambda>eks.
     bindE (py_index eks ''node_desired'') (\<lambda>desired.
     bindE (py_index eks ''node_maximum'') (\<lambda>maximum.
     bindE (py_index eks ''node_capacity_type'') (\<lambda>capacity.
       for_gen (\<lambda>fs mr. bindE (shape_mismatches
                  [(''desired_size'', desired), (''max_size'', maximum), (''capacity_type'', capacity)]
                  (snd mr)) (\<lambda>new. Inr (fs @ new)))
         [] (planned_resources plan))))))"

section \<open>Outputs and the cost gate\<close>

definition required_output :: "json \<Rightarrow> string \<Rightarrow> json res" where
  "required_output plan name =
     bindE (py_get plan ''planned_values'' (JObj [])) (\<lambda>values.
     bindE (py_get values ''outputs'' (JObj [])) (\<lambda>outputs.
     bindE (py_get outputs name JNull) (\<lambda>output.
     let missing = SystemExit ''plan is missing required output {!r}'' [JStr name] in
       if \<not> truthy output then Inl missing
       else bindE (py_str_in ''value'' output) (\<lambda>b.
              if \<not> b then Inl missing else py_index output ''value''))))"

definition enabled_types :: "json \<Rightarrow> (string \<times> bool) list res" where
  "enabled_types shape =
     bindE (py_index shape ''enable_rds'') (\<lambda>rds.
     bindE (py_index shape ''enable_eks'') (\<lambda>eks.
     bindE (py_index shape ''enable_msk'') (\<lambda>msk.
       Inr [(''aws_db_instance'', truthy rds), (''aws_eks_cluster'', truthy eks),
            (''aws_eks_node_group'', truthy eks), (''aws_msk_serverless_cluster'', truthy msk),
            (''aws_nat_gateway'', truthy eks)])))"

definition is_enabled :: "(string \<times> bool) list \<Rightarrow> string \<Rightarrow> bool res" where
  "is_enabled enabled t =
     (case map_of enabled t of None \<Rightarrow> py_raise KeyError | Some b \<Rightarrow> Inr b)"

definition type_failures :: "bool \<Rightarrow> int \<Rightarrow> int \<Rightarrow> string \<Rightarrow> msg list" where
  "type_failures enabled planned created t =
     (if enabled \<and> planned \<noteq> 1
      then [Msg ''{} planned count {} must be 1 when enabled'' [JStr t, JInt planned]] else []) @
     (if \<not> enabled \<and> planned \<noteq> 0
      then [Msg ''{} is planned while its flag is disabled'' [JStr t]] else []) @
     (if \<not> enabled \<and> created \<noteq> 0
      then [Msg ''{} is created while its flag is disabled'' [JStr t]] else [])"

definition delete_failures :: "(string \<times> bool) list \<Rightarrow> change \<Rightarrow> msg list res" where
  "delete_failures enabled c =
     bindE (is_enabled enabled (str_of (ch_type c))) (\<lambda>on.
     if \<not> on then Inr []
     else bindE (py_str_in ''delete'' (ch_actions c)) (\<lambda>b.
       Inr (if b then [Msg ''{} would delete an enabled hourly resource'' [ch_address c]] else [])))"

definition cost_failures :: "json \<Rightarrow> msg list res" where
  "cost_failures shape =
     bindE (py_index shape ''expected_hourly_usd'') (\<lambda>expected.
     bindE (py_index shape ''maximum_hourly_usd'') (\<lambda>maximum.
     bindE (py_lt maximum expected) (\<lambda>over.
       if over \<and> is_str expected then py_raise ValueError
       else Inr (if over then [Msg ''expected hourly cost {:.4f} exceeds {:.2f}'' [expected, maximum]]
            else []))))"

definition kafka_failures :: "json \<Rightarrow> msg list res" where
  "kafka_failures shape =
     bindE (py_index shape ''kafka'') (\<lambda>kafka.
     bindE (py_index kafka ''total_partitions'') (\<lambda>n.
     bindE (py_lt (JInt 13) n) (\<lambda>over.
       Inr (if over then [Msg ''Kafka partition count {} exceeds 13'' [n]] else []))))"

definition eks_limit_failures :: "json \<Rightarrow> msg list res" where
  "eks_limit_failures shape =
     bindE (py_index shape ''eks'') (\<lambda>eks.
     bindE (py_index shape ''enable_eks'') (\<lambda>enabled.
     if \<not> truthy enabled then Inr [] else
     bindE (py_index eks ''node_capacity_type'') (\<lambda>capacity.
     bindE (py_index eks ''node_maximum'') (\<lambda>maximum.
     bindE (py_lt (JInt 3) maximum) (\<lambda>big.
     bindE (py_index eks ''node_desired'') (\<lambda>desired.
     bindE (py_lt maximum desired) (\<lambda>more.
       Inr ((if capacity \<noteq> JStr ''SPOT'' then [Msg ''EKS node capacity type is not SPOT'' []] else []) @
            (if big then [Msg ''EKS node maximum {} exceeds 3'' [maximum]] else []) @
            (if more then [Msg ''EKS desired node count exceeds its maximum'' []] else [])))))))))"

definition gate_failures ::
  "string list \<Rightarrow> json \<Rightarrow> (string \<Rightarrow> int) \<Rightarrow> (string \<Rightarrow> int) \<Rightarrow> change list \<Rightarrow> msg list res" where
  "gate_failures order shape planned creates changes =
     bindE (enabled_types shape) (\<lambda>enabled.
     bindE (mapE (\<lambda>t. bindE (is_enabled enabled t) (\<lambda>on.
              Inr (type_failures on (planned t) (creates t) t))) order) (\<lambda>types.
     bindE (mapE (delete_failures enabled) changes) (\<lambda>deletes.
     bindE (cost_failures shape) (\<lambda>cost.
     bindE (kafka_failures shape) (\<lambda>kafka.
     bindE (eks_limit_failures shape) (\<lambda>eks.
       Inr (concat types @ concat deletes @ cost @ kafka @ eks)))))))"

section \<open>The whole gate\<close>

record plan_report =
  rep_shape :: json
  rep_budget :: json
  rep_planned :: type_counts
  rep_created :: type_counts
  rep_changes :: "change list"
  rep_reviewed :: "change list"
  rep_coverage :: coverage
  rep_dependencies :: eks_review
  rep_failures :: "msg list"

definition plan_gate :: "string list \<Rightarrow> json \<Rightarrow> plan_report res" where
  "plan_gate order plan =
     bindE (py_get plan ''complete'' JNull) (\<lambda>complete.
     if complete \<noteq> JBool True
     then Inl (SystemExit ''plan is incomplete; targeted and destroy plans are rejected'' []) else
     bindE (required_output plan ''runtime_shape'') (\<lambda>shape.
     bindE (required_output plan ''runtime_budget_name'') (\<lambda>budget_name.
     bindE (planned_resource_type_counts plan) (\<lambda>all_planned.
     bindE (create_resource_type_counts plan) (\<lambda>all_creates.
     bindE (hourly_changes plan) (\<lambda>changed.
     bindE (gate_failures order shape (hourly_counts all_planned) (hourly_counts all_creates) changed)
       (\<lambda>failures.
     bindE (node_group_shape_failures plan shape) (\<lambda>shape_failures.
     bindE (py_index shape ''enable_eks'') (\<lambda>eks.
     bindE (project_tag_coverage plan eks) (\<lambda>coverage.
     bindE (eks_dependency_review plan eks) (\<lambda>dependencies.
     bindE (selected_changes plan reviewed_resource_types) (\<lambda>reviewed.
       Inr \<lparr>rep_shape = shape, rep_budget = budget_name, rep_planned = all_planned,
            rep_created = all_creates, rep_changes = changed, rep_reviewed = reviewed,
            rep_coverage = coverage, rep_dependencies = dependencies,
            rep_failures = failures @ shape_failures @ cov_failures coverage @
              rev_failures dependencies\<rparr>))))))))))))"

text \<open>The exit code of the script once the summary is written.\<close>

definition plan_exit :: "plan_report \<Rightarrow> int" where
  "plan_exit r = (if rep_failures r \<noteq> [] then 1 else 0)"

end
