(* ===== verification/Plan_Gate_Correct.thy ===== *)
theory Plan_Gate_Correct
  imports Plan_Gate "HOL-Library.Multiset"
begin

text \<open>
  Correctness of the plan gate: the module walk visits exactly the planned modules, the
  counts count the planned resources, and a report without failures means what the checks
  are there to establish about the plan.
\<close>

section \<open>The module walk\<close>

inductive inside :: "json \<Rightarrow> json \<Rightarrow> bool" where
  inside_refl: "inside m m"
| inside_child: "map_of ps ''child_modules'' = Some (JArr xs) \<Longrightarrow> c \<in> set xs \<Longrightarrow>
     inside c m \<Longrightarrow> inside (JObj ps) m"

inductive_cases inside_objE: "inside (JObj ps) m"

lemma gen_concat_None:
  "gen_concat gs = (ys, None) \<longleftrightarrow> (\<forall>g \<in> set gs. snd g = None) \<and> ys = concat (map fst gs)"
proof (induction gs arbitrary: ys rule: gen_concat.induct)
  case (3 xs gs)
  obtain zs e where g: "gen_concat gs = (zs, e)" by (cases "gen_concat gs")
  show ?case using "3.IH" [of zs] "3.IH" [of "concat (map fst gs)"] by (auto simp: g)
qed auto

lemma inside_leaf: "map_of ps ''child_modules'' = v \<Longrightarrow> \<forall>xs. v \<noteq> Some (JArr xs) \<Longrightarrow>
  inside (JObj ps) m \<longleftrightarrow> m = JObj ps"
  by (auto elim: inside_objE intro: inside_refl)

lemma modules_set: "modules m = (ms, None) \<Longrightarrow> set ms = {m'. inside m m'}"
proof (induction m arbitrary: ms rule: modules.induct)
  case (1 m)
  from "1.prems" obtain ps where m: "m = JObj ps"
    by (subst (asm) modules.simps) (auto split: json.splits)
  show ?case
  proof (cases "\<exists>xs. map_of ps ''child_modules'' = Some (JArr xs)")
    case True
    then obtain xs where xs: "map_of ps ''child_modules'' = Some (JArr xs)" by blast
    with "1.prems" m obtain ys where gc: "gen_concat (map modules xs) = (ys, None)" and ms: "ms = m # ys"
      by (subst (asm) modules.simps) (auto split: prod.splits)
    have child: "set (fst (modules c)) = {m'. inside c m'}" if "c \<in> set xs" for c
    proof -
      from gc that have "modules c = (fst (modules c), None)"
        by (auto simp: gen_concat_None intro: prod_eqI)
      then show ?thesis using "1.IH" [OF m xs] that by blast
    qed
    have "set ys = (\<Union>c \<in> set xs. {m'. inside c m'})"
      using gc child by (auto simp: gen_concat_None)
    moreover have "inside m m' \<longleftrightarrow> m' = m \<or> (\<exists>c \<in> set xs. inside c m')" for m'
      unfolding m by (auto elim!: inside_objE simp: xs intro: inside_refl inside_child)
    ultimately show ?thesis using ms by auto
  next
    case False
    with "1.prems" m have "ms = [m]"
      by (subst (asm) modules.simps) (auto split: option.splits json.splits sum.splits list.splits)
    with False m show ?thesis by (auto simp: inside_leaf)
  qed
qed

text \<open>A resource of the plan: one listed in a module reachable from the planned root module.\<close>

definition planned_resource :: "json \<Rightarrow> json \<Rightarrow> json \<Rightarrow> bool" where
  "planned_resource plan m r \<longleftrightarrow>
     (\<exists>rt. planned_root plan = Inr rt \<and> inside rt m \<and> r \<in> set (items_of (jget m ''resources'')))"

lemma module_resources_None:
  "snd (module_resources m) = None \<Longrightarrow>
     is_dict m \<and> (r \<in> set (items_of (jget m ''resources'')) \<longrightarrow> (m, r) \<in> set (fst (module_resources m))) \<and>
     (is_dict r \<longrightarrow> (m', r) \<in> set (fst (module_resources m)) \<longrightarrow>
        m' = m \<and> r \<in> set (items_of (jget m ''resources'')))"
  by (cases m) (auto simp: module_resources_def py_get_def py_iter_def jget_or_jget jget_def has_key_def
      split: sum.splits json.splits option.splits if_splits)

lemma planned_resources_None:
  assumes "snd (planned_resources plan) = None"
  shows "planned_resource plan m r \<Longrightarrow> (m, r) \<in> set (fst (planned_resources plan))"
    and "(m, r) \<in> set (fst (planned_resources plan)) \<Longrightarrow> is_dict r \<Longrightarrow> planned_resource plan m r"
proof -
  obtain rt where rt: "planned_root plan = Inr rt"
    using assms by (cases "planned_root plan") (auto simp: planned_resources_def)
  obtain ms e where ms: "modules rt = (ms, e)" by (cases "modules rt")
  let ?gs = "map module_resources ms @ [([], e)]"
  have pr: "planned_resources plan = gen_concat ?gs"
    using rt ms by (simp add: planned_resources_def)
  with assms have gc: "gen_concat ?gs = (fst (planned_resources plan), None)"
    by (metis prod.collapse)
  then have e: "e = None" and none: "\<forall>m \<in> set ms. snd (module_resources m) = None"
    and prs: "fst (planned_resources plan) = concat (map (\<lambda>m. fst (module_resources m)) ms)"
    by (auto simp: gen_concat_None comp_def)
  have w: "set ms = {m. inside rt m}" using ms e modules_set by simp
  show "planned_resource plan m r \<Longrightarrow> (m, r) \<in> set (fst (planned_resources plan))"
    using none module_resources_None [of m r] rt w prs by (auto simp: planned_resource_def)
  show "(m, r) \<in> set (fst (planned_resources plan)) \<Longrightarrow> is_dict r \<Longrightarrow> planned_resource plan m r"
  proof -
    assume "(m, r) \<in> set (fst (planned_resources plan))" and r: "is_dict r"
    then obtain m0 where m0: "m0 \<in> set ms" and mr: "(m, r) \<in> set (fst (module_resources m0))"
      by (auto simp: prs)
    from none m0 have "snd (module_resources m0) = None" by blast
    from module_resources_None [OF this, of r m] r mr m0 w rt
    show ?thesis by (auto simp: planned_resource_def)
  qed
qed

definition managed :: "json \<Rightarrow> bool" where
  "managed r \<longleftrightarrow> is_dict r \<and> jget_or r ''mode'' (JStr ''managed'') = JStr ''managed''"

definition resource_values :: "json \<Rightarrow> json" where
  "resource_values r = py_or (jget r ''values'') (JObj [])"

lemma is_managed_eq_Inr [res_simps]: "is_managed r = Inr b \<longleftrightarrow> is_dict r \<and> b = managed r"
  by (auto simp: is_managed_def managed_def res_simps)

lemma jget_or_null [simp]: "jget_or v k JNull = jget v k"
  by (simp add: jget_or_def jget_def)

section \<open>Counts\<close>

lemma count_of_bump:
  "bump_count cs k = Inr cs' \<Longrightarrow> count_of cs' t = count_of cs t + (if k = JStr t then 1 else 0)"
  by (auto simp: bump_count_def count_of_def split: if_splits option.splits)

lemma bump_count_distinct:
  "bump_count cs k = Inr cs' \<Longrightarrow> distinct (map fst cs) \<Longrightarrow> distinct (map fst cs')"
  by (auto simp: bump_count_def distinct_al_set split: if_splits)

lemma map_of_sorted:
  assumes "py_sorted fst ps = Inr qs" and "distinct (map fst ps)"
  shows "map_of qs = map_of ps"
proof (cases "length ps \<le> 1")
  case True
  then show ?thesis using assms(1) by (simp add: py_sorted_def)
next
  case False
  then have "qs = sort_key (\<lambda>x. str_of (fst x)) ps"
    using assms(1) by (auto simp: py_sorted_def split: if_splits)
  then have "distinct (map fst qs)" and "set qs = set ps"
    using assms(2) by (simp_all add: distinct_map)
  then have "map_of qs k = Some v \<longleftrightarrow> map_of ps k = Some v" for k v
    using assms(2) by simp
  then show ?thesis by (metis ext not_None_eq)
qed

lemma counts_loop:
  assumes "foldE (\<lambda>cs mr. bindE (py_index (snd mr) ''type'') (bump_count cs)) [] prs = Inr cs"
  shows "count_of cs t = int (length (filter (\<lambda>mr. jget (snd mr) ''type'' = JStr t) prs))"
    and "distinct (map fst cs)"
proof -
  have "count_of cs t = count_of [] t +
      sum_list (map (\<lambda>mr. if jget (snd mr) ''type'' = JStr t then 1 else 0) prs)"
    by (rule foldE_sum [OF assms, where n = "\<lambda>cs. count_of cs t"])
       (use count_of_bump [where t = t] in \<open>fastforce simp: res_simps\<close>)
  also have "\<dots> = int (length (filter (\<lambda>mr. jget (snd mr) ''type'' = JStr t) prs))"
    by (induction prs) (auto simp: count_of_def)
  finally show "count_of cs t = \<dots>" .
  show "distinct (map fst cs)"
    by (rule foldE_invariant [OF assms, where P = "\<lambda>cs. distinct (map fst cs)"])
       (auto simp: res_simps dest: bump_count_distinct)
qed

text \<open>
  The planned type counts of the summary count the resources of the whole module tree:
  the count of a type is the number of resources of that type the walk visits.
\<close>

theorem planned_counts_correct:
  assumes "planned_resource_type_counts plan = Inr counts"
  shows "count_of counts t =
    int (length (filter (\<lambda>mr. jget (snd mr) ''type'' = JStr t) (fst (planned_resources plan))))"
proof -
  from assms obtain cs where
    loop: "foldE (\<lambda>cs mr. bindE (py_index (snd mr) ''type'') (bump_count cs)) []
             (fst (planned_resources plan)) = Inr cs"
    and sorted: "py_sorted fst cs = Inr counts"
    by (auto simp: planned_resource_type_counts_def res_simps)
  have "map_of counts = map_of cs"
    by (rule map_of_sorted [OF sorted counts_loop(2) [OF loop]])
  then show ?thesis using counts_loop(1) [OF loop, of t] by (simp add: count_of_def)
qed

section \<open>Project tags\<close>

text \<open>What the coverage is there to establish of one resource.\<close>

definition project_tagged :: "json \<Rightarrow> bool" where
  "project_tagged tags \<longleftrightarrow> jget tags ''Project'' = JStr ''my-local-platform''"

definition resource_tagged :: "json \<Rightarrow> bool" where
  "resource_tagged r \<longleftrightarrow>
     (\<forall>t \<in> set cost_tag_resource_types. jget r ''type'' = JStr t \<longrightarrow>
        project_tagged (py_or (jget (resource_values r) ''tags_all'') (JObj [])))"

text \<open>
  A launch template propagates the tag to a type when the last specification for the type
  carries it.
\<close>

definition propagates :: "json list \<Rightarrow> string \<Rightarrow> bool" where
  "propagates items k \<longleftrightarrow>
     (\<exists>before item after. items = before @ item # after \<and>
        jget item ''resource_type'' = JStr k \<and>
        (\<forall>i \<in> set after. jget i ''resource_type'' \<noteq> JStr k) \<and>
        project_tagged (py_or (jget item ''tags'') (JObj [])))"

definition is_template :: "json \<Rightarrow> bool" where
  "is_template r \<longleftrightarrow> managed r \<and> jget r ''type'' = JStr ''aws_launch_template''"

definition template_tagged :: "json \<Rightarrow> bool" where
  "template_tagged r \<longleftrightarrow>
     (is_template r \<longrightarrow>
        (\<forall>k \<in> set launch_types.
           \<exists>items. py_iter (py_or (jget (resource_values r) ''tag_specifications'') (JArr [])) = Inr items \<and>
             propagates items k))"

lemma project_tag_ok_eq [res_simps]:
  "project_tag_ok tags = Inr b \<longleftrightarrow> is_dict tags \<and> b = project_tagged tags"
  by (auto simp: project_tag_ok_def project_tagged_def res_simps)

lemma propagates_snoc:
  "propagates (items @ [i]) k \<longleftrightarrow>
     (if jget i ''resource_type'' = JStr k then project_tagged (py_or (jget i ''tags'') (JObj []))
      else propagates items k)"
proof -
  have split: "(\<exists>b x a. items @ [i] = b @ x # a \<and> P b x a) \<longleftrightarrow>
      P items i [] \<or> (\<exists>b x a. items = b @ x # a \<and> P b x (a @ [i]))" for P
  proof
    assume "\<exists>b x a. items @ [i] = b @ x # a \<and> P b x a"
    then obtain b x a where eq: "items @ [i] = b @ x # a" and P: "P b x a" by blast
    then show "P items i [] \<or> (\<exists>b x a. items = b @ x # a \<and> P b x (a @ [i]))"
    proof (cases a rule: rev_cases)
      case Nil
      with eq P show ?thesis by simp
    next
      case (snoc a' y)
      with eq P show ?thesis by auto
    qed
  next
    assume "P items i [] \<or> (\<exists>b x a. items = b @ x # a \<and> P b x (a @ [i]))"
    then show "\<exists>b x a. items @ [i] = b @ x # a \<and> P b x a"
      by (metis append.assoc append_Cons)
  qed
  show ?thesis
    unfolding propagates_def by (subst split) auto
qed

lemma tags_loop:
  assumes "foldE (\<lambda>acc item.
         bindE (py_get item ''resource_type'' JNull) (\<lambda>k.
         bindE (py_get item ''tags'' JNull) (\<lambda>t.
           if is_list k \<or> is_dict k then py_raise TypeError
           else Inr (al_set acc k (py_or t (JObj [])))))) [] items = Inr by_type"
  shows "(\<exists>t. map_of by_type (JStr k) = Some t \<and> project_tagged t) \<longleftrightarrow> propagates items k"
  using assms
proof (induction items arbitrary: by_type rule: rev_induct)
  case Nil
  then show ?case by (auto simp: propagates_def)
next
  case (snoc i items)
  then show ?case
    by (auto simp: foldE_append res_simps propagates_snoc split: if_splits)
qed

lemma anyE_False_set: "anyE p xs = Inr b \<Longrightarrow> (\<not> b \<longleftrightarrow> (\<forall>x \<in> set xs. p x = Inr False))"
  using anyE_False [of p xs] by (cases b) auto

lemma template_tags_ok_eq:
  assumes "template_tags_ok v = Inr b" and "py_iter (py_or (jget v ''tag_specifications'') (JArr [])) = Inr items"
  shows "b \<longleftrightarrow> (\<forall>k \<in> set launch_types. propagates items k)"
proof -
  from assms obtain by_type where bt: "foldE (\<lambda>acc item.
         bindE (py_get item ''resource_type'' JNull) (\<lambda>k.
         bindE (py_get item ''tags'' JNull) (\<lambda>t.
           if is_list k \<or> is_dict k then py_raise TypeError
           else Inr (al_set acc k (py_or t (JObj [])))))) [] items = Inr by_type"
    and b: "(if \<not> (\<forall>k \<in> set launch_types. map_of by_type (JStr k) \<noteq> None) then Inr False
       else bindE (anyE (\<lambda>k. bindE (project_tag_ok
                      (case map_of by_type (JStr k) of None \<Rightarrow> JObj [] | Some t \<Rightarrow> t))
                    (\<lambda>ok. Inr (\<not> ok))) launch_types)
              (\<lambda>bad. Inr (\<not> bad))) = Inr b"
    by (auto simp: template_tags_ok_def tags_by_type_def res_simps)
  note loop = tags_loop [OF bt]
  show ?thesis
  proof (cases "\<forall>k \<in> set launch_types. map_of by_type (JStr k) \<noteq> None")
    case True
    with b obtain bad where
      bad: "anyE (\<lambda>k. bindE (project_tag_ok
                      (case map_of by_type (JStr k) of None \<Rightarrow> JObj [] | Some t \<Rightarrow> t))
                    (\<lambda>ok. Inr (\<not> ok))) launch_types = Inr bad" and "b = (\<not> bad)"
      by (auto simp: bindE_eq_Inr)
    have "\<not> bad \<longleftrightarrow> (\<forall>k \<in> set launch_types. \<exists>t. map_of by_type (JStr k) = Some t \<and> is_dict t \<and> project_tagged t)"
      unfolding anyE_False_set [OF bad] using True by (fastforce simp: res_simps)
    moreover have "project_tagged t \<Longrightarrow> is_dict t" for t
      by (cases t) (auto simp: project_tagged_def jget_def)
    ultimately show ?thesis using loop \<open>b = (\<not> bad)\<close> by blast
  next
    case False
    with b loop show ?thesis by (metis option.distinct(1) old.sum.inject(2))
  qed
qed

lemma project_tagged_dict: "project_tagged t \<Longrightarrow> is_dict t"
  by (cases t) (auto simp: project_tagged_def jget_def)

lemma template_tags_ok_iff:
  assumes "template_tags_ok v = Inr b"
  shows "b \<longleftrightarrow> (\<forall>k \<in> set launch_types.
           \<exists>items. py_iter (py_or (jget v ''tag_specifications'') (JArr [])) = Inr items \<and>
             propagates items k)"
proof -
  from assms obtain items
    where it: "py_iter (py_or (jget v ''tag_specifications'') (JArr [])) = Inr items"
    by (auto simp: template_tags_ok_def tags_by_type_def bindE_eq_Inr res_simps)
  then show ?thesis using template_tags_ok_eq [OF assms it] by simp
qed

definition template_addresses :: "json \<Rightarrow> json list" where
  "template_addresses r =
     (if is_template r then [jget_or r ''address'' (jget r ''type'')] else [])"

lemma cover_resource_templates:
  "cover_resource c r = Inr d \<Longrightarrow> cov_templates d = cov_templates c @ template_addresses r"
  by (auto simp: cover_resource_def template_addresses_def is_template_def Let_def res_simps
      bindE_eq_Inr split: if_splits)

lemma cover_resource_clean:
  assumes "cover_resource c r = Inr d"
  shows "cov_failures d = [] \<longleftrightarrow>
    cov_failures c = [] \<and> (managed r \<longrightarrow> resource_tagged r \<and> template_tagged r)"
proof (cases "managed r")
  case False
  with assms show ?thesis by (auto simp: cover_resource_def res_simps split: if_splits)
next
  case True
  let ?kind = "jget r ''type''"
  let ?v = "py_or (jget r ''values'') (JObj [])"
  from True assms obtain c1 cost where
    cost: "py_in_set ?kind cost_tag_resource_types = Inr cost" and
    c1: "(if cost then
              bindE (py_get ?v ''tags_all'' JNull) (\<lambda>t.
              bindE (project_tag_ok (py_or t (JObj []))) (\<lambda>ok.
                Inr (c\<lparr>cov_failures := cov_failures c @
                         (if ok then [] else [Msg ''{} lacks Project=my-local-platform''
                            [jget_or r ''address'' ?kind]]),
                       cov_resources := cov_resources c @ [jget_or r ''address'' ?kind]\<rparr>)))
            else Inr c) = Inr c1" and
    d: "(if ?kind = JStr ''aws_launch_template'' then
       bindE (template_tags_ok ?v) (\<lambda>ok.
         Inr (c1\<lparr>cov_templates := cov_templates c1 @ [jget_or r ''address'' ?kind],
                 cov_failures := cov_failures c1 @
                   (if ok then [] else [Msg ''{} lacks propagated Project tags''
                      [jget_or r ''address'' ?kind]])\<rparr>))
     else Inr c1) = Inr d"
    by (auto simp: cover_resource_def Let_def res_simps bindE_eq_Inr)
  have "cov_failures c1 = [] \<longleftrightarrow> cov_failures c = [] \<and> resource_tagged r"
  proof (cases cost)
    case True
    with cost obtain t where "t \<in> set cost_tag_resource_types" and "?kind = JStr t"
      by (auto simp: py_in_set_True)
    with True c1 show ?thesis by (auto simp: resource_tagged_def resource_values_def res_simps split: if_splits)
  next
    case False
    with cost have "\<forall>t \<in> set cost_tag_resource_types. ?kind \<noteq> JStr t" by auto
    with False c1 show ?thesis by (auto simp: resource_tagged_def)
  qed
  moreover have "cov_failures d = [] \<longleftrightarrow> cov_failures c1 = [] \<and> template_tagged r"
  proof (cases "?kind = JStr ''aws_launch_template''")
    case True
    with d obtain ok where ok: "template_tags_ok ?v = Inr ok" and
      df: "cov_failures d = [] \<longleftrightarrow> cov_failures c1 = [] \<and> ok"
      by (auto simp: bindE_eq_Inr split: if_splits)
    show ?thesis
      unfolding df template_tags_ok_iff [OF ok] template_tagged_def is_template_def resource_values_def
      using True \<open>managed r\<close> by simp
  next
    case False
    with d show ?thesis by (simp add: template_tagged_def is_template_def)
  qed
  ultimately show ?thesis using True by blast
qed

lemma coverage_clean:
  assumes "project_tag_coverage plan eks = Inr c"
  shows "snd (planned_resources plan) = None"
    and "cov_failures c = [] \<longleftrightarrow>
      (\<forall>(m, r) \<in> set (fst (planned_resources plan)).
         managed r \<longrightarrow> resource_tagged r \<and> template_tagged r) \<and>
      (truthy eks \<longrightarrow> length (filter is_template (map snd (fst (planned_resources plan)))) = 1)"
proof -
  let ?prs = "fst (planned_resources plan)"
  from assms obtain s where
    s: "foldE (\<lambda>c mr. cover_resource c (snd mr)) no_coverage ?prs = Inr s" and
    none: "snd (planned_resources plan) = None" and
    cf: "cov_failures c = [] \<longleftrightarrow> cov_failures s = [] \<and> (truthy eks \<longrightarrow> length (cov_templates s) = 1)"
    by (auto simp: project_tag_coverage_def Let_def res_simps split: if_splits)
  have "cov_templates s = [] @ concat (map (\<lambda>mr. template_addresses (snd mr)) ?prs)"
    using foldE_collect [OF s, where c = cov_templates] cover_resource_templates
    by (simp add: no_coverage_def)
  moreover have "length (concat (map (\<lambda>mr. template_addresses (snd mr)) ps)) =
      length (filter is_template (map snd ps))" for ps :: "(json \<times> json) list"
    by (induction ps) (auto simp: template_addresses_def)
  ultimately have len: "length (cov_templates s) = length (filter is_template (map snd ?prs))" by simp
  have "cov_failures s = [] \<longleftrightarrow> cov_failures no_coverage = [] \<and>
      (\<forall>mr \<in> set ?prs. managed (snd mr) \<longrightarrow> resource_tagged (snd mr) \<and> template_tagged (snd mr))"
    by (rule foldE_flag [OF s]) (rule cover_resource_clean)
  with cf len show "cov_failures c = [] \<longleftrightarrow>
      (\<forall>(m, r) \<in> set ?prs. managed r \<longrightarrow> resource_tagged r \<and> template_tagged r) \<and>
      (truthy eks \<longrightarrow> length (filter is_template (map snd ?prs)) = 1)"
    by (auto simp: no_coverage_def)
  show "snd (planned_resources plan) = None" by (rule none)
qed

lemma managed_dict: "managed r \<Longrightarrow> is_dict r"
  by (simp add: managed_def)

lemma planned_managed:
  assumes "snd (planned_resources plan) = None"
  shows "(\<forall>(m, r) \<in> set (fst (planned_resources plan)). managed r \<longrightarrow> Q m r) \<longleftrightarrow>
    (\<forall>m r. planned_resource plan m r \<longrightarrow> managed r \<longrightarrow> Q m r)"
  using planned_resources_None [OF assms] managed_dict by blast

text \<open>
  The tag gate passes exactly when every managed resource planned anywhere in the module
  tree that creates a cost carries \<open>Project=my-local-platform\<close>, every planned launch
  template propagates the tag to instances, network interfaces and volumes, and, when EKS is
  enabled, exactly one launch template is planned.
\<close>

theorem tag_coverage_exact:
  assumes "project_tag_coverage plan eks = Inr c"
  shows "cov_failures c = [] \<longleftrightarrow>
    (\<forall>m r. planned_resource plan m r \<longrightarrow> managed r \<longrightarrow> resource_tagged r \<and> template_tagged r) \<and>
    (truthy eks \<longrightarrow> length (filter is_template (map snd (fst (planned_resources plan)))) = 1)"
  unfolding coverage_clean(2) [OF assms]
    planned_managed [OF coverage_clean(1) [OF assms],
      where Q = "\<lambda>m r. resource_tagged r \<and> template_tagged r"]
  by (rule refl)

section \<open>EKS dependencies\<close>

definition node_group :: "json \<Rightarrow> bool" where
  "node_group r \<longleftrightarrow> managed r \<and> jget r ''type'' = JStr ''aws_eks_node_group''"

definition eks_cluster :: "json \<Rightarrow> bool" where
  "eks_cluster r \<longleftrightarrow> managed r \<and> jget r ''type'' = JStr ''aws_eks_cluster''"

definition cni_attachment :: "json \<Rightarrow> bool" where
  "cni_attachment r \<longleftrightarrow> managed r \<and> jget r ''type'' = JStr ''aws_iam_role_policy_attachment'' \<and>
     ends_with (py_str (jget_or (resource_values r) ''policy_arn'' (JStr ''''))) cni_policy_suffix"

definition addon_name :: "json \<Rightarrow> string" where
  "addon_name r = py_str (py_or (jget (resource_values r) ''addon_name'') (jget r ''index''))"

definition eks_addon :: "json \<Rightarrow> bool" where
  "eks_addon r \<longleftrightarrow> managed r \<and> jget r ''type'' = JStr ''aws_eks_addon''"

definition module_address :: "json \<Rightarrow> json" where
  "module_address m = jget_or m ''address'' (JStr '''')"

lemmas eks_kind_defs = node_group_def eks_cluster_def cni_attachment_def eks_addon_def addon_name_def
  resource_values_def module_address_def

lemma review_resource_fields:
  assumes "review_resource s m r = Inr t"
  shows "clusters t = clusters s @ (if eks_cluster r then [resource_values r] else [])"
    and "node_groups t = node_groups s @ (if node_group r then [module_address m] else [])"
    and "cni_modules t = cni_modules s @ (if cni_attachment r then [module_address m] else [])"
    and "map_of (addons t) = (if eks_addon r
           then (map_of (addons s))(addon_name r \<mapsto>
             (jget r ''name'', known_version (jget (resource_values r) ''addon_version'')))
           else map_of (addons s))"
    and "dup_failures t = [] \<longleftrightarrow> dup_failures s = [] \<and>
           (eks_addon r \<longrightarrow> map_of (addons s) (addon_name r) = None)"
  using assms
  by (auto simp: review_resource_def Let_def eks_kind_defs res_simps bindE_eq_Inr
      simp del: not_None_eq split: if_splits)

lemma concat_if: "concat (map (\<lambda>x. if P x then [f x] else []) xs) = map f (filter P xs)"
  by (induction xs) auto

text \<open>What one enabled review establishes about the planned networking add-ons.\<close>

definition networking_ready :: "json \<Rightarrow> bool" where
  "networking_ready plan \<longleftrightarrow>
     (\<forall>name \<in> set eks_network_addons. \<exists>m r.
        planned_resource plan m r \<and> eks_addon r \<and> addon_name r = name \<and>
        known_version (jget (resource_values r) ''addon_version'') \<noteq> JNull \<and>
        (name = ''vpc-cni'' \<longrightarrow> jget r ''name'' = JStr ''before_compute''))"

lemma addon_origin:
  assumes "foldE (\<lambda>s mr. review_resource s (fst mr) (snd mr)) no_eks prs = Inr t"
    and "map_of (addons t) name = Some (placement, version)"
  shows "\<exists>(m, r) \<in> set prs. eks_addon r \<and> addon_name r = name \<and> jget r ''name'' = placement \<and>
    known_version (jget (resource_values r) ''addon_version'') = version"
proof -
  have "\<exists>mr \<in> set prs. eks_addon (snd mr) \<and> addon_name (snd mr) = name \<and>
    jget (snd mr) ''name'' = placement \<and>
    known_version (jget (resource_values (snd mr)) ''addon_version'') = version"
  proof (rule foldE_origin [OF assms(1), where P = "\<lambda>s. map_of (addons s) name = Some (placement, version)"])
    fix u mr v
    assume r: "review_resource u (fst mr) (snd mr) = Inr v"
      and "map_of (addons v) name = Some (placement, version)"
    then show "map_of (addons u) name = Some (placement, version) \<or>
      (eks_addon (snd mr) \<and> addon_name (snd mr) = name \<and> jget (snd mr) ''name'' = placement \<and>
       known_version (jget (resource_values (snd mr)) ''addon_version'') = version)"
      unfolding review_resource_fields(4) [OF r] by (auto split: if_splits)
  qed (use assms(2) in \<open>simp_all add: no_eks_def\<close>)
  then show ?thesis by auto
qed

lemma review_lists:
  assumes "foldE (\<lambda>s mr. review_resource s (fst mr) (snd mr)) no_eks prs = Inr t"
  shows "clusters t = map (\<lambda>mr. resource_values (snd mr)) (filter (\<lambda>mr. eks_cluster (snd mr)) prs)"
    and "node_groups t = map (\<lambda>mr. module_address (fst mr)) (filter (\<lambda>mr. node_group (snd mr)) prs)"
    and "cni_modules t = map (\<lambda>mr. module_address (fst mr)) (filter (\<lambda>mr. cni_attachment (snd mr)) prs)"
proof -
  have "clusters t = clusters no_eks @
      concat (map (\<lambda>mr. if eks_cluster (snd mr) then [resource_values (snd mr)] else []) prs)"
    by (rule foldE_collect [OF assms]) (rule review_resource_fields)
  then show "clusters t = map (\<lambda>mr. resource_values (snd mr)) (filter (\<lambda>mr. eks_cluster (snd mr)) prs)"
    by (simp add: concat_if no_eks_def)
  have "node_groups t = node_groups no_eks @
      concat (map (\<lambda>mr. if node_group (snd mr) then [module_address (fst mr)] else []) prs)"
    by (rule foldE_collect [OF assms]) (rule review_resource_fields)
  then show "node_groups t = map (\<lambda>mr. module_address (fst mr)) (filter (\<lambda>mr. node_group (snd mr)) prs)"
    by (simp add: concat_if no_eks_def)
  have "cni_modules t = cni_modules no_eks @
      concat (map (\<lambda>mr. if cni_attachment (snd mr) then [module_address (fst mr)] else []) prs)"
    by (rule foldE_collect [OF assms]) (rule review_resource_fields)
  then show "cni_modules t = map (\<lambda>mr. module_address (fst mr)) (filter (\<lambda>mr. cni_attachment (snd mr)) prs)"
    by (simp add: concat_if no_eks_def)
qed

lemma network_failures_nil:
  "network_failures b as = [] \<longleftrightarrow>
     b = JBool True \<or>
     (b = JBool False \<and> (\<forall>name \<in> set eks_network_addons.
        \<exists>placement version. map_of as name = Some (placement, version) \<and> version \<noteq> JNull \<and>
          (name = ''vpc-cni'' \<longrightarrow> placement = JStr ''before_compute'')))"
  by (auto simp: network_failures_def addon_failures_def eks_network_addons_def split: option.splits
      if_splits)

lemma node_group_failures_nil:
  assumes "node_group_failures s = Inr fs"
  shows "fs = [] \<longleftrightarrow> set (node_groups s) \<subseteq> set (cni_modules s)"
proof -
  let ?f = "\<lambda>a. if is_list a \<or> is_dict a then py_raise TypeError
              else Inr (if a \<in> set (cni_modules s) then []
                        else [Msg (''{} node group role lacks AmazonEKS_CNI_Policy; '' @
                                   ''another CNI identity needs a reviewed gate change'')
                                [py_or a (JStr ''root module'')]])"
  from assms obtain fss where all: "mapE ?f (node_groups s) = Inr fss" and fs: "fs = concat fss"
    unfolding node_group_failures_def bindE_eq_Inr by blast
  from all have "\<forall>a \<in> set (node_groups s). \<exists>g. ?f a = Inr g"
    by (auto simp: mapE_eq_Inr dest: list_all2_set1)
  then have "concat fss = [] \<longleftrightarrow> set (node_groups s) \<subseteq> set (cni_modules s)"
    unfolding mapE_concat_nil [OF all] by (auto split: if_splits)
  with fs show ?thesis by simp
qed

lemma review_clean:
  assumes "eks_dependency_review plan eks = Inr rv" and "truthy eks"
  obtains s where "snd (planned_resources plan) = None"
    and "foldE (\<lambda>s mr. review_resource s (fst mr) (snd mr)) no_eks (fst (planned_resources plan)) = Inr s"
    and "rev_failures rv = [] \<longleftrightarrow> dup_failures s = [] \<and> length (clusters s) = 1 \<and>
      network_failures (jget (hd (clusters s)) ''bootstrap_self_managed_addons'') (addons s) = [] \<and>
      node_groups s \<noteq> [] \<and> set (node_groups s) \<subseteq> set (cni_modules s)"
    and "length (clusters s) = 1 \<longrightarrow>
      rev_bootstrap rv = jget (hd (clusters s)) ''bootstrap_self_managed_addons''"
proof -
  from assms obtain s b nf ng where none: "snd (planned_resources plan) = None" and
    s: "foldE (\<lambda>s mr. review_resource s (fst mr) (snd mr)) no_eks (fst (planned_resources plan)) = Inr s" and
    net: "(if length (clusters s) \<noteq> 1
           then Inr (JNull, [Msg ''EKS dependency review expects exactly one planned cluster'' []])
           else bindE (py_get (hd (clusters s)) ''bootstrap_self_managed_addons'' JNull)
                  (\<lambda>b. Inr (b, network_failures b (addons s)))) = Inr (b, nf)" and
    ng: "node_group_failures s = Inr ng" and
    rv: "rev_bootstrap rv = b" "rev_failures rv = dup_failures s @ nf @
                  (if node_groups s = []
                   then [Msg ''EKS dependency review found no managed node group'' []] else []) @ ng"
    by (auto simp: eks_dependency_review_def res_simps)
  from net node_group_failures_nil [OF ng] rv show thesis
    by (intro that [OF none s]) (auto simp: res_simps split: if_splits)
qed

text \<open>
  With EKS enabled, a dependency review without failures establishes that exactly one
  cluster is planned; that the plan says how networking is installed, and, when the cluster
  does not bootstrap it, that every required networking add-on is planned with a known
  version and \<open>vpc-cni\<close> comes up before the nodes; that a managed node group is planned;
  and that each one shares its module with an attachment of the CNI policy.
\<close>

theorem eks_review_sound:
  assumes "eks_dependency_review plan eks = Inr rv" and "truthy eks" and "rev_failures rv = []"
  shows "(\<exists>m r. filter (\<lambda>mr. eks_cluster (snd mr)) (fst (planned_resources plan)) = [(m, r)] \<and>
           (jget (resource_values r) ''bootstrap_self_managed_addons'' = JBool True \<or>
            jget (resource_values r) ''bootstrap_self_managed_addons'' = JBool False \<and>
              networking_ready plan)) \<and>
    (\<exists>m r. planned_resource plan m r \<and> node_group r) \<and>
    (\<forall>m r. planned_resource plan m r \<longrightarrow> node_group r \<longrightarrow>
       (\<exists>m' r'. planned_resource plan m' r' \<and> cni_attachment r' \<and> module_address m' = module_address m))"
proof -
  let ?prs = "fst (planned_resources plan)"
  obtain s where
    none: "snd (planned_resources plan) = None" and
    s: "foldE (\<lambda>s mr. review_resource s (fst mr) (snd mr)) no_eks ?prs = Inr s" and
    iff: "rev_failures rv = [] \<longleftrightarrow> dup_failures s = [] \<and> length (clusters s) = 1 \<and>
      network_failures (jget (hd (clusters s)) ''bootstrap_self_managed_addons'') (addons s) = [] \<and>
      node_groups s \<noteq> [] \<and> set (node_groups s) \<subseteq> set (cni_modules s)"
    by (rule review_clean [OF assms(1,2)])
  have clean: "length (clusters s) = 1"
      "network_failures (jget (hd (clusters s)) ''bootstrap_self_managed_addons'') (addons s) = []"
      "node_groups s \<noteq> []" "set (node_groups s) \<subseteq> set (cni_modules s)"
    using assms(3) unfolding iff by auto
  note planned = planned_resources_None [OF none]
  have addon_planned: "networking_ready plan"
    if all: "\<forall>name \<in> set eks_network_addons.
        \<exists>placement version. map_of (addons s) name = Some (placement, version) \<and> version \<noteq> JNull \<and>
          (name = ''vpc-cni'' \<longrightarrow> placement = JStr ''before_compute'')"
    unfolding networking_ready_def
  proof
    fix name
    assume "name \<in> set eks_network_addons"
    with all obtain p v where a: "map_of (addons s) name = Some (p, v)" and v: "v \<noteq> JNull"
      and p: "name = ''vpc-cni'' \<longrightarrow> p = JStr ''before_compute''" by blast
    from addon_origin [OF s a] obtain m r where
      "(m, r) \<in> set ?prs" "eks_addon r" "addon_name r = name" "jget r ''name'' = p"
      "known_version (jget (resource_values r) ''addon_version'') = v" by auto
    moreover from this planned(2) have "planned_resource plan m r"
      by (simp add: eks_addon_def managed_def)
    ultimately show "\<exists>m r. planned_resource plan m r \<and> eks_addon r \<and> addon_name r = name \<and>
        known_version (jget (resource_values r) ''addon_version'') \<noteq> JNull \<and>
        (name = ''vpc-cni'' \<longrightarrow> jget r ''name'' = JStr ''before_compute'')"
      using v p by blast
  qed
  from clean(1) obtain m r where one: "filter (\<lambda>mr. eks_cluster (snd mr)) ?prs = [(m, r)]"
    by (auto simp: review_lists [OF s] length_Suc_conv)
  then have "hd (clusters s) = resource_values r" by (simp add: review_lists [OF s])
  with clean(2) addon_planned
  have net: "jget (resource_values r) ''bootstrap_self_managed_addons'' = JBool True \<or>
      jget (resource_values r) ''bootstrap_self_managed_addons'' = JBool False \<and> networking_ready plan"
    by (auto simp: network_failures_nil)
  have some: "\<exists>m r. planned_resource plan m r \<and> node_group r"
  proof -
    from clean(3) obtain mr where mr: "mr \<in> set ?prs" "node_group (snd mr)"
      by (auto simp: review_lists [OF s] filter_empty_conv)
    then have "planned_resource plan (fst mr) (snd mr)"
      by (intro planned(2)) (simp_all add: node_group_def managed_dict)
    with mr show ?thesis by blast
  qed
  have "\<exists>m' r'. planned_resource plan m' r' \<and> cni_attachment r' \<and> module_address m' = module_address m"
    if pr: "planned_resource plan m r" and ng: "node_group r" for m r
  proof -
    have "(m, r) \<in> set ?prs" using planned(1) [OF pr] .
    with ng have "module_address m \<in> set (node_groups s)"
      unfolding review_lists [OF s] by force
    with clean(4) obtain mr where mr: "mr \<in> set ?prs" "cni_attachment (snd mr)"
      "module_address (fst mr) = module_address m"
      unfolding review_lists [OF s] by fastforce
    then have "planned_resource plan (fst mr) (snd mr)"
      by (intro planned(2)) (simp_all add: cni_attachment_def managed_dict)
    with mr show ?thesis by blast
  qed
  with one net some show ?thesis by blast
qed

section \<open>The cost gate\<close>

definition flag_of :: "json \<Rightarrow> string \<Rightarrow> bool" where
  "flag_of shape t = truthy (jget shape
     (if t = ''aws_db_instance'' then ''enable_rds''
      else if t = ''aws_msk_serverless_cluster'' then ''enable_msk'' else ''enable_eks''))"

lemma is_enabled_flag:
  assumes "enabled_types shape = Inr en"
  shows "is_enabled en t = Inr b \<longleftrightarrow> t \<in> set hourly_resource_types \<and> b = flag_of shape t"
proof -
  from assms have en: "en = map (\<lambda>t. (t, flag_of shape t)) hourly_resource_types"
    by (clarsimp simp: enabled_types_def bindE_eq_Inr py_index_eq_Inr flag_of_def
        hourly_resource_types_def)
  have "map_of (map (\<lambda>t. (t, f t)) ts) t = (if t \<in> set ts then Some (f t) else None)"
    for f :: "string \<Rightarrow> bool" and ts
    by (induction ts) auto
  then show ?thesis unfolding is_enabled_def en by auto
qed

lemma type_failures_nil:
  "type_failures on planned created t = [] \<longleftrightarrow>
     (if on then planned = 1 else planned = 0 \<and> created = 0)"
  by (simp add: type_failures_def)

definition deletes :: "change \<Rightarrow> bool" where
  "deletes c \<longleftrightarrow> py_str_in ''delete'' (ch_actions c) = Inr True"

text \<open>
  Both checks are gates: the check of a type by its three rules, the check of a change by
  the rule that an enabled resource is not deleted.
\<close>

interpretation types: gate
  "\<lambda>(shape, planned, creates, t). bindE (enabled_types shape) (\<lambda>en. bindE (is_enabled en t) (\<lambda>on.
     Inr (type_failures on (planned t) (creates t) t)))"
  "\<lambda>(shape, planned :: string \<Rightarrow> int, creates :: string \<Rightarrow> int, t).
     if flag_of shape t then planned t = 1 else planned t = 0 \<and> creates t = 0"
  by unfold_locales (auto simp: bindE_eq_Inr is_enabled_flag type_failures_nil split: if_splits)

interpretation deletions: gate
  "\<lambda>(shape, c). bindE (enabled_types shape) (\<lambda>en. delete_failures en c)"
  "\<lambda>(shape, c). \<not> (flag_of shape (str_of (ch_type c)) \<and> deletes c)"
proof unfold_locales
  fix x :: "json \<times> change" and fs
  assume a: "(case x of (shape, c) \<Rightarrow> bindE (enabled_types shape) (\<lambda>en. delete_failures en c)) = Inr fs"
  obtain shape c where x: "x = (shape, c)" by (cases x)
  from a x obtain en where en: "enabled_types shape = Inr en" and d: "delete_failures en c = Inr fs"
    by (auto simp: bindE_eq_Inr)
  show "fs = [] \<longleftrightarrow> (case x of (shape, c) \<Rightarrow> \<not> (flag_of shape (str_of (ch_type c)) \<and> deletes c))"
    using d by (auto simp: x delete_failures_def deletes_def bindE_eq_Inr is_enabled_flag [OF en]
        split: if_splits)
qed

definition within_cost :: "json \<Rightarrow> bool" where
  "within_cost shape \<longleftrightarrow>
     py_lt (jget shape ''maximum_hourly_usd'') (jget shape ''expected_hourly_usd'') = Inr False"

definition within_limits :: "json \<Rightarrow> bool" where
  "within_limits shape \<longleftrightarrow>
     (let eks = jget shape ''eks'' in
      py_lt (JInt 13) (jget (jget shape ''kafka'') ''total_partitions'') = Inr False \<and>
      (truthy (jget shape ''enable_eks'') \<longrightarrow>
         jget eks ''node_capacity_type'' = JStr ''SPOT'' \<and>
         py_lt (JInt 3) (jget eks ''node_maximum'') = Inr False \<and>
         py_lt (jget eks ''node_maximum'') (jget eks ''node_desired'') = Inr False))"

lemma cost_failures_nil: "cost_failures shape = Inr fs \<Longrightarrow> fs = [] \<longleftrightarrow> within_cost shape"
  by (auto simp: cost_failures_def within_cost_def res_simps split: if_splits)

lemma kafka_failures_nil:
  "kafka_failures shape = Inr fs \<Longrightarrow>
     fs = [] \<longleftrightarrow> py_lt (JInt 13) (jget (jget shape ''kafka'') ''total_partitions'') = Inr False"
  by (auto simp: kafka_failures_def res_simps)

lemma eks_limit_failures_nil:
  assumes "eks_limit_failures shape = Inr fs"
  shows "fs = [] \<longleftrightarrow>
    (truthy (jget shape ''enable_eks'') \<longrightarrow>
       jget (jget shape ''eks'') ''node_capacity_type'' = JStr ''SPOT'' \<and>
       py_lt (JInt 3) (jget (jget shape ''eks'') ''node_maximum'') = Inr False \<and>
       py_lt (jget (jget shape ''eks'') ''node_maximum'') (jget (jget shape ''eks'') ''node_desired'')
         = Inr False)"
proof (cases "truthy (jget shape ''enable_eks'')")
  case True
  with assms obtain big more where
    "py_lt (JInt 3) (jget (jget shape ''eks'') ''node_maximum'') = Inr big"
    "py_lt (jget (jget shape ''eks'') ''node_maximum'') (jget (jget shape ''eks'') ''node_desired'') = Inr more"
    "fs = (if jget (jget shape ''eks'') ''node_capacity_type'' \<noteq> JStr ''SPOT''
           then [Msg ''EKS node capacity type is not SPOT'' []] else []) @
          (if big then [Msg ''EKS node maximum {} exceeds 3''
             [jget (jget shape ''eks'') ''node_maximum'']] else []) @
          (if more then [Msg ''EKS desired node count exceeds its maximum'' []] else [])"
    by (auto simp: eks_limit_failures_def bindE_eq_Inr py_index_eq_Inr)
  with True show ?thesis by simp
next
  case False
  with assms show ?thesis by (auto simp: eks_limit_failures_def bindE_eq_Inr py_index_eq_Inr)
qed

lemma gate_failures_nil:
  assumes "gate_failures order shape planned creates changes = Inr fs"
  shows "fs = [] \<longleftrightarrow>
    (\<forall>t \<in> set order. if flag_of shape t then planned t = 1 else planned t = 0 \<and> creates t = 0) \<and>
    (\<forall>c \<in> set changes. \<not> (flag_of shape (str_of (ch_type c)) \<and> deletes c)) \<and>
    within_cost shape \<and> within_limits shape"
proof -
  from assms obtain en ts ds cs ks es where en: "enabled_types shape = Inr en" and
    ts: "mapE (\<lambda>t. bindE (is_enabled en t) (\<lambda>on.
              Inr (type_failures on (planned t) (creates t) t))) order = Inr ts" and
    ds: "mapE (delete_failures en) changes = Inr ds" and
    cs: "cost_failures shape = Inr cs" and ks: "kafka_failures shape = Inr ks" and
    es: "eks_limit_failures shape = Inr es" and fs: "fs = concat ts @ concat ds @ cs @ ks @ es"
    unfolding gate_failures_def bindE_eq_Inr by blast
  have "concat ts = [] \<longleftrightarrow> (\<forall>t \<in> set order.
      if flag_of shape t then planned t = 1 else planned t = 0 \<and> creates t = 0)"
    using types.all_clean [of "map (\<lambda>t. (shape, planned, creates, t)) order" ts] ts
    by (simp add: mapE_map en del: concat_eq_Nil_conv)
  moreover have "concat ds = [] \<longleftrightarrow>
      (\<forall>c \<in> set changes. \<not> (flag_of shape (str_of (ch_type c)) \<and> deletes c))"
    using deletions.all_clean [of "map (Pair shape) changes" ds] ds
    by (simp add: mapE_map en del: concat_eq_Nil_conv)
  ultimately show ?thesis
    unfolding fs append_is_Nil_conv
    using cost_failures_nil [OF cs] kafka_failures_nil [OF ks] eks_limit_failures_nil [OF es]
    unfolding within_limits_def Let_def by blast
qed

text \<open>
  The cost gate is the conjunction of its rules: each hourly resource type is planned
  exactly once when its flag is on and is neither planned nor created when it is off, no
  enabled hourly resource is deleted, the expected hourly cost does not exceed the maximum,
  Kafka stays within 13 partitions, and an enabled EKS uses SPOT capacity, at most three
  nodes, and no more desired than maximal nodes.
\<close>

theorem cost_gate_exact:
  assumes "gate_failures order shape planned creates changes = Inr fs"
    and "set order = set hourly_resource_types"
  shows "fs = [] \<longleftrightarrow>
    (\<forall>t \<in> set hourly_resource_types.
       if flag_of shape t then planned t = 1 else planned t = 0 \<and> creates t = 0) \<and>
    (\<forall>c \<in> set changes. \<not> (flag_of shape (str_of (ch_type c)) \<and> deletes c)) \<and>
    within_cost shape \<and> within_limits shape"
  using gate_failures_nil [OF assms(1)] assms(2) by simp

section \<open>The node group shape\<close>

text \<open>The three values of a planned node group that the reported shape also gives.\<close>

definition matches_shape :: "json \<Rightarrow> json \<Rightarrow> bool" where
  "matches_shape shape r \<longleftrightarrow>
     (let eks = jget shape ''eks''; v = resource_values r; sc = scaling_of (jget v ''scaling_config'') in
      py_eq (jget sc ''desired_size'') (jget eks ''node_desired'') \<and>
      py_eq (jget sc ''max_size'') (jget eks ''node_maximum'') \<and>
      py_eq (jget v ''capacity_type'') (jget eks ''node_capacity_type''))"

definition shape_of :: "json \<Rightarrow> (string \<times> json) list" where
  "shape_of shape =
     [(''desired_size'', jget (jget shape ''eks'') ''node_desired''),
      (''max_size'', jget (jget shape ''eks'') ''node_maximum''),
      (''capacity_type'', jget (jget shape ''eks'') ''node_capacity_type'')]"

interpretation node_shape: gate
  "\<lambda>(shape, mr). shape_mismatches (shape_of shape) (snd mr)"
  "\<lambda>(shape, mr :: json \<times> json). node_group (snd mr) \<longrightarrow> matches_shape shape (snd mr)"
proof unfold_locales
  fix x :: "json \<times> json \<times> json" and fs
  assume a: "(case x of (shape, mr) \<Rightarrow> shape_mismatches (shape_of shape) (snd mr)) = Inr fs"
  obtain shape m r where x: "x = (shape, m, r)" by (cases x)
  show "fs = [] \<longleftrightarrow> (case x of (shape, mr) \<Rightarrow> node_group (snd mr) \<longrightarrow> matches_shape shape (snd mr))"
    using a by (auto simp: x shape_mismatches_def shape_of_def node_group_def matches_shape_def
        resource_values_def Let_def res_simps split: if_splits)
qed

lemma node_group_shape_nil:
  assumes "node_group_shape_failures plan shape = Inr fs" and "truthy (jget shape ''enable_eks'')"
  shows "snd (planned_resources plan) = None"
    and "fs = [] \<longleftrightarrow>
      (\<forall>m r. planned_resource plan m r \<longrightarrow> node_group r \<longrightarrow> matches_shape shape r)"
proof -
  from assms have none: "snd (planned_resources plan) = None" and
    loop: "foldE (\<lambda>fs mr. bindE (shape_mismatches (shape_of shape) (snd mr)) (\<lambda>new. Inr (fs @ new)))
       [] (fst (planned_resources plan)) = Inr fs"
    by (auto simp: node_group_shape_failures_def shape_of_def res_simps)
  have "foldE (\<lambda>fs x. bindE (case x of (shape, mr) \<Rightarrow> shape_mismatches (shape_of shape) (snd mr))
      (\<lambda>new. Inr (fs @ new))) [] (map (Pair shape) prs) =
    foldE (\<lambda>fs mr. bindE (shape_mismatches (shape_of shape) (snd mr)) (\<lambda>new. Inr (fs @ new))) [] prs"
    for prs :: "(json \<times> json) list"
    by (simp add: foldE_map)
  from node_shape.loop_clean [of "[]" "map (Pair shape) (fst (planned_resources plan))" fs, unfolded this, OF loop]
  have "fs = [] \<longleftrightarrow> (\<forall>(m, r) \<in> set (fst (planned_resources plan)). node_group r \<longrightarrow> matches_shape shape r)"
    by auto
  moreover have "\<dots> \<longleftrightarrow> (\<forall>(m, r) \<in> set (fst (planned_resources plan)).
      managed r \<longrightarrow> node_group r \<longrightarrow> matches_shape shape r)"
    by (auto simp: node_group_def)
  ultimately show "fs = [] \<longleftrightarrow>
      (\<forall>m r. planned_resource plan m r \<longrightarrow> node_group r \<longrightarrow> matches_shape shape r)"
    unfolding planned_managed [OF none, where Q = "\<lambda>m r. node_group r \<longrightarrow> matches_shape shape r"]
    by (auto simp: node_group_def)
  show "snd (planned_resources plan) = None" by (rule none)
qed

text \<open>
  With EKS enabled, the shape check passes exactly when every managed node group planned
  anywhere in the module tree has the desired size, the maximum size and the capacity type
  that the reported shape states; a missing or malformed scaling block counts as a mismatch
  unless the shape itself lacks the value.
\<close>

theorem node_group_shape_exact:
  assumes "node_group_shape_failures plan shape = Inr fs" and "truthy (jget shape ''enable_eks'')"
  shows "fs = [] \<longleftrightarrow>
    (\<forall>m r. planned_resource plan m r \<longrightarrow> node_group r \<longrightarrow> matches_shape shape r)"
  by (rule node_group_shape_nil(2) [OF assms])

section \<open>The whole gate\<close>

text \<open>What a plan that passes is known to be.\<close>

definition safe_counts :: "json \<Rightarrow> json \<Rightarrow> type_counts \<Rightarrow> bool" where
  "safe_counts plan shape created \<longleftrightarrow>
     (\<forall>t \<in> set hourly_resource_types.
        let n = length (filter (\<lambda>mr. jget (snd mr) ''type'' = JStr t) (fst (planned_resources plan))) in
        if flag_of shape t then n = 1 else n = 0 \<and> count_of created t = 0)"

lemma counted:
  assumes "planned_resource_type_counts plan = Inr counts"
  shows "count_of counts t =
    int (length (filter (\<lambda>mr. jget (snd mr) ''type'' = JStr t) (fst (planned_resources plan))))"
proof -
  from assms obtain cs where
    loop: "foldE (\<lambda>cs mr. bindE (py_index (snd mr) ''type'') (bump_count cs)) []
             (fst (planned_resources plan)) = Inr cs"
    and sorted: "py_sorted fst cs = Inr counts"
    by (auto simp: planned_resource_type_counts_def res_simps)
  have "map_of counts = map_of cs"
    by (rule map_of_sorted [OF sorted counts_loop(2) [OF loop]])
  then show ?thesis using counts_loop(1) [OF loop, of t] by (simp add: count_of_def)
qed

text \<open>
  C1. When the script exits with 0, the plan was complete and it is safe in every respect the
  gate is there for: the counts of the hourly resources agree with the flags of the reported
  shape, the expected cost and the sizes stay within their limits, every planned managed
  resource that costs money is tagged, and, with EKS enabled, every planned node group has
  the reported shape and the dependency review found nothing. The exit code does not depend
  on the order in which Python iterates over the set of hourly types.
\<close>

theorem plan_gate_sound:
  assumes "plan_gate order plan = Inr rep" and "set order = set hourly_resource_types"
    and "plan_exit rep = 0"
  shows "jget plan ''complete'' = JBool True \<and>
    safe_counts plan (rep_shape rep) (rep_created rep) \<and>
    within_cost (rep_shape rep) \<and> within_limits (rep_shape rep) \<and>
    (\<forall>c \<in> set (rep_changes rep). \<not> (flag_of (rep_shape rep) (str_of (ch_type c)) \<and> deletes c)) \<and>
    (\<forall>m r. planned_resource plan m r \<longrightarrow> managed r \<longrightarrow> resource_tagged r \<and> template_tagged r) \<and>
    (truthy (jget (rep_shape rep) ''enable_eks'') \<longrightarrow>
       (\<forall>m r. planned_resource plan m r \<longrightarrow> node_group r \<longrightarrow> matches_shape (rep_shape rep) r) \<and>
       rev_failures (rep_dependencies rep) = [])"
proof -
  let ?shape = "rep_shape rep"
  from assms(1) obtain fs ss where
    complete: "jget plan ''complete'' = JBool True" and
    planned: "planned_resource_type_counts plan = Inr (rep_planned rep)" and
    gf: "gate_failures order ?shape (hourly_counts (rep_planned rep)) (hourly_counts (rep_created rep))
           (rep_changes rep) = Inr fs" and
    ss: "node_group_shape_failures plan ?shape = Inr ss" and
    cov: "project_tag_coverage plan (jget ?shape ''enable_eks'') = Inr (rep_coverage rep)" and
    all: "rep_failures rep = fs @ ss @ cov_failures (rep_coverage rep) @
            rev_failures (rep_dependencies rep)"
    unfolding plan_gate_def Let_def bindE_eq_Inr if_Inl_eq_Inr py_get_eq_Inr py_index_eq_Inr
    by fastforce
  from assms(3) all have nil: "fs = []" "ss = []" "cov_failures (rep_coverage rep) = []"
    "rev_failures (rep_dependencies rep) = []"
    by (auto simp: plan_exit_def split: if_splits)
  from gate_failures_nil [OF gf] nil(1) assms(2)
  have rules: "\<forall>t \<in> set hourly_resource_types. if flag_of ?shape t then hourly_counts (rep_planned rep) t = 1
      else hourly_counts (rep_planned rep) t = 0 \<and> hourly_counts (rep_created rep) t = 0"
    and rest: "\<forall>c \<in> set (rep_changes rep). \<not> (flag_of ?shape (str_of (ch_type c)) \<and> deletes c)"
      "within_cost ?shape" "within_limits ?shape"
    by simp_all
  have "safe_counts plan ?shape (rep_created rep)"
    unfolding safe_counts_def Let_def
  proof
    fix t
    assume t: "t \<in> set hourly_resource_types"
    with rules have "if flag_of ?shape t then hourly_counts (rep_planned rep) t = 1
      else hourly_counts (rep_planned rep) t = 0 \<and> hourly_counts (rep_created rep) t = 0" by blast
    with t counted [OF planned, of t]
    show "if flag_of ?shape t then length (filter (\<lambda>mr. jget (snd mr) ''type'' = JStr t)
        (fst (planned_resources plan))) = 1
      else length (filter (\<lambda>mr. jget (snd mr) ''type'' = JStr t) (fst (planned_resources plan))) = 0 \<and>
        count_of (rep_created rep) t = 0"
      by (auto simp: hourly_counts_def split: if_splits)
  qed
  moreover have "\<forall>m r. planned_resource plan m r \<longrightarrow> managed r \<longrightarrow> resource_tagged r \<and> template_tagged r"
    using coverage_clean [OF cov] nil(3)
      planned_managed [where Q = "\<lambda>m r. resource_tagged r \<and> template_tagged r"] by blast
  moreover have "\<forall>m r. planned_resource plan m r \<longrightarrow> node_group r \<longrightarrow> matches_shape ?shape r"
    if "truthy (jget ?shape ''enable_eks'')"
    using node_group_shape_nil(2) [OF ss that] nil(2) by blast
  ultimately show ?thesis using complete rest nil(4) by blast
qed

lemma gate_failures_order:
  assumes "mset order = mset order'" and "set order \<subseteq> set hourly_resource_types"
  shows "rel_sum (=) (\<lambda>fs fs'. mset fs = mset fs')
    (gate_failures order shape planned creates changes)
    (gate_failures order' shape planned creates changes)"
  unfolding gate_failures_def
proof (rule bindE_rel [where R = "(=)"])
  fix en en'
  assume en: "enabled_types shape = Inr en" and "en = en'"
  let ?f = "\<lambda>t. bindE (is_enabled en t) (\<lambda>on. Inr (type_failures on (planned t) (creates t) t))"
  let ?g = "\<lambda>t. type_failures (flag_of shape t) (planned t) (creates t) t"
  have f: "mapE ?f ts = Inr (map ?g ts)" if "set ts \<subseteq> set hourly_resource_types" for ts
  proof (rule mapE_all_Inr)
    fix t
    assume "t \<in> set ts"
    with that have "is_enabled en t = Inr (flag_of shape t)"
      using is_enabled_flag [OF en] by blast
    then show "?f t = Inr (?g t)" by simp
  qed
  have "set order = set order'" using assms(1) by (metis set_mset_mset)
  with assms(2) have m: "mapE ?f order = Inr (map ?g order)" "mapE ?f order' = Inr (map ?g order')"
    by (simp_all add: f)
  have "mset (concat (map ?g ts)) = \<Sum>\<^sub># (image_mset (\<lambda>t. mset (?g t)) (mset ts))" for ts
    by (induction ts) auto
  then have eq: "mset (concat (map ?g order)) = mset (concat (map ?g order'))"
    using assms(1) by simp
  show "rel_sum (=) (\<lambda>fs fs'. mset fs = mset fs')
     (bindE (mapE ?f order) (\<lambda>types. bindE (mapE (delete_failures en) changes) (\<lambda>deletes.
        bindE (cost_failures shape) (\<lambda>cost. bindE (kafka_failures shape) (\<lambda>kafka.
        bindE (eks_limit_failures shape) (\<lambda>eks. Inr (concat types @ concat deletes @ cost @ kafka @ eks)))))))
     (bindE (mapE (\<lambda>t. bindE (is_enabled en' t) (\<lambda>on. Inr (type_failures on (planned t) (creates t) t))) order')
       (\<lambda>types. bindE (mapE (delete_failures en') changes) (\<lambda>deletes.
        bindE (cost_failures shape) (\<lambda>cost. bindE (kafka_failures shape) (\<lambda>kafka.
        bindE (eks_limit_failures shape) (\<lambda>eks. Inr (concat types @ concat deletes @ cost @ kafka @ eks)))))))"
    unfolding \<open>en = en'\<close> [symmetric] m bindE_Inr
    by (intro bindE_rel [where R = "(=)"] rel_sum_same) (auto simp: eq)
qed (simp add: rel_sum_same)

text \<open>Two outcomes of the gate that differ at most in the order of the failures.\<close>

definition same_outcome :: "plan_report res \<Rightarrow> plan_report res \<Rightarrow> bool" where
  "same_outcome =
     rel_sum (=) (\<lambda>r r'. mset (rep_failures r) = mset (rep_failures r') \<and>
       r'\<lparr>rep_failures := rep_failures r\<rparr> = r)"

lemma same_outcome_bind:
  "(\<And>x. m = Inr x \<Longrightarrow> same_outcome (f x) (g x)) \<Longrightarrow> same_outcome (bindE m f) (bindE m g)"
  unfolding same_outcome_def by (rule bindE_rel [where R = "(=)"]) (auto intro: rel_sum_same)

text \<open>
  Two runs of the gate over the same plan that iterate over the set of hourly types in
  different orders agree: either both fail with the same exception, or both write the same
  report up to the order of its failures, so the exit code is the same.
\<close>

theorem plan_gate_order_irrelevant:
  assumes "mset order = mset order'" and "set order = set hourly_resource_types"
  shows "same_outcome (plan_gate order plan) (plan_gate order' plan)"
proof -
  have step: "same_outcome
      (bindE (gate_failures order shape planned creates changes) k)
      (bindE (gate_failures order' shape planned creates changes) k)"
    if "\<And>fs fs'. mset fs = mset fs' \<Longrightarrow> same_outcome (k fs) (k fs')" for shape planned creates changes k
    unfolding same_outcome_def
    by (rule bindE_rel [OF gate_failures_order [OF assms(1)]])
       (use assms(2) that in \<open>auto simp: same_outcome_def\<close>)
  have raised: "same_outcome (Inl e) (Inl e)" for e
    by (simp add: same_outcome_def)
  have branch: "same_outcome a a' \<Longrightarrow> same_outcome b b' \<Longrightarrow>
      same_outcome (if c then a else b) (if c then a' else b')" for c a a' b b'
    by simp
  show ?thesis
    unfolding plan_gate_def Let_def
    by (intro same_outcome_bind branch raised step) (simp add: same_outcome_def)
qed

section \<open>A plan that passes\<close>

definition sample_resource :: "string \<Rightarrow> string \<Rightarrow> json \<Rightarrow> json" where
  "sample_resource type name values =
     JObj [(''address'', JStr (type @ ''.'' @ name)), (''mode'', JStr ''managed''),
           (''type'', JStr type), (''name'', JStr name), (''values'', values)]"

definition sample_tags :: json where
  "sample_tags = JObj [(''Project'', JStr ''my-local-platform'')]"

definition sample_template_tags :: json where
  "sample_template_tags =
     JArr (map (\<lambda>t. JObj [(''resource_type'', JStr t), (''tags'', sample_tags)]) launch_types)"

definition sample_addon :: "string \<Rightarrow> json" where
  "sample_addon name =
     sample_resource ''aws_eks_addon'' (if name = ''vpc-cni'' then ''before_compute'' else ''this'')
       (JObj [(''addon_name'', JStr name), (''addon_version'', JStr ''v1'')])"

definition sample_group :: json where
  "sample_group = sample_resource ''aws_eks_node_group'' ''this''
     (JObj [(''tags_all'', sample_tags), (''capacity_type'', JStr ''SPOT''),
            (''scaling_config'', JArr [JObj [(''desired_size'', JInt 3), (''max_size'', JInt 3)]])])"

definition sample_shape :: json where
  "sample_shape = JObj
     [(''enable_rds'', JBool False), (''enable_eks'', JBool True), (''enable_msk'', JBool False),
      (''expected_hourly_usd'', JFloat (Fin (Dec False 25 (- 2)))), (''maximum_hourly_usd'', JInt 1),
      (''kafka'', JObj [(''total_partitions'', JInt 13)]),
      (''eks'', JObj [(''node_desired'', JInt 3), (''node_maximum'', JInt 3),
                      (''node_capacity_type'', JStr ''SPOT'')])]"

definition sample_plan :: json where
  "sample_plan = JObj
     [(''complete'', JBool True),
      (''planned_values'', JObj
        [(''outputs'', JObj [(''runtime_shape'', JObj [(''value'', sample_shape)]),
                             (''runtime_budget_name'', JObj [(''value'', JStr ''m4'')])]),
         (''root_module'', JObj
           [(''resources'', JArr [sample_resource ''aws_nat_gateway'' ''this''
                                    (JObj [(''tags_all'', sample_tags)])]),
            (''child_modules'', JArr [JObj
              [(''address'', JStr ''module.eks''),
               (''resources'', JArr
                  ([sample_resource ''aws_eks_cluster'' ''this''
                      (JObj [(''tags_all'', sample_tags), (''bootstrap_self_managed_addons'', JBool False)]),
                    sample_group,
                    sample_resource ''aws_iam_role_policy_attachment'' ''cni''
                      (JObj [(''policy_arn'', JStr ''arn:aws:iam::aws:policy/AmazonEKS_CNI_Policy'')]),
                    sample_resource ''aws_launch_template'' ''this''
                      (JObj [(''tag_specifications'', sample_template_tags)])] @
                   map sample_addon eks_network_addons))]])])])]"

lemma is_ok_projr: "is_ok m \<Longrightarrow> m = Inr (projr m)"
  by (cases m) auto

definition sample_report :: plan_report where
  "sample_report = projr (plan_gate hourly_resource_types sample_plan)"

lemma sample_exit:
  "case plan_gate hourly_resource_types sample_plan of Inl _ \<Rightarrow> False | Inr r \<Rightarrow> plan_exit r = 0"
  by code_simp

lemma sample_passes:
  "plan_gate hourly_resource_types sample_plan = Inr sample_report" "plan_exit sample_report = 0"
  using sample_exit by (auto simp: sample_report_def split: sum.splits)

lemma plan_gate_sound_witness:
  "plan_exit sample_report = 0 \<and> within_cost (rep_shape sample_report) \<and>
   (\<nexists>m r. planned_resource sample_plan m r \<and> managed r \<and> \<not> resource_tagged r)"
  using plan_gate_sound [OF sample_passes(1) refl sample_passes(2)] sample_passes(2) by blast

lemma planned_counts_correct_witness:
  "is_ok (planned_resource_type_counts sample_plan) \<and>
   count_of (projr (planned_resource_type_counts sample_plan)) ''aws_eks_addon'' =
     int (length (filter (\<lambda>mr. jget (snd mr) ''type'' = JStr ''aws_eks_addon'')
       (fst (planned_resources sample_plan))))"
proof -
  have ok: "is_ok (planned_resource_type_counts sample_plan)" by code_simp
  from ok planned_counts_correct [OF is_ok_projr [OF ok]] show ?thesis by blast
qed

lemma tag_coverage_exact_witness:
  "\<exists>c. project_tag_coverage sample_plan (JBool True) = Inr c \<and> cov_failures c = [] \<and>
    length (filter is_template (map snd (fst (planned_resources sample_plan)))) = 1"
proof -
  have ok: "case project_tag_coverage sample_plan (JBool True) of Inl _ \<Rightarrow> False | Inr c \<Rightarrow> cov_failures c = []"
    by code_simp
  then obtain c where c: "project_tag_coverage sample_plan (JBool True) = Inr c" "cov_failures c = []"
    by (auto split: sum.splits)
  with tag_coverage_exact [OF c(1)] show ?thesis by auto
qed

lemma eks_review_sound_witness:
  "\<exists>rv. eks_dependency_review sample_plan (JBool True) = Inr rv \<and> rev_failures rv = [] \<and>
    (\<exists>m r. planned_resource sample_plan m r \<and> node_group r)"
proof -
  have "case eks_dependency_review sample_plan (JBool True) of Inl _ \<Rightarrow> False | Inr rv \<Rightarrow> rev_failures rv = []"
    by code_simp
  then obtain rv where rv: "eks_dependency_review sample_plan (JBool True) = Inr rv" "rev_failures rv = []"
    by (auto split: sum.splits)
  with eks_review_sound [OF rv(1) _ rv(2)] show ?thesis by simp
qed

lemma cost_gate_exact_witness:
  "gate_failures hourly_resource_types sample_shape (\<lambda>_. 0) (\<lambda>_. 0) [] \<noteq> Inr [] \<and>
   is_ok (gate_failures hourly_resource_types sample_shape (\<lambda>_. 0) (\<lambda>_. 0) []) \<and>
   flag_of sample_shape ''aws_nat_gateway''"
proof -
  let ?g = "gate_failures hourly_resource_types sample_shape (\<lambda>_. 0) (\<lambda>_. 0) []"
  have ok: "is_ok ?g" and flag: "flag_of sample_shape ''aws_nat_gateway''" by code_simp+
  have "projr ?g \<noteq> []"
    using cost_gate_exact [OF is_ok_projr [OF ok] refl] flag
    by (auto simp: hourly_resource_types_def)
  with ok flag show ?thesis by (cases ?g) auto
qed

lemma node_group_shape_exact_witness:
  "node_group_shape_failures sample_plan sample_shape = Inr [] \<and>
    (\<nexists>m r. planned_resource sample_plan m r \<and> node_group r \<and> \<not> matches_shape sample_shape r)"
proof -
  have "node_group_shape_failures sample_plan sample_shape = Inr []" by code_simp
  moreover have "truthy (jget sample_shape ''enable_eks'')" by code_simp
  ultimately show ?thesis using node_group_shape_exact [of sample_plan sample_shape "[]"] by blast
qed

lemma plan_gate_order_irrelevant_witness:
  "same_outcome (plan_gate hourly_resource_types sample_plan)
     (plan_gate (rev hourly_resource_types) sample_plan)"
  by (rule plan_gate_order_irrelevant) simp_all

end
