(* ===== verification/Py_Clock.thy ===== *)
theory Py_Clock
  imports Py_Value
begin

text \<open>
  Dates and times as the scripts use them: always UTC, read with
  \<open>strptime(s, "%Y-%m-%dT%H:%M:%SZ")\<close> (a time stamp) or \<open>"%Y%m%dT%H%M%SZ"\<close>
  (a run id) and printed with the same formats. A parsed time is the record of its fields;
  the clock \<open>datetime.now\<close> has microseconds, so instants are compared in microseconds.
  \<open>%Y\<close> of a year below 1000 prints without leading zeros, as the C library does.
\<close>

section \<open>The calendar\<close>

definition is_leap :: "nat \<Rightarrow> bool" where
  "is_leap y \<longleftrightarrow> y mod 4 = 0 \<and> (y mod 100 \<noteq> 0 \<or> y mod 400 = 0)"

definition days_in_month :: "nat \<Rightarrow> nat \<Rightarrow> nat" where
  "days_in_month y m =
     (if m = 2 then (if is_leap y then 29 else 28)
      else if m \<in> {4, 6, 9, 11} then 30 else 31)"

text \<open>Days before January 1st of year \<open>y\<close>, counted from year 1.\<close>

definition days_before_year :: "nat \<Rightarrow> nat" where
  "days_before_year y =
     365 * (y - 1) + (y - 1) div 4 - (y - 1) div 100 + (y - 1) div 400"

definition days_before_month :: "nat \<Rightarrow> nat \<Rightarrow> nat" where
  "days_before_month y m = sum_list (map (days_in_month y) [1..<m])"

definition ordinal :: "nat \<Rightarrow> nat \<Rightarrow> nat \<Rightarrow> nat" where
  "ordinal y m d = days_before_year y + days_before_month y m + d"

lemma century_le: "n div 100 \<le> n div (4 :: nat)"
  by (rule div_le_mono2) simp_all

lemma days_before_year_Suc:
  assumes "0 < y"
  shows "days_before_year (Suc y) = days_before_year y + (if is_leap y then 366 else 365)"
proof -
  obtain n where y: "y = Suc n" using assms by (cases y) auto
  obtain a b c where abc: "n div 4 = a" "n div 100 = b" "n div 400 = c" by blast
  have le: "b \<le> a" using century_le [of n] by (simp add: abc)
  have dvd: "y mod 100 = 0 \<Longrightarrow> y mod 4 = 0" "y mod 400 = 0 \<Longrightarrow> y mod 100 = 0"
    using dvd_trans [of 4 100 y] dvd_trans [of 100 400 y] by (simp_all add: dvd_eq_mod_eq_0)
  have step: "y div 4 = (if y mod 4 = 0 then Suc a else a)"
    "y div 100 = (if y mod 100 = 0 then Suc b else b)"
    "y div 400 = (if y mod 400 = 0 then Suc c else c)"
    by (simp_all only: y div_Suc abc)
  have old: "days_before_year y = 365 * n + a - b + c"
    by (simp only: days_before_year_def y diff_Suc_1 abc)
  have new: "days_before_year (Suc y) = 365 * y + y div 4 - y div 100 + y div 400"
    by (simp only: days_before_year_def diff_Suc_1)
  obtain k where k: "a = b + k" using le by (auto simp: le_iff_add)
  have y365: "365 * y = 365 * n + 365" by (simp add: y)
  consider "y mod 4 \<noteq> 0" "y mod 100 \<noteq> 0" "y mod 400 \<noteq> 0"
    | "y mod 4 = 0" "y mod 100 \<noteq> 0" "y mod 400 \<noteq> 0"
    | "y mod 4 = 0" "y mod 100 = 0" "y mod 400 \<noteq> 0"
    | "y mod 4 = 0" "y mod 100 = 0" "y mod 400 = 0"
    by (metis dvd)
  then show ?thesis
    unfolding old new step is_leap_def k y365 by cases simp_all
qed

lemma days_before_year_mono: "0 < y \<Longrightarrow> y < z \<Longrightarrow> days_before_year y < days_before_year z"
proof (induction z)
  case 0
  then show ?case by simp
next
  case (Suc z)
  then show ?case
    by (cases "y = z") (auto simp: days_before_year_Suc split: if_splits)
qed

lemma days_before_year_bounds:
  "365 * (y - 1) \<le> days_before_year y" "days_before_year (Suc y) \<le> 366 * y"
proof -
  obtain a b c where abc: "(y - 1) div 4 = a" "(y - 1) div 100 = b" "(y - 1) div 400 = c" by blast
  have "b \<le> a" using century_le [of "y - 1"] by (simp only: abc)
  then show "365 * (y - 1) \<le> days_before_year y"
    unfolding days_before_year_def abc by simp
next
  obtain a b c where abc: "y div 4 = a" "y div 100 = b" "y div 400 = c" by blast
  have "b \<le> a" using century_le [of y] by (simp only: abc)
  moreover have "c \<le> b" unfolding abc [symmetric] by (rule div_le_mono2) simp_all
  moreover have "a \<le> y" unfolding abc [symmetric] by (rule div_le_dividend)
  ultimately show "days_before_year (Suc y) \<le> 366 * y"
    unfolding days_before_year_def diff_Suc_1 abc by simp
qed

text \<open>The inverse: the year whose days contain the ordinal, then the month.\<close>

definition year_of :: "nat \<Rightarrow> nat" where
  "year_of n =
     (case find (\<lambda>y. 0 < y \<and> days_before_year y < n \<and> n \<le> days_before_year (Suc y))
             [n div 366..<n div 365 + 2] of
        None \<Rightarrow> 0 | Some y \<Rightarrow> y)"

definition month_of :: "nat \<Rightarrow> nat \<Rightarrow> nat" where
  "month_of y r =
     (case find (\<lambda>m. days_before_month y m < r \<and> r \<le> days_before_month y (Suc m)) [1..<13] of
        None \<Rightarrow> 0 | Some m \<Rightarrow> m)"

lemma find_unique:
  assumes "x \<in> set xs" and "P x" and "\<And>y. P y \<Longrightarrow> y = x"
  shows "find P xs = Some x"
  using assms
proof (induction xs)
  case Nil
  show ?case using Nil.prems(1) by simp
next
  case (Cons a xs)
  show ?case
  proof (cases "P a")
    case True
    then show ?thesis using Cons.prems(3) by simp
  next
    case False
    with Cons.prems(1,2) have "x \<in> set xs" by auto
    then have "find P xs = Some x" by (rule Cons.IH [OF _ Cons.prems(2,3)])
    with False show ?thesis by simp
  qed
qed

lemma year_of_eq:
  assumes "0 < y" and "days_before_year y < n" and "n \<le> days_before_year (Suc y)"
  shows "year_of n = y"
proof -
  have "n \<le> 366 * y" using assms(3) days_before_year_bounds(2) [of y] by linarith
  moreover have "365 * (y - 1) < n" using assms(2) days_before_year_bounds(1) [of y] by linarith
  ultimately have "n div 366 < Suc y" and "y - 1 \<le> n div 365"
    using less_mult_imp_div_less [of n "Suc y" 366] div_le_mono [of "365 * (y - 1)" n 365] by simp_all
  moreover have "a < Suc y \<Longrightarrow> y - 1 \<le> b \<Longrightarrow> y \<in> set [a..<b + 2]" for a b by auto
  ultimately have "y \<in> set [n div 366..<n div 365 + 2]" by blast
  moreover have "z = y"
    if z: "0 < z \<and> days_before_year z < n \<and> n \<le> days_before_year (Suc z)" for z
  proof (rule ccontr)
    assume "z \<noteq> y"
    then consider "Suc z \<le> y" | "Suc y \<le> z" by linarith
    then show False
    proof cases
      case 1
      have "days_before_year (Suc z) \<le> days_before_year y"
        using 1 days_before_year_mono [of "Suc z" y] by (cases "Suc z = y") auto
      with z assms show False by linarith
    next
      case 2
      have "days_before_year (Suc y) \<le> days_before_year z"
        using 2 days_before_year_mono [of "Suc y" z] by (cases "Suc y = z") auto
      with z assms show False by linarith
    qed
  qed
  ultimately have "find (\<lambda>z. 0 < z \<and> days_before_year z < n \<and> n \<le> days_before_year (Suc z))
      [n div 366..<n div 365 + 2] = Some y"
    using assms by (intro find_unique) blast+
  then show ?thesis by (simp only: year_of_def option.case)
qed

lemma days_before_month_Suc:
  "0 < m \<Longrightarrow> days_before_month y (Suc m) = days_before_month y m + days_in_month y m"
  by (simp add: days_before_month_def)

lemma days_before_month_mono: "0 < m \<Longrightarrow> m \<le> k \<Longrightarrow> days_before_month y m \<le> days_before_month y k"
  by (induction k) (auto simp: le_Suc_eq days_before_month_Suc)

lemma month_of_eq:
  assumes "1 \<le> m" and "m \<le> 12" and "1 \<le> d" and "d \<le> days_in_month y m"
  shows "month_of y (days_before_month y m + d) = m"
proof -
  let ?r = "days_before_month y m + d"
  let ?P = "\<lambda>k. days_before_month y k < ?r \<and> ?r \<le> days_before_month y (Suc k)"
  have "month_of y ?r = (case find ?P [1..<13] of None \<Rightarrow> 0 | Some m \<Rightarrow> m)"
    by (simp add: month_of_def)
  also have "find ?P [1..<13] = find (\<lambda>k. 0 < k \<and> ?P k) [1..<13]"
    by (rule find_cong) auto
  also have "\<dots> = Some m"
  proof (rule find_unique)
    show "m \<in> set [1..<13]" using assms by auto
    show "0 < m \<and> ?P m" using assms by (simp add: days_before_month_Suc)
    fix k
    assume k: "0 < k \<and> ?P k"
    show "k = m"
    proof (rule ccontr)
      assume "k \<noteq> m"
      then consider "Suc k \<le> m" | "Suc m \<le> k" by linarith
      then show False
      proof cases
        case 1
        have "days_before_month y (Suc k) \<le> days_before_month y m"
          by (rule days_before_month_mono) (use 1 in auto)
        with k assms show False by linarith
      next
        case 2
        have "days_before_month y (Suc m) \<le> days_before_month y k"
          by (rule days_before_month_mono) (use 2 in auto)
        moreover have "days_before_month y (Suc m) = days_before_month y m + days_in_month y m"
          using assms by (simp add: days_before_month_Suc)
        ultimately show False using k assms by linarith
      qed
    qed
  qed
  finally show ?thesis by simp
qed

lemma days_of_year: "days_before_month y 13 = (if is_leap y then 366 else 365)"
  by (simp add: days_before_month_def days_in_month_def upt_rec)

lemma ordinal_in_year:
  assumes "0 < y" and "1 \<le> m" and "m \<le> 12" and "1 \<le> d" and "d \<le> days_in_month y m"
  shows "days_before_year y < ordinal y m d" and "ordinal y m d \<le> days_before_year (Suc y)"
proof -
  show "days_before_year y < ordinal y m d" using assms by (simp add: ordinal_def)
  have "days_before_month y (Suc m) \<le> days_before_month y 13"
    by (rule days_before_month_mono) (use assms in auto)
  then have "days_before_month y m + d \<le> days_before_month y 13"
    using assms by (simp add: days_before_month_Suc)
  then show "ordinal y m d \<le> days_before_year (Suc y)"
    using assms by (simp add: ordinal_def days_before_year_Suc days_of_year)
qed

section \<open>Dates and times\<close>

record datetime =
  yr :: nat
  mo :: nat
  dy :: nat
  hh :: nat
  mi :: nat
  ss :: nat

definition valid_time :: "datetime \<Rightarrow> bool" where
  "valid_time t \<longleftrightarrow> 1 \<le> yr t \<and> yr t \<le> 9999 \<and> 1 \<le> mo t \<and> mo t \<le> 12 \<and> 1 \<le> dy t \<and>
     dy t \<le> days_in_month (yr t) (mo t) \<and> hh t < 24 \<and> mi t < 60 \<and> ss t < 60"

definition seconds :: "datetime \<Rightarrow> nat" where
  "seconds t = ((ordinal (yr t) (mo t) (dy t) * 24 + hh t) * 60 + mi t) * 60 + ss t"

definition of_seconds :: "nat \<Rightarrow> datetime" where
  "of_seconds s =
     (let day = s div 86400; y = year_of day; r = day - days_before_year y; m = month_of y r
      in \<lparr>yr = y, mo = m, dy = r - days_before_month y m,
          hh = s div 3600 mod 24, mi = s div 60 mod 60, ss = s mod 60\<rparr>)"

text \<open>Instants in microseconds, and the length of a number of minutes.\<close>

definition instant :: "datetime \<Rightarrow> int" where
  "instant t = 1000000 * int (seconds t)"

definition minutes :: "int \<Rightarrow> int" where
  "minutes n = 60000000 * n"

definition plus_minutes :: "datetime \<Rightarrow> nat \<Rightarrow> datetime" where
  "plus_minutes t n = of_seconds (seconds t + 60 * n)"

lemma of_seconds_seconds:
  assumes "valid_time t"
  shows "of_seconds (seconds t) = t"
proof -
  let ?o = "ordinal (yr t) (mo t) (dy t)"
  have h: "hh t < 24" and m: "mi t < 60" and s: "ss t < 60"
    using assms by (simp_all add: valid_time_def)
  have sec: "seconds t mod 60 = ss t" "seconds t div 60 = (?o * 24 + hh t) * 60 + mi t"
    unfolding seconds_def using s by (simp_all only: mod_mult_self3 div_mult_self3 mod_less div_less)
  have min: "seconds t div 60 mod 60 = mi t" "seconds t div 60 div 60 = ?o * 24 + hh t"
    unfolding sec using m by (simp_all only: mod_mult_self3 div_mult_self3 mod_less div_less)
  have hour: "seconds t div 60 div 60 mod 24 = hh t" "seconds t div 60 div 60 div 24 = ?o"
    unfolding min using h by (simp_all only: mod_mult_self3 div_mult_self3 mod_less div_less)
  have d3600: "seconds t div 3600 = seconds t div 60 div 60" by (simp add: div_mult2_eq [symmetric])
  have d86400: "seconds t div 86400 = seconds t div 60 div 60 div 24"
    by (simp add: div_mult2_eq [symmetric])
  have date: "0 < yr t" "1 \<le> mo t" "mo t \<le> 12" "1 \<le> dy t" "dy t \<le> days_in_month (yr t) (mo t)"
    using assms by (simp_all add: valid_time_def)
  have y: "year_of ?o = yr t"
    by (rule year_of_eq [OF date(1)]) (rule ordinal_in_year [OF date])+
  have r: "?o - days_before_year (yr t) = days_before_month (yr t) (mo t) + dy t"
    by (simp add: ordinal_def)
  show ?thesis
    using month_of_eq [OF date(2-5)]
    unfolding of_seconds_def Let_def d86400 d3600 hour y r unfolding min sec(1) by simp
qed

lemma seconds_inject: "valid_time t \<Longrightarrow> valid_time u \<Longrightarrow> seconds t = seconds u \<longleftrightarrow> t = u"
  by (metis of_seconds_seconds)

text \<open>Every day from the first of January of year 1 on is a date, so every time arithmetic result is one.\<close>

lemma month_exists:
  "1 \<le> r \<Longrightarrow> r \<le> days_before_month y 13 \<Longrightarrow>
   \<exists>m d. 1 \<le> m \<and> m \<le> 12 \<and> 1 \<le> d \<and> d \<le> days_in_month y m \<and> days_before_month y m + d = r"
proof (induction r)
  case 0
  then show ?case by simp
next
  case (Suc r)
  show ?case
  proof (cases "r = 0")
    case True
    have "1 \<le> days_in_month y 1" by (simp add: days_in_month_def)
    moreover have "days_before_month y 1 = 0" by (simp add: days_before_month_def)
    ultimately show ?thesis using True by (intro exI [of _ 1]) simp
  next
    case False
    with Suc obtain m d where md: "1 \<le> m" "m \<le> 12" "1 \<le> d" "d \<le> days_in_month y m" "days_before_month y m + d = r"
      by auto
    show ?thesis
    proof (cases "d = days_in_month y m")
      case False
      with md show ?thesis by (intro exI [of _ m] exI [of _ "Suc d"]) simp
    next
      case True
      with md have start: "days_before_month y (Suc m) = r" by (simp add: days_before_month_Suc)
      with Suc.prems have "m \<noteq> 12" by auto
      moreover have "1 \<le> days_in_month y (Suc m)" by (simp add: days_in_month_def)
      ultimately show ?thesis using md start by (intro exI [of _ "Suc m"] exI [of _ 1]) simp
    qed
  qed
qed

lemma year_exists: "1 \<le> n \<Longrightarrow> \<exists>y. 0 < y \<and> days_before_year y < n \<and> n \<le> days_before_year (Suc y)"
proof (induction n)
  case 0
  then show ?case by simp
next
  case (Suc n)
  show ?case
  proof (cases "n = 0")
    case True
    have "days_before_year 1 = 0" "days_before_year (Suc 1) = 365" by (simp_all add: days_before_year_def)
    with True show ?thesis by (intro exI [of _ 1]) simp
  next
    case False
    with Suc obtain y where y: "0 < y" "days_before_year y < n" "n \<le> days_before_year (Suc y)" by auto
    show ?thesis
    proof (cases "n = days_before_year (Suc y)")
      case True
      have "days_before_year (Suc y) < days_before_year (Suc (Suc y))" by (rule days_before_year_mono) simp_all
      with True show ?thesis by (intro exI [of _ "Suc y"]) simp
    next
      case False
      with y show ?thesis by (intro exI [of _ y]) simp
    qed
  qed
qed

lemma date_exists:
  assumes "1 \<le> n"
  obtains y m d where "0 < y" "1 \<le> m" "m \<le> 12" "1 \<le> d" "d \<le> days_in_month y m" "ordinal y m d = n"
proof -
  obtain y where y: "0 < y" "days_before_year y < n" "n \<le> days_before_year (Suc y)" using year_exists [OF assms] by blast
  have "n - days_before_year y \<le> days_before_month y 13"
    using y by (simp add: days_before_year_Suc days_of_year split: if_splits)
  then obtain m d where "1 \<le> m" "m \<le> 12" "1 \<le> d" "d \<le> days_in_month y m"
    "days_before_month y m + d = n - days_before_year y"
    using month_exists [of "n - days_before_year y" y] y(2)
    by (metis One_nat_def Suc_leI zero_less_diff)
  with y show ?thesis by (intro that [of y m d]) (auto simp: ordinal_def)
qed

lemma seconds_of_seconds:
  assumes "86400 \<le> s"
  shows "seconds (of_seconds s) = s"
    and "yr (of_seconds s) \<le> 9999 \<Longrightarrow> valid_time (of_seconds s)"
proof -
  have "1 \<le> s div 86400" using div_le_mono [OF assms, of 86400] by simp
  then obtain y m d where date: "0 < y" "1 \<le> m" "m \<le> 12" "1 \<le> d" "d \<le> days_in_month y m"
    and o: "ordinal y m d = s div 86400"
    by (rule date_exists)
  have year: "year_of (s div 86400) = y"
    unfolding o [symmetric] by (rule year_of_eq [OF date(1)]) (rule ordinal_in_year [OF date])+
  have rest: "s div 86400 - days_before_year y = days_before_month y m + d"
    by (simp add: ordinal_def flip: o)
  have t: "of_seconds s = \<lparr>yr = y, mo = m, dy = d, hh = s div 3600 mod 24, mi = s div 60 mod 60, ss = s mod 60\<rparr>"
    using month_of_eq [OF date(2-5)] unfolding of_seconds_def Let_def year rest by simp
  have "s div 3600 = s div 60 div 60" "s div 86400 = s div 60 div 60 div 24"
    by (simp_all add: div_mult2_eq [symmetric])
  then have "s div 86400 * 24 + s div 3600 mod 24 = s div 60 div 60"
    "s div 60 div 60 * 60 + s div 60 mod 60 = s div 60" "s div 60 * 60 + s mod 60 = s"
    by (metis div_mult_mod_eq)+
  then show "seconds (of_seconds s) = s" by (simp add: seconds_def t o)
  show "yr (of_seconds s) \<le> 9999 \<Longrightarrow> valid_time (of_seconds s)"
    using date by (simp add: t valid_time_def)
qed

lemma seconds_day: "valid_time t \<Longrightarrow> 86400 \<le> seconds t"
proof -
  assume "valid_time t"
  then have "1 \<le> ordinal (yr t) (mo t) (dy t)" by (simp add: valid_time_def ordinal_def)
  then show ?thesis by (simp add: seconds_def)
qed

lemma plus_minutes_seconds: "valid_time t \<Longrightarrow> seconds (plus_minutes t n) = seconds t + 60 * n"
  using seconds_day [of t] by (simp add: plus_minutes_def seconds_of_seconds)

lemma plus_minutes_valid: "valid_time t \<Longrightarrow> yr (plus_minutes t n) \<le> 9999 \<Longrightarrow> valid_time (plus_minutes t n)"
  using seconds_day [of t] by (simp add: plus_minutes_def seconds_of_seconds)

lemma plus_minutes_instant: "valid_time t \<Longrightarrow> instant (plus_minutes t n) = instant t + minutes (int n)"
  by (simp add: instant_def plus_minutes_seconds minutes_def)

section \<open>Text of times\<close>

definition two :: "nat \<Rightarrow> string" where
  "two n = zfill 2 (nat_str n)"

definition stamp_text :: "datetime \<Rightarrow> string" where
  "stamp_text t =
     nat_str (yr t) @ ''-'' @ two (mo t) @ ''-'' @ two (dy t) @ ''T'' @
     two (hh t) @ '':'' @ two (mi t) @ '':'' @ two (ss t) @ ''Z''"

definition run_text :: "datetime \<Rightarrow> string" where
  "run_text t =
     nat_str (yr t) @ two (mo t) @ two (dy t) @ ''T'' @ two (hh t) @ two (mi t) @ two (ss t) @ ''Z''"

text \<open>
  The fields of \<open>strptime\<close>: the year has four digits; the other fields have one or two,
  and \<open>%d\<close> also takes a blank and a digit.
\<close>

definition digits :: "string \<Rightarrow> bool" where
  "digits s = list_all is_digit s"

definition short_field :: "nat \<Rightarrow> nat \<Rightarrow> string \<Rightarrow> bool" where
  "short_field lo hi s \<longleftrightarrow>
     digits s \<and> (length s = 1 \<or> length s = 2) \<and> lo \<le> str_nat s \<and> str_nat s \<le> hi"

definition day_field :: "string \<Rightarrow> bool" where
  "day_field s \<longleftrightarrow> short_field 1 31 s \<or>
     (length s = 2 \<and> hd s = CHR '' '' \<and> short_field 1 9 (tl s))"

definition parse_fields ::
  "string \<Rightarrow> string \<Rightarrow> string \<Rightarrow> string \<Rightarrow> string \<Rightarrow> string \<Rightarrow> datetime option" where
  "parse_fields y m d h i s =
     (if digits y \<and> length y = 4 \<and> short_field 1 12 m \<and> day_field d \<and> short_field 0 23 h \<and>
         short_field 0 59 i \<and> short_field 0 61 s
      then (let t = \<lparr>yr = str_nat y, mo = str_nat m, dy = str_nat d,
                     hh = str_nat h, mi = str_nat i, ss = str_nat s\<rparr>
            in if valid_time t then Some t else None)
      else None)"

text \<open>
  The time stamp format: no field contains a separator, so the match is unique; letters of
  the format match in either case.
\<close>

definition cut :: "string \<Rightarrow> string \<Rightarrow> (string \<times> string) option" where
  "cut seps s =
     (case dropWhile (\<lambda>c. c \<notin> set seps) s of
        [] \<Rightarrow> None
      | _ # rest \<Rightarrow> Some (takeWhile (\<lambda>c. c \<notin> set seps) s, rest))"

definition parse_stamp :: "string \<Rightarrow> datetime option" where
  "parse_stamp s0 =
     Option.bind (cut ''-'' s0) (\<lambda>(y, s1).
     Option.bind (cut ''-'' s1) (\<lambda>(m, s2).
     Option.bind (cut ''Tt'' s2) (\<lambda>(d, s3).
     Option.bind (cut '':'' s3) (\<lambda>(h, s4).
     Option.bind (cut '':'' s4) (\<lambda>(i, s5).
     Option.bind (cut ''Zz'' s5) (\<lambda>(s, rest).
       if rest = [] then parse_fields y m d h i s else None))))))"

lemma cut_here [simp]:
  "(\<forall>c \<in> set f. c \<notin> set seps) \<Longrightarrow> x \<in> set seps \<Longrightarrow> cut seps (f @ x # rest) = Some (f, rest)"
  by (simp add: cut_def takeWhile_append2 dropWhile_append2)

lemma parse_fields_valid: "parse_fields y m d h i s = Some t \<Longrightarrow> valid_time t"
  by (auto simp: parse_fields_def Let_def split: if_splits)

lemma parse_stamp_valid: "parse_stamp s = Some t \<Longrightarrow> valid_time t"
  by (auto simp: parse_stamp_def bind_eq_Some_conv parse_fields_valid split: if_splits prod.splits)

lemma two_digits: "n < 100 \<Longrightarrow> digits (two n)"
  by (auto simp: digits_def two_def zfill_def list_all_iff is_digit_def digits10_def
      dest!: nat_str_digits)

lemma two_length: "n < 100 \<Longrightarrow> length (two n) = 2"
  using nat_str_length_le [of 2 n] by (simp add: two_def)

lemma str_nat_two [simp]: "str_nat (two n) = n"
  by (simp add: two_def)

lemma two_field: "n < 100 \<Longrightarrow> lo \<le> n \<Longrightarrow> n \<le> hi \<Longrightarrow> short_field lo hi (two n)"
  by (simp add: short_field_def two_digits two_length)

lemma year_text:
  assumes "1000 \<le> y" and "y \<le> 9999"
  shows "digits (nat_str y)" and "length (nat_str y) = 4"
proof -
  show "digits (nat_str y)" using nat_str_digits by (auto simp: digits_def list_all_iff)
  have "length (nat_str y) \<le> 4" using nat_str_length_le [of 4 y] assms by simp
  moreover have "\<not> length (nat_str y) \<le> 3"
  proof
    assume "length (nat_str y) \<le> 3"
    then have "(10::nat) ^ length (nat_str y) \<le> 10 ^ 3" by (intro power_increasing) simp_all
    with nat_str_bound [of y] assms show False by simp
  qed
  ultimately show "length (nat_str y) = 4" by linarith
qed

definition full_year :: "datetime \<Rightarrow> bool" where
  "full_year t \<longleftrightarrow> valid_time t \<and> 1000 \<le> yr t"

lemma days_in_month_le: "days_in_month y m \<le> 31"
  by (simp add: days_in_month_def)

lemma full_year_bounds:
  assumes "full_year t"
  shows "1000 \<le> yr t" "yr t \<le> 9999" "mo t \<le> 12" "1 \<le> mo t" "1 \<le> dy t" "dy t \<le> 31"
    "hh t \<le> 23" "mi t \<le> 59" "ss t \<le> 59"
  using assms days_in_month_le [of "yr t" "mo t"] by (auto simp: full_year_def valid_time_def)

lemma valid_time_bounds:
  assumes "valid_time t"
  shows "mo t \<le> 12" "1 \<le> mo t" "1 \<le> dy t" "dy t \<le> 31" "hh t \<le> 23" "mi t \<le> 59" "ss t \<le> 59"
  using assms days_in_month_le [of "yr t" "mo t"] by (auto simp: valid_time_def)

lemma parse_fields_text:
  assumes "valid_time t" and "digits y" and "length y = 4" and "str_nat y = yr t"
  shows "parse_fields y (two (mo t)) (two (dy t)) (two (hh t)) (two (mi t)) (two (ss t)) = Some t"
proof -
  note b = valid_time_bounds [OF assms(1)]
  have "short_field 1 12 (two (mo t))" "day_field (two (dy t))" "short_field 0 23 (two (hh t))"
    "short_field 0 59 (two (mi t))" "short_field 0 61 (two (ss t))"
    using b by (simp_all add: two_field day_field_def)
  moreover have "valid_time \<lparr>yr = yr t, mo = mo t, dy = dy t, hh = hh t, mi = mi t, ss = ss t\<rparr>"
    using assms by (simp add: valid_time_def)
  ultimately show ?thesis
    using assms by (simp add: parse_fields_def Let_def)
qed

lemma digits_no_sep: "digits s \<Longrightarrow> c \<in> set s \<Longrightarrow> c \<notin> set ''-'' \<and> c \<notin> set ''Tt'' \<and> c \<notin> set '':'' \<and> c \<notin> set ''Zz''"
proof -
  assume "digits s" and "c \<in> set s"
  then have "c \<in> set digits10" by (auto simp: digits_def list_all_iff is_digit_def)
  moreover have "\<forall>c \<in> set digits10. c \<notin> set ''-'' \<and> c \<notin> set ''Tt'' \<and> c \<notin> set '':'' \<and> c \<notin> set ''Zz''"
    by (simp add: digits10_def)
  ultimately show ?thesis by blast
qed

lemma parse_stamp_fields:
  assumes "valid_time t" and "digits y" and "length y = 4" and "str_nat y = yr t"
  shows "parse_stamp (y @ ''-'' @ two (mo t) @ ''-'' @ two (dy t) @ ''T'' @
     two (hh t) @ '':'' @ two (mi t) @ '':'' @ two (ss t) @ ''Z'') = Some t"
proof -
  note b = valid_time_bounds [OF assms(1)]
  have d: "digits y" "digits (two (mo t))" "digits (two (dy t))" "digits (two (hh t))"
    "digits (two (mi t))" "digits (two (ss t))"
    using b assms(2) by (simp_all add: two_digits)
  note n = d [THEN digits_no_sep]
  have "cut ''-'' (y @ CHR ''-'' # r) = Some (y, r)"
    "cut ''-'' (two (mo t) @ CHR ''-'' # r) = Some (two (mo t), r)"
    "cut ''Tt'' (two (dy t) @ CHR ''T'' # r) = Some (two (dy t), r)"
    "cut '':'' (two (hh t) @ CHR '':'' # r) = Some (two (hh t), r)"
    "cut '':'' (two (mi t) @ CHR '':'' # r) = Some (two (mi t), r)"
    "cut ''Zz'' (two (ss t) @ CHR ''Z'' # r) = Some (two (ss t), r)" for r
    by (intro cut_here ballI; use n in simp)+
  then show ?thesis by (simp add: parse_stamp_def parse_fields_text [OF assms])
qed

lemma parse_stamp_text:
  assumes "full_year t"
  shows "parse_stamp (stamp_text t) = Some t"
  unfolding stamp_text_def
  using assms full_year_bounds(1,2) [OF assms]
  by (intro parse_stamp_fields) (simp_all add: full_year_def year_text)

section \<open>Run ids\<close>

text \<open>
  \<open>RUN_ID_RE.fullmatch\<close>, then \<open>strptime\<close> with \<open>"%Y%m%dT%H%M%SZ"\<close>. On a string of
  this shape every field must take all the digits it can, so the fields have fixed widths.
\<close>

definition run_shape :: "string \<Rightarrow> bool" where
  "run_shape s \<longleftrightarrow>
     length s = 16 \<and> digits (take 8 s) \<and> s ! 8 = CHR ''T'' \<and> digits (take 6 (drop 9 s)) \<and>
     s ! 15 = CHR ''Z''"

definition parse_run :: "string \<Rightarrow> datetime option" where
  "parse_run s =
     parse_fields (take 4 s) (take 2 (drop 4 s)) (take 2 (drop 6 s)) (take 2 (drop 9 s))
       (take 2 (drop 11 s)) (take 2 (drop 13 s))"

definition check_run_id :: "err_class \<Rightarrow> string \<Rightarrow> string \<Rightarrow> unit res" where
  "check_run_id cls name s =
     (if \<not> run_shape s then raise cls (name @ '' must use UTC YYYYMMDDTHHMMSSZ'') []
      else case parse_run s of
        None \<Rightarrow> raise cls (name @ '' is not a real UTC date and time'') []
      | Some t \<Rightarrow>
          if run_text t \<noteq> s then raise cls (name @ '' is not a canonical UTC timestamp'') []
          else Inr ())"

definition canonical_run_id :: "string \<Rightarrow> bool" where
  "canonical_run_id s \<longleftrightarrow> (\<exists>t. full_year t \<and> run_text t = s)"

lemma run_text_parts:
  assumes "full_year t"
  shows "run_shape (run_text t)" and "parse_run (run_text t) = Some t"
proof -
  note b = full_year_bounds [OF assms]
  have l: "length (nat_str (yr t)) = 4" "length (two (mo t)) = 2" "length (two (dy t)) = 2"
    "length (two (hh t)) = 2" "length (two (mi t)) = 2" "length (two (ss t)) = 2"
    using b year_text [OF b(1,2)] by (simp_all add: two_length)
  have d: "digits (nat_str (yr t))" "digits (two (mo t))" "digits (two (dy t))" "digits (two (hh t))"
    "digits (two (mi t))" "digits (two (ss t))"
    using b year_text [OF b(1,2)] by (simp_all add: two_digits)
  show "run_shape (run_text t)"
    using l d by (simp add: run_shape_def run_text_def nth_append digits_def)
  show "parse_run (run_text t) = Some t"
    using l assms parse_fields_text [of t "nat_str (yr t)"] d(1)
    by (simp add: parse_run_def run_text_def full_year_def)
qed

lemma check_run_id_iff: "check_run_id cls name s = Inr () \<longleftrightarrow> canonical_run_id s"
proof
  assume "check_run_id cls name s = Inr ()"
  then obtain t where sh: "run_shape s" and t: "parse_run s = Some t" and eq: "run_text t = s"
    by (auto simp: check_run_id_def split: if_splits option.splits)
  have v: "valid_time t" using t by (auto simp: parse_run_def dest: parse_fields_valid)
  have "1000 \<le> yr t"
  proof (rule ccontr)
    assume "\<not> 1000 \<le> yr t"
    then have "length (nat_str (yr t)) \<le> 3" using nat_str_length_le [of 3 "yr t"] by simp
    moreover have "length (two (mo t)) = 2" "length (two (dy t)) = 2" "length (two (hh t)) = 2"
      "length (two (mi t)) = 2" "length (two (ss t)) = 2"
      using v days_in_month_le [of "yr t" "mo t"] by (auto simp: valid_time_def intro!: two_length)
    ultimately have "length (run_text t) \<le> 15" by (simp add: run_text_def)
    with sh eq show False by (simp add: run_shape_def)
  qed
  with v eq show "canonical_run_id s" by (auto simp: canonical_run_id_def full_year_def)
next
  assume "canonical_run_id s"
  then obtain t where "full_year t" "run_text t = s" by (auto simp: canonical_run_id_def)
  with run_text_parts [of t] show "check_run_id cls name s = Inr ()" by (auto simp: check_run_id_def)
qed

text \<open>
  Every script validates the run id again, with its own exception and its own wording. The
  contract all copies share: a run id is accepted exactly when it is the text of a real time.
\<close>

locale run_id_validator =
  fixes check :: "string \<Rightarrow> 'e + unit"
  assumes accepts: "check s = Inr () \<longleftrightarrow> canonical_run_id s"
begin

lemma accepted_time: "check s = Inr () \<Longrightarrow> \<exists>t. full_year t \<and> parse_run s = Some t \<and> run_text t = s"
  using run_text_parts by (auto simp: accepts canonical_run_id_def)

lemma accepted_shape: "check s = Inr () \<Longrightarrow> run_shape s"
  using run_text_parts by (auto simp: accepts canonical_run_id_def)

lemma accepts_text: "full_year t \<Longrightarrow> check (run_text t) = Inr ()"
  by (auto simp: accepts canonical_run_id_def)

end

end
