(* ===== verification/Py_Files.thy ===== *)
theory Py_Files
  imports Py_Clock
begin

text \<open>
  The environment the scripts run in: the files below the repository root, the functions of
  the standard library that are not modelled further (JSON parsing, UTF-8 decoding, SHA-256)
  as parameters, and an answer for every command, which may depend on all commands issued
  before. A path is the list of its components; reading follows symbolic links.
\<close>

section \<open>The environment\<close>

type_synonym path = "string list"

datatype content = Bytes string | Directory | Dangling

record node =
  nd_link :: bool
  nd_mode :: nat
  nd_content :: content

record reply =
  returncode :: int
  stdout :: string
  stderr :: string

record event =
  ev_command :: "string list"
  ev_input :: "string option"

record env =
  root_dir :: path
  files :: "path \<Rightarrow> node option"
  outside :: "path \<Rightarrow> path \<Rightarrow> bool"  \<comment> \<open>the second path resolves to a place outside of the first\<close>
  loads :: "string \<Rightarrow> json option"  \<comment> \<open>\<open>json.loads\<close>; \<open>None\<close> is \<open>JSONDecodeError\<close>\<close>
  repeats :: "string \<Rightarrow> bool"  \<comment> \<open>parsing meets an object that repeats a key\<close>
  decode :: "string \<Rightarrow> string option"  \<comment> \<open>UTF-8; \<open>None\<close> is \<open>UnicodeDecodeError\<close>\<close>
  sha256 :: "string \<Rightarrow> string"
  answer :: "event list \<Rightarrow> event \<Rightarrow> reply"

section \<open>Files\<close>

definition regular :: "nat \<Rightarrow> string \<Rightarrow> node" where
  "regular mode b = \<lparr>nd_link = False, nd_mode = mode, nd_content = Bytes b\<rparr>"

lemma regular_simps [simp]: "\<not> nd_link (regular m b)" "nd_mode (regular m b) = m" "nd_content (regular m b) = Bytes b"
  by (simp_all add: regular_def)

definition is_symlink :: "env \<Rightarrow> path \<Rightarrow> bool" where
  "is_symlink w p = (case files w p of None \<Rightarrow> False | Some n \<Rightarrow> nd_link n)"

definition is_file :: "env \<Rightarrow> path \<Rightarrow> bool" where
  "is_file w p = (case files w p of
     Some n \<Rightarrow> (case nd_content n of Bytes _ \<Rightarrow> True | _ \<Rightarrow> False) | None \<Rightarrow> False)"

text \<open>\<open>path.read_bytes()\<close>: \<open>None\<close> inside the result is \<open>FileNotFoundError\<close>.\<close>

definition read_bytes :: "env \<Rightarrow> path \<Rightarrow> string option res" where
  "read_bytes w p =
     (case files w p of
        None \<Rightarrow> Inr None
      | Some n \<Rightarrow> (case nd_content n of
            Bytes b \<Rightarrow> Inr (Some b) | Directory \<Rightarrow> py_raise OSError | Dangling \<Rightarrow> Inr None))"

definition decode_text :: "env \<Rightarrow> string \<Rightarrow> string res" where
  "decode_text w b = (case decode w b of None \<Rightarrow> py_raise ValueError | Some t \<Rightarrow> Inr t)"

text \<open>Text mode translates CR LF and CR to LF.\<close>

fun universal :: "string \<Rightarrow> string" where
  "universal [] = []"
| "universal [c] = [if c = CHR 0x0D then newline else c]"
| "universal (c # d # s) =
     (if c = CHR 0x0D then newline # universal (if d = newline then s else d # s)
      else c # universal (d # s))"

lemma universal_id: "CHR 0x0D \<notin> set s \<Longrightarrow> universal s = s"
  by (induction s rule: universal.induct) auto

definition line_break :: "char \<Rightarrow> bool" where
  "line_break c \<longleftrightarrow> c \<in> {CHR 0x0A, CHR 0x0B, CHR 0x0C, CHR 0x0D, CHR 0x1C, CHR 0x1D, CHR 0x1E, CHR 0x85}"

text \<open>\<open>str.splitlines\<close>.\<close>

fun text_lines :: "string \<Rightarrow> string \<Rightarrow> string list" where
  "text_lines acc [] = (if acc = [] then [] else [acc])"
| "text_lines acc (c # s) =
     (if c = CHR 0x0D then acc # text_lines [] (if s \<noteq> [] \<and> hd s = newline then tl s else s)
      else if line_break c then acc # text_lines [] s
      else text_lines (acc @ [c]) s)"

text \<open>The parts of a text between separators, \<open>s.split(c)\<close>.\<close>

fun split_at :: "char \<Rightarrow> string \<Rightarrow> string list" where
  "split_at sep [] = [[]]"
| "split_at sep (c # s) =
     (if c = sep then [] # split_at sep s
      else (case split_at sep s of [] \<Rightarrow> [[c]] | p # ps \<Rightarrow> (c # p) # ps))"

text \<open>
  \<open>json.loads(path.read_text(encoding="utf-8"))\<close> with the two handlers the scripts write:
  a missing file and text that is not JSON become the script's own errors.
\<close>

definition load_file :: "env \<Rightarrow> exn \<Rightarrow> exn \<Rightarrow> path \<Rightarrow> json res" where
  "load_file w missing invalid p =
     bindE (read_bytes w p) (\<lambda>b.
       case b of
         None \<Rightarrow> Inl missing
       | Some b \<Rightarrow> bindE (decode_text w b) (\<lambda>t.
           case loads w t of None \<Rightarrow> Inl invalid | Some v \<Rightarrow> Inr v))"

definition hash_path :: "env \<Rightarrow> path \<Rightarrow> string res" where
  "hash_path w p =
     bindE (read_bytes w p) (\<lambda>b. case b of None \<Rightarrow> py_raise OSError | Some b \<Rightarrow> Inr (sha256 w b))"

definition path_json :: "path \<Rightarrow> json" where
  "path_json p = JStr (concat (map (\<lambda>c. ''/'' @ c) p))"

definition run_dir :: "env \<Rightarrow> string \<Rightarrow> path" where
  "run_dir w run_id = root_dir w @ [''.evidence'', ''m4'', run_id]"

text \<open>
  The walk from the run directory up to the root that refuses symbolic links: the directory
  itself, \<open>m4\<close> and \<open>.evidence\<close>, in this order.
\<close>

definition run_parents :: "env \<Rightarrow> string \<Rightarrow> path list" where
  "run_parents w run_id =
     [run_dir w run_id, root_dir w @ [''.evidence'', ''m4''], root_dir w @ [''.evidence'']]"

definition no_linked_parent :: "env \<Rightarrow> err_class \<Rightarrow> string \<Rightarrow> unit res" where
  "no_linked_parent w cls run_id =
     foldE (\<lambda>u p. ensure (\<not> is_symlink w p)
       (Err cls ''evidence path contains a symlink: {}'' [path_json p])) () (run_parents w run_id)"

lemma no_linked_parent_iff:
  "no_linked_parent w cls run_id = Inr () \<longleftrightarrow> (\<forall>p \<in> set (run_parents w run_id). \<not> is_symlink w p)"
  unfolding no_linked_parent_def foldE_unit by simp

lemma load_file_Inr:
  "load_file w missing invalid p = Inr v \<longleftrightarrow>
     (\<exists>n b t. files w p = Some n \<and> nd_content n = Bytes b \<and> decode w b = Some t \<and> loads w t = Some v)"
  by (simp add: load_file_def read_bytes_def decode_text_def bindE_def
      split: option.splits content.splits sum.splits)

lemma hash_path_Inr:
  "hash_path w p = Inr h \<longleftrightarrow>
     (\<exists>n b. files w p = Some n \<and> nd_content n = Bytes b \<and> h = sha256 w b)"
  by (auto simp: hash_path_def read_bytes_def bindE_def split: option.splits content.splits sum.splits)

section \<open>Commands\<close>

text \<open>
  A computation that issues commands returns its result with the list of the commands issued
  so far; an exception keeps the commands issued before it.
\<close>

type_synonym 'a io = "env \<Rightarrow> event list \<Rightarrow> 'a res \<times> event list"

definition bindIO :: "'a io \<Rightarrow> ('a \<Rightarrow> 'b io) \<Rightarrow> 'b io" where
  "bindIO m f = (\<lambda>w t. case m w t of (Inl e, u) \<Rightarrow> (Inl e, u) | (Inr x, u) \<Rightarrow> f x w u)"

definition lift :: "'a res \<Rightarrow> 'a io" where
  "lift m = (\<lambda>w t. (m, t))"

definition ask :: "(env \<Rightarrow> 'a res) \<Rightarrow> 'a io" where
  "ask f = (\<lambda>w t. (f w, t))"

definition call :: "string list \<Rightarrow> string option \<Rightarrow> reply io" where
  "call command given =
     (\<lambda>w t. let e = \<lparr>ev_command = command, ev_input = given\<rparr> in (Inr (answer w t e), t @ [e]))"

fun mapIO :: "('x \<Rightarrow> 'a io) \<Rightarrow> 'x list \<Rightarrow> 'a list io" where
  "mapIO f [] = lift (Inr [])"
| "mapIO f (x # xs) = bindIO (f x) (\<lambda>y. bindIO (mapIO f xs) (\<lambda>ys. lift (Inr (y # ys))))"

text \<open>The value a finished computation returns, and the commands it issued.\<close>

definition returns :: "'a io \<Rightarrow> env \<Rightarrow> event list \<Rightarrow> 'a \<Rightarrow> event list \<Rightarrow> bool" where
  "returns m w t x u \<longleftrightarrow> m w t = (Inr x, u)"

named_theorems io_simps "inversion of finished computations"

lemma returns_bind [io_simps]:
  "returns (bindIO m f) w t y v \<longleftrightarrow> (\<exists>x u. returns m w t x u \<and> returns (f x) w u y v)"
  by (auto simp: returns_def bindIO_def split: prod.splits sum.splits)

lemma returns_lift [io_simps]: "returns (lift m) w t x u \<longleftrightarrow> m = Inr x \<and> u = t"
  by (auto simp: returns_def lift_def)

lemma returns_ask [io_simps]: "returns (ask f) w t x u \<longleftrightarrow> f w = Inr x \<and> u = t"
  by (auto simp: returns_def ask_def)

lemma returns_call [io_simps]:
  "returns (call c i) w t x u \<longleftrightarrow>
     x = answer w t \<lparr>ev_command = c, ev_input = i\<rparr> \<and> u = t @ [\<lparr>ev_command = c, ev_input = i\<rparr>]"
  by (auto simp: returns_def call_def Let_def)

lemma returns_if [io_simps]:
  "returns (if c then m else n) w t x u \<longleftrightarrow> (if c then returns m w t x u else returns n w t x u)"
  by simp

text \<open>
  Every command a computation issues, whether it finishes or raises, satisfies \<open>P\<close>. The
  rules follow the structure of a computation, so such a bound is proved by walking over it.
\<close>

definition issues_only :: "(event \<Rightarrow> bool) \<Rightarrow> 'a io \<Rightarrow> bool" where
  "issues_only P m \<longleftrightarrow> (\<forall>w t. \<exists>es. snd (m w t) = t @ es \<and> list_all P es)"

named_theorems io_intros "rules for the commands a computation may issue"

lemma issues_lift [io_intros]: "issues_only P (lift m)"
  by (simp add: issues_only_def lift_def)

lemma issues_ask [io_intros]: "issues_only P (ask f)"
  by (simp add: issues_only_def ask_def)

lemma issues_call [io_intros]: "P \<lparr>ev_command = c, ev_input = i\<rparr> \<Longrightarrow> issues_only P (call c i)"
  by (simp add: issues_only_def call_def Let_def)

lemma issues_bind [io_intros]:
  assumes "issues_only P m" and "\<And>x. issues_only P (f x)"
  shows "issues_only P (bindIO m f)"
  unfolding issues_only_def
proof (intro allI)
  fix w t
  obtain r u where m: "m w t = (r, u)" by (cases "m w t")
  obtain es where es: "u = t @ es" "list_all P es"
    using assms(1) m unfolding issues_only_def by (metis snd_conv)
  show "\<exists>es. snd (bindIO m f w t) = t @ es \<and> list_all P es"
  proof (cases r)
    case (Inl e)
    with m es show ?thesis by (simp add: bindIO_def)
  next
    case (Inr x)
    obtain fs where "snd (f x w u) = u @ fs" "list_all P fs"
      using assms(2) [of x] unfolding issues_only_def by blast
    with m es Inr show ?thesis by (auto simp: bindIO_def)
  qed
qed

lemma issues_if [io_intros]:
  "(c \<Longrightarrow> issues_only P m) \<Longrightarrow> (\<not> c \<Longrightarrow> issues_only P n) \<Longrightarrow> issues_only P (if c then m else n)"
  by simp

lemma issues_case_option [io_intros]:
  "issues_only P m \<Longrightarrow> (\<And>x. issues_only P (f x)) \<Longrightarrow> issues_only P (case opt of None \<Rightarrow> m | Some x \<Rightarrow> f x)"
  by (cases opt) simp_all

lemma issues_mapIO [io_intros]: "(\<And>x. x \<in> set xs \<Longrightarrow> issues_only P (f x)) \<Longrightarrow> issues_only P (mapIO f xs)"
  by (induction xs) (auto intro!: io_intros)

lemma issues_only_trace: "issues_only P m \<Longrightarrow> \<exists>es. snd (m w t) = t @ es \<and> list_all P es"
  by (simp add: issues_only_def)

text \<open>
  The command runner each script has a copy of, with its own exception: a non-zero exit
  raises, \<open>text\<close> strips the output and \<open>json\<close> parses it.
\<close>

fun join_words :: "string list \<Rightarrow> string" where
  "join_words [] = ''''"
| "join_words [x] = x"
| "join_words (x # xs) = x @ '' '' @ join_words xs"

definition runner_result :: "err_class \<Rightarrow> string list \<Rightarrow> string option \<Rightarrow> string io" where
  "runner_result cls command given =
     bindIO (call command given) (\<lambda>r.
     lift (if returncode r \<noteq> 0
           then raise cls ''{} failed: {}'' [JStr (join_words command),
             JStr (if strip (stderr r) = [] then ''no error detail'' else strip (stderr r))]
           else Inr (stdout r)))"

definition runner_text :: "err_class \<Rightarrow> string list \<Rightarrow> string io" where
  "runner_text cls command =
     bindIO (runner_result cls command None) (\<lambda>out.
     bindIO (ask (\<lambda>w. decode_text w out)) (\<lambda>t. lift (Inr (strip t))))"

definition runner_json :: "err_class \<Rightarrow> string list \<Rightarrow> json io" where
  "runner_json cls command =
     bindIO (runner_result cls command None) (\<lambda>out.
     bindIO (ask (\<lambda>w. decode_text w out)) (\<lambda>t.
     ask (\<lambda>w. case loads w t of
        None \<Rightarrow> raise cls ''{} returned invalid JSON'' [JStr (join_words command)]
      | Some v \<Rightarrow> Inr v)))"

lemma issues_runner_result [io_intros]:
  "P \<lparr>ev_command = c, ev_input = i\<rparr> \<Longrightarrow> issues_only P (runner_result cls c i)"
  unfolding runner_result_def by (intro io_intros)

lemma issues_runner_text [io_intros]:
  "P \<lparr>ev_command = c, ev_input = None\<rparr> \<Longrightarrow> issues_only P (runner_text cls c)"
  unfolding runner_text_def by (intro io_intros)

lemma issues_runner_json [io_intros]:
  "P \<lparr>ev_command = c, ev_input = None\<rparr> \<Longrightarrow> issues_only P (runner_json cls c)"
  unfolding runner_json_def by (intro io_intros)

end
