(* ===== verification/Stage_Prices.thy ===== *)
theory Stage_Prices
  imports Py_Clock
begin

text \<open>
  The price check of \<open>scripts/m4-stage.py\<close>: the operator's price input is validated and
  turned into an itemized receipt over a fixed topology, the receipt is printed as Markdown,
  and the GO decision validates the receipt again by recomputing it. Rates are \<open>Decimal\<close>
  values in the default context of 28 digits; \<open>now\<close> is the clock in microseconds.
\<close>

section \<open>Run ids and time stamps\<close>

definition stage_validate_run_id :: "string \<Rightarrow> unit res" where
  "stage_validate_run_id run_id = check_run_id StageError ''run id'' run_id"

interpretation stage_run_id: run_id_validator stage_validate_run_id
  by unfold_locales (simp add: stage_validate_run_id_def check_run_id_iff)

definition parse_recent_utc :: "json \<Rightarrow> string \<Rightarrow> int \<Rightarrow> int \<Rightarrow> datetime res" where
  "parse_recent_utc v description now maximum_age =
     (if \<not> is_str v then raise StageError ''{} must use UTC YYYY-MM-DDTHH:MM:SSZ'' [JStr description]
      else case parse_stamp (str_of v) of
        None \<Rightarrow> raise StageError ''{} must be a real UTC timestamp'' [JStr description]
      | Some checked \<Rightarrow>
          if now + minutes 5 < instant checked
          then raise StageError ''{} is in the future'' [JStr description]
          else if maximum_age < now - instant checked
          then raise StageError ''{} is older than 24 hours'' [JStr description]
          else Inr checked)"

definition one_day :: int where
  "one_day = minutes (24 * 60)"

definition parse_checked_at :: "json \<Rightarrow> int \<Rightarrow> datetime res" where
  "parse_checked_at v now = parse_recent_utc v ''price check time'' now one_day"

section \<open>The price input\<close>

definition price_rate_names :: "string list" where
  "price_rate_names =
     [''msk_serverless_cluster_hour'', ''msk_partition_hour'', ''eks_standard_cluster_hour'',
      ''t3_medium_hour'', ''nat_gateway_hour'', ''public_ipv4_hour'', ''rds_t4g_micro_hour'',
      ''rds_gp3_gb_month'']"

definition price_sources :: "(string \<times> string) list" where
  "price_sources =
     [(''msk'', ''https://aws.amazon.com/msk/pricing/''),
      (''eks'', ''https://aws.amazon.com/eks/pricing/''),
      (''ec2'', ''https://aws.amazon.com/ec2/pricing/on-demand/''),
      (''vpc'', ''https://aws.amazon.com/vpc/pricing/''),
      (''rds'', ''https://aws.amazon.com/rds/postgresql/pricing/'')]"

definition price_sources_json :: json where
  "price_sources_json = JObj (map (\<lambda>(k, u). (k, JStr u)) price_sources)"

definition maximum_hourly_usd :: dec where
  "maximum_hourly_usd = Dec False 125 (- 2)"

definition maximum_total_usd :: dec where
  "maximum_total_usd = Dec False 500 (- 2)"

definition price_template :: "string \<Rightarrow> string \<Rightarrow> json" where
  "price_template run_id commit = JObj
     [(''schema_version'', JInt 1), (''run_id'', JStr run_id), (''source_commit'', JStr commit),
      (''region'', JStr ''us-east-1''), (''currency'', JStr ''USD''), (''confirmed'', JBool False),
      (''checked_at'', JStr ''''), (''checked_by'', JStr ''''), (''sources'', price_sources_json),
      (''rates'', JObj (map (\<lambda>name. (name, JStr '''')) price_rate_names))]"

text \<open>The pattern \<open>[0-9]+(?:\.[0-9]+)?\<close>, matched in full.\<close>

definition decimal_shape :: "string \<Rightarrow> bool" where
  "decimal_shape s =
     (let whole = takeWhile is_digit s; rest = dropWhile is_digit s
      in whole \<noteq> [] \<and>
         (rest = [] \<or> (hd rest = CHR ''.'' \<and> tl rest \<noteq> [] \<and> list_all is_digit (tl rest))))"

definition decimal_rate :: "json \<Rightarrow> string \<Rightarrow> dec res" where
  "decimal_rate v name =
     (if \<not> is_str v \<or> \<not> decimal_shape (str_of v)
      then raise StageError ''price {} must be a non-negative decimal string'' [JStr name]
      else case dec_parse (str_of v) of
        None \<Rightarrow> raise StageError ''price {} is invalid'' [JStr name]
      | Some (Fin d) \<Rightarrow> Inr d
      | Some _ \<Rightarrow> raise StageError ''price {} must be finite'' [JStr name])"

record price_component =
  pc_label :: string
  pc_rate :: string
  pc_quantity :: dec
  pc_divisor :: dec
  pc_unit :: string
  pc_source :: string

definition component :: "string \<Rightarrow> string \<Rightarrow> nat \<Rightarrow> nat \<Rightarrow> string \<Rightarrow> string \<Rightarrow> price_component" where
  "component label rate quantity divisor unit source =
     \<lparr>pc_label = label, pc_rate = rate, pc_quantity = Dec False quantity 0,
      pc_divisor = Dec False divisor 0, pc_unit = unit, pc_source = source\<rparr>"

definition price_components :: "price_component list" where
  "price_components =
     [component ''MSK Serverless cluster'' ''msk_serverless_cluster_hour'' 1 1 ''cluster-hour'' ''msk'',
      component ''MSK partitions'' ''msk_partition_hour'' 13 1 ''partition-hour'' ''msk'',
      component ''EKS standard-support control plane'' ''eks_standard_cluster_hour'' 1 1
        ''cluster-hour'' ''eks'',
      component ''t3.medium on-demand upper bound'' ''t3_medium_hour'' 3 1 ''instance-hour'' ''ec2'',
      component ''NAT gateway'' ''nat_gateway_hour'' 1 1 ''gateway-hour'' ''vpc'',
      component ''NAT public IPv4 address'' ''public_ipv4_hour'' 1 1 ''address-hour'' ''vpc'',
      component ''RDS db.t4g.micro'' ''rds_t4g_micro_hour'' 1 1 ''instance-hour'' ''rds'',
      component ''RDS gp3 storage'' ''rds_gp3_gb_month'' 20 730 ''GB-month'' ''rds'']"

text \<open>
  \<open>rate * quantity / divisor\<close>; the divisors are positive constants, so the division by
  zero of \<open>Decimal\<close> does not arise.
\<close>

definition hourly_of :: "(string \<Rightarrow> dec) \<Rightarrow> price_component \<Rightarrow> dec" where
  "hourly_of rates c =
     (case dec_div (dec_mul (rates (pc_rate c)) (pc_quantity c)) (pc_divisor c) of
        Some d \<Rightarrow> d | None \<Rightarrow> Dec False 0 0)"

definition source_url :: "string \<Rightarrow> string" where
  "source_url k = (case map_of price_sources k of Some u \<Rightarrow> u | None \<Rightarrow> '''')"

definition price_item :: "(string \<Rightarrow> dec) \<Rightarrow> price_component \<Rightarrow> json" where
  "price_item rates c = JObj
     [(''item'', JStr (pc_label c)), (''rate_name'', JStr (pc_rate c)),
      (''rate_usd'', JStr (dec_str (rates (pc_rate c)))), (''rate_unit'', JStr (pc_unit c)),
      (''quantity'', JStr (dec_str (pc_quantity c))),
      (''hourly_divisor'', JStr (dec_str (pc_divisor c))),
      (''hourly_usd'', JStr (dec_str (hourly_of rates c))),
      (''source'', JStr (source_url (pc_source c)))]"

text \<open>\<open>sum((Decimal(item["hourly_usd"]) for item in items), Decimal("0"))\<close>.\<close>

definition item_hourly :: "json \<Rightarrow> dec" where
  "item_hourly item =
     (case dec_parse (str_of (jget item ''hourly_usd'')) of Some (Fin d) \<Rightarrow> d | _ \<Rightarrow> Dec False 0 0)"

definition price_total :: "json list \<Rightarrow> dec" where
  "price_total items = foldl (\<lambda>t item. dec_add t (item_hourly item)) (Dec False 0 0) items"

definition price_receipt ::
  "string \<Rightarrow> string \<Rightarrow> string \<Rightarrow> datetime \<Rightarrow> string \<Rightarrow> json list \<Rightarrow> json" where
  "price_receipt run_id commit region checked reviewer items = JObj
     [(''schema_version'', JInt 1), (''run_id'', JStr run_id), (''source_commit'', JStr commit),
      (''region'', JStr region), (''currency'', JStr ''USD''),
      (''checked_at'', JStr (stamp_text checked)), (''checked_by'', JStr (strip reviewer)),
      (''sources'', price_sources_json), (''items'', JArr items),
      (''total_hourly_usd'', JStr (dec_str (price_total items))),
      (''maximum_hourly_usd'', JStr (dec_str maximum_hourly_usd)),
      (''maximum_total_usd'', JStr (dec_str maximum_total_usd)),
      (''gate'', JObj [(''passed'', JBool True), (''failures'', JArr [])])]"

definition rate_table :: "obj \<Rightarrow> (string \<times> dec) list res" where
  "rate_table rates = mapE (\<lambda>(name, v). bindE (decimal_rate v name) (\<lambda>d. Inr (name, d))) rates"

definition lookup_rate :: "(string \<times> dec) list \<Rightarrow> string \<Rightarrow> dec" where
  "lookup_rate table name = (case map_of table name of Some d \<Rightarrow> d | None \<Rightarrow> Dec False 0 0)"

definition valid_reviewer :: "json \<Rightarrow> bool" where
  "valid_reviewer v \<longleftrightarrow> is_str v \<and> strip (str_of v) \<noteq> [] \<and> newline \<notin> set (str_of v)"

definition validate_price_input :: "json \<Rightarrow> string \<Rightarrow> string \<Rightarrow> string \<Rightarrow> int \<Rightarrow> json res" where
  "validate_price_input v run_id commit region now =
     bindE (ensure (py_eq (jget v ''schema_version'') (JInt 1))
              (Err StageError ''price input schema_version must be 1'' [])) (\<lambda>_.
     bindE (ensure (jget v ''run_id'' = JStr run_id \<and> jget v ''source_commit'' = JStr commit)
              (Err StageError ''price input does not match the run and approved commit'' [])) (\<lambda>_.
     bindE (ensure (jget v ''region'' = JStr region \<and> region = ''us-east-1'')
              (Err StageError ''price input must use us-east-1'' [])) (\<lambda>_.
     bindE (ensure (jget v ''currency'' = JStr ''USD'')
              (Err StageError ''price input currency must be USD'' [])) (\<lambda>_.
     bindE (ensure (jget v ''confirmed'' = JBool True)
              (Err StageError ''price input must be confirmed after checking every source'' [])) (\<lambda>_.
     bindE (ensure (valid_reviewer (jget v ''checked_by''))
              (Err StageError ''checked_by must name the price reviewer'' [])) (\<lambda>_.
     bindE (parse_checked_at (jget v ''checked_at'') now) (\<lambda>checked.
     bindE (ensure (py_eq (jget v ''sources'') price_sources_json)
              (Err StageError ''price input must retain the fixed primary-source URLs'' [])) (\<lambda>_.
     bindE (ensure (is_dict (jget v ''rates'') \<and> keys_eq (jget v ''rates'') price_rate_names)
              (Err StageError ''price input must contain every fixed rate and no unknown rate'' [])) (\<lambda>_.
     bindE (rate_table (obj_of (jget v ''rates''))) (\<lambda>table.
     let items = map (price_item (lookup_rate table)) price_components;
         total = price_total items in
     bindE (ensure (\<not> dec_lt maximum_hourly_usd total)
              (Err StageError ''current price total {} exceeds the {} hourly limit''
                 [JStr (dec_str total), JStr (dec_str maximum_hourly_usd)])) (\<lambda>_.
       Inr (price_receipt run_id commit region checked (str_of (jget v ''checked_by'')) items))))))))))))"

section \<open>Validating a receipt again\<close>

definition collect_rates :: "json list \<Rightarrow> obj res" where
  "collect_rates items =
     foldE (\<lambda>rates item.
       if \<not> is_dict item \<or> \<not> is_str (jget item ''rate_name'')
       then raise StageError ''price evidence contains an invalid item'' []
       else (let name = str_of (jget item ''rate_name'') in
             if map_of rates name \<noteq> None then raise StageError ''price evidence repeats {}'' [JStr name]
             else Inr (al_set rates name (jget item ''rate_usd'')))) [] items"

definition receipt_source :: "json \<Rightarrow> obj \<Rightarrow> json" where
  "receipt_source receipt rates = JObj
     [(''schema_version'', jget receipt ''schema_version''), (''run_id'', jget receipt ''run_id''),
      (''source_commit'', jget receipt ''source_commit''), (''region'', jget receipt ''region''),
      (''currency'', jget receipt ''currency''), (''confirmed'', JBool True),
      (''checked_at'', jget receipt ''checked_at''), (''checked_by'', jget receipt ''checked_by''),
      (''sources'', jget receipt ''sources''), (''rates'', JObj rates)]"

definition revalidate_price_receipt ::
  "json \<Rightarrow> string \<Rightarrow> string \<Rightarrow> string \<Rightarrow> int \<Rightarrow> json res" where
  "revalidate_price_receipt receipt run_id commit region now =
     bindE (ensure (is_list (jget receipt ''items''))
              (Err StageError ''price evidence has no itemized rates'' [])) (\<lambda>_.
     bindE (collect_rates (items_of (jget receipt ''items''))) (\<lambda>rates.
     bindE (validate_price_input (receipt_source receipt rates) run_id commit region now) (\<lambda>expected.
       if \<not> py_eq expected receipt
       then raise StageError ''price evidence does not match the recomputed fixed topology'' []
       else Inr expected)))"

section \<open>The Markdown report\<close>

definition join_lines :: "string list \<Rightarrow> string" where
  "join_lines ls =
     (case ls of [] \<Rightarrow> '''' | l # rest \<Rightarrow> l @ concat (map (\<lambda>x. newline # x) rest))"

definition field :: "json \<Rightarrow> string \<Rightarrow> string" where
  "field v k = py_str (jget v k)"

definition money_text :: "nat \<Rightarrow> json \<Rightarrow> string" where
  "money_text k v = (case dec_parse (str_of v) of Some (Fin d) \<Rightarrow> dec_fixed k d | _ \<Rightarrow> '''')"

definition price_row :: "json \<Rightarrow> string" where
  "price_row item =
     ''| '' @ field item ''item'' @ '' | $'' @ field item ''rate_usd'' @ ''/'' @ field item ''rate_unit'' @
     '' | '' @ field item ''quantity'' @
       (if jget item ''hourly_divisor'' \<noteq> JStr ''1''
        then '' / '' @ field item ''hourly_divisor'' @ '' hours'' else '''') @
     '' | $'' @ money_text 6 (jget item ''hourly_usd'') @
     '' | [AWS]('' @ field item ''source'' @ '') |''"

definition price_markdown :: "json \<Rightarrow> string" where
  "price_markdown receipt = join_lines
     ([''# M4 price check'', '''',
       ''Checked at: `'' @ field receipt ''checked_at'' @ ''`'', '''',
       ''Checked by: `'' @ field receipt ''checked_by'' @ ''`'', '''',
       ''Region: `'' @ field receipt ''region'' @ ''`'', '''',
       ''| Item | Rate | Quantity | Hourly USD | Source |'',
       ''|---|---:|---:|---:|---|''] @
      map price_row (items_of (jget receipt ''items'')) @
      ['''', ''Total: **$'' @ money_text 4 (jget receipt ''total_hourly_usd'') @ ''/hour**'', '''',
       ''Gate: **PASS**, below the $'' @ field receipt ''maximum_hourly_usd'' @ ''/hour limit.'', ''''])"

end
