(* ===== verification/Stage_Images.thy ===== *)
theory Stage_Images
  imports Py_Files Stage_Prices
begin

text \<open>
  Image staging in \<open>scripts/m4-stage.py\<close>: the run path and preflight checks every stage
  action starts with, the ECR repositories Terraform reports, the settings ECR reports for
  them, and the staging of one image. A missing tag is pushed only on request; an existing
  one is pulled by digest and inspected.
\<close>

section \<open>Run paths and the preflight receipt\<close>

definition commit_shape :: "string \<Rightarrow> bool" where
  "commit_shape s \<longleftrightarrow> length s = 40 \<and> list_all is_hex s"

definition digest_shape :: "string \<Rightarrow> bool" where
  "digest_shape s \<longleftrightarrow> take 7 s = ''sha256:'' \<and> length s = 71 \<and> list_all is_hex (drop 7 s)"

definition services :: "string list" where
  "services = [''relay'', ''sink'']"

definition ensure_private_run_path :: "env \<Rightarrow> string \<Rightarrow> path \<Rightarrow> string \<Rightarrow> path res" where
  "ensure_private_run_path w run_id output expected_name =
     bindE (stage_validate_run_id run_id) (\<lambda>_.
     bindE (no_linked_parent w StageError run_id) (\<lambda>_.
     bindE (ensure (output \<noteq> [] \<and> butlast output = run_dir w run_id \<and> last output = expected_name)
       (Err StageError ''output must be {} directly under .evidence/m4/{}''
          [JStr expected_name, JStr run_id])) (\<lambda>_.
     bindE (ensure (\<not> is_symlink w output)
       (Err StageError ''evidence file must not be a symlink: {}'' [path_json output])) (\<lambda>_.
       Inr output))))"

definition stage_require_preflight :: "env \<Rightarrow> string \<Rightarrow> string \<Rightarrow> json res" where
  "stage_require_preflight w run_id commit =
     bindE (stage_validate_run_id run_id) (\<lambda>_.
     bindE (ensure (commit_shape commit)
       (Err StageError ''approved commit must be a full lowercase git SHA'' [])) (\<lambda>_.
     let path = run_dir w run_id @ [''00-preflight.json''] in
     bindE (load_file w (Err StageError ''preflight receipt is missing: {}'' [path_json path])
              (Err StageError ''preflight receipt is invalid JSON: {}'' [path_json path]) path) (\<lambda>v.
     bindE (ensure (is_dict v) (Err StageError ''preflight receipt must contain an object'' [])) (\<lambda>_.
     bindE (ensure (py_eq (jget v ''schema_version'') (JInt 1) \<and> jget v ''run_id'' = JStr run_id)
       (Err StageError ''preflight receipt does not match the run id'' [])) (\<lambda>_.
     bindE (ensure (jget v ''result'' = JStr ''passed'')
       (Err StageError ''preflight receipt did not pass'' [])) (\<lambda>_.
     bindE (ensure (jget v ''commit'' = JStr commit)
       (Err StageError ''preflight receipt commit does not match the approved commit'' [])) (\<lambda>_.
       Inr v)))))))"

definition read_json :: "env \<Rightarrow> path \<Rightarrow> string \<Rightarrow> json res" where
  "read_json w p description =
     bindE (ensure (\<not> is_symlink w p)
       (Err StageError ''{} must not be a symlink: {}'' [JStr description, path_json p])) (\<lambda>_.
     bindE (load_file w (Err StageError ''{} is missing: {}'' [JStr description, path_json p])
              (Err StageError ''{} is invalid JSON: {}'' [JStr description, path_json p]) p) (\<lambda>v.
     bindE (ensure (is_dict v)
       (Err StageError ''{} must contain a JSON object'' [JStr description])) (\<lambda>_. Inr v)))"

definition require_clean_commit :: "err_class \<Rightarrow> string \<Rightarrow> unit io" where
  "require_clean_commit cls commit =
     bindIO (runner_text cls [''git'', ''rev-parse'', ''HEAD'']) (\<lambda>head.
     bindIO (lift (ensure (head = commit)
       (Err cls ''HEAD is {}, expected approved commit {}'' [JStr head, JStr commit]))) (\<lambda>_.
     bindIO (runner_text cls [''git'', ''status'', ''--porcelain'', ''--untracked-files=all'']) (\<lambda>dirty.
       lift (ensure (dirty = [])
         (Err cls (''worktree must be clean before image staging:'' @ [newline] @ ''{}'') [JStr dirty])))))"

section \<open>Repositories\<close>

text \<open>
  \<open>REPOSITORY_RE\<close> matched in full: account, region and service of an ECR repository. No
  alternative of the pattern overlaps the next one, so the match is unique.
\<close>

record repository_match =
  rm_registry :: string
  rm_region :: string
  rm_service :: string

definition region_char :: "char \<Rightarrow> bool" where
  "region_char c \<longleftrightarrow> is_digit c \<or> c = CHR ''-'' \<or> c \<in> set ''abcdefghijklmnopqrstuvwxyz''"

definition match_repository :: "string \<Rightarrow> repository_match option" where
  "match_repository s =
     (let account = take 12 s; s1 = drop 12 s; s2 = drop 9 s1;
          region = takeWhile region_char s2; s3 = dropWhile region_char s2;
          cn = starts_with s3 ''.amazonaws.com.cn'';
          dns = (if cn then ''.amazonaws.com.cn'' else ''.amazonaws.com'');
          s4 = drop (length dns) s3;
          service = drop 9 s4
      in if length account = 12 \<and> digits account \<and> take 9 s1 = ''.dkr.ecr.'' \<and> region \<noteq> [] \<and>
            starts_with s3 dns \<and> take 9 s4 = ''/mlp-dev/'' \<and> service \<in> set services
         then Some \<lparr>rm_registry = account @ ''.dkr.ecr.'' @ region @ dns,
                    rm_region = region, rm_service = service\<rparr>
         else None)"

definition check_repository :: "string \<Rightarrow> json \<Rightarrow> (string \<times> string) list \<times> string option \<Rightarrow> string \<Rightarrow>
    ((string \<times> string) list \<times> string option) res" where
  "check_repository region v acc service =
     (let repository = jget v service in
      case (if is_str repository then match_repository (str_of repository) else None) of
        None \<Rightarrow> raise StageError ''Terraform returned an invalid {} repository'' [JStr service]
      | Some m \<Rightarrow>
          bindE (ensure (rm_service m = service)
            (Err StageError ''Terraform returned an invalid {} repository'' [JStr service])) (\<lambda>_.
          bindE (ensure (rm_region m = region)
            (Err StageError ''{} repository region {} does not match {}''
               [JStr service, JStr (rm_region m), JStr region])) (\<lambda>_.
          bindE (ensure (snd acc = None \<or> snd acc = Some (rm_registry m))
            (Err StageError ''relay and sink repositories use different registries'' [])) (\<lambda>_.
            Inr (fst acc @ [(service, str_of repository)], Some (rm_registry m))))))"

definition parse_repositories :: "string \<Rightarrow> json \<Rightarrow> (string \<times> string) list res" where
  "parse_repositories region v =
     bindE (ensure (is_dict v \<and> keys_eq v services)
       (Err StageError ''Terraform must return exactly the relay and sink repositories'' [])) (\<lambda>_.
     bindE (foldE (check_repository region v) ([], None) services) (\<lambda>acc. Inr (fst acc)))"

definition terraform_dir :: "env \<Rightarrow> string" where
  "terraform_dir w = str_of (path_json (root_dir w @ [''infra'', ''terraform'', ''envs'', ''dev'']))"

definition repositories :: "string \<Rightarrow> (string \<times> string) list io" where
  "repositories region =
     bindIO (ask (\<lambda>w. Inr (terraform_dir w))) (\<lambda>dir.
     bindIO (runner_json StageError [''terraform'', ''-chdir='' @ dir, ''output'', ''-json'',
               ''ecr_repository_urls'']) (\<lambda>v.
       lift (parse_repositories region v)))"

text \<open>Keys of the dict comprehension that are not strings cannot match a repository name.\<close>

definition repositories_by_name :: "json list \<Rightarrow> (json \<times> json) list res" where
  "repositories_by_name rs =
     foldE (\<lambda>acc r.
       if \<not> is_dict r then Inr acc
       else (let k = jget r ''repositoryName'' in
             if is_list k \<or> is_dict k then py_raise TypeError else Inr (al_set acc k r))) [] rs"

definition check_setting :: "(json \<times> json) list \<Rightarrow> string \<times> string \<Rightarrow> (string \<times> json) res" where
  "check_setting by_name su =
     (let (service, uri) = su; name = ''mlp-dev/'' @ service;
          repository = (case map_of by_name (JStr name) of None \<Rightarrow> JNull | Some r \<Rightarrow> r);
          scanning = jget repository ''imageScanningConfiguration'' in
      bindE (ensure (truthy repository \<and> jget repository ''repositoryUri'' = JStr uri)
        (Err StageError ''ECR repository {} is missing or has the wrong URI'' [JStr name])) (\<lambda>_.
      bindE (ensure (jget repository ''imageTagMutability'' = JStr ''IMMUTABLE'')
        (Err StageError ''ECR repository {} does not enforce immutable tags'' [JStr name])) (\<lambda>_.
      bindE (ensure (is_dict scanning \<and> jget scanning ''scanOnPush'' = JBool True)
        (Err StageError ''ECR repository {} does not scan on push'' [JStr name])) (\<lambda>_.
        Inr (service, JObj [(''repository'', JStr name), (''uri'', JStr uri),
               (''tag_mutability'', JStr ''IMMUTABLE''), (''scan_on_push'', JBool True)])))))"

definition validate_repository_settings :: "(string \<times> string) list \<Rightarrow> json \<Rightarrow> json res" where
  "validate_repository_settings expected v =
     bindE (ensure (is_dict v \<and> is_list (jget v ''repositories''))
       (Err StageError ''ECR returned an invalid repository list'' [])) (\<lambda>_.
     bindE (repositories_by_name (items_of (jget v ''repositories''))) (\<lambda>by_name.
     bindE (mapE (check_setting by_name) expected) (\<lambda>checked. Inr (JObj checked))))"

definition repository_settings :: "(string \<times> string) list \<Rightarrow> string \<Rightarrow> json io" where
  "repository_settings expected region =
     bindIO (runner_json StageError
       ([''aws'', ''ecr'', ''describe-repositories'', ''--repository-names''] @
        map (\<lambda>s. ''mlp-dev/'' @ s) services @ [''--region'', region, ''--output'', ''json''])) (\<lambda>v.
       lift (validate_repository_settings expected v))"

section \<open>Images\<close>

definition validate_image_metadata :: "json \<Rightarrow> string \<Rightarrow> string \<Rightarrow> json res" where
  "validate_image_metadata v img commit =
     bindE (ensure (is_dict v)
       (Err StageError ''docker returned invalid metadata for {}'' [JStr img])) (\<lambda>_.
     bindE (py_get (jget_or v ''Config'' (JObj [])) ''Labels'' JNull) (\<lambda>labels.
     let revision = (if is_dict labels then jget labels ''org.opencontainers.image.revision'' else JNull);
         image_id = jget v ''Id'' in
     bindE (ensure (revision = JStr commit)
       (Err StageError ''{} was built from {!r}, expected {}'' [JStr img, revision, JStr commit])) (\<lambda>_.
     bindE (ensure (jget v ''Os'' = JStr ''linux'' \<and> jget v ''Architecture'' = JStr ''amd64'')
       (Err StageError ''{} uses {}/{}; expected linux/amd64''
          [JStr img, jget v ''Os'', jget v ''Architecture''])) (\<lambda>_.
     bindE (ensure (is_str image_id \<and> digest_shape (str_of image_id))
       (Err StageError ''{} has an invalid image id: {}'' [JStr img, image_id])) (\<lambda>_.
       Inr (JObj [(''id'', image_id), (''revision'', revision), (''platform'', JStr ''linux/amd64'')]))))))"

definition inspect_image :: "string \<Rightarrow> string \<Rightarrow> json io" where
  "inspect_image img commit =
     bindIO (runner_json StageError [''docker'', ''image'', ''inspect'', ''--platform'', ''linux/amd64'',
               ''--format'', ''{{json .}}'', img]) (\<lambda>v.
       lift (validate_image_metadata v img commit))"

definition parse_existing :: "string \<Rightarrow> string \<Rightarrow> json \<Rightarrow> string option res" where
  "parse_existing repository commit v =
     bindE (ensure (is_dict v \<and> is_list (jget v ''imageIds''))
       (Err StageError ''ECR returned an invalid image list for {}'' [JStr repository])) (\<lambda>_.
     let matches = map (\<lambda>i. jget i ''imageDigest'')
           (filter (\<lambda>i. is_dict i \<and> jget i ''imageTag'' = JStr commit) (items_of (jget v ''imageIds''))) in
     bindE (ensure (length matches \<le> 1)
       (Err StageError ''ECR returned duplicate entries for {}:{}'' [JStr repository, JStr commit])) (\<lambda>_.
       case matches of
         [] \<Rightarrow> Inr None
       | digest # _ \<Rightarrow>
           if is_str digest \<and> digest_shape (str_of digest) then Inr (Some (str_of digest))
           else raise StageError ''ECR returned an invalid digest for {}:{}''
                  [JStr repository, JStr commit]))"

definition existing_digest :: "string \<Rightarrow> string \<Rightarrow> string \<Rightarrow> string option io" where
  "existing_digest repository commit region =
     bindIO (runner_json StageError [''aws'', ''ecr'', ''list-images'', ''--repository-name'', repository,
               ''--filter'', ''tagStatus=TAGGED'', ''--region'', region, ''--output'', ''json'']) (\<lambda>v.
       lift (parse_existing repository commit v))"

definition parse_described :: "string \<Rightarrow> string \<Rightarrow> json \<Rightarrow> string res" where
  "parse_described repository commit v =
     (let details = (if is_dict v then jget v ''imageDetails'' else JNull) in
      bindE (ensure (is_list details \<and> length (items_of details) = 1)
        (Err StageError ''ECR did not return one image for {}:{}'' [JStr repository, JStr commit])) (\<lambda>_.
      let detail = hd (items_of details); digest = jget detail ''imageDigest'';
          tags = jget detail ''imageTags'' in
      bindE (ensure (is_str digest \<and> digest_shape (str_of digest))
        (Err StageError ''ECR returned an invalid digest for {}:{}'' [JStr repository, JStr commit])) (\<lambda>_.
      bindE (ensure (is_list tags \<and> JStr commit \<in> set (items_of tags))
        (Err StageError ''ECR image {}:{} lost its immutable tag'' [JStr repository, JStr commit])) (\<lambda>_.
        Inr (str_of digest)))))"

definition described_digest :: "string \<Rightarrow> string \<Rightarrow> string \<Rightarrow> string io" where
  "described_digest repository commit region =
     bindIO (runner_json StageError [''aws'', ''ecr'', ''describe-images'', ''--repository-name'', repository,
               ''--image-ids'', ''imageTag='' @ commit, ''--region'', region, ''--output'', ''json'']) (\<lambda>v.
       lift (parse_described repository commit v))"

text \<open>\<open>repository.split("/", maxsplit=1)[0]\<close>.\<close>

definition registry_part :: "string \<Rightarrow> string" where
  "registry_part s = takeWhile (\<lambda>c. c \<noteq> CHR ''/'') s"

definition registry_for :: "(string \<times> string) list \<Rightarrow> string res" where
  "registry_for urls =
     (case remdups (map (\<lambda>su. registry_part (snd su)) urls) of
        [r] \<Rightarrow> Inr r
      | _ \<Rightarrow> raise StageError ''relay and sink repositories use different registries'' [])"

text \<open>\<open>bytes.strip\<close> removes ASCII white space only.\<close>

definition blank_bytes :: "string \<Rightarrow> bool" where
  "blank_bytes b \<longleftrightarrow> (\<forall>c \<in> set b. c \<in> {CHR 0x09, CHR 0x0A, CHR 0x0B, CHR 0x0C, CHR 0x0D, CHR '' ''})"

definition login :: "string \<Rightarrow> string \<Rightarrow> unit io" where
  "login registry region =
     bindIO (runner_result StageError [''aws'', ''ecr'', ''get-login-password'', ''--region'', region] None)
       (\<lambda>password.
     bindIO (lift (ensure (\<not> blank_bytes password)
       (Err StageError ''ECR returned an empty login password'' []))) (\<lambda>_.
     bindIO (runner_result StageError [''docker'', ''login'', ''--username'', ''AWS'', ''--password-stdin'',
               registry] (Some password)) (\<lambda>_. lift (Inr ()))))"

definition local_image :: "string \<Rightarrow> string" where
  "local_image service = service @ '':m4-aws''"

definition docker_image :: "string list \<Rightarrow> unit io" where
  "docker_image arguments =
     bindIO (runner_result StageError ([''docker'', ''image''] @ arguments) None) (\<lambda>_. lift (Inr ()))"

definition staged_receipt :: "string \<Rightarrow> string \<Rightarrow> string \<Rightarrow> string \<Rightarrow> json \<Rightarrow> bool \<Rightarrow> json" where
  "staged_receipt repository uri commit digest remote pushed = JObj
     [(''repository'', JStr repository), (''tag'', JStr commit), (''digest'', JStr digest),
      (''reference'', JStr (uri @ ''@'' @ digest)), (''platform'', jget remote ''platform''),
      (''image_id'', jget remote ''id''), (''revision'', jget remote ''revision''),
      (''pushed'', JBool pushed)]"

definition stage_missing :: "string \<Rightarrow> string \<Rightarrow> string \<Rightarrow> string \<Rightarrow> bool \<Rightarrow> json io" where
  "stage_missing service uri commit region push_missing =
     (let repository = ''mlp-dev/'' @ service; tagged = uri @ '':'' @ commit in
      bindIO (lift (ensure push_missing
        (Err StageError ''ECR image is missing: {}:{}'' [JStr repository, JStr commit]))) (\<lambda>_.
      bindIO (inspect_image (local_image service) commit) (\<lambda>local.
      bindIO (docker_image [''tag'', local_image service, tagged]) (\<lambda>_.
      bindIO (docker_image [''push'', tagged]) (\<lambda>_.
      bindIO (described_digest repository commit region) (\<lambda>digest.
        lift (Inr (staged_receipt repository uri commit digest local True))))))))"

definition stage_present :: "string \<Rightarrow> string \<Rightarrow> string \<Rightarrow> string \<Rightarrow> string \<Rightarrow> json io" where
  "stage_present service uri commit region digest =
     (let repository = ''mlp-dev/'' @ service; reference = uri @ ''@'' @ digest in
      bindIO (described_digest repository commit region) (\<lambda>confirmed.
      bindIO (lift (ensure (confirmed = digest)
        (Err StageError ''ECR digest changed while inspecting {}:{}''
           [JStr repository, JStr commit]))) (\<lambda>_.
      bindIO (docker_image [''pull'', ''--platform'', ''linux/amd64'', reference]) (\<lambda>_.
      bindIO (inspect_image reference commit) (\<lambda>remote.
        lift (Inr (staged_receipt repository uri commit digest remote False)))))))"

definition stage_one :: "string \<Rightarrow> string \<Rightarrow> string \<Rightarrow> string \<Rightarrow> bool \<Rightarrow> json io" where
  "stage_one service uri commit region push_missing =
     bindIO (existing_digest (''mlp-dev/'' @ service) commit region) (\<lambda>existing.
     case existing of
       None \<Rightarrow> stage_missing service uri commit region push_missing
     | Some digest \<Rightarrow> stage_present service uri commit region digest)"

definition lookup_uri :: "(string \<times> string) list \<Rightarrow> string \<Rightarrow> string" where
  "lookup_uri urls service = (case map_of urls service of Some u \<Rightarrow> u | None \<Rightarrow> '''')"

definition capture_images :: "string \<Rightarrow> string \<Rightarrow> bool \<Rightarrow> string \<Rightarrow> json io" where
  "capture_images commit region push_missing captured_at =
     bindIO (require_clean_commit StageError commit) (\<lambda>_.
     bindIO (repositories region) (\<lambda>urls.
     bindIO (repository_settings urls region) (\<lambda>settings.
     bindIO (lift (registry_for urls)) (\<lambda>registry.
     bindIO (login registry region) (\<lambda>_.
     bindIO (mapIO (\<lambda>s. bindIO (stage_one s (lookup_uri urls s) commit region push_missing)
               (\<lambda>i. lift (Inr (s, i)))) services) (\<lambda>images.
     bindIO (lift (ensure (jget (jget (JObj images) ''relay'') ''digest'' \<noteq>
                           jget (jget (JObj images) ''sink'') ''digest'')
       (Err StageError ''relay and sink unexpectedly have the same manifest digest'' []))) (\<lambda>_.
       lift (Inr (JObj
         [(''schema_version'', JInt 1), (''captured_at'', JStr captured_at), (''source_commit'', JStr commit),
          (''region'', JStr region), (''repository_settings'', settings), (''images'', JObj images),
          (''gate'', JObj [(''passed'', JBool True), (''failures'', JArr [])])])))))))))"

end
