(* ===== verification/Stage_Go.thy ===== *)
theory Stage_Go
  imports Stage_Images
begin

text \<open>
  The GO decision of \<open>scripts/m4-stage.py\<close>: \<open>build_go_no_go\<close> reads the receipts of one
  run and accepts them only when they are bound to the run, fresh, passed, and agree with
  each other and with the fixed topology; \<open>verify_go_receipt\<close> and \<open>verify_go_no_go\<close> check
  the resulting packet again before the paid window. \<open>clock k\<close> is the \<open>k\<close>-th reading of
  the clock, in microseconds.
\<close>

section \<open>Inputs\<close>

definition go_inputs :: "(string \<times> string) list" where
  "go_inputs =
     [(''preflight'', ''00-preflight.json''), (''identity'', ''01-identity.txt''),
      (''prices_markdown'', ''02-prices.md''), (''prices'', ''02-prices.json''),
      (''plan'', ''03-plan-summary.json''), (''inventory'', ''04-inventory-before.json''),
      (''images'', ''05-images.json''), (''capture_plan'', ''capture-plan.json'')]"

definition input_path :: "env \<Rightarrow> string \<Rightarrow> string \<Rightarrow> path" where
  "input_path w run_id name =
     run_dir w run_id @ [case map_of go_inputs name of Some f \<Rightarrow> f | None \<Rightarrow> '''']"

definition require_bound :: "json \<Rightarrow> string \<Rightarrow> string \<Rightarrow> string \<Rightarrow> string \<Rightarrow> unit res" where
  "require_bound v description run_id commit region =
     bindE (ensure (jget v ''run_id'' = JStr run_id)
       (Err StageError ''{} does not match the run id'' [JStr description])) (\<lambda>_.
     bindE (ensure (jget_or v ''source_commit'' (jget v ''commit'') = JStr commit)
       (Err StageError ''{} does not match the approved commit'' [JStr description])) (\<lambda>_.
     ensure (\<not> has_key v ''region'' \<or> jget v ''region'' = JStr region)
       (Err StageError ''{} does not match the region'' [JStr description])))"

definition passed_gate :: "json \<Rightarrow> bool" where
  "passed_gate v \<longleftrightarrow> is_dict (jget v ''gate'') \<and> jget (jget v ''gate'') ''passed'' = JBool True"

definition require_passed_gate :: "json \<Rightarrow> string \<Rightarrow> unit res" where
  "require_passed_gate v description =
     ensure (passed_gate v) (Err StageError ''{} gate did not pass'' [JStr description])"

fun is_numeric :: "json \<Rightarrow> bool" where
  "is_numeric (JInt _) = True"
| "is_numeric (JFloat _) = True"
| "is_numeric (JStr _) = True"
| "is_numeric _ = False"

definition decimal_value :: "json \<Rightarrow> string \<Rightarrow> dec res" where
  "decimal_value v description =
     (if \<not> is_numeric v then raise StageError ''{} is not numeric'' [JStr description]
      else case dec_parse (py_str v) of
        None \<Rightarrow> raise StageError ''{} is not numeric'' [JStr description]
      | Some (Fin d) \<Rightarrow> Inr d
      | Some _ \<Rightarrow> raise StageError ''{} is not finite'' [JStr description])"

section \<open>Account and budget evidence\<close>

definition named :: "json \<Rightarrow> bool" where
  "named v \<longleftrightarrow> is_str v \<and> strip (str_of v) \<noteq> []"

definition account_shape :: "json \<Rightarrow> bool" where
  "account_shape v \<longleftrightarrow> is_str v \<and> length (str_of v) = 12 \<and> digits (str_of v)"

definition check_caller :: "json \<Rightarrow> unit res" where
  "check_caller identity =
     (let aws = jget identity ''aws''; repository = jget identity ''repository'' in
      bindE (ensure (is_dict repository \<and>
          jget repository ''name_with_owner'' = JStr ''lilabrooks/my-local-platform'')
        (Err StageError ''identity evidence names the wrong GitHub repository'' [])) (\<lambda>_.
      bindE (ensure (is_dict aws \<and> jget aws ''account_matches_profile'' = JBool True)
        (Err StageError ''AWS caller identity does not match the selected profile'' [])) (\<lambda>_.
      bindE (ensure (named (jget aws ''profile''))
        (Err StageError ''AWS identity does not name the selected profile'' [])) (\<lambda>_.
      ensure (account_shape (jget aws ''account_id''))
        (Err StageError ''AWS identity has no valid account id'' [])))))"

definition expected_state_backend :: "string \<Rightarrow> json" where
  "expected_state_backend account = JObj
     [(''bucket'', JStr (''mlp-tfstate-'' @ account)), (''exists'', JBool True),
      (''versioning'', JStr ''Enabled''), (''encryption'', JStr ''AES256''),
      (''public_access_blocked'', JBool True)]"

definition expected_budget_scope :: json where
  "expected_budget_scope = JObj
     [(''tag_key'', JStr ''Project''), (''tag_value'', JStr ''my-local-platform''),
      (''cost_allocation_tag_status'', JStr ''Active''), (''include_tax'', JBool False)]"

definition check_budget :: "json \<Rightarrow> unit res" where
  "check_budget budget =
     bindE (ensure (is_dict budget \<and> jget budget ''active'' = JBool True)
       (Err StageError ''budget evidence did not pass'' [])) (\<lambda>_.
     bindE (ensure (jget budget ''has_notification_subscriber'' = JBool True)
       (Err StageError ''budget evidence has no notification subscriber'' [])) (\<lambda>_.
     bindE (ensure (py_eq (jget budget ''scope'') expected_budget_scope)
       (Err StageError ''budget evidence does not have the approved project scope'' [])) (\<lambda>_.
     bindE (decimal_value (jget budget ''limit_usd'') ''budget limit'') (\<lambda>limit.
     bindE (ensure (dec_lt (Dec False 0 0) limit)
       (Err StageError ''budget limit must be positive'' [])) (\<lambda>_.
     ensure (\<not> dec_lt maximum_total_usd limit)
       (Err StageError ''budget limit exceeds the approved maximum'' []))))))"

definition check_identity :: "json \<Rightarrow> int \<Rightarrow> unit res" where
  "check_identity identity now =
     bindE (check_caller identity) (\<lambda>_.
     bindE (parse_recent_utc (jget identity ''captured_at'') ''account capture time'' now one_day) (\<lambda>_.
     let account = str_of (jget (jget identity ''aws'') ''account_id'');
         state_backend = jget identity ''backend''; eks = jget identity ''eks'' in
     bindE (ensure (is_dict state_backend \<and> py_eq state_backend (expected_state_backend account))
       (Err StageError ''state backend controls did not pass'' [])) (\<lambda>_.
     bindE (ensure (is_dict eks \<and> jget eks ''standard_support'' = JBool True)
       (Err StageError ''EKS standard-support evidence did not pass'' [])) (\<lambda>_.
     check_budget (jget identity ''budget'')))))"

definition check_coverage :: "json \<Rightarrow> unit res" where
  "check_coverage coverage =
     bindE (ensure (is_dict coverage \<and> jget coverage ''tag_key'' = JStr ''Project'' \<and>
         jget coverage ''tag_value'' = JStr ''my-local-platform'' \<and>
         is_list (jget coverage ''resources'') \<and> truthy (jget coverage ''resources'') \<and>
         is_list (jget coverage ''launch_templates'') \<and>
         length (items_of (jget coverage ''launch_templates'')) = 1)
       (Err StageError ''plan lacks project tag coverage'' [])) (\<lambda>_.
     require_passed_gate coverage ''project tag coverage'')"

definition check_quota_evidence :: "json \<Rightarrow> unit res" where
  "check_quota_evidence identity =
     bindE (ensure (is_dict (jget identity ''quotas'')) (Err StageError ''quota evidence is missing'' [])) (\<lambda>_.
     bindE (require_passed_gate (jget identity ''quotas'') ''quota evidence'') (\<lambda>_.
     bindE (ensure (is_dict (jget identity ''availability''))
       (Err StageError ''regional availability evidence is missing'' [])) (\<lambda>_.
     require_passed_gate (jget identity ''availability'') ''regional availability evidence'')))"

definition check_inventory :: "json \<Rightarrow> unit res" where
  "check_inventory inventory =
     bindE (ensure (jget inventory ''runtime_empty'' = JBool True)
       (Err StageError ''pre-apply runtime inventory is not empty'' [])) (\<lambda>_.
     ensure (is_dict (jget inventory ''counts'') \<and> py_eq (jget (jget inventory ''counts'') ''ecr'') (JInt 2))
       (Err StageError ''pre-apply inventory must contain both ECR repositories'' []))"

section \<open>The planned topology\<close>

definition expected_eks_shape :: json where
  "expected_eks_shape = JObj
     [(''kubernetes_version'', JStr ''1.36''), (''node_capacity_type'', JStr ''SPOT''),
      (''node_desired'', JInt 3), (''node_maximum'', JInt 3)]"

definition expected_kafka_shape :: json where
  "expected_kafka_shape = JObj
     [(''delivery_topic'', JStr ''mlp.relay.deliveries''), (''delivery_partitions'', JInt 12),
      (''dead_letter_topic'', JStr ''mlp.relay.deliveries.dlq''), (''dead_letter_partitions'', JInt 1),
      (''total_partitions'', JInt 13)]"

definition expected_hourly_counts :: json where
  "expected_hourly_counts = JObj
     [(''aws_db_instance'', JInt 1), (''aws_eks_cluster'', JInt 1), (''aws_eks_node_group'', JInt 1),
      (''aws_msk_serverless_cluster'', JInt 1), (''aws_nat_gateway'', JInt 1)]"

definition shape_flags :: "string list" where
  "shape_flags = [''hourly_enabled'', ''enable_eks'', ''enable_msk'', ''enable_rds'']"

definition check_shape :: "json \<Rightarrow> json \<Rightarrow> string \<Rightarrow> unit res" where
  "check_shape shape identity region =
     (let rds = jget (jget identity ''availability'') ''rds_postgres'' in
      bindE (ensure (is_dict shape) (Err StageError ''plan summary has no runtime shape'' [])) (\<lambda>_.
      bindE (foldE (\<lambda>u flag. ensure (jget shape flag = JBool True)
               (Err StageError ''plan summary does not enable {}'' [JStr flag])) () shape_flags) (\<lambda>_.
      bindE (ensure (jget shape ''region'' = JStr region)
        (Err StageError ''plan shape uses the wrong region'' [])) (\<lambda>_.
      bindE (ensure (py_eq (jget shape ''eks'') expected_eks_shape)
        (Err StageError ''plan summary has the wrong EKS shape'' [])) (\<lambda>_.
      bindE (ensure (py_eq (jget (jget identity ''eks'') ''version'')
                       (jget (jget shape ''eks'') ''kubernetes_version''))
        (Err StageError ''planned EKS version does not match standard-support evidence'' [])) (\<lambda>_.
      bindE (ensure (is_dict rds \<and> jget rds ''passed'' = JBool True \<and> named (jget rds ''engine_version''))
        (Err StageError ''RDS engine version availability evidence is missing or failed'' [])) (\<lambda>_.
      bindE (ensure (py_eq (jget shape ''rds'') (JObj [(''engine_version'', jget rds ''engine_version'')]))
        (Err StageError ''planned RDS engine version does not match availability evidence'' [])) (\<lambda>_.
      ensure (py_eq (jget shape ''kafka'') expected_kafka_shape)
        (Err StageError ''plan summary has the wrong Kafka shape'' [])))))))))"

definition cost_tolerance :: dec where
  "cost_tolerance = Dec False 1 (- 4)"

definition check_topology :: "json \<Rightarrow> json \<Rightarrow> unit res" where
  "check_topology plan prices =
     (let shape = jget plan ''shape'' in
      bindE (ensure (py_eq (jget plan ''planned_hourly_resource_counts'') expected_hourly_counts)
        (Err StageError ''plan summary has the wrong hourly resource counts'' [])) (\<lambda>_.
      bindE (ensure (py_eq (jget plan ''created_hourly_resource_counts'') expected_hourly_counts)
        (Err StageError ''plan summary does not create the fixed hourly topology'' [])) (\<lambda>_.
      bindE (decimal_value (jget shape ''expected_hourly_usd'') ''plan hourly cost'') (\<lambda>modelled.
      bindE (decimal_value (jget shape ''maximum_hourly_usd'') ''plan hourly limit'') (\<lambda>maximum.
      bindE (decimal_value (jget prices ''total_hourly_usd'') ''current hourly cost'') (\<lambda>current.
      bindE (ensure (dec_eq maximum maximum_hourly_usd)
        (Err StageError ''plan hourly limit changed from the approved contract'' [])) (\<lambda>_.
      ensure (\<not> dec_lt cost_tolerance (dec_abs (dec_sub modelled current)))
        (Err StageError ''Terraform and current price arithmetic differ'' []))))))))"

section \<open>Images\<close>

record image_claim =
  ic_service :: string
  ic_reference :: string
  ic_digest :: string
  ic_registry :: string

definition check_image :: "string \<Rightarrow> string \<Rightarrow> json \<Rightarrow> string \<Rightarrow> image_claim res" where
  "check_image commit region values service =
     (let img = jget values service; digest = jget img ''digest''; reference = jget img ''reference'' in
      bindE (ensure (is_dict img \<and> jget img ''revision'' = JStr commit)
        (Err StageError ''{} image does not match the approved commit'' [JStr service])) (\<lambda>_.
      bindE (ensure (jget img ''platform'' = JStr ''linux/amd64'')
        (Err StageError ''{} image does not use linux/amd64'' [JStr service])) (\<lambda>_.
      bindE (ensure (is_str digest \<and> digest_shape (str_of digest))
        (Err StageError ''{} image digest is invalid'' [JStr service])) (\<lambda>_.
      let pin = ''@'' @ str_of digest in
      bindE (ensure (is_str reference \<and> ends_with (str_of reference) pin)
        (Err StageError ''{} image reference is not pinned by digest'' [JStr service])) (\<lambda>_.
      case match_repository (remove_suffix (str_of reference) pin) of
        None \<Rightarrow> raise StageError ''{} image reference names the wrong repository'' [JStr service]
      | Some m \<Rightarrow>
          bindE (ensure (rm_service m = service)
            (Err StageError ''{} image reference names the wrong repository'' [JStr service])) (\<lambda>_.
          bindE (ensure (rm_region m = region)
            (Err StageError ''{} image reference uses the wrong region'' [JStr service])) (\<lambda>_.
            Inr \<lparr>ic_service = service, ic_reference = str_of reference, ic_digest = str_of digest,
                 ic_registry = rm_registry m\<rparr>)))))))"

definition check_images :: "json \<Rightarrow> string \<Rightarrow> string \<Rightarrow> string \<Rightarrow> image_claim list res" where
  "check_images images commit region account =
     (let values = jget images ''images'' in
      bindE (ensure (is_dict values \<and> keys_eq values services)
        (Err StageError ''image evidence must contain relay and sink'' [])) (\<lambda>_.
      bindE (mapE (check_image commit region values) services) (\<lambda>claims.
      bindE (ensure (card (set (map ic_digest claims)) = 2)
        (Err StageError ''relay and sink must use different image digests'' [])) (\<lambda>_.
      bindE (ensure (card (set (map ic_registry claims)) = 1)
        (Err StageError ''relay and sink image references use different registries'' [])) (\<lambda>_.
      bindE (ensure (set (map ic_registry claims) = {account @ ''.dkr.ecr.'' @ region @ ''.amazonaws.com''})
        (Err StageError ''image registry does not match the verified AWS account'' [])) (\<lambda>_.
        Inr claims)))))) "

definition before_at :: "string \<Rightarrow> string" where
  "before_at s = takeWhile (\<lambda>c. c \<noteq> CHR ''@'') s"

definition check_image_settings :: "json \<Rightarrow> image_claim list \<Rightarrow> unit res" where
  "check_image_settings images claims =
     (let settings = jget images ''repository_settings'' in
      bindE (ensure (is_dict settings \<and> keys_eq settings services)
        (Err StageError ''image evidence has no repository settings'' [])) (\<lambda>_.
      foldE (\<lambda>u c. let setting = jget settings (ic_service c) in
        ensure (is_dict setting \<and>
            jget setting ''repository'' = JStr (''mlp-dev/'' @ ic_service c) \<and>
            jget setting ''uri'' = JStr (before_at (ic_reference c)) \<and>
            jget setting ''tag_mutability'' = JStr ''IMMUTABLE'' \<and>
            jget setting ''scan_on_push'' = JBool True)
          (Err StageError ''{} repository controls did not pass'' [JStr (ic_service c)])) () claims))"

section \<open>The capture plan\<close>

definition check_paid_window :: "json \<Rightarrow> unit res" where
  "check_paid_window capture_plan =
     (let paid = jget capture_plan ''paid_window''; failure = jget capture_plan ''failure_transition'' in
      bindE (ensure (is_dict paid \<and> py_eq (jget paid ''evidence_deadline_minutes'') (JInt 150) \<and>
          py_eq (jget paid ''hard_deadline_minutes'') (JInt 180) \<and>
          jget paid ''destroy_starts_after_success_or_failure'' = JBool True)
        (Err StageError ''capture plan changed the paid-window limits'' [])) (\<lambda>_.
      ensure (is_dict failure \<and> jget failure ''next_phase'' = JStr ''destroy_first'')
        (Err StageError ''capture plan does not enter destroy first on failure'' [])))"

text \<open>\<open>isinstance(order, int)\<close> holds for a bool, which compares as 0 or 1.\<close>

definition capture_step :: "int \<times> json list \<Rightarrow> json \<Rightarrow> (int \<times> json list) res" where
  "capture_step acc capture =
     (let order = jget capture ''order'' in
      if \<not> is_dict capture \<or> \<not> (is_int order \<or> is_bool order)
      then raise StageError ''capture plan contains an invalid step'' []
      else if int_of order \<le> fst acc
      then raise StageError ''capture plan order is not strictly increasing'' []
      else Inr (int_of order, snd acc @
        [JObj [(''order'', order), (''phase'', jget capture ''phase''), (''output'', jget capture ''output'')]]))"

definition capture_order :: "json \<Rightarrow> json list res" where
  "capture_order capture_plan =
     (let captures = jget capture_plan ''captures'' in
      bindE (ensure (is_list captures \<and> truthy captures)
        (Err StageError ''capture plan has no ordered captures'' [])) (\<lambda>_.
      bindE (foldE capture_step (- 1, []) (items_of captures)) (\<lambda>acc. Inr (snd acc))))"

section \<open>The packet\<close>

definition valid_owner :: "string \<Rightarrow> bool" where
  "valid_owner owner \<longleftrightarrow> strip owner \<noteq> [] \<and> newline \<notin> set owner"

definition clock_stamp :: "int \<Rightarrow> string" where
  "clock_stamp now = stamp_text (of_seconds (nat (now div 1000000)))"

record receipts =
  rc_preflight :: json
  rc_identity :: json
  rc_prices :: json
  rc_plan :: json
  rc_inventory :: json
  rc_images :: json
  rc_capture_plan :: json

definition read_inputs :: "env \<Rightarrow> string \<Rightarrow> string \<Rightarrow> string \<Rightarrow> int \<Rightarrow> receipts res" where
  "read_inputs w run_id commit region now =
     (let path = input_path w run_id in
      bindE (stage_require_preflight w run_id commit) (\<lambda>preflight.
      bindE (read_json w (path ''identity'') ''identity evidence'') (\<lambda>identity.
      bindE (read_json w (path ''prices'') ''price evidence'') (\<lambda>raw_prices.
      bindE (revalidate_price_receipt raw_prices run_id commit region now) (\<lambda>prices.
      bindE (read_json w (path ''plan'') ''plan summary'') (\<lambda>plan.
      bindE (read_json w (path ''inventory'') ''inventory evidence'') (\<lambda>inventory.
      bindE (read_json w (path ''images'') ''image evidence'') (\<lambda>images.
      bindE (read_json w (path ''capture_plan'') ''capture plan'') (\<lambda>capture_plan.
      bindE (ensure (\<not> is_symlink w (path ''prices_markdown''))
        (Err StageError ''price Markdown evidence must not be a symlink'' [])) (\<lambda>_.
      bindE (read_bytes w (path ''prices_markdown'')) (\<lambda>b.
      bindE (case b of None \<Rightarrow> raise StageError ''price Markdown evidence is missing'' []
             | Some b \<Rightarrow> decode_text w b) (\<lambda>text.
      bindE (ensure (text = price_markdown prices)
        (Err StageError ''price Markdown does not match the checked price data'' [])) (\<lambda>_.
        Inr \<lparr>rc_preflight = preflight, rc_identity = identity, rc_prices = prices, rc_plan = plan,
             rc_inventory = inventory, rc_images = images, rc_capture_plan = capture_plan\<rparr>)))))))))))))"

definition check_bindings :: "receipts \<Rightarrow> string \<Rightarrow> string \<Rightarrow> string \<Rightarrow> unit res" where
  "check_bindings r run_id commit region =
     foldE (\<lambda>u vd. require_bound (fst vd) (snd vd) run_id commit region) ()
       [(rc_identity r, ''identity evidence''), (rc_prices r, ''price evidence''),
        (rc_plan r, ''plan summary''), (rc_inventory r, ''inventory evidence''),
        (rc_images r, ''image evidence''), (rc_capture_plan r, ''capture plan'')]"

definition check_gates :: "receipts \<Rightarrow> unit res" where
  "check_gates r =
     foldE (\<lambda>u vd. require_passed_gate (fst vd) (snd vd)) ()
       [(rc_identity r, ''identity evidence''), (rc_prices r, ''price evidence''),
        (rc_plan r, ''plan summary''), (rc_images r, ''image evidence'')]"

text \<open>All checks over the receipts, in the order of the code; the result is what the packet needs.\<close>

definition check_receipts ::
  "receipts \<Rightarrow> string \<Rightarrow> string \<Rightarrow> string \<Rightarrow> (nat \<Rightarrow> int) \<Rightarrow> (image_claim list \<times> json list) res" where
  "check_receipts r run_id commit region clock =
     (let identity = rc_identity r; plan = rc_plan r;
          account = str_of (jget (jget identity ''aws'') ''account_id'') in
      bindE (check_bindings r run_id commit region) (\<lambda>_.
      bindE (parse_recent_utc (jget (rc_inventory r) ''captured_at'') ''inventory capture time'' (clock 1)
               one_day) (\<lambda>_.
      bindE (parse_recent_utc (jget plan ''captured_at'') ''plan capture time'' (clock 2) one_day) (\<lambda>_.
      bindE (check_gates r) (\<lambda>_.
      bindE (check_identity identity (clock 3)) (\<lambda>_.
      bindE (check_coverage (jget plan ''project_tag_coverage'')) (\<lambda>_.
      bindE (check_quota_evidence identity) (\<lambda>_.
      bindE (check_inventory (rc_inventory r)) (\<lambda>_.
      bindE (check_shape (jget plan ''shape'') identity region) (\<lambda>_.
      bindE (check_topology plan (rc_prices r)) (\<lambda>_.
      bindE (check_images (rc_images r) commit region account) (\<lambda>claims.
      bindE (check_image_settings (rc_images r) claims) (\<lambda>_.
      bindE (check_paid_window (rc_capture_plan r)) (\<lambda>_.
      bindE (capture_order (rc_capture_plan r)) (\<lambda>order.
        Inr (claims, order))))))))))))))))"

definition input_hashes :: "env \<Rightarrow> string \<Rightarrow> obj res" where
  "input_hashes w run_id =
     mapE (\<lambda>nf. bindE (hash_path w (input_path w run_id (fst nf))) (\<lambda>h. Inr (fst nf, JStr h))) go_inputs"

definition go_packet ::
  "receipts \<Rightarrow> image_claim list \<Rightarrow> json list \<Rightarrow> obj \<Rightarrow> string \<Rightarrow> string \<Rightarrow> string \<Rightarrow> string \<Rightarrow> int \<Rightarrow> json" where
  "go_packet r claims order hashes run_id commit region owner now = JObj
     [(''schema_version'', JInt 1), (''run_id'', JStr run_id), (''generated_at'', JStr (clock_stamp now)),
      (''decision'', JStr ''go''), (''source_commit'', JStr commit), (''region'', JStr region),
      (''repository'', jget (jget (rc_identity r) ''repository'') ''name_with_owner''),
      (''aws_profile'', jget (jget (rc_identity r) ''aws'') ''profile''),
      (''image_references'', JObj (map (\<lambda>c. (ic_service c, JStr (ic_reference c))) claims)),
      (''expected_topology'', jget (rc_plan r) ''shape''),
      (''plan'', JObj
        [(''sha256'', jget (rc_plan r) ''plan_sha256''),
         (''planned_resource_count'', jget (rc_plan r) ''planned_resource_count''),
         (''created_resource_count'', jget (rc_plan r) ''created_resource_count'')]),
      (''pricing'', JObj
        [(''checked_at'', jget (rc_prices r) ''checked_at''),
         (''total_hourly_usd'', jget (rc_prices r) ''total_hourly_usd''),
         (''sources'', jget (rc_prices r) ''sources'')]),
      (''limits'', JObj
        [(''maximum_hourly_usd'', JStr (dec_str maximum_hourly_usd)),
         (''maximum_total_usd'', JStr (dec_str maximum_total_usd)),
         (''evidence_deadline_minutes'', JInt 150), (''hard_deadline_minutes'', JInt 180)]),
      (''capture_order'', JArr order), (''abort_command'', JStr ''make aws-down''),
      (''cleanup_owner'', JStr (strip owner)), (''input_sha256'', JObj hashes),
      (''preflight_result'', jget (rc_preflight r) ''result''),
      (''gate'', JObj [(''passed'', JBool True), (''failures'', JArr [])])]"

definition build_go_no_go :: "string \<Rightarrow> string \<Rightarrow> string \<Rightarrow> string \<Rightarrow> (nat \<Rightarrow> int) \<Rightarrow> json io" where
  "build_go_no_go run_id commit region owner clock =
     bindIO (lift (ensure (valid_owner owner)
       (Err StageError ''cleanup owner must name the executing operator'' []))) (\<lambda>_.
     bindIO (require_clean_commit StageError commit) (\<lambda>_.
     ask (\<lambda>w.
       bindE (read_inputs w run_id commit region (clock 0)) (\<lambda>r.
       bindE (check_receipts r run_id commit region clock) (\<lambda>(claims, order).
       bindE (input_hashes w run_id) (\<lambda>hashes.
         Inr (go_packet r claims order hashes run_id commit region owner (clock 4))))))))"

section \<open>Verifying the packet\<close>

definition sha_shape :: "string \<Rightarrow> bool" where
  "sha_shape s \<longleftrightarrow> length s = 64 \<and> list_all is_hex s"

definition check_staged :: "env \<Rightarrow> string \<Rightarrow> path \<Rightarrow> json \<Rightarrow> string \<times> string \<Rightarrow> unit res" where
  "check_staged w run_id raw inputs nf =
     bindE (ensure_private_run_path w run_id (raw @ [snd nf]) (snd nf)) (\<lambda>path.
     bindE (if is_file w path then hash_path w path else Inr '''') (\<lambda>h.
     ensure (is_file w path \<and> jget inputs (fst nf) = JStr h)
       (Err StageError ''staged {} changed after go/no-go; regenerate the packet'' [JStr (fst nf)])))"

definition observed_inputs :: "(string \<times> string \<times> string) list" where
  "observed_inputs =
     [(''identity'', ''01-identity.txt'', ''captured_at''), (''plan'', ''03-plan-summary.json'', ''captured_at''),
      (''inventory'', ''04-inventory-before.json'', ''captured_at''), (''prices'', ''02-prices.json'', ''checked_at'')]"

definition check_observed :: "env \<Rightarrow> path \<Rightarrow> int \<Rightarrow> string \<times> string \<times> string \<Rightarrow> unit res" where
  "check_observed w raw now nff =
     (case nff of (name, file, fld) \<Rightarrow>
        bindE (read_json w (raw @ [file]) name) (\<lambda>v.
        bindE (parse_recent_utc (jget v fld) (''original '' @ name @ '' observation'') now one_day) (\<lambda>_.
          Inr ())))"

definition check_decision :: "json \<Rightarrow> string \<Rightarrow> string \<Rightarrow> string \<Rightarrow> int \<Rightarrow> unit res" where
  "check_decision packet run_id commit region now =
     bindE (require_bound packet ''go/no-go packet'' run_id commit region) (\<lambda>_.
     bindE (require_passed_gate packet ''go/no-go packet'') (\<lambda>_.
     bindE (ensure (py_eq (jget packet ''schema_version'') (JInt 1) \<and> jget packet ''decision'' = JStr ''go'')
       (Err StageError ''go/no-go packet has no GO decision'' [])) (\<lambda>_.
     bindE (parse_recent_utc (jget packet ''generated_at'') ''go/no-go decision time'' now one_day) (\<lambda>_.
       Inr ()))))"

definition check_plan_hash :: "json \<Rightarrow> json \<Rightarrow> unit res" where
  "check_plan_hash packet summary =
     (let plan = jget packet ''plan'' in
      ensure (is_dict plan \<and> is_str (jget plan ''sha256'') \<and> sha_shape (str_of (jget plan ''sha256'')) \<and>
          jget summary ''plan_sha256'' = jget plan ''sha256'')
        (Err StageError ''go/no-go packet does not match the recorded plan hash'' []))"

definition check_manifest :: "env \<Rightarrow> string \<Rightarrow> json \<Rightarrow> path \<Rightarrow> path \<Rightarrow> unit res" where
  "check_manifest w run_id packet packet_path summary_path =
     (let inputs = jget packet ''input_sha256'' in
      bindE (ensure (is_dict inputs)
        (Err StageError ''go/no-go packet does not match the reviewed summary'' [])) (\<lambda>_.
      bindE (hash_path w summary_path) (\<lambda>h.
      bindE (ensure (jget inputs ''plan'' = JStr h)
        (Err StageError ''go/no-go packet does not match the reviewed summary'' [])) (\<lambda>_.
      bindE (ensure (keys_eq inputs (map fst go_inputs))
        (Err StageError ''go/no-go packet has an incomplete input manifest'' [])) (\<lambda>_.
      foldE (\<lambda>u nf. check_staged w run_id (butlast packet_path) inputs nf) () go_inputs))))) "

definition check_packet_owner :: "json \<Rightarrow> unit res" where
  "check_packet_owner packet =
     bindE (ensure (named (jget packet ''cleanup_owner''))
       (Err StageError ''go/no-go packet has no cleanup owner'' [])) (\<lambda>_.
     ensure (jget packet ''abort_command'' = JStr ''make aws-down'')
       (Err StageError ''go/no-go packet has the wrong abort command'' []))"

definition verify_go_receipt ::
  "env \<Rightarrow> string \<Rightarrow> string \<Rightarrow> string \<Rightarrow> path \<Rightarrow> path \<Rightarrow> int \<Rightarrow> json res" where
  "verify_go_receipt w run_id commit region packet_path summary_path now =
     (let raw = butlast packet_path in
      bindE (read_json w packet_path ''go/no-go packet'') (\<lambda>packet.
      bindE (check_decision packet run_id commit region now) (\<lambda>_.
      bindE (read_json w summary_path ''plan summary'') (\<lambda>summary.
      bindE (check_plan_hash packet summary) (\<lambda>_.
      bindE (check_manifest w run_id packet packet_path summary_path) (\<lambda>_.
      bindE (foldE (\<lambda>u nff. check_observed w raw now nff) () observed_inputs) (\<lambda>_.
      bindE (read_json w (raw @ [''02-prices.json'']) ''prices'') (\<lambda>prices.
      bindE (revalidate_price_receipt prices run_id commit region now) (\<lambda>_.
      bindE (check_packet_owner packet) (\<lambda>_.
        Inr packet))))))))))"

text \<open>With \<open>before_session\<close> the same checks run a second time at \<open>now + 15 minutes\<close>.\<close>

definition verify_at ::
  "env \<Rightarrow> string \<Rightarrow> string \<Rightarrow> string \<Rightarrow> path \<Rightarrow> path \<Rightarrow> path \<Rightarrow> int \<Rightarrow> json res" where
  "verify_at w run_id commit region packet_path plan_path summary_path now =
     bindE (verify_go_receipt w run_id commit region packet_path summary_path now) (\<lambda>packet.
     bindE (hash_path w plan_path) (\<lambda>h.
     bindE (ensure (jget (jget packet ''plan'') ''sha256'' = JStr h)
       (Err StageError ''go/no-go packet does not match the reviewed plan'' [])) (\<lambda>_.
       Inr packet)))"

definition verify_go_no_go ::
  "env \<Rightarrow> string \<Rightarrow> string \<Rightarrow> string \<Rightarrow> path \<Rightarrow> path \<Rightarrow> path \<Rightarrow> int \<Rightarrow> bool \<Rightarrow> json res" where
  "verify_go_no_go w run_id commit region packet_path plan_path summary_path now before_session =
     bindE (verify_at w run_id commit region packet_path plan_path summary_path now) (\<lambda>packet.
     bindE (if before_session
            then verify_at w run_id commit region packet_path plan_path summary_path (now + minutes 15)
            else Inr packet) (\<lambda>_.
       Inr packet))"

end
