(* ===== verification/Py_Decimal_Error.thy ===== *)
theory Py_Decimal_Error
  imports Py_Decimal
begin

text \<open>
  How far the rounded operations of \<open>Py_Decimal\<close> can be from the exact ones: one rounding
  to 28 digits loses at most the part \<open>10 ^ -27\<close> of the value, a division at most twice
  that. The receipts use it to bound what a limit on a rounded total says about the exact
  total.
\<close>

definition loss :: rat where
  "loss = 1 / 10 ^ 26"

lemma loss_bounds: "0 < loss" "loss < 1" "0 < 1 - loss"
  by (simp_all add: loss_def)

lemma dec_val_nonneg: "\<not> dneg d \<Longrightarrow> 0 \<le> dec_val d"
  by (simp add: dec_val_def)

lemma dneg_dec_fix [simp]: "dneg (dec_fix d) = dneg d"
  by (simp add: dec_fix_def Let_def)

lemma digits_lower: "1 < dec_digits c \<Longrightarrow> 10 ^ (dec_digits c - 1) \<le> c"
proof (rule ccontr)
  assume d: "1 < dec_digits c" and "\<not> 10 ^ (dec_digits c - 1) \<le> c"
  then have "dec_digits c \<le> dec_digits c - 1"
    unfolding dec_digits_def by (intro nat_str_length_le) auto
  with d show False by simp
qed

lemma digits_upper: "c < 10 ^ dec_digits c"
  by (simp add: dec_digits_def nat_str_bound)

lemma dec_fix_scaled:
  assumes "dec_prec < dec_digits (dcoef d)"
  defines "k \<equiv> dec_digits (dcoef d) - dec_prec"
  shows "dec_val (dec_fix d) =
    (if dneg d then - 1 else 1) * (of_nat (half_even (dcoef d) k) * 10 ^ k) * 10 powi dexp d"
proof -
  let ?q = "half_even (dcoef d) k"
  have k: "k \<noteq> 0" using assms by simp
  have powi: "(10 :: rat) powi (dexp d + int k) = 10 ^ k * 10 powi dexp d"
    by (simp add: power_int_add)
  show ?thesis
  proof (cases "?q = 10 ^ dec_prec")
    case True
    have "dec_fix d = Dec (dneg d) (10 ^ dec_prec div 10) (dexp d + int k + 1)"
      using k True unfolding dec_fix_def Let_def k_def by simp
    moreover have "(10 :: rat) powi (dexp d + int k + 1) = 10 * 10 ^ k * 10 powi dexp d"
      by (simp add: power_int_add)
    ultimately show ?thesis by (simp add: dec_val_def True dec_prec_def)
  next
    case False
    then have "dec_fix d = Dec (dneg d) ?q (dexp d + int k)"
      using k unfolding dec_fix_def Let_def k_def by simp
    then show ?thesis by (simp add: dec_val_def powi)
  qed
qed

lemma dec_fix_lower:
  assumes "0 \<le> dec_val d"
  shows "dec_val d * (1 - 1 / 10 ^ 27) \<le> dec_val (dec_fix d)"
proof (cases "dec_prec < dec_digits (dcoef d)")
  case False
  then have "dec_fix d = d" by (simp add: dec_fix_def Let_def)
  with assms show ?thesis by (simp add: algebra_simps)
next
  case True
  define k where "k = dec_digits (dcoef d) - dec_prec"
  let ?c = "of_nat (dcoef d) :: rat" and ?q = "of_nat (half_even (dcoef d) k) :: rat"
  have "0 < dec_digits (dcoef d) - 1" "dec_digits (dcoef d) - 1 = k + 27"
    using True by (simp_all add: k_def dec_prec_def)
  with True digits_lower [of "dcoef d"] have nbig: "10 ^ (k + 27) \<le> dcoef d" by (simp add: dec_prec_def)
  then have big: "10 ^ k * 10 ^ 27 \<le> ?c"
    by (metis of_nat_le_iff of_nat_numeral of_nat_power power_add)
  have "of_int (2 * \<bar>int (half_even (dcoef d) k) * 10 ^ k - int (dcoef d)\<bar>) \<le> (of_int (10 ^ k) :: rat)"
    using half_even_error by (simp only: of_int_le_iff)
  then have err: "2 * \<bar>?q * 10 ^ k - ?c\<bar> \<le> 10 ^ k" by simp
  have "0 < (10 :: nat) ^ (k + 27)" by simp
  with nbig have "dcoef d \<noteq> 0" by linarith
  then have "\<not> dneg d" using assms powi10_pos [of "dexp d"]
    by (auto simp: dec_val_def mult_le_0_iff zero_le_mult_iff not_less [symmetric])
  then have val: "dec_val d = ?c * 10 powi dexp d"
    and fix_val: "dec_val (dec_fix d) = ?q * 10 ^ k * 10 powi dexp d"
    using dec_fix_scaled [OF True] by (simp_all add: dec_val_def k_def)
  have "?c * (1 - 1 / 10 ^ 27) \<le> ?q * 10 ^ k"
  proof -
    have "10 ^ k \<le> ?c / 10 ^ 27" using big by (simp add: field_simps)
    with err show ?thesis by (simp add: algebra_simps abs_if split: if_splits)
  qed
  then have "?c * (1 - 1 / 10 ^ 27) * 10 powi dexp d \<le> ?q * 10 ^ k * 10 powi dexp d"
    by (rule mult_right_mono) simp
  then show ?thesis unfolding val fix_val by (simp add: algebra_simps)
qed

lemma fix_loss: "0 \<le> dec_val d \<Longrightarrow> dec_val d * (1 - loss) \<le> dec_val (dec_fix d)"
proof -
  assume d: "0 \<le> dec_val d"
  have "dec_val d * (1 - loss) \<le> dec_val d * (1 - 1 / 10 ^ 27)"
    using d by (intro mult_left_mono) (simp_all add: loss_def)
  with dec_fix_lower [OF d] show ?thesis by linarith
qed

lemma dec_val_exact_mul:
  "dec_val (Dec (dneg a \<noteq> dneg b) (dcoef a * dcoef b) (dexp a + dexp b)) = dec_val a * dec_val b"
  by (simp add: dec_val_def power_int_add)

lemma dec_mul_loss:
  "0 \<le> dec_val a \<Longrightarrow> 0 \<le> dec_val b \<Longrightarrow> dec_val a * dec_val b * (1 - loss) \<le> dec_val (dec_mul a b)"
  unfolding dec_mul_def using fix_loss dec_val_exact_mul [of a b] by (metis mult_nonneg_nonneg)

lemma dec_val_exact_add:
  "dec_val (Dec (dec_at (dec_cmp_exp a b) a + dec_at (dec_cmp_exp a b) b < 0)
     (nat \<bar>dec_at (dec_cmp_exp a b) a + dec_at (dec_cmp_exp a b) b\<bar>) (dec_cmp_exp a b)) =
   dec_val a + dec_val b"
proof -
  let ?e = "dec_cmp_exp a b"
  let ?v = "dec_at ?e a + dec_at ?e b"
  have "dec_val (Dec (?v < 0) (nat \<bar>?v\<bar>) ?e) = of_int ?v * 10 powi ?e"
    by (auto simp: dec_val_def)
  also have "\<dots> = dec_val a + dec_val b"
    by (simp add: dec_val_at [of ?e a] dec_val_at [of ?e b] algebra_simps)
  finally show ?thesis .
qed

lemma dec_add_loss:
  "0 \<le> dec_val a \<Longrightarrow> 0 \<le> dec_val b \<Longrightarrow> (dec_val a + dec_val b) * (1 - loss) \<le> dec_val (dec_add a b)"
  unfolding dec_add_def Let_def using fix_loss dec_val_exact_add [of a b] by (metis add_nonneg_nonneg)

lemma strip_zeros_val:
  "dec_strip_zeros n c e = (c', e') \<Longrightarrow> (of_nat c' :: rat) * 10 powi e' = of_nat c * 10 powi e"
proof (induction n c e arbitrary: c' e' rule: dec_strip_zeros.induct)
  case (2 n c e)
  show ?case
  proof (cases "c mod 10 = 0")
    case True
    then have "dec_strip_zeros n (c div 10) (e + 1) = (c', e')" using "2.prems" by simp
    from "2.IH" [OF True this] have "of_nat c' * 10 powi e' = (of_nat (c div 10) :: rat) * 10 powi (e + 1)" .
    also have "\<dots> = of_nat (c div 10 * 10) * 10 powi e" by (simp add: power_int_add)
    also have "c div 10 * 10 = c" using True by presburger
    finally show ?thesis .
  next
    case False
    with "2.prems" show ?thesis by simp
  qed
qed simp

text \<open>
  The quotient: a remainder of zero gives the exact value, otherwise the integer quotient is
  off by less than one and has at least 29 digits.
\<close>

lemma dec_div_loss:
  assumes "\<not> dneg a" and "\<not> dneg b" and "dcoef b \<noteq> 0" and "dec_div a b = Some d"
  shows "dec_val a / dec_val b * (1 - loss) \<le> dec_val d" and "0 \<le> dec_val d"
proof -
  show "dec_val a / dec_val b * (1 - loss) \<le> dec_val d"
  proof (cases "dcoef a = 0")
    case True
    with assms have "d = dec_fix (Dec False 0 (dexp a - dexp b))" by (simp add: dec_div_def)
    then have "0 \<le> dec_val d" by (simp add: dec_val_nonneg)
    with True show ?thesis by (simp add: dec_val_def)
  next
    case False
    define shift where "shift = int (dec_digits (dcoef b)) - int (dec_digits (dcoef a)) + int dec_prec + 1"
    define e where "e = dexp a - dexp b - shift"
    define n where "n = dcoef a * 10 ^ nat shift"
    define m where "m = dcoef b * 10 ^ nat (- shift)"
    define q where "q = n div m"
    have m0: "0 < m" using assms(3) by (simp add: m_def)
    have eq: "dec_div a b = (if n mod m \<noteq> 0 then Some (dec_fix (Dec False (if q mod 5 = 0 then q + 1 else q) e))
            else (let (c, e') = dec_strip_zeros (nat (dexp a - dexp b - e)) q e
                  in Some (dec_fix (Dec False c e'))))"
      using assms(1-3) False unfolding dec_div_def Let_def
      by (simp add: q_def n_def m_def e_def shift_def)
    have exact: "dec_val a / dec_val b = of_nat n / of_nat m * 10 powi e"
    proof -
      have "(10 :: rat) powi shift = 10 ^ nat shift / 10 ^ nat (- shift)"
        by (cases "0 \<le> shift") (simp_all add: power_int_def field_simps)
      moreover have "(10 :: rat) powi e = 10 powi dexp a / 10 powi dexp b / 10 powi shift"
        by (simp add: e_def power_int_diff)
      moreover have "u * A / (v * B) = u * S / (v * T) * (A / B / (S / T))"
        if "S \<noteq> 0" "T \<noteq> 0" "B \<noteq> 0" "v \<noteq> 0" for u v A B S T :: rat
        using that by (simp add: field_simps)
      ultimately show ?thesis
        using assms(1-3) by (simp add: dec_val_def n_def m_def)
    qed
    show ?thesis
    proof (cases "n mod m = 0")
      case True
      obtain c e' where ce: "dec_strip_zeros (nat (dexp a - dexp b - e)) q e = (c, e')"
        by (cases "dec_strip_zeros (nat (dexp a - dexp b - e)) q e")
      with eq True assms(4) have d: "d = dec_fix (Dec False c e')" by simp
      have "dec_val (Dec False c e') = of_nat q * 10 powi e"
        using strip_zeros_val [OF ce] by (simp add: dec_val_def)
      also have "(of_nat q :: rat) = of_nat n / of_nat m"
      proof -
        have "n = q * m" using True div_mult_mod_eq [of n m] by (simp add: q_def)
        then have "(of_nat n :: rat) = of_nat q * of_nat m" by simp
        with m0 show ?thesis by simp
      qed
      finally have "dec_val (Dec False c e') = dec_val a / dec_val b" by (simp add: exact)
      moreover have "0 \<le> dec_val (Dec False c e')" by (simp add: dec_val_nonneg)
      ultimately show ?thesis using fix_loss [of "Dec False c e'"] unfolding d by simp
    next
      case inexact: False
      define q' where "q' = (if q mod 5 = 0 then q + 1 else q)"
      with eq inexact assms(4) have d: "d = dec_fix (Dec False q' e)" by simp
      have nm: "10 ^ 28 * m \<le> n"
      proof -
        have a1: "10 ^ (dec_digits (dcoef a) - 1) \<le> dcoef a"
          using digits_lower [of "dcoef a"] False by (cases "1 < dec_digits (dcoef a)") (auto simp: Suc_le_eq)
        have da: "1 \<le> dec_digits (dcoef a)" by (simp add: dec_digits_def Suc_le_eq)
        have "10 ^ 28 * m \<le> 10 ^ 28 * (10 ^ dec_digits (dcoef b) * 10 ^ nat (- shift))"
          unfolding m_def using digits_upper [of "dcoef b"] by (intro mult_le_mono) simp_all
        also have "\<dots> = 10 ^ (28 + dec_digits (dcoef b) + nat (- shift))" by (simp only: power_add mult.assoc)
        also have "28 + dec_digits (dcoef b) + nat (- shift) = dec_digits (dcoef a) - 1 + nat shift"
          using da by (simp add: shift_def dec_prec_def)
        also have "10 ^ (dec_digits (dcoef a) - 1 + nat shift) =
            10 ^ (dec_digits (dcoef a) - 1) * (10 :: nat) ^ nat shift" by (rule power_add)
        also have "\<dots> \<le> n" unfolding n_def using a1 by (intro mult_le_mono1)
        finally show ?thesis .
      qed
      define x :: rat where "x = of_nat n / of_nat m"
      have x: "10 ^ 28 \<le> x"
      proof -
        have "(of_nat (10 ^ 28 * m) :: rat) \<le> of_nat n" using nm by (simp only: of_nat_le_iff)
        then show ?thesis using m0 by (simp add: x_def field_simps)
      qed
      have "x - 1 \<le> of_nat q"
      proof -
        have "n < Suc q * m" unfolding q_def using m0 by (simp add: dividend_less_div_times)
        then have "(of_nat n :: rat) < of_nat (Suc q * m)" by (simp only: of_nat_less_iff)
        then have "x < of_nat (Suc q)" using m0 by (simp add: x_def field_simps)
        then show ?thesis by simp
      qed
      also have "(of_nat q :: rat) \<le> of_nat q'" by (simp add: q'_def)
      finally have "x - 1 \<le> of_nat q'" .
      with x have "x * (1 - 1 / 10 ^ 28) \<le> of_nat q'" by (simp add: field_simps)
      then have "x * (1 - 1 / 10 ^ 28) * 10 powi e \<le> dec_val (Dec False q' e)"
        by (simp add: dec_val_def mult_right_mono)
      then have "x * (1 - 1 / 10 ^ 28) * 10 powi e * (1 - 1 / 10 ^ 27) \<le>
          dec_val (Dec False q' e) * (1 - 1 / 10 ^ 27)"
        by (rule mult_right_mono) simp
      also have "\<dots> \<le> dec_val d" unfolding d by (rule dec_fix_lower) (simp add: dec_val_nonneg)
      finally have low: "x * (1 - 1 / 10 ^ 28) * 10 powi e * (1 - 1 / 10 ^ 27) \<le> dec_val d" .
      have "0 \<le> x * 10 powi e" using x by simp
      then have "x * 10 powi e * (1 - loss) \<le> x * 10 powi e * ((1 - 1 / 10 ^ 28) * (1 - 1 / 10 ^ 27))"
        by (intro mult_left_mono) (simp_all add: loss_def)
      also have "\<dots> = x * (1 - 1 / 10 ^ 28) * 10 powi e * (1 - 1 / 10 ^ 27)" by (simp only: mult_ac)
      finally show ?thesis using low by (simp add: exact x_def)
    qed
  qed
  show "0 \<le> dec_val d"
    using assms by (auto simp: dec_div_def Let_def dec_val_nonneg split: if_splits prod.splits)
qed

end
