(* ===== verification/Stage_Prices_Correct.thy ===== *)
theory Stage_Prices_Correct
  imports Stage_Prices Py_Decimal_Error
begin

text \<open>
  Correctness of the price check: an accepted input yields a receipt over exactly the fixed
  rates, whose recomputed total respects the hourly limit; a receipt validates again exactly
  by recomputation, and the receipts of the script itself do as long as the check is recent
  and no rate is so small that \<open>str(Decimal)\<close> prints it with an exponent.
\<close>

section \<open>Equality and stripping\<close>

fun no_nan :: "json \<Rightarrow> bool" where
  "no_nan (JFloat n) = (n \<noteq> NaN)"
| "no_nan (JArr xs) = (\<forall>x \<in> set xs. no_nan x)"
| "no_nan (JObj ps) = (\<forall>p \<in> set ps. no_nan (snd p))"
| "no_nan _ = True"

lemma num_eq_refl: "n \<noteq> NaN \<Longrightarrow> num_eq n n"
  by (cases n) (auto simp: dec_eq_val)

lemma py_eq_refl: "no_nan v \<Longrightarrow> wf_json v \<Longrightarrow> py_eq v v"
proof (induction v)
  case (JArr xs)
  then show ?case by (auto simp: list_all2_same)
next
  case (JObj ps)
  have "map_of ps (fst p) = Some (snd p)" if "p \<in> set ps" for p
    using JObj.prems that by (auto simp: map_of_eq_Some_iff)
  with JObj show ?case by (fastforce simp: snds.simps)
qed (auto simp: num_eq_refl)

lemma dropWhile_idem: "dropWhile P (dropWhile P xs) = dropWhile P xs"
  by (induction xs) auto

lemma strip_strip [str_simps]: "strip (strip s) = strip s"
proof -
  let ?a = "dropWhile is_space s"
  let ?b = "dropWhile is_space (rev ?a)"
  have "dropWhile is_space (rev ?b) = rev ?b"
  proof (cases "rev ?b")
    case Nil
    then have "?b = []" by (metis rev_is_Nil_conv)
    then show ?thesis by (metis dropWhile.simps(1) rev.simps(1))
  next
    case (Cons x xs)
    have "rev ?a = takeWhile is_space (rev ?a) @ ?b" by simp
    then have "?a = rev ?b @ rev (takeWhile is_space (rev ?a))" by (metis rev_append rev_rev_ident)
    with Cons have "?a = x # xs @ rev (takeWhile is_space (rev ?a))" by simp
    then have "?a \<noteq> []" and "hd ?a = x" by (metis list.distinct(1), metis list.sel(1))
    then have "\<not> is_space x" using hd_dropWhile [of is_space s] by auto
    with Cons show ?thesis by simp
  qed
  then show ?thesis by (simp add: strip_def dropWhile_idem)
qed

lemma set_strip: "set (strip s) \<subseteq> set s"
  by (auto simp: strip_def dest!: set_dropWhileD)

section \<open>The rates\<close>

lemma rate_table_lookup:
  assumes "rate_table rates = Inr table"
  shows "map_of table name = Some d \<longleftrightarrow>
    (\<exists>v. map_of rates name = Some v \<and> decimal_rate v name = Inr d)"
  using assms
proof (induction rates arbitrary: table)
  case Nil
  then show ?case by (simp add: rate_table_def)
next
  case (Cons r rates)
  obtain n v where r: "r = (n, v)" by (cases r)
  from Cons.prems obtain d' rest where d': "decimal_rate v n = Inr d'" and
    rest: "rate_table rates = Inr rest" and t: "table = (n, d') # rest"
    by (auto simp: rate_table_def r bindE_eq_Inr)
  show ?case using Cons.IH [OF rest] d' by (auto simp: t r)
qed

lemma decimal_rate_ok:
  "decimal_rate v name = Inr d \<longleftrightarrow>
     is_str v \<and> decimal_shape (str_of v) \<and> dec_parse (str_of v) = Some (Fin d)"
  by (auto simp: decimal_rate_def split: option.splits num.splits)

lemma decimal_rate_str: "decimal_shape (dec_str d) \<Longrightarrow> decimal_rate (JStr (dec_str d)) name = Inr d"
  by (simp add: decimal_rate_ok dec_parse_str)

lemma item_hourly_price_item [simp]: "item_hourly (price_item rates c) = hourly_of rates c"
  by (simp add: item_hourly_def price_item_def dec_parse_str)

section \<open>Accepted inputs\<close>

lemma validate_price_input_ok:
  assumes "validate_price_input v run_id commit region now = Inr r"
  obtains checked table where
    "region = ''us-east-1''" "jget v ''confirmed'' = JBool True"
    "valid_reviewer (jget v ''checked_by'')"
    "parse_checked_at (jget v ''checked_at'') now = Inr checked"
    "is_dict (jget v ''rates'')" "keys_eq (jget v ''rates'') price_rate_names"
    "rate_table (obj_of (jget v ''rates'')) = Inr table"
    "\<not> dec_lt maximum_hourly_usd (price_total (map (price_item (lookup_rate table)) price_components))"
    "r = price_receipt run_id commit region checked (str_of (jget v ''checked_by''))
           (map (price_item (lookup_rate table)) price_components)"
    "jget v ''run_id'' = JStr run_id" "jget v ''source_commit'' = JStr commit"
  using assms unfolding validate_price_input_def Let_def bindE_eq_Inr ensure_eq_Inr
  by (auto intro: that)

lemma accepted_rate:
  assumes "is_dict rates" and "keys_eq rates price_rate_names" and "rate_table (obj_of rates) = Inr table"
    and "name \<in> set price_rate_names"
  shows "decimal_rate (jget rates name) name = Inr (lookup_rate table name)"
proof -
  from assms(2,4) have "has_key rates name" by (simp add: keys_eq_has_key)
  then have v: "map_of (obj_of rates) name = Some (jget rates name)"
    by (auto simp: has_key_def jget_def)
  from assms(3) have "\<exists>d. decimal_rate (jget rates name) name = Inr d"
    unfolding rate_table_def mapE_eq_Inr
    using list_all2_set1 [OF _ map_of_SomeD [OF v]] by (fastforce simp: bindE_eq_Inr)
  then obtain d where d: "decimal_rate (jget rates name) name = Inr d" ..
  with v rate_table_lookup [OF assms(3), of name d] show ?thesis by (simp add: lookup_rate_def)
qed

lemma component_rates: "pc_rate ` set price_components = set price_rate_names"
  by (simp add: price_components_def price_rate_names_def component_def insert_commute)

lemma price_total_map:
  "price_total (map (price_item rates) cs) = foldl (\<lambda>t c. dec_add t (hourly_of rates c)) (Dec False 0 0) cs"
proof -
  have "foldl (\<lambda>t item. dec_add t (item_hourly item)) t0 (map (price_item rates) cs) =
      foldl (\<lambda>t c. dec_add t (hourly_of rates c)) t0 cs" for t0
    by (induction cs arbitrary: t0) auto
  then show ?thesis by (simp add: price_total_def)
qed

section \<open>Decimal strings\<close>

lemma decimal_shape_parts:
  assumes "decimal_shape s"
  obtains ip fp where "s = ip @ (if fp = [] then [] else CHR ''.'' # fp)" and "ip \<noteq> []"
    and "\<And>c. c \<in> set ip \<Longrightarrow> is_digit c" and "\<And>c. c \<in> set fp \<Longrightarrow> is_digit c"
proof (cases "dropWhile is_digit s")
  case Nil
  then have "s = takeWhile is_digit s @ (if [] = [] then [] else CHR ''.'' # [])"
    by (metis append_Nil2 takeWhile_dropWhile_id)
  with assms Nil show ?thesis
    by (intro that [of "takeWhile is_digit s" "[]"]) (auto simp: decimal_shape_def dest: set_takeWhileD)
next
  case (Cons c fp)
  with assms have c: "c = CHR ''.''" "fp \<noteq> []" "list_all is_digit fp" "takeWhile is_digit s \<noteq> []"
    by (auto simp: decimal_shape_def)
  have "s = takeWhile is_digit s @ c # fp" by (metis Cons takeWhile_dropWhile_id)
  with c show ?thesis
    by (intro that [of "takeWhile is_digit s" fp]) (auto simp: list_all_iff dest: set_takeWhileD)
qed

lemma decimal_shape_intro:
  assumes "ip \<noteq> []" and "\<And>c. c \<in> set ip \<Longrightarrow> is_digit c" and "\<And>c. c \<in> set fp \<Longrightarrow> is_digit c"
  shows "decimal_shape (ip @ (if fp = [] then [] else CHR ''.'' # fp))"
proof -
  let ?r = "if fp = [] then [] else CHR ''.'' # fp"
  have "takeWhile is_digit (ip @ ?r) = ip" "dropWhile is_digit (ip @ ?r) = ?r"
    using takeWhile_digits [of ip ?r] assms(2) by auto
  then show ?thesis using assms by (simp add: decimal_shape_def Let_def list_all_iff)
qed

lemma decimal_shape_parse:
  assumes "decimal_shape s"
  obtains d where "dec_parse s = Some (Fin d)" and "\<not> dneg d" and "dexp d \<le> 0"
proof -
  obtain ip fp where s: "s = ip @ (if fp = [] then [] else CHR ''.'' # fp)" and ip: "ip \<noteq> []"
    "\<And>c. c \<in> set ip \<Longrightarrow> is_digit c" and fp: "\<And>c. c \<in> set fp \<Longrightarrow> is_digit c"
    by (rule decimal_shape_parts [OF assms]) (rule that; assumption)
  have dot: "\<not> is_space (CHR ''.'')" by (simp add: is_space_def)
  have "dec_parse s = parse_finite False s"
  proof (rule dec_parse_finite)
    show "is_digit (hd s)" using s ip by (cases ip) auto
    show "s \<noteq> []" using s ip by simp
    fix c
    assume "c \<in> set s"
    then show "\<not> is_space c \<and> c \<noteq> CHR ''_''"
      using s ip(2) [of c] fp [of c] digit_not_space [of c] dot by (auto split: if_splits)
  qed simp
  also have "\<dots> = Some (Fin (Dec False (str_nat (ip @ fp)) (0 - int (length fp))))"
    by (rule parse_finite_parts [OF ip(2,1) fp, where ex = "[]"]) (auto simp: s)
  finally show ?thesis using that by auto
qed

text \<open>A rate prints without an exponent unless it is smaller than a millionth.\<close>

definition plain_rate :: "dec \<Rightarrow> bool" where
  "plain_rate d \<longleftrightarrow> - 6 < dexp d + int (length (nat_str (dcoef d)))"

lemma plain_shape:
  assumes "plain_rate d" and "\<not> dneg d" and "dexp d \<le> 0"
  shows "decimal_shape (dec_str d)"
proof -
  obtain ip fp ex where
    eq: "dec_str d = (if dneg d then ''-'' else '''') @ ip @ (if fp = [] then [] else CHR ''.'' # fp) @ ex"
    and ip: "\<And>c. c \<in> set ip \<Longrightarrow> is_digit c" "ip \<noteq> []" and fp: "\<And>c. c \<in> set fp \<Longrightarrow> is_digit c"
    and ex: "ex = [] \<longleftrightarrow> dexp d + int (length (nat_str (dcoef d))) = dec_point d"
    by (rule dec_str_parts [of d]) (rule that; assumption)
  have "ex = []" using assms(1,3) ex by (simp add: plain_rate_def dec_point_def Let_def)
  with eq assms(2) decimal_shape_intro [OF ip(2,1) fp] show ?thesis by simp
qed

section \<open>The limit\<close>

definition rate_value :: "json \<Rightarrow> string \<Rightarrow> rat" where
  "rate_value rates name =
     (case dec_parse (str_of (jget rates name)) of Some (Fin d) \<Rightarrow> dec_val d | _ \<Rightarrow> 0)"

text \<open>The exact cost of one hour of the fixed topology at the given rates.\<close>

definition exact_cost :: "json \<Rightarrow> rat" where
  "exact_cost rates =
     sum_list (map (\<lambda>c. rate_value rates (pc_rate c) * dec_val (pc_quantity c) / dec_val (pc_divisor c))
       price_components)"

lemma hourly_of_loss:
  assumes "c \<in> set price_components" and "\<not> dneg (rates (pc_rate c))"
  shows "dec_val (rates (pc_rate c)) * dec_val (pc_quantity c) / dec_val (pc_divisor c) *
      (1 - loss) ^ 2 \<le> dec_val (hourly_of rates c)"
    and "0 \<le> dec_val (hourly_of rates c)"
proof -
  let ?r = "rates (pc_rate c)" and ?q = "pc_quantity c" and ?v = "pc_divisor c"
  have c: "\<not> dneg ?q" "\<not> dneg ?v" "dcoef ?v \<noteq> 0" "0 < dec_val ?v"
    using assms(1) by (auto simp: price_components_def component_def dec_val_def)
  have neg: "\<not> dneg (dec_mul ?r ?q)" using assms(2) c by (simp add: dec_mul_def)
  have "dec_div (dec_mul ?r ?q) ?v \<noteq> None"
    using c(3) by (auto simp: dec_div_def Let_def split: prod.splits)
  then obtain d where d: "dec_div (dec_mul ?r ?q) ?v = Some d" by blast
  then have h: "hourly_of rates c = d" by (simp add: hourly_of_def)
  note dl = dec_div_loss [OF neg c(2,3) d]
  show "0 \<le> dec_val (hourly_of rates c)" using dl(2) h by simp
  have "dec_val ?r * dec_val ?q * (1 - loss) \<le> dec_val (dec_mul ?r ?q)"
    using assms(2) c(1) by (intro dec_mul_loss dec_val_nonneg)
  then have "dec_val ?r * dec_val ?q * (1 - loss) / dec_val ?v * (1 - loss) \<le>
      dec_val (dec_mul ?r ?q) / dec_val ?v * (1 - loss)"
    using c(4) loss_bounds by (intro mult_right_mono divide_right_mono) simp_all
  also have "\<dots> \<le> dec_val d" by (rule dl(1))
  finally show "dec_val ?r * dec_val ?q / dec_val ?v * (1 - loss) ^ 2 \<le> dec_val (hourly_of rates c)"
    unfolding h by (simp add: power2_eq_square algebra_simps)
qed

lemma foldl_add_loss:
  assumes "\<And>c. c \<in> set cs \<Longrightarrow> 0 \<le> dec_val (f c)" and "0 \<le> dec_val t"
  shows "(dec_val t + sum_list (map (\<lambda>c. dec_val (f c)) cs)) * (1 - loss) ^ length cs \<le>
      dec_val (foldl (\<lambda>t c. dec_add t (f c)) t cs)"
  using assms
proof (induction cs arbitrary: t)
  case Nil
  then show ?case by simp
next
  case (Cons c cs)
  let ?t = "dec_add t (f c)" and ?s = "sum_list (map (\<lambda>c. dec_val (f c)) cs)"
  have fc: "0 \<le> dec_val (f c)" using Cons.prems by simp
  have add: "(dec_val t + dec_val (f c)) * (1 - loss) \<le> dec_val ?t"
    using Cons.prems(2) fc by (intro dec_add_loss)
  have "0 \<le> (dec_val t + dec_val (f c)) * (1 - loss)"
    using Cons.prems(2) fc loss_bounds by simp
  with add have t0: "0 \<le> dec_val ?t" by linarith
  have s0: "0 \<le> ?s" using Cons.prems(1) by (intro sum_list_nonneg) auto
  have "?s * (1 - loss) \<le> ?s" using s0 loss_bounds by (simp add: mult_left_le)
  with add have "(dec_val t + (dec_val (f c) + ?s)) * (1 - loss) \<le> dec_val ?t + ?s"
    by (simp add: algebra_simps)
  then have "(dec_val t + (dec_val (f c) + ?s)) * (1 - loss) * (1 - loss) ^ length cs \<le>
      (dec_val ?t + ?s) * (1 - loss) ^ length cs"
    using loss_bounds by (intro mult_right_mono) simp_all
  also have "\<dots> \<le> dec_val (foldl (\<lambda>t c. dec_add t (f c)) ?t cs)"
    using Cons.IH [OF _ t0] Cons.prems(1) by simp
  finally show ?case by (simp add: mult_ac)
qed

lemma price_total_loss:
  assumes "\<And>c. c \<in> set price_components \<Longrightarrow> \<not> dneg (rates (pc_rate c))"
  shows "sum_list (map (\<lambda>c. dec_val (rates (pc_rate c)) * dec_val (pc_quantity c) /
      dec_val (pc_divisor c)) price_components) * (1 - loss) ^ 10 \<le>
    dec_val (price_total (map (price_item rates) price_components))"
proof -
  let ?e = "\<lambda>c. dec_val (rates (pc_rate c)) * dec_val (pc_quantity c) / dec_val (pc_divisor c)"
  let ?h = "\<lambda>c. dec_val (hourly_of rates c)"
  have "sum_list (map ?e price_components) * (1 - loss) ^ 2 =
      sum_list (map (\<lambda>c. ?e c * (1 - loss) ^ 2) price_components)"
    by (rule sum_list_mult_const [symmetric])
  also have "\<dots> \<le> sum_list (map ?h price_components)"
    using hourly_of_loss(1) assms by (intro sum_list_mono) blast
  finally have "sum_list (map ?e price_components) * (1 - loss) ^ 2 * (1 - loss) ^ length price_components
      \<le> sum_list (map ?h price_components) * (1 - loss) ^ length price_components"
    using loss_bounds by (intro mult_right_mono) simp_all
  also have "\<dots> \<le> dec_val (foldl (\<lambda>t c. dec_add t (hourly_of rates c)) (Dec False 0 0) price_components)"
    using foldl_add_loss [of price_components "hourly_of rates" "Dec False 0 0"] hourly_of_loss(2) assms
    by (simp add: dec_val_def)
  also have "length price_components = 8" by (simp add: price_components_def)
  finally show ?thesis by (simp add: price_total_map mult.assoc flip: power_add)
qed

lemma accepted_cost:
  assumes "validate_price_input v run_id commit region now = Inr r"
  shows "exact_cost (jget v ''rates'') \<le> 5 / 4 + 1 / 10 ^ 20"
proof -
  obtain table where
    rates: "is_dict (jget v ''rates'')" "keys_eq (jget v ''rates'') price_rate_names"
      "rate_table (obj_of (jget v ''rates'')) = Inr table" and
    limit: "\<not> dec_lt maximum_hourly_usd (price_total (map (price_item (lookup_rate table)) price_components))"
    by (rule validate_price_input_ok [OF assms]) (rule that)
  have ok: "decimal_rate (jget (jget v ''rates'') (pc_rate c)) (pc_rate c) = Inr (lookup_rate table (pc_rate c))"
    if "c \<in> set price_components" for c
    by (rule accepted_rate [OF rates]) (use that component_rates in blast)
  have pos: "\<not> dneg (lookup_rate table (pc_rate c))" if "c \<in> set price_components" for c
    using ok [OF that] by (auto simp: decimal_rate_ok elim: decimal_shape_parse)
  have val: "rate_value (jget v ''rates'') (pc_rate c) = dec_val (lookup_rate table (pc_rate c))"
    if "c \<in> set price_components" for c
    using ok [OF that] by (simp add: rate_value_def decimal_rate_ok)
  have "exact_cost (jget v ''rates'') = sum_list (map (\<lambda>c. dec_val (lookup_rate table (pc_rate c)) *
      dec_val (pc_quantity c) / dec_val (pc_divisor c)) price_components)"
    unfolding exact_cost_def by (intro arg_cong [where f = sum_list] map_cong refl) (simp add: val)
  then have "exact_cost (jget v ''rates'') * (1 - loss) ^ 10 \<le>
      dec_val (price_total (map (price_item (lookup_rate table)) price_components))"
    using price_total_loss [of "lookup_rate table", OF pos] by simp
  also have "\<dots> \<le> 5 / 4" using limit by (simp add: dec_lt_val maximum_hourly_usd_def dec_val_def)
  finally have "exact_cost (jget v ''rates'') \<le> (5 / 4) / (1 - loss) ^ 10"
    using loss_bounds by (simp add: field_simps)
  also have "\<dots> \<le> 5 / 4 + 1 / 10 ^ 20" by (simp add: loss_def field_simps)
  finally show ?thesis .
qed

text \<open>
  C38. An accepted price input bounds the exact cost. The receipt's total is a sum of rounded
  products and quotients, and what the gate compares with the limit of 1.25 dollars is that
  rounded total; the exact hourly cost of the fixed topology at the given rates exceeds the
  limit at most by a vanishing rounding error, far below any billable amount.
\<close>

theorem accepted_price_bounds_exact_cost:
  assumes "validate_price_input v run_id commit region now = Inr r"
  shows "exact_cost (jget v ''rates'') \<le> 5 / 4 + 1 / 10 ^ 20"
  by (rule accepted_cost [OF assms])

section \<open>Validating again\<close>

lemma price_item_fields [simp]:
  "is_dict (price_item rates c)" "jget (price_item rates c) ''rate_name'' = JStr (pc_rate c)"
  "jget (price_item rates c) ''rate_usd'' = JStr (dec_str (rates (pc_rate c)))"
  by (simp_all add: price_item_def)

lemma collect_rates_items:
  assumes "distinct (map pc_rate cs)" and "\<forall>c \<in> set cs. pc_rate c \<notin> fst ` set acc"
  shows "foldE (\<lambda>rates item.
       if \<not> is_dict item \<or> \<not> is_str (jget item ''rate_name'')
       then raise StageError ''price evidence contains an invalid item'' []
       else (let name = str_of (jget item ''rate_name'') in
             if map_of rates name \<noteq> None then raise StageError ''price evidence repeats {}'' [JStr name]
             else Inr (al_set rates name (jget item ''rate_usd'')))) acc (map (price_item rates) cs) =
     Inr (acc @ map (\<lambda>c. (pc_rate c, JStr (dec_str (rates (pc_rate c))))) cs)"
  using assms
proof (induction cs arbitrary: acc)
  case Nil
  then show ?case by simp
next
  case (Cons c cs)
  have new: "map_of acc (pc_rate c) = None" using Cons.prems(2) by (simp add: map_of_eq_None_iff)
  have append: "al_set acc (pc_rate c) x = acc @ [(pc_rate c, x)]" for x
    using Cons.prems(2) by (induction acc) auto
  have ne: "\<forall>ca \<in> set cs. pc_rate ca \<noteq> pc_rate c" 
    using Cons.prems(1) by (metis distinct.simps(2) imageI list.simps(9) set_map)
  show ?case
    using Cons.IH [of "acc @ [(pc_rate c, JStr (dec_str (rates (pc_rate c))))]"] Cons.prems new ne
    by (simp add: append ball_Un Let_def)
qed

lemma component_rates_distinct: "distinct (map pc_rate price_components)"
  by (simp add: price_components_def component_def)

lemma collect_price_items:
  "collect_rates (map (price_item rates) price_components) =
     Inr (map (\<lambda>c. (pc_rate c, JStr (dec_str (rates (pc_rate c))))) price_components)"
  unfolding collect_rates_def
  by (subst collect_rates_items [OF component_rates_distinct]) simp_all

lemma rate_table_strings:
  assumes "\<And>c. c \<in> set cs \<Longrightarrow> decimal_shape (dec_str (rates (pc_rate c)))"
  shows "rate_table (map (\<lambda>c. (pc_rate c, JStr (dec_str (rates (pc_rate c))))) cs) =
    Inr (map (\<lambda>c. (pc_rate c, rates (pc_rate c))) cs)"
  using assms unfolding rate_table_def
  by (induction cs) (auto simp: decimal_rate_str)

lemma lookup_rate_map:
  "c \<in> set cs \<Longrightarrow> lookup_rate (map (\<lambda>c. (pc_rate c, f (pc_rate c))) cs) (pc_rate c) = f (pc_rate c)"
  by (induction cs) (auto simp: lookup_rate_def)

lemma price_item_cong: "f (pc_rate c) = g (pc_rate c) \<Longrightarrow> price_item f c = price_item g c"
  by (simp add: price_item_def hourly_of_def)

lemma valid_reviewer_strip: "valid_reviewer v \<Longrightarrow> valid_reviewer (JStr (strip (str_of v)))"
  using set_strip by (auto simp: valid_reviewer_def strip_strip)

lemma parse_stamp_cut:
  assumes "valid_time t" and "parse_stamp (stamp_text t) = Some u"
  shows "u = t"
proof -
  have "length (nat_str (yr t)) = 4"
  proof -
    obtain rest where r: "stamp_text t = nat_str (yr t) @ CHR ''-'' # rest"
      by (simp add: stamp_text_def)
    have "digits (nat_str (yr t))" using nat_str_digits by (auto simp: digits_def list_all_iff)
    from digits_no_sep [OF this] have "cut ''-'' (stamp_text t) = Some (nat_str (yr t), rest)"
      unfolding r by (intro cut_here) auto
    with assms(2) show ?thesis
      by (auto simp: parse_stamp_def bind_eq_Some_conv parse_fields_def split: if_splits prod.splits)
  qed
  moreover have "yr t \<le> 999 \<Longrightarrow> length (nat_str (yr t)) \<le> 3" using nat_str_length_le [of 3 "yr t"] by simp
  ultimately have "full_year t" using assms(1) by (cases "1000 \<le> yr t") (auto simp: full_year_def)
  with parse_stamp_text assms(2) show ?thesis by simp
qed

lemma parse_checked_at_Inr:
  "parse_checked_at v now = Inr t \<longleftrightarrow> is_str v \<and> parse_stamp (str_of v) = Some t \<and>
     instant t \<le> now + minutes 5 \<and> now - instant t \<le> one_day"
  by (auto simp: parse_checked_at_def parse_recent_utc_def split: option.splits)

lemma sources_fact: "py_eq price_sources_json price_sources_json"
  by (rule py_eq_refl) (simp_all add: price_sources_json_def price_sources_def)

lemma price_receipt_fields:
  "jget (price_receipt a b c d e items) ''items'' = JArr items"
  "receipt_source (price_receipt a b c d e items) rates = JObj
     [(''schema_version'', JInt 1), (''run_id'', JStr a), (''source_commit'', JStr b),
      (''region'', JStr c), (''currency'', JStr ''USD''), (''confirmed'', JBool True),
      (''checked_at'', JStr (stamp_text d)), (''checked_by'', JStr (strip e)),
      (''sources'', price_sources_json), (''rates'', JObj rates)]"
  by (simp_all add: price_receipt_def receipt_source_def)

lemma receipt_eq_refl:
  "py_eq (price_receipt a b c d e (map (price_item rates) price_components))
     (price_receipt a b c d e (map (price_item rates) price_components))"
  by (rule py_eq_refl)
     (simp_all add: price_receipt_def price_item_def price_sources_json_def price_sources_def split_beta)

lemma receipt_revalidates:
  assumes "validate_price_input v run_id commit region now = Inr r"
    and "is_ok (parse_checked_at (jget r ''checked_at'') now')"
    and "\<forall>item \<in> set (items_of (jget r ''items'')). decimal_shape (str_of (jget item ''rate_usd''))"
  shows "revalidate_price_receipt r run_id commit region now' = Inr r"
proof -
  obtain checked table where region: "region = ''us-east-1''" and
    reviewer: "valid_reviewer (jget v ''checked_by'')" and
    checked: "parse_checked_at (jget v ''checked_at'') now = Inr checked" and
    limit: "\<not> dec_lt maximum_hourly_usd (price_total (map (price_item (lookup_rate table)) price_components))" and
    r: "r = price_receipt run_id commit region checked (str_of (jget v ''checked_by''))
           (map (price_item (lookup_rate table)) price_components)"
    by (rule validate_price_input_ok [OF assms(1)]) (rule that)
  let ?rates = "lookup_rate table"
  let ?pairs = "map (\<lambda>c. (pc_rate c, JStr (dec_str (?rates (pc_rate c))))) price_components"
  let ?table = "map (\<lambda>c. (pc_rate c, ?rates (pc_rate c))) price_components"
  let ?items = "map (price_item ?rates) price_components"
  have shapes: "decimal_shape (dec_str (?rates (pc_rate c)))" if "c \<in> set price_components" for c
    using assms(3) that by (auto simp: r price_receipt_fields price_item_def)
  have again: "map (price_item (lookup_rate ?table)) price_components = ?items"
    by (intro map_cong refl price_item_cong) (simp add: lookup_rate_map)
  have keys: "keys_eq (JObj ?pairs) price_rate_names"
    using component_rates by (simp add: keys_eq_def image_image comp_def)
  obtain t where t: "parse_checked_at (jget r ''checked_at'') now' = Inr t"
    using assms(2) by (auto simp: is_ok_iff)
  have "jget r ''checked_at'' = JStr (stamp_text checked)" by (simp add: r price_receipt_def)
  moreover have "valid_time checked" using checked by (auto simp: parse_checked_at_Inr dest: parse_stamp_valid)
  ultimately have t': "parse_checked_at (JStr (stamp_text checked)) now' = Inr checked"
    using t parse_stamp_cut [of checked t] by (auto simp: parse_checked_at_Inr)
  have "validate_price_input (receipt_source r ?pairs) run_id commit region now' = Inr r"
    unfolding r price_receipt_fields(2)
    using region valid_reviewer_strip [OF reviewer] limit keys
    by (simp add: validate_price_input_def Let_def t' sources_fact rate_table_strings [where rates = ?rates, OF shapes]
        again strip_strip price_receipt_def del: map_map)
  then show ?thesis
    unfolding revalidate_price_receipt_def
    by (simp add: r price_receipt_fields(1) collect_price_items receipt_eq_refl)
qed


lemma py_eq_get:
  assumes "py_eq (JObj ps) w" and "map_of ps k = Some (JStr s)"
  shows "jget w k = JStr s"
proof -
  from assms(1) obtain qs where w: "w = JObj qs"
    by (cases w) (auto simp: py_eq.simps [of "JObj ps"])
  from assms(2) have "(k, JStr s) \<in> set ps" by (rule map_of_SomeD)
  with assms(1) w show ?thesis by (fastforce simp: jget_obj split: option.splits)
qed

lemma revalidated_receipt:
  assumes "revalidate_price_receipt receipt run_id commit region now = Inr e"
  obtains rates total where
    "collect_rates (items_of (jget receipt ''items'')) = Inr rates"
    "exact_cost (JObj rates) \<le> 5 / 4 + 1 / 10 ^ 20"
    "dec_val total \<le> 5 / 4"
    "jget receipt ''total_hourly_usd'' = JStr (dec_str total)"
    "jget e ''total_hourly_usd'' = JStr (dec_str total)"
    "jget receipt ''maximum_hourly_usd'' = JStr ''1.25''"
    "jget receipt ''run_id'' = JStr run_id" "jget receipt ''source_commit'' = JStr commit"
proof -
  from assms obtain rates where
    rates: "collect_rates (items_of (jget receipt ''items'')) = Inr rates" and
    valid: "validate_price_input (receipt_source receipt rates) run_id commit region now = Inr e" and
    eq: "py_eq e receipt"
    by (auto simp: revalidate_price_receipt_def bindE_eq_Inr split: if_splits)
  obtain checked table where
    limit: "\<not> dec_lt maximum_hourly_usd (price_total (map (price_item (lookup_rate table)) price_components))" and
    e: "e = price_receipt run_id commit region checked (str_of (jget (receipt_source receipt rates) ''checked_by''))
           (map (price_item (lookup_rate table)) price_components)"
    by (rule validate_price_input_ok [OF valid]) (rule that)
  let ?total = "price_total (map (price_item (lookup_rate table)) price_components)"
  note get = py_eq_get [OF eq [unfolded e price_receipt_def]]
  have "dec_str maximum_hourly_usd = ''1.25''" by code_simp
  moreover have "jget receipt ''maximum_hourly_usd'' = JStr (dec_str maximum_hourly_usd)"
    by (rule get) simp
  moreover have "jget receipt ''total_hourly_usd'' = JStr (dec_str ?total)"
    "jget receipt ''run_id'' = JStr run_id" "jget receipt ''source_commit'' = JStr commit"
    by (rule get, simp)+
  moreover have "dec_val ?total \<le> 5 / 4"
    using limit by (simp add: dec_lt_val maximum_hourly_usd_def dec_val_def)
  moreover have "exact_cost (JObj rates) \<le> 5 / 4 + 1 / 10 ^ 20"
    using accepted_cost [OF valid] by (simp add: receipt_source_def)
  moreover have "jget e ''total_hourly_usd'' = JStr (dec_str ?total)"
    by (simp add: e price_receipt_def)
  ultimately show ?thesis using rates by (intro that [of rates ?total]) simp_all
qed

text \<open>
  A receipt that was edited after the price step cannot reach a GO decision: whenever
  one validates again, its recorded total and hourly limit are the recomputed ones, the
  recomputed total respects the limit, and so does the exact cost at the receipt's own
  rates, up to the rounding error of the previous property.
\<close>

theorem revalidated_receipt_sound:
  assumes "revalidate_price_receipt receipt run_id commit region now = Inr e"
  shows "\<exists>rates total. collect_rates (items_of (jget receipt ''items'')) = Inr rates \<and>
    exact_cost (JObj rates) \<le> 5 / 4 + 1 / 10 ^ 20 \<and>
    jget receipt ''total_hourly_usd'' = JStr (dec_str total) \<and> dec_val total \<le> 5 / 4 \<and>
    jget receipt ''maximum_hourly_usd'' = JStr ''1.25'' \<and>
    jget receipt ''run_id'' = JStr run_id \<and> jget receipt ''source_commit'' = JStr commit"
  by (rule revalidated_receipt [OF assms]) blast

section \<open>Concrete inputs\<close>

definition sample_rate_text :: "string \<Rightarrow> string \<Rightarrow> string" where
  "sample_rate_text partition_rate name =
     (if name = ''msk_partition_hour'' then partition_rate
      else if name = ''rds_gp3_gb_month'' then ''0.73'' else ''0.10'')"

definition sample_price_input :: "string \<Rightarrow> json" where
  "sample_price_input partition_rate = JObj
     [(''schema_version'', JInt 1), (''run_id'', JStr ''20260101T000000Z''),
      (''source_commit'', JStr ''0123456789abcdef0123456789abcdef01234567''), (''region'', JStr ''us-east-1''), (''currency'', JStr ''USD''),
      (''confirmed'', JBool True), (''checked_at'', JStr ''2026-01-01T00:00:00Z''),
      (''checked_by'', JStr ''reviewer''), (''sources'', price_sources_json),
      (''rates'', JObj (map (\<lambda>name. (name, JStr (sample_rate_text partition_rate name))) price_rate_names))]"

definition sample_checked :: datetime where
  "sample_checked = \<lparr>yr = 2026, mo = 1, dy = 1, hh = 0, mi = 0, ss = 0\<rparr>"

definition sample_time :: int where
  "sample_time = instant sample_checked + minutes 60"

definition sample_price_run :: "string \<Rightarrow> json res" where
  "sample_price_run rate =
     validate_price_input (sample_price_input rate) ''20260101T000000Z'' ''0123456789abcdef0123456789abcdef01234567'' ''us-east-1'' sample_time"

definition sample_rates :: "dec \<Rightarrow> string \<Rightarrow> dec" where
  "sample_rates d name =
     (if name = ''msk_partition_hour'' then d
      else if name = ''rds_gp3_gb_month'' then Dec False 73 (- 2) else Dec False 10 (- 2))"

definition sample_receipt :: "dec \<Rightarrow> json" where
  "sample_receipt d = price_receipt ''20260101T000000Z'' ''0123456789abcdef0123456789abcdef01234567'' ''us-east-1'' sample_checked ''reviewer''
     (map (price_item (sample_rates d)) price_components)"

lemma sample_stamp: "parse_stamp ''2026-01-01T00:00:00Z'' = Some sample_checked"
  by code_simp

lemma sample_stamp_text: "stamp_text sample_checked = ''2026-01-01T00:00:00Z''"
  by code_simp

lemma sample_check_time:
  "parse_checked_at (JStr ''2026-01-01T00:00:00Z'') sample_time = Inr sample_checked"
  "parse_checked_at (JStr ''2026-01-01T00:00:00Z'') (sample_time + minutes 60) = Inr sample_checked"
  by (simp_all add: parse_checked_at_Inr sample_stamp sample_time_def minutes_def one_day_def)

lemma sample_reviewer: "valid_reviewer (JStr ''reviewer'')"
  by code_simp

lemma sample_decimals:
  "decimal_rate (JStr ''0.10'') name = Inr (Dec False 10 (- 2))"
  "decimal_rate (JStr ''0.73'') name = Inr (Dec False 73 (- 2))"
proof -
  have "decimal_shape ''0.10'' \<and> dec_parse ''0.10'' = Some (Fin (Dec False 10 (- 2)))"
    "decimal_shape ''0.73'' \<and> dec_parse ''0.73'' = Some (Fin (Dec False 73 (- 2)))"
    by code_simp+
  then show "decimal_rate (JStr ''0.10'') name = Inr (Dec False 10 (- 2))"
    "decimal_rate (JStr ''0.73'') name = Inr (Dec False 73 (- 2))"
    by (simp_all add: decimal_rate_ok)
qed

lemma sample_table:
  assumes "decimal_rate (JStr rate) ''msk_partition_hour'' = Inr d"
  shows "rate_table (map (\<lambda>name. (name, JStr (sample_rate_text rate name))) names) =
    Inr (map (\<lambda>name. (name, sample_rates d name)) names)"
  by (induction names)
     (auto simp: rate_table_def assms sample_decimals sample_rates_def sample_rate_text_def)

lemma lookup_sample: "name \<in> set names \<Longrightarrow> lookup_rate (map (\<lambda>n. (n, f n)) names) name = f name"
  by (induction names) (auto simp: lookup_rate_def)

lemma sample_accepted:
  assumes "decimal_rate (JStr rate) ''msk_partition_hour'' = Inr d"
    and "\<not> dec_lt maximum_hourly_usd (price_total (map (price_item (sample_rates d)) price_components))"
  shows "sample_price_run rate = Inr (sample_receipt d)"
proof -
  let ?table = "map (\<lambda>name. (name, sample_rates d name)) price_rate_names"
  have items: "map (price_item (lookup_rate ?table)) price_components =
      map (price_item (sample_rates d)) price_components"
    using component_rates by (intro map_cong refl price_item_cong lookup_sample) blast
  have keys: "keys_eq (JObj (map (\<lambda>name. (name, JStr (sample_rate_text rate name))) price_rate_names))
      price_rate_names"
    by (simp add: keys_eq_def comp_def)
  show ?thesis
    unfolding sample_price_run_def validate_price_input_def Let_def sample_receipt_def
    using assms(2) keys
    by (simp add: sample_price_input_def sample_reviewer sample_check_time sources_fact
        sample_table [OF assms(1)] items del: map_map)
qed

lemma sample_products:
  "dec_mul (Dec False 10 (- 2)) (Dec False 1 0) = Dec False 10 (- 2)"
  "dec_mul (Dec False 15 (- 4)) (Dec False 13 0) = Dec False 195 (- 4)"
  "dec_mul (Dec False 10 (- 2)) (Dec False 3 0) = Dec False 30 (- 2)"
  "dec_mul (Dec False 73 (- 2)) (Dec False 20 0) = Dec False 1460 (- 2)"
  "dec_mul (Dec False 5 (- 7)) (Dec False 13 0) = Dec False 65 (- 7)"
  by (simp_all add: dec_eval)

lemma sample_quotients:
  "dec_div (Dec False 10 (- 2)) (Dec False 1 0) = Some (Dec False 10 (- 2))"
  "dec_div (Dec False 195 (- 4)) (Dec False 1 0) = Some (Dec False 195 (- 4))"
  "dec_div (Dec False 30 (- 2)) (Dec False 1 0) = Some (Dec False 30 (- 2))"
  "dec_div (Dec False 1460 (- 2)) (Dec False 730 0) = Some (Dec False 2 (- 2))"
  "dec_div (Dec False 65 (- 7)) (Dec False 1 0) = Some (Dec False 65 (- 7))"
  by (simp_all add: dec_eval)

lemma sample_sums:
  "dec_add (Dec False 0 0) (Dec False 10 (- 2)) = Dec False 10 (- 2)"
  "dec_add (Dec False 10 (- 2)) (Dec False 195 (- 4)) = Dec False 1195 (- 4)"
  "dec_add (Dec False 1195 (- 4)) (Dec False 10 (- 2)) = Dec False 2195 (- 4)"
  "dec_add (Dec False 2195 (- 4)) (Dec False 30 (- 2)) = Dec False 5195 (- 4)"
  "dec_add (Dec False 5195 (- 4)) (Dec False 10 (- 2)) = Dec False 6195 (- 4)"
  "dec_add (Dec False 6195 (- 4)) (Dec False 10 (- 2)) = Dec False 7195 (- 4)"
  "dec_add (Dec False 7195 (- 4)) (Dec False 10 (- 2)) = Dec False 8195 (- 4)"
  "dec_add (Dec False 8195 (- 4)) (Dec False 2 (- 2)) = Dec False 8395 (- 4)"
  "dec_add (Dec False 10 (- 2)) (Dec False 65 (- 7)) = Dec False 1000065 (- 7)"
  "dec_add (Dec False 1000065 (- 7)) (Dec False 10 (- 2)) = Dec False 2000065 (- 7)"
  "dec_add (Dec False 2000065 (- 7)) (Dec False 30 (- 2)) = Dec False 5000065 (- 7)"
  "dec_add (Dec False 5000065 (- 7)) (Dec False 10 (- 2)) = Dec False 6000065 (- 7)"
  "dec_add (Dec False 6000065 (- 7)) (Dec False 10 (- 2)) = Dec False 7000065 (- 7)"
  "dec_add (Dec False 7000065 (- 7)) (Dec False 10 (- 2)) = Dec False 8000065 (- 7)"
  "dec_add (Dec False 8000065 (- 7)) (Dec False 2 (- 2)) = Dec False 8200065 (- 7)"
  by (simp_all add: dec_eval)

lemmas sample_arith = sample_products sample_quotients sample_sums

lemma sample_total:
  "price_total (map (price_item (sample_rates (Dec False 15 (- 4)))) price_components) =
     Dec False 8395 (- 4)"
  unfolding price_total_map
  by (simp add: price_components_def component_def hourly_of_def sample_rates_def sample_arith
      del: One_nat_def)

lemma sample_run: "sample_price_run ''0.0015'' = Inr (sample_receipt (Dec False 15 (- 4)))"
proof (rule sample_accepted)
  have "decimal_shape ''0.0015'' \<and> dec_parse ''0.0015'' = Some (Fin (Dec False 15 (- 4)))" by code_simp
  then show "decimal_rate (JStr ''0.0015'') ''msk_partition_hour'' = Inr (Dec False 15 (- 4))"
    by (simp add: decimal_rate_ok)
qed (simp add: sample_total dec_lt_def dec_at_def dec_cmp_exp_def maximum_hourly_usd_def)

lemma sample_receipt_shapes:
  "\<forall>item \<in> set (items_of (jget (sample_receipt (Dec False 15 (- 4))) ''items'')).
     decimal_shape (str_of (jget item ''rate_usd''))"
proof -
  have "decimal_shape (dec_str (Dec False 15 (- 4)))" "decimal_shape (dec_str (Dec False 10 (- 2)))"
    "decimal_shape (dec_str (Dec False 73 (- 2)))"
    by code_simp+
  then show ?thesis by (simp add: sample_receipt_def price_receipt_fields sample_rates_def)
qed

lemma sample_receipt_time:
  "jget (sample_receipt d) ''checked_at'' = JStr ''2026-01-01T00:00:00Z''"
  by (simp add: sample_receipt_def price_receipt_def sample_stamp_text)

lemma accepted_price_bounds_exact_cost_witness:
  "is_ok (sample_price_run ''0.0015'') \<and>
   exact_cost (jget (sample_price_input ''0.0015'') ''rates'') \<le> 5 / 4 + 1 / 10 ^ 20"
  using accepted_price_bounds_exact_cost [OF sample_run [unfolded sample_price_run_def]] sample_run by simp


lemma revalidated_receipt_sound_witness:
  "jget (sample_receipt (Dec False 15 (- 4))) ''maximum_hourly_usd'' = JStr ''1.25''"
proof -
  have "revalidate_price_receipt (sample_receipt (Dec False 15 (- 4))) ''20260101T000000Z'' ''0123456789abcdef0123456789abcdef01234567''
      ''us-east-1'' (sample_time + minutes 60) = Inr (sample_receipt (Dec False 15 (- 4)))"
    by (rule receipt_revalidates [OF sample_run [unfolded sample_price_run_def]])
       (simp_all add: sample_receipt_time sample_check_time sample_receipt_shapes)
  from revalidated_receipt_sound [OF this] show ?thesis by blast
qed

lemma tiny_total:
  "price_total (map (price_item (sample_rates (Dec False 5 (- 7)))) price_components) =
     Dec False 8200065 (- 7)"
  unfolding price_total_map
  by (simp add: price_components_def component_def hourly_of_def sample_rates_def sample_arith
      del: One_nat_def)

lemma tiny_run: "sample_price_run ''0.0000005'' = Inr (sample_receipt (Dec False 5 (- 7)))"
proof (rule sample_accepted)
  have "decimal_shape ''0.0000005'' \<and> dec_parse ''0.0000005'' = Some (Fin (Dec False 5 (- 7)))" by code_simp
  then show "decimal_rate (JStr ''0.0000005'') ''msk_partition_hour'' = Inr (Dec False 5 (- 7))"
    by (simp add: decimal_rate_ok)
qed (simp add: tiny_total dec_lt_def dec_at_def dec_cmp_exp_def maximum_hourly_usd_def)


end
