(* ===== verification/Stage_Go_Correct.thy ===== *)
theory Stage_Go_Correct
  imports Stage_Go Stage_Prices_Correct
begin

text \<open>
  Correctness of the GO decision: what a packet establishes about the receipts it was built
  from, that a packet verifies as long as nothing changed and everything is fresh, and that
  the look-ahead of \<open>before_session\<close> covers the whole start allowance.
\<close>

section \<open>Freshness\<close>

text \<open>
  A check of the time \<open>now\<close> that passes at two instants passes at every instant between
  them, with the same result.
\<close>

definition fresh_between :: "(int \<Rightarrow> 'a res) \<Rightarrow> bool" where
  "fresh_between f \<longleftrightarrow>
     (\<forall>a b n x y. f a = Inr x \<longrightarrow> f b = Inr y \<longrightarrow> a \<le> n \<longrightarrow> n \<le> b \<longrightarrow> y = x \<and> f n = Inr x)"

named_theorems fresh_intros "rules for checks of the time"

lemma fresh_between_D:
  "fresh_between f \<Longrightarrow> f a = Inr x \<Longrightarrow> f b = Inr y \<Longrightarrow> a \<le> n \<Longrightarrow> n \<le> b \<Longrightarrow> y = x \<and> f n = Inr x"
  unfolding fresh_between_def by blast

lemma fresh_const [fresh_intros]: "fresh_between (\<lambda>_. m)"
  by (simp add: fresh_between_def)

lemma fresh_bind [fresh_intros]:
  assumes "fresh_between m" and "\<And>x. fresh_between (\<lambda>n. f x n)"
  shows "fresh_between (\<lambda>n. bindE (m n) (\<lambda>x. f x n))"
  unfolding fresh_between_def
proof (intro allI impI)
  fix a b n x y
  assume "bindE (m a) (\<lambda>x. f x a) = Inr x" and "bindE (m b) (\<lambda>x. f x b) = Inr y" and n: "a \<le> n" "n \<le> b"
  then obtain u v where u: "m a = Inr u" "f u a = Inr x" and v: "m b = Inr v" "f v b = Inr y"
    by (auto simp: bindE_eq_Inr)
  from fresh_between_D [OF assms(1) u(1) v(1) n] have "v = u" "m n = Inr u" by auto
  moreover from this v(2) have "f u b = Inr y" by simp
  from fresh_between_D [OF assms(2) u(2) this n] have "y = x" "f u n = Inr x" by auto
  ultimately show "y = x \<and> bindE (m n) (\<lambda>x. f x n) = Inr x" by simp
qed

lemma fresh_if [fresh_intros]:
  "fresh_between f \<Longrightarrow> fresh_between g \<Longrightarrow> fresh_between (\<lambda>n. if c then f n else g n)"
  by (cases c) simp_all

lemma fresh_foldE [fresh_intros]:
  assumes "\<And>u x. fresh_between (f u x)"
  shows "fresh_between (\<lambda>n. foldE (\<lambda>u x. f u x n) s xs)"
proof (induction xs arbitrary: s)
  case Nil
  then show ?case by (simp add: fresh_const)
next
  case (Cons x xs)
  then show ?case using assms by (auto intro!: fresh_bind)
qed

lemma fresh_parse [fresh_intros]: "fresh_between (\<lambda>n. parse_recent_utc v d n age)"
  by (auto simp: fresh_between_def parse_recent_utc_def split: option.splits if_splits)

lemma fresh_checked_at [fresh_intros]: "fresh_between (parse_checked_at v)"
  unfolding parse_checked_at_def [abs_def] by (rule fresh_parse)

lemma fresh_price_input [fresh_intros]:
  "fresh_between (validate_price_input v run_id commit region)"
  unfolding validate_price_input_def [abs_def] Let_def by (intro fresh_intros)

lemma fresh_price_receipt [fresh_intros]:
  "fresh_between (revalidate_price_receipt v run_id commit region)"
  unfolding revalidate_price_receipt_def [abs_def] by (intro fresh_intros)

lemma fresh_observed [fresh_intros]: "fresh_between (\<lambda>n. check_observed w raw n nff)"
  unfolding check_observed_def by (cases nff) (simp add: fresh_intros)

lemma fresh_decision [fresh_intros]: "fresh_between (check_decision packet run_id commit region)"
  unfolding check_decision_def [abs_def] by (intro fresh_intros)

lemma fresh_receipt [fresh_intros]:
  "fresh_between (verify_go_receipt w run_id commit region packet_path summary_path)"
  unfolding verify_go_receipt_def [abs_def] Let_def by (intro fresh_intros)

lemma fresh_verify:
  "fresh_between (verify_at w run_id commit region packet_path plan_path summary_path)"
  unfolding verify_at_def [abs_def] by (intro fresh_intros)

text \<open>
  The look-ahead covers the whole start allowance: when verification with
  \<open>before_session\<close> accepts a packet, verification without it accepts the same packet at
  every instant of the following fifteen minutes, as long as the files do not change, so no
  evidence can expire between the decision to start and the apply.
\<close>

theorem before_session_covers_allowance:
  assumes "verify_go_no_go w run_id commit region packet_path plan_path summary_path now True = Inr packet"
    and "now \<le> later" and "later \<le> now + minutes 15"
  shows "verify_go_no_go w run_id commit region packet_path plan_path summary_path later False = Inr packet"
proof -
  from assms(1) obtain p where
    "verify_at w run_id commit region packet_path plan_path summary_path now = Inr packet"
    "verify_at w run_id commit region packet_path plan_path summary_path (now + minutes 15) = Inr p"
    by (auto simp: verify_go_no_go_def bindE_eq_Inr)
  from fresh_between_D [OF fresh_verify this assms(2,3)] show ?thesis
    by (simp add: verify_go_no_go_def)
qed

section \<open>What a GO packet establishes\<close>

lemma match_repository_text:
  assumes "match_repository s = Some m"
  shows "s = rm_registry m @ ''/mlp-dev/'' @ rm_service m"
proof -
  let ?s1 = "drop 12 s" let ?s2 = "drop 9 ?s1" let ?s3 = "dropWhile region_char ?s2"
  let ?dns = "if starts_with ?s3 ''.amazonaws.com.cn'' then ''.amazonaws.com.cn'' else ''.amazonaws.com''"
  let ?s4 = "drop (length ?dns) ?s3"
  have m: "m = \<lparr>rm_registry = take 12 s @ ''.dkr.ecr.'' @ takeWhile region_char ?s2 @ ?dns,
      rm_region = takeWhile region_char ?s2, rm_service = drop 9 ?s4\<rparr>"
    and a: "take 9 ?s1 = ''.dkr.ecr.''" and b: "starts_with ?s3 ?dns" and c: "take 9 ?s4 = ''/mlp-dev/''"
    using assms unfolding match_repository_def Let_def by (auto split: if_split_asm)
  have "s = take 12 s @ ?s1" by simp
  also have "?s1 = take 9 ?s1 @ ?s2" by (rule append_take_drop_id [symmetric])
  also have "?s2 = takeWhile region_char ?s2 @ ?s3" by simp
  also have "?s3 = ?dns @ ?s4" using b by (metis append_take_drop_id starts_with_def)
  also have "?s4 = take 9 ?s4 @ drop 9 ?s4" by (rule append_take_drop_id [symmetric])
  finally show ?thesis unfolding a c m by simp
qed

definition pinned :: "string \<Rightarrow> string \<Rightarrow> image_claim \<Rightarrow> bool" where
  "pinned account region c \<longleftrightarrow> digest_shape (ic_digest c) \<and>
     ic_reference c = account @ ''.dkr.ecr.'' @ region @ ''.amazonaws.com/mlp-dev/'' @ ic_service c @
       ''@'' @ ic_digest c"

lemma check_image_ok:
  assumes "check_image commit region values service = Inr c"
  shows "ic_service c = service" "digest_shape (ic_digest c)"
    "ic_reference c = ic_registry c @ ''/mlp-dev/'' @ service @ ''@'' @ ic_digest c"
    "jget (jget values service) ''revision'' = JStr commit"
proof -
  let ?i = "jget values service" let ?pin = "''@'' @ str_of (jget ?i ''digest'')"
  let ?r = "str_of (jget ?i ''reference'')"
  from assms obtain m where m: "match_repository (remove_suffix ?r ?pin) = Some m"
    "rm_service m = service" "ends_with ?r ?pin" "digest_shape (str_of (jget ?i ''digest''))"
    "jget ?i ''revision'' = JStr commit"
    and c: "c = \<lparr>ic_service = service, ic_reference = ?r, ic_digest = str_of (jget ?i ''digest''),
                 ic_registry = rm_registry m\<rparr>"
    unfolding check_image_def Let_def bindE_eq_Inr ensure_eq_Inr by (auto split: option.splits simp: bindE_eq_Inr)
  have "?r = remove_suffix ?r ?pin @ ?pin" using m(3) by (auto simp: ends_with_iff)
  with match_repository_text [OF m(1)] m c show "ic_service c = service" "digest_shape (ic_digest c)"
    "ic_reference c = ic_registry c @ ''/mlp-dev/'' @ service @ ''@'' @ ic_digest c"
    "jget ?i ''revision'' = JStr commit"
    by simp_all
qed

lemma check_images_ok:
  assumes "check_images images commit region account = Inr claims"
  shows "map ic_service claims = services" "distinct (map ic_digest claims)"
    "\<forall>c \<in> set claims. pinned account region c"
proof -
  let ?v = "jget images ''images''" let ?registry = "account @ ''.dkr.ecr.'' @ region @ ''.amazonaws.com''"
  from assms have claims: "mapE (check_image commit region ?v) services = Inr claims"
    and two: "card (set (map ic_digest claims)) = 2" and registry: "set (map ic_registry claims) = {?registry}"
    by (auto simp: check_images_def Let_def bindE_eq_Inr)
  then have each: "list_all2 (\<lambda>s c. check_image commit region ?v s = Inr c) services claims"
    by (simp add: mapE_eq_Inr)
  then have len: "length claims = length services" by (simp add: list_all2_lengthD)
  show "map ic_service claims = services"
    using each by (intro nth_equalityI) (auto simp: list_all2_conv_all_nth check_image_ok)
  show "distinct (map ic_digest claims)"
    using two len by (intro card_distinct) (simp add: services_def)
  show "\<forall>c \<in> set claims. pinned account region c"
  proof
    fix c assume c: "c \<in> set claims"
    from list_all2_set2 [OF each this] obtain s where s: "check_image commit region ?v s = Inr c" by blast
    from c registry have "ic_registry c = ?registry" by auto
    with check_image_ok [OF s] show "pinned account region c" by (simp add: pinned_def)
  qed
qed

lemma capture_step_ok:
  assumes "capture_step acc capture = Inr acc'"
  shows "fst acc < fst acc'" "fst acc' = int_of (jget capture ''order'')"
    "\<exists>item. snd acc' = snd acc @ [item] \<and> int_of (jget item ''order'') = fst acc'"
  using assms by (auto simp: capture_step_def Let_def split: if_splits)

text \<open>The orders of a capture plan are strictly increasing and start at zero or later.\<close>

definition rising :: "int \<times> json list \<Rightarrow> bool" where
  "rising acc \<longleftrightarrow> - 1 \<le> fst acc \<and> sorted_wrt (<) (map (\<lambda>i. int_of (jget i ''order'')) (snd acc)) \<and>
     (\<forall>i \<in> set (snd acc). 0 \<le> int_of (jget i ''order'') \<and> int_of (jget i ''order'') \<le> fst acc)"

lemma rising_step: "rising acc \<Longrightarrow> capture_step acc capture = Inr acc' \<Longrightarrow> rising acc'"
  using capture_step_ok [of acc capture acc']
  by (fastforce simp: rising_def sorted_wrt_append)

lemma capture_order_ok:
  assumes "capture_order plan = Inr order"
  shows "sorted_wrt (<) (map (\<lambda>i. int_of (jget i ''order'')) order)" "order \<noteq> []"
    "length order = length (items_of (jget plan ''captures''))"
proof -
  let ?captures = "items_of (jget plan ''captures'')"
  from assms obtain acc where run: "foldE capture_step (- 1, []) ?captures = Inr acc" "order = snd acc"
    and "truthy (jget plan ''captures'')" "is_list (jget plan ''captures'')"
    by (auto simp: capture_order_def Let_def bindE_eq_Inr)
  then have some: "?captures \<noteq> []" by (cases "jget plan ''captures''") simp_all
  have "rising acc"
    by (rule foldE_invariant [OF run(1)]) (auto simp: rising_def [of "(- 1, [])"] intro: rising_step)
  then show "sorted_wrt (<) (map (\<lambda>i. int_of (jget i ''order'')) order)"
    by (simp add: rising_def run(2))
  have "int (length (snd acc)) = int (length (snd (- 1 :: int, [] :: json list))) + sum_list (map (\<lambda>_. 1) ?captures)"
    by (rule foldE_sum [OF run(1)]) (use capture_step_ok(3) in fastforce)
  then show len: "length order = length ?captures" by (simp add: run(2) sum_list_triv)
  from len some show "order \<noteq> []" by auto
qed

lemma check_budget_ok:
  assumes "check_budget budget = Inr ()"
  obtains limit where "decimal_value (jget budget ''limit_usd'') ''budget limit'' = Inr limit"
    "0 < dec_val limit" "dec_val limit \<le> 5"
  using assms by (auto simp: check_budget_def bindE_eq_Inr dec_lt_val maximum_total_usd_def dec_val_def
      not_less)

lemma input_hashes_ok:
  assumes "input_hashes w run_id = Inr hashes" and "(name, file) \<in> set go_inputs"
  shows "map fst hashes = map fst go_inputs"
    "\<exists>h. hash_path w (input_path w run_id name) = Inr h \<and> map_of hashes name = Some (JStr h)"
proof -
  from assms(1) have each: "list_all2 (\<lambda>nf x. \<exists>h. hash_path w (input_path w run_id (fst nf)) = Inr h \<and>
      x = (fst nf, JStr h)) go_inputs hashes"
    by (auto simp: input_hashes_def mapE_eq_Inr bindE_eq_Inr elim: list_all2_mono)
  then show names: "map fst hashes = map fst go_inputs"
    by (intro nth_equalityI) (auto simp: list_all2_conv_all_nth)
  from list_all2_set1 [OF each assms(2)] obtain h where
    h: "hash_path w (input_path w run_id name) = Inr h" "(name, JStr h) \<in> set hashes" by auto
  have "distinct (map fst go_inputs)" by (simp add: go_inputs_def)
  with h(2) names have "map_of hashes name = Some (JStr h)" by (simp add: map_of_is_SomeI)
  with h(1) show "\<exists>h. hash_path w (input_path w run_id name) = Inr h \<and> map_of hashes name = Some (JStr h)"
    by blast
qed

lemma build_go_no_go_ok:
  assumes "returns (build_go_no_go run_id commit region owner clock) w t packet u"
  obtains r claims order hashes where "valid_owner owner"
    "returns (require_clean_commit StageError commit) w t () u"
    "read_inputs w run_id commit region (clock 0) = Inr r"
    "check_receipts r run_id commit region clock = Inr (claims, order)"
    "input_hashes w run_id = Inr hashes"
    "packet = go_packet r claims order hashes run_id commit region owner (clock 4)"
  using assms unfolding build_go_no_go_def io_simps
  by (auto simp: bindE_eq_Inr intro: that)

lemma read_inputs_ok:
  assumes "read_inputs w run_id commit region now = Inr r"
  obtains raw where "stage_require_preflight w run_id commit = Inr (rc_preflight r)"
    "read_json w (input_path w run_id ''identity'') ''identity evidence'' = Inr (rc_identity r)"
    "read_json w (input_path w run_id ''prices'') ''price evidence'' = Inr raw"
    "revalidate_price_receipt raw run_id commit region now = Inr (rc_prices r)"
    "read_json w (input_path w run_id ''plan'') ''plan summary'' = Inr (rc_plan r)"
    "read_json w (input_path w run_id ''inventory'') ''inventory evidence'' = Inr (rc_inventory r)"
    "read_json w (input_path w run_id ''images'') ''image evidence'' = Inr (rc_images r)"
    "read_json w (input_path w run_id ''capture_plan'') ''capture plan'' = Inr (rc_capture_plan r)"
    "\<not> is_symlink w (input_path w run_id ''prices_markdown'')"
  using assms unfolding read_inputs_def Let_def bindE_eq_Inr
  by (auto intro: that)

lemma check_receipts_ok:
  assumes "check_receipts r run_id commit region clock = Inr (claims, order)"
  obtains "check_bindings r run_id commit region = Inr ()" "check_gates r = Inr ()"
    "check_identity (rc_identity r) (clock 3) = Inr ()"
    "check_coverage (jget (rc_plan r) ''project_tag_coverage'') = Inr ()"
    "check_quota_evidence (rc_identity r) = Inr ()" "check_inventory (rc_inventory r) = Inr ()"
    "check_shape (jget (rc_plan r) ''shape'') (rc_identity r) region = Inr ()"
    "check_images (rc_images r) commit region (str_of (jget (jget (rc_identity r) ''aws'') ''account_id'')) = Inr claims"
    "check_paid_window (rc_capture_plan r) = Inr ()"
    "capture_order (rc_capture_plan r) = Inr order"
  using assms unfolding check_receipts_def Let_def bindE_eq_Inr
  by (auto intro: that)

lemma clean_commit_ok:
  assumes "returns (require_clean_commit cls commit) w t () u"
  shows "\<exists>out. answer w t \<lparr>ev_command = [''git'', ''rev-parse'', ''HEAD''], ev_input = None\<rparr> = out \<and>
    returncode out = 0 \<and> map_option strip (decode w (stdout out)) = Some commit"
  using assms unfolding require_clean_commit_def runner_text_def runner_result_def
  by (auto simp: io_simps decode_text_def split: if_splits option.splits)

definition total_within :: "json \<Rightarrow> bool" where
  "total_within packet \<longleftrightarrow> (\<exists>total.
     jget (jget packet ''pricing'') ''total_hourly_usd'' = JStr (dec_str total) \<and> dec_val total \<le> 5 / 4)"

definition hashes_recorded :: "env \<Rightarrow> string \<Rightarrow> json \<Rightarrow> bool" where
  "hashes_recorded w run_id packet \<longleftrightarrow> (\<forall>(name, file) \<in> set go_inputs.
     \<exists>h. hash_path w (input_path w run_id name) = Inr h \<and>
         jget (jget packet ''input_sha256'') name = JStr h)"

definition images_pinned :: "json \<Rightarrow> string \<Rightarrow> string \<Rightarrow> bool" where
  "images_pinned packet account region \<longleftrightarrow> (\<exists>relay sink. relay \<noteq> sink \<and> digest_shape relay \<and> digest_shape sink \<and>
     (let prefix = account @ ''.dkr.ecr.'' @ region @ ''.amazonaws.com/mlp-dev/'' in
      jget packet ''image_references'' = JObj
        [(''relay'', JStr (prefix @ ''relay@'' @ relay)), (''sink'', JStr (prefix @ ''sink@'' @ sink))]))"

text \<open>
  C2. A GO packet establishes what it decides on. When \<open>build_go_no_go\<close> returns a packet,
  the checked-out commit was the approved one; the recomputed hourly price is at most 1.25
  dollars and the account's budget limit is positive and at most 5 dollars; both images are
  referenced by two different digests in the registry of the verified account and region;
  the capture orders are strictly increasing; the pre-apply inventory was empty; and the
  packet records the SHA-256 of each of the eight inputs.
\<close>

theorem go_packet_sound:
  assumes "returns (build_go_no_go run_id commit region owner clock) w t packet u"
  shows "\<exists>r limit. read_inputs w run_id commit region (clock 0) = Inr r \<and>
    map_option strip (decode w (stdout (answer w t
      \<lparr>ev_command = [''git'', ''rev-parse'', ''HEAD''], ev_input = None\<rparr>))) = Some commit \<and>
    total_within packet \<and>
    decimal_value (jget (jget (rc_identity r) ''budget'') ''limit_usd'') ''budget limit'' = Inr limit \<and>
    0 < dec_val limit \<and> dec_val limit \<le> 5 \<and>
    images_pinned packet (str_of (jget (jget (rc_identity r) ''aws'') ''account_id'')) region \<and>
    sorted_wrt (<) (map (\<lambda>i. int_of (jget i ''order'')) (items_of (jget packet ''capture_order''))) \<and>
    jget (rc_inventory r) ''runtime_empty'' = JBool True \<and>
    hashes_recorded w run_id packet"
proof -
  obtain r claims order hashes where head: "returns (require_clean_commit StageError commit) w t () u"
    and inputs: "read_inputs w run_id commit region (clock 0) = Inr r"
    and checks: "check_receipts r run_id commit region clock = Inr (claims, order)"
    and hashes: "input_hashes w run_id = Inr hashes"
    and packet: "packet = go_packet r claims order hashes run_id commit region owner (clock 4)"
    by (rule build_go_no_go_ok [OF assms]) (rule that)
  let ?account = "str_of (jget (jget (rc_identity r) ''aws'') ''account_id'')"
  from inputs obtain raw where "revalidate_price_receipt raw run_id commit region (clock 0) = Inr (rc_prices r)"
    by (rule read_inputs_ok)
  then have "total_within packet"
    by (rule revalidated_receipt) (auto simp: total_within_def packet go_packet_def)
  moreover from checks have "check_budget (jget (rc_identity r) ''budget'') = Inr ()"
    by (auto elim!: check_receipts_ok simp: check_identity_def Let_def bindE_eq_Inr)
  then obtain limit where
    "decimal_value (jget (jget (rc_identity r) ''budget'') ''limit_usd'') ''budget limit'' = Inr limit"
    "0 < dec_val limit" "dec_val limit \<le> 5"
    by (rule check_budget_ok)
  moreover have "images_pinned packet ?account region"
  proof -
    from checks have ok: "check_images (rc_images r) commit region ?account = Inr claims"
      by (rule check_receipts_ok)
    from check_images_ok(1) [OF ok] obtain a b where claims: "claims = [a, b]"
      "ic_service a = ''relay''" "ic_service b = ''sink''"
      by (auto simp: services_def map_eq_Cons_conv)
    with check_images_ok(2,3) [OF ok] show ?thesis
      unfolding images_pinned_def Let_def
      by (intro exI [of _ "ic_digest a"] exI [of _ "ic_digest b"])
         (auto simp: packet go_packet_def pinned_def)
  qed
  moreover from checks have "capture_order (rc_capture_plan r) = Inr order" "check_inventory (rc_inventory r) = Inr ()"
    by (auto elim: check_receipts_ok)
  moreover from this have "sorted_wrt (<) (map (\<lambda>i. int_of (jget i ''order'')) (items_of (jget packet ''capture_order'')))"
    "jget (rc_inventory r) ''runtime_empty'' = JBool True"
    using capture_order_ok(1) by (auto simp: packet go_packet_def check_inventory_def bindE_eq_Inr)
  moreover have "hashes_recorded w run_id packet"
    unfolding hashes_recorded_def packet go_packet_def
    using input_hashes_ok(2) [OF hashes] by (fastforce simp: jget_obj)
  ultimately show ?thesis using inputs clean_commit_ok [OF head] by blast
qed

section \<open>A packet verifies\<close>

text \<open>The time only decides whether a stamp is fresh; the parsed stamp does not depend on it.\<close>

lemma parse_recent_same:
  "parse_recent_utc v d n age = Inr x \<Longrightarrow> parse_recent_utc v e m age' = Inr y \<Longrightarrow> y = x"
  by (auto simp: parse_recent_utc_def split: if_splits option.splits)

lemma validate_price_input_later:
  assumes "validate_price_input v run_id commit region now = Inr r"
    and "parse_checked_at (jget v ''checked_at'') later = Inr t"
  shows "validate_price_input v run_id commit region later = Inr r"
proof -
  from assms(1) obtain t' where "parse_checked_at (jget v ''checked_at'') now = Inr t'"
    unfolding validate_price_input_def bindE_eq_Inr by blast
  with parse_recent_same assms(2) have "parse_checked_at (jget v ''checked_at'') later =
      parse_checked_at (jget v ''checked_at'') now"
    unfolding parse_checked_at_def by metis
  with assms(1) show ?thesis unfolding validate_price_input_def by simp
qed

lemma revalidate_later:
  assumes "revalidate_price_receipt receipt run_id commit region now = Inr e"
    and "parse_checked_at (jget receipt ''checked_at'') later = Inr t"
  shows "revalidate_price_receipt receipt run_id commit region later = Inr e"
proof -
  from assms(1) obtain rates where
    "is_list (jget receipt ''items'')" "collect_rates (items_of (jget receipt ''items'')) = Inr rates"
    and valid: "validate_price_input (receipt_source receipt rates) run_id commit region now = Inr e"
    and "py_eq e receipt"
    by (auto simp: revalidate_price_receipt_def bindE_eq_Inr split: if_splits)
  moreover have "validate_price_input (receipt_source receipt rates) run_id commit region later = Inr e"
    by (rule validate_price_input_later [OF valid]) (simp add: receipt_source_def assms(2))
  ultimately show ?thesis by (simp add: revalidate_price_receipt_def)
qed

lemma read_json_description: "read_json w p d = Inr v \<Longrightarrow> read_json w p e = Inr v"
  by (auto simp: read_json_def bindE_eq_Inr load_file_Inr)

lemma read_json_not_link: "read_json w p d = Inr v \<Longrightarrow> \<not> is_symlink w p"
  by (auto simp: read_json_def bindE_eq_Inr)

lemma hash_path_file: "hash_path w p = Inr h \<Longrightarrow> is_file w p"
  by (auto simp: hash_path_Inr is_file_def)

lemma input_path_file: "(name, file) \<in> set go_inputs \<Longrightarrow> input_path w run_id name = run_dir w run_id @ [file]"
  by (auto simp: go_inputs_def input_path_def)

lemma check_staged_ok:
  assumes "stage_validate_run_id run_id = Inr ()" and "no_linked_parent w StageError run_id = Inr ()"
    and "(name, file) \<in> set go_inputs" and "\<not> is_symlink w (input_path w run_id name)"
    and "hash_path w (input_path w run_id name) = Inr h" and "jget inputs name = JStr h"
  shows "check_staged w run_id (run_dir w run_id) inputs (name, file) = Inr ()"
  using assms hash_path_file [OF assms(5)]
  by (simp add: check_staged_def ensure_private_run_path_def input_path_file)

lemma clock_stamp_fresh:
  assumes "full_year s" and "instant s \<le> made" and "made < instant s + 1000000"
    and "made \<le> now" and "now \<le> made + one_day - 1000000"
  shows "parse_recent_utc (JStr (clock_stamp made)) d now one_day = Inr s"
proof -
  have sec: "made div 1000000 = int (seconds s)"
    using assms(2,3) by (simp add: instant_def)
  have "valid_time s" using assms(1) by (simp add: full_year_def)
  then have "of_seconds (nat (made div 1000000)) = s" by (simp only: sec nat_int of_seconds_seconds)
  then have "parse_stamp (clock_stamp made) = Some s"
    using parse_stamp_text [OF assms(1)] by (simp add: clock_stamp_def)
  with assms show ?thesis by (simp add: parse_recent_utc_def minutes_def)
qed

text \<open>What the receipts need for another look at \<open>now\<close>: no link was planted, all observations are fresh.\<close>

definition still_staged :: "env \<Rightarrow> string \<Rightarrow> int \<Rightarrow> bool" where
  "still_staged w run_id now \<longleftrightarrow> no_linked_parent w StageError run_id = Inr () \<and>
     \<not> is_symlink w (input_path w run_id ''preflight'') \<and>
     (\<forall>nff \<in> set observed_inputs. check_observed w (run_dir w run_id) now nff = Inr ())"

lemma go_packet_accepted:
  assumes build: "returns (build_go_no_go run_id commit region owner clock) w t packet u"
    and stored: "read_json w packet_path d = Inr packet" and dir: "butlast packet_path = run_dir w run_id"
    and plan: "is_str (jget (jget packet ''plan'') ''sha256'')"
      "sha_shape (str_of (jget (jget packet ''plan'') ''sha256''))"
    and stamp: "full_year s" "instant s \<le> clock 4" "clock 4 < instant s + 1000000"
    and fresh: "clock 4 \<le> now" "now \<le> clock 4 + one_day - 1000000" "still_staged w run_id now"
  shows "verify_go_receipt w run_id commit region packet_path (input_path w run_id ''plan'') now = Inr packet"
proof -
  obtain r claims order hashes where owner: "valid_owner owner"
    and inputs: "read_inputs w run_id commit region (clock 0) = Inr r"
    and checks: "check_receipts r run_id commit region clock = Inr (claims, order)"
    and hashes: "input_hashes w run_id = Inr hashes"
    and packet: "packet = go_packet r claims order hashes run_id commit region owner (clock 4)"
    by (rule build_go_no_go_ok [OF build]) (rule that)
  obtain raw where preflight: "stage_require_preflight w run_id commit = Inr (rc_preflight r)"
    and prices: "read_json w (input_path w run_id ''prices'') ''price evidence'' = Inr raw"
      "revalidate_price_receipt raw run_id commit region (clock 0) = Inr (rc_prices r)"
    and plan_file: "read_json w (input_path w run_id ''plan'') ''plan summary'' = Inr (rc_plan r)"
    and markdown: "\<not> is_symlink w (input_path w run_id ''prices_markdown'')"
    and others: "\<not> is_symlink w (input_path w run_id ''identity'')"
      "\<not> is_symlink w (input_path w run_id ''inventory'')" "\<not> is_symlink w (input_path w run_id ''images'')"
      "\<not> is_symlink w (input_path w run_id ''capture_plan'')"
    by (rule read_inputs_ok [OF inputs]) (rule that; auto dest: read_json_not_link)
  from fresh(3) have linked: "no_linked_parent w StageError run_id = Inr ()"
      "\<not> is_symlink w (input_path w run_id ''preflight'')"
    and observed: "\<forall>nff \<in> set observed_inputs. check_observed w (run_dir w run_id) now nff = Inr ()"
    by (simp_all add: still_staged_def)
  have no_link: "\<not> is_symlink w (input_path w run_id name)" if "(name, f) \<in> set go_inputs" for name f
    using that markdown others linked read_json_not_link [OF prices(1)] read_json_not_link [OF plan_file]
    by (auto simp: go_inputs_def)
  have run: "stage_validate_run_id run_id = Inr ()"
    using preflight by (simp add: stage_require_preflight_def bindE_eq_Inr)
  let ?inputs = "jget packet ''input_sha256''"
  have inputs_eq: "?inputs = JObj hashes" by (simp add: packet go_packet_def)
  have staged: "check_staged w run_id (run_dir w run_id) ?inputs nf = Inr ()" if nf: "nf \<in> set go_inputs" for nf
  proof -
    obtain name f where nf': "nf = (name, f)" by fastforce
    with nf have mem: "(name, f) \<in> set go_inputs" by simp
    from input_hashes_ok(2) [OF hashes mem] obtain h where
      h: "hash_path w (input_path w run_id name) = Inr h" "map_of hashes name = Some (JStr h)" by blast
    then have "jget ?inputs name = JStr h" by (simp add: inputs_eq jget_obj)
    from check_staged_ok [OF run linked(1) mem no_link [OF mem] h(1) this] show ?thesis by (simp only: nf')
  qed
  have decision: "check_decision packet run_id commit region now = Inr ()"
    using clock_stamp_fresh [OF stamp fresh(1,2)]
    by (simp add: check_decision_def packet go_packet_def require_bound_def require_passed_gate_def passed_gate_def)
  have planned: "check_plan_hash packet (rc_plan r) = Inr ()"
    using plan by (simp add: check_plan_hash_def packet go_packet_def)
  have manifest: "check_manifest w run_id packet packet_path (input_path w run_id ''plan'') = Inr ()"
  proof -
    have mem: "(''plan'', ''03-plan-summary.json'') \<in> set go_inputs" by (simp add: go_inputs_def)
    from input_hashes_ok(2) [OF hashes mem] obtain h where
      "hash_path w (input_path w run_id ''plan'') = Inr h" "jget ?inputs ''plan'' = JStr h"
      by (auto simp: inputs_eq jget_obj)
    moreover have "keys_eq ?inputs (map fst go_inputs)"
      using input_hashes_ok(1) [OF hashes mem] by (simp add: keys_eq_def inputs_eq flip: set_map)
    moreover have "foldE (\<lambda>u nf. check_staged w run_id (run_dir w run_id) ?inputs nf) () go_inputs = Inr ()"
      unfolding foldE_unit using staged by blast
    ultimately show ?thesis unfolding check_manifest_def by (simp add: Let_def dir inputs_eq)
  qed
  have "(''prices'', ''02-prices.json'') \<in> set go_inputs" by (simp add: go_inputs_def)
  with prices(1) have price_file: "read_json w (run_dir w run_id @ [''02-prices.json'']) e = Inr raw" for e
    by (auto simp: input_path_file intro: read_json_description)
  have "check_observed w (run_dir w run_id) now (''prices'', ''02-prices.json'', ''checked_at'') = Inr ()"
    using observed by (simp add: observed_inputs_def)
  then obtain y where "parse_recent_utc (jget raw ''checked_at'') (''original '' @ ''prices'' @ '' observation'') now one_day = Inr y"
    by (auto simp: check_observed_def price_file bindE_eq_Inr)
  then have "\<exists>y. parse_checked_at (jget raw ''checked_at'') now = Inr y"
    by (auto simp: parse_checked_at_def parse_recent_utc_def split: if_splits option.splits)
  with revalidate_later [OF prices(2)] have again:
    "revalidate_price_receipt raw run_id commit region now = Inr (rc_prices r)" by blast
  have owner_ok: "check_packet_owner packet = Inr ()"
    using owner by (simp add: check_packet_owner_def packet go_packet_def named_def valid_owner_def strip_strip)
  have "foldE (\<lambda>u nff. check_observed w (run_dir w run_id) now nff) () observed_inputs = Inr ()"
    unfolding foldE_unit using observed by blast
  with decision planned manifest again owner_ok show ?thesis
    unfolding verify_go_receipt_def Let_def dir
    by (simp add: read_json_description [OF stored] plan_file price_file)
qed


end
