(* ===== verification/Stage_Go_Sample.thy ===== *)
theory Stage_Go_Sample
  imports Stage_Go_Correct
begin

text \<open>
  A concrete run directory in which the GO decision succeeds: the eight input files, a
  repository at the approved commit, and the packet the decision writes. It shows that the
  hypotheses of the GO properties can hold together.
\<close>

section \<open>The receipts\<close>

definition run_a :: string where "run_a = ''20260101T000000Z''"
definition commit_a :: string where "commit_a = ''0123456789abcdef0123456789abcdef01234567''"
definition hash_a :: string where "hash_a = replicate 64 (CHR ''a'')"
definition digest_a :: string where "digest_a = ''sha256:'' @ replicate 64 (CHR ''a'')"
definition digest_b :: string where "digest_b = ''sha256:'' @ replicate 64 (CHR ''b'')"
definition stamp_a :: json where "stamp_a = JStr ''2026-01-01T00:00:00Z''"
definition gate_ok :: "string \<times> json" where
  "gate_ok = (''gate'', JObj [(''passed'', JBool True), (''failures'', JArr [])])"

definition bound_a :: obj where
  "bound_a = [(''run_id'', JStr run_a), (''source_commit'', JStr commit_a), (''region'', JStr ''us-east-1'')]"

definition preflight_a :: json where
  "preflight_a = JObj [(''schema_version'', JInt 1), (''run_id'', JStr run_a), (''result'', JStr ''passed''),
     (''commit'', JStr commit_a)]"

definition identity_a :: json where
  "identity_a = JObj (bound_a @
     [(''captured_at'', stamp_a), gate_ok,
      (''repository'', JObj [(''name_with_owner'', JStr ''lilabrooks/my-local-platform'')]),
      (''aws'', JObj [(''account_matches_profile'', JBool True), (''profile'', JStr ''mlp''),
                    (''account_id'', JStr ''123456789012'')]),
      (''backend'', expected_state_backend ''123456789012''),
      (''eks'', JObj [(''standard_support'', JBool True), (''version'', JStr ''1.36'')]),
      (''budget'', JObj [(''active'', JBool True), (''has_notification_subscriber'', JBool True),
                       (''scope'', expected_budget_scope), (''limit_usd'', JStr ''5'')]),
      (''quotas'', JObj [gate_ok]),
      (''availability'', JObj [gate_ok,
         (''rds_postgres'', JObj [(''passed'', JBool True), (''engine_version'', JStr ''17.6'')])])])"

definition plan_a :: json where
  "plan_a = JObj (bound_a @
     [(''captured_at'', stamp_a), gate_ok, (''plan_sha256'', JStr hash_a),
      (''project_tag_coverage'', JObj [gate_ok, (''tag_key'', JStr ''Project''),
         (''tag_value'', JStr ''my-local-platform''), (''resources'', JArr [JStr ''aws_vpc.main'']),
         (''launch_templates'', JArr [JStr ''aws_launch_template.node''])]),
      (''shape'', JObj [(''hourly_enabled'', JBool True), (''enable_eks'', JBool True), (''enable_msk'', JBool True),
         (''enable_rds'', JBool True), (''region'', JStr ''us-east-1''), (''eks'', expected_eks_shape),
         (''rds'', JObj [(''engine_version'', JStr ''17.6'')]), (''kafka'', expected_kafka_shape),
         (''expected_hourly_usd'', JStr ''0.8395''), (''maximum_hourly_usd'', JStr ''1.25'')]),
      (''planned_hourly_resource_counts'', expected_hourly_counts),
      (''created_hourly_resource_counts'', expected_hourly_counts)])"

definition inventory_a :: json where
  "inventory_a = JObj (bound_a @
     [(''captured_at'', stamp_a), (''runtime_empty'', JBool True), (''counts'', JObj [(''ecr'', JInt 2)])])"

definition uri_a :: "string \<Rightarrow> string" where
  "uri_a service = ''123456789012.dkr.ecr.us-east-1.amazonaws.com/mlp-dev/'' @ service"

definition image_a :: "string \<Rightarrow> string \<Rightarrow> json" where
  "image_a service digest = JObj
     [(''revision'', JStr commit_a), (''platform'', JStr ''linux/amd64''), (''digest'', JStr digest),
      (''reference'', JStr (uri_a service @ ''@'' @ digest))]"

definition setting_a :: "string \<Rightarrow> json" where
  "setting_a service = JObj
     [(''repository'', JStr (''mlp-dev/'' @ service)), (''uri'', JStr (uri_a service)),
      (''tag_mutability'', JStr ''IMMUTABLE''), (''scan_on_push'', JBool True)]"

definition images_a :: json where
  "images_a = JObj (bound_a @
     [gate_ok, (''images'', JObj [(''relay'', image_a ''relay'' digest_a), (''sink'', image_a ''sink'' digest_b)]),
      (''repository_settings'', JObj [(''relay'', setting_a ''relay''), (''sink'', setting_a ''sink'')])])"

definition capture_item :: "int \<Rightarrow> json" where
  "capture_item n = JObj [(''order'', JInt n), (''phase'', JStr ''staging''), (''output'', JStr ''00-preflight.json'')]"

definition capture_plan_a :: json where
  "capture_plan_a = JObj (bound_a @
     [(''paid_window'', JObj [(''evidence_deadline_minutes'', JInt 150), (''hard_deadline_minutes'', JInt 180),
         (''destroy_starts_after_success_or_failure'', JBool True)]),
      (''failure_transition'', JObj [(''next_phase'', JStr ''destroy_first'')]),
      (''captures'', JArr [capture_item 0, capture_item 1])])"

definition prices_a :: json where "prices_a = sample_receipt (Dec False 15 (- 4))"

definition receipts_a :: receipts where
  "receipts_a = \<lparr>rc_preflight = preflight_a, rc_identity = identity_a, rc_prices = prices_a, rc_plan = plan_a,
     rc_inventory = inventory_a, rc_images = images_a, rc_capture_plan = capture_plan_a\<rparr>"

definition claim_a :: "string \<Rightarrow> string \<Rightarrow> image_claim" where
  "claim_a service digest = \<lparr>ic_service = service, ic_reference = uri_a service @ ''@'' @ digest, ic_digest = digest,
     ic_registry = ''123456789012.dkr.ecr.us-east-1.amazonaws.com''\<rparr>"

definition packet_a :: json where
  "packet_a = go_packet receipts_a [claim_a ''relay'' digest_a, claim_a ''sink'' digest_b]
     [capture_item 0, capture_item 1] (map (\<lambda>nf. (fst nf, JStr hash_a)) go_inputs)
     run_a commit_a ''us-east-1'' ''operator'' sample_time"

section \<open>The environment\<close>

definition documents_a :: "(string \<times> json) list" where
  "documents_a =
     [(''00-preflight.json'', preflight_a), (''01-identity.txt'', identity_a), (''02-prices.json'', prices_a),
      (''03-plan-summary.json'', plan_a), (''04-inventory-before.json'', inventory_a),
      (''05-images.json'', images_a), (''capture-plan.json'', capture_plan_a), (''06-go-no-go.json'', packet_a)]"

text \<open>Every document is stored under its own name as its text; the Markdown is stored as written.\<close>

definition bytes_a :: "string \<Rightarrow> string option" where
  "bytes_a name =
     (if name = ''02-prices.md'' then Some (price_markdown prices_a)
      else if map_of documents_a name = None then None else Some name)"

definition env_a :: env where
  "env_a = \<lparr>root_dir = [],
     files = (\<lambda>p. if length p = 4 \<and> take 3 p = [''.evidence'', ''m4'', run_a]
        then map_option (regular 384) (bytes_a (p ! 3)) else None),
     outside = (\<lambda>_ _. False), loads = map_of documents_a, repeats = (\<lambda>_. False), decode = Some, sha256 = (\<lambda>_. hash_a),
     answer = (\<lambda>t e. \<lparr>returncode = 0, stdout = (if ev_command e = [''git'', ''rev-parse'', ''HEAD'']
        then commit_a @ [newline] else ''''), stderr = ''''\<rparr>)\<rparr>"

lemma run_dir_a: "run_dir env_a run_a = [''.evidence'', ''m4'', run_a]"
  by (simp add: run_dir_def env_a_def)

lemma file_a: "files env_a (run_dir env_a run_a @ [name]) =
    map_option (regular 384) (bytes_a name)"
  by (simp add: run_dir_a) (simp add: env_a_def)

lemma not_link_a: "\<not> is_symlink env_a p"
  by (auto simp: is_symlink_def env_a_def split: option.splits)

lemma load_a:
  assumes "map_of documents_a name = Some v" and "name \<noteq> ''02-prices.md''"
  shows "load_file env_a x y (run_dir env_a run_a @ [name]) = Inr v"
proof -
  have "decode env_a = Some" "loads env_a = map_of documents_a" by (simp_all add: env_a_def)
  with assms show ?thesis by (simp add: load_file_Inr file_a bytes_a_def)
qed

lemma read_a:
  assumes "map_of documents_a name = Some v" and "name \<noteq> ''02-prices.md''" and "is_dict v"
  shows "read_json env_a (run_dir env_a run_a @ [name]) d = Inr v"
  using assms by (simp add: read_json_def not_link_a load_a)

lemma hash_path_a: "bytes_a name = Some b \<Longrightarrow> hash_path env_a (run_dir env_a run_a @ [name]) = Inr hash_a"
  by (simp add: hash_path_Inr file_a) (simp add: env_a_def)

lemmas docs_a = documents_a_def preflight_a_def identity_a_def plan_a_def inventory_a_def images_a_def
  capture_plan_a_def prices_a_def sample_receipt_def price_receipt_def packet_a_def go_packet_def

lemma is_dict_a [simp]: "is_dict preflight_a" "is_dict identity_a" "is_dict plan_a" "is_dict inventory_a"
  "is_dict images_a" "is_dict capture_plan_a" "is_dict prices_a" "is_dict packet_a"
  by (simp_all add: docs_a)

lemma map_of_a:
  "map_of documents_a ''00-preflight.json'' = Some preflight_a" "map_of documents_a ''01-identity.txt'' = Some identity_a"
  "map_of documents_a ''02-prices.json'' = Some prices_a" "map_of documents_a ''03-plan-summary.json'' = Some plan_a"
  "map_of documents_a ''04-inventory-before.json'' = Some inventory_a" "map_of documents_a ''05-images.json'' = Some images_a"
  "map_of documents_a ''capture-plan.json'' = Some capture_plan_a" "map_of documents_a ''06-go-no-go.json'' = Some packet_a"
  by (simp_all add: documents_a_def)

lemma documents_read_a [simp]:
  "read_json env_a (run_dir env_a run_a @ [''01-identity.txt'']) d = Inr identity_a"
  "read_json env_a (run_dir env_a run_a @ [''02-prices.json'']) d = Inr prices_a"
  "read_json env_a (run_dir env_a run_a @ [''03-plan-summary.json'']) d = Inr plan_a"
  "read_json env_a (run_dir env_a run_a @ [''04-inventory-before.json'']) d = Inr inventory_a"
  "read_json env_a (run_dir env_a run_a @ [''05-images.json'']) d = Inr images_a"
  "read_json env_a (run_dir env_a run_a @ [''capture-plan.json'']) d = Inr capture_plan_a"
  "read_json env_a (run_dir env_a run_a @ [''06-go-no-go.json'']) d = Inr packet_a"
  by (simp_all add: read_a map_of_a)

lemma paths_a [simp]:
  "input_path env_a run_a ''preflight'' = run_dir env_a run_a @ [''00-preflight.json'']"
  "input_path env_a run_a ''identity'' = run_dir env_a run_a @ [''01-identity.txt'']"
  "input_path env_a run_a ''prices_markdown'' = run_dir env_a run_a @ [''02-prices.md'']"
  "input_path env_a run_a ''prices'' = run_dir env_a run_a @ [''02-prices.json'']"
  "input_path env_a run_a ''plan'' = run_dir env_a run_a @ [''03-plan-summary.json'']"
  "input_path env_a run_a ''inventory'' = run_dir env_a run_a @ [''04-inventory-before.json'']"
  "input_path env_a run_a ''images'' = run_dir env_a run_a @ [''05-images.json'']"
  "input_path env_a run_a ''capture_plan'' = run_dir env_a run_a @ [''capture-plan.json'']"
  by (simp_all add: input_path_def go_inputs_def)

section \<open>The decision\<close>

lemma run_id_a: "stage_validate_run_id run_a = Inr ()"
proof -
  have "full_year sample_checked" "run_text sample_checked = run_a" by code_simp+
  then show ?thesis using stage_run_id.accepts_text by metis
qed

lemma commit_shape_a: "commit_shape commit_a" and digest_shape_a: "digest_shape digest_a" "digest_shape digest_b"
  and sha_shape_a: "sha_shape hash_a"
  by code_simp+

lemma preflight_read_a: "stage_require_preflight env_a run_a commit_a = Inr preflight_a"
proof -
  have "run_dir env_a run_a @ [''00-preflight.json''] = run_dir env_a run_a @ [''00-preflight.json'']" ..
  then show ?thesis
    by (simp add: stage_require_preflight_def run_id_a commit_shape_a load_a map_of_a Let_def)
       (simp add: preflight_a_def)
qed

lemma prices_revalidate_a: "revalidate_price_receipt prices_a run_a commit_a ''us-east-1'' sample_time = Inr prices_a"
  using receipt_revalidates [OF sample_run [unfolded sample_price_run_def], of sample_time]
  by (simp add: sample_receipt_time sample_check_time sample_receipt_shapes prices_a_def run_a_def commit_a_def)

lemma inputs_a: "read_inputs env_a run_a commit_a ''us-east-1'' sample_time = Inr receipts_a"
proof -
  have "read_bytes env_a (run_dir env_a run_a @ [''02-prices.md'']) = Inr (Some (price_markdown prices_a))"
    by (simp add: read_bytes_def file_a bytes_a_def)
  moreover have "decode_text env_a b = Inr b" for b by (simp add: decode_text_def env_a_def)
  ultimately show ?thesis
    by (simp add: read_inputs_def preflight_read_a prices_revalidate_a not_link_a receipts_a_def)
qed

lemma recent_a: "parse_recent_utc stamp_a d sample_time one_day = Inr sample_checked"
  by (simp add: stamp_a_def parse_recent_utc_def sample_stamp sample_time_def minutes_def one_day_def)

lemma decimals_a: "dec_parse ''5'' = Some (Fin (Dec False 5 0))" "dec_parse ''0.8395'' = Some (Fin (Dec False 8395 (- 4)))"
  "dec_parse ''1.25'' = Some (Fin (Dec False 125 (- 2)))"
  by code_simp+

lemma bindings_a: "check_bindings receipts_a run_a commit_a ''us-east-1'' = Inr ()"
  by (simp add: check_bindings_def receipts_a_def require_bound_def identity_a_def plan_a_def inventory_a_def images_a_def
      capture_plan_a_def bound_a_def prices_a_def sample_receipt_def price_receipt_def)
    (simp add: run_a_def commit_a_def)

lemma gates_a: "check_gates receipts_a = Inr ()"
  by (simp add: check_gates_def receipts_a_def require_passed_gate_def passed_gate_def identity_a_def plan_a_def
      images_a_def bound_a_def gate_ok_def prices_a_def sample_receipt_def price_receipt_def)

lemma account_a: "account_shape (JStr ''123456789012'')" and named_a: "named (JStr ''mlp'')" "named (JStr ''17.6'')"
  and owner_a: "valid_owner ''operator''"
  by code_simp+

lemma identity_ok_a: "check_identity identity_a sample_time = Inr ()"
proof -
  have "py_eq (expected_state_backend ''123456789012'') (expected_state_backend ''123456789012'')"
    "py_eq expected_budget_scope expected_budget_scope"
    by (rule py_eq_refl; simp add: expected_state_backend_def expected_budget_scope_def)+
  then show ?thesis
    by (simp add: check_identity_def check_caller_def check_budget_def identity_a_def bound_a_def gate_ok_def recent_a
        account_a named_a decimal_value_def decimals_a dec_lt_val dec_val_def maximum_total_usd_def)
      (simp add: expected_state_backend_def)
qed

lemma plan_ok_a:
  "check_coverage (jget plan_a ''project_tag_coverage'') = Inr ()" "check_quota_evidence identity_a = Inr ()"
  "check_inventory inventory_a = Inr ()"
  by (simp_all add: plan_a_def identity_a_def inventory_a_def bound_a_def gate_ok_def check_coverage_def
      check_quota_evidence_def check_inventory_def require_passed_gate_def passed_gate_def)

lemma shape_ok_a: "check_shape (jget plan_a ''shape'') identity_a ''us-east-1'' = Inr ()"
proof -
  have "py_eq expected_eks_shape expected_eks_shape" "py_eq expected_kafka_shape expected_kafka_shape"
    by (rule py_eq_refl; simp add: expected_eks_shape_def expected_kafka_shape_def)+
  moreover have "jget expected_eks_shape ''kubernetes_version'' = JStr ''1.36''" by (simp add: expected_eks_shape_def)
  moreover have "jget (jget plan_a ''shape'') k = JBool True" if "k \<in> set shape_flags" for k
    using that by (auto simp: plan_a_def bound_a_def gate_ok_def shape_flags_def)
  then have "foldE (\<lambda>u flag. ensure (jget (jget plan_a ''shape'') flag = JBool True) 
      (Err StageError ''plan summary does not enable {}'' [JStr flag])) () shape_flags = Inr ()"
    unfolding foldE_unit by simp
  moreover have "is_dict (jget plan_a ''shape'')" "jget (jget plan_a ''shape'') ''region'' = JStr ''us-east-1''"
    "jget (jget plan_a ''shape'') ''eks'' = expected_eks_shape" "jget (jget plan_a ''shape'') ''kafka'' = expected_kafka_shape"
    "jget (jget plan_a ''shape'') ''rds'' = JObj [(''engine_version'', JStr ''17.6'')]"
    by (simp_all add: plan_a_def bound_a_def gate_ok_def)
  moreover have "jget (jget identity_a ''eks'') ''version'' = JStr ''1.36''"
    "jget (jget identity_a ''availability'') ''rds_postgres'' =
       JObj [(''passed'', JBool True), (''engine_version'', JStr ''17.6'')]"
    by (simp_all add: identity_a_def bound_a_def gate_ok_def)
  ultimately show ?thesis by (simp add: check_shape_def named_a)
qed

lemma total_a: "jget prices_a ''total_hourly_usd'' = JStr ''0.8395''"
proof -
  have "dec_str (Dec False 8395 (- 4)) = ''0.8395''"
    by (simp add: dec_str_def dec_point_def nat_str.simps digit_char_def digits10_def zfill_def)
  moreover have "jget prices_a ''total_hourly_usd'' =
      JStr (dec_str (price_total (map (price_item (sample_rates (Dec False 15 (- 4)))) price_components)))"
    by (simp add: prices_a_def sample_receipt_def price_receipt_def)
  ultimately show ?thesis by (simp only: sample_total)
qed

lemma topology_ok_a: "check_topology plan_a prices_a = Inr ()"
proof -
  have "py_eq expected_hourly_counts expected_hourly_counts"
    by (rule py_eq_refl; simp add: expected_hourly_counts_def)
  moreover have "dec_sub (Dec False 8395 (- 4)) (Dec False 8395 (- 4)) = Dec False 0 (- 4)"
    by (simp add: dec_eval dec_sub_def dec_neg_def)
  ultimately show ?thesis
    by (simp add: check_topology_def plan_a_def bound_a_def gate_ok_def total_a decimal_value_def decimals_a Let_def
        dec_eq_val dec_lt_val maximum_hourly_usd_def cost_tolerance_def dec_abs_def dec_fix_small dec_val_def)
qed

lemma uri_match_a:
  "match_repository (uri_a ''relay'') = Some \<lparr>rm_registry = ''123456789012.dkr.ecr.us-east-1.amazonaws.com'',
     rm_region = ''us-east-1'', rm_service = ''relay''\<rparr>"
  "match_repository (uri_a ''sink'') = Some \<lparr>rm_registry = ''123456789012.dkr.ecr.us-east-1.amazonaws.com'',
     rm_region = ''us-east-1'', rm_service = ''sink''\<rparr>"
  by code_simp+

lemma claims_ok_a: "check_images images_a commit_a ''us-east-1'' ''123456789012'' =
    Inr [claim_a ''relay'' digest_a, claim_a ''sink'' digest_b]"
proof -
  have pin: "ends_with (uri_a s @ ''@'' @ d) (''@'' @ d)" "remove_suffix (uri_a s @ ''@'' @ d) (''@'' @ d) = uri_a s" for s d
    by (rule ends_with_append, rule remove_suffix_append)
  have differ: "digest_a \<noteq> digest_b" by (simp add: digest_a_def digest_b_def)
  have one: "check_image commit_a ''us-east-1'' (jget images_a ''images'') ''relay'' = Inr (claim_a ''relay'' digest_a)"
    "check_image commit_a ''us-east-1'' (jget images_a ''images'') ''sink'' = Inr (claim_a ''sink'' digest_b)"
    by (simp_all only: check_image_def Let_def images_a_def bound_a_def gate_ok_def image_a_def jget_Cons append.simps)
       (simp_all add: digest_shape_a pin [simplified] uri_match_a claim_a_def)
  have "keys_eq (jget images_a ''images'') services" "is_dict (jget images_a ''images'')"
    by (simp_all add: images_a_def bound_a_def gate_ok_def keys_eq_def services_def)
  moreover have "mapE (check_image commit_a ''us-east-1'' (jget images_a ''images'')) services =
      Inr [claim_a ''relay'' digest_a, claim_a ''sink'' digest_b]"
    by (simp add: services_def one)
  ultimately show ?thesis
    using differ by (simp add: check_images_def Let_def) (simp add: claim_a_def)
qed

lemma settings_ok_a: "check_image_settings images_a [claim_a ''relay'' digest_a, claim_a ''sink'' digest_b] = Inr ()"
proof -
  have at: "before_at (uri_a ''relay'' @ ''@'' @ digest_a) = uri_a ''relay''"
    "before_at (uri_a ''sink'' @ ''@'' @ digest_b) = uri_a ''sink''" by code_simp+
  show ?thesis
    using at by (simp add: check_image_settings_def images_a_def bound_a_def gate_ok_def keys_eq_def services_def
        setting_a_def claim_a_def)
qed

lemma captures_ok_a: "check_paid_window capture_plan_a = Inr ()"
  "capture_order capture_plan_a = Inr [capture_item 0, capture_item 1]"
  by (simp_all add: check_paid_window_def capture_order_def capture_step_def capture_plan_a_def bound_a_def capture_item_def)

lemma checks_a: "check_receipts receipts_a run_a commit_a ''us-east-1'' (\<lambda>_. sample_time) =
    Inr ([claim_a ''relay'' digest_a, claim_a ''sink'' digest_b], [capture_item 0, capture_item 1])"
proof -
  have "jget inventory_a ''captured_at'' = stamp_a" "jget plan_a ''captured_at'' = stamp_a"
    "jget (jget identity_a ''aws'') ''account_id'' = JStr ''123456789012''"
    by (simp_all add: inventory_a_def plan_a_def identity_a_def bound_a_def gate_ok_def)
  then show ?thesis
    unfolding check_receipts_def
    by (simp add: bindings_a gates_a recent_a) (simp add: receipts_a_def recent_a identity_ok_a plan_ok_a shape_ok_a
        topology_ok_a claims_ok_a settings_ok_a captures_ok_a)
qed

lemma hashes_a: "input_hashes env_a run_a = Inr (map (\<lambda>nf. (fst nf, JStr hash_a)) go_inputs)"
  by (simp add: input_hashes_def go_inputs_def hash_path_a bytes_a_def map_of_a)

lemma clean_a: "returns (require_clean_commit StageError commit_a) env_a [] () 
    [\<lparr>ev_command = [''git'', ''rev-parse'', ''HEAD''], ev_input = None\<rparr>,
     \<lparr>ev_command = [''git'', ''status'', ''--porcelain'', ''--untracked-files=all''], ev_input = None\<rparr>]"
proof -
  have "strip (commit_a @ [newline]) = commit_a" "strip '''' = ''''" by code_simp+
  then show ?thesis
    by (simp add: require_clean_commit_def runner_text_def runner_result_def io_simps decode_text_def env_a_def)
qed

lemma decision_a: "\<exists>u. returns (build_go_no_go run_a commit_a ''us-east-1'' ''operator'' (\<lambda>_. sample_time)) env_a [] packet_a u"
  unfolding build_go_no_go_def io_simps
  using clean_a owner_a by (auto simp: inputs_a checks_a hashes_a packet_a_def)

section \<open>Witnesses\<close>

lemma observed_fresh_a:
  assumes "\<And>d. parse_recent_utc stamp_a d now one_day = Inr sample_checked"
  shows "still_staged env_a run_a now"
proof -
  have "jget identity_a ''captured_at'' = stamp_a" "jget plan_a ''captured_at'' = stamp_a"
    "jget inventory_a ''captured_at'' = stamp_a" "jget prices_a ''checked_at'' = stamp_a"
    by (simp_all add: identity_a_def plan_a_def inventory_a_def bound_a_def prices_a_def sample_receipt_time stamp_a_def)
  with assms show ?thesis
    by (simp add: still_staged_def no_linked_parent_iff not_link_a observed_inputs_def check_observed_def)
qed

lemma stamps_a: "parse_recent_utc stamp_a d sample_time one_day = Inr sample_checked"
  "parse_recent_utc stamp_a d (sample_time + minutes 15) one_day = Inr sample_checked"
  by (simp_all add: stamp_a_def parse_recent_utc_def sample_stamp sample_time_def minutes_def one_day_def)

definition decided_a :: datetime where
  "decided_a = \<lparr>yr = 2026, mo = 1, dy = 1, hh = 1, mi = 0, ss = 0\<rparr>"

lemma decided_full_a: "full_year decided_a" by code_simp

lemma decided_instant_a: "instant decided_a = sample_time"
  by (simp add: instant_def decided_a_def sample_time_def sample_checked_def seconds_def minutes_def)

lemma packet_hash_a: "jget (jget packet_a ''plan'') ''sha256'' = JStr hash_a"
  by (simp add: packet_a_def go_packet_def receipts_a_def plan_a_def bound_a_def gate_ok_def)

lemma receipt_a:
  assumes "sample_time \<le> now" and "now \<le> sample_time + one_day - 1000000" and "still_staged env_a run_a now"
  shows "verify_go_receipt env_a run_a commit_a ''us-east-1'' (run_dir env_a run_a @ [''06-go-no-go.json''])
    (run_dir env_a run_a @ [''03-plan-summary.json'']) now = Inr packet_a"
proof -
  from decision_a obtain u where
    "returns (build_go_no_go run_a commit_a ''us-east-1'' ''operator'' (\<lambda>_. sample_time)) env_a [] packet_a u" ..
  from go_packet_accepted [OF this, of "run_dir env_a run_a @ [''06-go-no-go.json'']" d decided_a now] assms
  show ?thesis by (simp add: packet_hash_a sha_shape_a decided_full_a decided_instant_a)
qed

lemma go_packet_sound_witness:
  "total_within packet_a \<and> images_pinned packet_a ''123456789012'' ''us-east-1'' \<and> hashes_recorded env_a run_a packet_a"
proof -
  from decision_a obtain u where
    "returns (build_go_no_go run_a commit_a ''us-east-1'' ''operator'' (\<lambda>_. sample_time)) env_a [] packet_a u" ..
  from go_packet_sound [OF this] show ?thesis
    by (auto simp: inputs_a) (simp add: receipts_a_def identity_a_def bound_a_def gate_ok_def)
qed


lemma verify_at_a:
  assumes "sample_time \<le> now" and "now \<le> sample_time + one_day - 1000000" and "still_staged env_a run_a now"
  shows "verify_at env_a run_a commit_a ''us-east-1'' (run_dir env_a run_a @ [''06-go-no-go.json''])
    (run_dir env_a run_a @ [''capture-plan.json'']) (run_dir env_a run_a @ [''03-plan-summary.json'']) now = Inr packet_a"
  using receipt_a [OF assms] packet_hash_a
  by (simp add: verify_at_def hash_path_a bytes_a_def map_of_a)

lemma before_session_covers_allowance_witness:
  "verify_go_no_go env_a run_a commit_a ''us-east-1'' (run_dir env_a run_a @ [''06-go-no-go.json''])
    (run_dir env_a run_a @ [''capture-plan.json'']) (run_dir env_a run_a @ [''03-plan-summary.json''])
    (sample_time + minutes 7) False = Inr packet_a"
proof (rule before_session_covers_allowance)
  show "verify_go_no_go env_a run_a commit_a ''us-east-1'' (run_dir env_a run_a @ [''06-go-no-go.json''])
      (run_dir env_a run_a @ [''capture-plan.json'']) (run_dir env_a run_a @ [''03-plan-summary.json''])
      sample_time True = Inr packet_a"
    using verify_at_a [of sample_time] verify_at_a [of "sample_time + minutes 15"] observed_fresh_a [OF stamps_a(1)]
      observed_fresh_a [OF stamps_a(2)]
    by (simp add: verify_go_no_go_def one_day_def minutes_def)
qed (simp_all add: minutes_def)

end
