(* ===== verification/Stage_Images_Correct.thy ===== *)
theory Stage_Images_Correct
  imports Stage_Images
begin

text \<open>
  Correctness of image staging: checking the images never pushes, and a staged image is
  referenced by the digest the registry reported, was built from the approved commit, and is
  recorded as pushed exactly when a push command was issued.
\<close>

section \<open>The commands issued\<close>

definition is_push :: "event \<Rightarrow> bool" where
  "is_push e \<longleftrightarrow> take 3 (ev_command e) = [''docker'', ''image'', ''push'']"

abbreviation quiet :: "'a io \<Rightarrow> bool" where
  "quiet m \<equiv> issues_only (\<lambda>e. \<not> is_push e) m"

lemma quiet_result [io_intros]: "take 3 c \<noteq> [''docker'', ''image'', ''push''] \<Longrightarrow> quiet (runner_result cls c i)"
  by (rule issues_runner_result) (simp add: is_push_def)

lemma quiet_text [io_intros]: "take 3 c \<noteq> [''docker'', ''image'', ''push''] \<Longrightarrow> quiet (runner_text cls c)"
  by (rule issues_runner_text) (simp add: is_push_def)

lemma quiet_json [io_intros]: "take 3 c \<noteq> [''docker'', ''image'', ''push''] \<Longrightarrow> quiet (runner_json cls c)"
  by (rule issues_runner_json) (simp add: is_push_def)

lemma quiet_steps [io_intros]:
  "quiet (require_clean_commit cls commit)" "quiet (repositories region)" "quiet (repository_settings urls region)"
  "quiet (login registry region)" "quiet (existing_digest repository commit region)"
  "quiet (described_digest repository commit region)" "quiet (inspect_image img commit)"
  "a \<noteq> ''push'' \<Longrightarrow> quiet (docker_image (a # rest))"
  unfolding require_clean_commit_def repositories_def repository_settings_def login_def existing_digest_def
    described_digest_def inspect_image_def docker_image_def
  by (intro io_intros; simp)+

lemma quiet_present [io_intros]: "quiet (stage_present service uri commit region digest)"
  unfolding stage_present_def Let_def by (intro io_intros) simp

lemma quiet_stage_one [io_intros]: "quiet (stage_one service uri commit region False)"
proof -
  have "quiet (stage_missing service uri commit region False)"
    by (simp add: stage_missing_def issues_only_def bindIO_def lift_def Let_def)
  then show ?thesis unfolding stage_one_def by (intro io_intros)
qed

text \<open>
  Verification only reads: \<open>capture_images\<close> without \<open>push_missing\<close> issues no image
  push, whatever the commands answer and however it ends.
\<close>

theorem verification_never_pushes:
  "\<exists>es. snd (capture_images commit region False captured_at w t) = t @ es \<and> list_all (\<lambda>e. \<not> is_push e) es"
proof (rule issues_only_trace)
  show "quiet (capture_images commit region False captured_at)"
    unfolding capture_images_def by (intro io_intros)
qed

section \<open>What a staged image establishes\<close>

lemma returns_extends: "issues_only P m \<Longrightarrow> returns m w t x u \<Longrightarrow> \<exists>es. u = t @ es \<and> list_all P es"
  unfolding issues_only_def returns_def by (metis snd_conv)

lemma image_metadata_ok:
  assumes "validate_image_metadata v img commit = Inr r"
  shows "jget r ''revision'' = JStr commit" "jget r ''platform'' = JStr ''linux/amd64''"
    "is_str (jget r ''id'')" "digest_shape (str_of (jget r ''id''))"
  using assms by (auto simp: validate_image_metadata_def Let_def bindE_eq_Inr)

lemma inspect_image_ok:
  assumes "returns (inspect_image img commit) w t r u"
  shows "jget r ''revision'' = JStr commit" "jget r ''platform'' = JStr ''linux/amd64''"
    "is_str (jget r ''id'')" "digest_shape (str_of (jget r ''id''))"
proof -
  from assms obtain v where "validate_image_metadata v img commit = Inr r"
    by (auto simp: inspect_image_def io_simps)
  note image_metadata_ok [OF this]
  then show "jget r ''revision'' = JStr commit" "jget r ''platform'' = JStr ''linux/amd64''"
    "is_str (jget r ''id'')" "digest_shape (str_of (jget r ''id''))" by simp_all
qed

lemma described_digest_ok:
  "returns (described_digest repository commit region) w t d u \<Longrightarrow> digest_shape d"
  by (auto simp: described_digest_def parse_described_def io_simps Let_def bindE_eq_Inr)

definition staged_ok :: "string \<Rightarrow> string \<Rightarrow> string \<Rightarrow> json \<Rightarrow> bool" where
  "staged_ok service uri commit v \<longleftrightarrow> (\<exists>digest. digest_shape digest \<and>
     jget v ''repository'' = JStr (''mlp-dev/'' @ service) \<and> jget v ''tag'' = JStr commit \<and>
     jget v ''digest'' = JStr digest \<and> jget v ''reference'' = JStr (uri @ ''@'' @ digest) \<and>
     jget v ''revision'' = JStr commit \<and> jget v ''platform'' = JStr ''linux/amd64'' \<and>
     digest_shape (str_of (jget v ''image_id'')))"

lemma staged_receipt_ok:
  assumes "digest_shape digest" and "returns (inspect_image img commit) w t remote u"
  shows "staged_ok service uri commit (staged_receipt (''mlp-dev/'' @ service) uri commit digest remote pushed)"
  using assms(1) inspect_image_ok [OF assms(2)] by (simp add: staged_ok_def staged_receipt_def)

lemma staged_pushed [simp]: "jget (staged_receipt repository uri commit digest remote pushed) ''pushed'' = JBool pushed"
  by (simp add: staged_receipt_def)

lemma missing_ok:
  assumes "returns (stage_missing service uri commit region push_missing) w t v u"
  shows "staged_ok service uri commit v \<and> jget v ''pushed'' = JBool True \<and>
    (\<exists>es. u = t @ es \<and> (\<exists>e \<in> set es. is_push e))"
proof -
  from assms obtain local u2 u3 u4 digest where
    steps: "returns (inspect_image (local_image service) commit) w t local u2"
      "returns (docker_image [''tag'', local_image service, uri @ '':'' @ commit]) w u2 () u3"
      "returns (docker_image [''push'', uri @ '':'' @ commit]) w u3 () u4"
      "returns (described_digest (''mlp-dev/'' @ service) commit region) w u4 digest u"
    and v: "v = staged_receipt (''mlp-dev/'' @ service) uri commit digest local True"
    unfolding stage_missing_def Let_def io_simps by auto
  have "staged_ok service uri commit v"
    unfolding v by (rule staged_receipt_ok [OF described_digest_ok [OF steps(4)] steps(1)])
  moreover obtain a b d where "u2 = t @ a" "u3 = u2 @ b" "u = u4 @ d"
    using returns_extends [OF quiet_steps(7) steps(1)] returns_extends [OF quiet_steps(8) steps(2)]
      returns_extends [OF quiet_steps(6) steps(4)] by auto
  moreover obtain e where "u4 = u3 @ [e]" "is_push e"
    using steps(3) by (auto simp: docker_image_def runner_result_def io_simps is_push_def split: if_splits)
  ultimately show ?thesis by (simp add: v)
qed

lemma present_ok:
  assumes "returns (stage_present service uri commit region digest) w t v u"
  shows "staged_ok service uri commit v \<and> jget v ''pushed'' = JBool False \<and>
    (\<exists>es. u = t @ es \<and> list_all (\<lambda>e. \<not> is_push e) es)"
proof -
  from assms obtain u2 u3 remote where
    steps: "returns (described_digest (''mlp-dev/'' @ service) commit region) w t digest u2"
      "returns (inspect_image (uri @ ''@'' @ digest) commit) w u3 remote u"
    and v: "v = staged_receipt (''mlp-dev/'' @ service) uri commit digest remote False"
    unfolding stage_present_def Let_def io_simps by auto
  have "staged_ok service uri commit v"
    unfolding v by (rule staged_receipt_ok [OF described_digest_ok [OF steps(1)] steps(2)])
  with returns_extends [OF quiet_present assms] show ?thesis by (simp add: v)
qed

text \<open>
  A staged image is what its receipt says: the reference is the repository with the
  digest the registry reported for the commit tag, the image was built from the commit for
  linux/amd64, and \<open>pushed\<close> is true exactly when a push was among the commands issued.
\<close>

theorem staged_image_sound:
  assumes "returns (stage_one service uri commit region push_missing) w t v u"
  shows "staged_ok service uri commit v \<and>
    (\<exists>es. u = t @ es \<and> jget v ''pushed'' = JBool (\<exists>e \<in> set es. is_push e))"
proof -
  let ?r = "''mlp-dev/'' @ service"
  from assms obtain existing u1 where first: "returns (existing_digest ?r commit region) w t existing u1"
    and rest: "returns (case existing of None \<Rightarrow> stage_missing service uri commit region push_missing
      | Some digest \<Rightarrow> stage_present service uri commit region digest) w u1 v u"
    unfolding stage_one_def returns_bind by blast
  from returns_extends [OF quiet_steps(5) first] obtain e1
    where e1: "u1 = t @ e1" "list_all (\<lambda>e. \<not> is_push e) e1" by blast
  show ?thesis
  proof (cases existing)
    case None
    with rest missing_ok obtain es where "staged_ok service uri commit v" "jget v ''pushed'' = JBool True"
      "u = u1 @ es" "\<exists>e \<in> set es. is_push e" by fastforce
    with e1 show ?thesis by auto
  next
    case (Some digest)
    with rest present_ok obtain es where "staged_ok service uri commit v" "jget v ''pushed'' = JBool False"
      "u = u1 @ es" "list_all (\<lambda>e. \<not> is_push e) es" by fastforce
    with e1 show ?thesis by (auto simp: list_all_iff)
  qed
qed

section \<open>A concrete image\<close>

definition tag_b :: string where "tag_b = ''0123456789abcdef0123456789abcdef01234567''"
definition digest_c :: string where "digest_c = ''sha256:'' @ replicate 64 (CHR ''c'')"

definition registry_answer :: "string list \<Rightarrow> json" where
  "registry_answer command =
     (if take 3 command = [''aws'', ''ecr'', ''list-images''] then JObj [(''imageIds'', JArr
        [JObj [(''imageTag'', JStr tag_b), (''imageDigest'', JStr digest_c)]])]
      else if take 3 command = [''aws'', ''ecr'', ''describe-images''] then JObj [(''imageDetails'', JArr
        [JObj [(''imageDigest'', JStr digest_c), (''imageTags'', JArr [JStr tag_b])]])]
      else JObj [(''Config'', JObj [(''Labels'', JObj [(''org.opencontainers.image.revision'', JStr tag_b)])]),
        (''Os'', JStr ''linux''), (''Architecture'', JStr ''amd64''), (''Id'', JStr digest_c)])"

text \<open>The environment answers each command with the name of the document it stands for.\<close>

definition registry_env :: env where
  "registry_env = \<lparr>root_dir = [], files = (\<lambda>_. None), outside = (\<lambda>_ _. False),
     loads = (\<lambda>s. Some (registry_answer (if s = ''list'' then [''aws'', ''ecr'', ''list-images'']
        else if s = ''describe'' then [''aws'', ''ecr'', ''describe-images''] else []))),
     repeats = (\<lambda>_. False), decode = Some, sha256 = (\<lambda>s. s),
     answer = (\<lambda>t e. \<lparr>returncode = 0, stdout =
        (if take 3 (ev_command e) = [''aws'', ''ecr'', ''list-images''] then ''list''
         else if take 3 (ev_command e) = [''aws'', ''ecr'', ''describe-images''] then ''describe'' else ''image''),
       stderr = ''''\<rparr>)\<rparr>"

lemma staged_image_sound_witness: "\<exists>v u. returns (stage_one ''relay'' ''registry/relay'' tag_b ''us-east-1'' False) registry_env [] v u \<and>
    staged_ok ''relay'' ''registry/relay'' tag_b v"
proof -
  have "digest_shape digest_c" by code_simp
  then have "\<exists>v u. returns (stage_one ''relay'' ''registry/relay'' tag_b ''us-east-1'' False) registry_env [] v u"
    by (simp add: stage_one_def stage_present_def existing_digest_def described_digest_def inspect_image_def docker_image_def
        runner_result_def runner_json_def io_simps registry_env_def decode_text_def registry_answer_def
        parse_existing_def parse_described_def validate_image_metadata_def Let_def)
  then obtain v u where run: "returns (stage_one ''relay'' ''registry/relay'' tag_b ''us-east-1'' False) registry_env [] v u"
    by blast
  from staged_image_sound [OF run] run show ?thesis by blast
qed

end
