(* ===== verification/Py_World.thy ===== *)
theory Py_World
  imports Py_Files
begin

text \<open>
  Actions that change files: a computation takes the environment and returns its result with
  the environment it leaves, also when it raises. JSON receipts are written with
  \<open>json.dump(v, indent=2, sort_keys=True)\<close> and a final newline, whose text is defined here.
\<close>

section \<open>JSON text\<close>

definition json_escape :: "char \<Rightarrow> string" where
  "json_escape c =
     (let n = of_char c :: nat; b = CHR 0x5C
      in if c = CHR 0x22 \<or> c = b then [b, c]
         else if n = 10 then [b, CHR ''n'']
         else if n = 13 then [b, CHR ''r'']
         else if n = 9 then [b, CHR ''t'']
         else if n = 12 then [b, CHR ''f'']
         else if n = 8 then [b, CHR ''b'']
         else if n < 32 \<or> 126 < n then b # ''u00'' @ [hex_digit (n div 16), hex_digit (n mod 16)]
         else [c])"

definition json_string :: "string \<Rightarrow> string" where
  "json_string s = [CHR 0x22] @ concat (map json_escape s) @ [CHR 0x22]"

definition json_float :: "num \<Rightarrow> string" where
  "json_float n =
     (case n of NaN \<Rightarrow> ''NaN'' | Infinite neg \<Rightarrow> if neg then ''-Infinity'' else ''Infinity'' | _ \<Rightarrow> repr_float n)"

definition json_block :: "nat \<Rightarrow> char \<Rightarrow> char \<Rightarrow> string list \<Rightarrow> string" where
  "json_block k a z parts =
     (case parts of
        [] \<Rightarrow> [a, z]
      | p # ps \<Rightarrow>
          (let line = newline # replicate (2 * Suc k) (CHR '' '')
           in [a] @ line @ p @ concat (map (\<lambda>q. '','' @ line @ q) ps) @ newline # replicate (2 * k) (CHR '' '') @ [z]))"

function json_text :: "nat \<Rightarrow> json \<Rightarrow> string" where
  "json_text k v =
     (case v of
        JNull \<Rightarrow> ''null''
      | JBool b \<Rightarrow> if b then ''true'' else ''false''
      | JInt i \<Rightarrow> int_str i
      | JFloat n \<Rightarrow> json_float n
      | JStr s \<Rightarrow> json_string s
      | JArr xs \<Rightarrow> json_block k (CHR ''['') (CHR '']'') (map (json_text (Suc k)) xs)
      | JObj ps \<Rightarrow> json_block k (CHR ''{'') (CHR ''}'')
          (map (\<lambda>p. json_string (fst p) @ '': '' @ json_text (Suc k) (snd p)) (sort_key fst ps)))"
  by pat_completeness auto

termination
  by (relation "measure (\<lambda>(k, v). size v)") (auto dest: size_obj_value size_arr_item)

definition json_dump :: "json \<Rightarrow> string" where
  "json_dump v = json_text 0 v @ [newline]"

section \<open>Actions\<close>

type_synonym 'a act = "env \<Rightarrow> 'a res \<times> env"

definition bindA :: "'a act \<Rightarrow> ('a \<Rightarrow> 'b act) \<Rightarrow> 'b act" where
  "bindA m f = (\<lambda>w. case m w of (Inl e, w') \<Rightarrow> (Inl e, w') | (Inr x, w') \<Rightarrow> f x w')"

definition reads :: "(env \<Rightarrow> 'a res) \<Rightarrow> 'a act" where
  "reads f = (\<lambda>w. (f w, w))"

definition leaves :: "'a act \<Rightarrow> env \<Rightarrow> 'a \<Rightarrow> env \<Rightarrow> bool" where
  "leaves m w x w' \<longleftrightarrow> m w = (Inr x, w')"

named_theorems act_simps "inversion of finished actions"

lemma leaves_bind [act_simps]:
  "leaves (bindA m f) w y w' \<longleftrightarrow> (\<exists>x u. leaves m w x u \<and> leaves (f x) u y w')"
  by (auto simp: leaves_def bindA_def split: prod.splits sum.splits)

lemma leaves_reads [act_simps]: "leaves (reads f) w x w' \<longleftrightarrow> f w = Inr x \<and> w' = w"
  by (auto simp: leaves_def reads_def)

definition present :: "env \<Rightarrow> path \<Rightarrow> bool" where
  "present w p = (case files w p of Some n \<Rightarrow> nd_content n \<noteq> Dangling | None \<Rightarrow> False)"

text \<open>
  \<open>write_json_exclusive\<close>: the text goes to a temporary file that must not exist and is
  then linked to its place, which must not exist either; the temporary file is removed.
\<close>

definition temporary_path :: "path \<Rightarrow> path" where
  "temporary_path p = butlast p @ [''.'' @ last p @ ''.tmp'']"

definition write_json_exclusive :: "path \<Rightarrow> json \<Rightarrow> nat \<Rightarrow> unit act" where
  "write_json_exclusive p v mode =
     (\<lambda>w. if files w (temporary_path p) \<noteq> None \<or> files w p \<noteq> None then (py_raise OSError, w)
          else (Inr (), w\<lparr>files := (files w)(p \<mapsto> regular mode (json_dump v))\<rparr>))"

lemma leaves_exclusive [act_simps]:
  "leaves (write_json_exclusive p v mode) w u w' \<longleftrightarrow>
     files w (temporary_path p) = None \<and> files w p = None \<and>
     w' = w\<lparr>files := (files w)(p \<mapsto> regular mode (json_dump v))\<rparr>"
  by (auto simp: leaves_def write_json_exclusive_def)

text \<open>\<open>write_json_atomic\<close> replaces whatever is there.\<close>

definition write_json_atomic :: "path \<Rightarrow> json \<Rightarrow> nat \<Rightarrow> unit act" where
  "write_json_atomic p v mode = (\<lambda>w. (Inr (), w\<lparr>files := (files w)(p \<mapsto> regular mode (json_dump v))\<rparr>))"

lemma leaves_atomic [act_simps]:
  "leaves (write_json_atomic p v mode) w u w' \<longleftrightarrow> w' = w\<lparr>files := (files w)(p \<mapsto> regular mode (json_dump v))\<rparr>"
  by (auto simp: leaves_def write_json_atomic_def)

section \<open>Time arithmetic\<close>

text \<open>\<open>t + timedelta(minutes=n)\<close> raises beyond the year 9999.\<close>

definition add_minutes :: "datetime \<Rightarrow> nat \<Rightarrow> datetime res" where
  "add_minutes t n = (let u = plus_minutes t n in if 9999 < yr u then py_raise OverflowError else Inr u)"

text \<open>\<open>isoformat()\<close> with \<open>+00:00\<close> replaced by \<open>Z\<close>, and of a date.\<close>

definition iso_date :: "datetime \<Rightarrow> string" where
  "iso_date t = zfill 4 (nat_str (yr t)) @ ''-'' @ two (mo t) @ ''-'' @ two (dy t)"

definition iso_text :: "datetime \<Rightarrow> string" where
  "iso_text t = iso_date t @ ''T'' @ two (hh t) @ '':'' @ two (mi t) @ '':'' @ two (ss t) @ ''Z''"

text \<open>\<open>^\d{4}-\d{2}-\d{2}T\d{2}:\d{2}:\d{2}Z$\<close> matched in full.\<close>

fun follows :: "string \<Rightarrow> string \<Rightarrow> bool" where
  "follows [] [] = True"
| "follows (p # ps) (c # cs) = ((if p = CHR ''d'' then is_digit c else c = p) \<and> follows ps cs)"
| "follows _ _ = False"

definition utc_shape :: "string \<Rightarrow> bool" where
  "utc_shape s = follows ''dddd-dd-ddTdd:dd:ddZ'' s"

lemma follows_append: "follows p s \<Longrightarrow> follows q t \<Longrightarrow> follows (p @ q) (s @ t)"
  by (induction p s rule: follows.induct) auto

lemma follows_digits: "digits s \<Longrightarrow> follows (replicate (length s) (CHR ''d'')) s"
  by (induction s) (auto simp: digits_def)

lemma padded_year:
  assumes "y \<le> 9999"
  shows "digits (zfill 4 (nat_str y))" "length (zfill 4 (nat_str y)) = 4" "str_nat (zfill 4 (nat_str y)) = y"
proof -
  have "length (nat_str y) \<le> 4" using nat_str_length_le [of 4 y] assms by simp
  then show "length (zfill 4 (nat_str y)) = 4" by simp
  show "digits (zfill 4 (nat_str y))"
    using nat_str_digits by (auto simp: digits_def zfill_def list_all_iff)
qed simp

lemma iso_text_parses:
  assumes "valid_time t"
  shows "parse_stamp (iso_text t) = Some t" and "utc_shape (iso_text t)"
proof -
  note y = padded_year [of "yr t"] and b = valid_time_bounds [OF assms]
  have y9: "yr t \<le> 9999" using assms by (simp add: valid_time_def)
  show "parse_stamp (iso_text t) = Some t"
    using parse_stamp_fields [OF assms y(1) y(2) y(3)] y9 by (simp add: iso_text_def iso_date_def)
  have two: "follows ''dd'' (two n)" if "n < 100" for n
    using follows_digits [OF two_digits [OF that]] two_length [OF that] by (simp add: numeral_2_eq_2)
  have "follows ''dddd'' (zfill 4 (nat_str (yr t)))"
    using follows_digits [OF y(1) [OF y9]] y(2) [OF y9] by (simp add: eval_nat_numeral)
  then have "follows (''dddd'' @ ''-'' @ ''dd'' @ ''-'' @ ''dd'' @ ''T'' @ ''dd'' @ '':'' @ ''dd'' @ '':'' @ ''dd'' @ ''Z'')
      (iso_text t)"
    unfolding iso_text_def iso_date_def append_assoc using b by (intro follows_append two) simp_all
  then show "utc_shape (iso_text t)" by (simp add: utc_shape_def)
qed

end
