(* ===== verification/Evidence_Plan.thy ===== *)
theory Evidence_Plan
  imports Py_World
begin

text \<open>
  The evidence plan and the paid session of \<open>scripts/m4-evidence.py\<close>: the fixed capture
  order and its protocol check, the capture plan written from a passing preflight receipt,
  the session receipt that starts the paid window, and the check that an hourly apply runs
  under a live controller inside that window.
\<close>

section \<open>Paths\<close>

definition evidence_validate_run_id :: "string \<Rightarrow> unit res" where
  "evidence_validate_run_id run_id = check_run_id EvidenceError ''AWS_RUN_ID'' run_id"

interpretation evidence_run_id: run_id_validator evidence_validate_run_id
  by unfold_locales (simp add: evidence_validate_run_id_def check_run_id_iff)

text \<open>
  \<open>ensure_beneath\<close>: the resolved path must stay below the root, and no directory between
  them may be a symbolic link; the walk goes from the path up to the root.
\<close>

definition up_to :: "path \<Rightarrow> path \<Rightarrow> path list" where
  "up_to base p = takeWhile (\<lambda>q. q \<noteq> base) (map (\<lambda>k. take k p) (rev [0..<Suc (length p)]))"

definition ensure_beneath :: "env \<Rightarrow> path \<Rightarrow> path \<Rightarrow> unit res" where
  "ensure_beneath w p base =
     bindE (ensure (\<not> outside w base p)
       (Err EvidenceError ''evidence path escapes the repository: {}'' [path_json p])) (\<lambda>_.
     foldE (\<lambda>u q.
       if is_symlink w q then raise EvidenceError ''evidence path contains a symlink: {}'' [path_json q]
       else if \<not> strict_prefix base q
       then raise EvidenceError ''evidence path escapes the repository: {}'' [path_json p]
       else Inr ()) () (up_to base p))"

definition published_dir :: "env \<Rightarrow> string \<Rightarrow> path" where
  "published_dir w run_id = root_dir w @ [''docs'', ''evidence'', ''m4'', run_id]"

definition evidence_paths :: "env \<Rightarrow> string \<Rightarrow> (path \<times> path) res" where
  "evidence_paths w run_id =
     bindE (evidence_validate_run_id run_id) (\<lambda>_.
     let raw = run_dir w run_id; published = published_dir w run_id in
     bindE (ensure_beneath w raw (root_dir w)) (\<lambda>_.
     bindE (ensure_beneath w published (root_dir w)) (\<lambda>_.
       Inr (raw, published))))"

text \<open>\<open>read_json_object\<close> refuses objects that repeat a key, before it looks at the type.\<close>

definition read_json_object :: "env \<Rightarrow> path \<Rightarrow> string \<Rightarrow> json res" where
  "read_json_object w p description =
     bindE (read_bytes w p) (\<lambda>b.
       case b of
         None \<Rightarrow> raise EvidenceError ''{} is missing: {}'' [JStr description, path_json p]
       | Some b \<Rightarrow> bindE (decode_text w b) (\<lambda>t.
           if repeats w t then raise EvidenceError ''duplicate JSON object key'' []
           else case loads w t of
             None \<Rightarrow> raise EvidenceError ''{} is invalid JSON: {}'' [JStr description]
           | Some v \<Rightarrow>
               bindE (ensure (is_dict v)
                 (Err EvidenceError ''{} must be a JSON object'' [JStr description])) (\<lambda>_. Inr v)))"

section \<open>The capture plan\<close>

definition provisional_text :: "string list" where
  "provisional_text =
    [''00-session.json'', ''01-identity.txt'', ''02-prices.md'', ''03-plan-summary.json'', ''04-inventory-before.json'', ''05-images.json'', ''06-go-no-go.json'', ''10-event.json'', ''11-attempts.json'', ''12-metrics.txt'', ''13-trace.json'', ''14-keda.txt'', ''15-dlq.json'', ''16-replay.json'', ''20-destroy.txt'', ''21-inventory-after.json'', ''22-cost-immediate.txt'']"

definition required_screenshots :: "string list" where
  "required_screenshots =
    [''argocd-apps.png'', ''terminal-demo.png'', ''grafana-lag.png'', ''tempo-trace.png'']"

definition optional_screenshots :: "string list" where
  "optional_screenshots =
    [''aws-console-eks.png'', ''aws-console-msk.png'', ''aws-console-rds.png'', ''aws-console-cost.png'']"

definition final_text :: "string list" where
  "final_text = provisional_text @ [''23-cost-final.txt'']"

definition capture_files :: "string list" where
  "capture_files = take 7 (drop 7 provisional_text) @ [''application-logs.txt'']"

definition capture_table :: "json list" where
  "capture_table =
    [JObj [(''order'', JInt 1),
       (''phase'', JStr ''before_paid_window''),
       (''output'', JStr ''01-identity.txt''),
       (''source'', JStr ''repository identity plus read-only AWS account APIs''),
       (''command'', JStr ''make aws-account-check AWS_RUN_ID=$AWS_RUN_ID AWS_APPROVED_COMMIT=$AWS_APPROVED_COMMIT''),
       (''implemented_by'', JStr ''#96'')],
     JObj [(''order'', JInt 2),
       (''phase'', JStr ''before_paid_window''),
       (''output'', JStr ''02-prices.md''),
       (''source'', JStr ''dated official AWS price sources and checked arithmetic''),
       (''command'', JStr ''make aws-prices AWS_RUN_ID=$AWS_RUN_ID AWS_APPROVED_COMMIT=$AWS_APPROVED_COMMIT''),
       (''implemented_by'', JStr ''#96'')],
     JObj [(''order'', JInt 3),
       (''phase'', JStr ''before_paid_window''),
       (''output'', JStr ''03-plan-summary.json''),
       (''source'', JStr ''reviewed Terraform plan''),
       (''command'', JStr (''make aws-plan AWS_RUN_ID=$AWS_RUN_ID AWS_APPROVED_COMMIT=$AWS_APPROVED_COMMIT AWS_PLAN_SUMMARY=$RAW_EVIDENCE/03-plan-summary.json AWS_TF_ARGS='' @ [CHR 0x22] @ ''-var enable_eks=true -var enable_msk=true -var enable_rds=true -var eks_operator_cidr=${AWS_OPERATOR_CIDR:?set the reviewed IPv4 /32}'' @ [CHR 0x22])),
       (''precondition'', JStr ''cheap tier applied, inventory and images staged; AWS_OPERATOR_CIDR is the current reviewed IPv4 /32; plan only, no apply'')],
     JObj [(''order'', JInt 4),
       (''phase'', JStr ''before_paid_window''),
       (''output'', JStr ''04-inventory-before.json''),
       (''source'', JStr ''tagged and service-native AWS inventory helper owned by #96''),
       (''command'', JStr ''make aws-inventory-empty AWS_RUN_ID=$AWS_RUN_ID AWS_APPROVED_COMMIT=$AWS_APPROVED_COMMIT AWS_INVENTORY_FILE=$RAW_EVIDENCE/04-inventory-before.json''),
       (''implemented_by'', JStr ''#96'')],
     JObj [(''order'', JInt 5),
       (''phase'', JStr ''before_paid_window''),
       (''output'', JStr ''05-images.json''),
       (''source'', JStr ''ECR image staging and inspection helper owned by #96''),
       (''command'', JStr ''make aws-stage-images AWS_RUN_ID=$AWS_RUN_ID AWS_APPROVED_COMMIT=$AWS_APPROVED_COMMIT AWS_IMAGE_EVIDENCE=$RAW_EVIDENCE/05-images.json''),
       (''implemented_by'', JStr ''#96'')],
     JObj [(''order'', JInt 6),
       (''phase'', JStr ''before_paid_window''),
       (''output'', JStr ''06-go-no-go.json''),
       (''source'', JStr ''cross-checked release packet bound to one run and commit''),
       (''command'', JStr ''make aws-go-no-go AWS_RUN_ID=$AWS_RUN_ID AWS_APPROVED_COMMIT=$AWS_APPROVED_COMMIT M4_OPERATOR=$M4_OPERATOR''),
       (''implemented_by'', JStr ''#96'')],
     JObj [(''order'', JInt 7),
       (''phase'', JStr ''before_paid_window''),
       (''output'', JStr ''00-session.json''),
       (''source'', JStr ''session controller''),
       (''command'', JStr ''make aws-live-run AWS_RUN_ID=$AWS_RUN_ID AWS_APPROVED_COMMIT=$AWS_APPROVED_COMMIT M4_OPERATOR=$M4_OPERATOR'')],
     JObj [(''order'', JInt 10),
       (''phase'', JStr ''live_window''),
       (''output'', JStr ''10-event.json''),
       (''source'', JStr ''relay ingest response and idempotent repeat''),
       (''command'', JStr ''python3 scripts/m4-live-capture.py event --output $RAW_EVIDENCE/10-event.json''),
       (''implemented_by'', JStr ''#97'')],
     JObj [(''order'', JInt 11),
       (''phase'', JStr ''live_window''),
       (''output'', JStr ''11-attempts.json''),
       (''source'', JStr ''GET /v1/events/{id}/attempts''),
       (''command'', JStr ''curl -fsS $RELAY_INGEST_URL/v1/events/$EVENT_ID/attempts | jq . >$RAW_EVIDENCE/11-attempts.json'')],
     JObj [(''order'', JInt 12),
       (''phase'', JStr ''live_window''),
       (''output'', JStr ''12-metrics.txt''),
       (''source'', JStr ''fresh Prometheus instant samples during the bounded cohort; source timestamps checked before aggregation''),
       (''command'', JStr ''python3 scripts/m4-live-capture.py metrics --prometheus-url $PROMETHEUS_URL --output $RAW_EVIDENCE/12-metrics.txt''),
       (''implemented_by'', JStr ''#97''),
       (''queries'', JArr [JStr (''max(relay_consumer_group_lag_total{group='' @ [CHR 0x22] @ ''relay-deliver'' @ [CHR 0x22] @ ''})''), JStr (''max(relay_group_members{group='' @ [CHR 0x22] @ ''relay-deliver'' @ [CHR 0x22] @ ''})''), JStr (''max(relay_topic_partitions_unassigned{group='' @ [CHR 0x22] @ ''relay-deliver'' @ [CHR 0x22] @ ''})''), JStr (''max(relay_group_unassigned_members{group='' @ [CHR 0x22] @ ''relay-deliver'' @ [CHR 0x22] @ ''})''), JStr (''kube_deployment_spec_replicas{namespace='' @ [CHR 0x22] @ ''mlp'' @ [CHR 0x22] @ '',deployment='' @ [CHR 0x22] @ ''relay-deliver'' @ [CHR 0x22] @ ''}'')])],
     JObj [(''order'', JInt 13),
       (''phase'', JStr ''live_window''),
       (''output'', JStr ''13-trace.json''),
       (''source'', JStr ''Tempo trace API joined to the capture event and persisted attempt coordinates''),
       (''command'', JStr ''curl -fsS $TEMPO_URL/api/traces/$TRACE_ID | jq . >$RAW_EVIDENCE/13-trace.json'')],
     JObj [(''order'', JInt 14),
       (''phase'', JStr ''live_window''),
       (''output'', JStr ''14-keda.txt''),
       (''source'', JStr ''Kubernetes Deployment, pod, and ScaledObject state''),
       (''command'', JStr ''kubectl -n mlp get deployment/relay-deliver scaledobject/relay-deliver pods -l app.kubernetes.io/name=relay-deliver -o wide >$RAW_EVIDENCE/14-keda.txt'')],
     JObj [(''order'', JInt 15),
       (''phase'', JStr ''live_window''),
       (''output'', JStr ''15-dlq.json''),
       (''source'', JStr ''delivery DLQ consumer with source topic, partition, and offset''),
       (''command'', JStr ''python3 scripts/m4-live-capture.py dlq --output $RAW_EVIDENCE/15-dlq.json''),
       (''implemented_by'', JStr ''#97'')],
     JObj [(''order'', JInt 16),
       (''phase'', JStr ''live_window''),
       (''output'', JStr ''16-replay.json''),
       (''source'', JStr ''relay replay Job logs and matched delivery outcomes''),
       (''command'', JStr ''python3 scripts/m4-live-capture.py replay --output $RAW_EVIDENCE/16-replay.json''),
       (''implemented_by'', JStr ''#97'')],
     JObj [(''order'', JInt 17),
       (''phase'', JStr ''live_window''),
       (''output'', JStr ''application-logs.txt''),
       (''source'', JStr ''all relay and sink containers since the session start''),
       (''command'', JStr ''kubectl -n mlp logs -l app.kubernetes.io/part-of=relay --all-containers --prefix --since-time=$BILLABLE_STARTED_AT >$RAW_EVIDENCE/application-logs.txt''),
       (''publication'', JStr ''scan-only; excerpts belong in the named JSON evidence'')],
     JObj [(''order'', JInt 20),
       (''phase'', JStr ''destroy_first''),
       (''output'', JStr ''20-destroy.txt''),
       (''source'', JStr ''controller-owned state-backed destroy, log cleanup, and empty-state transcript''),
       (''command'', JStr ''make aws-down; make aws-state-empty'')],
     JObj [(''order'', JInt 21),
       (''phase'', JStr ''after_destroy''),
       (''output'', JStr ''21-inventory-after.json''),
       (''source'', JStr ''same inventory helper and query set as 04-inventory-before.json''),
       (''command'', JStr ''make aws-inventory-empty AWS_RUN_ID=$AWS_RUN_ID AWS_APPROVED_COMMIT=$AWS_APPROVED_COMMIT AWS_INVENTORY_FILE=$RAW_EVIDENCE/21-inventory-after.json''),
       (''implemented_by'', JStr ''#96'')],
     JObj [(''order'', JInt 22),
       (''phase'', JStr ''after_destroy''),
       (''output'', JStr ''22-cost-immediate.txt''),
       (''source'', JStr ''provisional Cost Explorer output''),
       (''command'', JStr ''make aws-cost >$RAW_EVIDENCE/22-cost-immediate.txt'')],
     JObj [(''order'', JInt 23),
       (''phase'', JStr ''after_billing_settles''),
       (''output'', JStr ''23-cost-final.txt''),
       (''source'', JStr ''settled account-wide daily service totals over session UTC dates; not exact M4 attribution''),
       (''command'', JStr ''make aws-cost-final AWS_RUN_ID=$AWS_RUN_ID'')]]"

definition screenshot_steps :: "json list" where
  "screenshot_steps =
    [JObj [(''order'', JInt 1),
       (''file'', JStr ''argocd-apps.png''),
       (''surface'', JStr ''ArgoCD''),
       (''visible_state'', JStr ''all child Applications are synced and healthy''),
       (''required'', JBool True)],
     JObj [(''order'', JInt 2),
       (''file'', JStr ''terminal-demo.png''),
       (''surface'', JStr ''terminal''),
       (''visible_state'', JStr ''event, idempotency, attempt, DLQ, and replay assertions passed''),
       (''required'', JBool True)],
     JObj [(''order'', JInt 3),
       (''file'', JStr ''grafana-lag.png''),
       (''surface'', JStr ''Grafana relay dashboard''),
       (''visible_state'', JStr ''lag rise and drain plus scale out and return to one''),
       (''required'', JBool True)],
     JObj [(''order'', JInt 4),
       (''file'', JStr ''tempo-trace.png''),
       (''surface'', JStr ''Grafana Explore with Tempo''),
       (''visible_state'', JStr ''one trace contains ingest, produce, consume, and webhook attempts''),
       (''required'', JBool True)],
     JObj [(''order'', JInt 5),
       (''files'', JArr (map JStr optional_screenshots)),
       (''surface'', JStr ''AWS console''),
       (''visible_state'', JStr ''optional orientation views; command exports remain authoritative''),
       (''required'', JBool False),
       (''deadline_behavior'', JStr ''skip rather than delay destroy'')]]"

text \<open>The commands of the live window are replaced by calls of one bounded run.\<close>

definition live_command :: string where
  "live_command = ''python3 scripts/m4-live-capture.py --environment aws --context '' @
     [CHR 0x22] @ ''$AWS_KUBE_CONTEXT'' @ [CHR 0x22] @ '' --run-id '' @
     [CHR 0x22] @ ''$AWS_RUN_ID'' @ [CHR 0x22] @ '' --commit '' @
     [CHR 0x22] @ ''$AWS_APPROVED_COMMIT'' @ [CHR 0x22]"

definition live_step :: "json \<Rightarrow> json" where
  "live_step step =
     (if jget step ''phase'' = JStr ''live_window''
      then jset (jset step ''command'' (JStr (live_command @
             (if jget step ''order'' = JInt 10 then '' --deploy''
              else '' --verify-output '' @ str_of (jget step ''output''))))) ''execution''
             (JStr ''one bounded run at step 10; later commands verify its exports without repeating the load'')
      else step)"

definition capture_steps :: "json list" where
  "capture_steps = map live_step capture_table"

definition check_capture_command :: "json \<Rightarrow> unit res" where
  "check_capture_command c =
     (let command = jget c ''command'' in
      bindE (ensure (is_str command \<and> strip (str_of command) \<noteq> [])
        (Err EvidenceError ''capture {} has no command'' [jget c ''output''])) (\<lambda>_.
      if contains_str (str_of command) ''docs/evidence/m4''
      then bindE (py_index c ''output'') (\<lambda>out.
             raise EvidenceError ''capture {} writes to the publication tree'' [out])
      else Inr ()))"

definition missing_outputs :: "json list \<Rightarrow> string list res" where
  "missing_outputs captures =
     bindE (mapE (\<lambda>c. py_index c ''output'') (filter (\<lambda>c. jget c ''publication'' = JNull) captures)) (\<lambda>outputs.
       Inr (sort (filter (\<lambda>name. JStr name \<notin> set outputs) (remdups final_text))))"

definition check_capture_order :: "json list \<Rightarrow> unit res" where
  "check_capture_order captures =
     bindE (mapE (\<lambda>c. py_index c ''order'') captures) (\<lambda>orders.
     let ns = map int_of orders in
     ensure (ns = sort ns \<and> distinct ns) (Err EvidenceError ''capture order must be sorted and unique'' []))"

definition phase_index :: "string \<Rightarrow> json list \<Rightarrow> nat res" where
  "phase_index phase phases =
     (let k = length (takeWhile (\<lambda>p. p \<noteq> JStr phase) phases) in
      if k < length phases then Inr k else py_raise ValueError)"

definition check_phases :: "json list \<Rightarrow> unit res" where
  "check_phases captures =
     bindE (mapE (\<lambda>c. py_index c ''phase'') captures) (\<lambda>phases.
     bindE (phase_index ''destroy_first'' phases) (\<lambda>k.
     bindE (ensure (JStr ''live_window'' \<notin> set (drop (Suc k) phases))
       (Err EvidenceError ''live capture cannot follow destroy'' [])) (\<lambda>_.
     ensure (JStr ''after_destroy'' \<notin> set (take k phases))
       (Err EvidenceError ''post-destroy capture appears before destroy'' []))))"

definition check_screenshots :: "json list \<Rightarrow> unit res" where
  "check_screenshots screenshots =
     bindE (mapE (\<lambda>c. py_index c ''file'') (filter (\<lambda>c. truthy (jget c ''required'')) screenshots)) (\<lambda>required.
     bindE (ensure (required = map JStr required_screenshots)
       (Err EvidenceError ''required screenshot order changed'' [])) (\<lambda>_.
     bindE (if screenshots = [] then py_raise IndexError else Inr (last screenshots)) (\<lambda>opt.
     ensure (jget opt ''files'' = JArr (map JStr optional_screenshots) \<and>
         jget opt ''deadline_behavior'' = JStr ''skip rather than delay destroy'')
       (Err EvidenceError ''optional AWS screenshots must yield to the destroy deadline'' []))))"

definition check_protocol :: "json list \<Rightarrow> json list \<Rightarrow> json res" where
  "check_protocol captures screenshots =
     bindE (check_capture_order captures) (\<lambda>_.
     bindE (missing_outputs captures) (\<lambda>missing.
     bindE (ensure (missing = []) (Err EvidenceError ''capture plan omits: {}'' (map JStr missing))) (\<lambda>_.
     bindE (foldE (\<lambda>u c. check_capture_command c) () captures) (\<lambda>_.
     bindE (check_phases captures) (\<lambda>_.
     bindE (check_screenshots screenshots) (\<lambda>_.
       Inr (JObj
         [(''capture_count'', JInt (int (length captures))),
          (''required_screenshots'', JArr (map JStr required_screenshots)),
          (''optional_screenshots'', JArr (map JStr optional_screenshots)),
          (''provisional_file_count'', JInt (int (length provisional_text))),
          (''final_file_count'', JInt (int (length final_text)))])))))))"

definition validate_protocol :: "json res" where
  "validate_protocol = check_protocol capture_steps screenshot_steps"

section \<open>The preflight receipt\<close>

definition evidence_commit_shape :: "json \<Rightarrow> bool" where
  "evidence_commit_shape v \<longleftrightarrow> is_str v \<and> length (str_of v) = 40 \<and> list_all is_hex (str_of v)"

text \<open>\<open>raw.parents[2]\<close>: three components above the run directory.\<close>

definition validate_preflight :: "env \<Rightarrow> path \<Rightarrow> string \<Rightarrow> json res" where
  "validate_preflight w raw run_id =
     (let path = raw @ [''00-preflight.json''] in
      bindE (ensure_beneath w path (take (length raw - 3) raw)) (\<lambda>_.
      bindE (ensure (\<not> is_symlink w path \<and> is_file w path)
        (Err EvidenceError ''passing preflight receipt is missing: {}'' [path_json path])) (\<lambda>_.
      bindE (read_json_object w path ''preflight receipt'') (\<lambda>receipt.
      bindE (ensure (py_eq (jget receipt ''schema_version'') (JInt 1) \<and> jget receipt ''run_id'' = JStr run_id \<and>
          jget receipt ''result'' = JStr ''passed'' \<and> evidence_commit_shape (jget receipt ''commit''))
        (Err EvidenceError ''preflight receipt is not a pass for this run and commit'' [])) (\<lambda>_.
        Inr receipt)))))"

definition capture_plan_receipt :: "string \<Rightarrow> json \<Rightarrow> json" where
  "capture_plan_receipt run_id commit = JObj
     [(''schema_version'', JInt 1), (''run_id'', JStr run_id), (''commit'', commit),
      (''paid_window'', JObj
        [(''prepare_before_apply'', JBool True), (''evidence_deadline_minutes'', JInt 150),
         (''hard_deadline_minutes'', JInt 180), (''destroy_starts_after_success_or_failure'', JBool True),
         (''sanitize_after_destroy'', JBool True)]),
      (''failure_transition'', JObj
        [(''skip_remaining_live_captures'', JBool True), (''next_phase'', JStr ''destroy_first''),
         (''required_followups'', JArr [JStr ''after_destroy'', JStr ''after_billing_settles''])]),
      (''captures'', JArr capture_steps), (''screenshots'', JArr screenshot_steps)]"

definition initialize_plan :: "string \<Rightarrow> path act" where
  "initialize_plan run_id =
     bindA (reads (\<lambda>w. validate_protocol)) (\<lambda>_.
     bindA (reads (\<lambda>w. evidence_paths w run_id)) (\<lambda>(raw, _).
     bindA (reads (\<lambda>w. validate_preflight w raw run_id)) (\<lambda>receipt.
     let path = raw @ [''capture-plan.json''] in
     bindA (reads (\<lambda>w. ensure (\<not> present w path)
       (Err EvidenceError ''capture plan already exists: {}'' [path_json path]))) (\<lambda>_.
     bindA (write_json_exclusive path (capture_plan_receipt run_id (jget receipt ''commit'')) 384) (\<lambda>_.
       reads (\<lambda>w. Inr path))))))"

section \<open>The paid session\<close>

definition parse_utc :: "json \<Rightarrow> string \<Rightarrow> datetime res" where
  "parse_utc v fld =
     (if \<not> is_str v \<or> \<not> utc_shape (str_of v)
      then raise EvidenceError ''{} must use UTC YYYY-MM-DDTHH:MM:SSZ'' [JStr fld]
      else case parse_stamp (str_of v) of
        None \<Rightarrow> raise EvidenceError ''{} is not a real UTC timestamp'' [JStr fld]
      | Some t \<Rightarrow> Inr t)"

definition session_receipt :: "string \<Rightarrow> json \<Rightarrow> string \<Rightarrow> string \<Rightarrow> string \<Rightarrow> datetime \<Rightarrow> datetime \<Rightarrow> json" where
  "session_receipt run_id commit region operator started_at destroy hard = JObj
     [(''schema_version'', JInt 1), (''run_id'', JStr run_id), (''commit'', commit), (''region'', JStr region),
      (''operator'', JStr operator), (''billable_started_at'', JStr started_at),
      (''destroy_deadline'', JStr (iso_text destroy)), (''hard_deadline'', JStr (iso_text hard)),
      (''limits'', JObj [(''maximum_hourly_usd'', JFloat (Fin (Dec False 125 (- 2)))),
         (''maximum_total_usd'', JFloat (Fin (Dec False 50 (- 1))))])]"

definition empty_scan :: "string \<Rightarrow> json \<Rightarrow> string \<Rightarrow> json" where
  "empty_scan run_id commit session_hash = JObj
     [(''schema_version'', JInt 1), (''run_id'', JStr run_id), (''commit'', commit),
      (''session_sha256'', JStr session_hash), (''profile'', JStr ''m4-secret-representations-v1''),
      (''state'', JStr ''not_started''), (''entries'', JArr [])]"

text \<open>Everything before the first write: the run directory, the commit and the receipt.\<close>

definition session_checks :: "env \<Rightarrow> string \<Rightarrow> string \<Rightarrow> string \<Rightarrow> string \<Rightarrow> (path \<times> json \<times> json) res" where
  "session_checks w run_id started_at operator0 region =
     bindE (evidence_paths w run_id) (\<lambda>(raw, _).
     bindE (validate_preflight w raw run_id) (\<lambda>receipt.
     bindE (ensure (is_file w (raw @ [''capture-plan.json'']))
       (Err EvidenceError ''capture-plan.json is missing; run init first'' [])) (\<lambda>_.
     bindE (parse_utc (JStr started_at) ''BILLABLE_STARTED_AT'') (\<lambda>started.
     let operator = strip operator0 in
     bindE (ensure (operator \<noteq> [] \<and> newline \<notin> set operator)
       (Err EvidenceError ''M4_OPERATOR must name the executing operator'' [])) (\<lambda>_.
     bindE (ensure (region = ''us-east-1'')
       (Err EvidenceError ''M4 uses the fixed us-east-1 region'' [])) (\<lambda>_.
     let path = raw @ [''00-session.json'']; scan = raw @ [''secret-scan.json''] in
     bindE (ensure (\<not> present w scan \<and> \<not> is_symlink w scan)
       (Err EvidenceError ''secret scan receipt already exists; run ID is spent'' [])) (\<lambda>_.
     bindE (ensure (\<not> present w path)
       (Err EvidenceError ''session receipt already exists: {}'' [path_json path])) (\<lambda>_.
     bindE (add_minutes started 150) (\<lambda>destroy.
     bindE (add_minutes started 180) (\<lambda>hard.
       Inr (raw, jget receipt ''commit'',
            session_receipt run_id (jget receipt ''commit'') region operator started_at destroy hard)))))))))))"

definition start_session :: "string \<Rightarrow> string \<Rightarrow> string \<Rightarrow> string \<Rightarrow> path act" where
  "start_session run_id started_at operator0 region =
     bindA (reads (\<lambda>w. session_checks w run_id started_at operator0 region)) (\<lambda>(raw, commit, receipt).
     let path = raw @ [''00-session.json'']; scan = raw @ [''secret-scan.json''] in
     bindA (write_json_exclusive path receipt 384) (\<lambda>_.
     bindA (reads (\<lambda>w. hash_path w path)) (\<lambda>h.
     bindA (write_json_exclusive scan (empty_scan run_id commit h) 384) (\<lambda>_.
       reads (\<lambda>w. Inr path)))))"

section \<open>The live controller\<close>

definition apply_start_max_age :: int where
  "apply_start_max_age = minutes 15"

definition in_seconds :: "int \<Rightarrow> int" where
  "in_seconds n = 1000000 * n"

definition check_session_receipt :: "json \<Rightarrow> string \<Rightarrow> string \<Rightarrow> (datetime \<times> datetime) res" where
  "check_session_receipt session run_id commit =
     bindE (ensure (py_eq (jget session ''schema_version'') (JInt 1) \<and> jget session ''run_id'' = JStr run_id \<and>
         jget session ''commit'' = JStr commit \<and> jget session ''region'' = JStr ''us-east-1'')
       (Err EvidenceError ''session receipt is not bound to this run and commit'' [])) (\<lambda>_.
     bindE (parse_utc (jget session ''billable_started_at'') ''billable start'') (\<lambda>started.
     bindE (parse_utc (jget session ''destroy_deadline'') ''destroy deadline'') (\<lambda>destroy.
     bindE (parse_utc (jget session ''hard_deadline'') ''hard deadline'') (\<lambda>hard.
     bindE (ensure (instant destroy - instant started = minutes 150)
       (Err EvidenceError ''session receipt has the wrong destroy deadline'' [])) (\<lambda>_.
     bindE (ensure (instant hard - instant started = minutes 180)
       (Err EvidenceError ''session receipt has the wrong hard deadline'' [])) (\<lambda>_.
       Inr (started, destroy)))))))"

definition controller_authorizes :: "json \<Rightarrow> string \<Rightarrow> string \<Rightarrow> int \<Rightarrow> string \<Rightarrow> bool" where
  "controller_authorizes state run_id commit pid phase \<longleftrightarrow>
     py_eq (jget state ''schema_version'') (JInt 1) \<and> jget state ''run_id'' = JStr run_id \<and>
     jget state ''commit'' = JStr commit \<and> jget state ''region'' = JStr ''us-east-1'' \<and>
     py_eq (jget state ''controller_pid'') (JInt pid) \<and> phase \<in> {''applying'', ''live''} \<and>
     jget state ''phase'' = JStr phase \<and>
     (phase = ''live'' \<longrightarrow> jget state ''apply_exit'' = JInt 0)"

definition check_session_time :: "datetime \<Rightarrow> datetime \<Rightarrow> int \<Rightarrow> string \<Rightarrow> unit res" where
  "check_session_time started destroy now phase =
     bindE (ensure (\<not> now + in_seconds 30 < instant started)
       (Err EvidenceError ''session start is in the future'' [])) (\<lambda>_.
     bindE (ensure (\<not> (phase = ''applying'' \<and> apply_start_max_age < now - instant started))
       (Err EvidenceError ''session is too old to start an hourly apply'' [])) (\<lambda>_.
     ensure (\<not> instant destroy \<le> now)
       (Err EvidenceError ''destroy deadline has already passed'' [])))"

definition check_heartbeat :: "json \<Rightarrow> int \<Rightarrow> unit res" where
  "check_heartbeat state now =
     bindE (parse_utc (jget state ''updated_at'') ''controller heartbeat'') (\<lambda>updated.
     bindE (ensure (\<not> now + in_seconds 30 < instant updated)
       (Err EvidenceError ''controller heartbeat is in the future'' [])) (\<lambda>_.
     ensure (\<not> in_seconds 5 < now - instant updated)
       (Err EvidenceError ''live-run controller heartbeat is stale'' [])))"

definition validate_live_controller ::
  "env \<Rightarrow> string \<Rightarrow> string \<Rightarrow> int \<Rightarrow> int \<Rightarrow> (int \<Rightarrow> bool) \<Rightarrow> string \<Rightarrow> json res" where
  "validate_live_controller w run_id commit pid now running phase =
     bindE (evidence_validate_run_id run_id) (\<lambda>_.
     bindE (ensure (evidence_commit_shape (JStr commit))
       (Err EvidenceError ''approved commit must be a full lowercase git SHA'' [])) (\<lambda>_.
     bindE (ensure (0 < pid)
       (Err EvidenceError ''hourly apply requires the live-run controller PID'' [])) (\<lambda>_.
     bindE (evidence_paths w run_id) (\<lambda>(raw, _).
     bindE (read_json_object w (raw @ [''00-session.json'']) ''session receipt'') (\<lambda>session.
     bindE (check_session_receipt session run_id commit) (\<lambda>(started, destroy).
     bindE (read_json_object w (raw @ [''controller-state.json'']) ''controller state'') (\<lambda>state.
     bindE (ensure (controller_authorizes state run_id commit pid phase)
       (Err EvidenceError ''controller state does not authorize this apply'' [])) (\<lambda>_.
     bindE (check_session_time started destroy now phase) (\<lambda>_.
     bindE (check_heartbeat state now) (\<lambda>_.
     bindE (ensure (running pid) (Err EvidenceError ''live-run controller process is not running'' [])) (\<lambda>_.
       Inr (JObj
         [(''run_id'', JStr run_id), (''commit'', JStr commit), (''controller_pid'', JInt pid),
          (''billable_started_at'', jget session ''billable_started_at''),
          (''destroy_deadline'', jget session ''destroy_deadline''),
          (''hard_deadline'', jget session ''hard_deadline'')]))))))))))))"

end
