(* ===== verification/Evidence_Plan_Correct.thy ===== *)
theory Evidence_Plan_Correct
  imports Evidence_Plan
begin

text \<open>
  Correctness of the evidence plan and the paid session: the fixed capture plan passes its
  own protocol check, a run id starts at most one session, and a controller permit implies
  the time limits of the session, which a freshly started session meets.
\<close>

section \<open>The protocol\<close>

lemma capture_orders: "mapE (\<lambda>c. py_index c ''order'') capture_steps =
    Inr (map JInt ([1, 2, 3, 4, 5, 6, 7] @ [10, 11, 12, 13, 14, 15, 16, 17] @ [20, 21, 22, 23]))"
  by code_simp

lemma capture_outputs: "missing_outputs capture_steps = Inr []"
  by code_simp

lemma capture_commands: "foldE (\<lambda>u c. check_capture_command c) () capture_steps = Inr ()"
  by code_simp

lemma capture_phases: "check_phases capture_steps = Inr ()"
  by code_simp

lemma screenshots_ok: "check_screenshots screenshot_steps = Inr ()"
  by code_simp

text \<open>
  The fixed capture and screenshot plan satisfies the contract it is checked against:
  twenty orders, sorted and unique, every final evidence file has a step, every step has a
  command that stays out of the publication tree, no live capture follows destroy and no
  post-destroy capture precedes it, and the screenshots are in the required order.
\<close>

theorem protocol_valid:
  "\<exists>report. validate_protocol = Inr report \<and> jget report ''capture_count'' = JInt 19 \<and>
     jget report ''final_file_count'' = JInt 18"
proof -
  have "check_capture_order capture_steps = Inr ()"
    unfolding check_capture_order_def capture_orders by simp
  moreover have "length capture_steps = 19" "length final_text = 18"
    by (simp_all add: capture_steps_def capture_table_def final_text_def provisional_text_def)
  ultimately show ?thesis
    unfolding validate_protocol_def check_protocol_def
    by (simp add: capture_outputs capture_commands capture_phases screenshots_ok)
qed

section \<open>A session starts once\<close>

lemma session_checks_ok:
  assumes "session_checks w run_id started_at operator0 region = Inr (raw, commit, receipt)"
  obtains published pre started destroy hard where
    "evidence_paths w run_id = Inr (raw, published)" "validate_preflight w raw run_id = Inr pre"
    "commit = jget pre ''commit''" "parse_utc (JStr started_at) ''BILLABLE_STARTED_AT'' = Inr started"
    "region = ''us-east-1''" "\<not> present w (raw @ [''secret-scan.json''])"
    "add_minutes started 150 = Inr destroy" "add_minutes started 180 = Inr hard"
    "receipt = session_receipt run_id commit region (strip operator0) started_at destroy hard"
  using assms unfolding session_checks_def Let_def
  by (auto simp: bindE_eq_Inr split: prod.splits intro: that)

lemma evidence_paths_ok:
  assumes "evidence_paths w run_id = Inr (raw, published)"
  shows "raw = run_dir w run_id" "evidence_validate_run_id run_id = Inr ()"
  using assms by (auto simp: evidence_paths_def Let_def bindE_eq_Inr)

lemma start_session_ok:
  assumes "leaves (start_session run_id started_at operator0 region) w p w'"
  obtains raw commit receipt h w1 where
    "session_checks w run_id started_at operator0 region = Inr (raw, commit, receipt)"
    "p = raw @ [''00-session.json'']"
    "w1 = w\<lparr>files := (files w)(raw @ [''00-session.json''] \<mapsto> regular 384 (json_dump receipt))\<rparr>"
    "hash_path w1 (raw @ [''00-session.json'']) = Inr h"
    "w' = w1\<lparr>files := (files w1)(raw @ [''secret-scan.json''] \<mapsto> regular 384 (json_dump (empty_scan run_id commit h)))\<rparr>"
proof -
  from assms obtain c where c: "session_checks w run_id started_at operator0 region = Inr c"
    and rest: "leaves (case c of (raw, commit, receipt) \<Rightarrow>
       let path = raw @ [''00-session.json'']; scan = raw @ [''secret-scan.json''] in
       bindA (write_json_exclusive path receipt 384) (\<lambda>_.
       bindA (reads (\<lambda>w. hash_path w path)) (\<lambda>h.
       bindA (write_json_exclusive scan (empty_scan run_id commit h) 384) (\<lambda>_.
         reads (\<lambda>w. Inr path))))) w p w'"
    unfolding start_session_def act_simps by blast
  obtain raw commit receipt where c': "c = (raw, commit, receipt)" by (cases c) auto
  show ?thesis
    using rest c unfolding c' Let_def act_simps prod.case by (auto intro: that)
qed

lemma start_session_spent:
  assumes "present w (run_dir w run_id @ [''secret-scan.json''])"
  shows "\<exists>e. start_session run_id started_at operator0 region w = (Inl e, w)"
proof -
  have "\<not> (\<exists>c. session_checks w run_id started_at operator0 region = Inr c)"
  proof
    assume "\<exists>c. session_checks w run_id started_at operator0 region = Inr c"
    then obtain raw commit receipt where "session_checks w run_id started_at operator0 region = Inr (raw, commit, receipt)"
      by auto
    then show False
      by (rule session_checks_ok) (use assms evidence_paths_ok(1) in auto)
  qed
  then obtain e where "session_checks w run_id started_at operator0 region = Inl e"
    by (cases "session_checks w run_id started_at operator0 region") auto
  then show ?thesis by (simp add: start_session_def bindA_def reads_def)
qed

lemma started_files:
  assumes "leaves (start_session run_id started_at operator0 region) w p w'"
  shows "root_dir w' = root_dir w" "\<exists>b. files w' (run_dir w run_id @ [''secret-scan.json'']) = Some (regular 384 b)"
proof -
  obtain raw commit receipt h w1 where
    checks: "session_checks w run_id started_at operator0 region = Inr (raw, commit, receipt)" and
    w': "w1 = w\<lparr>files := (files w)(raw @ [''00-session.json''] \<mapsto> regular 384 (json_dump receipt))\<rparr>"
    "w' = w1\<lparr>files := (files w1)(raw @ [''secret-scan.json''] \<mapsto> regular 384 (json_dump (empty_scan run_id commit h)))\<rparr>"
    by (rule start_session_ok [OF assms]) (rule that)
  have "raw = run_dir w run_id" by (rule session_checks_ok [OF checks]) (rule evidence_paths_ok(1))
  with w' show "root_dir w' = root_dir w" "\<exists>b. files w' (run_dir w run_id @ [''secret-scan.json'']) = Some (regular 384 b)"
    by auto
qed

text \<open>
  C6. A run id is spent by its session: after \<open>start_session\<close> succeeded, every further
  attempt in any later state of the files that still has the secret-scan receipt raises and
  writes nothing, whatever start time, operator and region it is given.
\<close>

theorem session_starts_once:
  assumes "leaves (start_session run_id started_at operator0 region) w p w'"
    and "root_dir later = root_dir w'"
    and "files later (run_dir w' run_id @ [''secret-scan.json'']) = files w' (run_dir w' run_id @ [''secret-scan.json''])"
  shows "\<exists>e. start_session run_id started_at' operator' region' later = (Inl e, later)"
proof (rule start_session_spent)
  note started_files [OF assms(1)]
  then show "present later (run_dir later run_id @ [''secret-scan.json''])"
    using assms(2,3) by (auto simp: present_def run_dir_def)
qed

section \<open>The permit of an hourly apply\<close>

lemma parse_utc_ok: "parse_utc v fld = Inr t \<longleftrightarrow> is_str v \<and> utc_shape (str_of v) \<and> parse_stamp (str_of v) = Some t"
  by (auto simp: parse_utc_def split: option.splits)

lemma add_minutes_ok:
  assumes "valid_time t" and "add_minutes t n = Inr u"
  shows "valid_time u" "instant u = instant t + minutes (int n)"
  using assms by (auto simp: add_minutes_def Let_def plus_minutes_instant plus_minutes_valid not_less split: if_splits)

lemma parse_utc_iso: "valid_time t \<Longrightarrow> parse_utc (JStr (iso_text t)) fld = Inr t"
  by (simp add: parse_utc_ok iso_text_parses)

lemma controller_ok:
  assumes "validate_live_controller w run_id commit pid now running phase = Inr permit"
  obtains session started destroy state updated where
    "check_session_receipt session run_id commit = Inr (started, destroy)"
    "controller_authorizes state run_id commit pid phase"
    "check_session_time started destroy now phase = Inr ()" "check_heartbeat state now = Inr ()" "running pid"
    "jget permit ''destroy_deadline'' = jget session ''destroy_deadline''"
    "jget permit ''billable_started_at'' = jget session ''billable_started_at''"
  using assms unfolding validate_live_controller_def
  by (auto simp: bindE_eq_Inr split: prod.splits intro: that)

text \<open>
  C5. A permit implies the limits of the paid window: the apply runs at most thirty seconds
  before and less than 150 minutes after the recorded start, an apply that is about to start
  has at least 135 minutes left before the destroy deadline, the deadline the permit carries is the start plus 150 minutes, the heartbeat
  is at most five seconds old, and the controller process runs.
\<close>

theorem controller_permit_sound:
  assumes "validate_live_controller w run_id commit pid now running phase = Inr permit"
  shows "\<exists>started destroy. parse_utc (jget permit ''billable_started_at'') ''billable start'' = Inr started \<and>
    parse_utc (jget permit ''destroy_deadline'') ''destroy deadline'' = Inr destroy \<and>
    instant destroy = instant started + minutes 150 \<and>
    instant started \<le> now + in_seconds 30 \<and> now < instant destroy \<and>
    (phase = ''applying'' \<longrightarrow> minutes 135 \<le> instant destroy - now) \<and> running pid"
proof -
  obtain session started destroy state where
    receipt: "check_session_receipt session run_id commit = Inr (started, destroy)" and
    time: "check_session_time started destroy now phase = Inr ()" and run: "running pid" and
    permit: "jget permit ''destroy_deadline'' = jget session ''destroy_deadline''"
      "jget permit ''billable_started_at'' = jget session ''billable_started_at''"
    by (rule controller_ok [OF assms]) (rule that)
  from receipt have "parse_utc (jget session ''billable_started_at'') ''billable start'' = Inr started"
    "parse_utc (jget session ''destroy_deadline'') ''destroy deadline'' = Inr destroy"
    "instant destroy = instant started + minutes 150"
    by (auto simp: check_session_receipt_def bindE_eq_Inr)
  moreover from time have "instant started \<le> now + in_seconds 30" "now < instant destroy"
    "phase = ''applying'' \<longrightarrow> now - instant started \<le> apply_start_max_age"
    by (auto simp: check_session_time_def bindE_eq_Inr not_less)
  moreover from this calculation have "phase = ''applying'' \<longrightarrow> minutes 135 \<le> instant destroy - now"
    by (auto simp: apply_start_max_age_def minutes_def)
  ultimately show ?thesis using run permit by auto
qed

section \<open>A fresh session authorizes its apply\<close>

text \<open>
  What the code relies on when it reads back a receipt it wrote: the text decodes and parses
  to the value that was dumped, and the dump repeats no key.
\<close>

definition reads_back :: "env \<Rightarrow> json \<Rightarrow> bool" where
  "reads_back w v \<longleftrightarrow> decode w (json_dump v) = Some (json_dump v) \<and> loads w (json_dump v) = Some v \<and>
     \<not> repeats w (json_dump v)"

lemma read_written:
  assumes "files w p = Some (regular mode (json_dump v))" and "reads_back w v" and "is_dict v"
  shows "read_json_object w p d = Inr v"
  using assms by (simp add: read_json_object_def read_bytes_def decode_text_def reads_back_def)

lemma session_receipt_accepted:
  assumes "parse_utc (JStr started_at) f = Inr started" and "add_minutes started 150 = Inr destroy"
    and "add_minutes started 180 = Inr hard"
  shows "check_session_receipt (session_receipt run_id (JStr commit) ''us-east-1'' operator started_at destroy hard)
    run_id commit = Inr (started, destroy)"
proof -
  from assms(1) have "valid_time started" by (auto simp: parse_utc_ok dest: parse_stamp_valid)
  note d = add_minutes_ok [OF this assms(2)] and h = add_minutes_ok [OF this assms(3)]
  have "parse_utc (JStr started_at) ''billable start'' = Inr started" using assms(1) by (simp add: parse_utc_ok)
  with d h show ?thesis
    by (simp add: check_session_receipt_def session_receipt_def parse_utc_iso)
qed

lemma fresh_session_permit:
  assumes "leaves (start_session run_id started_at operator0 region) w p w'"
    and "session_checks w run_id started_at operator0 region = Inr (raw, JStr commit, receipt)"
    and "parse_utc (JStr started_at) ''BILLABLE_STARTED_AT'' = Inr started"
    and "reads_back w' receipt" and "evidence_commit_shape (JStr commit)"
    and "evidence_paths w' run_id = evidence_paths w run_id"
    and "read_json_object w' (raw @ [''controller-state.json'']) ''controller state'' = Inr state"
    and "controller_authorizes state run_id commit pid ''applying''" and "check_heartbeat state now = Inr ()"
    and "running pid" and "0 < pid"
    and "instant started \<le> now + in_seconds 30" and "now \<le> instant started + minutes 15"
  shows "\<exists>permit. validate_live_controller w' run_id commit pid now running ''applying'' = Inr permit \<and>
    jget permit ''destroy_deadline'' = jget receipt ''destroy_deadline''"
proof -
  obtain published pre t destroy hard where
    paths: "evidence_paths w run_id = Inr (raw, published)" and
    t: "parse_utc (JStr started_at) ''BILLABLE_STARTED_AT'' = Inr t" and region: "region = ''us-east-1''" and
    sums: "add_minutes t 150 = Inr destroy" "add_minutes t 180 = Inr hard" and
    receipt: "receipt = session_receipt run_id (JStr commit) region (strip operator0) started_at destroy hard"
    by (rule session_checks_ok [OF assms(2)]) (rule that)
  have t': "t = started" using t assms(3) by simp
  obtain h w1 where
    w1: "w1 = w\<lparr>files := (files w)(raw @ [''00-session.json''] \<mapsto> regular 384 (json_dump receipt))\<rparr>" and
    w': "w' = w1\<lparr>files := (files w1)(raw @ [''secret-scan.json''] \<mapsto> regular 384 (json_dump (empty_scan run_id (JStr commit) h)))\<rparr>"
    by (rule start_session_ok [OF assms(1)]) (use assms(2) in \<open>auto intro: that\<close>)
  have "files w' (raw @ [''00-session.json'']) = Some (regular 384 (json_dump receipt))" by (simp add: w' w1)
  then have session: "read_json_object w' (raw @ [''00-session.json'']) ''session receipt'' = Inr receipt"
    by (rule read_written [OF _ assms(4)]) (simp add: receipt session_receipt_def)
  have accepted: "check_session_receipt receipt run_id commit = Inr (started, destroy)"
    using session_receipt_accepted [OF t sums] by (simp add: receipt region t')
  have "valid_time started" using t by (auto simp: t' parse_utc_ok dest: parse_stamp_valid)
  from add_minutes_ok(2) [OF this sums(1) [unfolded t']] assms(12,13)
  have "check_session_time started destroy now ''applying'' = Inr ()"
    by (auto simp: check_session_time_def bindE_eq_Inr apply_start_max_age_def minutes_def in_seconds_def)
  with session accepted assms(5-11) paths evidence_paths_ok(2) [OF paths] show ?thesis
    by (simp add: validate_live_controller_def)
qed


section \<open>A concrete session\<close>

lemma json_dump_obj: "\<exists>r. json_dump (JObj ps) = CHR ''{'' # r"
  by (simp add: json_dump_def json_block_def Let_def split: list.splits)

definition run_e :: string where "run_e = ''20260101T000000Z''"
definition commit_e :: string where "commit_e = ''0123456789abcdef0123456789abcdef01234567''"
definition start_e :: string where "start_e = ''2026-01-01T00:00:00Z''"

definition at_e :: "nat \<Rightarrow> nat \<Rightarrow> datetime" where
  "at_e h m = \<lparr>yr = 2026, mo = 1, dy = 1, hh = h, mi = m, ss = 0\<rparr>"

definition preflight_e :: json where
  "preflight_e = JObj [(''schema_version'', JInt 1), (''run_id'', JStr run_e), (''result'', JStr ''passed''),
     (''commit'', JStr commit_e)]"

definition controller_e :: json where
  "controller_e = JObj [(''schema_version'', JInt 1), (''run_id'', JStr run_e), (''commit'', JStr commit_e),
     (''region'', JStr ''us-east-1''), (''controller_pid'', JInt 42), (''phase'', JStr ''applying''),
     (''updated_at'', JStr start_e)]"

definition receipt_e :: json where
  "receipt_e = session_receipt run_e (JStr commit_e) ''us-east-1'' ''operator'' start_e (at_e 2 30) (at_e 3 0)"

definition env_e :: env where
  "env_e = \<lparr>root_dir = [],
     files = (\<lambda>p. if p = [''.evidence'', ''m4'', run_e, ''00-preflight.json''] then Some (regular 384 ''preflight'')
        else if p = [''.evidence'', ''m4'', run_e, ''capture-plan.json''] then Some (regular 384 ''plan'')
        else if p = [''.evidence'', ''m4'', run_e, ''controller-state.json''] then Some (regular 384 ''controller'')
        else None),
     outside = (\<lambda>_ _. False),
     loads = (\<lambda>t. if t = ''preflight'' then Some preflight_e else if t = ''controller'' then Some controller_e
        else if t = json_dump receipt_e then Some receipt_e else None),
     repeats = (\<lambda>_. False), decode = Some, sha256 = (\<lambda>_. ''hash''),
     answer = (\<lambda>t e. \<lparr>returncode = 0, stdout = [], stderr = []\<rparr>)\<rparr>"

lemma run_dir_e: "run_dir env_e run_e = [''.evidence'', ''m4'', run_e]"
  by (simp add: run_dir_def env_e_def)

lemma not_link_e: "\<not> is_symlink env_e p"
  by (simp add: is_symlink_def env_e_def)

lemma run_e_ok: "evidence_validate_run_id run_e = Inr ()"
proof -
  have "full_year (at_e 0 0)" "run_text (at_e 0 0) = run_e" by code_simp+
  then show ?thesis using evidence_run_id.accepts_text by metis
qed

lemma beneath_root:
  assumes "root_dir w = []" and "\<And>b p. \<not> outside w b p" and "\<And>p. \<not> is_symlink w p"
  shows "ensure_beneath w p [] = Inr ()"
proof -
  have "[] \<noteq> q" if "q \<in> set (up_to [] p)" for q
    using set_takeWhileD [OF that [unfolded up_to_def]] by auto
  then show ?thesis
    unfolding ensure_beneath_def using assms by (simp add: foldE_unit strict_prefix_def)
qed

lemma paths_e:
  assumes "root_dir w = []" and "\<And>b p. \<not> outside w b p" and "\<And>p. \<not> is_symlink w p"
  shows "evidence_paths w run_e = Inr (run_dir w run_e, published_dir w run_e)"
  using beneath_root [OF assms] by (simp add: evidence_paths_def run_e_ok assms(1))

lemma commit_e_ok: "evidence_commit_shape (JStr commit_e)"
  by code_simp

lemma preflight_e_ok: "validate_preflight env_e (run_dir env_e run_e) run_e = Inr preflight_e"
proof -
  have "ensure_beneath env_e p [] = Inr ()" for p
    by (rule beneath_root) (simp_all add: not_link_e, simp_all add: env_e_def)
  then show ?thesis
    by (simp add: validate_preflight_def run_dir_e not_link_e is_file_def read_json_object_def read_bytes_def)
       (simp add: env_e_def decode_text_def preflight_e_def commit_e_ok)
qed

lemma start_e_ok: "parse_utc (JStr start_e) f = Inr (at_e 0 0)"
proof -
  have "utc_shape start_e" "parse_stamp start_e = Some (at_e 0 0)" by code_simp+
  then show ?thesis by (simp add: parse_utc_ok)
qed

lemma add_e: "add_minutes (at_e 0 0) 150 = Inr (at_e 2 30)" "add_minutes (at_e 0 0) 180 = Inr (at_e 3 0)"
proof -
  have "valid_time (at_e 2 30)" "valid_time (at_e 3 0)" by (simp_all add: at_e_def valid_time_def days_in_month_def)
  moreover have "seconds (at_e 0 0) + 60 * 150 = seconds (at_e 2 30)" "seconds (at_e 0 0) + 60 * 180 = seconds (at_e 3 0)"
    by (simp_all add: at_e_def seconds_def)
  ultimately have "plus_minutes (at_e 0 0) 150 = at_e 2 30" "plus_minutes (at_e 0 0) 180 = at_e 3 0"
    by (simp_all only: plus_minutes_def of_seconds_seconds)
  then show "add_minutes (at_e 0 0) 150 = Inr (at_e 2 30)" "add_minutes (at_e 0 0) 180 = Inr (at_e 3 0)"
    by (simp_all add: add_minutes_def at_e_def)
qed

lemma checks_e: "session_checks env_e run_e start_e ''operator'' ''us-east-1'' =
    Inr (run_dir env_e run_e, JStr commit_e, receipt_e)"
proof -
  have "strip ''operator'' = ''operator''" "newline \<notin> set ''operator''" by code_simp+
  moreover have "\<not> present env_e (run_dir env_e run_e @ [''secret-scan.json''])"
    "\<not> present env_e (run_dir env_e run_e @ [''00-session.json''])"
    "is_file env_e (run_dir env_e run_e @ [''capture-plan.json''])"
    by (simp_all add: run_dir_e) (simp_all add: env_e_def present_def is_file_def)
  moreover have "evidence_paths env_e run_e = Inr (run_dir env_e run_e, published_dir env_e run_e)"
    by (rule paths_e) (simp_all add: not_link_e, simp_all add: env_e_def)
  ultimately show ?thesis
    by (simp add: session_checks_def preflight_e_ok start_e_ok add_e not_link_e receipt_e_def)
       (simp add: preflight_e_def)
qed

definition started_e :: env where
  "started_e = snd (start_session run_e start_e ''operator'' ''us-east-1'' env_e)"

lemma session_e: "leaves (start_session run_e start_e ''operator'' ''us-east-1'') env_e
    (run_dir env_e run_e @ [''00-session.json'']) started_e"
proof -
  have "files env_e (run_dir env_e run_e @ [''.00-session.json.tmp'']) = None"
    "files env_e (run_dir env_e run_e @ [''.secret-scan.json.tmp'']) = None"
    "files env_e (run_dir env_e run_e @ [''00-session.json'']) = None"
    "files env_e (run_dir env_e run_e @ [''secret-scan.json'']) = None"
    by (simp_all add: run_dir_e) (simp_all add: env_e_def)
  then show ?thesis
    by (simp add: started_e_def leaves_def start_session_def bindA_def reads_def checks_e write_json_exclusive_def
        hash_path_def read_bytes_def temporary_path_def Let_def)
qed

lemma started_e_simps: "root_dir started_e = []" "outside started_e = (\<lambda>_ _. False)" "loads started_e = loads env_e"
  "repeats started_e = (\<lambda>_. False)" "decode started_e = Some"
  "files started_e (run_dir env_e run_e @ [''controller-state.json'']) = Some (regular 384 ''controller'')"
  "\<not> is_symlink started_e p"
proof -
  obtain raw commit receipt h w1 where
    checks: "session_checks env_e run_e start_e ''operator'' ''us-east-1'' = Inr (raw, commit, receipt)" and
    w1: "w1 = env_e\<lparr>files := (files env_e)(raw @ [''00-session.json''] \<mapsto> regular 384 (json_dump receipt))\<rparr>" and
    e: "started_e = w1\<lparr>files := (files w1)(raw @ [''secret-scan.json''] \<mapsto> regular 384 (json_dump (empty_scan run_e commit h)))\<rparr>"
    by (rule start_session_ok [OF session_e]) (rule that)
  have raw: "raw = run_dir env_e run_e" using checks checks_e by simp
  show "root_dir started_e = []" "outside started_e = (\<lambda>_ _. False)" "loads started_e = loads env_e"
    "repeats started_e = (\<lambda>_. False)" "decode started_e = Some"
    by (simp_all add: e w1) (simp_all add: env_e_def)
  show "files started_e (run_dir env_e run_e @ [''controller-state.json'']) = Some (regular 384 ''controller'')"
    by (simp add: e w1 raw) (simp add: env_e_def run_dir_def)
  show "\<not> is_symlink started_e p"
    using not_link_e [of p] by (simp add: e w1 is_symlink_def)
qed

lemma reads_back_e: "reads_back started_e receipt_e"
proof -
  obtain r where "json_dump receipt_e = CHR ''{'' # r"
    unfolding receipt_e_def session_receipt_def using json_dump_obj by blast
  then show ?thesis by (simp add: reads_back_def started_e_simps) (simp add: env_e_def)
qed

lemma session_starts_once_witness:
  "\<exists>e. start_session run_e start_e ''other'' ''us-east-1'' started_e = (Inl e, started_e)"
  by (rule session_starts_once [OF session_e]) simp_all

lemma paths_same_e: "evidence_paths started_e run_e = evidence_paths env_e run_e"
proof -
  have "evidence_paths started_e run_e = Inr (run_dir started_e run_e, published_dir started_e run_e)"
    by (rule paths_e) (simp_all add: started_e_simps)
  moreover have "evidence_paths env_e run_e = Inr (run_dir env_e run_e, published_dir env_e run_e)"
    by (rule paths_e) (simp_all add: not_link_e, simp_all add: env_e_def)
  moreover have "root_dir env_e = root_dir started_e" by (simp add: started_e_simps) (simp add: env_e_def)
  ultimately show ?thesis by (simp add: run_dir_def published_dir_def)
qed

lemma controller_read_e:
  "read_json_object started_e (run_dir env_e run_e @ [''controller-state.json'']) ''controller state'' = Inr controller_e"
  by (simp add: read_json_object_def read_bytes_def started_e_simps decode_text_def) (simp add: env_e_def controller_e_def)

lemma controller_e_ok: "controller_authorizes controller_e run_e commit_e 42 ''applying''"
  "check_heartbeat controller_e (instant (at_e 0 0)) = Inr ()"
  by (simp_all add: controller_authorizes_def controller_e_def check_heartbeat_def start_e_ok in_seconds_def)

lemmas session_facts_e = session_e checks_e start_e_ok reads_back_e commit_e_ok paths_same_e controller_read_e
  controller_e_ok


lemma controller_permit_sound_witness:
  "\<exists>permit destroy. parse_utc (jget permit ''destroy_deadline'') ''destroy deadline'' = Inr destroy \<and>
    instant (at_e 0 0) < instant destroy"
proof -
  have "\<exists>permit. validate_live_controller started_e run_e commit_e 42 (instant (at_e 0 0)) (\<lambda>pid. pid = 42) ''applying'' = Inr permit
      \<and> jget permit ''destroy_deadline'' = jget receipt_e ''destroy_deadline''"
    by (rule fresh_session_permit [OF session_facts_e]) (simp_all add: minutes_def in_seconds_def)
  then obtain permit where
    "validate_live_controller started_e run_e commit_e 42 (instant (at_e 0 0)) (\<lambda>pid. pid = 42) ''applying'' = Inr permit"
    by blast
  from controller_permit_sound [OF this] show ?thesis by blast
qed

end
