(* ===== verification/Evidence_Receipts.thy ===== *)
theory Evidence_Receipts
  imports Evidence_Plan
begin

text \<open>
  The receipts \<open>scripts/m4-evidence.py\<close> reads before it publishes: the redactions, the
  secret-scan receipt, the visual review, the proof of a passing capture with a verified
  cleanup, the settled cost, and the summary of a failed attempt.
\<close>

section \<open>Redactions\<close>

definition secret_names :: "string list" where
  "secret_names = [''DATABASE_PASSWORD'', ''SIGNING_SECRET'', ''DATABASE_URL'']"

definition required_redactions :: "string list" where
  "required_redactions = [''ACCOUNT_ID'', ''OPERATOR'']"

definition is_upper :: "char \<Rightarrow> bool" where
  "is_upper c \<longleftrightarrow> c \<in> set ''ABCDEFGHIJKLMNOPQRSTUVWXYZ''"

definition redaction_name :: "string \<Rightarrow> bool" where
  "redaction_name s \<longleftrightarrow> 2 \<le> length s \<and> length s \<le> 64 \<and> is_upper (hd s) \<and>
     list_all (\<lambda>c. is_upper c \<or> is_digit c \<or> c = CHR ''_'') (tl s)"

definition add_redaction :: "(string \<times> string) list \<Rightarrow> string \<times> json \<Rightarrow> (string \<times> string) list res" where
  "add_redaction acc nv =
     (let (name, v) = nv in
      bindE (ensure (name \<notin> set secret_names)
        (Err EvidenceError ''plaintext credential fields are forbidden; use the bootstrap secret scan receipt'' [])) (\<lambda>_.
      bindE (ensure (redaction_name name) (Err EvidenceError ''invalid redaction name: {!r}'' [JStr name])) (\<lambda>_.
      bindE (ensure (is_str v \<and> 3 \<le> length (str_of v))
        (Err EvidenceError ''redaction value {} must contain at least 3 characters'' [JStr name])) (\<lambda>_.
      bindE (ensure (str_of v \<notin> set (map snd acc))
        (Err EvidenceError ''redaction values must be unique'' [])) (\<lambda>_.
        Inr (al_set acc name (str_of v)))))))"

definition check_redactions :: "json \<Rightarrow> (string \<times> string) list res" where
  "check_redactions payload =
     bindE (ensure (py_eq (jget payload ''schema_version'') (JInt 1) \<and> is_dict (jget payload ''values''))
       (Err EvidenceError ''redactions file needs schema_version 1 and a values object'' [])) (\<lambda>_.
     bindE (foldE add_redaction [] (obj_of (jget payload ''values''))) (\<lambda>result.
     bindE (ensure (result \<noteq> [])
       (Err EvidenceError ''redactions file contains no known sensitive values'' [])) (\<lambda>_.
     let missing = sort (filter (\<lambda>n. n \<notin> set (map fst result)) required_redactions) in
     bindE (ensure (missing = [])
       (Err EvidenceError ''redactions file is missing: {}'' (map JStr missing))) (\<lambda>_.
       Inr result))))"

definition load_redactions :: "env \<Rightarrow> path \<Rightarrow> (string \<times> string) list res" where
  "load_redactions w p = bindE (read_json_object w p ''redactions file'') check_redactions"

section \<open>The secret-scan receipt\<close>

definition secret_representations :: "string list" where
  "secret_representations =
     [''raw'', ''json-go'', ''json-ascii'', ''userinfo'', ''url-query'', ''base64'', ''base64url'']"

definition file_size :: "env \<Rightarrow> path \<Rightarrow> nat" where
  "file_size w p = (case files w p of
     Some n \<Rightarrow> (case nd_content n of Bytes b \<Rightarrow> length b | _ \<Rightarrow> 0) | None \<Rightarrow> 0)"

definition file_mode :: "env \<Rightarrow> path \<Rightarrow> nat" where
  "file_mode w p = (case files w p of Some n \<Rightarrow> nd_mode n mod 512 | None \<Rightarrow> 0)"

definition scan_keys :: "string list" where
  "scan_keys = [''schema_version'', ''run_id'', ''commit'', ''session_sha256'', ''profile'', ''state'', ''entries'']"

definition scan_states :: "string list" where
  "scan_states = [''not_started'', ''collecting'', ''complete'']"

definition sha_text :: "json \<Rightarrow> bool" where
  "sha_text v \<longleftrightarrow> is_str v \<and> length (str_of v) = 64 \<and> list_all is_hex (str_of v)"

definition scan_entry :: "(string \<times> string) list \<Rightarrow> json \<Rightarrow> (string \<times> string) list res" where
  "scan_entry seen e =
     bindE (ensure (is_dict e \<and> keys_eq e [''name'', ''representation'', ''byte_length'', ''sha256''])
       (Err EvidenceError ''invalid secret scan entry'' [])) (\<lambda>_.
     let name = jget e ''name''; representation = jget e ''representation''; len = jget e ''byte_length'';
         pair = (str_of name, str_of representation) in
     bindE (ensure (is_str name \<and> str_of name \<in> set secret_names \<and> is_str representation \<and>
         str_of representation \<in> set secret_representations \<and> is_int len \<and> 16 \<le> int_of len \<and>
         int_of len \<le> 24576 \<and> sha_text (jget e ''sha256'') \<and> pair \<notin> set seen)
       (Err EvidenceError ''invalid or duplicate secret scan entry'' [])) (\<lambda>_.
       Inr (seen @ [pair])))"

definition check_scan_binding :: "env \<Rightarrow> path \<Rightarrow> string \<Rightarrow> json \<Rightarrow> json \<Rightarrow> unit res" where
  "check_scan_binding w raw run_id scan preflight =
     (let e = Err EvidenceError ''secret scan receipt binding or state mismatch'' [] in
      bindE (ensure (keys_eq scan scan_keys \<and> jget scan ''schema_version'' = JInt 1 \<and>
          jget scan ''run_id'' = JStr run_id \<and> jget scan ''commit'' = jget preflight ''commit'') e) (\<lambda>_.
      bindE (hash_path w (raw @ [''00-session.json''])) (\<lambda>h.
      ensure (jget scan ''session_sha256'' = JStr h \<and>
          jget scan ''profile'' = JStr ''m4-secret-representations-v1'' \<and>
          is_str (jget scan ''state'') \<and> str_of (jget scan ''state'') \<in> set scan_states) e)))"

definition scan_product :: "(string \<times> string) list" where
  "scan_product = List.product secret_names secret_representations"

definition check_scan_entries :: "json \<Rightarrow> bool \<Rightarrow> unit res" where
  "check_scan_entries scan required =
     (let entries = jget scan ''entries''; state = jget scan ''state'' in
      bindE (ensure (is_list entries \<and> length (items_of entries) \<le> 21)
        (Err EvidenceError ''invalid secret scan entries'' [])) (\<lambda>_.
      bindE (foldE scan_entry [] (items_of entries)) (\<lambda>seen.
      bindE (ensure (\<not> (state = JStr ''not_started'' \<and> truthy entries))
        (Err EvidenceError ''not_started scan contains credential entries'' [])) (\<lambda>_.
      ensure (\<not> (required \<or> state = JStr ''complete'') \<or>
          (state = JStr ''complete'' \<and> set seen = set scan_product))
        (Err EvidenceError ''secret scan coverage is incomplete'' [])))))"

definition load_secret_scan :: "env \<Rightarrow> path \<Rightarrow> string \<Rightarrow> bool \<Rightarrow> json res" where
  "load_secret_scan w raw run_id required =
     (let path = raw @ [''secret-scan.json''] in
      bindE (ensure (\<not> is_symlink w path \<and> is_file w path \<and> file_mode w path = 384 \<and> file_size w path \<le> 32768)
        (Err EvidenceError ''private secret scan receipt is missing or unsafe'' [])) (\<lambda>_.
      bindE (read_json_object w path ''secret scan'') (\<lambda>scan.
      bindE (validate_preflight w raw run_id) (\<lambda>preflight.
      bindE (check_scan_binding w raw run_id scan preflight) (\<lambda>_.
      bindE (check_scan_entries scan required) (\<lambda>_.
        Inr scan))))))"

section \<open>The visual review\<close>

definition review_passed :: "json \<Rightarrow> string \<Rightarrow> bool" where
  "review_passed review run_id \<longleftrightarrow>
     (let reviewed = jget review ''files''; reviewer = jget review ''reviewer''; reviewed_at = jget review ''reviewed_at'' in
      py_eq (jget review ''schema_version'') (JInt 1) \<and> jget review ''run_id'' = JStr run_id \<and>
      jget review ''result'' = JStr ''passed'' \<and> is_str reviewed_at \<and> utc_shape (str_of reviewed_at) \<and>
      is_str reviewer \<and> strip (str_of reviewer) \<noteq> [] \<and> is_list reviewed \<and>
      list_all is_str (items_of reviewed) \<and>
      list_all (\<lambda>n. JStr n \<in> set (items_of reviewed)) required_screenshots)"

definition validate_visual_review :: "env \<Rightarrow> path \<Rightarrow> string \<Rightarrow> json res" where
  "validate_visual_review w raw run_id =
     bindE (read_json_object w (raw @ [''visual-review.json'']) ''visual review'') (\<lambda>review.
     bindE (ensure (review_passed review run_id)
       (Err EvidenceError ''visual review must pass for every required screenshot'' [])) (\<lambda>_.
     bindE (parse_utc (jget review ''reviewed_at'') ''visual review reviewed_at'') (\<lambda>_.
     let unexpected = sort (filter (\<lambda>n. n \<notin> set (required_screenshots @ optional_screenshots))
           (remdups (map str_of (items_of (jget review ''files''))))) in
     bindE (ensure (unexpected = [])
       (Err EvidenceError ''visual review contains unknown screenshot(s): {}'' (map JStr unexpected))) (\<lambda>_.
       Inr review))))"

section \<open>The proof of a passing run\<close>

definition capture_passed :: "json \<Rightarrow> json \<Rightarrow> string \<Rightarrow> bool" where
  "capture_passed capture preflight run_id \<longleftrightarrow>
     jget capture ''schema_version'' = JInt 1 \<and> jget capture ''run_id'' = JStr run_id \<and>
     jget capture ''source_commit'' = jget preflight ''commit'' \<and> jget capture ''environment'' = JStr ''aws'' \<and>
     jget capture ''worktree_clean'' = JBool True \<and> jget capture ''result'' = JStr ''passed'' \<and>
     is_dict (jget capture ''files'') \<and> keys_eq (jget capture ''files'') capture_files"

definition exit_keys :: "string list" where
  "exit_keys = [''apply_exit'', ''destroy_exit'', ''terraform_state_exit'', ''inventory_exit'', ''cost_exit'']"

definition cleanup_passed :: "json \<Rightarrow> json \<Rightarrow> string \<Rightarrow> bool" where
  "cleanup_passed state preflight run_id \<longleftrightarrow>
     jget state ''schema_version'' = JInt 1 \<and> jget state ''run_id'' = JStr run_id \<and>
     jget state ''commit'' = jget preflight ''commit'' \<and> jget state ''phase'' = JStr ''complete'' \<and>
     jget state ''result'' = JStr ''passed'' \<and> jget state ''cleanup_verified'' = JBool True \<and>
     jget state ''cleanup_overdue'' = JBool False \<and> jget state ''log_cleanup_passed'' = JBool True \<and>
     jget state ''transcript_passed'' = JBool True \<and> list_all (\<lambda>k. jget state k = JInt 0) exit_keys"

definition max_evidence_bytes :: nat where
  "max_evidence_bytes = 8 * 1024 * 1024"

definition check_capture_file :: "env \<Rightarrow> path \<Rightarrow> json \<Rightarrow> string \<Rightarrow> unit res" where
  "check_capture_file w raw capture name =
     (let path = raw @ [name]; e = Err EvidenceError ''capture export changed or is missing: {}'' [JStr name] in
      bindE (ensure (\<not> is_symlink w path \<and> is_file w path \<and> file_size w path \<le> max_evidence_bytes) e) (\<lambda>_.
      bindE (hash_path w path) (\<lambda>h.
      ensure (jget (jget capture ''files'') name = JStr h) e)))"

definition proof_receipts :: "string list" where
  "proof_receipts = [''capture-result.json'', ''controller-state.json'', ''00-session.json'']"

definition hash_files :: "env \<Rightarrow> path \<Rightarrow> string list \<Rightarrow> obj res" where
  "hash_files w raw names = mapE (\<lambda>n. bindE (hash_path w (raw @ [n])) (\<lambda>h. Inr (n, JStr h))) names"

definition check_chronology :: "json \<Rightarrow> json \<Rightarrow> int \<Rightarrow> unit res" where
  "check_chronology capture state now =
     bindE (parse_utc (jget capture ''started_at'') ''capture start'') (\<lambda>started.
     bindE (parse_utc (jget capture ''finished_at'') ''capture finish'') (\<lambda>finished.
     bindE (parse_utc (jget state ''cleanup_finished_at'') ''cleanup finish'') (\<lambda>cleanup.
     ensure (instant started \<le> instant finished \<and> instant finished \<le> instant cleanup \<and> instant cleanup \<le> now)
       (Err EvidenceError ''capture and cleanup chronology is invalid'' []))))"

definition validate_proof :: "env \<Rightarrow> path \<Rightarrow> string \<Rightarrow> int \<Rightarrow> json res" where
  "validate_proof w raw run_id now =
     bindE (validate_preflight w raw run_id) (\<lambda>preflight.
     bindE (read_json_object w (raw @ [''capture-result.json'']) ''capture result'') (\<lambda>capture.
     bindE (read_json_object w (raw @ [''controller-state.json'']) ''controller result'') (\<lambda>state.
     bindE (ensure (capture_passed capture preflight run_id)
       (Err EvidenceError ''publication requires a clean passing AWS capture for this run'' [])) (\<lambda>_.
     bindE (foldE (\<lambda>u name. check_capture_file w raw capture name) () capture_files) (\<lambda>_.
     bindE (ensure (cleanup_passed state preflight run_id)
       (Err EvidenceError ''publication requires completed controller apply and verified cleanup'' [])) (\<lambda>_.
     bindE (check_chronology capture state now) (\<lambda>_.
     bindE (hash_files w raw proof_receipts) (\<lambda>hs. Inr (JObj hs)))))))))"

section \<open>The summary of a failed attempt\<close>

definition observed_phases :: "string list" where
  "observed_phases =
     [''applying'', ''live'', ''destroying'', ''verifying'', ''complete'', ''cleanup_failed'', ''verifying_identity'']"

definition exit_status :: "json \<Rightarrow> string \<Rightarrow> string" where
  "exit_status state key =
     (let v = jget state key; reason = jget state ''cleanup_blocked_reason'' in
      if v \<noteq> JNull then (if v = JInt 0 then ''passed'' else ''failed'')
      else if (reason = JStr ''identity_unverified'' \<or>
               (reason = JStr ''process_exit_unconfirmed'' \<and> \<not> truthy (jget state ''destroy_started_at''))) \<and>
              key \<noteq> ''apply_exit''
      then ''not_run'' else ''unknown'')"

definition exit_check :: "json \<Rightarrow> string \<Rightarrow> (string \<times> json) res" where
  "exit_check state key =
     (let v = jget state key in
      bindE (ensure (v = JNull \<or> (is_int v \<and> - 1 \<le> int_of v \<and> int_of v \<le> 255))
        (Err EvidenceError ''terminal controller has an invalid exit status'' [])) (\<lambda>_.
        Inr (key, JObj [(''reported_exit'', v), (''status'', JStr (exit_status state key))])))"

definition cleanup_keys :: "string list" where
  "cleanup_keys = [''cleanup_verified'', ''cleanup_overdue'', ''log_cleanup_passed'', ''transcript_passed'']"

definition cleanup_check :: "json \<Rightarrow> string \<Rightarrow> (string \<times> json) res" where
  "cleanup_check state key =
     (let v = jget state key in
      bindE (ensure (v = JNull \<or> is_bool v)
        (Err EvidenceError ''terminal controller has incomplete cleanup status'' [])) (\<lambda>_.
        Inr (key, v)))"

definition cleanup_proved :: "json \<Rightarrow> bool" where
  "cleanup_proved state \<longleftrightarrow>
     jget state ''phase'' = JStr ''complete'' \<and> truthy (jget state ''cleanup_finished_at'') \<and>
     jget state ''cleanup_verified'' = JBool True \<and>
     py_eq (jget state ''terraform_state_exit'') (JInt 0) \<and> py_eq (jget state ''inventory_exit'') (JInt 0)"

definition summarize_failure :: "json \<Rightarrow> json \<Rightarrow> json \<Rightarrow> string \<Rightarrow> json res" where
  "summarize_failure scan preflight state run_id =
     bindE (mapE (exit_check state) exit_keys) (\<lambda>exits.
     bindE (mapE (cleanup_check state) cleanup_keys) (\<lambda>cleanup.
     let finished = jget state ''cleanup_finished_at'' in
     bindE (if truthy finished then bindE (parse_utc finished ''cleanup completion'') (\<lambda>_. Inr ()) else Inr ()) (\<lambda>_.
     let checks0 = jset (JObj (exits @ cleanup)) ''cleanup_verified'' (JBool (cleanup_proved state));
         checks = (if truthy finished then checks0 else jset checks0 ''cleanup_overdue'' JNull);
         summary = JObj
           [(''schema_version'', JInt 1), (''run_id'', JStr run_id), (''source_commit'', jget preflight ''commit''),
            (''result'', JStr ''failed''), (''demonstration_passed'', JBool False),
            (''controller_phase'', jget state ''phase''), (''cleanup_finished_at'', finished),
            (''checks'', checks), (''secret_scan_state'', jget scan ''state''),
            (''publication_scope'', JStr ''last controller observation; unknown outcomes are not teardown proof; raw diagnostics and screenshots withheld'')] in
     Inr (if jget state ''cleanup_blocked_reason'' = JStr ''process_exit_unconfirmed''
          then jset summary ''cleanup_blocked_reason'' (JStr ''process_exit_unconfirmed'') else summary))))"

definition failed_summary :: "env \<Rightarrow> path \<Rightarrow> string \<Rightarrow> json res" where
  "failed_summary w raw run_id =
     bindE (load_secret_scan w raw run_id False) (\<lambda>scan.
     bindE (validate_preflight w raw run_id) (\<lambda>preflight.
     bindE (read_json_object w (raw @ [''controller-state.json'']) ''controller result'') (\<lambda>state.
     let e = Err EvidenceError ''failed publication requires a controller observation for this run'' [] in
     bindE (ensure (py_eq (jget state ''schema_version'') (JInt 1) \<and> jget state ''run_id'' = JStr run_id \<and>
         jget state ''commit'' = jget preflight ''commit'') e) (\<lambda>_.
     bindE (py_in_set (jget state ''phase'') observed_phases) (\<lambda>known.
     bindE (ensure known e) (\<lambda>_.
       summarize_failure scan preflight state run_id))))))"

end
