(* ===== verification/Evidence_Cost.thy ===== *)
theory Evidence_Cost
  imports Evidence_Plan
begin

text \<open>
  The settled cost of \<open>scripts/m4-evidence.py\<close>: the Cost Explorer query is derived from the
  session and the verified cleanup, and the collected pages are accepted only when they cover
  exactly the days of the session with final, daily, per-service amounts.
\<close>

section \<open>Calendar dates\<close>

definition midnight :: "nat \<Rightarrow> datetime" where
  "midnight n = of_seconds (86400 * n)"

definition date_of :: "nat \<Rightarrow> nat \<Rightarrow> nat \<Rightarrow> datetime option" where
  "date_of y m d =
     (let t = \<lparr>yr = y, mo = m, dy = d, hh = 0, mi = 0, ss = 0\<rparr> in if valid_time t then Some t else None)"

text \<open>ISO week dates: week 1 holds the first Thursday; weekdays count from Monday 0.\<close>

definition weekday :: "nat \<Rightarrow> nat" where
  "weekday n = (n + 6) mod 7"

definition week1_monday :: "nat \<Rightarrow> nat" where
  "week1_monday y =
     (let first = ordinal y 1 1; wd = weekday first in first - wd + (if 3 < wd then 7 else 0))"

definition week_exists :: "nat \<Rightarrow> nat \<Rightarrow> bool" where
  "week_exists y week \<longleftrightarrow> 1 \<le> week \<and> (week < 53 \<or>
     (week = 53 \<and> (let wd = weekday (ordinal y 1 1) in wd = 3 \<or> (wd = 2 \<and> is_leap y))))"

definition date_of_week :: "nat \<Rightarrow> nat \<Rightarrow> nat \<Rightarrow> datetime option" where
  "date_of_week y week d =
     (if 1 \<le> y \<and> week_exists y week \<and> 1 \<le> d \<and> d \<le> 7
      then (let n = week1_monday y + (week - 1) * 7 + d - 1; t = midnight n
            in if 1 \<le> n \<and> valid_time t then Some t else None)
      else None)"

text \<open>
  \<open>date.fromisoformat\<close>: seven, eight or ten characters, a date or an ISO week date, with a
  dash in all places or in none; what is left over after a date without dashes is ignored.
\<close>

definition parse_week :: "nat \<Rightarrow> bool \<Rightarrow> string \<Rightarrow> datetime option" where
  "parse_week y dashed s =
     (let week = take 2 s; rest = drop 2 s; rest' = (if dashed then tl rest else rest) in
      if length week = 2 \<and> digits week
      then (if rest = [] then date_of_week y (str_nat week) 1
            else if dashed \<and> hd rest \<noteq> CHR ''-'' then None
            else if rest' \<noteq> [] \<and> is_digit (hd rest')
            then date_of_week y (str_nat week) (digit_val (hd rest')) else None)
      else None)"

definition parse_month_day :: "nat \<Rightarrow> bool \<Rightarrow> string \<Rightarrow> datetime option" where
  "parse_month_day y dashed s =
     (let m = take 2 s; rest = drop 2 s; rest' = (if dashed then tl rest else rest); d = take 2 rest' in
      if length m = 2 \<and> digits m \<and> (dashed \<longrightarrow> rest \<noteq> [] \<and> hd rest = CHR ''-'') \<and>
         length d = 2 \<and> digits d
      then date_of y (str_nat m) (str_nat d) else None)"

definition date_from_iso :: "string \<Rightarrow> datetime option" where
  "date_from_iso s =
     (let y = take 4 s; dashed = (take 1 (drop 4 s) = ''-''); rest = drop (if dashed then 5 else 4) s in
      if length s \<in> {7, 8, 10} \<and> digits y
      then (if take 1 rest = ''W'' then parse_week (str_nat y) dashed (tl rest)
            else parse_month_day (str_nat y) dashed rest)
      else None)"

definition next_day :: "datetime \<Rightarrow> datetime res" where
  "next_day t = add_minutes t (24 * 60)"

definition day_start :: "datetime \<Rightarrow> datetime" where
  "day_start t = t\<lparr>hh := 0, mi := 0, ss := 0\<rparr>"

section \<open>The query\<close>

definition cost_query :: "string \<Rightarrow> string \<Rightarrow> string \<Rightarrow> json" where
  "cost_query from_day to_day account = JObj
     [(''TimePeriod'', JObj [(''Start'', JStr from_day), (''End'', JStr to_day)]),
      (''Granularity'', JStr ''DAILY''), (''Metrics'', JArr [JStr ''UnblendedCost'']),
      (''GroupBy'', JArr [JObj [(''Type'', JStr ''DIMENSION''), (''Key'', JStr ''SERVICE'')]]),
      (''Filter'', JObj [(''Dimensions'', JObj
         [(''Key'', JStr ''LINKED_ACCOUNT''), (''Values'', JArr [JStr account])])])]"

definition session_cleaned :: "json \<Rightarrow> json \<Rightarrow> json \<Rightarrow> string \<Rightarrow> bool" where
  "session_cleaned session state preflight run_id \<longleftrightarrow>
     jget session ''run_id'' = JStr run_id \<and> jget session ''commit'' = jget preflight ''commit'' \<and>
     jget state ''run_id'' = JStr run_id \<and> jget state ''commit'' = jget preflight ''commit'' \<and>
     jget state ''phase'' = JStr ''complete'' \<and> jget state ''cleanup_verified'' = JBool True \<and>
     jget state ''terraform_state_exit'' = JInt 0 \<and> jget state ''inventory_exit'' = JInt 0"

definition cost_account :: "env \<Rightarrow> path \<Rightarrow> string res" where
  "cost_account w raw =
     bindE (read_json_object w (raw @ [''01-identity.txt'']) ''identity'') (\<lambda>identity.
     bindE (py_get (jget_or identity ''aws'' (JObj [])) ''account_id'' JNull) (\<lambda>account.
     bindE (ensure (is_str account \<and> length (str_of account) = 12 \<and> digits (str_of account))
       (Err EvidenceError ''cost account binding missing'' [])) (\<lambda>_.
       Inr (str_of account))))"

record cost_frame =
  cf_query :: json
  cf_first :: datetime
  cf_last :: datetime  \<comment> \<open>the first day after the interval\<close>
  cf_finish :: datetime
  cf_preflight :: json

definition cost_context :: "env \<Rightarrow> path \<Rightarrow> string \<Rightarrow> cost_frame res" where
  "cost_context w raw run_id =
     bindE (validate_preflight w raw run_id) (\<lambda>preflight.
     bindE (read_json_object w (raw @ [''00-session.json'']) ''session'') (\<lambda>session.
     bindE (read_json_object w (raw @ [''controller-state.json'']) ''controller'') (\<lambda>state.
     bindE (ensure (session_cleaned session state preflight run_id)
       (Err EvidenceError ''final cost requires a matching session and completed cleanup'' [])) (\<lambda>_.
     bindE (parse_utc (jget session ''billable_started_at'') ''billable start'') (\<lambda>start.
     bindE (parse_utc (jget state ''cleanup_finished_at'') ''cleanup finish'') (\<lambda>finish.
     bindE (ensure (\<not> instant finish < instant start \<and> \<not> minutes (366 * 24 * 60) < instant finish - instant start)
       (Err EvidenceError ''invalid billable interval'' [])) (\<lambda>_.
     bindE (cost_account w raw) (\<lambda>account.
     bindE (next_day (day_start finish)) (\<lambda>over.
       Inr \<lparr>cf_query = cost_query (iso_date start) (iso_date over) account, cf_first = day_start start,
            cf_last = over, cf_finish = finish, cf_preflight = preflight\<rparr>)))))))))"

section \<open>The collected pages\<close>

definition cost_keys :: "string list" where
  "cost_keys =
     [''schema_version'', ''run_id'', ''source_commit'', ''session_sha256'', ''controller_sha256'',
      ''collected_at'', ''attribution'', ''tag_filter_used'', ''query'', ''pages'']"

definition cost_bound :: "env \<Rightarrow> path \<Rightarrow> string \<Rightarrow> json \<Rightarrow> cost_frame \<Rightarrow> unit res" where
  "cost_bound w raw run_id v frame =
     (let e = Err EvidenceError ''final cost receipt does not match the session query and attribution'' [] in
      bindE (ensure (is_dict v \<and> keys_eq v cost_keys \<and> jget v ''schema_version'' = JInt 1 \<and>
          jget v ''run_id'' = JStr run_id \<and> jget v ''source_commit'' = jget (cf_preflight frame) ''commit'' \<and>
          py_eq (jget v ''query'') (cf_query frame) \<and> jget v ''tag_filter_used'' = JBool False \<and>
          jget v ''attribution'' = JStr ''account-wide daily service totals; not exact M4 attribution'') e) (\<lambda>_.
      bindE (hash_path w (raw @ [''00-session.json''])) (\<lambda>h.
      bindE (ensure (jget v ''session_sha256'' = JStr h) e) (\<lambda>_.
      bindE (hash_path w (raw @ [''controller-state.json''])) (\<lambda>h.
      ensure (jget v ''controller_sha256'' = JStr h) e)))))"

text \<open>The days seen so far, each with the services seen for it.\<close>

type_synonym cost_days = "(string \<times> string list) list"

definition cost_group :: "string list \<Rightarrow> json \<Rightarrow> string list res" where
  "cost_group seen g =
     bindE (ensure (is_dict g \<and> is_dict (jget g ''Metrics''))
       (Err EvidenceError ''invalid cost service group'' [])) (\<lambda>_.
     let keys = jget_or g ''Keys'' (JArr []);
         metric = jget_or (jget g ''Metrics'') ''UnblendedCost'' (JObj []);
         key = hd (items_of keys) in
     bindE (ensure (is_list keys \<and> length (items_of keys) = 1 \<and> is_dict metric \<and> is_str key \<and>
         str_of key \<noteq> [] \<and> str_of key \<notin> set seen \<and> jget metric ''Unit'' = JStr ''USD'' \<and>
         is_str (jget metric ''Amount''))
       (Err EvidenceError ''invalid or duplicate cost service group'' [])) (\<lambda>_.
     case dec_parse (str_of (jget metric ''Amount'')) of
       Some (Fin d) \<Rightarrow> Inr (seen @ [str_of key])
     | _ \<Rightarrow> raise EvidenceError ''invalid cost amount'' []))"

definition cost_day :: "json \<Rightarrow> string \<Rightarrow> datetime res" where
  "cost_day period key =
     (let e = Err EvidenceError ''invalid cost day'' [] in
      bindE (reraise [KeyError, TypeError] e (py_index period key)) (\<lambda>v.
      case (if is_str v then date_from_iso (str_of v) else None) of None \<Rightarrow> Inl e | Some t \<Rightarrow> Inr t))"

definition cost_result :: "cost_days \<Rightarrow> json \<Rightarrow> cost_days res" where
  "cost_result days result =
     bindE (ensure (is_dict result \<and> jget result ''Estimated'' = JBool False)
       (Err EvidenceError ''final cost contains estimated or invalid days'' [])) (\<lambda>_.
     let period = jget_or result ''TimePeriod'' (JObj []) in
     bindE (cost_day period ''Start'') (\<lambda>day.
     bindE (cost_day period ''End'') (\<lambda>end_day.
     bindE (next_day day) (\<lambda>after.
     bindE (ensure (end_day = after) (Err EvidenceError ''cost result is not daily'' [])) (\<lambda>_.
     let key = iso_date day; services = (case map_of days key of None \<Rightarrow> [] | Some names \<Rightarrow> names) in
     bindE (ensure (is_list (jget result ''Groups''))
       (Err EvidenceError ''cost service groups missing'' [])) (\<lambda>_.
     bindE (foldE cost_group services (items_of (jget result ''Groups''))) (\<lambda>services'.
       Inr (al_set days key services'))))))))"

text \<open>A page that is not the last one names the next page by a new token; the last one names none.\<close>

definition cost_token :: "bool \<Rightarrow> string list \<Rightarrow> json \<Rightarrow> string list res" where
  "cost_token is_last tokens token =
     (if \<not> is_last
      then (if \<not> is_str token \<or> str_of token = [] \<or> str_of token \<in> set tokens
            then raise EvidenceError ''final cost pagination is incomplete or repeated'' []
            else Inr (str_of token # tokens))
      else if truthy token then raise EvidenceError ''final cost pagination is incomplete'' []
      else Inr tokens)"

definition cost_page :: "json \<Rightarrow> cost_days \<times> string list \<Rightarrow> bool \<times> json \<Rightarrow> (cost_days \<times> string list) res" where
  "cost_page query acc lp =
     (let (is_last, page) = lp; (days, tokens) = acc in
      bindE (ensure (is_dict page \<and> py_eq (jget page ''GroupDefinitions'') (jget query ''GroupBy''))
        (Err EvidenceError ''final cost grouping is invalid'' [])) (\<lambda>_.
      bindE (cost_token is_last tokens (jget page ''NextPageToken'')) (\<lambda>tokens'.
      let results = jget page ''ResultsByTime'' in
      bindE (ensure (is_list results \<and> truthy results)
        (Err EvidenceError ''final cost has no daily results'' [])) (\<lambda>_.
      bindE (foldE cost_result days (items_of results)) (\<lambda>days'.
        Inr (days', tokens'))))))"

text \<open>All pages but the last are marked \<open>False\<close>.\<close>

definition mark_last :: "'a list \<Rightarrow> (bool \<times> 'a) list" where
  "mark_last xs = map (\<lambda>x. (False, x)) (butlast xs) @ (if xs = [] then [] else [(True, last xs)])"

definition day_count :: "datetime \<Rightarrow> datetime \<Rightarrow> nat" where
  "day_count start over = ordinal (yr over) (mo over) (dy over) - ordinal (yr start) (mo start) (dy start)"

definition expected_days :: "datetime \<Rightarrow> datetime \<Rightarrow> string list" where
  "expected_days start over = map (\<lambda>i. iso_date (plus_minutes start (i * 1440))) [0..<day_count start over]"

definition check_pages :: "json \<Rightarrow> cost_frame \<Rightarrow> cost_days res" where
  "check_pages pages frame =
     bindE (ensure (is_list pages \<and> 1 \<le> length (items_of pages) \<and> length (items_of pages) \<le> 100)
       (Err EvidenceError ''final cost pages missing or excessive'' [])) (\<lambda>_.
     bindE (foldE (cost_page (cf_query frame)) ([], []) (mark_last (items_of pages))) (\<lambda>acc.
     bindE (ensure (set (map fst (fst acc)) = set (expected_days (cf_first frame) (cf_last frame)))
       (Err EvidenceError ''final cost days do not cover the session interval'' [])) (\<lambda>_.
       Inr (fst acc))))"

text \<open>The value is the receipt on disk when none is given.\<close>

definition validate_final_cost :: "env \<Rightarrow> path \<Rightarrow> string \<Rightarrow> json option \<Rightarrow> int \<Rightarrow> json res" where
  "validate_final_cost w raw run_id given now =
     bindE (case given of Some v \<Rightarrow> Inr v
            | None \<Rightarrow> read_json_object w (raw @ [''23-cost-final.txt'']) ''final cost JSON'') (\<lambda>v.
     bindE (cost_context w raw run_id) (\<lambda>frame.
     bindE (cost_bound w raw run_id v frame) (\<lambda>_.
     bindE (parse_utc (jget v ''collected_at'') ''cost collection'') (\<lambda>collected.
     bindE (add_minutes (cf_finish frame) (48 * 60)) (\<lambda>settled.
     bindE (ensure (instant settled \<le> instant collected \<and> instant collected \<le> now)
       (Err EvidenceError ''final cost must be collected at least 48 hours after cleanup and not in the future'' [])) (\<lambda>_.
     bindE (check_pages (jget v ''pages'') frame) (\<lambda>_.
       Inr v)))))))"

end
