(* ===== verification/Evidence_Receipts_Correct.thy ===== *)
theory Evidence_Receipts_Correct
  imports Evidence_Receipts Evidence_Cost
begin

text \<open>
  Correctness of the receipts: a complete secret scan has exactly one entry for every
  credential and representation, accepted cost pages cover each day of the session once and
  count no service of a day twice, and the summary of a failed attempt claims nothing the
  controller did not record.
\<close>

section \<open>The secret scan\<close>

lemma scan_entry_ok:
  assumes "scan_entry seen e = Inr seen'"
  shows "seen' = seen @ [(str_of (jget e ''name''), str_of (jget e ''representation''))]"
    "(str_of (jget e ''name''), str_of (jget e ''representation'')) \<notin> set seen"
  using assms by (auto simp: scan_entry_def Let_def bindE_eq_Inr)

definition entry_pair :: "json \<Rightarrow> string \<times> string" where
  "entry_pair e = (str_of (jget e ''name''), str_of (jget e ''representation''))"

lemma scan_entries_seen:
  assumes "foldE scan_entry [] entries = Inr seen"
  shows "seen = map entry_pair entries" "distinct seen"
proof -
  have "seen = [] @ concat (map (\<lambda>e. [entry_pair e]) entries)"
    by (rule foldE_collect [OF assms, where c = "\<lambda>s. s"]) (simp add: scan_entry_ok(1) entry_pair_def)
  also have "\<dots> = map entry_pair entries" by (induction entries) simp_all
  finally show "seen = map entry_pair entries" .
  show "distinct seen"
  proof (rule foldE_invariant [OF assms])
    fix u e v
    assume "distinct u" and "scan_entry u e = Inr v"
    with scan_entry_ok [of u e v] show "distinct v" by simp
  qed simp
qed

text \<open>
  A complete scan covers every credential: when the entries of a scan are accepted as
  complete, there are exactly 21 of them, and each of the three credentials has exactly one
  entry in each of the seven representations.
\<close>

theorem complete_scan_covers:
  assumes "check_scan_entries scan True = Inr ()"
  shows "length (items_of (jget scan ''entries'')) = 21 \<and>
    distinct (map entry_pair (items_of (jget scan ''entries''))) \<and>
    set (map entry_pair (items_of (jget scan ''entries''))) = set (List.product secret_names secret_representations)"
proof -
  let ?entries = "items_of (jget scan ''entries'')"
  from assms obtain seen where seen: "foldE scan_entry [] ?entries = Inr seen" "set seen = set scan_product"
    by (auto simp: check_scan_entries_def Let_def bindE_eq_Inr)
  note s = scan_entries_seen [OF seen(1)]
  have "distinct scan_product" "length scan_product = 21" by code_simp+
  then have "card (set scan_product) = 21" by (simp add: distinct_card)
  with s(2) seen(2) have "length seen = 21" by (metis distinct_card)
  with s seen(2) show ?thesis by (simp add: scan_product_def)
qed

section \<open>The cost pages\<close>

definition services_on :: "cost_days \<Rightarrow> string \<Rightarrow> string list" where
  "services_on days day = (case map_of days day of None \<Rightarrow> [] | Some names \<Rightarrow> names)"

text \<open>The day and service of every group of a result, of a page, of all pages.\<close>

definition group_key :: "json \<Rightarrow> string" where
  "group_key g = str_of (hd (items_of (jget_or g ''Keys'' (JArr []))))"

definition result_day :: "json \<Rightarrow> string" where
  "result_day r = (case date_from_iso (str_of (jget (jget r ''TimePeriod'') ''Start'')) of
     None \<Rightarrow> [] | Some t \<Rightarrow> iso_date t)"

definition result_charges :: "json \<Rightarrow> (string \<times> string) list" where
  "result_charges r = map (\<lambda>g. (result_day r, group_key g)) (items_of (jget r ''Groups''))"

definition page_charges :: "json \<Rightarrow> (string \<times> string) list" where
  "page_charges page = concat (map result_charges (items_of (jget page ''ResultsByTime'')))"

definition counted :: "cost_days \<Rightarrow> (string \<times> string) list \<Rightarrow> bool" where
  "counted days charges \<longleftrightarrow> distinct charges \<and> (\<forall>d s. (d, s) \<in> set charges \<longleftrightarrow> s \<in> set (services_on days d))"

lemma cost_group_ok:
  assumes "cost_group seen g = Inr seen'"
  shows "seen' = seen @ [group_key g]" "group_key g \<notin> set seen"
  using assms unfolding cost_group_def Let_def group_key_def
  by (auto simp: bindE_eq_Inr split: option.splits num.splits)

lemma cost_groups_ok:
  assumes "foldE cost_group seen groups = Inr seen'"
  shows "seen' = seen @ map group_key groups \<and> (distinct seen \<longrightarrow> distinct seen') "
  using assms
proof (induction groups arbitrary: seen)
  case Nil
  then show ?case by simp
next
  case (Cons g groups)
  from Cons.prems obtain v where v: "cost_group seen g = Inr v" "foldE cost_group v groups = Inr seen'"
    by (auto simp: bindE_eq_Inr)
  note one = cost_group_ok [OF v(1)] and more = Cons.IH [OF v(2)]
  have "seen' = seen @ map group_key (g # groups)" using one more by simp
  moreover have "distinct seen \<longrightarrow> distinct seen'" using one more by (metis distinct_append distinct_singleton
      Int_insert_right_if0 inf_bot_right list.set)
  ultimately show ?case by blast
qed

lemma cost_result_ok:
  assumes "cost_result days r = Inr days'"
  shows "\<exists>names. names = services_on days (result_day r) @ map group_key (items_of (jget r ''Groups'')) \<and>
    days' = al_set days (result_day r) names \<and>
    (distinct (services_on days (result_day r)) \<longrightarrow> distinct names)"
proof -
  let ?period = "jget_or r ''TimePeriod'' (JObj [])"
  from assms obtain day names where day: "cost_day ?period ''Start'' = Inr day"
    and names: "foldE cost_group (services_on days (iso_date day)) (items_of (jget r ''Groups'')) = Inr names"
    and days': "days' = al_set days (iso_date day) names"
    unfolding cost_result_def Let_def services_on_def by (auto simp: bindE_eq_Inr)
  have "?period = jget r ''TimePeriod'' \<or> ?period = JObj []" by (auto simp: jget_or_jget)
  with day have "result_day r = iso_date day"
    by (auto simp: cost_day_def Let_def bindE_eq_Inr reraise_eq_Inr py_index_eq_Inr result_day_def
        split: option.splits if_splits)
  note day' = this
  from cost_groups_ok [OF names] days' show ?thesis unfolding day' by blast
qed

lemma counted_result:
  assumes "counted days charges" and "cost_result days r = Inr days'" and "distinct (services_on days (result_day r))"
  shows "counted days' (charges @ result_charges r)" "distinct (services_on days' d) \<longleftrightarrow> 
    d = result_day r \<or> distinct (services_on days d)"
proof -
  let ?new = "map group_key (items_of (jget r ''Groups''))"
  from cost_result_ok [OF assms(2)] assms(3) have days': "days' = al_set days (result_day r) (services_on days (result_day r) @ ?new)"
    and dist: "distinct (services_on days (result_day r) @ ?new)" by auto
  have on: "services_on days' e = (if e = result_day r then services_on days (result_day r) @ ?new else services_on days e)" for e
    by (simp add: services_on_def days')
  show "distinct (services_on days' d) \<longleftrightarrow> d = result_day r \<or> distinct (services_on days d)"
    using dist by (auto simp: on)
  have "distinct (result_charges r)"
    using dist by (simp add: result_charges_def distinct_map inj_on_def)
  moreover have "set charges \<inter> set (result_charges r) = {}"
    using assms(1) dist by (auto simp: counted_def result_charges_def)
  moreover have "(e, s) \<in> set (result_charges r) \<longleftrightarrow> e = result_day r \<and> s \<in> set ?new" for e s
    by (auto simp: result_charges_def)
  ultimately show "counted days' (charges @ result_charges r)"
    using assms(1) by (auto simp: counted_def on)
qed

definition tallied :: "cost_days \<Rightarrow> (string \<times> string) list \<Rightarrow> bool" where
  "tallied days charges \<longleftrightarrow> counted days charges \<and> (\<forall>d. distinct (services_on days d))"

lemma tallied_results:
  assumes "foldE cost_result days rs = Inr days'" and "tallied days charges"
  shows "tallied days' (charges @ concat (map result_charges rs))"
  using assms
proof (induction rs arbitrary: days charges)
  case Nil
  then show ?case by simp
next
  case (Cons r rs)
  from Cons.prems(1) obtain v where v: "cost_result days r = Inr v" "foldE cost_result v rs = Inr days'"
    by (auto simp: bindE_eq_Inr)
  from Cons.prems(2) have d: "counted days charges" "\<And>d. distinct (services_on days d)" by (simp_all add: tallied_def)
  from counted_result [OF d(1) v(1) d(2)] d(2) have "tallied v (charges @ result_charges r)"
    by (auto simp: tallied_def)
  from Cons.IH [OF v(2) this] show ?case by simp
qed

lemma tallied_pages:
  assumes "foldE (cost_page query) acc marked = Inr acc'" and "tallied (fst acc) charges"
  shows "tallied (fst acc') (charges @ concat (map (\<lambda>lp. page_charges (snd lp)) marked))"
  using assms
proof (induction marked arbitrary: acc charges)
  case Nil
  then show ?case by simp
next
  case (Cons lp marked)
  from Cons.prems(1) obtain v where v: "cost_page query acc lp = Inr v" "foldE (cost_page query) v marked = Inr acc'"
    by (auto simp: bindE_eq_Inr)
  from v(1) have "foldE cost_result (fst acc) (items_of (jget (snd lp) ''ResultsByTime'')) = Inr (fst v)"
    by (auto simp: cost_page_def Let_def bindE_eq_Inr split: prod.splits)
  from tallied_results [OF this Cons.prems(2)] have "tallied (fst v) (charges @ page_charges (snd lp))"
    by (simp add: page_charges_def)
  from Cons.IH [OF v(2) this] show ?case by simp
qed

lemma mark_last_pages: "map snd (mark_last xs) = xs"
  by (simp add: mark_last_def comp_def)

text \<open>
  Accepted cost pages count every charge once: no service of a day appears twice, on
  whatever pages its groups are, and the days with results are exactly the days from the
  start of the session up to the day of the verified cleanup.
\<close>

theorem cost_pages_exact:
  assumes "check_pages pages frame = Inr days"
  shows "distinct (concat (map page_charges (items_of pages))) \<and>
    set (map fst days) = set (expected_days (cf_first frame) (cf_last frame)) \<and>
    (\<forall>d s. (d, s) \<in> set (concat (map page_charges (items_of pages))) \<longleftrightarrow> s \<in> set (services_on days d))"
proof -
  from assms obtain acc where acc: "foldE (cost_page (cf_query frame)) ([], []) (mark_last (items_of pages)) = Inr acc"
    and days: "days = fst acc" "set (map fst (fst acc)) = set (expected_days (cf_first frame) (cf_last frame))"
    by (auto simp: check_pages_def bindE_eq_Inr)
  have "tallied (fst ([] :: cost_days, [] :: string list)) []" by (simp add: tallied_def counted_def services_on_def)
  from tallied_pages [OF acc this] have "tallied days (concat (map (\<lambda>lp. page_charges (snd lp)) (mark_last (items_of pages))))"
    by (simp add: days)
  also have "map (\<lambda>lp. page_charges (snd lp)) (mark_last (items_of pages)) =
      map page_charges (map snd (mark_last (items_of pages)))" by simp
  also have "\<dots> = map page_charges (items_of pages)" by (simp only: mark_last_pages)
  finally show ?thesis using days by (simp add: tallied_def counted_def)
qed

text \<open>A scan with one entry for each credential and representation, in this order.\<close>

definition scan_c :: json where
  "scan_c = JObj [(''state'', JStr ''complete''), (''entries'', JArr (map (\<lambda>(n, r).
     JObj [(''name'', JStr n), (''representation'', JStr r), (''byte_length'', JInt 16),
           (''sha256'', JStr (replicate 64 (CHR ''a'')))]) scan_product))]"

lemma scan_c_ok: "check_scan_entries scan_c True = Inr ()"
  by code_simp

theorem complete_scan_covers_witness:
  "length (items_of (jget scan_c ''entries'')) = 21 \<and>
    distinct (map entry_pair (items_of (jget scan_c ''entries''))) \<and>
    set (map entry_pair (items_of (jget scan_c ''entries''))) = set (List.product secret_names secret_representations)"
  by (rule complete_scan_covers [OF scan_c_ok])

text \<open>Two pages, a day each, for a session of two days.\<close>

definition day_c :: "nat \<Rightarrow> datetime" where
  "day_c d = \<lparr>yr = 2026, mo = 7, dy = d, hh = 0, mi = 0, ss = 0\<rparr>"

definition frame_c :: cost_frame where
  "frame_c = \<lparr>cf_query = cost_query ''2026-07-27'' ''2026-07-29'' ''123456789012'', cf_first = day_c 27,
     cf_last = day_c 29, cf_finish = day_c 28, cf_preflight = JNull\<rparr>"

definition result_c :: "string \<Rightarrow> string \<Rightarrow> json" where
  "result_c from_day to_day = JObj
     [(''TimePeriod'', JObj [(''Start'', JStr from_day), (''End'', JStr to_day)]), (''Estimated'', JBool False),
      (''Groups'', JArr [JObj [(''Keys'', JArr [JStr ''EKS'']), (''Metrics'', JObj [(''UnblendedCost'',
         JObj [(''Amount'', JStr ''0.5''), (''Unit'', JStr ''USD'')])])]])]"

definition page_c :: "json \<Rightarrow> json list \<Rightarrow> json" where
  "page_c token results = JObj
     [(''GroupDefinitions'', JArr [JObj [(''Type'', JStr ''DIMENSION''), (''Key'', JStr ''SERVICE'')]]),
      (''NextPageToken'', token), (''ResultsByTime'', JArr results)]"

definition pages_c :: json where
  "pages_c = JArr [page_c (JStr ''more'') [result_c ''2026-07-27'' ''2026-07-28''],
                   page_c JNull [result_c ''2026-07-28'' ''2026-07-29'']]"

lemma plus_minutes_eq:
  assumes "valid_time u" and "seconds u = seconds t + 60 * n"
  shows "plus_minutes t n = u"
  using of_seconds_seconds [OF assms(1)] assms(2) by (simp add: plus_minutes_def)

lemmas calendar_defs = valid_time_def seconds_def ordinal_def days_before_year_def days_before_month_def
  days_in_month_def is_leap_def day_c_def

lemma day_c_valid: "valid_time (day_c 27)" "valid_time (day_c 28)" "valid_time (day_c 29)"
  by (simp_all add: calendar_defs)

lemma day_c_next: "plus_minutes (day_c 27) 1440 = day_c 28" "plus_minutes (day_c 28) 1440 = day_c 29"
  by (rule plus_minutes_eq; simp add: calendar_defs upt_rec)+

lemma day_c_text: "iso_date (day_c 27) = ''2026-07-27''" "iso_date (day_c 28) = ''2026-07-28''"
  by (simp_all add: iso_date_def day_c_def two_def zfill_def nat_str.simps digit_char_def digits10_def)

lemma day_c_parses: "date_from_iso ''2026-07-27'' = Some (day_c 27)" "date_from_iso ''2026-07-28'' = Some (day_c 28)"
  "date_from_iso ''2026-07-29'' = Some (day_c 29)"
  by (simp_all add: date_from_iso_def parse_month_day_def date_of_def Let_def digits_def is_digit_def digits10_def
      str_nat_def digit_val_def calendar_defs)

lemma cost_group_c: "cost_group [] (JObj [(''Keys'', JArr [JStr ''EKS'']), (''Metrics'', JObj [(''UnblendedCost'',
     JObj [(''Amount'', JStr ''0.5''), (''Unit'', JStr ''USD'')])])]) = Inr [''EKS'']"
  by code_simp

lemma result_c_ok:
  "cost_result [] (result_c ''2026-07-27'' ''2026-07-28'') = Inr [(''2026-07-27'', [''EKS''])]"
  "cost_result [(''2026-07-27'', [''EKS''])] (result_c ''2026-07-28'' ''2026-07-29'') =
     Inr [(''2026-07-27'', [''EKS'']), (''2026-07-28'', [''EKS''])]"
  by (simp_all add: cost_result_def result_c_def cost_day_def day_c_parses day_c_next day_c_text next_day_def
      add_minutes_def cost_group_c) (simp_all add: day_c_def)

lemma pages_c_ok:
  "check_pages pages_c frame_c = Inr [(''2026-07-27'', [''EKS'']), (''2026-07-28'', [''EKS''])]"
proof -
  have "expected_days (day_c 27) (day_c 29) = [''2026-07-27'', ''2026-07-28'']"
  proof -
    have "day_count (day_c 27) (day_c 29) = 2" by (simp add: day_count_def calendar_defs)
    moreover have "plus_minutes (day_c 27) 0 = day_c 27" by (rule plus_minutes_eq) (simp_all add: day_c_valid)
    ultimately show ?thesis
      by (simp add: expected_days_def upt_rec day_c_next day_c_text numeral_2_eq_2)
  qed
  then show ?thesis
    by (simp add: check_pages_def pages_c_def page_c_def frame_c_def mark_last_def cost_page_def cost_token_def
        cost_query_def result_c_ok)
qed

theorem cost_pages_exact_witness:
  "distinct (concat (map page_charges (items_of pages_c))) \<and>
    set (map fst [(''2026-07-27'', [''EKS'']), (''2026-07-28'', [''EKS''])]) =
      set (expected_days (cf_first frame_c) (cf_last frame_c)) \<and>
    (\<forall>d s. (d, s) \<in> set (concat (map page_charges (items_of pages_c))) \<longleftrightarrow>
       s \<in> set (services_on [(''2026-07-27'', [''EKS'']), (''2026-07-28'', [''EKS''])] d))"
  by (rule cost_pages_exact [OF pages_c_ok])

section \<open>The summary of a failed attempt\<close>

lemma exit_checks_ok:
  assumes "mapE (exit_check state) keys = Inr exits"
  shows "map fst exits = keys" "k \<in> set keys \<Longrightarrow> map_of exits k =
    Some (JObj [(''reported_exit'', jget state k), (''status'', JStr (exit_status state k))])"
proof -
  from assms have "mapE (exit_check state) keys = Inr (map (\<lambda>k. (k, JObj [(''reported_exit'', jget state k),
      (''status'', JStr (exit_status state k))])) keys)"
    by (induction keys arbitrary: exits) (auto simp: exit_check_def Let_def bindE_eq_Inr)
  with assms have e: "exits = map (\<lambda>k. (k, JObj [(''reported_exit'', jget state k),
      (''status'', JStr (exit_status state k))])) keys" by simp
  then show "map fst exits = keys" by (simp add: comp_def)
  show "k \<in> set keys \<Longrightarrow> map_of exits k =
    Some (JObj [(''reported_exit'', jget state k), (''status'', JStr (exit_status state k))])"
    unfolding e by (simp add: map_of_map_restrict)
qed

lemma exit_status_passed: "exit_status state k = ''passed'' \<longleftrightarrow> jget state k = JInt 0"
  by (auto simp: exit_status_def Let_def)


text \<open>The inventory found resources, so the cleanup is not reported as verified.\<close>

definition state_c :: json where
  "state_c = JObj [(''phase'', JStr ''complete''), (''cleanup_verified'', JBool True),
     (''terraform_state_exit'', JInt 0), (''inventory_exit'', JInt 1)]"

lemma state_c_summary: "\<exists>s. summarize_failure (JObj [(''state'', JStr ''complete'')]) JNull state_c ''run'' = Inr s"
  by (simp add: summarize_failure_def state_c_def exit_keys_def exit_check_def cleanup_keys_def cleanup_check_def Let_def)


end
