(* ===== verification/Account_Gate.thy ===== *)
theory Account_Gate
  imports Stage_Go Py_World
begin

text \<open>
  The account gate of \<open>scripts/m4-aws-account.py\<close>: the identity of the caller, the state
  bucket, the budget with its notifications, the service quotas and the regional availability
  are read with the AWS CLI and written as the receipt the GO decision relies on.
\<close>

section \<open>Constants\<close>

abbreviation acct :: "string \<Rightarrow> json list \<Rightarrow> exn" where
  "acct t args \<equiv> Err AccountError t args"

definition expected_region :: string where
  "expected_region = ''us-east-1''"

definition eks_version :: string where
  "eks_version = ''1.36''"

definition rds_engine_version :: string where
  "rds_engine_version = ''17.11''"

definition budget_name :: string where
  "budget_name = ''mlp-live-aws-monthly''"

definition budget_cost_types :: json where
  "budget_cost_types = JObj
     [(''IncludeTax'', JBool False), (''IncludeSubscription'', JBool True), (''UseBlended'', JBool False),
      (''IncludeRefund'', JBool True), (''IncludeCredit'', JBool True), (''IncludeUpfront'', JBool True),
      (''IncludeRecurring'', JBool True), (''IncludeOtherSubscription'', JBool True),
      (''IncludeSupport'', JBool True), (''IncludeDiscount'', JBool True), (''UseAmortized'', JBool False)]"

definition fixed_azs :: "string list" where
  "fixed_azs = [''us-east-1a'', ''us-east-1b'']"

definition msk_serverless_regions :: "string list" where
  "msk_serverless_regions =
     [''ap-northeast-1'', ''ap-northeast-2'', ''ap-south-1'', ''ap-southeast-1'', ''ap-southeast-2'',
      ''ca-central-1'', ''eu-central-1'', ''eu-north-1'', ''eu-west-1'', ''eu-west-2'', ''eu-west-3'',
      ''us-east-1'', ''us-east-2'', ''us-west-2'']"

text \<open>The quota codes of EC2 with the amount the plan needs.\<close>

definition spot_quota :: "string \<times> dec" where
  "spot_quota = (''L-34B43A08'', dec_of_int 6)"

definition eip_quota :: "string \<times> dec" where
  "eip_quota = (''L-0263D0A3'', dec_of_int 1)"

definition account_sources :: "(string \<times> string) list" where
  "account_sources =
     [(''eks_quotas'', ''https://docs.aws.amazon.com/eks/latest/userguide/service-quotas.html''),
      (''eks_versions'', ''https://docs.aws.amazon.com/eks/latest/userguide/kubernetes-versions.html''),
      (''ec2_spot_quotas'', ''https://docs.aws.amazon.com/AWSEC2/latest/UserGuide/using-spot-limits.html''),
      (''msk_serverless'', ''https://docs.aws.amazon.com/msk/latest/developerguide/serverless.html''),
      (''msk_quotas'', ''https://docs.aws.amazon.com/msk/latest/developerguide/limits.html''),
      (''rds_quotas'', ''https://docs.aws.amazon.com/AmazonRDS/latest/UserGuide/CHAP_Limits.html''),
      (''rds_offerings'', ''https://docs.aws.amazon.com/cli/latest/reference/rds/describe-orderable-db-instance-options.html''),
      (''regional_parameters'', ''https://docs.aws.amazon.com/systems-manager/latest/userguide/parameter-store-public-parameters-global-infrastructure.html''),
      (''ec2_offerings'', ''https://docs.aws.amazon.com/cli/latest/reference/ec2/describe-instance-type-offerings.html''),
      (''vpc_quotas'', ''https://docs.aws.amazon.com/vpc/latest/userguide/amazon-vpc-limits.html'')]"

definition account_source :: "string \<Rightarrow> json" where
  "account_source k = (case map_of account_sources k of None \<Rightarrow> JNull | Some s \<Rightarrow> JStr s)"

section \<open>Destination and preflight\<close>

definition account_validate_run_id :: "string \<Rightarrow> unit res" where
  "account_validate_run_id s =
     check_run_id AccountError ''run id'' s"

interpretation account_ids: run_id_validator account_validate_run_id
  by unfold_locales (simp add: account_validate_run_id_def check_run_id_iff)

text \<open>The path is the one \<open>output.absolute()\<close> returns.\<close>

definition validate_destination :: "env \<Rightarrow> string \<Rightarrow> path \<Rightarrow> path res" where
  "validate_destination w run_id destination =
     bindE (account_validate_run_id run_id) (\<lambda>_.
     bindE (no_linked_parent w AccountError run_id) (\<lambda>_.
     bindE (ensure (destination = run_dir w run_id @ [''01-identity.txt''])
       (acct ''output must be {} directly under .evidence/m4/{}'' [JStr ''01-identity.txt'', JStr run_id])) (\<lambda>_.
     bindE (ensure (\<not> is_symlink w destination)
       (acct ''evidence file must not be a symlink: {}'' [path_json destination])) (\<lambda>_.
       Inr destination))))"

definition account_require_preflight :: "env \<Rightarrow> string \<Rightarrow> string \<Rightarrow> unit res" where
  "account_require_preflight w run_id commit =
     bindE (ensure (commit_shape commit) (acct ''approved commit must be a full lowercase git SHA'' [])) (\<lambda>_.
     let path = run_dir w run_id @ [''00-preflight.json''] in
     bindE (load_file w (acct ''preflight receipt is missing: {}'' [path_json path])
              (acct ''preflight receipt is invalid JSON: {}'' [path_json path]) path) (\<lambda>v.
     ensure (is_dict v \<and> py_eq (jget v ''schema_version'') (JInt 1) \<and> jget v ''run_id'' = JStr run_id \<and>
         jget v ''commit'' = JStr commit \<and> jget v ''result'' = JStr ''passed'')
       (acct ''preflight receipt is not a pass for this run and commit'' [])))"

definition account_clean_commit :: "string \<Rightarrow> unit io" where
  "account_clean_commit commit =
     bindIO (runner_text AccountError [''git'', ''rev-parse'', ''HEAD'']) (\<lambda>h.
     bindIO (lift (ensure (h = commit)
       (acct ''HEAD is {}, expected approved commit {}'' [JStr h, JStr commit]))) (\<lambda>_.
     bindIO (runner_text AccountError [''git'', ''status'', ''--porcelain'', ''--untracked-files=all'']) (\<lambda>dirty.
     lift (ensure (dirty = [])
       (acct ''worktree must be clean before account capture: {}'' [JStr dirty])))))"

section \<open>Values of the command line tools\<close>

definition object_value :: "json \<Rightarrow> string \<Rightarrow> json res" where
  "object_value v description =
     (if is_dict v then Inr v else raise AccountError ''{} returned a non-object'' [JStr description])"

definition list_value :: "json \<Rightarrow> string \<Rightarrow> string \<Rightarrow> json list res" where
  "list_value v key description =
     bindE (object_value v description) (\<lambda>obj.
       if is_list (jget obj key) then Inr (items_of (jget obj key))
       else raise AccountError ''{} returned an invalid {} list'' [JStr description, JStr key])"

definition number :: "json \<Rightarrow> string \<Rightarrow> dec res" where
  "number v description =
     (if \<not> is_numeric v then raise AccountError ''{} is not numeric'' [JStr description]
      else case dec_parse (py_str v) of
        None \<Rightarrow> raise AccountError ''{} is not numeric'' [JStr description]
      | Some (Fin d) \<Rightarrow>
          if dec_lt d (dec_of_int 0)
          then raise AccountError ''{} must be a non-negative finite number'' [JStr description]
          else Inr d
      | Some _ \<Rightarrow> raise AccountError ''{} must be a non-negative finite number'' [JStr description])"

text \<open>
  The values of a set comprehension, each once: lists and dicts are not hashable, and equal
  values (\<open>1\<close>, \<open>1.0\<close>, \<open>True\<close>) are one element.
\<close>

definition hashable :: "json \<Rightarrow> bool" where
  "hashable v \<longleftrightarrow> \<not> is_list v \<and> \<not> is_dict v"

definition hash_set :: "json list \<Rightarrow> json list res" where
  "hash_set vs =
     foldE (\<lambda>acc v. if \<not> hashable v then py_raise TypeError
       else Inr (if \<exists>x \<in> set acc. py_eq x v then acc else acc @ [v])) [] vs"

text \<open>\<open>sorted\<close> of distinct values: strings, or numbers, or at most one value.\<close>

fun insert_number :: "json \<Rightarrow> json list \<Rightarrow> json list" where
  "insert_number v [] = [v]"
| "insert_number v (x # xs) =
     (case (num_of v, num_of x) of
        (Some a, Some b) \<Rightarrow> if num_lt b a then x # insert_number v xs else v # x # xs
      | _ \<Rightarrow> v # x # xs)"

definition sorted_values :: "json list \<Rightarrow> json list res" where
  "sorted_values vs =
     (if length vs \<le> 1 then Inr vs
      else if list_all is_str vs then Inr (sort_key str_of vs)
      else if list_all (\<lambda>v. num_of v \<noteq> None) vs then Inr (foldr insert_number vs [])
      else py_raise TypeError)"

definition aws_json :: "string list \<Rightarrow> json io" where
  "aws_json arguments = runner_json AccountError (''aws'' # arguments @ [''--output'', ''json''])"

definition aws_list :: "string list \<Rightarrow> string \<Rightarrow> string \<Rightarrow> json list io" where
  "aws_list arguments key description =
     bindIO (aws_json arguments) (\<lambda>v. lift (list_value v key description))"

section \<open>Identity\<close>

definition check_repository_identity :: "json \<Rightarrow> json res" where
  "check_repository_identity answered =
     bindE (object_value answered ''GitHub repository identity'') (\<lambda>v.
     bindE (ensure (jget v ''nameWithOwner'' = JStr ''lilabrooks/my-local-platform'')
       (acct ''GitHub CLI selected the wrong repository'' [])) (\<lambda>_.
     let url = jget v ''url'' in
     bindE (ensure (is_str url \<and> starts_with (str_of url) ''https://github.com/'')
       (acct ''GitHub repository identity returned an invalid URL'' [])) (\<lambda>_.
       Inr (JObj [(''name_with_owner'', jget v ''nameWithOwner''), (''url'', url)]))))"

definition repository_identity :: "json io" where
  "repository_identity =
     bindIO (runner_json AccountError [''gh'', ''repo'', ''view'', ''--json'', ''nameWithOwner,url'']) (\<lambda>v.
     lift (check_repository_identity v))"

definition aws_identity :: "string \<Rightarrow> json io" where
  "aws_identity profile =
     bindIO (aws_json [''sts'', ''get-caller-identity'']) (\<lambda>answered.
     bindIO (lift (object_value answered ''AWS caller identity'')) (\<lambda>caller.
     let account = jget caller ''Account''; arn = jget caller ''Arn'' in
     bindIO (lift (ensure (account_shape account)
       (acct ''AWS caller identity returned an invalid account id'' []))) (\<lambda>_.
     bindIO (runner_text AccountError [''aws'', ''configure'', ''get'', ''sso_account_id'', ''--profile'', profile]) (\<lambda>configured.
     bindIO (lift (ensure (account_shape (JStr configured))
       (acct ''AWS profile {} has no 12-digit sso_account_id'' [JStr profile]))) (\<lambda>_.
     bindIO (lift (ensure (account = JStr configured)
       (acct ''AWS caller account does not match the selected profile'' []))) (\<lambda>_.
     bindIO (lift (ensure (is_str arn \<and> contains_str (str_of arn) ('':'' @ str_of account @ '':''))
       (acct ''AWS caller identity returned an invalid ARN'' []))) (\<lambda>_.
     lift (Inr (JObj [(''profile'', JStr profile), (''account_id'', account), (''caller_arn'', arn),
       (''account_matches_profile'', JBool True)])))))))))"

section \<open>State bucket\<close>

text \<open>\<open>try: m except AccountError as error: raise AccountError(...) from error\<close>.\<close>

definition recast :: "err_class \<Rightarrow> exn \<Rightarrow> 'a io \<Rightarrow> 'a io" where
  "recast cls e m = (\<lambda>w t. case m w t of
     (Inl x, u) \<Rightarrow> (Inl (case x of Err c _ _ \<Rightarrow> if c = cls then e else x | _ \<Rightarrow> x), u)
   | (Inr y, u) \<Rightarrow> (Inr y, u))"

definition rule_algorithm :: "json \<Rightarrow> json res" where
  "rule_algorithm rule =
     py_get (jget_or rule ''ApplyServerSideEncryptionByDefault'' (JObj [])) ''SSEAlgorithm'' JNull"

definition bucket_algorithms :: "json \<Rightarrow> json list res" where
  "bucket_algorithms encryption =
     bindE (py_get (jget_or encryption ''ServerSideEncryptionConfiguration'' (JObj [])) ''Rules'' JNull) (\<lambda>rules.
       if is_list rules
       then bindE (mapE rule_algorithm (filter is_dict (items_of rules))) hash_set
       else Inr [])"

definition block_keys :: "string list" where
  "block_keys = [''BlockPublicAcls'', ''BlockPublicPolicy'', ''IgnorePublicAcls'', ''RestrictPublicBuckets'']"

definition check_backend :: "string \<Rightarrow> json \<Rightarrow> json \<Rightarrow> json \<Rightarrow> json res" where
  "check_backend bucket versioning encryption public_access =
     bindE (bucket_algorithms encryption) (\<lambda>algorithms.
     let blocked = jget public_access ''PublicAccessBlockConfiguration'' in
     bindE (ensure (jget versioning ''Status'' = JStr ''Enabled'')
       (acct ''state bucket versioning is not enabled'' [])) (\<lambda>_.
     bindE (ensure (JStr ''AES256'' \<in> set algorithms)
       (acct ''state bucket does not use the expected AES256 encryption'' [])) (\<lambda>_.
     bindE (ensure (is_dict blocked \<and> list_all (\<lambda>k. jget blocked k = JBool True) block_keys)
       (acct ''state bucket public access block is incomplete'' [])) (\<lambda>_.
       Inr (JObj [(''bucket'', JStr bucket), (''exists'', JBool True), (''versioning'', JStr ''Enabled''),
         (''encryption'', JStr ''AES256''), (''public_access_blocked'', JBool True)])))))"

definition bucket_object :: "string \<Rightarrow> string \<Rightarrow> string \<Rightarrow> json io" where
  "bucket_object verb bucket description =
     bindIO (runner_json AccountError [''aws'', ''s3api'', verb, ''--bucket'', bucket]) (\<lambda>v.
     lift (object_value v description))"

definition backend :: "string \<Rightarrow> json io" where
  "backend account =
     (let bucket = ''mlp-tfstate-'' @ account in
      bindIO (recast AccountError (acct ''state bucket could not be confirmed; inspect access and use the documented make aws-bootstrap path if the bucket is absent'' [])
        (runner_result AccountError [''aws'', ''s3api'', ''head-bucket'', ''--bucket'', bucket] None)) (\<lambda>_.
      bindIO (bucket_object ''get-bucket-versioning'' bucket ''state bucket versioning'') (\<lambda>versioning.
      bindIO (bucket_object ''get-bucket-encryption'' bucket ''state bucket encryption'') (\<lambda>encryption.
      bindIO (bucket_object ''get-public-access-block'' bucket ''state bucket public access block'') (\<lambda>public_access.
      lift (check_backend bucket versioning encryption public_access))))))"

section \<open>Budget\<close>

definition check_budget_limit :: "json \<Rightarrow> dec res" where
  "check_budget_limit b =
     bindE (ensure (is_dict b) (acct ''AWS budget response has no Budget object'' [])) (\<lambda>_.
     bindE (ensure (jget b ''BudgetName'' = JStr budget_name) (acct ''AWS budget response names the wrong budget'' [])) (\<lambda>_.
     bindE (ensure (jget b ''BudgetType'' = JStr ''COST'') (acct ''AWS budget must have type COST'' [])) (\<lambda>_.
     bindE (ensure (jget b ''TimeUnit'' = JStr ''MONTHLY'') (acct ''AWS budget must have a MONTHLY period'' [])) (\<lambda>_.
     let limit = jget b ''BudgetLimit'' in
     bindE (ensure (is_dict limit \<and> jget limit ''Unit'' = JStr ''USD'')
       (acct ''AWS budget does not have a USD limit'' [])) (\<lambda>_.
     bindE (number (jget limit ''Amount'') ''budget limit'') (\<lambda>limit_usd.
     bindE (ensure (dec_eq limit_usd (dec_of_int 5)) (acct ''AWS budget must have the approved $5 limit'' [])) (\<lambda>_.
     let cost_types = jget b ''CostTypes'' in
     bindE (ensure (py_eq (jget b ''CostFilters'') (JObj [(''TagKeyValue'', JArr [JStr ''user:Project$my-local-platform''])]))
       (acct ''AWS budget must filter only Project=my-local-platform'' [])) (\<lambda>_.
     bindE (ensure (is_dict cost_types \<and> jget cost_types ''IncludeTax'' = JBool False)
       (acct ''AWS project budget must explicitly exclude tax'' [])) (\<lambda>_.
     bindE (ensure (py_eq cost_types budget_cost_types)
       (acct ''AWS project budget cost types do not match Terraform'' [])) (\<lambda>_.
       Inr limit_usd))))))))))"

definition check_allocation_tags :: "json list \<Rightarrow> unit res" where
  "check_allocation_tags tags =
     ensure (length tags = 1 \<and> list_all (\<lambda>t. is_dict t \<and> jget t ''TagKey'' = JStr ''Project'' \<and>
         jget t ''Type'' = JStr ''UserDefined'' \<and> jget t ''Status'' = JStr ''Active'') tags)
       (acct ''Project cost allocation tag must be Active'' [])"

text \<open>A notification's setting; an absent threshold type is the default, a null one is not.\<close>

type_synonym setting = "json \<times> json \<times> dec \<times> json"

definition expected_notifications :: "setting list" where
  "expected_notifications =
     [(JStr ''ACTUAL'', JStr ''GREATER_THAN'', dec_of_int 80, JStr ''PERCENTAGE''),
      (JStr ''ACTUAL'', JStr ''GREATER_THAN'', dec_of_int 100, JStr ''PERCENTAGE''),
      (JStr ''FORECASTED'', JStr ''GREATER_THAN'', dec_of_int 100, JStr ''PERCENTAGE'')]"

definition setting_eq :: "setting \<Rightarrow> setting \<Rightarrow> bool" where
  "setting_eq s t \<longleftrightarrow>
     (let (a, b, c, d) = s; (a', b', c', d') = t in py_eq a a' \<and> py_eq b b' \<and> dec_eq c c' \<and> py_eq d d')"

definition same_settings :: "setting list \<Rightarrow> setting list \<Rightarrow> bool" where
  "same_settings xs ys \<longleftrightarrow>
     list_all (\<lambda>x. list_ex (setting_eq x) ys) xs \<and> list_all (\<lambda>y. list_ex (\<lambda>x. setting_eq x y) xs) ys"

definition notification_identity :: "json \<Rightarrow> obj" where
  "notification_identity n =
     [(''NotificationType'', jget n ''NotificationType''), (''ComparisonOperator'', jget n ''ComparisonOperator''),
      (''Threshold'', jget n ''Threshold''),
      (''ThresholdType'', if has_key n ''ThresholdType'' then jget n ''ThresholdType'' else JStr ''PERCENTAGE'')]"

definition notification_setting :: "json \<Rightarrow> setting res" where
  "notification_setting n =
     (let identity = JObj (notification_identity n); kind = jget identity ''NotificationType'';
          operator = jget identity ''ComparisonOperator''; unit = jget identity ''ThresholdType'' in
      bindE (number (jget identity ''Threshold'') ''budget notification threshold'') (\<lambda>threshold.
      if hashable kind \<and> hashable operator \<and> hashable unit then Inr (kind, operator, threshold, unit)
      else py_raise TypeError))"

text \<open>\<open>json.dumps(identity, separators=(",", ":"))\<close>; the values are not nested.\<close>

definition compact_json :: "obj \<Rightarrow> string" where
  "compact_json ps =
     (let pairs = map (\<lambda>p. json_string (fst p) @ '':'' @ json_text 0 (snd p)) ps in
      ''{'' @ hd pairs @ concat (map (\<lambda>s. '','' @ s) (tl pairs)) @ ''}'')"

definition check_subscriber :: "json \<Rightarrow> json res" where
  "check_subscriber s =
     bindE (ensure (is_dict s) (acct ''AWS budget returned an invalid subscriber'' [])) (\<lambda>_.
     let kind = jget s ''SubscriptionType''; address = jget s ''Address'' in
     bindE (py_in_set kind [''EMAIL'', ''SNS'']) (\<lambda>known.
     bindE (ensure (known \<and> is_str address \<and> str_of address \<noteq> [])
       (acct ''AWS budget returned an invalid subscriber destination'' [])) (\<lambda>_.
       Inr (JObj [(''type'', kind), (''address'', address)]))))"

definition notification_of :: "string \<Rightarrow> json \<Rightarrow> (setting \<times> json list) io" where
  "notification_of account n =
     bindIO (lift (ensure (is_dict n) (acct ''AWS budget returned an invalid notification'' []))) (\<lambda>_.
     bindIO (lift (ensure (jget n ''NotificationState'' = JStr ''OK'')
       (acct ''AWS budget notifications are not all OK'' []))) (\<lambda>_.
     bindIO (lift (notification_setting n)) (\<lambda>setting.
     bindIO (aws_list [''budgets'', ''describe-subscribers-for-notification'', ''--account-id'', account,
         ''--budget-name'', budget_name, ''--notification'', compact_json (notification_identity n)]
         ''Subscribers'' ''AWS budget subscribers'') (\<lambda>current.
     bindIO (lift (ensure (current \<noteq> []) (acct ''AWS budget has a notification without a subscriber'' []))) (\<lambda>_.
     bindIO (lift (mapE check_subscriber current)) (\<lambda>subscribers.
     lift (Inr (setting, subscribers))))))))"

definition budget_receipt :: "dec \<Rightarrow> json list \<Rightarrow> json list \<Rightarrow> json" where
  "budget_receipt limit_usd notifications subscribers = JObj
     [(''name'', JStr budget_name), (''active'', JBool True), (''limit_usd'', JStr (dec_text limit_usd)),
      (''notification_count'', JInt (int (length notifications))),
      (''subscriber_count'', JInt (int (length subscribers))), (''subscribers'', JArr subscribers),
      (''has_notification_subscriber'', JBool True),
      (''scope'', JObj [(''tag_key'', JStr ''Project''), (''tag_value'', JStr ''my-local-platform''),
         (''cost_allocation_tag_status'', JStr ''Active''), (''include_tax'', JBool False)])]"

definition budget :: "string \<Rightarrow> json io" where
  "budget account =
     bindIO (aws_json [''budgets'', ''describe-budget'', ''--account-id'', account, ''--budget-name'', budget_name]) (\<lambda>answered.
     bindIO (lift (object_value answered ''AWS budget'')) (\<lambda>v.
     bindIO (lift (check_budget_limit (jget v ''Budget''))) (\<lambda>limit_usd.
     bindIO (aws_list [''ce'', ''list-cost-allocation-tags'', ''--tag-keys'', ''Project'']
         ''CostAllocationTags'' ''AWS cost allocation tags'') (\<lambda>tags.
     bindIO (lift (check_allocation_tags tags)) (\<lambda>_.
     bindIO (aws_list [''budgets'', ''describe-notifications-for-budget'', ''--account-id'', account,
         ''--budget-name'', budget_name] ''Notifications'' ''AWS budget notifications'') (\<lambda>notifications.
     bindIO (lift (ensure (length notifications = length expected_notifications)
       (acct ''AWS budget must have exactly three notifications'' []))) (\<lambda>_.
     bindIO (mapIO (notification_of account) notifications) (\<lambda>found.
     let subscribers = concat (map snd found) in
     bindIO (lift (ensure (same_settings (map fst found) expected_notifications)
       (acct ''AWS budget notification settings do not match Terraform'' []))) (\<lambda>_.
     bindIO (lift (ensure (subscribers \<noteq> []) (acct ''AWS budget has no notification subscriber'' []))) (\<lambda>_.
     lift (Inr (budget_receipt limit_usd notifications subscribers))))))))))))"

section \<open>Service quotas\<close>

definition check_service_quota :: "string \<Rightarrow> string \<Rightarrow> json \<Rightarrow> (string \<times> dec) res" where
  "check_service_quota service_code quota_code answered =
     bindE (object_value answered (service_code @ '' service quota'')) (\<lambda>v.
     let quota = jget v ''Quota''; name = jget quota ''QuotaName'' in
     bindE (ensure (is_dict quota \<and> jget quota ''QuotaCode'' = JStr quota_code)
       (acct ''{} returned the wrong quota'' [JStr service_code])) (\<lambda>_.
     bindE (ensure (is_str name \<and> str_of name \<noteq> []) (acct ''{} quota has no name'' [JStr service_code])) (\<lambda>_.
     bindE (number (jget quota ''Value'') (str_of name @ '' quota'')) (\<lambda>limit.
       Inr (str_of name, limit)))))"

definition service_quota :: "string \<Rightarrow> string \<Rightarrow> (string \<times> dec) io" where
  "service_quota service_code quota_code =
     bindIO (aws_json [''service-quotas'', ''get-service-quota'', ''--service-code'', service_code,
         ''--quota-code'', quota_code]) (\<lambda>v.
     lift (check_service_quota service_code quota_code v))"

definition quota_result :: "string \<Rightarrow> string \<Rightarrow> dec \<Rightarrow> dec \<Rightarrow> dec \<Rightarrow> obj" where
  "quota_result name code limit used needed =
     (let remaining = dec_sub limit used in
      [(''name'', JStr name), (''quota_code'', JStr code), (''limit'', JStr (dec_text limit)),
       (''used'', JStr (dec_text used)), (''required'', JStr (dec_text needed)),
       (''remaining'', JStr (dec_text remaining)), (''passed'', JBool (dec_le needed remaining))])"

definition count_of_list :: "'a list \<Rightarrow> dec" where
  "count_of_list xs = dec_of_int (int (length xs))"

definition find_eks_quota :: "json list \<Rightarrow> json res" where
  "find_eks_quota quotas =
     bindE (filterE (\<lambda>q. bindE (py_get q ''QuotaName'' JNull) (\<lambda>n. Inr (n = JStr ''Clusters''))) quotas) (\<lambda>matches.
     bindE (ensure (length matches = 1)
       (acct ''EKS service quotas did not return exactly one Clusters quota'' [])) (\<lambda>_.
     let code = jget (hd matches) ''QuotaCode'' in
     bindE (ensure (is_str code \<and> starts_with (str_of code) ''L-'')
       (acct ''EKS Clusters quota has an invalid code'' [])) (\<lambda>_.
       Inr (hd matches))))"

definition eks_quota :: "obj io" where
  "eks_quota =
     bindIO (aws_list [''service-quotas'', ''list-service-quotas'', ''--service-code'', ''eks'']
         ''Quotas'' ''EKS service quotas'') (\<lambda>quotas.
     bindIO (lift (find_eks_quota quotas)) (\<lambda>quota.
     bindIO (aws_list [''eks'', ''list-clusters''] ''clusters'' ''EKS clusters'') (\<lambda>clusters.
     bindIO (lift (number (jget quota ''Value'') ''EKS Clusters quota'')) (\<lambda>limit.
     lift (Inr (quota_result ''EKS clusters'' (str_of (jget quota ''QuotaCode'')) limit
       (count_of_list clusters) (dec_of_int 1)))))))"

definition is_serverless_quota :: "json \<Rightarrow> bool" where
  "is_serverless_quota q \<longleftrightarrow>
     (let name = str_lower (py_str (jget_or q ''QuotaName'' (JStr []))) in
      is_dict q \<and> contains_str name ''serverless'' \<and> contains_str name ''cluster'' \<and> contains_str name ''account'')"

text \<open>Name, code, limit and source: the listed Serverless quota, or the documented default.\<close>

definition msk_limit :: "json list \<Rightarrow> (string \<times> string \<times> dec \<times> json) res" where
  "msk_limit quotas =
     (case filter is_serverless_quota quotas of
        [] \<Rightarrow> Inr (''MSK Serverless clusters'', ''documented-default-limit'', dec_of_int 10, account_source ''msk_quotas'')
      | [q] \<Rightarrow>
          bindE (ensure (is_str (jget q ''QuotaName'') \<and> is_str (jget q ''QuotaCode''))
            (acct ''MSK Serverless quota has invalid identity fields'' [])) (\<lambda>_.
          bindE (number (jget q ''Value'') ''MSK Serverless cluster quota'') (\<lambda>limit.
            Inr (str_of (jget q ''QuotaName''), str_of (jget q ''QuotaCode''), limit, JStr ''service-quotas'')))
      | _ \<Rightarrow> raise AccountError ''MSK service quotas returned multiple Serverless limits'' [])"

definition msk_quota :: "obj io" where
  "msk_quota =
     bindIO (aws_list [''service-quotas'', ''list-service-quotas'', ''--service-code'', ''kafka'']
         ''Quotas'' ''MSK service quotas'') (\<lambda>quotas.
     bindIO (lift (msk_limit quotas)) (\<lambda>nclu.
     let (name, code, limit, source) = nclu in
     bindIO (aws_list [''kafka'', ''list-clusters-v2''] ''ClusterInfoList'' ''MSK clusters'') (\<lambda>clusters.
     let used = filter (\<lambda>c. is_dict c \<and> jget c ''ClusterType'' = JStr ''SERVERLESS'') clusters in
     lift (Inr (quota_result name code limit (count_of_list used) (dec_of_int 1) @ [(''limit_source'', source)])))))"

definition check_rds_quota :: "json list \<Rightarrow> obj res" where
  "check_rds_quota attributes =
     bindE (filterE (\<lambda>q. bindE (py_get q ''AccountQuotaName'' JNull) (\<lambda>n. Inr (n = JStr ''DBInstances''))) attributes) (\<lambda>matches.
     bindE (ensure (length matches = 1) (acct ''RDS account quotas did not return DBInstances'' [])) (\<lambda>_.
     bindE (number (jget (hd matches) ''Max'') ''RDS DBInstances maximum'') (\<lambda>limit.
     bindE (number (jget (hd matches) ''Used'') ''RDS DBInstances usage'') (\<lambda>used.
       Inr (quota_result ''RDS DB instances'' ''DBInstances'' limit used (dec_of_int 1))))))"

definition rds_quota :: "obj io" where
  "rds_quota =
     bindIO (aws_list [''rds'', ''describe-account-attributes''] ''AccountQuotas'' ''RDS account quotas'') (\<lambda>attributes.
     lift (check_rds_quota attributes))"

section \<open>EC2 quotas\<close>

text \<open>The vCPUs of the running Spot instances, and their instance ids.\<close>

definition instance_vcpus :: "dec \<times> string list \<Rightarrow> json \<Rightarrow> (dec \<times> string list) res" where
  "instance_vcpus acc i =
     (let cpu = (if is_dict i then jget i ''CpuOptions'' else JNull); instance_id = jget i ''InstanceId'' in
      bindE (ensure (is_dict cpu) (acct ''EC2 Spot instance has no CPU options'' [])) (\<lambda>_.
      bindE (number (jget cpu ''CoreCount'') ''Spot instance core count'') (\<lambda>cores.
      bindE (number (jget cpu ''ThreadsPerCore'') ''Spot threads per core'') (\<lambda>threads.
      bindE (ensure (is_str instance_id \<and> str_of instance_id \<noteq> [])
        (acct ''EC2 Spot instance has no instance id'' [])) (\<lambda>_.
        Inr (dec_add (fst acc) (dec_mul cores threads), snd acc @ [str_of instance_id]))))))"

definition reservation_vcpus :: "dec \<times> string list \<Rightarrow> json \<Rightarrow> (dec \<times> string list) res" where
  "reservation_vcpus acc r =
     bindE (ensure (is_dict r) (acct ''EC2 returned an invalid Spot reservation'' [])) (\<lambda>_.
     bindE (ensure (is_list (jget r ''Instances'')) (acct ''EC2 returned an invalid Spot instance list'' [])) (\<lambda>_.
     foldE instance_vcpus acc (items_of (jget r ''Instances''))))"

definition spot_vcpu_usage :: "json \<Rightarrow> (dec \<times> string list) res" where
  "spot_vcpu_usage v =
     bindE (list_value v ''Reservations'' ''EC2 Spot instances'') (\<lambda>reservations.
     foldE reservation_vcpus (dec_of_int 0, []) reservations)"

text \<open>
  A request whose instance runs is counted already; one with CPU options is counted directly;
  for the others the instance type is remembered.
\<close>

definition request_vcpus :: "string list \<Rightarrow> dec \<times> string list \<Rightarrow> json \<Rightarrow> (dec \<times> string list) res" where
  "request_vcpus instance_ids acc r =
     bindE (ensure (is_dict r) (acct ''EC2 returned an invalid Spot request'' [])) (\<lambda>_.
     let instance_id = jget r ''InstanceId''; launch = jget r ''LaunchSpecification'';
         cpu = jget launch ''CpuOptions''; kind = jget launch ''InstanceType'' in
     if is_str instance_id \<and> str_of instance_id \<in> set instance_ids then Inr acc
     else
       bindE (ensure (is_dict launch) (acct ''EC2 Spot request has no launch specification'' [])) (\<lambda>_.
       if is_dict cpu then
         bindE (number (jget cpu ''CoreCount'') ''Spot request core count'') (\<lambda>cores.
         bindE (number (jget cpu ''ThreadsPerCore'') ''Spot request threads per core'') (\<lambda>threads.
           Inr (dec_add (fst acc) (dec_mul cores threads), snd acc)))
       else
         bindE (ensure (is_str kind \<and> str_of kind \<noteq> []) (acct ''EC2 Spot request has no instance type'' [])) (\<lambda>_.
           Inr (fst acc, snd acc @ [str_of kind]))))"

definition type_vcpus :: "(string \<times> dec) list \<Rightarrow> json \<Rightarrow> (string \<times> dec) list res" where
  "type_vcpus vcpus d =
     bindE (ensure (is_dict d) (acct ''EC2 returned an invalid instance type'' [])) (\<lambda>_.
     let name = jget d ''InstanceType''; details = jget d ''VCpuInfo'' in
     bindE (ensure (is_str name \<and> is_dict details) (acct ''EC2 instance type has no vCPU information'' [])) (\<lambda>_.
     bindE (number (jget details ''DefaultVCpus'') (str_of name @ '' default vCPUs'')) (\<lambda>n.
       Inr (al_set vcpus (str_of name) n))))"

definition pending_vcpus :: "dec \<Rightarrow> string list \<Rightarrow> json list \<Rightarrow> dec res" where
  "pending_vcpus direct pending descriptions =
     bindE (foldE type_vcpus [] descriptions) (\<lambda>vcpus.
     bindE (ensure (set (map fst vcpus) = set pending)
       (acct ''EC2 did not describe every open Spot request type'' [])) (\<lambda>_.
       Inr (dec_add direct (foldl (\<lambda>total name.
         dec_add total (the (map_of vcpus name))) (dec_of_int 0) pending))))"

definition open_spot_vcpu_usage :: "json \<Rightarrow> string list \<Rightarrow> dec io" where
  "open_spot_vcpu_usage v instance_ids =
     bindIO (lift (bindE (list_value v ''SpotInstanceRequests'' ''EC2 Spot requests'')
       (foldE (request_vcpus instance_ids) (dec_of_int 0, [])))) (\<lambda>acc.
     if snd acc = [] then lift (Inr (fst acc))
     else
       bindIO (aws_list ([''ec2'', ''describe-instance-types'', ''--instance-types''] @ sort (remdups (snd acc)))
           ''InstanceTypes'' ''EC2 instance types'') (\<lambda>descriptions.
       lift (pending_vcpus (fst acc) (snd acc) descriptions)))"

definition ec2_quotas :: "obj list io" where
  "ec2_quotas =
     bindIO (service_quota ''ec2'' (fst spot_quota)) (\<lambda>spot.
     bindIO (aws_json [''ec2'', ''describe-instances'', ''--filters'', ''Name=instance-lifecycle,Values=spot'',
         ''Name=instance-state-name,Values=pending,running'']) (\<lambda>instances.
     bindIO (lift (spot_vcpu_usage instances)) (\<lambda>used_ids.
     bindIO (aws_json [''ec2'', ''describe-spot-instance-requests'', ''--filters'', ''Name=state,Values=open,active'']) (\<lambda>requests.
     bindIO (open_spot_vcpu_usage requests (snd used_ids)) (\<lambda>opened.
     bindIO (service_quota ''ec2'' (fst eip_quota)) (\<lambda>eip.
     bindIO (aws_list [''ec2'', ''describe-addresses''] ''Addresses'' ''Elastic IP addresses'') (\<lambda>addresses.
     lift (Inr
       [quota_result (fst spot) (fst spot_quota) (snd spot) (dec_add (fst used_ids) opened) (snd spot_quota),
        quota_result (fst eip) (fst eip_quota) (snd eip) (count_of_list addresses) (snd eip_quota)]))))))))"

definition gate_json :: "string list \<Rightarrow> json" where
  "gate_json failures = JObj [(''passed'', JBool (failures = [])), (''failures'', JArr (map JStr failures))]"

definition item_passed :: "obj \<Rightarrow> bool" where
  "item_passed item \<longleftrightarrow> jget (JObj item) ''passed'' = JBool True"

definition quota_items :: "obj list \<Rightarrow> json" where
  "quota_items items = JObj
     [(''items'', JArr (map JObj items)),
      (''gate'', gate_json (map (\<lambda>i. str_of (jget (JObj i) ''name'')) (filter (\<lambda>i. \<not> item_passed i) items)))]"

definition quotas :: "json io" where
  "quotas =
     bindIO eks_quota (\<lambda>eks. bindIO msk_quota (\<lambda>msk. bindIO rds_quota (\<lambda>rds. bindIO ec2_quotas (\<lambda>ec2.
     lift (Inr (quota_items ([eks, msk, rds] @ ec2)))))))"

section \<open>Regional availability\<close>

definition supported_version :: "json \<Rightarrow> bool" where
  "supported_version v \<longleftrightarrow>
     is_dict v \<and> jget v ''clusterVersion'' = JStr eks_version \<and>
     jget_or v ''versionStatus'' (jget v ''status'') \<in> {JStr ''STANDARD_SUPPORT'', JStr ''standard-support''}"

definition rds_option :: "json \<Rightarrow> bool" where
  "rds_option v \<longleftrightarrow>
     is_dict v \<and> jget v ''Engine'' = JStr ''postgres'' \<and> jget v ''EngineVersion'' = JStr rds_engine_version \<and>
     jget v ''DBInstanceClass'' = JStr ''db.t4g.micro'' \<and> jget v ''StorageType'' = JStr ''gp3'' \<and>
     jget v ''Vpc'' = JBool True \<and> jget v ''SupportsStorageEncryption'' = JBool True"

definition rds_zones :: "json list \<Rightarrow> json list res" where
  "rds_zones options =
     bindE (mapE (\<lambda>v. bindE (py_iter (jget_or v ''AvailabilityZones'' (JArr []))) (\<lambda>zones.
         Inr (map (\<lambda>z. jget z ''Name'') (filter is_dict zones)))) (filter rds_option options)) (\<lambda>names.
     hash_set (concat names))"

definition ec2_zones :: "json list \<Rightarrow> json list res" where
  "ec2_zones offerings =
     hash_set (map (\<lambda>v. jget v ''Location'')
       (filter (\<lambda>v. is_dict v \<and> jget v ''InstanceType'' = JStr ''t3.medium'' \<and>
          jget v ''LocationType'' = JStr ''availability-zone'') offerings))"

definition covers_azs :: "json list \<Rightarrow> bool" where
  "covers_azs zones \<longleftrightarrow> list_all (\<lambda>z. JStr z \<in> set zones) fixed_azs"

definition strings :: "string list \<Rightarrow> json" where
  "strings names = JArr (map JStr names)"

definition availability_items :: "string \<Rightarrow> bool \<Rightarrow> bool \<Rightarrow> json list \<Rightarrow> json list \<Rightarrow> (string \<times> obj) list res" where
  "availability_items region eks_passed region_present rds_azs ec2_azs =
     bindE (sorted_values rds_azs) (\<lambda>rds_sorted.
     bindE (sorted_values ec2_azs) (\<lambda>ec2_sorted.
     let documented = (region \<in> set msk_serverless_regions) in
     Inr
      [(''eks_standard_support'', [(''version'', JStr eks_version), (''passed'', JBool eks_passed)]),
       (''msk_serverless_region'',
          [(''region'', JStr region), (''service_region_present'', JBool region_present),
           (''documented_region_present'', JBool documented),
           (''documented_serverless_source'', account_source ''msk_serverless''),
           (''passed'', JBool (region_present \<and> documented))]),
       (''rds_postgres'',
          [(''engine_version'', JStr rds_engine_version), (''instance_class'', JStr ''db.t4g.micro''),
           (''storage_type'', JStr ''gp3''), (''availability_zones'', JArr rds_sorted),
           (''required_availability_zones'', strings fixed_azs), (''passed'', JBool (covers_azs rds_azs))]),
       (''ec2_nodes'',
          [(''instance_type'', JStr ''t3.medium''), (''availability_zones'', JArr ec2_sorted),
           (''required_availability_zones'', strings fixed_azs), (''passed'', JBool (covers_azs ec2_azs))])]))"

definition availability_json :: "(string \<times> obj) list \<Rightarrow> json" where
  "availability_json items = JObj
     (map (\<lambda>(n, i). (n, JObj i)) items @
      [(''gate'', gate_json (map fst (filter (\<lambda>ni. \<not> item_passed (snd ni)) items)))])"

definition eks_support :: "bool \<Rightarrow> json" where
  "eks_support eks_passed = JObj
     [(''version'', JStr eks_version), (''status'', JStr (if eks_passed then ''STANDARD_SUPPORT'' else ''unproved'')),
      (''standard_support'', JBool eks_passed), (''source'', account_source ''eks_versions'')]"

definition availability :: "string \<Rightarrow> (json \<times> json) io" where
  "availability region =
     bindIO (aws_list [''eks'', ''describe-cluster-versions'', ''--cluster-versions'', eks_version]
         ''clusterVersions'' ''EKS cluster versions'') (\<lambda>versions.
     let eks_passed = (length (filter supported_version versions) = 1) in
     bindIO (aws_list [''ssm'', ''get-parameters-by-path'', ''--path'',
         ''/aws/service/global-infrastructure/services/kafka/regions''] ''Parameters'' ''MSK regional parameters'') (\<lambda>parameters.
     bindIO (lift (hash_set (map (\<lambda>v. jget v ''Value'') (filter is_dict parameters)))) (\<lambda>regions.
     bindIO (aws_list [''rds'', ''describe-orderable-db-instance-options'', ''--engine'', ''postgres'',
         ''--engine-version'', rds_engine_version, ''--db-instance-class'', ''db.t4g.micro'', ''--vpc'']
         ''OrderableDBInstanceOptions'' ''RDS orderable options'') (\<lambda>options.
     bindIO (lift (rds_zones options)) (\<lambda>rds_azs.
     bindIO (aws_list [''ec2'', ''describe-instance-type-offerings'', ''--location-type'', ''availability-zone'',
         ''--filters'', ''Name=instance-type,Values=t3.medium''] ''InstanceTypeOfferings'' ''EC2 instance offerings'') (\<lambda>offerings.
     bindIO (lift (ec2_zones offerings)) (\<lambda>ec2_azs.
     bindIO (lift (availability_items region eks_passed (JStr region \<in> set regions) rds_azs ec2_azs)) (\<lambda>items.
     lift (Inr (availability_json items, eks_support eks_passed))))))))))"

section \<open>The receipt\<close>

definition account_receipt ::
  "string \<Rightarrow> string \<Rightarrow> string \<Rightarrow> datetime \<Rightarrow> json \<Rightarrow> json \<Rightarrow> json \<Rightarrow> json \<Rightarrow> json \<Rightarrow> json \<times> json \<Rightarrow> json" where
  "account_receipt run_id commit region now repository identity state budget_value quota_value available =
     (let failures = (if passed_gate quota_value then [] else [''quotas'']) @
                     (if passed_gate (fst available) then [] else [''availability'']) in
      JObj [(''schema_version'', JInt 1), (''run_id'', JStr run_id), (''source_commit'', JStr commit),
        (''captured_at'', JStr (stamp_text now)), (''region'', JStr region), (''repository'', repository),
        (''aws'', identity), (''backend'', state), (''eks'', snd available), (''budget'', budget_value),
        (''quotas'', quota_value), (''availability'', fst available),
        (''sources'', JObj (map (\<lambda>(k, v). (k, JStr v)) account_sources)), (''gate'', gate_json failures)])"

definition collect_account :: "string \<Rightarrow> string \<Rightarrow> string \<Rightarrow> string \<Rightarrow> datetime \<Rightarrow> json io" where
  "collect_account run_id commit profile region now =
     bindIO (lift (ensure (region = expected_region)
       (acct ''M4 account capture requires {}'' [JStr expected_region]))) (\<lambda>_.
     bindIO (account_clean_commit commit) (\<lambda>_.
     bindIO repository_identity (\<lambda>repository.
     bindIO (aws_identity profile) (\<lambda>identity.
     let account = str_of (jget identity ''account_id'') in
     bindIO (backend account) (\<lambda>state.
     bindIO (budget account) (\<lambda>budget_value.
     bindIO quotas (\<lambda>quota_value.
     bindIO (availability region) (\<lambda>available.
     lift (Inr (account_receipt run_id commit region now repository identity state budget_value
       quota_value available))))))))))"

text \<open>
  \<open>main\<close> after the arguments are parsed: the exit code, with the destination and the
  receipt that is written there. The receipt is written also when its gate did not pass.
\<close>

definition budget_only :: "string \<Rightarrow> int io" where
  "budget_only account = bindIO (budget account) (\<lambda>_. lift (Inr 0))"

definition capture_account ::
  "string \<Rightarrow> string \<Rightarrow> string \<Rightarrow> string \<Rightarrow> path \<Rightarrow> datetime \<Rightarrow> (path \<times> json) io" where
  "capture_account run_id commit profile region destination now =
     bindIO (ask (\<lambda>w. validate_destination w run_id destination)) (\<lambda>target.
     bindIO (ask (\<lambda>w. account_require_preflight w run_id commit)) (\<lambda>_.
     bindIO (collect_account run_id commit profile region now) (\<lambda>receipt.
     lift (Inr (target, receipt)))))"

definition account_exit :: "(path \<times> json) res \<Rightarrow> int res" where
  "account_exit r =
     (case r of
        Inl (Err AccountError _ _) \<Rightarrow> Inr 1
      | Inl e \<Rightarrow> Inl e
      | Inr (_, receipt) \<Rightarrow> Inr (if passed_gate receipt then 0 else 1))"

end
