(* ===== verification/Account_Gate_Correct.thy ===== *)
theory Account_Gate_Correct
  imports Account_Gate Stage_Go_Correct
begin

text \<open>
  The account gate changes nothing, its receipt passes the checks the GO decision makes on it,
  and an accepted budget has its three alerts, each with a subscriber.
\<close>

section \<open>Fixed notation parses back\<close>

lemma dec_parse_text:
  assumes "dexp d \<le> 0"
  shows "dec_parse (dec_text d) = Some (Fin d)"
proof -
  let ?ds = "nat_str (dcoef d)"
  let ?n = "int (length ?ds)"
  let ?dot = "dexp d + ?n"
  define ip where "ip = (if ?dot \<le> 0 then ''0'' else take (nat ?dot) ?ds)"
  define fp where "fp = (if ?dot \<le> 0 then replicate (nat (- ?dot)) (CHR ''0'') @ ?ds else drop (nat ?dot) ?ds)"
  let ?body = "ip @ (if fp = [] then [] else CHR ''.'' # fp) @ []"
  have le: "?dot \<le> ?n" using assms by simp
  have pos: "0 < ?n" using nat_str_length_pos [of "dcoef d"] by simp
  have eq: "dec_text d = (if dneg d then ''-'' else '''') @ ?body"
    using le pos assms by (auto simp: dec_text_def Let_def ip_def fp_def)
  have ipd: "is_digit c" if "c \<in> set ip" for c
    using that nat_str_digits [of c "dcoef d"] by (auto simp: ip_def split: if_splits dest: in_set_takeD)
  have fpd: "is_digit c" if "c \<in> set fp" for c
    using that nat_str_digits [of c "dcoef d"] by (auto simp: fp_def split: if_splits dest: in_set_dropD)
  have ipn: "ip \<noteq> []" using pos by (auto simp: ip_def)
  have len: "int (length fp) = ?n - ?dot" using le by (auto simp: fp_def)
  have val: "str_nat (ip @ fp) = dcoef d"
    using str_nat_zeros [of "Suc (nat (- ?dot))" ?ds] by (cases "?dot \<le> 0") (simp_all add: ip_def fp_def)
  have "\<not> is_space (CHR ''.'')" by (simp add: is_space_def)
  then have chars: "\<not> is_space c \<and> c \<noteq> CHR ''_''" if "c \<in> set ?body" for c
    using that ipd [of c] fpd [of c] digit_not_space [of c] by (auto split: if_splits)
  have "is_digit (hd ip)" using ipn ipd [of "hd ip"] by (metis hd_in_set)
  with ipn have hd_body: "is_digit (hd ?body)" by (metis hd_append2)
  have "dec_parse (dec_text d) = parse_finite (dneg d) ?body"
    by (rule dec_parse_finite [OF _ hd_body eq chars]) (use ipn in simp)
  also have "\<dots> = Some (Fin (Dec (dneg d) (str_nat (ip @ fp)) (0 - int (length fp))))"
    by (rule parse_finite_parts [OF ipd ipn fpd, where ex = "[]"]) simp_all
  finally show ?thesis by (simp add: val len)
qed

lemma five_exponent:
  assumes "dec_eq d (dec_of_int 5)"
  shows "dexp d \<le> 0"
proof (rule ccontr)
  assume "\<not> dexp d \<le> 0"
  then have e: "0 < dexp d" by simp
  have "(if dneg d then - 1 else 1) * int (dcoef d) * 10 ^ nat (dexp d) = 5"
    using assms e by (simp add: dec_eq_def dec_cmp_exp_def dec_at_def dec_of_int_def)
  moreover obtain k where "nat (dexp d) = Suc k" using e by (metis gr0_implies_Suc zero_less_nat_eq)
  ultimately have "10 * ((if dneg d then - 1 else 1) * int (dcoef d) * 10 ^ k) = 5"
    by (simp add: algebra_simps)
  then have "(10 :: int) dvd 5" by (metis dvd_triv_left)
  then show False by simp
qed

section \<open>Reading only\<close>

definition read_verb :: "string \<Rightarrow> bool" where
  "read_verb v \<longleftrightarrow> list_ex (starts_with v) [''get-'', ''describe-'', ''list-'', ''head-'']"

text \<open>The commands of the gate: reads of git, of the GitHub CLI, and of the AWS CLI.\<close>

definition reads_only :: "event \<Rightarrow> bool" where
  "reads_only e \<longleftrightarrow> ev_input e = None \<and>
     (case ev_command e of
        tool # a # rest \<Rightarrow>
          (tool = ''git'' \<and> a \<in> {''rev-parse'', ''status''}) \<or>
          (tool = ''gh'' \<and> a = ''repo'' \<and> hd rest = ''view'') \<or>
          (tool = ''aws'' \<and> a = ''configure'' \<and> hd rest = ''get'') \<or>
          (tool = ''aws'' \<and> read_verb (hd rest))
      | _ \<Rightarrow> False)"

lemma snd_recast: "snd (recast cls e m w t) = snd (m w t)"
  by (simp add: recast_def split: prod.splits sum.splits)

lemma issues_recast [io_intros]: "issues_only P m \<Longrightarrow> issues_only P (recast cls e m)"
  by (simp add: issues_only_def snd_recast)

lemma issues_case_prod [io_intros]:
  "(\<And>a b. issues_only P (f a b)) \<Longrightarrow> issues_only P (case p of (a, b) \<Rightarrow> f a b)"
  by (cases p) simp

lemma issues_aws [io_intros]:
  "read_verb verb \<Longrightarrow> issues_only reads_only (aws_json (service # verb # rest))"
  "read_verb verb \<Longrightarrow> issues_only reads_only (aws_list (service # verb # rest) key description)"
  unfolding aws_list_def aws_json_def append_Cons by (intro io_intros; simp add: reads_only_def)+

lemmas verb_defs = read_verb_def starts_with_def

lemma reads_identity [io_intros]:
  "issues_only reads_only (account_clean_commit commit)"
  "issues_only reads_only repository_identity"
  "issues_only reads_only (aws_identity profile)"
  unfolding account_clean_commit_def repository_identity_def aws_identity_def Let_def
  by (intro io_intros; simp add: verb_defs reads_only_def)+

lemma reads_backend [io_intros]: "issues_only reads_only (backend account)"
  unfolding backend_def bucket_object_def Let_def
  by (intro io_intros; simp add: verb_defs reads_only_def)

lemma reads_budget [io_intros]: "issues_only reads_only (budget account)"
  unfolding budget_def notification_of_def Let_def by (intro io_intros; simp add: verb_defs)

lemma reads_quotas [io_intros]: "issues_only reads_only quotas"
  unfolding quotas_def eks_quota_def msk_quota_def rds_quota_def ec2_quotas_def open_spot_vcpu_usage_def
    service_quota_def Let_def append_Cons
  by (intro io_intros; simp add: verb_defs)

lemma reads_availability [io_intros]: "issues_only reads_only (availability region)"
  unfolding availability_def Let_def by (intro io_intros; simp add: verb_defs)

text \<open>
  C8. The account gate only reads: whatever the tools answer, and however the capture ends,
  it issues no command but reads of git and of the GitHub CLI and AWS operations whose verb
  is get, describe, list or head.
\<close>

theorem account_gate_reads_only:
  "issues_only reads_only (capture_account run_id commit profile region destination now)"
  unfolding capture_account_def collect_account_def Let_def by (intro io_intros)

section \<open>What a finished capture returns\<close>

lemma returns_recast [io_simps]: "returns (recast cls e m) w t x u \<longleftrightarrow> returns m w t x u"
  by (auto simp: returns_def recast_def split: prod.splits sum.splits)

lemma returns_case_prod [io_simps]:
  "returns (case p of (a, b) \<Rightarrow> f a b) w t x u \<longleftrightarrow> returns (f (fst p) (snd p)) w t x u"
  by (cases p) simp

lemma identity_returns:
  assumes "returns (aws_identity profile) w t v u"
  shows "\<exists>account arn. account_shape account \<and> v = JObj [(''profile'', JStr profile), (''account_id'', account),
    (''caller_arn'', arn), (''account_matches_profile'', JBool True)]"
  using assms unfolding aws_identity_def Let_def by (auto simp: io_simps)

lemma repository_returns:
  assumes "returns repository_identity w t v u"
  shows "is_dict v \<and> jget v ''name_with_owner'' = JStr ''lilabrooks/my-local-platform''"
  using assms unfolding repository_identity_def check_repository_identity_def Let_def
  by (auto simp: io_simps bindE_eq_Inr)

lemma backend_returns:
  assumes "returns (backend account) w t v u"
  shows "v = expected_state_backend account"
  using assms unfolding backend_def check_backend_def Let_def expected_state_backend_def
  by (auto simp: io_simps bindE_eq_Inr)

lemma budget_limit_five:
  assumes "check_budget_limit b = Inr limit"
  shows "dec_eq limit (dec_of_int 5)"
  using assms unfolding check_budget_limit_def Let_def by (auto simp: bindE_eq_Inr)

lemma budget_returns:
  assumes "returns (budget account) w t v u"
  shows "\<exists>limit notifications subscribers. dec_eq limit (dec_of_int 5) \<and> v = budget_receipt limit notifications subscribers"
  using assms budget_limit_five unfolding budget_def Let_def by (auto simp: io_simps)

lemma budget_passes_go:
  assumes "dec_eq limit (dec_of_int 5)"
  shows "check_budget (budget_receipt limit notifications subscribers) = Inr ()"
proof -
  have "decimal_value (JStr (dec_text limit)) ''budget limit'' = Inr limit"
    using dec_parse_text [OF five_exponent [OF assms]] by (simp add: decimal_value_def)
  moreover have five: "dec_val limit = 5" using assms by (simp add: dec_eq_val)
  moreover have "dec_lt (Dec False 0 0) limit" "\<not> dec_lt maximum_total_usd limit"
    using five by (simp_all add: dec_lt_val maximum_total_usd_def) (simp_all add: dec_val_def)
  ultimately show ?thesis
    by (simp add: check_budget_def budget_receipt_def expected_budget_scope_def)
qed

lemma availability_returns:
  assumes "returns (availability region) w t v u"
  shows "\<exists>ok listed rds ec2 items. availability_items region ok listed rds ec2 = Inr items \<and>
    v = (availability_json items, eks_support ok)"
  using assms unfolding availability_def Let_def by (clarsimp simp: io_simps) blast

lemma availability_support:
  assumes "availability_items region ok listed rds ec2 = Inr items" and "passed_gate (availability_json items)"
  shows "ok"
  using assms unfolding availability_items_def Let_def
  by (auto simp: bindE_eq_Inr availability_json_def passed_gate_def gate_json_def item_passed_def split: if_splits)

lemma collect_returns:
  assumes "returns (collect_account run_id commit profile region now) w t receipt u"
  shows "\<exists>repository identity state money quota available t0 t1 t2 t3 t5 u1 u2 u3 u4 u5.
    returns repository_identity w t0 repository u1 \<and> returns (aws_identity profile) w t1 identity u2 \<and>
    returns (backend (str_of (jget identity ''account_id''))) w t2 state u3 \<and>
    returns (budget (str_of (jget identity ''account_id''))) w t3 money u4 \<and>
    returns (availability region) w t5 available u5 \<and>
    receipt = account_receipt run_id commit region now repository identity state money quota available"
  using assms unfolding collect_account_def Let_def by (simp only: returns_bind returns_lift sum.inject) blast

lemma passed_gate_dict: "passed_gate v \<Longrightarrow> is_dict v"
  by (cases v) (simp_all add: passed_gate_def jget_def)

lemma collect_accepted:
  assumes "returns (collect_account run_id commit profile region now) w t receipt u"
    and "passed_gate receipt" and "full_year now" and "strip profile \<noteq> []"
    and "instant now \<le> later + minutes 5" and "later \<le> instant now + one_day"
  shows "check_identity receipt later = Inr ()" "check_quota_evidence receipt = Inr ()"
proof -
  from collect_returns [OF assms(1)] obtain repository identity state money quota available t0 t1 t2 t3 t5 u1 u2 u3 u4 u5 where
    steps: "returns repository_identity w t0 repository u1" "returns (aws_identity profile) w t1 identity u2"
      "returns (backend (str_of (jget identity ''account_id''))) w t2 state u3"
      "returns (budget (str_of (jget identity ''account_id''))) w t3 money u4"
      "returns (availability region) w t5 available u5"
    and receipt: "receipt = account_receipt run_id commit region now repository identity state money quota available"
    by blast
  from identity_returns [OF steps(2)] obtain account arn where account: "account_shape account"
    and identity: "identity = JObj [(''profile'', JStr profile), (''account_id'', account),
      (''caller_arn'', arn), (''account_matches_profile'', JBool True)]" by blast
  from budget_returns [OF steps(4)] obtain limit ns subs where limit: "dec_eq limit (dec_of_int 5)"
    and money: "money = budget_receipt limit ns subs" by blast
  from availability_returns [OF steps(5)] obtain ok listed rds ec2 items where
    items: "availability_items region ok listed rds ec2 = Inr items"
    and available: "available = (availability_json items, eks_support ok)" by blast
  have gates: "passed_gate quota" "passed_gate (availability_json items)"
    using assms(2) by (auto simp: receipt account_receipt_def Let_def passed_gate_def gate_json_def available split: if_splits)
  have ok by (rule availability_support [OF items gates(2)])
  have state: "state = expected_state_backend (str_of account)"
    using backend_returns [OF steps(3)] by (simp add: identity)
  have "check_caller receipt = Inr ()"
    using repository_returns [OF steps(1)] account assms(4)
    by (simp add: check_caller_def receipt account_receipt_def identity named_def)
  moreover have "parse_recent_utc (jget receipt ''captured_at'') ''account capture time'' later one_day = Inr now"
    using assms(5,6) by (simp add: parse_recent_utc_def receipt account_receipt_def parse_stamp_text [OF assms(3)])
  moreover have "check_budget money = Inr ()" unfolding money by (rule budget_passes_go [OF limit])
  ultimately show "check_identity receipt later = Inr ()"
    using \<open>ok\<close> by (simp add: check_identity_def receipt account_receipt_def identity state available eks_support_def
      expected_state_backend_def)
  have "is_dict quota" by (rule passed_gate_dict [OF gates(1)])
  then show "check_quota_evidence receipt = Inr ()"
    using gates by (simp add: check_quota_evidence_def require_passed_gate_def receipt account_receipt_def available
        availability_json_def)
qed

text \<open>
  C7. An account receipt serves the GO decision: when the capture returns a receipt whose gate
  passed, taken by a named profile, then the identity, backend, budget and EKS checks and the
  quota and availability checks of the GO decision accept it during the following day.
\<close>

theorem account_receipt_accepted:
  assumes "returns (collect_account run_id commit profile region now) w t receipt u"
    and "passed_gate receipt" and "full_year now" and "strip profile \<noteq> []"
    and "instant now \<le> later + minutes 5" and "later \<le> instant now + one_day"
  shows "check_identity receipt later = Inr () \<and> check_quota_evidence receipt = Inr ()"
  using collect_accepted [OF assms] by blast

section \<open>The alerts of the budget\<close>

lemma mapIO_returns:
  assumes "returns (mapIO f xs) w t ys u"
  shows "length ys = length xs \<and> (\<forall>y \<in> set ys. \<exists>x t' u'. returns (f x) w t' y u')"
  using assms
proof (induction xs arbitrary: t ys)
  case (Cons a xs)
  then obtain y zs v where ys: "ys = y # zs" and a: "returns (f a) w t y v" and r: "returns (mapIO f xs) w v zs u"
    by (auto simp: io_simps)
  with Cons.IH [OF r] show ?case by auto
qed (simp add: io_simps)

definition valid_subscriber :: "json \<Rightarrow> bool" where
  "valid_subscriber s \<longleftrightarrow> jget s ''type'' \<in> {JStr ''EMAIL'', JStr ''SNS''} \<and> is_str (jget s ''address'') \<and>
     str_of (jget s ''address'') \<noteq> []"

lemma check_subscriber_ok: "check_subscriber s = Inr v \<Longrightarrow> valid_subscriber v"
  by (auto simp: check_subscriber_def Let_def bindE_eq_Inr valid_subscriber_def py_in_set_True)

lemma notification_subscribers:
  assumes "returns (notification_of account n) w t y u"
  shows "snd y \<noteq> [] \<and> list_all valid_subscriber (snd y)"
proof -
  from assms obtain current where "mapE check_subscriber current = Inr (snd y)" "current \<noteq> []"
    unfolding notification_of_def by (auto simp: io_simps)
  then show ?thesis
    by (fastforce simp: mapE_eq_Inr list_all_iff list_all2_conv_all_nth in_set_conv_nth intro: check_subscriber_ok)
qed

lemma length_concat_ge: "(\<And>x. x \<in> set xs \<Longrightarrow> f x \<noteq> []) \<Longrightarrow> length xs \<le> length (concat (map f xs))"
proof (induction xs)
  case (Cons x xs)
  then have "Suc 0 \<le> length (f x)" "length xs \<le> length (concat (map f xs))" by (auto simp: Suc_le_eq)
  then show ?case by simp
qed simp

lemma budget_alerts:
  assumes "returns (budget account) w t v u"
  shows "jget v ''notification_count'' = JInt 3 \<and> 3 \<le> length (items_of (jget v ''subscribers'')) \<and>
    jget v ''subscriber_count'' = JInt (int (length (items_of (jget v ''subscribers'')))) \<and>
    list_all valid_subscriber (items_of (jget v ''subscribers''))"
proof -
  from assms obtain notifications found t' u' limit where
    three: "length notifications = 3" and run: "returns (mapIO (notification_of account) notifications) w t' found u'"
    and v: "v = budget_receipt limit notifications (concat (map snd found))"
    unfolding budget_def Let_def
    by (clarsimp simp: io_simps expected_notifications_def) (metis One_nat_def numeral_3_eq_3)
  note m = mapIO_returns [OF run]
  have "snd y \<noteq> [] \<and> list_all valid_subscriber (snd y)" if "y \<in> set found" for y
    using m that notification_subscribers by blast
  then have "length found \<le> length (concat (map snd found))" "list_all valid_subscriber (concat (map snd found))"
    by (auto intro!: length_concat_ge simp: list_all_iff)
  with m three show ?thesis by (simp add: v budget_receipt_def)
qed

text \<open>
  An accepted budget alerts somebody: it has three notifications, and every one of them
  has a subscriber with an address, so at least three subscribers are reported.
\<close>

theorem budget_alerts_somebody:
  assumes "returns (budget account) w t v u"
  shows "jget v ''notification_count'' = JInt 3 \<and> 3 \<le> length (items_of (jget v ''subscribers'')) \<and>
    jget v ''subscriber_count'' = JInt (int (length (items_of (jget v ''subscribers'')))) \<and>
    list_all valid_subscriber (items_of (jget v ''subscribers''))"
  by (rule budget_alerts [OF assms])

section \<open>A sample account\<close>

text \<open>
  Every answer is named by what was asked: the verb of the AWS operation, or the quota code or
  service where a verb is used more than once.
\<close>

definition label_q :: "string list \<Rightarrow> string" where
  "label_q c =
     (if c = [''git'', ''rev-parse'', ''HEAD''] then replicate 40 (CHR ''a'')
      else if hd c = ''git'' then []
      else if c ! 2 = ''get'' then ''123456789012''
      else if c ! 2 = ''get-service-quota'' then c ! 6
      else if c ! 2 = ''list-service-quotas'' then c ! 4
      else c ! 2)"

definition notice_q :: "string \<Rightarrow> int \<Rightarrow> json" where
  "notice_q kind threshold = JObj [(''NotificationType'', JStr kind), (''ComparisonOperator'', JStr ''GREATER_THAN''),
     (''Threshold'', JInt threshold), (''NotificationState'', JStr ''OK'')]"

definition budget_q :: json where
  "budget_q = JObj [(''BudgetName'', JStr budget_name), (''BudgetType'', JStr ''COST''), (''TimeUnit'', JStr ''MONTHLY''),
     (''BudgetLimit'', JObj [(''Unit'', JStr ''USD''), (''Amount'', JStr ''5.0'')]),
     (''CostFilters'', JObj [(''TagKeyValue'', JArr [JStr ''user:Project$my-local-platform''])]),
     (''CostTypes'', budget_cost_types)]"

definition quota_q :: "string \<Rightarrow> json" where
  "quota_q code = JObj [(''Quota'', JObj [(''QuotaCode'', JStr code), (''QuotaName'', JStr ''Spot''), (''Value'', JInt 8)])]"

definition zones_q :: json where
  "zones_q = JArr [JObj [(''Name'', JStr ''us-east-1a'')], JObj [(''Name'', JStr ''us-east-1b'')]]"

definition offer_q :: "string \<Rightarrow> json" where
  "offer_q zone = JObj [(''InstanceType'', JStr ''t3.medium''), (''LocationType'', JStr ''availability-zone''),
     (''Location'', JStr zone)]"

definition wrap_q :: "string \<Rightarrow> json list \<Rightarrow> json" where
  "wrap_q key values = JObj [(key, JArr values)]"

definition answers_q :: "(string \<times> json) list" where
  "answers_q =
     [(''view'', JObj [(''nameWithOwner'', JStr ''lilabrooks/my-local-platform''), (''url'', JStr ''https://github.com/x'')]),
      (''get-caller-identity'', JObj [(''Account'', JStr ''123456789012''), (''Arn'', JStr ''arn:123456789012:user'')]),
      (''get-bucket-versioning'', JObj [(''Status'', JStr ''Enabled'')]),
      (''get-bucket-encryption'', JObj [(''ServerSideEncryptionConfiguration'', wrap_q ''Rules''
         [JObj [(''ApplyServerSideEncryptionByDefault'', JObj [(''SSEAlgorithm'', JStr ''AES256'')])]])]),
      (''get-public-access-block'', JObj [(''PublicAccessBlockConfiguration'', JObj (map (\<lambda>k. (k, JBool True)) block_keys))]),
      (''describe-budget'', JObj [(''Budget'', budget_q)]),
      (''list-cost-allocation-tags'', wrap_q ''CostAllocationTags''
         [JObj [(''TagKey'', JStr ''Project''), (''Type'', JStr ''UserDefined''), (''Status'', JStr ''Active'')]]),
      (''describe-notifications-for-budget'', wrap_q ''Notifications''
         [notice_q ''ACTUAL'' 80, notice_q ''ACTUAL'' 100, notice_q ''FORECASTED'' 100]),
      (''describe-subscribers-for-notification'', wrap_q ''Subscribers''
         [JObj [(''SubscriptionType'', JStr ''EMAIL''), (''Address'', JStr ''a@example.org'')]]),
      (''eks'', wrap_q ''Quotas'' [JObj [(''QuotaName'', JStr ''Clusters''), (''QuotaCode'', JStr ''L-1''), (''Value'', JInt 9)]]),
      (''list-clusters'', wrap_q ''clusters'' []), (''kafka'', wrap_q ''Quotas'' []),
      (''list-clusters-v2'', wrap_q ''ClusterInfoList'' []),
      (''describe-account-attributes'', wrap_q ''AccountQuotas''
         [JObj [(''AccountQuotaName'', JStr ''DBInstances''), (''Max'', JInt 40), (''Used'', JInt 0)]]),
      (''L-34B43A08'', quota_q ''L-34B43A08''), (''L-0263D0A3'', quota_q ''L-0263D0A3''),
      (''describe-instances'', wrap_q ''Reservations'' []),
      (''describe-spot-instance-requests'', wrap_q ''SpotInstanceRequests'' []),
      (''describe-addresses'', wrap_q ''Addresses'' []),
      (''describe-cluster-versions'', wrap_q ''clusterVersions''
         [JObj [(''clusterVersion'', JStr ''1.36''), (''versionStatus'', JStr ''STANDARD_SUPPORT'')]]),
      (''get-parameters-by-path'', wrap_q ''Parameters'' [JObj [(''Value'', JStr ''us-east-1'')]]),
      (''describe-orderable-db-instance-options'', wrap_q ''OrderableDBInstanceOptions''
         [JObj [(''Engine'', JStr ''postgres''), (''EngineVersion'', JStr ''17.11''), (''DBInstanceClass'', JStr ''db.t4g.micro''),
            (''StorageType'', JStr ''gp3''), (''Vpc'', JBool True), (''SupportsStorageEncryption'', JBool True),
            (''AvailabilityZones'', zones_q)]]),
      (''describe-instance-type-offerings'', wrap_q ''InstanceTypeOfferings'' [offer_q ''us-east-1a'', offer_q ''us-east-1b''])]"

definition env_q :: env where
  "env_q = \<lparr>root_dir = [], files = (\<lambda>p. None), outside = (\<lambda>p q. False), loads = map_of answers_q,
     repeats = (\<lambda>s. False), decode = Some, sha256 = (\<lambda>s. s),
     answer = (\<lambda>t e. \<lparr>returncode = 0, stdout = label_q (ev_command e), stderr = []\<rparr>)\<rparr>"

definition now_q :: datetime where
  "now_q = \<lparr>yr = 2026, mo = 7, dy = 27, hh = 10, mi = 0, ss = 0\<rparr>"

definition account_q :: string where
  "account_q = ''123456789012''"

lemma returns_ok: "is_ok (fst (m w t)) \<Longrightarrow> \<exists>v u. returns m w t v u"
  by (cases "m w t") (auto simp: returns_def is_ok_iff)

text \<open>The sample answers a command whatever was asked before, so a run is evaluated step by step.\<close>

lemma fst_bind: "fst (bindIO m f w t) = (case fst (m w t) of Inl e \<Rightarrow> Inl e | Inr x \<Rightarrow> fst (f x w (snd (m w t))))"
  by (cases "m w t") (simp add: bindIO_def split: sum.splits)

lemma fst_lift: "fst (lift r w t) = r"
  by (simp add: lift_def)

lemma env_q_simps: "answer env_q t e = \<lparr>returncode = 0, stdout = label_q (ev_command e), stderr = []\<rparr>"
  "loads env_q = map_of answers_q" "decode env_q = Some"
  by (simp_all add: env_q_def)

lemma fst_text: "fst (runner_text AccountError c env_q t) = Inr (strip (label_q c))"
  by (simp add: runner_text_def runner_result_def fst_bind fst_lift call_def ask_def decode_text_def env_q_simps)

lemma fst_json: "fst (runner_json AccountError c env_q t) = (case map_of answers_q (label_q c) of
    None \<Rightarrow> raise AccountError ''{} returned invalid JSON'' [JStr (join_words c)] | Some v \<Rightarrow> Inr v)"
  by (simp add: runner_json_def runner_result_def fst_bind fst_lift call_def ask_def decode_text_def env_q_simps)

lemma fst_list: "fst (aws_list c key d env_q t) = (case map_of answers_q (label_q (''aws'' # c @ [''--output'', ''json''])) of
    None \<Rightarrow> raise AccountError ''{} returned invalid JSON'' [JStr (join_words (''aws'' # c @ [''--output'', ''json'']))]
  | Some v \<Rightarrow> list_value v key d)"
  by (simp add: aws_list_def aws_json_def fst_bind fst_json fst_lift split: option.splits)

lemmas run_q = fst_bind fst_lift fst_text fst_json fst_list aws_json_def
lemmas data_q = answers_q_def label_q_def wrap_q_def list_value_def object_value_def

lemma dec_text_int: "0 \<le> i \<Longrightarrow> dec_text (dec_of_int i) = int_str i"
  by (simp add: dec_text_def dec_of_int_def int_str_def Let_def)

lemma number_int: "0 \<le> i \<Longrightarrow> number (JInt i) d = Inr (dec_of_int i)"
  using dec_parse_text [of "dec_of_int i"]
  by (simp add: number_def py_str_def dec_text_int) (simp add: dec_of_int_def dec_lt_val dec_val_def)

lemmas numbers_q = number_int [of 9, simplified] number_int [of 40, simplified] number_int [of 8, simplified]
  number_int [of 0, simplified]

lemma service_q: "fst (service_quota ''ec2'' code env_q t) = Inr (''Spot'', dec_of_int 8)"
  if "code \<in> {''L-34B43A08'', ''L-0263D0A3''}"
  using that by (auto simp: service_quota_def run_q data_q quota_q_def check_service_quota_def numbers_q)

lemma eks_q: "fst (eks_quota env_q t) =
    Inr (quota_result ''EKS clusters'' ''L-1'' (dec_of_int 9) (count_of_list ([] :: json list)) (dec_of_int 1))"
  by (simp add: eks_quota_def run_q data_q find_eks_quota_def numbers_q starts_with_def)

lemma msk_q: "fst (msk_quota env_q t) = Inr (quota_result ''MSK Serverless clusters'' ''documented-default-limit''
    (dec_of_int 10) (count_of_list ([] :: json list)) (dec_of_int 1) @
    [(''limit_source'', account_source ''msk_quotas'')])"
  by (simp add: msk_quota_def run_q data_q msk_limit_def)

lemma rds_q: "fst (rds_quota env_q t) =
    Inr (quota_result ''RDS DB instances'' ''DBInstances'' (dec_of_int 40) (dec_of_int 0) (dec_of_int 1))"
  by (simp add: rds_quota_def run_q data_q check_rds_quota_def numbers_q)

lemma ec2_q: "fst (ec2_quotas env_q t) =
    Inr [quota_result ''Spot'' ''L-34B43A08'' (dec_of_int 8) (dec_add (dec_of_int 0) (dec_of_int 0)) (dec_of_int 6),
         quota_result ''Spot'' ''L-0263D0A3'' (dec_of_int 8) (count_of_list ([] :: json list)) (dec_of_int 1)]"
  by (simp add: ec2_quotas_def run_q spot_quota_def eip_quota_def service_q)
    (simp add: run_q service_q data_q spot_vcpu_usage_def open_spot_vcpu_usage_def)

lemma passing_q: "dec_le b (dec_sub a c) \<Longrightarrow> item_passed (quota_result n k a c b @ s)"
  by (simp add: item_passed_def quota_result_def Let_def)

lemma enough_q: "dec_le (dec_of_int 1) (dec_sub (dec_of_int 9) (count_of_list ([] :: json list)))"
  "dec_le (dec_of_int 1) (dec_sub (dec_of_int 10) (count_of_list ([] :: json list)))"
  "dec_le (dec_of_int 1) (dec_sub (dec_of_int 40) (dec_of_int 0))"
  "dec_le (dec_of_int 6) (dec_sub (dec_of_int 8) (dec_add (dec_of_int 0) (dec_of_int 0)))"
  "dec_le (dec_of_int 1) (dec_sub (dec_of_int 8) (count_of_list ([] :: json list)))"
  by code_simp+

lemma quotas_q: "\<exists>v. fst (quotas env_q t) = Inr v \<and> passed_gate v"
proof -
  have p: "item_passed (quota_result n k a c b)" if "dec_le b (dec_sub a c)" for n k a c b
    using passing_q [OF that, where s = "[]"] by simp
  have all: "passed_gate (quota_items items)" if "list_all item_passed items" for items
    using that by (simp add: quota_items_def passed_gate_def gate_json_def list_all_iff)
  show ?thesis
    unfolding quotas_def fst_bind fst_lift eks_q rds_q ec2_q msk_q sum.case
    by (intro exI conjI, rule refl, rule all)
      (simp only: list.pred_inject append_Cons append_Nil, intro conjI TrueI p passing_q enough_q)
qed

lemma clean_q: "fst (account_clean_commit (replicate 40 (CHR ''a'')) env_q t) = Inr ()"
proof -
  have "strip (replicate 40 (CHR ''a'')) = replicate 40 (CHR ''a'')" "strip [] = []" by code_simp+
  then show ?thesis by (simp add: account_clean_commit_def run_q label_q_def del: replicate.simps)
qed

lemma repository_q: "\<exists>v. fst (repository_identity env_q t) = Inr v"
  by (simp add: repository_identity_def run_q data_q check_repository_identity_def starts_with_def)

lemma identity_q: "\<exists>v. fst (aws_identity ''me'' env_q t) = Inr v \<and> jget v ''account_id'' = JStr account_q"
proof -
  have "strip ''123456789012'' = ''123456789012''" "account_shape (JStr ''123456789012'')"
    "contains_str ''arn:123456789012:user'' '':123456789012:''" by code_simp+
  then show ?thesis by (simp add: aws_identity_def run_q data_q account_q_def)
qed

lemma backend_q: "\<exists>v. fst (backend account_q env_q t) = Inr v"
proof -
  have "fst (recast AccountError e (runner_result AccountError c None) env_q t) = Inr (label_q c)" for e c t
    by (simp add: recast_def runner_result_def bindIO_def call_def lift_def env_q_simps)
  then show ?thesis
    by (simp add: backend_def bucket_object_def run_q Let_def) (simp add: data_q check_backend_def bucket_algorithms_def
        rule_algorithm_def hash_set_def hashable_def block_keys_def run_q Let_def)
qed

lemma notification_q: "fst (notification_of a (notice_q kind n) env_q t) = Inr ((JStr kind, JStr ''GREATER_THAN'',
    dec_of_int n, JStr ''PERCENTAGE''), [JObj [(''type'', JStr ''EMAIL''), (''address'', JStr ''a@example.org'')]])"
  if "n \<in> {80, 100}"
proof -
  have "number (JInt 80) d = Inr (dec_of_int 80)" "number (JInt 100) d = Inr (dec_of_int 100)" for d by code_simp+
  with that show ?thesis
    by (auto simp: notification_of_def run_q notice_q_def notification_setting_def notification_identity_def hashable_def)
      (simp_all add: run_q data_q check_subscriber_def)
qed

lemma budget_q_runs: "\<exists>v. fst (budget account_q env_q t) = Inr v"
proof -
  have limit: "check_budget_limit budget_q = Inr (Dec False 50 (- 1))" by code_simp
  have same: "same_settings [(JStr ''ACTUAL'', JStr ''GREATER_THAN'', dec_of_int 80, JStr ''PERCENTAGE''),
      (JStr ''ACTUAL'', JStr ''GREATER_THAN'', dec_of_int 100, JStr ''PERCENTAGE''),
      (JStr ''FORECASTED'', JStr ''GREATER_THAN'', dec_of_int 100, JStr ''PERCENTAGE'')] expected_notifications" by code_simp
  show ?thesis
    by (simp add: budget_def run_q) (simp add: data_q run_q limit check_allocation_tags_def expected_notifications_def
        notification_q same [unfolded expected_notifications_def])
qed

lemma availability_q: "\<exists>v. fst (availability ''us-east-1'' env_q t) = Inr v \<and> passed_gate (fst v)"
proof -
  have z: "rds_zones [JObj [(''Engine'', JStr ''postgres''), (''EngineVersion'', JStr ''17.11''), (''DBInstanceClass'', JStr ''db.t4g.micro''),
      (''StorageType'', JStr ''gp3''), (''Vpc'', JBool True), (''SupportsStorageEncryption'', JBool True),
      (''AvailabilityZones'', zones_q)]] = Inr [JStr ''us-east-1a'', JStr ''us-east-1b'']"
    "ec2_zones [offer_q ''us-east-1a'', offer_q ''us-east-1b''] = Inr [JStr ''us-east-1a'', JStr ''us-east-1b'']"
    "hash_set [JStr ''us-east-1''] = Inr [JStr ''us-east-1'']"
    by code_simp+
  have i: "\<exists>items. availability_items ''us-east-1'' True True [JStr ''us-east-1a'', JStr ''us-east-1b'']
      [JStr ''us-east-1a'', JStr ''us-east-1b''] = Inr items \<and> passed_gate (availability_json items)"
    by (simp add: availability_items_def sorted_values_def availability_json_def passed_gate_def gate_json_def
        item_passed_def covers_azs_def fixed_azs_def msk_serverless_regions_def)
  show ?thesis
    using i by (auto simp: availability_def run_q Let_def eks_version_def rds_engine_version_def)
      (auto simp: data_q z supported_version_def eks_version_def run_q)
qed

theorem budget_alerts_somebody_witness:
  "\<exists>v. jget v ''notification_count'' = JInt 3 \<and> 3 \<le> length (items_of (jget v ''subscribers''))"
proof -
  obtain v u where "returns (budget account_q) env_q [] v u"
    using returns_ok [where m = "budget account_q" and w = env_q and t = "[]"] budget_q_runs by (auto simp: is_ok_iff)
  from budget_alerts_somebody [OF this] show ?thesis by blast
qed

lemma collect_q:
  "\<exists>receipt u. returns (collect_account ''20260727T100000Z'' (replicate 40 (CHR ''a'')) ''me'' ''us-east-1'' now_q)
     env_q [] receipt u \<and> passed_gate receipt"
proof -
  let ?run = "collect_account ''20260727T100000Z'' (replicate 40 (CHR ''a'')) ''me'' ''us-east-1'' now_q"
  obtain repository where 1: "fst (repository_identity env_q t) = Inr (repository t)" for t
    using repository_q by metis
  obtain identity where 2: "fst (aws_identity ''me'' env_q t) = Inr (identity t)"
      "jget (identity t) ''account_id'' = JStr account_q" for t
    using identity_q by metis
  obtain quota where 3: "fst (quotas env_q t) = Inr (quota t)" "passed_gate (quota t)" for t
    using quotas_q by metis
  obtain state where 4: "fst (backend account_q env_q t) = Inr (state t)" for t
    using backend_q by metis
  obtain money where 5: "fst (budget account_q env_q t) = Inr (money t)" for t
    using budget_q_runs by metis
  obtain available where 6: "fst (availability ''us-east-1'' env_q t) = Inr (available t)" "passed_gate (fst (available t))" for t
    using availability_q by metis
  have "\<exists>receipt. fst (?run env_q []) = Inr receipt \<and> passed_gate receipt"
    unfolding collect_account_def Let_def fst_bind
    by (simp add: fst_lift expected_region_def clean_q 1 2 3 4 5 6 account_receipt_def passed_gate_def gate_json_def
        fst_bind del: replicate.simps) (use 3(2) 6(2) in \<open>simp add: passed_gate_def\<close>)
  then show ?thesis unfolding returns_def by (metis prod.collapse)
qed

theorem account_receipt_accepted_witness:
  "\<exists>receipt. check_identity receipt (instant now_q) = Inr () \<and> check_quota_evidence receipt = Inr ()"
proof -
  obtain receipt u where r: "returns (collect_account ''20260727T100000Z'' (replicate 40 (CHR ''a'')) ''me'' ''us-east-1'' now_q)
      env_q [] receipt u" "passed_gate receipt"
    using collect_q by blast
  from r(1)
  have "check_identity receipt (instant now_q) = Inr () \<and> check_quota_evidence receipt = Inr ()"
    by (rule account_receipt_accepted)
      (simp_all add: r full_year_def valid_time_def now_q_def days_in_month_def strip_def is_space_def minutes_def one_day_def)
  then show ?thesis ..
qed

end
