(* ===== verification/Evidence_Scan.thy ===== *)
theory Evidence_Scan
  imports Evidence_Receipts "HOL-Library.Multiset_Order"
begin

text \<open>
  The search for credentials in \<open>scripts/m4-evidence.py\<close> (\<open>scan_secret_bytes\<close>,
  \<open>scan_secret_files\<close>): every window of a file, of the strings in its JSON lines and of the
  base64 fields of its Kafka records is hashed and compared with the digests of the scan
  receipt. The bytes are those below 256, a string has one character for each code point.
\<close>

section \<open>Bytes\<close>

text \<open>\<open>str.encode()\<close>: UTF-8 of code points below 256.\<close>

definition utf8_char :: "char \<Rightarrow> string" where
  "utf8_char c =
     (let n = of_char c :: nat in
      if n < 128 then [c] else [char_of (192 + n div 64), char_of (128 + n mod 64)])"

definition utf8_encode :: "string \<Rightarrow> string" where
  "utf8_encode s = concat (map utf8_char s)"

definition carriage_return :: char where
  "carriage_return = CHR 0x0D"

text \<open>\<open>bytes.splitlines()\<close>: a line ends with LF, CR or CR LF.\<close>

fun split_lines :: "string \<Rightarrow> string \<Rightarrow> string list" where
  "split_lines acc [] = (if acc = [] then [] else [acc])"
| "split_lines acc (c # s) =
     (if c = newline then acc # split_lines [] s
      else if c = carriage_return then acc # split_lines [] (if s \<noteq> [] \<and> hd s = newline then tl s else s)
      else split_lines (acc @ [c]) s)"

text \<open>\<open>^\[pod/[^\]\r\n]{1,512}\]\s*\<close> removed from the front of a line.\<close>

definition strip_pod :: "string \<Rightarrow> string" where
  "strip_pod s =
     (let r = drop 5 s; plain = (\<lambda>c. c \<notin> {CHR '']'', newline, carriage_return});
          name = takeWhile plain r; rest = dropWhile plain r in
      if take 5 s = ''[pod/'' \<and> 1 \<le> length name \<and> length name \<le> 512 \<and> rest \<noteq> [] \<and> hd rest = CHR '']''
      then dropWhile is_space (tl rest) else s)"

definition base64_alphabet :: string where
  "base64_alphabet = ''ABCDEFGHIJKLMNOPQRSTUVWXYZabcdefghijklmnopqrstuvwxyz0123456789+/''"

definition in_base64 :: "char \<Rightarrow> bool" where
  "in_base64 c \<longleftrightarrow> c \<in> set base64_alphabet"

definition base64_val :: "char \<Rightarrow> nat" where
  "base64_val c = length (takeWhile (\<lambda>d. d \<noteq> c) base64_alphabet)"

definition base64_bytes :: "char \<Rightarrow> char \<Rightarrow> char \<Rightarrow> char \<Rightarrow> string" where
  "base64_bytes a b c d =
     (let n = ((base64_val a * 64 + base64_val b) * 64 + base64_val c) * 64 + base64_val d in
      [char_of (n div 65536), char_of (n div 256 mod 256), char_of (n mod 256)])"

text \<open>\<open>base64.b64decode(s, validate=True)\<close>; \<open>None\<close> is \<open>ValueError\<close>.\<close>

fun base64_decode :: "string \<Rightarrow> string option" where
  "base64_decode [] = Some []"
| "base64_decode (a # b # c # d # s) =
     (if in_base64 a \<and> in_base64 b \<and> c = CHR ''='' \<and> d = CHR ''='' \<and> s = []
      then Some (take 1 (base64_bytes a b (CHR ''A'') (CHR ''A'')))
      else if in_base64 a \<and> in_base64 b \<and> in_base64 c \<and> d = CHR ''='' \<and> s = []
      then Some (take 2 (base64_bytes a b c (CHR ''A'')))
      else if in_base64 a \<and> in_base64 b \<and> in_base64 c \<and> in_base64 d
      then (case base64_decode s of None \<Rightarrow> None | Some t \<Rightarrow> Some (base64_bytes a b c d @ t))
      else None)"
| "base64_decode s = None"

section \<open>Windows\<close>

text \<open>The digests of the scan by their length, in the order of the first entry of a length.\<close>

type_synonym digests = "(int \<times> (string \<times> json) list) list"

definition add_digest :: "digests \<Rightarrow> json \<Rightarrow> digests" where
  "add_digest by_length e =
     (let n = int_of (jget e ''byte_length'');
          known = (case map_of by_length n of None \<Rightarrow> [] | Some ds \<Rightarrow> ds) in
      al_set by_length n (al_set known (str_of (jget e ''sha256'')) (jget e ''name'')))"

definition digests_of :: "json \<Rightarrow> digests" where
  "digests_of scan = foldl add_digest [] (items_of (jget scan ''entries''))"

definition window :: "string \<Rightarrow> nat \<Rightarrow> nat \<Rightarrow> string" where
  "window v start n = take n (drop start v)"

definition window_starts :: "string \<Rightarrow> int \<Rightarrow> nat list" where
  "window_starts v n = [0..<nat (int (length v) - n + 1)]"

definition check_window :: "env \<Rightarrow> string \<Rightarrow> string \<Rightarrow> int \<Rightarrow> (string \<times> json) list \<Rightarrow> nat \<Rightarrow> unit res" where
  "check_window w filename v n ds start =
     (case map_of ds (sha256 w (window v start (nat n))) of
        None \<Rightarrow> Inr ()
      | Some name \<Rightarrow> raise EvidenceError ''credential match {} in {}'' [name, JStr filename])"

definition check_windows :: "env \<Rightarrow> string \<Rightarrow> digests \<Rightarrow> string \<Rightarrow> unit res" where
  "check_windows w filename by_length v =
     foldE (\<lambda>u nd. foldE (\<lambda>u start. check_window w filename v (fst nd) (snd nd) start) ()
       (window_starts v (fst nd))) () by_length"

section \<open>Carriers\<close>

text \<open>
  The strings and the Kafka byte fields of a JSON value. The values still to visit are a
  stack: those of a dict come before its keys, the last one first.
\<close>

definition kafka_fields :: "string list" where
  "kafka_fields = [''key'', ''value'', ''raw_value'']"

definition is_record :: "json \<Rightarrow> bool" where
  "is_record v \<longleftrightarrow> list_all (has_key v) [''topic'', ''partition'', ''offset'']"

definition kafka_carrier :: "nat \<Rightarrow> json \<Rightarrow> string \<Rightarrow> string list res" where
  "kafka_carrier depth item k =
     (let encoded = jget item k in
      if encoded = JNull then Inr []
      else
        bindE (ensure (is_str encoded) (Err EvidenceError ''invalid Kafka byte carrier'' [])) (\<lambda>_.
        bindE (ensure (\<not> 4 \<le> depth) (Err EvidenceError ''Kafka carrier exceeds secret scan depth limit'' [])) (\<lambda>_.
        case base64_decode (str_of encoded) of
          None \<Rightarrow> raise EvidenceError ''invalid Kafka base64 carrier'' []
        | Some b \<Rightarrow> Inr [b])))"

definition item_carriers :: "nat \<Rightarrow> json \<Rightarrow> string list res" where
  "item_carriers depth item =
     (if is_str item then Inr [utf8_encode (str_of item)]
      else if is_dict item \<and> is_record item
      then bindE (mapE (kafka_carrier depth item) kafka_fields) (\<lambda>bs. Inr (concat bs))
      else Inr [])"

definition parts :: "json \<Rightarrow> json list" where
  "parts item =
     (case item of
        JObj ps \<Rightarrow> rev (map snd ps) @ rev (map (\<lambda>p. JStr (fst p)) ps)
      | JArr xs \<Rightarrow> rev xs
      | _ \<Rightarrow> [])"

fun weight :: "json \<Rightarrow> nat" where
  "weight (JArr xs) = Suc (sum_list (map weight xs))"
| "weight (JObj ps) = Suc (sum_list (map (\<lambda>p. Suc (weight (snd p))) ps))"
| "weight _ = 1"

lemma weight_pos [simp]: "0 < weight v"
  by (cases v) simp_all

lemma sum_list_Suc: "sum_list (map (\<lambda>p. Suc (f p)) ps) = length ps + sum_list (map f ps)"
  by (induction ps) simp_all

lemma weight_parts: "sum_list (map weight (parts v)) < weight v"
proof (cases v)
  case (JObj ps)
  have "sum_list (map weight (rev (map (\<lambda>p. JStr (fst p)) ps))) = length ps" for ps :: obj
    by (induction ps) simp_all
  with JObj show ?thesis
    by (simp add: parts_def sum_list_Suc rev_map [symmetric] comp_def)
qed (simp_all add: parts_def rev_map [symmetric])

text \<open>The carriers found below the values on the stack, in the order in which they are appended.\<close>

function carriers :: "nat \<Rightarrow> json list \<Rightarrow> string list res" where
  "carriers depth [] = Inr []"
| "carriers depth (item # objects) =
     bindE (item_carriers depth item) (\<lambda>found.
     bindE (carriers depth (parts item @ objects)) (\<lambda>more. Inr (found @ more)))"
  by pat_completeness auto

termination
  by (relation "measure (\<lambda>(d, objects). sum_list (map weight objects))") (use weight_parts in auto)

definition line_carriers :: "env \<Rightarrow> nat \<Rightarrow> string \<Rightarrow> string list res" where
  "line_carriers w depth line =
     (case decode w (strip_pod line) of
        None \<Rightarrow> Inr []
      | Some t \<Rightarrow>
          if repeats w t then raise EvidenceError ''duplicate JSON object key'' []
          else case loads w t of
            None \<Rightarrow> Inr []
          | Some v \<Rightarrow>
              bindE (ensure (\<not> (4 \<le> depth \<and> (is_dict v \<or> is_list v \<or> is_str v)))
                (Err EvidenceError ''JSON carrier exceeds secret scan depth limit'' [])) (\<lambda>_.
                carriers depth [v]))"

definition value_carriers :: "env \<Rightarrow> nat \<Rightarrow> string \<Rightarrow> string list res" where
  "value_carriers w depth v =
     bindE (mapE (line_carriers w depth) (v # split_lines [] v)) (\<lambda>found. Inr (concat found))"

section \<open>The search\<close>

text \<open>Carriers are found only above depth 4, so every value that is put on the stack lies deeper than its source.\<close>

lemma carriers_atom: "\<not> is_dict v \<Longrightarrow> \<not> is_list v \<Longrightarrow> \<not> is_str v \<Longrightarrow> carriers d [v] = Inr []"
  by (cases v) (simp_all add: item_carriers_def parts_def)

lemma carriers_depth:
  assumes "value_carriers w depth v = Inr bs" and "bs \<noteq> []"
  shows "depth < 4"
proof (rule ccontr)
  assume "\<not> depth < 4"
  then have d: "4 \<le> depth" by simp
  have "line_carriers w depth line = Inr cs \<Longrightarrow> cs = []" for line cs
    using d by (auto simp: line_carriers_def bindE_eq_Inr carriers_atom simp del: carriers.simps split: option.splits if_splits)
  with assms show False by (fastforce simp: value_carriers_def bindE_eq_Inr mapE_eq_Inr list_all2_conv_all_nth in_set_conv_nth)
qed

definition depths :: "(string \<times> nat) list \<Rightarrow> nat multiset" where
  "depths pending = mset (map (\<lambda>vd. 4 - snd vd) pending)"

definition scan_limit :: nat where
  "scan_limit = 32 * 1024 * 1024"

definition pushed :: "nat \<Rightarrow> string list \<Rightarrow> (string \<times> nat) list" where
  "pushed depth bs = rev (map (\<lambda>b. (b, Suc depth)) bs)"

lemma depths_pushed:
  assumes "bs \<noteq> [] \<Longrightarrow> d < 4"
  shows "depths (pushed d bs @ pending) < depths ((v, d) # pending)"
proof -
  have "n \<in># depths (pushed d bs) \<Longrightarrow> n < 4 - d" for n
    using assms by (cases "bs = []") (auto simp: depths_def pushed_def)
  then have "depths pending + depths (pushed d bs) < depths pending + {# 4 - d #}"
    by (intro mset_lt_single_right_iff [THEN iffD2] add_strict_left_mono) auto
  then show ?thesis by (simp add: depths_def add.commute)
qed

function scan_pending ::
  "env \<Rightarrow> string \<Rightarrow> digests \<Rightarrow> (string \<times> nat) list \<Rightarrow> string list \<Rightarrow> nat \<Rightarrow> unit res" where
  "scan_pending w filename ds [] scanned used = Inr ()"
| "scan_pending w filename ds ((v, depth) # pending) scanned used =
     (if v \<in> set scanned then scan_pending w filename ds pending scanned used
      else
        bindE (ensure (\<not> scan_limit < used + length v)
          (Err EvidenceError ''decoded secret scan size limit exceeded'' [])) (\<lambda>_.
        bindE (check_windows w filename ds v) (\<lambda>_.
        bindE (value_carriers w depth v) (\<lambda>bs.
          scan_pending w filename ds (pushed depth bs @ pending) (v # scanned) (used + length v)))))"
  by pat_completeness auto

termination
proof (relation "inv_image {(x, y). x < y} (\<lambda>(w, f, ds, pending, scanned, used). depths pending)")
  show "wf (inv_image {(x, y). x < y} (\<lambda>(w :: env, f :: string, ds :: digests, pending, scanned :: string list, used :: nat). depths pending))"
    by (intro wf_inv_image wf)
qed (auto intro: depths_pushed carriers_depth, simp add: depths_def)

definition scan_secret_bytes :: "env \<Rightarrow> string \<Rightarrow> json \<Rightarrow> string \<Rightarrow> unit res" where
  "scan_secret_bytes w content scan filename =
     bindE (ensure (\<not> max_evidence_bytes < length content)
       (Err EvidenceError ''secret scan size limit exceeded: {}'' [JStr filename])) (\<lambda>_.
     scan_pending w filename (digests_of scan) [(content, 0)] [] 0)"

text \<open>\<open>Path(name).suffix == ".png"\<close>: the name has more than the suffix.\<close>

definition is_png :: "string \<Rightarrow> bool" where
  "is_png name \<longleftrightarrow> ends_with name ''.png'' \<and> 4 < length name"

definition scan_secret_file :: "env \<Rightarrow> path \<Rightarrow> json \<Rightarrow> string \<Rightarrow> unit res" where
  "scan_secret_file w directory scan name =
     (let path = directory @ [name] in
      if is_png name then Inr ()
      else
        bindE (ensure (\<not> is_symlink w path \<and> is_file w path \<and> file_size w path \<le> max_evidence_bytes)
          (Err EvidenceError ''secret scan input is missing or unsafe: {}'' [JStr name])) (\<lambda>_.
        bindE (read_bytes w path) (\<lambda>b.
        case b of None \<Rightarrow> py_raise OSError | Some content \<Rightarrow> scan_secret_bytes w content scan name)))"

definition scan_secret_files :: "env \<Rightarrow> path \<Rightarrow> string list \<Rightarrow> json \<Rightarrow> unit res" where
  "scan_secret_files w directory names scan = foldE (\<lambda>u name. scan_secret_file w directory scan name) () names"

end
