(* ===== verification/Evidence_Scan_Correct.thy ===== *)
theory Evidence_Scan_Correct
  imports Evidence_Scan
begin

text \<open>
  A file that passes the search carries no credential: neither its bytes, nor a string of one
  of its JSON lines, nor a base64 field of a Kafka record in one, to any depth of nesting, has
  a window with the digest of a credential.
\<close>

section \<open>What a file carries\<close>

inductive inside :: "json \<Rightarrow> json \<Rightarrow> bool" for u where
  here: "inside u u"
| item: "inside u (JArr xs) \<Longrightarrow> x \<in> set xs \<Longrightarrow> inside u x"
| member: "inside u (JObj ps) \<Longrightarrow> (k, x) \<in> set ps \<Longrightarrow> inside u x"
| name: "inside u (JObj ps) \<Longrightarrow> (k, x) \<in> set ps \<Longrightarrow> inside u (JStr k)"

definition json_line :: "env \<Rightarrow> string \<Rightarrow> json option" where
  "json_line w line = (case decode w (strip_pod line) of None \<Rightarrow> None | Some t \<Rightarrow> loads w t)"

text \<open>The bytes one step further inside of a value.\<close>

inductive opens :: "env \<Rightarrow> string \<Rightarrow> string \<Rightarrow> bool" for w v where
  plain: "line \<in> set (v # split_lines [] v) \<Longrightarrow> json_line w line = Some j \<Longrightarrow> inside j (JStr s) \<Longrightarrow>
    opens w v (utf8_encode s)"
| kafka: "line \<in> set (v # split_lines [] v) \<Longrightarrow> json_line w line = Some j \<Longrightarrow> inside j (JObj ps) \<Longrightarrow>
    is_record (JObj ps) \<Longrightarrow> k \<in> set kafka_fields \<Longrightarrow> jget (JObj ps) k = JStr s \<Longrightarrow>
    base64_decode s = Some b \<Longrightarrow> opens w v b"

definition carried :: "env \<Rightarrow> string \<Rightarrow> string \<Rightarrow> bool" where
  "carried w content v \<longleftrightarrow> (opens w)\<^sup>*\<^sup>* content v"

section \<open>One value\<close>

lemma inside_parts:
  assumes "inside u x"
  shows "x = u \<or> (\<exists>p \<in> set (parts u). inside p x)"
  using assms
proof induction
  case (item xs x)
  then show ?case by (auto simp: parts_def intro: inside.intros)
next
  case (member ps k x)
  then show ?case by (force simp: parts_def intro: inside.intros)
next
  case (name ps k x)
  then show ?case by (force simp: parts_def intro: inside.intros)
qed simp

lemma carriers_cover:
  assumes "carriers d objects = Inr bs" and "u \<in> set objects" and "inside u x"
  shows "\<exists>found. item_carriers d x = Inr found \<and> set found \<subseteq> set bs"
  using assms
proof (induction d objects arbitrary: bs u rule: carriers.induct)
  case (2 d item objects)
  from "2.prems"(1) obtain found more where found: "item_carriers d item = Inr found"
    and more: "carriers d (parts item @ objects) = Inr more" and bs: "bs = found @ more"
    by (auto simp: bindE_eq_Inr)
  show ?case
  proof (cases "x = item")
    case True
    with found bs show ?thesis by auto
  next
    case False
    with "2.prems"(2,3) inside_parts obtain p where "p \<in> set (parts item @ objects)" "inside p x" by fastforce
    with "2.IH" [OF found more] bs show ?thesis by fastforce
  qed
qed simp

lemma carriers_string:
  assumes "carriers d [j] = Inr bs" and "inside j (JStr s)"
  shows "utf8_encode s \<in> set bs"
  using carriers_cover [OF assms(1) _ assms(2)] by (auto simp: item_carriers_def)

lemma carriers_kafka:
  assumes "carriers d [j] = Inr bs" and "inside j (JObj ps)" and "is_record (JObj ps)"
    and "k \<in> set kafka_fields" and "jget (JObj ps) k = JStr s" and "base64_decode s = Some b"
  shows "b \<in> set bs"
proof -
  from carriers_cover [OF assms(1) _ assms(2)] obtain found where found: "item_carriers d (JObj ps) = Inr found"
    "set found \<subseteq> set bs" by auto
  with assms(3) obtain bss where bss: "mapE (kafka_carrier d (JObj ps)) kafka_fields = Inr bss" "found = concat bss"
    by (auto simp: item_carriers_def bindE_eq_Inr)
  with assms(4) obtain cs where cs: "kafka_carrier d (JObj ps) k = Inr cs" "cs \<in> set bss"
    by (auto simp: mapE_eq_Inr dest: list_all2_set1)
  with assms(5,6) have "b \<in> set cs"
    by (auto simp: kafka_carrier_def Let_def bindE_eq_Inr)
  with cs bss found show ?thesis by auto
qed

lemma opens_carriers:
  assumes "value_carriers w d v = Inr bs" and "opens w v b"
  shows "b \<in> set bs"
proof -
  from assms(1) obtain found where found: "mapE (line_carriers w d) (v # split_lines [] v) = Inr found"
    and bs: "bs = concat found" by (auto simp: value_carriers_def bindE_eq_Inr)
  have line: "\<exists>cs \<in> set found. carriers d [j] = Inr cs"
    if line: "line \<in> set (v # split_lines [] v)" and "json_line w line = Some j" for line j
  proof -
    from found line obtain cs where "line_carriers w d line = Inr cs" "cs \<in> set found"
      by (auto simp only: mapE_eq_Inr dest: list_all2_set1)
    with that(2) show ?thesis
      by (auto simp: line_carriers_def json_line_def bindE_eq_Inr simp del: carriers.simps split: option.splits if_splits)
  qed
  from assms(2) show ?thesis
  proof cases
    case (plain line j s)
    with line [of line j] show ?thesis by (auto simp: bs simp del: carriers.simps dest: carriers_string)
  next
    case (kafka line j ps k s)
    with line [of line j] show ?thesis by (auto simp: bs simp del: carriers.simps dest: carriers_kafka)
  qed
qed

section \<open>The whole search\<close>

definition clean :: "env \<Rightarrow> digests \<Rightarrow> string \<Rightarrow> bool" where
  "clean w ds v \<longleftrightarrow> (\<forall>(n, known) \<in> set ds. \<forall>start \<in> set (window_starts v n).
     map_of known (sha256 w (window v start (nat n))) = None)"

lemma check_windows_clean: "check_windows w f ds v = Inr () \<longleftrightarrow> clean w ds v"
proof -
  have "check_window w f v n known start = Inr () \<longleftrightarrow> map_of known (sha256 w (window v start (nat n))) = None"
    for n known start
    by (simp add: check_window_def split: option.splits)
  then show ?thesis by (simp add: check_windows_def foldE_unit clean_def split_beta)
qed

lemma scan_pending_closed:
  assumes "scan_pending w f ds pending scanned used = Inr ()"
    and "\<And>v. v \<in> set scanned \<Longrightarrow> clean w ds v \<and> (\<forall>b. opens w v b \<longrightarrow> b \<in> set scanned \<union> fst ` set pending)"
  shows "\<exists>all. set scanned \<union> fst ` set pending \<subseteq> all \<and> (\<forall>v \<in> all. clean w ds v \<and> (\<forall>b. opens w v b \<longrightarrow> b \<in> all))"
  using assms
proof (induction w f ds pending scanned used rule: scan_pending.induct)
  case (1 w f ds scanned used)
  then show ?case by (intro exI [of _ "set scanned"]) auto
next
  case (2 w f ds v d pending scanned used)
  show ?case
  proof (cases "v \<in> set scanned")
    case True
    have same: "set scanned \<union> fst ` set ((v, d) # pending) = set scanned \<union> fst ` set pending" using True by auto
    have "scan_pending w f ds pending scanned used = Inr ()" using "2.prems"(1) True by simp
    from "2.IH"(1) [OF True this] "2.prems"(2) show ?thesis unfolding same by blast
  next
    case False
    with "2.prems"(1) obtain bs where ok: "\<not> scan_limit < used + length v" "clean w ds v"
      and bs: "value_carriers w d v = Inr bs"
      and rest: "scan_pending w f ds (pushed d bs @ pending) (v # scanned) (used + length v) = Inr ()"
      by (auto simp: bindE_eq_Inr check_windows_clean)
    have pushed: "fst ` set (pushed d bs) = set bs" by (force simp: pushed_def)
    have "\<exists>all. set (v # scanned) \<union> fst ` set (pushed d bs @ pending) \<subseteq> all \<and>
        (\<forall>v \<in> all. clean w ds v \<and> (\<forall>b. opens w v b \<longrightarrow> b \<in> all))"
    proof (rule "2.IH"(2) [OF False _ _ bs rest])
      show "ensure (\<not> scan_limit < used + length v) (Err EvidenceError ''decoded secret scan size limit exceeded'' []) = Inr ()"
        using ok(1) by simp
      show "check_windows w f ds v = Inr ()" using ok(2) by (simp add: check_windows_clean)
      fix u
      assume u: "u \<in> set (v # scanned)"
      have set: "set (v # scanned) \<union> fst ` set (pushed d bs @ pending) =
          insert v (set scanned) \<union> set bs \<union> fst ` set pending"
        using pushed by (simp add: image_Un Un_assoc)
      show "clean w ds u \<and> (\<forall>b. opens w u b \<longrightarrow> b \<in> set (v # scanned) \<union> fst ` set (pushed d bs @ pending))"
      proof (cases "u = v")
        case True
        with ok(2) opens_carriers [OF bs] show ?thesis unfolding set by blast
      next
        case False
        with u "2.prems"(2) [of u] show ?thesis unfolding set by auto
      qed
    qed
    moreover have "set scanned \<union> fst ` set ((v, d) # pending) \<subseteq>
        set (v # scanned) \<union> fst ` set (pushed d bs @ pending)"
      by auto
    ultimately show ?thesis by (meson subset_trans)
  qed
qed

lemma digest_known:
  assumes "e \<in> set es"
  shows "\<exists>known. map_of (foldl add_digest ds es) (int_of (jget e ''byte_length'')) = Some known \<and>
    map_of known (str_of (jget e ''sha256'')) \<noteq> None"
  using assms
proof (induction es rule: rev_induct)
  case (snoc x es)
  show ?case
  proof (cases "e \<in> set es")
    case True
    with snoc.IH show ?thesis by (auto simp: add_digest_def Let_def split: option.splits)
  next
    case False
    with snoc.prems show ?thesis by (auto simp: add_digest_def Let_def split: option.splits)
  qed
qed simp

lemma scan_complete:
  assumes "scan_secret_bytes w content scan filename = Inr ()" and "carried w content v"
    and "e \<in> set (items_of (jget scan ''entries''))" and "int_of (jget e ''byte_length'') = int n"
    and "start + n \<le> length v"
  shows "sha256 w (window v start n) \<noteq> str_of (jget e ''sha256'')"
proof -
  from assms(1) have "scan_pending w filename (digests_of scan) [(content, 0)] [] 0 = Inr ()"
    by (auto simp: scan_secret_bytes_def bindE_eq_Inr)
  from scan_pending_closed [OF this] obtain all where content: "content \<in> all"
    and all: "\<And>v. v \<in> all \<Longrightarrow> clean w (digests_of scan) v" "\<And>v b. v \<in> all \<Longrightarrow> opens w v b \<Longrightarrow> b \<in> all"
    by auto
  from assms(2) have "v \<in> all"
    unfolding carried_def by (induction rule: rtranclp_induct) (auto intro: content all(2))
  with all(1) have "clean w (digests_of scan) v" by blast
  moreover obtain known where "map_of (digests_of scan) (int n) = Some known"
    and "map_of known (str_of (jget e ''sha256'')) \<noteq> None"
    using digest_known [OF assms(3), of "[]"] assms(4) unfolding digests_of_def by auto
  moreover from this have "(int n, known) \<in> set (digests_of scan)" by (auto dest: map_of_SomeD)
  moreover have "start \<in> set (window_starts v (int n))" using assms(5) by (simp add: window_starts_def)
  ultimately show ?thesis unfolding clean_def by fastforce
qed


text \<open>A log line with a string and a Kafka record with the base64 text of \<open>hi\<close>, in a list.\<close>

definition record_s :: json where
  "record_s = JObj [(''topic'', JStr ''t''), (''partition'', JInt 0), (''offset'', JInt 0), (''value'', JStr ''aGk='')]"

definition env_s :: env where
  "env_s = \<lparr>root_dir = [], files = (\<lambda>p. None), outside = (\<lambda>p q. False),
     loads = (\<lambda>t. if t = ''J'' then Some (JArr [JStr ''hello'', record_s]) else None),
     repeats = (\<lambda>t. False), decode = Some, sha256 = (\<lambda>t. t),
     answer = (\<lambda>t e. \<lparr>returncode = 0, stdout = [], stderr = []\<rparr>)\<rparr>"

definition scan_s :: json where
  "scan_s = JObj [(''entries'', JArr [JObj [(''name'', JStr ''SIGNING_SECRET''), (''byte_length'', JInt 2), (''sha256'', JStr ''ho'')]])]"

lemma digests_s: "digests_of scan_s = [(2, [(''ho'', JStr ''SIGNING_SECRET'')])]"
  by code_simp

lemma windows_s: "list_all (\<lambda>v. check_windows env_s ''f'' [(2, [(''ho'', JStr ''SIGNING_SECRET'')])] v = Inr ())
    [''J'', ''hello'', ''hi'', ''topic'', ''partition'', ''offset'', ''value'', ''t'', ''aGk='']"
  by code_simp

lemma text_s: "list_all (\<lambda>v. utf8_encode v = v)
    [''hello'', ''topic'', ''partition'', ''offset'', ''value'', ''t'', ''aGk='']"
  "split_lines [] ''J'' = [''J'']" "strip_pod ''J'' = ''J''"
  by code_simp+

lemma base64_s: "base64_decode ''aGk='' = Some ''hi''"
  by (simp add: in_base64_def base64_alphabet_def base64_bytes_def base64_val_def char_of_def bit_iff_odd)

lemma record_s_carriers: "item_carriers 0 record_s = Inr [''hi'']"
  by (simp add: item_carriers_def record_s_def is_record_def kafka_fields_def kafka_carrier_def base64_s
      del: base64_decode.simps)

lemma string_carriers: "item_carriers d (JStr t) = Inr [utf8_encode t]" "parts (JStr t) = []" "parts (JInt i) = []"
  "item_carriers d (JInt i) = Inr []" "item_carriers d (JArr xs) = Inr []"
  by (simp_all add: item_carriers_def parts_def)

lemma json_s_carriers: "carriers 0 [JArr [JStr ''hello'', record_s]] =
    Inr [''hi'', ''aGk='', ''t'', ''value'', ''offset'', ''partition'', ''topic'', ''hello'']"
proof -
  have "parts record_s = [JStr ''aGk='', JInt 0, JInt 0, JStr ''t'', JStr ''value'', JStr ''offset'',
      JStr ''partition'', JStr ''topic'']" by (simp add: parts_def record_s_def)
  moreover have "parts (JArr [JStr ''hello'', record_s]) = [record_s, JStr ''hello'']" by (simp add: parts_def)
  ultimately show ?thesis using text_s(1) by (simp add: string_carriers record_s_carriers)
qed

lemma env_s_fields: "decode env_s = Some" "repeats env_s = (\<lambda>t. False)" "sha256 env_s = (\<lambda>t. t)"
  "loads env_s = (\<lambda>t. if t = ''J'' then Some (JArr [JStr ''hello'', record_s]) else None)"
  by (simp_all add: env_s_def)

lemma carriers_s: "value_carriers env_s 0 ''J'' =
    Inr [''hi'', ''aGk='', ''t'', ''value'', ''offset'', ''partition'', ''topic'', ''hello'',
         ''hi'', ''aGk='', ''t'', ''value'', ''offset'', ''partition'', ''topic'', ''hello'']"
proof -
  have "line_carriers env_s 0 ''J'' =
      Inr [''hi'', ''aGk='', ''t'', ''value'', ''offset'', ''partition'', ''topic'', ''hello'']"
    by (simp add: line_carriers_def env_s_fields text_s(3) json_s_carriers del: carriers.simps)
  then show ?thesis by (simp add: value_carriers_def text_s(2) del: split_lines.simps)
qed

lemma no_carriers_s: "list_all (\<lambda>v. value_carriers env_s 1 v = Inr [])
    [''hello'', ''hi'', ''topic'', ''partition'', ''offset'', ''value'', ''t'', ''aGk='']"
proof -
  have "list_all (\<lambda>v. strip_pod v = v \<and> split_lines [] v = [v])
      [''hello'', ''hi'', ''topic'', ''partition'', ''offset'', ''value'', ''t'', ''aGk='']" by code_simp
  then show ?thesis by (simp add: value_carriers_def line_carriers_def env_s_fields del: split_lines.simps)
qed

lemma scan_s_clean: "scan_secret_bytes env_s ''J'' scan_s ''f'' = Inr ()"
  using windows_s no_carriers_s carriers_s
  by (simp add: scan_secret_bytes_def max_evidence_bytes_def scan_limit_def digests_s pushed_def)

lemma carried_s: "carried env_s ''J'' ''hi''"
proof -
  have line: "json_line env_s ''J'' = Some (JArr [JStr ''hello'', record_s])"
    using text_s(3) by (simp add: json_line_def env_s_fields)
  have "inside (JArr [JStr ''hello'', record_s]) record_s" by (rule inside.item [OF inside.here]) simp
  then have inside: "inside (JArr [JStr ''hello'', record_s]) (JObj [(''topic'', JStr ''t''), (''partition'', JInt 0),
      (''offset'', JInt 0), (''value'', JStr ''aGk='')])"
    by (simp add: record_s_def)
  have "opens env_s ''J'' ''hi''"
    by (rule opens.kafka [OF _ line inside, where k = "''value''" and s = "''aGk=''"])
      (simp_all add: is_record_def kafka_fields_def text_s base64_s del: base64_decode.simps split_lines.simps)
  then show ?thesis by (simp add: carried_def)
qed


end
