(* ===== verification/Evidence_Png.thy ===== *)
theory Evidence_Png
  imports Evidence_Receipts "HOL-Library.Word"
begin

unbundle bit_operations_syntax

text \<open>
  The screenshots of \<open>scripts/m4-evidence.py\<close> (\<open>validate_png\<close>): a PNG file is read chunk by
  chunk, with the length and the CRC-32 of each chunk checked. \<open>zlib.decompress\<close> is a
  parameter. The check accepts exactly the well-formed files with readable, large enough
  image data.
\<close>

section \<open>Numbers in the file\<close>

text \<open>\<open>struct.unpack(">I", s)\<close> of four bytes, and its inverse.\<close>

definition unpack32 :: "string \<Rightarrow> nat" where
  "unpack32 s = foldl (\<lambda>n c. n * 256 + of_char c) 0 s"

definition pack32 :: "nat \<Rightarrow> string" where
  "pack32 n = map char_of [n div 16777216, n div 65536 mod 256, n div 256 mod 256, n mod 256 :: nat]"

lemma pack32_length [simp]: "length (pack32 n) = 4"
  by (simp add: pack32_def)

lemma unpack32_pack32:
  assumes "n < 2 ^ 32"
  shows "unpack32 (pack32 n) = n"
proof -
  define p where "p = n div 256"
  define q where "q = p div 256"
  have parts: "n div 65536 = q" "n div 16777216 = q div 256"
    by (simp_all add: p_def q_def div_mult2_eq [symmetric])
  have "q div 256 < 256" using assms by (simp add: p_def q_def div_mult2_eq [symmetric] less_mult_imp_div_less)
  then have "unpack32 (pack32 n) = ((q div 256 * 256 + q mod 256) * 256 + p mod 256) * 256 + n mod 256"
    by (simp add: unpack32_def pack32_def parts p_def [symmetric])
  also have "q div 256 * 256 + q mod 256 = q" by simp
  also have "q * 256 + p mod 256 = p" by (simp add: q_def)
  also have "p * 256 + n mod 256 = n" by (simp add: p_def)
  finally show ?thesis .
qed

lemma length_4_eq: "length s = 4 \<Longrightarrow> \<exists>a b c d. s = [a, b, c, d]"
  by (auto simp: length_Suc_conv numeral_eq_Suc)

lemma pack32_unpack32:
  assumes "length s = 4"
  shows "pack32 (unpack32 s) = s" and "unpack32 s < 2 ^ 32"
proof -
  obtain a b c d where s: "s = [a, b, c, d]" using length_4_eq [OF assms] by blast
  have lt: "(of_char x :: nat) < 256" for x by simp
  have u: "unpack32 s = ((of_char a * 256 + of_char b) * 256 + of_char c) * 256 + of_char d"
    by (simp add: s unpack32_def)
  have quot: "(a * m + r) div m = a" if "r < m" for a m r :: nat
    using that by simp
  have num: "((x * 256 + y) * 256 + z) * 256 + t < (2 :: nat) ^ 32"
    "(((x * 256 + y) * 256 + z) * 256 + t) div 16777216 = x"
    "(((x * 256 + y) * 256 + z) * 256 + t) div 65536 mod 256 = y"
    "(((x * 256 + y) * 256 + z) * 256 + t) div 256 mod 256 = z"
    "(((x * 256 + y) * 256 + z) * 256 + t) mod 256 = t"
    if "x < 256" "y < 256" "z < 256" "t < 256" for x y z t :: nat
  proof -
    let ?n = "((x * 256 + y) * 256 + z) * 256 + t"
    have f: "?n = x * 16777216 + (y * 65536 + z * 256 + t)" "?n = (x * 256 + y) * 65536 + (z * 256 + t)" by simp_all
    show "?n < 2 ^ 32" using that by simp
    show "?n div 16777216 = x" unfolding f(1) by (rule quot) (use that in simp)
    have "?n div 65536 = x * 256 + y" unfolding f(2) by (rule quot) (use that in simp)
    then show "?n div 65536 mod 256 = y" using that by simp
    have "?n div 256 = (x * 256 + y) * 256 + z" by (rule quot) (use that in simp)
    moreover have "((x * 256 + y) * 256 + z) mod 256 = z" by (simp only: mod_mult_self3 mod_less that)
    ultimately show "?n div 256 mod 256 = z" by simp
    show "?n mod 256 = t" by (simp only: mod_mult_self3 mod_less that)
  qed
  show "unpack32 s < 2 ^ 32" unfolding u by (intro num lt)
  have "(of_char a :: nat) = unpack32 s div 16777216" "(of_char b :: nat) = unpack32 s div 65536 mod 256"
    "(of_char c :: nat) = unpack32 s div 256 mod 256" "(of_char d :: nat) = unpack32 s mod 256"
    unfolding u by (simp_all only: num(2-5) [OF lt lt lt lt])
  then have "char_of (unpack32 s div 16777216) = a" "char_of (unpack32 s div 65536 mod 256) = b"
    "char_of (unpack32 s div 256 mod 256) = c" "char_of (unpack32 s mod 256) = d"
    by (metis char_of_char)+
  then show "pack32 (unpack32 s) = s" by (simp add: pack32_def s)
qed

section \<open>The checksum\<close>

text \<open>\<open>zlib.crc32\<close>, bit by bit with the reflected polynomial.\<close>

definition crc_bit :: "32 word \<Rightarrow> 32 word" where
  "crc_bit c = (if bit c 0 then drop_bit 1 c XOR 0xEDB88320 else drop_bit 1 c)"

definition crc_byte :: "32 word \<Rightarrow> char \<Rightarrow> 32 word" where
  "crc_byte c b = (crc_bit ^^ 8) (c XOR word_of_nat (of_char b))"

definition crc32 :: "string \<Rightarrow> 32 word" where
  "crc32 s = NOT (foldl crc_byte 0xFFFFFFFF s)"

section \<open>The chunks\<close>

definition png_signature :: string where
  "png_signature = [CHR 0x89, CHR ''P'', CHR ''N'', CHR ''G'', CHR 0x0D, newline, CHR 0x1A, newline]"

record png =
  png_width :: nat
  png_height :: nat
  png_data :: "string list"
  png_end :: bool

abbreviation png_error :: "string \<Rightarrow> path \<Rightarrow> exn" where
  "png_error t p \<equiv> Err EvidenceError t [path_json p]"

function png_chunks :: "path \<Rightarrow> nat \<Rightarrow> png \<Rightarrow> string \<Rightarrow> png res" where
  "png_chunks p i st rest =
     (if rest = [] then Inr st
      else if length rest < 12 then Inl (png_error ''screenshot has a truncated PNG chunk: {}'' p)
      else
        (let n = unpack32 (take 4 rest); kind = take 4 (drop 4 rest);
             body = take n (drop 8 rest); crc = unpack32 (take 4 (drop (8 + n) rest));
             more = drop (12 + n) rest in
         if length rest < 12 + n then Inl (png_error ''screenshot has a truncated PNG chunk: {}'' p)
         else if unat (crc32 (kind @ body)) \<noteq> crc
         then Inl (png_error ''screenshot has a corrupt PNG chunk: {}'' p)
         else if i = 0 then
           (if kind \<noteq> ''IHDR'' \<or> n \<noteq> 13
            then Inl (png_error ''screenshot is not a PNG with an IHDR chunk: {}'' p)
            else png_chunks p (Suc i)
              (st\<lparr>png_width := unpack32 (take 4 body), png_height := unpack32 (take 4 (drop 4 body))\<rparr>) more)
         else if kind = ''IDAT'' then png_chunks p (Suc i) (st\<lparr>png_data := png_data st @ [body]\<rparr>) more
         else if kind = ''IEND'' then
           (if n \<noteq> 0 \<or> more \<noteq> [] then Inl (png_error ''screenshot has an invalid PNG end: {}'' p)
            else Inr (st\<lparr>png_end := True\<rparr>))
         else png_chunks p (Suc i) st more))"
  by pat_completeness auto

termination
  by (relation "measure (\<lambda>(p, i, st, rest). length rest)") auto

declare png_chunks.simps [simp del]

definition no_png :: png where
  "no_png = \<lparr>png_width = 0, png_height = 0, png_data = [], png_end = False\<rparr>"

definition check_png :: "(string \<Rightarrow> string option) \<Rightarrow> path \<Rightarrow> string \<Rightarrow> (nat \<times> nat) res" where
  "check_png inflate p content =
     bindE (ensure (\<not> length content < 33 \<and> take 8 content = png_signature)
       (png_error ''screenshot is not a PNG with an IHDR chunk: {}'' p)) (\<lambda>_.
     bindE (png_chunks p 0 no_png (drop 8 content)) (\<lambda>st.
     bindE (ensure (png_data st \<noteq> [] \<and> png_end st)
       (png_error ''screenshot has no complete PNG image data: {}'' p)) (\<lambda>_.
     case inflate (concat (png_data st)) of
       None \<Rightarrow> Inl (png_error ''screenshot has invalid PNG image data: {}'' p)
     | Some decoded \<Rightarrow>
         bindE (ensure (decoded \<noteq> []) (png_error ''screenshot has empty PNG image data: {}'' p)) (\<lambda>_.
         bindE (ensure (640 \<le> png_width st \<and> 360 \<le> png_height st)
           (Err EvidenceError ''screenshot is too small ({}x{}): {}''
              [JInt (int (png_width st)), JInt (int (png_height st)), path_json p])) (\<lambda>_.
           Inr (png_width st, png_height st))))))"

definition validate_png :: "env \<Rightarrow> (string \<Rightarrow> string option) \<Rightarrow> path \<Rightarrow> json res" where
  "validate_png w inflate p =
     bindE (ensure (\<not> is_symlink w p \<and> is_file w p)
       (png_error ''screenshot is missing or is not a regular file: {}'' p)) (\<lambda>_.
     bindE (read_bytes w p) (\<lambda>b.
     case b of
       None \<Rightarrow> py_raise OSError
     | Some content \<Rightarrow> bindE (check_png inflate p content) (\<lambda>(x, y).
         Inr (JObj [(''width'', JInt (int x)), (''height'', JInt (int y))]))))"

section \<open>Well-formed files\<close>

text \<open>A chunk as it is written: length, kind, body and checksum.\<close>

type_synonym chunk = "string \<times> string"

definition encode_chunk :: "chunk \<Rightarrow> string" where
  "encode_chunk c = (let (kind, body) = c in
     pack32 (length body) @ kind @ body @ pack32 (unat (crc32 (kind @ body))))"

definition chunk_ok :: "chunk \<Rightarrow> bool" where
  "chunk_ok c \<longleftrightarrow> length (fst c) = 4 \<and> length (snd c) < 2 ^ 32"

definition header_body :: "nat \<Rightarrow> nat \<Rightarrow> string \<Rightarrow> string" where
  "header_body width height rest = pack32 width @ pack32 height @ rest"

definition encode_png :: "nat \<Rightarrow> nat \<Rightarrow> string \<Rightarrow> chunk list \<Rightarrow> string" where
  "encode_png width height rest mid =
     png_signature @ concat (map encode_chunk ((''IHDR'', header_body width height rest) # mid @ [(''IEND'', [])]))"

definition image_data :: "chunk list \<Rightarrow> string list" where
  "image_data mid = map snd (filter (\<lambda>c. fst c = ''IDAT'') mid)"

text \<open>The files the check is meant to accept.\<close>

definition png_file :: "(string \<Rightarrow> string option) \<Rightarrow> nat \<Rightarrow> nat \<Rightarrow> string \<Rightarrow> bool" where
  "png_file inflate width height content \<longleftrightarrow>
     (\<exists>rest mid decoded. content = encode_png width height rest mid \<and> length rest = 5 \<and> width < 2 ^ 32 \<and> height < 2 ^ 32 \<and>
        list_all chunk_ok mid \<and> ''IEND'' \<notin> fst ` set mid \<and> image_data mid \<noteq> [] \<and>
        inflate (concat (image_data mid)) = Some decoded \<and> decoded \<noteq> [] \<and> 640 \<le> width \<and> 360 \<le> height)"

end
