(* ===== verification/Evidence_Png_Correct.thy ===== *)
theory Evidence_Png_Correct
  imports Evidence_Png
begin

text \<open>
  The screenshot check accepts exactly the well-formed PNG files: a file that is put together
  from chunks is read back, and a file that is accepted is put together from chunks.
\<close>

lemma crc_fits: "unat (crc32 s) < 2 ^ 32"
  using unsigned_less [of "crc32 s", where ?'a = nat] by simp

lemma encode_chunk_length: "length (encode_chunk (kind, body)) = 8 + length kind + length body"
  by (simp add: encode_chunk_def)

text \<open>One step on a file that goes on with a chunk.\<close>

lemma png_chunks_step:
  assumes "chunk_ok (kind, body)"
  shows "png_chunks p i st (encode_chunk (kind, body) @ rem) =
    (if i = 0 then
       (if kind \<noteq> ''IHDR'' \<or> length body \<noteq> 13
        then Inl (png_error ''screenshot is not a PNG with an IHDR chunk: {}'' p)
        else png_chunks p (Suc i)
          (st\<lparr>png_width := unpack32 (take 4 body), png_height := unpack32 (take 4 (drop 4 body))\<rparr>) rem)
     else if kind = ''IDAT'' then png_chunks p (Suc i) (st\<lparr>png_data := png_data st @ [body]\<rparr>) rem
     else if kind = ''IEND'' then
       (if body \<noteq> [] \<or> rem \<noteq> [] then Inl (png_error ''screenshot has an invalid PNG end: {}'' p)
        else Inr (st\<lparr>png_end := True\<rparr>))
     else png_chunks p (Suc i) st rem)"
proof -
  let ?all = "encode_chunk (kind, body) @ rem"
  from assms have k: "length kind = 4" and b: "length body < 2 ^ 32" by (simp_all add: chunk_ok_def)
  have all: "?all = pack32 (length body) @ kind @ body @ pack32 (unat (crc32 (kind @ body))) @ rem"
    by (simp add: encode_chunk_def)
  have "take 4 ?all = pack32 (length body)" unfolding all by simp
  then have n: "unpack32 (take 4 ?all) = length body" using unpack32_pack32 [OF b] by simp
  have kind: "take 4 (drop 4 ?all) = kind" unfolding all using k by simp
  have body: "take (length body) (drop 8 ?all) = body" unfolding all using k by simp
  have "take 4 (drop (8 + length body) ?all) = pack32 (unat (crc32 (kind @ body)))" unfolding all using k by simp
  then have crc: "unpack32 (take 4 (drop (8 + length body) ?all)) = unat (crc32 (kind @ body))"
    using unpack32_pack32 [OF crc_fits] by simp
  have rem: "drop (12 + length body) ?all = rem" unfolding all using k by simp
  have len: "length ?all = 12 + length body + length rem" unfolding all using k by simp
  have "?all \<noteq> []" using len by auto
  then show ?thesis
    by (subst png_chunks.simps) (simp only: n kind body crc rem Let_def len, simp)
qed

text \<open>A file that passes the checks of a step goes on with a chunk.\<close>

lemma chunk_split:
  assumes "n = unpack32 (take 4 rest)" and "12 \<le> length rest" and "12 + n \<le> length rest"
    and "unat (crc32 (take 4 (drop 4 rest) @ take n (drop 8 rest))) = unpack32 (take 4 (drop (8 + n) rest))"
  shows "rest = encode_chunk (take 4 (drop 4 rest), take n (drop 8 rest)) @ drop (12 + n) rest"
    "chunk_ok (take 4 (drop 4 rest), take n (drop 8 rest))"
proof -
  have "length (take 4 rest) = 4" using assms(2) by simp
  note n = pack32_unpack32 [OF this]
  have "length (take 4 (drop (8 + n) rest)) = 4" using assms(3) by simp
  note c = pack32_unpack32(1) [OF this]
  have "drop 4 rest = take 4 (drop 4 rest) @ drop 8 rest"
    using append_take_drop_id [of 4 "drop 4 rest"] by simp
  moreover have "drop 8 rest = take n (drop 8 rest) @ drop (8 + n) rest"
    using append_take_drop_id [of n "drop 8 rest"] by (simp add: add.commute)
  moreover have "drop (8 + n) rest = take 4 (drop (8 + n) rest) @ drop (12 + n) rest"
    using append_take_drop_id [of 4 "drop (8 + n) rest"] by (simp add: add.commute)
  ultimately have "rest = take 4 rest @ take 4 (drop 4 rest) @ take n (drop 8 rest) @ take 4 (drop (8 + n) rest) @ drop (12 + n) rest"
    by (metis append_take_drop_id)
  moreover have "pack32 n = take 4 rest" using n(1) assms(1) by simp
  moreover have "pack32 (unat (crc32 (take 4 (drop 4 rest) @ take n (drop 8 rest)))) = take 4 (drop (8 + n) rest)"
    using c assms(4) by simp
  moreover have "length (take n (drop 8 rest)) = n" using assms(3) by simp
  ultimately show "rest = encode_chunk (take 4 (drop 4 rest), take n (drop 8 rest)) @ drop (12 + n) rest"
    by (simp only: encode_chunk_def Let_def split_conv append_assoc)
  show "chunk_ok (take 4 (drop 4 rest), take n (drop 8 rest))"
    using n(2) assms(1,3) by (simp add: chunk_ok_def)
qed

lemma png_chunks_body:
  assumes "png_chunks p (Suc i) st rest = Inr st'" and "png_end st'" and "\<not> png_end st"
  shows "\<exists>mid. rest = concat (map encode_chunk (mid @ [(''IEND'', [])])) \<and> list_all chunk_ok mid \<and>
    ''IEND'' \<notin> fst ` set mid \<and> st' = st\<lparr>png_data := png_data st @ image_data mid, png_end := True\<rparr>"
  using assms
proof (induction rest arbitrary: i st rule: length_induct)
  case (1 rest)
  let ?n = "unpack32 (take 4 rest)"
  let ?kind = "take 4 (drop 4 rest)" and ?body = "take ?n (drop 8 rest)" and ?rem = "drop (12 + ?n) rest"
  have step: "png_chunks p (Suc i) st rest = Inr st'" by (rule 1)
  have "rest \<noteq> []" using "1.prems" by (auto simp: png_chunks.simps)
  then have size: "12 \<le> length rest" "12 + ?n \<le> length rest"
    and crc: "unat (crc32 (?kind @ ?body)) = unpack32 (take 4 (drop (8 + ?n) rest))"
    using step by (subst (asm) png_chunks.simps; auto simp: Let_def split: if_splits)+
  note chunk = chunk_split [OF refl size crc]
  have rest: "png_chunks p (Suc i) st (encode_chunk (?kind, ?body) @ ?rem) = Inr st'"
    using step chunk(1) by simp
  note rest = rest [unfolded png_chunks_step [OF chunk(2)]]
  have shorter: "length ?rem < length rest" using size by simp
  consider (idat) "?kind = ''IDAT''" | (iend) "?kind = ''IEND''" | (other) "?kind \<noteq> ''IDAT''" "?kind \<noteq> ''IEND''" by blast
  then show ?case
  proof cases
    case idat
    with rest have "png_chunks p (Suc (Suc i)) (st\<lparr>png_data := png_data st @ [?body]\<rparr>) ?rem = Inr st'"
      by simp
    with "1.IH" shorter "1.prems"(2,3) obtain mid where mid: "?rem = concat (map encode_chunk (mid @ [(''IEND'', [])]))"
      "list_all chunk_ok mid" "''IEND'' \<notin> fst ` set mid"
      "st' = st\<lparr>png_data := png_data st @ [?body] @ image_data mid, png_end := True\<rparr>" by fastforce
    then show ?thesis using chunk idat
      by (intro exI [of _ "(?kind, ?body) # mid"]) (simp add: image_data_def)
  next
    case iend
    with rest have e: "?body = []" "?rem = []" "st' = st\<lparr>png_end := True\<rparr>"
      by (simp_all split: if_splits)
    have "rest = encode_chunk (''IEND'', [])" using chunk(1) unfolding iend e(1,2) by simp
    then show ?thesis using e(3) by (intro exI [of _ "[]"]) (simp add: image_data_def)
  next
    case other
    with rest have "png_chunks p (Suc (Suc i)) st ?rem = Inr st'"
      by simp
    with "1.IH" shorter "1.prems"(2,3) obtain mid where mid: "?rem = concat (map encode_chunk (mid @ [(''IEND'', [])]))"
      "list_all chunk_ok mid" "''IEND'' \<notin> fst ` set mid"
      "st' = st\<lparr>png_data := png_data st @ image_data mid, png_end := True\<rparr>" by blast
    then show ?thesis using chunk other
      by (intro exI [of _ "(?kind, ?body) # mid"]) (simp add: image_data_def)
  qed
qed

lemma png_chunks_encode:
  assumes "list_all chunk_ok mid" and "''IEND'' \<notin> fst ` set mid"
  shows "png_chunks p (Suc i) st (concat (map encode_chunk (mid @ [(''IEND'', [])]))) =
    Inr (st\<lparr>png_data := png_data st @ image_data mid, png_end := True\<rparr>)"
  using assms
proof (induction mid arbitrary: i st)
  case Nil
  have "chunk_ok (''IEND'', [])" by (simp add: chunk_ok_def)
  from png_chunks_step [OF this, where rem = "[]" and i = "Suc i"] show ?case by (simp add: image_data_def)
next
  case (Cons c mid)
  obtain kind body where c: "c = (kind, body)" by (cases c)
  with Cons.prems have ok: "chunk_ok (kind, body)" "list_all chunk_ok mid" "kind \<noteq> ''IEND''" "''IEND'' \<notin> fst ` set mid"
    by auto
  then show ?case
    using Cons.IH [OF ok(2,4)] by (auto simp: c png_chunks_step [OF ok(1)] image_data_def)
qed

section \<open>The whole file\<close>

lemma header_chunk: "length rest = 5 \<Longrightarrow> chunk_ok (''IHDR'', header_body width height rest)"
  by (simp add: chunk_ok_def header_body_def)

lemma encode_chunk_nonempty: "12 \<le> length (encode_chunk c) \<longleftrightarrow> 4 \<le> length (fst c) + length (snd c)"
  by (cases c) (simp add: encode_chunk_length)

lemma png_accepts:
  assumes "png_file inflate width height content"
  shows "check_png inflate p content = Inr (width, height)"
proof -
  from assms obtain rest mid decoded where content: "content = encode_png width height rest mid" and
    r: "length rest = 5" "width < 2 ^ 32" "height < 2 ^ 32" and mid: "list_all chunk_ok mid" "''IEND'' \<notin> fst ` set mid"
    and data: "image_data mid \<noteq> []" "inflate (concat (image_data mid)) = Some decoded" "decoded \<noteq> []"
    and size: "640 \<le> width" "360 \<le> height"
    unfolding png_file_def by blast
  let ?body = "header_body width height rest"
  let ?rem = "concat (map encode_chunk (mid @ [(''IEND'', [])]))"
  have parts: "take 8 content = png_signature" "drop 8 content = encode_chunk (''IHDR'', ?body) @ ?rem"
    by (simp_all add: content encode_png_def png_signature_def)
  have "length (encode_chunk (''IHDR'', ?body)) = 25" using r by (simp add: encode_chunk_length header_body_def)
  then have "25 \<le> length (drop 8 content)" unfolding parts(2) by simp
  then have long: "33 \<le> length content" by simp
  have b: "length ?body = 13" "take 4 ?body = pack32 width" "take 4 (drop 4 ?body) = pack32 height"
    using r by (simp_all add: header_body_def)
  have "png_chunks p 0 no_png (drop 8 content) =
      Inr (no_png\<lparr>png_width := width, png_height := height, png_data := image_data mid, png_end := True\<rparr>)"
    unfolding parts(2) png_chunks_step [OF header_chunk [OF r(1)]]
    by (simp add: b png_chunks_encode [OF mid, simplified] unpack32_pack32 [OF r(2)] unpack32_pack32 [OF r(3)] no_png_def)
  with long parts(1) data size show ?thesis by (simp add: check_png_def)
qed

lemma png_accepted:
  assumes "check_png inflate p content = Inr (width, height)"
  shows "png_file inflate width height content"
proof -
  from assms obtain st decoded where sig: "33 \<le> length content" "take 8 content = png_signature"
    and st: "png_chunks p 0 no_png (drop 8 content) = Inr st" "png_data st \<noteq> []" "png_end st"
    and dec: "inflate (concat (png_data st)) = Some decoded" "decoded \<noteq> []"
    and size: "640 \<le> width" "360 \<le> height" "width = png_width st" "height = png_height st"
    unfolding check_png_def by (auto simp: bindE_eq_Inr split: option.splits)
  let ?rest = "drop 8 content"
  let ?n = "unpack32 (take 4 ?rest)"
  let ?kind = "take 4 (drop 4 ?rest)" and ?body = "take ?n (drop 8 ?rest)" and ?rem = "drop (12 + ?n) ?rest"
  have "?rest \<noteq> []" using sig by auto
  then have long: "12 \<le> length ?rest" "12 + ?n \<le> length ?rest"
    and crc: "unat (crc32 (?kind @ ?body)) = unpack32 (take 4 (drop (8 + ?n) ?rest))"
    using st(1) by (subst (asm) png_chunks.simps; auto simp: Let_def split: if_splits)+
  note chunk = chunk_split [OF refl long crc]
  have "png_chunks p 0 no_png (encode_chunk (?kind, ?body) @ ?rem) = Inr st" using st(1) chunk(1) by simp
  note step = this [unfolded png_chunks_step [OF chunk(2)]]
  have head: "?kind = ''IHDR''" "length ?body = 13" using step by (auto split: if_splits)
  let ?st = "no_png\<lparr>png_width := unpack32 (take 4 ?body), png_height := unpack32 (take 4 (drop 4 ?body))\<rparr>"
  have rest: "png_chunks p (Suc 0) ?st ?rem = Inr st" using step head by (simp only: if_True if_False simp_thms)
  have "\<not> png_end ?st" by (simp add: no_png_def)
  from png_chunks_body [OF rest st(3) this] obtain mid where
    mid: "?rem = concat (map encode_chunk (mid @ [(''IEND'', [])]))" "list_all chunk_ok mid" "''IEND'' \<notin> fst ` set mid"
    and final: "st = ?st\<lparr>png_data := png_data ?st @ image_data mid, png_end := True\<rparr>" by blast
  have fours: "length (take 4 ?body) = 4" "length (take 4 (drop 4 ?body)) = 4" using head(2) by simp_all
  note w = pack32_unpack32 [OF fours(1)] and h = pack32_unpack32 [OF fours(2)]
  have dims: "width = unpack32 (take 4 ?body)" "height = unpack32 (take 4 (drop 4 ?body))"
    using size(3,4) by (simp_all add: final)
  have "?body = take 4 ?body @ take 4 (drop 4 ?body) @ drop 8 ?body"
    by (metis append_take_drop_id drop_drop numeral_Bit0)
  then have body: "?body = header_body width height (drop 8 ?body)"
    unfolding header_body_def dims w(1) h(1) .
  have "content = png_signature @ encode_chunk (?kind, ?body) @ ?rem"
    using sig(2) chunk(1) by (metis append_take_drop_id)
  also have "\<dots> = encode_png width height (drop 8 ?body) mid"
    unfolding mid(1) head(1) encode_png_def using body by simp
  finally have content: "content = encode_png width height (drop 8 ?body) mid" .
  have data: "png_data st = image_data mid" by (simp add: final no_png_def)
  show ?thesis
    unfolding png_file_def
  proof (intro exI conjI)
    show "content = encode_png width height (drop 8 ?body) mid" by (rule content)
    show "length (drop 8 ?body) = 5" using head(2) by simp
    show "width < 2 ^ 32" "height < 2 ^ 32" using w(2) h(2) by (simp_all only: dims)
    show "inflate (concat (image_data mid)) = Some decoded" using dec(1) by (simp add: data)
  qed (use mid st(2) data dec(2) size in simp_all)
qed

text \<open>
  C30. The screenshot check accepts exactly the well-formed files: it returns width and height
  if and only if the file is the signature, an IHDR chunk with these dimensions, any chunks
  with at least one IDAT, and an empty IEND chunk, each with its length and CRC-32, where the
  image data decompresses to something and is at least 640 by 360.
\<close>

theorem png_check_exact:
  "check_png inflate p content = Inr (width, height) \<longleftrightarrow> png_file inflate width height content"
  by (rule iffI [OF png_accepted png_accepts])

end
