(* ===== verification/Polling.thy ===== *)
theory Polling
  imports Py_World
begin

text \<open>
  The polling loops of the scripts: a condition is asked for until it holds, raises, or the
  deadline has passed. The clock is a parameter that gives the time, in microseconds, of its
  \<open>i\<close>-th reading; the loop ends because every turn sleeps.
\<close>

section \<open>The loop\<close>

text \<open>
  One turn either finishes with a value, or goes on with the value it last saw, which the
  message of the timeout quotes. The loop itself need not end, so it has a value only when it
  does: \<open>None\<close> is a loop that never returns.
\<close>

partial_function (option) poll ::
  "(nat \<Rightarrow> int) \<Rightarrow> int \<Rightarrow> (nat \<Rightarrow> ('l + 'v) res) \<Rightarrow> ('l \<Rightarrow> exn) \<Rightarrow> nat \<Rightarrow> 'l \<Rightarrow> ('v res) option" where
  "poll clock deadline turn failure i seen =
     (if clock i < deadline
      then (case turn i of
          Inl e \<Rightarrow> Some (Inl e)
        | Inr (Inr v) \<Rightarrow> Some (Inr v)
        | Inr (Inl l) \<Rightarrow> poll clock deadline turn failure (Suc i) l)
      else Some (Inl (failure seen)))"

declare poll.simps [code]

text \<open>
  What the loops rely on in the clock: \<open>time.sleep\<close> takes at least the time asked for, so a
  reading is later than the one before by at least the pause.
\<close>

locale pausing_clock =
  fixes clock :: "nat \<Rightarrow> int" and pause :: int
  assumes pause_pos: "0 < pause" and later: "clock i + pause \<le> clock (Suc i)"
begin

lemma elapsed: "clock i + int n * pause \<le> clock (i + n)"
proof (induction n)
  case (Suc n)
  have "clock i + int (Suc n) * pause \<le> clock (i + n) + pause" using Suc by (simp add: algebra_simps)
  also have "\<dots> \<le> clock (i + Suc n)" using later [of "i + n"] by simp
  finally show ?case .
qed simp

lemma reaches: "\<exists>n. deadline \<le> clock (i + n)"
proof -
  have "deadline - clock i \<le> int (nat (deadline - clock i)) * pause"
    using pause_pos mult_left_mono [of 1 pause "int (nat (deadline - clock i))"] by linarith
  with elapsed [of i "nat (deadline - clock i)"] show ?thesis by (intro exI [of _ "nat (deadline - clock i)"]) simp
qed

text \<open>The loop always returns, and after a number of turns that the timeout bounds.\<close>

lemma poll_returns: "\<exists>r. poll clock deadline turn failure i seen = Some r"
proof -
  obtain n where "deadline \<le> clock (i + n)" using reaches by blast
  then show ?thesis
  proof (induction n arbitrary: i seen)
    case 0
    then show ?case by (subst poll.simps) simp
  next
    case (Suc n)
    then have ih: "\<exists>r. poll clock deadline turn failure (Suc i) l = Some r" for l by simp
    show ?case by (subst poll.simps) (auto split: sum.splits intro: ih)
  qed
qed

lemma turns_bounded:
  assumes "clock (i + n) < deadline"
  shows "int n * pause < deadline - clock i"
  using elapsed [of i n] assms by simp

lemma earlier: "m \<le> n \<Longrightarrow> clock m \<le> clock n"
proof (induction n)
  case (Suc n)
  then show ?case
    using later [of n] pause_pos by (cases "m = Suc n") auto
qed simp

text \<open>A condition that holds at some turn before the deadline, with no error before, is noticed.\<close>

lemma poll_notices:
  assumes "clock (i + n) < deadline" and "turn (i + n) = Inr (Inr v)"
    and "\<And>m. m < n \<Longrightarrow> \<exists>l. turn (i + m) = Inr (Inl l)"
  shows "poll clock deadline turn failure i seen = Some (Inr v)"
  using assms
proof (induction n arbitrary: i seen)
  case 0
  then show ?case by (subst poll.simps) simp
next
  case (Suc n)
  from Suc.prems(3) [of 0] obtain l where l: "turn i = Inr (Inl l)" by auto
  have "clock i < deadline" using earlier [of i "i + Suc n"] Suc.prems(1) by simp
  moreover have "poll clock deadline turn failure (Suc i) l = Some (Inr v)"
  proof (rule Suc.IH)
    show "\<exists>l. turn (Suc i + m) = Inr (Inl l)" if "m < n" for m
      using Suc.prems(3) [of "Suc m"] that by simp
  qed (use Suc.prems in simp_all)
  ultimately show ?case by (subst poll.simps) (simp add: l)
qed

end

text \<open>A value that is returned was seen before the deadline; an error is the turn's or the timeout.\<close>

lemma poll_value:
  assumes "poll clock deadline turn failure i seen = Some (Inr v)"
  shows "\<exists>n. clock (i + n) < deadline \<and> turn (i + n) = Inr (Inr v)"
proof -
  have "\<forall>v. r = Inr v \<longrightarrow> (\<exists>n. clock (i + n) < deadline \<and> turn (i + n) = Inr (Inr v))"
    if "poll clock deadline turn failure i seen = Some r" for r
  proof (rule poll.raw_induct [where P = "\<lambda>clock deadline turn failure i seen r.
      \<forall>v. r = Inr v \<longrightarrow> (\<exists>n. clock (i + n) < deadline \<and> turn (i + n) = Inr (Inr v))", OF _ that])
    fix poll' clock deadline turn failure i seen r
    assume ih: "\<And>clock deadline turn failure i seen y. poll' clock deadline turn failure i seen = Some y \<Longrightarrow>
        \<forall>v. y = Inr v \<longrightarrow> (\<exists>n. clock (i + n) < (deadline :: int) \<and> turn (i + n) = Inr (Inr v))"
      and body: "(if clock i < deadline
         then (case turn i of Inl e \<Rightarrow> Some (Inl e) | Inr (Inr v) \<Rightarrow> Some (Inr v)
            | Inr (Inl l) \<Rightarrow> poll' clock deadline turn failure (Suc i) l)
         else Some (Inl (failure seen))) = Some r"
    show "\<forall>v. r = Inr v \<longrightarrow> (\<exists>n. clock (i + n) < deadline \<and> turn (i + n) = Inr (Inr v))"
    proof (intro allI impI)
      fix v
      assume r: "r = Inr v"
      with body have now: "clock i < deadline" by (auto split: if_splits)
      show "\<exists>n. clock (i + n) < deadline \<and> turn (i + n) = Inr (Inr v)"
      proof (cases "turn i = Inr (Inr v)")
        case True
        with now show ?thesis by (intro exI [of _ 0]) simp
      next
        case False
        with body now r obtain l where "poll' clock deadline turn failure (Suc i) l = Some (Inr v)"
          by (auto split: sum.splits)
        from ih [OF this] obtain n where "clock (Suc i + n) < deadline \<and> turn (Suc i + n) = Inr (Inr v)" by blast
        then show ?thesis by (intro exI [of _ "Suc n"]) simp
      qed
    qed
  qed
  with assms show ?thesis by blast
qed

section \<open>Readings of the clock\<close>

text \<open>
  The readings of a loop that sleeps: the first one is taken some time after the deadline was
  computed, and each further one after a pause and the time the turn itself took.
\<close>

fun readings :: "int \<Rightarrow> nat \<Rightarrow> (nat \<Rightarrow> nat) \<Rightarrow> nat \<Rightarrow> int" where
  "readings start pause cost 0 = start + int (cost 0)"
| "readings start pause cost (Suc i) = readings start pause cost i + int pause + int (cost (Suc i))"

definition tenth :: nat where
  "tenth = 100000"

definition whole :: nat where
  "whole = 1000000"

interpretation tenths: pausing_clock "readings start tenth cost" "int tenth" for start cost
  by unfold_locales (simp_all add: tenth_def)

interpretation wholes: pausing_clock "readings start whole cost" "int whole" for start cost
  by unfold_locales (simp_all add: whole_def)

section \<open>Waiting for a condition\<close>

text \<open>
  \<open>wait_until(predicate, description, timeout)\<close>: the loop starts at a time, and the answers
  of the predicate and the times its turns take are arguments.
\<close>

definition wait_until :: "int \<Rightarrow> (nat \<Rightarrow> nat) \<Rightarrow> (nat \<Rightarrow> json res) \<Rightarrow> string \<Rightarrow> int \<Rightarrow> (json res) option" where
  "wait_until start cost predicate description timeout =
     poll (readings start tenth cost) (start + timeout)
       (\<lambda>i. bindE (predicate i) (\<lambda>v. Inr (if truthy v then Inr v else Inl v)))
       (\<lambda>seen. Err VerificationError ''timed out waiting for {}; last value: {!r}'' [JStr description, seen]) 0 JNull"

end
