(* ===== verification/Sigterm.thy ===== *)
theory Sigterm
  imports Polling Account_Gate
begin

text \<open>
  The checks of \<open>scripts/verify-k8s-sigterm.py\<close>: what a watched pod termination must look
  like, which pods are ready, that a running image was built from the tested commit, the
  outcome of the delivery, and the receipt with its cleanup. Answers of HTTP requests are
  arguments, times are microseconds, the text of a caught exception is not modelled.
\<close>

section \<open>Commands\<close>

abbreviation unproved :: "string \<Rightarrow> json list \<Rightarrow> exn" where
  "unproved t args \<equiv> Err VerificationError t args"

definition sig_command :: "string list \<Rightarrow> string io" where
  "sig_command arguments =
     bindIO (call arguments None) (\<lambda>r.
     if returncode r \<noteq> 0
     then lift (Inl (unproved ''{} failed: {}'' [JStr (join_words arguments),
       JStr (if strip (stderr r) \<noteq> [] then strip (stderr r) else strip (stdout r))]))
     else ask (\<lambda>w. decode_text w (stdout r)))"

definition kubectl :: "string list \<Rightarrow> string io" where
  "kubectl arguments = sig_command ([''kubectl'', ''--context'', ''mlp'', ''-n'', ''mlp''] @ arguments)"

text \<open>\<open>int(text)\<close>; \<open>None\<close> is \<open>ValueError\<close>. Digits may be grouped with single underscores.\<close>

fun grouped_digits :: "string \<Rightarrow> bool" where
  "grouped_digits [c] = is_digit c"
| "grouped_digits (c # d # s) = (is_digit c \<and> (if d = CHR ''_'' then grouped_digits s else grouped_digits (d # s)))"
| "grouped_digits [] = False"

definition py_int :: "string \<Rightarrow> int option" where
  "py_int text =
     (let t = strip text;
          s = (if t \<noteq> [] \<and> (hd t = CHR ''-'' \<or> hd t = CHR ''+'') then tl t else t);
          n = int (str_nat (filter is_digit s)) in
      if grouped_digits s then Some (if t \<noteq> [] \<and> hd t = CHR ''-'' then - n else n) else None)"

section \<open>Answers of HTTP requests\<close>

type_synonym response = "(int \<times> json) res"

text \<open>\<open>wait_http\<close>: a failed request is only remembered.\<close>

definition http_turn :: "response \<Rightarrow> (json + unit) res" where
  "http_turn r =
     (case r of
        Inr (status, _) \<Rightarrow> Inr (if status = 200 then Inr () else Inl (JInt status))
      | Inl (Py e) \<Rightarrow> if e \<in> {OSError, ValueError} then Inr (Inl JNull) else Inl (Py e)
      | Inl e \<Rightarrow> Inl e)"

definition wait_http :: "int \<Rightarrow> (nat \<Rightarrow> nat) \<Rightarrow> (nat \<Rightarrow> response) \<Rightarrow> string \<Rightarrow> int \<Rightarrow> (unit res) option" where
  "wait_http start cost responses url timeout =
     poll (readings start tenth cost) (start + timeout) (\<lambda>i. http_turn (responses i))
       (\<lambda>seen. unproved ''{} did not become reachable: {}'' [JStr url, seen]) 0 (JStr ''no response'')"

definition readiness_is_false :: "response \<Rightarrow> bool res" where
  "readiness_is_false r =
     (case r of
        Inr (status, _) \<Rightarrow> Inr (status = 503)
      | Inl (Py e) \<Rightarrow> if e \<in> {OSError, ValueError} then Inr False else Inl (Py e)
      | Inl e \<Rightarrow> Inl e)"

definition sink_control_state :: "response \<Rightarrow> json res" where
  "sink_control_state r =
     bindE r (\<lambda>(status, payload).
     bindE (ensure (status = 200) (unproved ''sink control state returned {}: {}'' [JInt status, payload])) (\<lambda>_.
       Inr payload))"

definition any_value :: "json \<Rightarrow> bool res" where
  "any_value held = (if is_dict held then Inr (list_ex (\<lambda>p. truthy (snd p)) (obj_of held)) else py_raise AttributeError)"

definition sink_is_at_baseline :: "response \<Rightarrow> bool res" where
  "sink_is_at_baseline r =
     bindE (sink_control_state r) (\<lambda>state.
     bindE (py_get state ''latency_ms'' JNull) (\<lambda>latency.
     if py_eq latency (JInt 0) \<and> py_eq (jget state ''fail_rate'') (JInt 0) \<and>
        (jget state ''latched'' = JNull \<or> py_eq (jget state ''latched'') (JArr []))
     then bindE (any_value (jget_or state ''held'' (JObj []))) (\<lambda>held. Inr (\<not> held))
     else Inr False))"

definition check_ingest :: "response \<Rightarrow> json res" where
  "check_ingest r =
     bindE r (\<lambda>(status, payload).
     let e = unproved ''ingest returned {}: {}'' [JInt status, payload] in
     bindE (ensure (status = 202) e) (\<lambda>_.
     bindE (py_get payload ''id'' JNull) (\<lambda>identity.
     bindE (ensure (is_str identity \<and> str_of identity \<noteq> []) e) (\<lambda>_. Inr payload))))"

definition deliveries :: "response \<Rightarrow> string \<Rightarrow> string \<Rightarrow> json list res" where
  "deliveries r event_id path =
     bindE r (\<lambda>(status, payload).
     let e = unproved ''sink delivery history returned {}: {}'' [JInt status, payload] in
     bindE (ensure (status = 200) e) (\<lambda>_.
     bindE (py_get payload ''deliveries'' JNull) (\<lambda>found.
     bindE (ensure (is_list found) e) (\<lambda>_.
     filterE (\<lambda>d. bindE (py_get d ''webhook_id'' JNull) (\<lambda>hook.
       Inr (hook = JStr event_id \<and> jget d ''path'' = JStr path))) (items_of found)))))"

definition attempt_outcomes :: "response \<Rightarrow> string \<Rightarrow> json list res" where
  "attempt_outcomes r event_id =
     bindE r (\<lambda>(status, payload).
     if status \<noteq> 200 then Inr []
     else
       bindE (py_get payload ''event_id'' JNull) (\<lambda>identity.
       let attempts = jget payload ''attempts'' in
       if identity \<noteq> JStr event_id \<or> \<not> is_list attempts then Inr []
       else Inr (map (\<lambda>a. jget_or a ''outcome'' (JStr [])) (filter is_dict (items_of attempts)))))"

definition delivery_result :: "json list \<Rightarrow> int \<Rightarrow> string res" where
  "delivery_result outcomes healthy_count =
     bindE (ensure (JStr ''delivered'' \<in> set outcomes \<and> JStr ''exhausted'' \<in> set outcomes)
       (unproved ''attempt history lacks delivered or exhausted outcome'' [])) (\<lambda>_.
     bindE (ensure (\<not> healthy_count < 1)
       (unproved ''the owned record never reached the healthy subscriber'' [])) (\<lambda>_.
       Inr (if healthy_count = 1 then ''completed'' else ''redelivered'')))"

section \<open>Pods\<close>

definition is_ready :: "json \<Rightarrow> bool res" where
  "is_ready condition =
     bindE (py_get condition ''type'' JNull) (\<lambda>kind.
       Inr (kind = JStr ''Ready'' \<and> jget condition ''status'' = JStr ''True''))"

definition pod_ready :: "json \<Rightarrow> bool res" where
  "pod_ready pod =
     bindE (py_get pod ''metadata'' (JObj [])) (\<lambda>metadata.
     bindE (py_get metadata ''deletionTimestamp'' JNull) (\<lambda>deleted.
     if truthy deleted then Inr False
     else
       bindE (py_get (jget_or pod ''status'' (JObj [])) ''conditions'' (JArr [])) (\<lambda>conditions.
       bindE (py_iter conditions) (\<lambda>cs. anyE is_ready cs))))"

definition select_ready :: "json \<Rightarrow> json list res" where
  "select_ready payload =
     bindE (py_get payload ''items'' (JArr [])) (\<lambda>items.
     bindE (py_iter items) (\<lambda>pods. filterE pod_ready pods))"

definition ready_pods :: "string \<Rightarrow> json list io" where
  "ready_pods application =
     bindIO (kubectl [''get'', ''pods'', ''-l'', ''app.kubernetes.io/name='' @ application, ''-o'', ''json'']) (\<lambda>t.
     ask (\<lambda>w. case loads w t of None \<Rightarrow> py_raise ValueError | Some v \<Rightarrow> select_ready v))"

definition wait_ready_pods :: "int \<Rightarrow> (nat \<Rightarrow> nat) \<Rightarrow> (nat \<Rightarrow> json list res) \<Rightarrow> string \<Rightarrow> int \<Rightarrow> int \<Rightarrow> (json list res) option" where
  "wait_ready_pods start cost seen_pods application count timeout =
     poll (readings start whole cost) (start + timeout)
       (\<lambda>i. bindE (seen_pods i) (\<lambda>pods. Inr (if int (length pods) = count then Inr pods else Inl (int (length pods)))))
       (\<lambda>n. unproved ''{} has {} ready pods, want {}'' [JStr application, JInt n, JInt count]) 0 0"

text \<open>\<open>v[0]\<close>.\<close>

definition py_head :: "json \<Rightarrow> json res" where
  "py_head v =
     (case v of
        JArr (x # _) \<Rightarrow> Inr x
      | JArr [] \<Rightarrow> py_raise IndexError
      | JStr (c # _) \<Rightarrow> Inr (JStr [c])
      | JStr [] \<Rightarrow> py_raise IndexError
      | JObj _ \<Rightarrow> py_raise KeyError
      | _ \<Rightarrow> py_raise TypeError)"

definition revision_shape :: "string \<Rightarrow> bool" where
  "revision_shape s \<longleftrightarrow> 7 \<le> length s \<and> length s \<le> 40 \<and> list_all is_hex s"

definition running_image :: "json \<Rightarrow> string res" where
  "running_image pod =
     bindE (reraise [KeyError, IndexError, TypeError] (unproved ''ready pod has no running image id'' [])
       (bindE (py_index pod ''status'') (\<lambda>s. bindE (py_index s ''containerStatuses'') (\<lambda>cs.
        bindE (py_head cs) (\<lambda>c. py_index c ''imageID''))))) (\<lambda>image_id.
       if is_str image_id then Inr (str_of image_id) else py_raise AttributeError)"

definition remove_prefix :: "string \<Rightarrow> string \<Rightarrow> string" where
  "remove_prefix p s = (if starts_with s p then drop (length p) s else s)"

definition image_revision :: "json \<Rightarrow> json res" where
  "image_revision inspected =
     bindE (py_index inspected ''info'') (\<lambda>a. bindE (py_index a ''imageSpec'') (\<lambda>b. bindE (py_index b ''config'') (\<lambda>c.
     bindE (py_index c ''Labels'') (\<lambda>d. py_index d ''org.opencontainers.image.revision''))))"

definition check_revision :: "string \<Rightarrow> string \<Rightarrow> json \<Rightarrow> json res" where
  "check_revision image_id source_commit revision =
     bindE (ensure (is_str revision \<and> revision_shape (str_of revision))
       (unproved ''running image {} has invalid revision label {!r}'' [JStr image_id, revision])) (\<lambda>_.
     bindE (ensure (starts_with source_commit (str_of revision))
       (unproved ''running image revision {} does not match source commit {}'' [revision, JStr source_commit])) (\<lambda>_.
       Inr (JObj [(''image_id'', JStr image_id), (''image_revision'', revision)])))"

definition image_provenance :: "json \<Rightarrow> string \<Rightarrow> json io" where
  "image_provenance pod source_commit =
     bindIO (lift (running_image pod)) (\<lambda>image_id.
     bindIO (sig_command [''docker'', ''exec'', ''mlp'', ''crictl'', ''inspecti'', remove_prefix ''docker://'' image_id]) (\<lambda>t.
     bindIO (ask (\<lambda>w.
       let e = unproved ''running image {} has no readable revision label'' [JStr image_id] in
       case loads w t of None \<Rightarrow> Inl e | Some v \<Rightarrow> reraise [KeyError, TypeError] e (image_revision v))) (\<lambda>revision.
     lift (check_revision image_id source_commit revision))))"

section \<open>The watched termination\<close>

record pod_event =
  observed_at :: int
  pe_deletion :: string
  pe_ready :: string
  pe_exit_code :: string
  pe_signal :: string
  pe_reason :: string

fun split_on :: "char \<Rightarrow> string \<Rightarrow> string \<Rightarrow> string list" where
  "split_on sep acc [] = [acc]"
| "split_on sep acc (c # s) = (if c = sep then acc # split_on sep [] s else split_on sep (acc @ [c]) s)"

definition strip_newlines :: "string \<Rightarrow> string" where
  "strip_newlines s = rev (dropWhile (\<lambda>c. c = newline) (rev s))"

text \<open>A line of the watch, read at a time; other lines are skipped.\<close>

definition read_event :: "int \<Rightarrow> string \<Rightarrow> pod_event option" where
  "read_event now raw =
     (case split_on (CHR ''|'') [] (strip_newlines raw) of
        [deletion, ready, code, sig, reason] \<Rightarrow>
          Some \<lparr>observed_at = now, pe_deletion = deletion, pe_ready = ready, pe_exit_code = code,
                pe_signal = sig, pe_reason = reason\<rparr>
      | _ \<Rightarrow> None)"

definition no_value :: "string list" where
  "no_value = [[], ''<no value>'']"

definition exited :: "pod_event \<Rightarrow> bool" where
  "exited e \<longleftrightarrow> pe_exit_code e \<notin> set no_value"

text \<open>\<open>round(elapsed, 3)\<close> of a time in seconds.\<close>

definition milliseconds :: "int \<Rightarrow> json" where
  "milliseconds t = JFloat (Fin (Dec (t < 0) (half_even (nat \<bar>t\<bar>) 3) (- 3)))"

definition exit_numbers :: "pod_event \<Rightarrow> (int \<times> int) res" where
  "exit_numbers e =
     (case (py_int (pe_exit_code e), if pe_signal e \<in> set no_value then Some 0 else py_int (pe_signal e)) of
        (Some code, Some sig) \<Rightarrow> Inr (code, sig)
      | _ \<Rightarrow> Inl (unproved ''pod returned a non-numeric exit code or signal'' []))"

definition analyze_termination :: "pod_event list \<Rightarrow> int \<Rightarrow> int \<Rightarrow> int \<Rightarrow> json res" where
  "analyze_termination events requested_at readiness_false_at grace_seconds =
     (case find exited events of
        None \<Rightarrow> Inl (unproved ''pod termination status was not observed'' [])
      | Some e \<Rightarrow>
          bindE (ensure (\<not> observed_at e \<le> readiness_false_at)
            (unproved ''pod exited before readiness became false'' [])) (\<lambda>_.
          bindE (exit_numbers e) (\<lambda>(code, sig).
          bindE (ensure (code = 0 \<and> sig = 0)
            (unproved ''pod exited with code {} and signal {}; graceful exit was expected'' [JInt code, JInt sig])) (\<lambda>_.
          let elapsed = observed_at e - requested_at in
          bindE (ensure (\<not> 1000000 * grace_seconds \<le> elapsed)
            (unproved ''pod exit took {:.3f}s, outside its {}s grace period'' [milliseconds elapsed, JInt grace_seconds])) (\<lambda>_.
            Inr (JObj [(''readiness_false_before_exit'', JBool True), (''exit_code'', JInt code), (''signal'', JInt sig),
              (''reason'', JStr (pe_reason e)), (''elapsed_seconds'', milliseconds elapsed),
              (''termination_grace_seconds'', JInt grace_seconds)]))))))"

definition blocked_ingest_count :: "int io" where
  "blocked_ingest_count =
     bindIO (sig_command [''docker'', ''exec'', ''mlp-postgres'', ''psql'', ''-X'', ''-A'', ''-t'', ''-U'', ''platform'', ''-d'',
       ''platform'', ''-c'', ''SELECT count(*) FROM pg_stat_activity WHERE wait_event_type = '' @ [CHR 0x27] @ ''Lock'' @
       [CHR 0x27] @ '' AND query LIKE '' @ [CHR 0x27] @ ''%INSERT INTO relay_events%'' @ [CHR 0x27] @ '';'']) (\<lambda>out.
     lift (case py_int (strip out) of
        None \<Rightarrow> Inl (unproved ''invalid blocked-ingest count: {!r}'' [JStr (strip out)])
      | Some n \<Rightarrow> Inr n))"

definition quote_sql :: "string \<Rightarrow> string" where
  "quote_sql s = concat (map (\<lambda>c. if c = CHR 0x27 then [c, c] else [c]) s)"

definition event_is_published :: "string \<Rightarrow> bool io" where
  "event_is_published event_id =
     bindIO (sig_command [''docker'', ''exec'', ''mlp-postgres'', ''psql'', ''-X'', ''-A'', ''-t'', ''-U'', ''platform'', ''-d'',
       ''platform'', ''-c'', ''SELECT count(*) FROM relay_events WHERE id = '' @ [CHR 0x27] @ quote_sql event_id @
       [CHR 0x27] @ '' AND published_at IS NOT NULL;'']) (\<lambda>out.
     lift (Inr (strip out = ''1'')))"

definition pod_grace :: "string \<Rightarrow> int io" where
  "pod_grace application =
     bindIO (kubectl [''get'', ''deployment/'' @ application, ''-o'',
       ''jsonpath={.spec.template.spec.terminationGracePeriodSeconds}'']) (\<lambda>out.
     lift (case py_int (strip out) of
        None \<Rightarrow> Inl (unproved ''invalid {} termination grace: {!r}'' [JStr application, JStr (strip out)])
      | Some n \<Rightarrow>
          if n \<le> 0 then Inl (unproved ''{} termination grace must be positive'' [JStr application]) else Inr n))"

section \<open>The environment and the pause\<close>

definition pause_annotation :: string where
  "pause_annotation = ''autoscaling.keda.sh/paused-replicas''"

definition current_pause_annotation :: "string option io" where
  "current_pause_annotation =
     bindIO (kubectl [''get'', ''scaledobject/relay-deliver'', ''-o'',
       ''go-template={{index .metadata.annotations '' @ [CHR 0x22] @ pause_annotation @ [CHR 0x22] @ ''}}'']) (\<lambda>out.
     lift (Inr (if strip out \<in> set no_value then None else Some (strip out))))"

definition set_pause :: "string option \<Rightarrow> unit io" where
  "set_pause v =
     bindIO (case v of
         None \<Rightarrow> kubectl [''annotate'', ''scaledobject/relay-deliver'', pause_annotation @ ''-'']
       | Some n \<Rightarrow> kubectl [''annotate'', ''scaledobject/relay-deliver'', pause_annotation @ ''='' @ n, ''--overwrite''])
       (\<lambda>_. lift (Inr ()))"

definition verify_environment :: "unit io" where
  "verify_environment =
     bindIO (sig_command [''kubectl'', ''config'', ''current-context'']) (\<lambda>c.
     bindIO (lift (ensure (strip c = ''mlp'')
       (unproved ''current kubectl context is {!r}, want {!r}'' [JStr (strip c), JStr ''mlp'']))) (\<lambda>_.
     bindIO (sig_command [''docker'', ''compose'', ''-f'', ''local/docker-compose.yml'', ''ps'', ''-q'', ''relay-ingest'',
       ''relay-deliver'', ''sink'']) (\<lambda>running.
     bindIO (lift (ensure (strip running = [])
       (unproved ''compose relay or sink containers are running'' []))) (\<lambda>_.
     bindIO (sig_command [''docker'', ''inspect'', ''mlp-postgres'']) (\<lambda>_. lift (Inr ()))))))"

section \<open>Cleanup and receipt\<close>

text \<open>
  The cleanup that always runs: the sink is brought back to its baseline, when it was ever
  reached, and the pause annotation to its original value. Each step says whether it restored
  its part and which errors it adds; errors of other kinds go on.
\<close>

definition caught :: "exn \<Rightarrow> bool" where
  "caught e = (case e of Err VerificationError _ _ \<Rightarrow> True | Py x \<Rightarrow> x \<in> {OSError, ValueError} | _ \<Rightarrow> False)"

definition sink_outcome :: "bool res \<Rightarrow> (bool \<times> string list) res" where
  "sink_outcome r =
     (case r of
        Inr b \<Rightarrow> Inr (b, if b then [] else [''sink baseline restore returned {}: {}''])
      | Inl e \<Rightarrow> if caught e then Inr (False, [''sink baseline restore failed: {}'']) else Inl e)"

definition restore_sink :: "(response \<times> response) option \<Rightarrow> (bool \<times> string list) res" where
  "restore_sink reached =
     (case reached of
        None \<Rightarrow> Inr (True, [])
      | Some (posted, control) \<Rightarrow> sink_outcome (bindE posted (\<lambda>(status, payload).
          if status \<noteq> 200 then Inr False else sink_is_at_baseline control)))"

definition restore_pause :: "string option \<Rightarrow> unit res \<Rightarrow> string option res \<Rightarrow> (bool \<times> string list) res" where
  "restore_pause original annotated current =
     (case bindE annotated (\<lambda>_. current) of
        Inr v \<Rightarrow> Inr (v = original, if v = original then [] else [''KEDA pause annotation did not restore exactly''])
      | Inl e \<Rightarrow> if caught e then Inr (False, [''KEDA pause restore failed: {}'']) else Inl e)"

definition join_errors :: "string list \<Rightarrow> string" where
  "join_errors es =
     (let kept = filter (\<lambda>e. e \<noteq> []) es in
      (case kept of [] \<Rightarrow> [] | e # others \<Rightarrow> e @ concat (map (\<lambda>d. ''; '' @ d) others)))"

text \<open>
  The receipt of a run: \<open>body\<close> is the text of the error that ended the run, if any; it has
  set \<open>passed\<close> otherwise.
\<close>

definition finish_verification ::
  "json \<Rightarrow> string option \<Rightarrow> bool \<times> string list \<Rightarrow> bool \<times> string list \<Rightarrow> bool \<Rightarrow> datetime \<Rightarrow> json" where
  "finish_verification result body sink keda stopped now =
     (let errors = snd sink @ snd keda @ (if stopped then [] else [''one or more port-forwards remained running'']);
          ran = (case body of
             None \<Rightarrow> jset result ''result'' (JStr ''passed'')
           | Some e \<Rightarrow> jset result ''error'' (JStr (if e = [] then ''interrupted by SIGINT'' else e)));
          cleaned = jset ran ''cleanup'' (JObj
            [(''sink_baseline_restored'', JBool (fst sink)), (''keda_pause_restored'', JBool (fst keda)),
             (''port_forwards_stopped'', JBool stopped), (''database_lock_released'', JBool True)]);
          existing = (if is_str (jget cleaned ''error'') then [str_of (jget cleaned ''error'')] else []);
          final = (if errors = [] then cleaned
            else jset (jset cleaned ''result'' (JStr ''failed'')) ''error'' (JStr (join_errors (existing @ errors)))) in
      jset final ''finished_at'' (JStr (iso_text now)))"

definition first_result :: "string \<Rightarrow> string \<Rightarrow> bool \<Rightarrow> json" where
  "first_result started_at source_commit clean_tree = JObj
     [(''schema_version'', JInt 1), (''started_at'', JStr started_at), (''context'', JStr ''mlp''),
      (''source_commit'', JStr source_commit), (''worktree_clean'', JBool clean_tree), (''result'', JStr ''failed''),
      (''ingest'', JObj []), (''deliver'', JObj []), (''cleanup'', JObj [])]"

definition sigterm_exit :: "json \<Rightarrow> int" where
  "sigterm_exit payload = (if jget payload ''result'' \<noteq> JStr ''passed'' then 1 else 0)"

text \<open>The output must be new, below the local evidence, and not reached through a link.\<close>

definition validate_output :: "env \<Rightarrow> path \<Rightarrow> unit res" where
  "validate_output w p =
     (let raw_root = root_dir w @ [''.evidence'', ''m4-local'']; walk = map (\<lambda>n. take n p) (rev [Suc (length (root_dir w))..<Suc (length p)]) in
      bindE (ensure (\<not> outside w raw_root p) (unproved ''output must be beneath {}'' [path_json raw_root])) (\<lambda>_.
      bindE (foldE (\<lambda>u q. ensure (\<not> is_symlink w q) (unproved ''output path contains a symlink: {}'' [path_json q])) () walk) (\<lambda>_.
      ensure (\<not> present w p) (unproved ''output already exists: {}'' [path_json p]))))"

end
