(* ===== verification/Sigterm_Correct.thy ===== *)
theory Sigterm_Correct
  imports Sigterm
begin

text \<open>
  The polling loops end and notice what they wait for, an accepted termination was graceful,
  and a run that is reported as passed left the sink and the pause annotation as they were.
\<close>

section \<open>The loops\<close>

text \<open>
  C35. The polling loops return: whatever the predicate, the requests and the pod lists answer
  and however long their turns take, waiting for a condition, for a URL and for pods ends with
  a value or an error, because each turn sleeps for a fixed time.
\<close>

theorem waiting_returns:
  "(\<exists>r. wait_until start cost predicate description timeout = Some r) \<and>
   (\<exists>r. wait_http start cost responses url timeout = Some r) \<and>
   (\<exists>r. wait_ready_pods start cost seen_pods application count timeout = Some r)"
  unfolding wait_until_def wait_http_def wait_ready_pods_def
  by (intro conjI tenths.poll_returns wholes.poll_returns)

text \<open>
  A condition that becomes true in time is noticed: when a reading before the deadline
  finds the predicate true, and no earlier one raised or found it true, waiting returns its value.
\<close>

theorem waiting_notices:
  assumes "readings start tenth cost n < start + timeout" and "predicate n = Inr v" and "truthy v"
    and "\<And>m. m < n \<Longrightarrow> \<exists>u. predicate m = Inr u \<and> \<not> truthy u"
  shows "wait_until start cost predicate description timeout = Some (Inr v)"
  unfolding wait_until_def
proof (rule tenths.poll_notices [where n = n])
  fix m
  assume "m < n"
  from assms(4) [OF this] show "\<exists>l. bindE (predicate (0 + m)) (\<lambda>v. Inr (if truthy v then Inr v else Inl v)) = Inr (Inl l)"
    by auto
qed (use assms in simp_all)

text \<open>The predicate is false at the first two readings and true at the third.\<close>

theorem waiting_notices_witness:
  "wait_until 0 (\<lambda>i. 5) (\<lambda>i. Inr (JBool (2 \<le> i))) ''pods'' 1000000 = Some (Inr (JBool True))"
  by (rule waiting_notices [where n = 2]) (simp_all add: numeral_2_eq_2 tenth_def)

section \<open>The termination\<close>

lemma graceful:
  assumes "analyze_termination events requested_at readiness_false_at grace_seconds = Inr receipt"
  shows "\<exists>e. find exited events = Some e \<and> exit_numbers e = Inr (0, 0) \<and> readiness_false_at < observed_at e \<and>
    observed_at e < requested_at + 1000000 * grace_seconds"
  using assms unfolding analyze_termination_def Let_def
  by (auto simp: bindE_eq_Inr split: option.splits prod.splits)


definition event_t :: "int \<Rightarrow> string \<Rightarrow> pod_event" where
  "event_t t code = \<lparr>observed_at = t, pe_deletion = [], pe_ready = ''False'', pe_exit_code = code, pe_signal = ''0'', pe_reason = []\<rparr>"

lemma numbers_t: "exit_numbers (event_t t ''0'') = Inr (0, 0)"
  by (simp add: exit_numbers_def event_t_def no_value_def py_int_def strip_def is_space_def is_digit_def digits10_def
      str_nat_def digit_val_def)


section \<open>The receipt\<close>

lemma finish_result:
  assumes "jget result ''result'' = JStr ''failed''"
  shows "jget (finish_verification result body sink keda stopped now) ''result'' = JStr ''passed'' \<longleftrightarrow>
    body = None \<and> snd sink = [] \<and> snd keda = [] \<and> stopped"
  using assms by (auto simp: finish_verification_def Let_def split: option.splits)

lemma sink_outcome_clean: "sink_outcome r = Inr (b, es) \<Longrightarrow> es = [] \<longleftrightarrow> b"
  by (auto simp: sink_outcome_def split: sum.splits if_splits)

lemma restore_sink_clean: "restore_sink reached = Inr (b, es) \<Longrightarrow> es = [] \<longleftrightarrow> b"
  by (cases reached) (auto simp: restore_sink_def dest: sink_outcome_clean split: prod.splits)

lemma restore_pause_clean: "restore_pause original annotated current = Inr (b, es) \<Longrightarrow>
    (es = [] \<longleftrightarrow> b) \<and> (b \<longrightarrow> annotated = Inr () \<and> current = Inr original)"
  by (auto simp: restore_pause_def bindE_eq_Inr split: sum.splits if_splits)



end
