(* ===== verification/Aws_Inventory.thy ===== *)
theory Aws_Inventory
  imports Account_Gate
begin

text \<open>
  The resource inventory of \<open>scripts/m4-aws-inventory.py\<close>: eleven listings of the AWS CLI,
  of which the resources of the project are kept, by the ARN of a tag, by tags of their own or
  by name. The receipt before the run is an input of the GO decision, the one after the run
  shows that nothing is left.
\<close>

section \<open>Constants, destination and preflight\<close>

abbreviation invt :: "string \<Rightarrow> json list \<Rightarrow> exn" where
  "invt t args \<equiv> Err InventoryError t args"

definition project :: string where
  "project = ''my-local-platform''"

definition name_prefix :: string where
  "name_prefix = ''mlp-''"

definition runtime_services :: "string list" where
  "runtime_services = [''eks'', ''msk'', ''rds'', ''ec2'', ''ebs'', ''eip'', ''elb'', ''nat'', ''logs'']"

definition output_names :: "string list" where
  "output_names = [''04-inventory-before.json'', ''21-inventory-after.json'']"

definition inventory_run_id :: "string \<Rightarrow> unit res" where
  "inventory_run_id s = check_run_id InventoryError ''run id'' s"

interpretation inventory_ids: run_id_validator inventory_run_id
  by unfold_locales (simp add: inventory_run_id_def check_run_id_iff)

definition inventory_destination :: "env \<Rightarrow> string \<Rightarrow> path \<Rightarrow> path res" where
  "inventory_destination w run_id destination =
     bindE (inventory_run_id run_id) (\<lambda>_.
     bindE (no_linked_parent w InventoryError run_id) (\<lambda>_.
     bindE (ensure (butlast destination = run_dir w run_id \<and> destination \<noteq> [] \<and> last destination \<in> set output_names)
       (invt ''output must be 04-inventory-before.json or 21-inventory-after.json directly under .evidence/m4/{}''
          [JStr run_id])) (\<lambda>_.
     bindE (ensure (\<not> is_symlink w destination)
       (invt ''evidence file must not be a symlink: {}'' [path_json destination])) (\<lambda>_.
       Inr destination))))"

definition inventory_preflight :: "env \<Rightarrow> string \<Rightarrow> string \<Rightarrow> unit res" where
  "inventory_preflight w run_id commit =
     bindE (ensure (commit_shape commit) (invt ''approved commit must be a full lowercase git SHA'' [])) (\<lambda>_.
     let path = run_dir w run_id @ [''00-preflight.json''] in
     bindE (load_file w (invt ''preflight receipt is missing: {}'' [path_json path])
              (invt ''preflight receipt is invalid JSON: {}'' [path_json path]) path) (\<lambda>v.
     ensure (is_dict v \<and> py_eq (jget v ''schema_version'') (JInt 1) \<and> jget v ''run_id'' = JStr run_id \<and>
         jget v ''result'' = JStr ''passed'' \<and> jget v ''commit'' = JStr commit)
       (invt ''preflight receipt is not a pass for the approved commit'' [])))"

text \<open>One listing; the messages name the service and the operation only.\<close>

definition inventory_aws :: "string list \<Rightarrow> json io" where
  "inventory_aws arguments =
     (let name = JStr (''aws '' @ join_words (take 2 arguments)) in
      bindIO (call (''aws'' # arguments @ [''--output'', ''json'']) None) (\<lambda>r.
      bindIO (lift (ensure (returncode r = 0)
        (invt ''{} failed: {}''
           [name, JStr (if strip (stderr r) = [] then ''no error detail'' else strip (stderr r))]))) (\<lambda>_.
      bindIO (ask (\<lambda>w. decode_text w (stdout r))) (\<lambda>out.
      bindIO (ask (\<lambda>w. case loads w out of
          None \<Rightarrow> Inl (invt ''{} returned invalid JSON'' [name]) | Some v \<Rightarrow> Inr v)) (\<lambda>v.
      lift (if is_dict v then Inr v else Inl (invt ''{} returned a non-object'' [name])))))))"

section \<open>What belongs to the project\<close>

definition project_name :: "json \<Rightarrow> bool" where
  "project_name v \<longleftrightarrow> is_str v \<and> contains_str (str_of v) name_prefix"

definition project_tag :: "json \<Rightarrow> bool res" where
  "project_tag tag =
     bindE (py_get tag ''Key'' JNull) (\<lambda>key.
     bindE (py_get tag ''Value'' JNull) (\<lambda>v.
       Inr (key = JStr ''Project'' \<and> v = JStr project \<or>
            is_str key \<and> starts_with (str_of key) ''kubernetes.io/cluster/mlp-'' \<or>
            key = JStr ''Name'' \<and> project_name v)))"

definition tags_owned :: "json \<Rightarrow> bool res" where
  "tags_owned tags = bindE (py_iter tags) (anyE project_tag)"

definition instance_tags :: "json \<Rightarrow> json res" where
  "instance_tags i =
     bindE (py_get i ''Tags'' (JArr [])) (\<lambda>tags. Inr (if is_list tags then tags else JArr []))"

definition tagged_arn :: "json \<Rightarrow> string list res" where
  "tagged_arn r =
     bindE (py_get r ''ResourceARN'' JNull) (\<lambda>arn. Inr (if is_str arn then [str_of arn] else []))"

text \<open>The three filters: by name or tagged ARN, by the tags of the resource, by name alone.\<close>

definition named_or_tagged :: "string list \<Rightarrow> string \<Rightarrow> string \<Rightarrow> json \<Rightarrow> bool res" where
  "named_or_tagged arns name_key arn_key r =
     bindE (py_get r name_key JNull) (\<lambda>name.
       if project_name name then Inr True
       else bindE (py_get r arn_key JNull) (\<lambda>arn. py_in_set arn arns))"

definition own_tags :: "json \<Rightarrow> bool res" where
  "own_tags r = bindE (py_get r ''Tags'' (JArr [])) tags_owned"

definition live_gateway :: "json \<Rightarrow> bool res" where
  "live_gateway g =
     bindE (own_tags g) (\<lambda>tagged.
       if \<not> tagged then Inr False
       else bindE (py_get g ''State'' JNull) (\<lambda>state. Inr (state \<noteq> JStr ''deleted'')))"

definition listed :: "json \<Rightarrow> string \<Rightarrow> json list res" where
  "listed v key = py_iter (jget_or v key (JArr []))"

definition kept :: "(json \<Rightarrow> bool res) \<Rightarrow> json \<Rightarrow> string \<Rightarrow> json list res" where
  "kept owned v key = bindE (listed v key) (filterE owned)"

definition instances_of :: "json \<Rightarrow> json list res" where
  "instances_of reservation = bindE (py_get reservation ''Instances'' (JArr [])) py_iter"

definition owned_instance :: "json \<Rightarrow> bool res" where
  "owned_instance i = bindE (instance_tags i) tags_owned"

definition py_len :: "json \<Rightarrow> int" where
  "py_len v = int (case v of JArr xs \<Rightarrow> length xs | JObj ps \<Rightarrow> length ps | JStr s \<Rightarrow> length s | _ \<Rightarrow> 0)"

section \<open>The receipt\<close>

record answers =
  an_tagged :: json
  an_eks :: json
  an_msk :: json
  an_rds :: json
  an_ec2 :: json
  an_ebs :: json
  an_eip :: json
  an_elb :: json
  an_ecr :: json
  an_nat :: json
  an_logs :: json

definition tagged_resources :: "answers \<Rightarrow> json" where
  "tagged_resources a = jget_or (an_tagged a) ''ResourceTagMappingList'' (JArr [])"

definition tagged_arns :: "answers \<Rightarrow> string list res" where
  "tagged_arns a =
     bindE (py_iter (tagged_resources a)) (\<lambda>rs.
     bindE (mapE tagged_arn rs) (\<lambda>arns. Inr (concat arns)))"

definition owned_instances :: "answers \<Rightarrow> json list res" where
  "owned_instances a =
     bindE (listed (an_ec2 a) ''Reservations'') (\<lambda>reservations.
     bindE (mapE (\<lambda>r. bindE (instances_of r) (filterE owned_instance)) reservations) (\<lambda>found.
       Inr (concat found)))"

text \<open>The resources of every service after the tagged ones, in the order of the dict.\<close>

definition service_resources :: "answers \<Rightarrow> string list \<Rightarrow> json list \<Rightarrow> (string \<times> json list) list res" where
  "service_resources a arns instances =
     bindE (kept (\<lambda>n. Inr (project_name n)) (an_eks a) ''clusters'') (\<lambda>eks.
     bindE (kept (named_or_tagged arns ''ClusterName'' ''ClusterArn'') (an_msk a) ''ClusterInfoList'') (\<lambda>msk.
     bindE (kept (named_or_tagged arns ''DBInstanceIdentifier'' ''DBInstanceArn'') (an_rds a) ''DBInstances'') (\<lambda>rds.
     bindE (kept own_tags (an_ebs a) ''Volumes'') (\<lambda>ebs.
     bindE (kept own_tags (an_eip a) ''Addresses'') (\<lambda>eip.
     bindE (kept (named_or_tagged arns ''LoadBalancerName'' ''LoadBalancerArn'') (an_elb a) ''LoadBalancers'') (\<lambda>elb.
     bindE (kept (named_or_tagged arns ''repositoryName'' ''repositoryArn'') (an_ecr a) ''repositories'') (\<lambda>ecr.
     bindE (kept live_gateway (an_nat a) ''NatGateways'') (\<lambda>nat.
     bindE (kept (named_or_tagged arns ''logGroupName'' ''arn'') (an_logs a) ''logGroups'') (\<lambda>logs.
       Inr [(''eks'', eks), (''msk'', msk), (''rds'', rds), (''ec2'', instances), (''ebs'', ebs),
            (''eip'', eip), (''elb'', elb), (''ecr'', ecr), (''nat'', nat), (''logs'', logs)])))))))))"

definition count_found :: "(string \<times> json list) list \<Rightarrow> string \<Rightarrow> int" where
  "count_found found name = (case map_of found name of None \<Rightarrow> 0 | Some rs \<Rightarrow> int (length rs))"

definition runtime_present :: "(string \<times> json list) list \<Rightarrow> obj" where
  "runtime_present found =
     map (\<lambda>n. (n, JInt (count_found found n))) (filter (\<lambda>n. count_found found n \<noteq> 0) runtime_services)"

definition inventory_json :: "string \<Rightarrow> datetime \<Rightarrow> json \<Rightarrow> (string \<times> json list) list \<Rightarrow> json" where
  "inventory_json region now tagged found = JObj
     [(''schema_version'', JInt 1), (''captured_at'', JStr (stamp_text now)), (''region'', JStr region),
      (''project'', JStr project),
      (''counts'', JObj ((''tagged'', JInt (py_len tagged)) # map (\<lambda>(n, rs). (n, JInt (int (length rs)))) found)),
      (''runtime_resources_present'', JObj (runtime_present found)),
      (''runtime_empty'', JBool (runtime_present found = [])),
      (''resources'', JObj ((''tagged'', tagged) # map (\<lambda>(n, rs). (n, JArr rs)) found))]"

definition inventory_of :: "string \<Rightarrow> datetime \<Rightarrow> answers \<Rightarrow> json res" where
  "inventory_of region now a =
     bindE (tagged_arns a) (\<lambda>arns.
     bindE (owned_instances a) (\<lambda>instances.
     bindE (service_resources a arns instances) (\<lambda>found.
       Inr (inventory_json region now (tagged_resources a) found))))"

text \<open>The listings are asked of a runner; the script itself uses \<open>aws_json\<close>.\<close>

definition collect_with :: "(string list \<Rightarrow> json io) \<Rightarrow> string \<Rightarrow> datetime \<Rightarrow> json io" where
  "collect_with runner region now =
     bindIO (lift (ensure (region \<noteq> []) (invt ''AWS_REGION or --region is required'' []))) (\<lambda>_.
     let common = [''--region'', region] in
     bindIO (runner ([''resourcegroupstaggingapi'', ''get-resources'', ''--tag-filters'',
        ''Key=Project,Values='' @ project] @ common)) (\<lambda>tagged.
     bindIO (runner ([''eks'', ''list-clusters''] @ common)) (\<lambda>eks.
     bindIO (runner ([''kafka'', ''list-clusters-v2''] @ common)) (\<lambda>msk.
     bindIO (runner ([''rds'', ''describe-db-instances''] @ common)) (\<lambda>rds.
     bindIO (runner ([''ec2'', ''describe-instances'', ''--filters'',
        ''Name=instance-state-name,Values=pending,running,shutting-down,stopping,stopped''] @ common)) (\<lambda>ec2.
     bindIO (runner ([''ec2'', ''describe-volumes''] @ common)) (\<lambda>ebs.
     bindIO (runner ([''ec2'', ''describe-addresses''] @ common)) (\<lambda>eip.
     bindIO (runner ([''elbv2'', ''describe-load-balancers''] @ common)) (\<lambda>elb.
     bindIO (runner ([''ecr'', ''describe-repositories''] @ common)) (\<lambda>ecr.
     bindIO (runner ([''ec2'', ''describe-nat-gateways''] @ common)) (\<lambda>nat.
     bindIO (runner ([''logs'', ''describe-log-groups''] @ common)) (\<lambda>logs.
     lift (inventory_of region now
       \<lparr>an_tagged = tagged, an_eks = eks, an_msk = msk, an_rds = rds, an_ec2 = ec2, an_ebs = ebs,
        an_eip = eip, an_elb = elb, an_ecr = ecr, an_nat = nat, an_logs = logs\<rparr>)))))))))))))"

definition collect :: "string \<Rightarrow> datetime \<Rightarrow> json io" where
  "collect = collect_with inventory_aws"

section \<open>The run\<close>

text \<open>ECR repositories are allowed before the run and must be gone after it.\<close>

definition require_cleanup_inventory :: "json \<Rightarrow> path \<Rightarrow> json" where
  "require_cleanup_inventory inventory destination =
     (let ecr = jget (jget inventory ''counts'') ''ecr'' in
      if last destination = ''21-inventory-after.json'' \<and> truthy ecr
      then jset (jset inventory ''runtime_resources_present'' (jset (jget inventory ''runtime_resources_present'') ''ecr'' ecr))
             ''runtime_empty'' (JBool False)
      else inventory)"

definition bound_inventory :: "json \<Rightarrow> string \<Rightarrow> string \<Rightarrow> json" where
  "bound_inventory inventory run_id commit =
     jset (jset inventory ''run_id'' (JStr run_id)) ''source_commit'' (JStr commit)"

definition capture_inventory :: "string \<Rightarrow> string \<Rightarrow> string \<Rightarrow> path \<Rightarrow> datetime \<Rightarrow> (path \<times> json) io" where
  "capture_inventory run_id commit region destination now =
     bindIO (ask (\<lambda>w. inventory_destination w run_id destination)) (\<lambda>target.
     bindIO (ask (\<lambda>w. inventory_preflight w run_id commit)) (\<lambda>_.
     bindIO (collect region now) (\<lambda>inventory.
     lift (Inr (target, bound_inventory (require_cleanup_inventory inventory target) run_id commit)))))"

text \<open>
  \<open>main\<close> after the arguments are parsed: the exit code, the commands issued and the files
  afterwards. An \<open>InventoryError\<close> is reported, every other exception ends the script.
\<close>

definition inventory_main ::
  "string \<Rightarrow> string \<Rightarrow> string \<Rightarrow> path \<Rightarrow> bool \<Rightarrow> datetime \<Rightarrow> env \<Rightarrow> event list \<Rightarrow> int res \<times> event list \<times> env" where
  "inventory_main run_id commit region destination require_no_runtime now w t =
     (case capture_inventory run_id commit region destination now w t of
        (Inl (Err InventoryError m args), u) \<Rightarrow> (Inr 1, u, w)
      | (Inl e, u) \<Rightarrow> (Inl e, u, w)
      | (Inr (target, inventory), u) \<Rightarrow>
          (case write_json_atomic target inventory 384 w of
             (Inl e, w') \<Rightarrow> (Inl e, u, w')
           | (Inr _, w') \<Rightarrow>
               (Inr (if require_no_runtime \<and> jget inventory ''runtime_empty'' \<noteq> JBool True then 1 else 0), u, w')))"

end
