(* ===== verification/Aws_Inventory_Correct.thy ===== *)
theory Aws_Inventory_Correct
  imports Aws_Inventory Account_Gate_Correct
begin

text \<open>
  The inventory lists exactly the project's resources of the answers, it only reads, a run
  that reports success after the cleanup has left nothing, and the receipt before the run is
  accepted by the GO decision.
\<close>

section \<open>What the filters keep\<close>

definition elements :: "json \<Rightarrow> string \<Rightarrow> json list" where
  "elements v key = (case listed v key of Inl e \<Rightarrow> [] | Inr rs \<Rightarrow> rs)"

definition owns_tag :: "json \<Rightarrow> bool" where
  "owns_tag tag \<longleftrightarrow> jget tag ''Key'' = JStr ''Project'' \<and> jget tag ''Value'' = JStr ''my-local-platform'' \<or>
     is_str (jget tag ''Key'') \<and> starts_with (str_of (jget tag ''Key'')) ''kubernetes.io/cluster/mlp-'' \<or>
     jget tag ''Key'' = JStr ''Name'' \<and> project_name (jget tag ''Value'')"

definition shows_tag :: "json \<Rightarrow> bool" where
  "shows_tag r \<longleftrightarrow> (\<exists>tag \<in> set (items_of (jget r ''Tags'')). owns_tag tag)"

definition reported_arn :: "answers \<Rightarrow> json \<Rightarrow> bool" where
  "reported_arn a v \<longleftrightarrow> is_str v \<and>
     (\<exists>r \<in> set (elements (an_tagged a) ''ResourceTagMappingList''). jget r ''ResourceARN'' = v)"

definition named_by :: "answers \<Rightarrow> string \<Rightarrow> string \<Rightarrow> json \<Rightarrow> bool" where
  "named_by a name_key arn_key r \<longleftrightarrow> project_name (jget r name_key) \<or> reported_arn a (jget r arn_key)"

text \<open>The project's resources of every service, read from the answers without any error case.\<close>

definition project_resources :: "answers \<Rightarrow> (string \<times> json list) list" where
  "project_resources a =
     [(''eks'', filter project_name (elements (an_eks a) ''clusters'')),
      (''msk'', filter (named_by a ''ClusterName'' ''ClusterArn'') (elements (an_msk a) ''ClusterInfoList'')),
      (''rds'', filter (named_by a ''DBInstanceIdentifier'' ''DBInstanceArn'') (elements (an_rds a) ''DBInstances'')),
      (''ec2'', filter shows_tag (concat (map (\<lambda>r. elements r ''Instances'') (elements (an_ec2 a) ''Reservations'')))),
      (''ebs'', filter shows_tag (elements (an_ebs a) ''Volumes'')),
      (''eip'', filter shows_tag (elements (an_eip a) ''Addresses'')),
      (''elb'', filter (named_by a ''LoadBalancerName'' ''LoadBalancerArn'') (elements (an_elb a) ''LoadBalancers'')),
      (''ecr'', filter (named_by a ''repositoryName'' ''repositoryArn'') (elements (an_ecr a) ''repositories'')),
      (''nat'', filter (\<lambda>g. shows_tag g \<and> jget g ''State'' \<noteq> JStr ''deleted'') (elements (an_nat a) ''NatGateways'')),
      (''logs'', filter (named_by a ''logGroupName'' ''arn'') (elements (an_logs a) ''logGroups''))]"

lemma jget_or_default: "is_dict v \<Longrightarrow> jget_or v k JNull = jget v k"
  by (simp add: jget_or_jget has_key_def jget_def split: option.splits)

lemma filterE_keeps:
  assumes "filterE p xs = Inr ys" and "\<And>x b. p x = Inr b \<Longrightarrow> b \<longleftrightarrow> q x"
  shows "ys = filter q xs"
proof -
  note f = filterE_eq_Inr [OF assms(1)]
  have "p x = Inr True \<longleftrightarrow> q x" if "x \<in> set xs" for x
  proof -
    from f that obtain b where b: "p x = Inr b" by blast
    with assms(2) [OF b] show ?thesis by simp
  qed
  then have "filter (\<lambda>x. p x = Inr True) xs = filter q xs" by (intro filter_cong) simp_all
  with f show ?thesis by simp
qed

lemma kept_elements:
  assumes "kept p v key = Inr ys" and "\<And>x b. p x = Inr b \<Longrightarrow> b \<longleftrightarrow> q x"
  shows "ys = filter q (elements v key)"
  using assms(1) filterE_keeps [OF _ assms(2)] by (auto simp: kept_def elements_def bindE_eq_Inr)

lemma anyE_exists:
  assumes "anyE p xs = Inr b" and "\<And>x b. p x = Inr b \<Longrightarrow> b \<longleftrightarrow> q x"
  shows "b \<longleftrightarrow> (\<exists>x \<in> set xs. q x)"
  using assms(1) by (induction xs) (auto simp: bindE_eq_Inr dest: assms(2) split: if_splits)

lemma project_tag_owns: "project_tag tag = Inr b \<Longrightarrow> b \<longleftrightarrow> owns_tag tag"
  by (simp only: project_tag_def bindE_eq_Inr py_get_eq_Inr owns_tag_def project_def sum.inject)
    (elim exE conjE, simp only: jget_or_default)

lemma tags_owned_items: "tags_owned tags = Inr b \<Longrightarrow> b \<longleftrightarrow> (\<exists>tag \<in> set (items_of tags). owns_tag tag)"
proof -
  assume a: "tags_owned tags = Inr b"
  then obtain ts where ts: "py_iter tags = Inr ts" and any: "anyE project_tag ts = Inr b"
    by (auto simp: tags_owned_def bindE_eq_Inr)
  have no_text: "project_tag (JStr s) = Inl (Py AttributeError)" for s
    by (simp add: project_tag_def py_get_def bindE_def)
  show ?thesis
  proof (cases tags)
    case (JArr xs)
    with ts any show ?thesis using anyE_exists [OF any project_tag_owns] by simp
  next
    case (JObj ps)
    with ts any no_text show ?thesis by (cases ps) (auto simp: py_iter_def bindE_eq_Inr)
  next
    case (JStr s)
    with ts any no_text show ?thesis by (cases s) (auto simp: py_iter_def bindE_eq_Inr)
  qed (use ts in \<open>simp_all add: py_iter_def\<close>)
qed

lemma jget_or_items: "items_of (jget_or v k (JArr [])) = items_of (jget v k)"
  by (simp add: jget_or_def jget_def split: option.splits)

lemma own_tags_shows: "own_tags r = Inr b \<Longrightarrow> b \<longleftrightarrow> shows_tag r"
  by (auto simp: own_tags_def bindE_eq_Inr py_get_eq_Inr shows_tag_def jget_or_items dest!: tags_owned_items)

lemma owned_instance_shows: "owned_instance i = Inr b \<Longrightarrow> b \<longleftrightarrow> shows_tag i"
proof -
  have "items_of (if is_list v then v else JArr []) = items_of v" for v by (cases v) simp_all
  then show "owned_instance i = Inr b \<Longrightarrow> ?thesis"
    by (auto simp: owned_instance_def instance_tags_def bindE_eq_Inr py_get_eq_Inr shows_tag_def jget_or_items
        dest!: tags_owned_items)
qed

lemma live_gateway_shows: "live_gateway g = Inr b \<Longrightarrow> b \<longleftrightarrow> shows_tag g \<and> jget g ''State'' \<noteq> JStr ''deleted''"
  by (auto simp: live_gateway_def bindE_eq_Inr py_get_eq_Inr jget_or_default dest: own_tags_shows split: if_splits)

lemma tagged_arns_reported:
  assumes "tagged_arns a = Inr arns"
  shows "JStr s \<in> JStr ` set arns \<longleftrightarrow> reported_arn a (JStr s)"
proof -
  from assms obtain rs found where rs: "listed (an_tagged a) ''ResourceTagMappingList'' = Inr rs"
    and found: "mapE tagged_arn rs = Inr found" and arns: "arns = concat found"
    by (auto simp: tagged_arns_def tagged_resources_def listed_def bindE_eq_Inr)
  have one: "x \<in> set y \<longleftrightarrow> jget r ''ResourceARN'' = JStr x" if "tagged_arn r = Inr y" for r y x
    using that by (auto simp: tagged_arn_def bindE_eq_Inr py_get_eq_Inr jget_or_default is_str_iff split: if_splits)
  have "s \<in> set arns \<longleftrightarrow> (\<exists>r \<in> set rs. jget r ''ResourceARN'' = JStr s)"
    using found one unfolding arns mapE_eq_Inr
    by (auto dest: list_all2_set2) (blast dest: list_all2_set1 list_all2_set2)+
  with rs show ?thesis by (auto simp: reported_arn_def elements_def)
qed

lemma named_or_tagged_named:
  assumes "tagged_arns a = Inr arns" and "named_or_tagged arns name_key arn_key r = Inr b"
  shows "b \<longleftrightarrow> named_by a name_key arn_key r"
proof -
  have "py_in_set v arns = Inr b \<Longrightarrow> b \<longleftrightarrow> reported_arn a v" for v b
    using tagged_arns_reported [OF assms(1)] by (cases v) (auto simp: py_in_set_def reported_arn_def)
  with assms(2) show ?thesis
    by (auto simp: named_or_tagged_def named_by_def bindE_eq_Inr py_get_eq_Inr jget_or_default split: if_splits)
qed

lemma owned_instances_shows:
  assumes "owned_instances a = Inr found"
  shows "found = filter shows_tag (concat (map (\<lambda>r. elements r ''Instances'') (elements (an_ec2 a) ''Reservations'')))"
proof -
  from assms obtain rs parts where rs: "elements (an_ec2 a) ''Reservations'' = rs"
    and parts: "mapE (\<lambda>r. bindE (instances_of r) (filterE owned_instance)) rs = Inr parts" and found: "found = concat parts"
    by (auto simp: owned_instances_def elements_def bindE_eq_Inr)
  have one: "y = filter shows_tag (elements r ''Instances'')"
    if "bindE (instances_of r) (filterE owned_instance) = Inr y" for r y
    using that filterE_keeps [OF _ owned_instance_shows]
    by (auto simp: instances_of_def bindE_eq_Inr py_get_eq_Inr elements_def listed_def)
  have "parts = map (\<lambda>r. filter shows_tag (elements r ''Instances'')) rs"
    using parts one by (auto simp: mapE_eq_Inr list_all2_conv_all_nth intro!: nth_equalityI)
  then show ?thesis by (simp add: found rs filter_concat comp_def)
qed

lemma service_resources_exact:
  assumes "tagged_arns a = Inr arns" and "owned_instances a = Inr instances"
    and "service_resources a arns instances = Inr found"
  shows "found = project_resources a"
proof -
  note named = kept_elements [OF _ named_or_tagged_named [OF assms(1)]] and tagged = kept_elements [OF _ own_tags_shows]
  have plain: "ys = filter project_name (elements v key)" if "kept (\<lambda>n. Inr (project_name n)) v key = Inr ys" for v key ys
    by (rule kept_elements [OF that]) simp
  from assms(3) obtain eks msk rds ebs eip elb ecr nat logs where
    1: "kept (\<lambda>n. Inr (project_name n)) (an_eks a) ''clusters'' = Inr eks" and
    2: "kept (named_or_tagged arns ''ClusterName'' ''ClusterArn'') (an_msk a) ''ClusterInfoList'' = Inr msk" and
    3: "kept (named_or_tagged arns ''DBInstanceIdentifier'' ''DBInstanceArn'') (an_rds a) ''DBInstances'' = Inr rds" and
    4: "kept own_tags (an_ebs a) ''Volumes'' = Inr ebs" and 5: "kept own_tags (an_eip a) ''Addresses'' = Inr eip" and
    6: "kept (named_or_tagged arns ''LoadBalancerName'' ''LoadBalancerArn'') (an_elb a) ''LoadBalancers'' = Inr elb" and
    7: "kept (named_or_tagged arns ''repositoryName'' ''repositoryArn'') (an_ecr a) ''repositories'' = Inr ecr" and
    8: "kept live_gateway (an_nat a) ''NatGateways'' = Inr nat" and
    9: "kept (named_or_tagged arns ''logGroupName'' ''arn'') (an_logs a) ''logGroups'' = Inr logs" and
    found: "found = [(''eks'', eks), (''msk'', msk), (''rds'', rds), (''ec2'', instances), (''ebs'', ebs),
      (''eip'', eip), (''elb'', elb), (''ecr'', ecr), (''nat'', nat), (''logs'', logs)]"
    unfolding service_resources_def bindE_eq_Inr sum.inject by blast
  show ?thesis
    unfolding found project_resources_def
    by (simp only: plain [OF 1] named [OF 2] named [OF 3] tagged [OF 4] tagged [OF 5] named [OF 6] named [OF 7]
        kept_elements [OF 8 live_gateway_shows] named [OF 9] owned_instances_shows [OF assms(2)])
qed

section \<open>The receipt\<close>

lemma project_services: "map fst (project_resources a) =
    [''eks'', ''msk'', ''rds'', ''ec2'', ''ebs'', ''eip'', ''elb'', ''ecr'', ''nat'', ''logs'']"
  by (simp add: project_resources_def)

lemma inventory_of_json:
  "inventory_of region now a = Inr v \<Longrightarrow>
     v = inventory_json region now (tagged_resources a) (project_resources a)"
  by (auto simp: inventory_of_def bindE_eq_Inr dest: service_resources_exact)

lemma map_of_pairs: "map_of (map (\<lambda>(n, x). (n, f x)) ps) k = map_option f (map_of ps k)"
  by (induction ps) auto

lemma inventory_json_service:
  assumes "(s, rs) \<in> set (project_resources a)"
  shows "jget (jget (inventory_json region now tagged (project_resources a)) ''resources'') s = JArr rs"
    and "jget (jget (inventory_json region now tagged (project_resources a)) ''counts'') s = JInt (int (length rs))"
proof -
  have "distinct (map fst (project_resources a))" by (simp add: project_services)
  with assms have m: "map_of (project_resources a) s = Some rs" by simp
  have "s \<noteq> ''tagged''" using assms project_services [of a] by (auto simp: project_resources_def)
  with m show "jget (jget (inventory_json region now tagged (project_resources a)) ''resources'') s = JArr rs"
    "jget (jget (inventory_json region now tagged (project_resources a)) ''counts'') s = JInt (int (length rs))"
    by (simp_all add: inventory_json_def jget_obj map_of_pairs)
qed

lemma runtime_present_ten:
  "runtime_present [(''eks'', a), (''msk'', b), (''rds'', c), (''ec2'', d), (''ebs'', e), (''eip'', f), (''elb'', g),
     (''ecr'', h), (''nat'', i), (''logs'', j)] = [] \<longleftrightarrow>
   a = [] \<and> b = [] \<and> c = [] \<and> d = [] \<and> e = [] \<and> f = [] \<and> g = [] \<and> i = [] \<and> j = []"
  by (simp add: runtime_present_def runtime_services_def count_found_def)

lemma runtime_present_nil:
  "runtime_present (project_resources a) = [] \<longleftrightarrow> (\<forall>(s, rs) \<in> set (project_resources a). s = ''ecr'' \<or> rs = [])"
  unfolding project_resources_def runtime_present_ten by (simp del: filter_empty_conv)

lemma inventory_empty:
  "jget (inventory_json region now tagged (project_resources a)) ''runtime_empty'' = JBool True \<longleftrightarrow>
     (\<forall>(s, rs) \<in> set (project_resources a). s = ''ecr'' \<or> rs = [])"
  by (simp add: runtime_present_nil [symmetric]) (simp add: inventory_json_def)

text \<open>
  C32. The receipt is exact: for every service it lists and counts the resources of the answers
  that carry the project's tag or name or whose ARN the tagging service reports, no more and no
  less, and it says that the runtime is empty exactly when no service but ECR has any.
\<close>

theorem inventory_exact:
  assumes "inventory_of region now a = Inr v"
  shows "list_all (\<lambda>(s, rs). jget (jget v ''resources'') s = JArr rs \<and>
           jget (jget v ''counts'') s = JInt (int (length rs))) (project_resources a) \<and>
    (jget v ''runtime_empty'' = JBool True \<longleftrightarrow>
       list_all (\<lambda>(s, rs). s = ''ecr'' \<or> rs = []) (project_resources a))"
  unfolding inventory_of_json [OF assms] inventory_empty
  using inventory_json_service by (auto simp: list_all_iff)

section \<open>The commands\<close>

lemma inventory_aws_reads [io_intros]:
  "read_verb verb \<Longrightarrow> issues_only reads_only (inventory_aws (service # verb # rest))"
  unfolding inventory_aws_def Let_def append_Cons by (intro io_intros) (simp add: reads_only_def)

lemma inventory_only_reads: "issues_only reads_only (capture_inventory run_id commit region destination now)"
  unfolding capture_inventory_def collect_def collect_with_def Let_def append_Cons
  by (intro io_intros; simp add: verb_defs)

text \<open>What the AWS CLI answered to one command, after the ones before it.\<close>

definition answered :: "env \<Rightarrow> event list \<Rightarrow> event \<Rightarrow> json \<Rightarrow> bool" where
  "answered w t e v \<longleftrightarrow> returncode (answer w t e) = 0 \<and> is_dict v \<and>
     (\<exists>out. decode w (stdout (answer w t e)) = Some out \<and> loads w out = Some v)"

definition listing :: "string list \<Rightarrow> event" where
  "listing arguments = \<lparr>ev_command = ''aws'' # arguments @ [''--output'', ''json''], ev_input = None\<rparr>"

lemma inventory_aws_returns [io_simps]:
  "returns (inventory_aws arguments) w t v u \<longleftrightarrow> answered w t (listing arguments) v \<and> u = t @ [listing arguments]"
  by (auto simp: inventory_aws_def Let_def io_simps answered_def listing_def decode_text_def split: option.splits if_splits)

definition listings :: "string \<Rightarrow> string list list" where
  "listings region = map (\<lambda>arguments. arguments @ [''--region'', region])
     [[''resourcegroupstaggingapi'', ''get-resources'', ''--tag-filters'', ''Key=Project,Values=my-local-platform''],
      [''eks'', ''list-clusters''], [''kafka'', ''list-clusters-v2''], [''rds'', ''describe-db-instances''],
      [''ec2'', ''describe-instances'', ''--filters'',
       ''Name=instance-state-name,Values=pending,running,shutting-down,stopping,stopped''],
      [''ec2'', ''describe-volumes''], [''ec2'', ''describe-addresses''], [''elbv2'', ''describe-load-balancers''],
      [''ecr'', ''describe-repositories''], [''ec2'', ''describe-nat-gateways''], [''logs'', ''describe-log-groups'']]"

definition answer_list :: "answers \<Rightarrow> json list" where
  "answer_list a = [an_tagged a, an_eks a, an_msk a, an_rds a, an_ec2 a, an_ebs a, an_eip a, an_elb a,
     an_ecr a, an_nat a, an_logs a]"

fun all_answered :: "env \<Rightarrow> event list \<Rightarrow> string list list \<Rightarrow> json list \<Rightarrow> bool" where
  "all_answered w t [] [] = True"
| "all_answered w t (c # cs) (v # vs) = (answered w t (listing c) v \<and> all_answered w (t @ [listing c]) cs vs)"
| "all_answered w t _ _ = False"

lemma collected_answers:
  assumes "returns (collect region now) w t v u"
  shows "\<exists>a. all_answered w t (listings region) (answer_list a) \<and> inventory_of region now a = Inr v"
proof -
  from assms obtain a where "inventory_of region now a = Inr v"
    and "all_answered w t (listings region) (answer_list a)"
    unfolding collect_def collect_with_def Let_def listings_def answer_list_def
    by (clarsimp simp: io_simps project_def)
  then show ?thesis by blast
qed
section \<open>The run\<close>

text \<open>A run that requires an empty runtime and exits with zero wrote a receipt that says so.\<close>

lemma successful_run:
  assumes "inventory_main run_id commit region destination True now w t = (Inr 0, u, w')"
  shows "\<exists>a v. all_answered w t (listings region) (answer_list a) \<and> inventory_of region now a = Inr v \<and>
    files w' destination = Some (regular 384 (json_dump
      (bound_inventory (require_cleanup_inventory v destination) run_id commit))) \<and>
    jget (require_cleanup_inventory v destination) ''runtime_empty'' = JBool True \<and>
    (\<exists>es. u = t @ es \<and> list_all reads_only es)"
proof -
  let ?m = "capture_inventory run_id commit region destination now"
  obtain target v' where run: "returns ?m w t (target, v') u" and stored: "w' = w\<lparr>files := (files w)(target \<mapsto> regular 384 (json_dump v'))\<rparr>"
    and zero: "jget v' ''runtime_empty'' = JBool True"
    using assms
    by (cases "?m w t") (auto simp: inventory_main_def returns_def write_json_atomic_def split: sum.splits exn.splits err_class.splits if_splits)
  from run obtain v where target: "target = destination"
    and v': "v' = bound_inventory (require_cleanup_inventory v target) run_id commit"
    and coll: "returns (collect region now) w t v u"
    unfolding capture_inventory_def
    by (auto simp: io_simps inventory_destination_def bindE_eq_Inr)
  obtain a where "all_answered w t (listings region) (answer_list a)" "inventory_of region now a = Inr v"
    using collected_answers [OF coll] by blast
  moreover obtain es where "snd (?m w t) = t @ es" "list_all reads_only es"
    using issues_only_trace [OF inventory_only_reads] by blast
  moreover have "snd (?m w t) = u" using run by (simp add: returns_def)
  moreover have "jget (require_cleanup_inventory v target) ''runtime_empty'' = JBool True"
    using zero by (simp add: v' bound_inventory_def)
  ultimately show ?thesis using target by (auto simp: stored v')
qed

lemma cleaned_runtime:
  assumes "inventory_of region now a = Inr v" and "last destination = ''21-inventory-after.json''"
    and "jget (require_cleanup_inventory v destination) ''runtime_empty'' = JBool True"
  shows "list_all (\<lambda>(s, rs). rs = []) (project_resources a)"
proof -
  have v: "v = inventory_json region now (tagged_resources a) (project_resources a)" by (rule inventory_of_json [OF assms(1)])
  obtain ecr where mem: "(''ecr'', ecr) \<in> set (project_resources a)" by (simp add: project_resources_def)
  have none: "ecr = [] \<and> jget v ''runtime_empty'' = JBool True"
    using assms(2,3) inventory_json_service(2) [OF mem, where region = region and now = now and tagged = "tagged_resources a"]
    by (simp add: require_cleanup_inventory_def Let_def v [symmetric] split: if_splits)
  have unique: "rs = ecr" if "(''ecr'', rs) \<in> set (project_resources a)" for rs
    using that mem by (simp add: project_resources_def)
  show ?thesis using none inventory_empty [of region now "tagged_resources a" a] unique
    by (auto simp: v list_all_iff split_beta)
qed

text \<open>
  C33. A cleanup that is reported as complete left nothing: when the inventory after the run
  exits with zero under the flag that requires an empty runtime, then AWS answered all eleven
  listings, and in these answers no service, ECR included, has a resource of the project; the
  run itself only read.
\<close>

theorem cleared_run_left_nothing:
  assumes "inventory_main run_id commit region destination True now w t = (Inr 0, u, w')"
    and "last destination = ''21-inventory-after.json''"
  shows "\<exists>a. all_answered w t (listings region) (answer_list a) \<and>
    list_all (\<lambda>(s, rs). rs = []) (project_resources a) \<and> (\<exists>es. u = t @ es \<and> list_all reads_only es)"
  using successful_run [OF assms(1)] cleaned_runtime [OF _ assms(2)] by blast

section \<open>A sample inventory\<close>

text \<open>Nothing exists but the given ECR repositories; the answer of a command is named by its verb.\<close>

definition commit_i :: string where
  "commit_i = replicate 40 (CHR ''a'')"

definition preflight_i :: json where
  "preflight_i = JObj [(''schema_version'', JInt 1), (''run_id'', JStr (run_text now_q)), (''result'', JStr ''passed''),
     (''commit'', JStr commit_i)]"

definition reply_i :: "json list \<Rightarrow> string \<Rightarrow> json" where
  "reply_i repos label = (if label = ''preflight'' then preflight_i
     else JObj (if label = ''describe-repositories'' then [(''repositories'', JArr repos)] else []))"

definition env_i :: "json list \<Rightarrow> env" where
  "env_i repos = \<lparr>root_dir = [],
     files = [[''.evidence'', ''m4'', run_text now_q, ''00-preflight.json''] \<mapsto> regular 384 ''preflight''],
     outside = (\<lambda>p q. False), loads = (\<lambda>s. Some (reply_i repos s)), repeats = (\<lambda>s. False), decode = Some,
     sha256 = (\<lambda>s. s), answer = (\<lambda>t e. \<lparr>returncode = 0, stdout = ev_command e ! 2, stderr = []\<rparr>)\<rparr>"

definition repos_i :: "json list" where
  "repos_i = [JObj [(''repositoryName'', JStr ''mlp-dev/relay'')], JObj [(''repositoryName'', JStr ''mlp-dev/sink'')]]"

lemma now_i: "full_year now_q"
  by (simp add: now_q_def full_year_def valid_time_def days_in_month_def)

lemma aws_i: "inventory_aws (service # verb # rest) (env_i repos) t =
    (Inr (reply_i repos verb), t @ [listing (service # verb # rest)])"
proof -
  have "is_dict (reply_i repos verb)" by (simp add: reply_i_def preflight_i_def)
  then have "answered (env_i repos) t (listing (service # verb # rest)) (reply_i repos verb)"
    by (simp add: answered_def listing_def env_i_def)
  then show ?thesis using inventory_aws_returns by (simp add: returns_def)
qed

lemma destination_i: "name \<in> set output_names \<Longrightarrow>
    inventory_destination (env_i repos) (run_text now_q) [''.evidence'', ''m4'', run_text now_q, name] =
      Inr [''.evidence'', ''m4'', run_text now_q, name]"
  using inventory_ids.accepts_text [OF now_i]
  by (auto simp: inventory_destination_def no_linked_parent_def run_parents_def run_dir_def env_i_def is_symlink_def output_names_def)

lemma preflight_i: "inventory_preflight (env_i repos) (run_text now_q) commit_i = Inr ()"
proof -
  have "commit_shape commit_i" by (simp add: commit_i_def commit_shape_def list_all_iff is_hex_def hex16_def)
  then show ?thesis
    by (simp add: inventory_preflight_def load_file_def read_bytes_def run_dir_def env_i_def decode_text_def reply_i_def preflight_i_def)
qed

lemma kept_i: "kept p (JObj []) key = Inr []"
  by (simp add: kept_def listed_def)

lemma inventory_i:
  assumes "kept (named_or_tagged [] ''repositoryName'' ''repositoryArn'') (reply_i repos ''describe-repositories'') ''repositories'' = Inr repos"
  shows "fst (collect ''us-east-1'' now_q (env_i repos) []) = Inr (inventory_json ''us-east-1'' now_q (JArr [])
    [(''eks'', []), (''msk'', []), (''rds'', []), (''ec2'', []), (''ebs'', []), (''eip'', []), (''elb'', []),
     (''ecr'', repos), (''nat'', []), (''logs'', [])])"
  using assms
  by (simp add: collect_def collect_with_def Let_def fst_bind fst_lift aws_i bindIO_def lift_def reply_i_def inventory_of_def tagged_arns_def tagged_resources_def
      owned_instances_def listed_def service_resources_def kept_i)
definition clear_i :: "path \<Rightarrow> json list \<Rightarrow> bool" where
  "clear_i destination repos \<longleftrightarrow>
     (\<exists>u w'. inventory_main (run_text now_q) commit_i ''us-east-1'' destination True now_q (env_i repos) [] = (Inr 0, u, w'))"

lemma main_i:
  assumes "name \<in> set output_names" and "repos = (if name = ''04-inventory-before.json'' then repos_i else [])"
  shows "clear_i [''.evidence'', ''m4'', run_text now_q, name] repos"
proof -
  let ?d = "[''.evidence'', ''m4'', run_text now_q, name]"
  have "kept (named_or_tagged [] ''repositoryName'' ''repositoryArn'') (reply_i repos ''describe-repositories'') ''repositories'' = Inr repos"
    using assms(2)
    by (simp add: kept_def listed_def reply_i_def repos_i_def named_or_tagged_def project_name_def name_prefix_def starts_with_def)
  note coll = inventory_i [OF this]
  obtain v where v: "fst (collect ''us-east-1'' now_q (env_i repos) []) = Inr v"
    and empty: "jget (require_cleanup_inventory v ?d) ''runtime_empty'' = JBool True"
    using coll assms
    by (auto simp: require_cleanup_inventory_def inventory_json_def runtime_present_ten output_names_def)
  let ?m = "capture_inventory (run_text now_q) commit_i ''us-east-1'' ?d now_q (env_i repos) []"
  have m: "fst ?m = Inr (?d, bound_inventory (require_cleanup_inventory v ?d) (run_text now_q) commit_i)"
    unfolding capture_inventory_def
    using v by (cases "collect ''us-east-1'' now_q (env_i repos) []")
      (simp add: fst_lift bindIO_def ask_def destination_i [OF assms(1)] preflight_i)
  with empty show ?thesis
    by (cases ?m) (simp add: clear_i_def inventory_main_def write_json_atomic_def bound_inventory_def)
qed

theorem cleared_run_left_nothing_witness:
  "\<exists>a. all_answered (env_i []) [] (listings ''us-east-1'') (answer_list a) \<and>
    list_all (\<lambda>(s, rs). rs = []) (project_resources a)"
proof -
  obtain u w' where "inventory_main (run_text now_q) commit_i ''us-east-1''
      [''.evidence'', ''m4'', run_text now_q, ''21-inventory-after.json''] True now_q (env_i []) [] = (Inr 0, u, w')"
    using main_i [of "''21-inventory-after.json''" "[]"] by (auto simp: clear_i_def output_names_def)
  from cleared_run_left_nothing [OF this] show ?thesis by auto
qed


theorem inventory_exact_witness:
  "\<exists>v. inventory_of ''us-east-1'' now_q
     \<lparr>an_tagged = JObj [], an_eks = JObj [(''clusters'', JArr [JStr ''mlp-dev'', JStr ''other''])], an_msk = JObj [],
      an_rds = JObj [], an_ec2 = JObj [], an_ebs = JObj [], an_eip = JObj [], an_elb = JObj [], an_ecr = JObj [],
      an_nat = JObj [], an_logs = JObj []\<rparr> = Inr v \<and>
    jget (jget v ''resources'') ''eks'' = JArr [JStr ''mlp-dev''] \<and> jget v ''runtime_empty'' \<noteq> JBool True"
proof -
  let ?a = "\<lparr>an_tagged = JObj [], an_eks = JObj [(''clusters'', JArr [JStr ''mlp-dev'', JStr ''other''])], an_msk = JObj [],
      an_rds = JObj [], an_ec2 = JObj [], an_ebs = JObj [], an_eip = JObj [], an_elb = JObj [], an_ecr = JObj [],
      an_nat = JObj [], an_logs = JObj []\<rparr>"
  have name: "project_name (JStr ''mlp-dev'')" "\<not> project_name (JStr ''other'')"
    by (simp_all add: project_name_def name_prefix_def starts_with_def)
  have "is_ok (inventory_of ''us-east-1'' now_q ?a)"
    by (simp add: inventory_of_def tagged_arns_def tagged_resources_def owned_instances_def listed_def service_resources_def kept_def)
  then obtain v where v: "inventory_of ''us-east-1'' now_q ?a = Inr v" by (auto simp: is_ok_iff)
  from inventory_exact [OF v] show ?thesis
    by (simp add: v name project_resources_def elements_def listed_def)
qed
end
