(* ===== verification/Capture_Proof.thy ===== *)
theory Capture_Proof
  imports Sigterm Evidence_Plan
begin

text \<open>
  The assertions of \<open>scripts/m4-live-capture.py\<close> over what the running system answered: the
  trace joins every persisted attempt, the attempts have a healthy and an exhausted outcome,
  the dead letters keep the poison record, the replay reached the sink again, and the log
  sources are ready before they are exported.
\<close>

abbreviation capt :: "string \<Rightarrow> json list \<Rightarrow> exn" where
  "capt t args \<equiv> Err CaptureError t args"

section \<open>Values\<close>

text \<open>\<open>int(v)\<close> of a JSON value.\<close>

definition trunc_dec :: "dec \<Rightarrow> int" where
  "trunc_dec d =
     (let n = (if 0 \<le> dexp d then int (dcoef d) * 10 ^ nat (dexp d) else int (dcoef d) div 10 ^ nat (- dexp d)) in
      if dneg d then - n else n)"

definition to_int :: "json \<Rightarrow> int res" where
  "to_int v =
     (case v of
        JInt i \<Rightarrow> Inr i
      | JBool b \<Rightarrow> Inr (of_bool b)
      | JStr s \<Rightarrow> (case py_int s of None \<Rightarrow> py_raise ValueError | Some i \<Rightarrow> Inr i)
      | JFloat (Fin d) \<Rightarrow> Inr (trunc_dec d)
      | JFloat (Infinite _) \<Rightarrow> py_raise OverflowError
      | JFloat NaN \<Rightarrow> py_raise ValueError
      | _ \<Rightarrow> py_raise TypeError)"

definition iter_get :: "json \<Rightarrow> string \<Rightarrow> json list res" where
  "iter_get v key = bindE (py_get v key (JArr [])) py_iter"

section \<open>The trace\<close>

text \<open>The attributes of a span: a dict whose keys are whatever the trace holds.\<close>

type_synonym attributes = "(json \<times> json) list"

definition span_attribute :: "json \<Rightarrow> (json \<times> json) res" where
  "span_attribute a =
     bindE (py_index a ''key'') (\<lambda>k.
     bindE (py_index a ''value'') (\<lambda>v. if hashable k then Inr (k, v) else py_raise TypeError))"

definition span_attributes :: "json \<Rightarrow> attributes res" where
  "span_attributes sp = bindE (iter_get sp ''attributes'') (mapE span_attribute)"

definition attribute :: "attributes \<Rightarrow> string \<Rightarrow> json option" where
  "attribute as k = map_of (rev as) (JStr k)"

definition coordinate :: "attributes \<Rightarrow> string \<Rightarrow> int res" where
  "coordinate as k =
     (case attribute as k of None \<Rightarrow> py_raise KeyError | Some v \<Rightarrow> bindE (py_index v ''intValue'') to_int)"

definition attempt_key :: "attributes \<Rightarrow> (int \<times> int) res" where
  "attempt_key as =
     reraise [KeyError, ValueError] (capt ''trace attempt has incomplete attributes'' [])
       (bindE (coordinate as ''relay.subscription.id'') (\<lambda>s.
        bindE (coordinate as ''relay.delivery.attempt'') (\<lambda>n. Inr (s, n))))"

text \<open>The names of the event's spans and the coordinates of its attempt spans, in their order.\<close>

type_synonym tally = "json list \<times> (int \<times> int) list"

definition span_event :: "attributes \<Rightarrow> json res" where
  "span_event as =
     py_get (case attribute as ''relay.event.id'' of None \<Rightarrow> JObj [] | Some v \<Rightarrow> v) ''stringValue'' JNull"

definition read_span :: "string \<Rightarrow> tally \<Rightarrow> json \<Rightarrow> tally res" where
  "read_span event_id acc sp =
     bindE (span_attributes sp) (\<lambda>as.
     bindE (span_event as) (\<lambda>event.
     if event \<noteq> JStr event_id then Inr acc
     else
       bindE (py_index sp ''name'') (\<lambda>name.
       if \<not> hashable name then py_raise TypeError
       else if name = JStr ''relay.webhook.attempt''
       then bindE (attempt_key as) (\<lambda>k. Inr (fst acc @ [name], snd acc @ [k]))
       else Inr (fst acc @ [name], snd acc))))"

definition read_scope :: "string \<Rightarrow> tally \<Rightarrow> json \<Rightarrow> tally res" where
  "read_scope event_id acc scope = bindE (iter_get scope ''spans'') (foldE (read_span event_id) acc)"

definition read_batch :: "string \<Rightarrow> tally \<Rightarrow> json \<Rightarrow> tally res" where
  "read_batch event_id acc batch = bindE (iter_get batch ''scopeSpans'') (foldE (read_scope event_id) acc)"

definition read_trace :: "string \<Rightarrow> json \<Rightarrow> tally res" where
  "read_trace event_id trace =
     bindE (py_get trace ''resourceSpans'' (JArr [])) (\<lambda>spans.
     bindE (py_get trace ''batches'' spans) (\<lambda>batches.
     bindE (py_iter batches) (foldE (read_batch event_id) ([], []))))"

text \<open>Counters over pairs of values, compared as Python compares them.\<close>

definition same_pair :: "json \<times> json \<Rightarrow> json \<times> json \<Rightarrow> bool" where
  "same_pair p q \<longleftrightarrow> py_eq (fst p) (fst q) \<and> py_eq (snd p) (snd q)"

definition times_in :: "json \<times> json \<Rightarrow> (json \<times> json) list \<Rightarrow> nat" where
  "times_in k xs = length (filter (same_pair k) xs)"

definition counters_eq :: "(json \<times> json) list \<Rightarrow> (json \<times> json) list \<Rightarrow> bool" where
  "counters_eq xs ys \<longleftrightarrow> list_all (\<lambda>k. times_in k xs = times_in k ys) (xs @ ys)"

definition attempt_coordinates :: "json \<Rightarrow> (json \<times> json) res" where
  "attempt_coordinates a =
     bindE (py_index a ''subscription_id'') (\<lambda>s.
     bindE (py_index a ''attempt_number'') (\<lambda>n.
       if hashable s \<and> hashable n then Inr (s, n) else py_raise TypeError))"

definition joined_names :: "string list" where
  "joined_names = [''relay.ingest'', ''kafka.produce'', ''relay.consume'']"

definition assert_trace :: "json \<Rightarrow> string \<Rightarrow> json list \<Rightarrow> unit res" where
  "assert_trace trace event_id attempts =
     bindE (read_trace event_id trace) (\<lambda>(names, observed).
     bindE (mapE attempt_coordinates attempts) (\<lambda>expected.
     ensure (expected \<noteq> [] \<and> counters_eq (map (\<lambda>(s, n). (JInt s, JInt n)) observed) expected \<and>
         list_all (\<lambda>n. JStr n \<in> set names) joined_names)
       (capt ''trace does not join every persisted attempt for the selected event'' [])))"

section \<open>The attempts\<close>

definition chosen_attempt :: "string \<Rightarrow> string \<Rightarrow> json \<Rightarrow> bool res" where
  "chosen_attempt ending outcome a =
     bindE (py_index a ''subscription_url'') (\<lambda>url.
     if \<not> is_str url then py_raise AttributeError
     else if \<not> ends_with (str_of url) ending then Inr False
     else bindE (py_index a ''outcome'') (\<lambda>found. Inr (found = JStr outcome)))"

fun distinct_pairs :: "(json \<times> json) list \<Rightarrow> bool" where
  "distinct_pairs [] = True"
| "distinct_pairs (k # ks) = (\<not> list_ex (same_pair k) ks \<and> distinct_pairs ks)"

definition assert_attempts :: "json \<Rightarrow> string \<Rightarrow> json list res" where
  "assert_attempts v event_id =
     bindE (py_get v ''attempts'' (JArr [])) (\<lambda>attempts.
     bindE (ensure (jget v ''event_id'' = JStr event_id) (capt ''attempt history belongs to another event'' [])) (\<lambda>_.
     bindE (py_iter attempts) (\<lambda>as.
     bindE (filterE (chosen_attempt ''/hooks/ok'' ''delivered'') as) (\<lambda>healthy.
     bindE (filterE (chosen_attempt ''/hooks/flaky'' ''exhausted'') as) (\<lambda>failed.
     bindE (ensure (length healthy = 1 \<and> length failed = 1)
       (capt ''selected event lacks healthy and exhausted outcomes'' [])) (\<lambda>_.
     bindE (mapE attempt_coordinates as) (\<lambda>keys.
     bindE (ensure (distinct_pairs keys) (capt ''duplicate persisted attempt coordinates'' [])) (\<lambda>_.
       Inr as))))))))"

text \<open>\<open>finished\<close>: the history once it has both outcomes; the outcomes are a set of values.\<close>

definition history_finished :: "json \<Rightarrow> json res" where
  "history_finished v =
     bindE (iter_get v ''attempts'') (\<lambda>as.
     bindE (mapE (\<lambda>a. py_index a ''outcome'') as) (\<lambda>outcomes.
     bindE (hash_set outcomes) (\<lambda>known.
       Inr (if JStr ''delivered'' \<in> set known \<and> JStr ''exhausted'' \<in> set known then v else JNull))))"

section \<open>The sink\<close>

text \<open>A delivery of the event to the healthy subscription; \<open>good\<close> asks for a 2xx status as well.\<close>

definition py_le :: "json \<Rightarrow> json \<Rightarrow> bool res" where
  "py_le v w = (case (num_of v, num_of w) of
      (Some a, Some b) \<Rightarrow> Inr (num_lt a b \<or> num_eq a b)
    | _ \<Rightarrow> if is_str v \<and> is_str w then Inr (str_of v \<le> str_of w) else py_raise TypeError)"

definition delivered_ok :: "string \<Rightarrow> json \<Rightarrow> bool res" where
  "delivered_ok event_id d =
     bindE (py_index d ''webhook_id'') (\<lambda>hook.
     if hook \<noteq> JStr event_id then Inr False
     else bindE (py_index d ''path'') (\<lambda>path. Inr (path = JStr ''/hooks/ok'')))"

definition delivered_2xx :: "string \<Rightarrow> json \<Rightarrow> bool res" where
  "delivered_2xx event_id d =
     bindE (delivered_ok event_id d) (\<lambda>ok.
     if \<not> ok then Inr False
     else
       bindE (py_index d ''status'') (\<lambda>status.
       bindE (py_le (JInt 200) status) (\<lambda>low. if \<not> low then Inr False else py_lt status (JInt 300))))"

definition sink_deliveries :: "(string \<Rightarrow> json \<Rightarrow> bool res) \<Rightarrow> string \<Rightarrow> json \<Rightarrow> json list res" where
  "sink_deliveries chosen event_id received =
     bindE (py_index received ''deliveries'') (\<lambda>ds. bindE (py_iter ds) (filterE (chosen event_id)))"

definition check_sink :: "string \<Rightarrow> json \<Rightarrow> json \<Rightarrow> json list res" where
  "check_sink event_id request received =
     bindE (sink_deliveries delivered_2xx event_id received) (\<lambda>matching.
     let e = capt ''sink did not record exactly one matching signed healthy delivery'' [] in
     bindE (ensure (length matching = 1) e) (\<lambda>_.
     bindE (py_index (hd matching) ''data'') (\<lambda>body.
     bindE (ensure (py_eq body (jget request ''data'')) e) (\<lambda>_.
     bindE (py_index (hd matching) ''type'') (\<lambda>kind.
     bindE (ensure (py_eq kind (jget request ''type'')) e) (\<lambda>_. Inr matching))))))"

text \<open>\<open>replayed\<close>: more deliveries than before the replay.\<close>

definition deliveries_before :: "string \<Rightarrow> json \<Rightarrow> int res" where
  "deliveries_before event_id received =
     bindE (sink_deliveries delivered_ok event_id received) (\<lambda>ds. Inr (int (length ds)))"

definition replayed :: "string \<Rightarrow> int \<Rightarrow> json \<Rightarrow> json res" where
  "replayed event_id before received =
     bindE (sink_deliveries delivered_2xx event_id received) (\<lambda>ds.
       Inr (if before < int (length ds) then JArr ds else JNull))"

definition event_shape :: "json \<Rightarrow> bool" where
  "event_shape v \<longleftrightarrow> is_str v \<and> starts_with (str_of v) ''evt_'' \<and> length (str_of v) = 36 \<and>
     list_all is_hex (drop 4 (str_of v))"

definition check_repeat :: "json \<Rightarrow> json \<Rightarrow> json res" where
  "check_repeat accepted repeated =
     bindE (py_get accepted ''id'' (JStr [])) (\<lambda>event_id.
     if \<not> is_str event_id then py_raise TypeError
     else
       bindE (if event_shape event_id
              then bindE (py_get repeated ''id'' JNull) (\<lambda>again. Inr (again = event_id)) else Inr False) (\<lambda>same.
       bindE (ensure same (capt ''idempotent repeat returned a different or invalid event ID'' [])) (\<lambda>_.
         Inr event_id)))"

definition check_baseline_controls :: "json \<Rightarrow> unit res" where
  "check_baseline_controls controls =
     (let e = capt ''sink is not at the baseline'' [] in
      bindE (py_index controls ''latency_ms'') (\<lambda>latency.
      bindE (ensure (py_eq latency (JInt 0)) e) (\<lambda>_.
      bindE (py_index controls ''fail_rate'') (\<lambda>rate.
      bindE (ensure (py_eq rate (JInt 0)) e) (\<lambda>_.
      ensure (\<not> truthy (jget controls ''latched'')) e)))))"

definition check_unpaused :: "json \<Rightarrow> unit res" where
  "check_unpaused scaled =
     bindE (py_get scaled ''metadata'' (JObj [])) (\<lambda>metadata.
     bindE (py_get metadata ''annotations'' (JObj [])) (\<lambda>annotations.
     bindE (py_str_in pause_annotation annotations) (\<lambda>paused.
     ensure (\<not> paused) (capt ''KEDA is already paused'' []))))"

section \<open>Dead letters\<close>

text \<open>
  The broker's records with the poison record; \<open>unbase64\<close> is \<open>base64.b64decode\<close> without
  validation, a parameter. \<open>None\<close> of the model is the \<open>None\<close> the poll goes on with.
\<close>

definition unb64 :: "(string \<Rightarrow> string option) \<Rightarrow> json \<Rightarrow> string res" where
  "unb64 unbase64 v =
     (if \<not> is_str v then py_raise TypeError
      else case unbase64 (str_of v) of None \<Rightarrow> py_raise ValueError | Some b \<Rightarrow> Inr b)"

definition decoded_record :: "env \<Rightarrow> (string \<Rightarrow> string option) \<Rightarrow> json \<Rightarrow> json res" where
  "decoded_record w unbase64 r =
     bindE (py_index r ''value'') (\<lambda>v.
     bindE (unb64 unbase64 v) (\<lambda>b.
     bindE (decode_text w b) (\<lambda>t. case loads w t of None \<Rightarrow> py_raise ValueError | Some j \<Rightarrow> Inr j)))"

definition broker_records :: "json \<Rightarrow> json list res" where
  "broker_records v = bindE (py_index v ''records'') py_iter"

definition exhausted_letter :: "string \<Rightarrow> json \<Rightarrow> bool res" where
  "exhausted_letter event_id d =
     bindE (py_get d ''record'' (JObj [])) (\<lambda>r. bindE (py_get r ''id'' JNull) (\<lambda>i. Inr (i = JStr event_id)))"

fun allE :: "('x \<Rightarrow> 'e + bool) \<Rightarrow> 'x list \<Rightarrow> 'e + bool" where
  "allE p [] = Inr True"
| "allE p (x # xs) = bindE (p x) (\<lambda>b. if b then allE p xs else Inr False)"

definition poison_letter :: "json \<Rightarrow> json \<Rightarrow> bool res" where
  "poison_letter poison d =
     allE (\<lambda>k.
       bindE (py_get d ''source'' (JObj [])) (\<lambda>source.
       bindE (py_get source k JNull) (\<lambda>found.
       bindE (py_index poison k) (\<lambda>sent. Inr (py_eq found sent))))) [''topic'', ''partition'', ''offset'']"

definition check_exhausted :: "json \<Rightarrow> bool res" where
  "check_exhausted d =
     bindE (py_get d ''url'' (JStr [])) (\<lambda>url.
     if \<not> is_str url then py_raise AttributeError
     else Inr (ends_with (str_of url) ''/hooks/flaky'' \<and> py_eq (jget d ''attempts'') (JInt 5)))"

text \<open>Every comparison of the poison source, in the order of the code; the first difference decides.\<close>

definition poison_changes :: "env \<Rightarrow> (string \<Rightarrow> string option) \<Rightarrow> json \<Rightarrow> json \<Rightarrow> bool res" where
  "poison_changes w unbase64 source poison =
     (let differs = (\<lambda>a b. bindE (py_index source a) (\<lambda>x. bindE (py_index poison b) (\<lambda>y. Inr (\<not> py_eq x y))));
          is_set = (\<lambda>a. bindE (py_index source a) (\<lambda>x. Inr (truthy x)));
          sent = (\<lambda>b. bindE (py_index poison b) (unb64 unbase64));
          longer = (\<lambda>a b. bindE (py_index source a) (\<lambda>x. bindE (sent b) (\<lambda>t. Inr (\<not> py_eq x (JInt (int (length t))))))) in
      anyE id
       [differs ''raw_value'' ''value'', differs ''key'' ''key'', differs ''timestamp'' ''timestamp'',
        is_set ''raw_value_truncated'', is_set ''key_truncated'',
        bindE (py_index source ''key_sha256'') (\<lambda>h. bindE (sent ''key'') (\<lambda>k. Inr (h \<noteq> JStr (sha256 w k)))),
        longer ''original_key_bytes'' ''key'', longer ''original_value_bytes'' ''value''])"

definition dead_letters :: "env \<Rightarrow> (string \<Rightarrow> string option) \<Rightarrow> string \<Rightarrow> json \<Rightarrow> json \<Rightarrow> json res" where
  "dead_letters w unbase64 event_id poison broker =
     bindE (broker_records broker) (\<lambda>rs.
     bindE (mapE (decoded_record w unbase64) rs) (\<lambda>letters.
     bindE (filterE (exhausted_letter event_id) letters) (\<lambda>event.
     bindE (filterE (poison_letter poison) letters) (\<lambda>bad.
     if event = [] \<or> bad = [] then Inr JNull
     else
       let e = capt ''unexpected exhausted or poison DLQ cohort'' [] in
       bindE (ensure (length event = 1 \<and> length bad = 1) e) (\<lambda>_.
       bindE (check_exhausted (hd event)) (\<lambda>ok.
       bindE (ensure ok e) (\<lambda>_.
       bindE (py_index (hd bad) ''source'') (\<lambda>source.
       bindE (poison_changes w unbase64 source poison) (\<lambda>changed.
       bindE (ensure (\<not> changed) (capt ''poison source bytes or coordinates changed'' [])) (\<lambda>_.
         Inr (JObj [(''event_id'', JStr event_id), (''exhausted'', JArr event), (''poison'', poison),
           (''dead_letters'', JArr bad), (''broker'', broker)])))))))))))"

text \<open>The copies of the event among the delivery records: there must be exactly one.\<close>

definition own_copy :: "env \<Rightarrow> (string \<Rightarrow> string option) \<Rightarrow> string \<Rightarrow> json \<Rightarrow> bool res" where
  "own_copy w unbase64 event_id r =
     bindE (decoded_record w unbase64 r) (\<lambda>d. bindE (py_get d ''id'' JNull) (\<lambda>i. Inr (i = JStr event_id)))"

definition kafka_copies :: "env \<Rightarrow> (string \<Rightarrow> string option) \<Rightarrow> string \<Rightarrow> json \<Rightarrow> json list res" where
  "kafka_copies w unbase64 event_id records =
     bindE (broker_records records) (\<lambda>rs.
     bindE (filterE (own_copy w unbase64 event_id) rs) (\<lambda>copies.
     bindE (ensure (length copies = 1)
       (capt ''idempotent event did not produce exactly one Kafka record'' [])) (\<lambda>_. Inr copies)))"

section \<open>Pods\<close>

definition staying_pod :: "json \<Rightarrow> bool res" where
  "staying_pod pod =
     bindE (py_index pod ''metadata'') (\<lambda>metadata.
     bindE (py_get metadata ''deletionTimestamp'' JNull) (\<lambda>deleted. Inr (\<not> truthy deleted)))"

definition staying_pods :: "json \<Rightarrow> json list res" where
  "staying_pods payload = bindE (py_index payload ''items'') (\<lambda>v. bindE (py_iter v) (filterE staying_pod))"

definition pod_runs :: "json \<Rightarrow> bool res" where
  "pod_runs pod =
     bindE (py_get pod ''status'' (JObj [])) (\<lambda>status.
     bindE (py_get status ''phase'' JNull) (\<lambda>phase.
     if phase \<noteq> JStr ''Running'' then Inr False
     else bindE (iter_get status ''conditions'') (anyE is_ready)))"

text \<open>\<open>replay_drained_sample\<close> before its sample: one consumer pod, running and ready.\<close>

definition replay_pod_ready :: "json \<Rightarrow> bool res" where
  "replay_pod_ready payload =
     bindE (staying_pods payload) (\<lambda>pods.
     case pods of [pod] \<Rightarrow> pod_runs pod | _ \<Rightarrow> Inr False)"

definition pod_role :: "json \<Rightarrow> json res" where
  "pod_role pod =
     bindE (py_index pod ''metadata'') (\<lambda>metadata.
     bindE (py_index metadata ''labels'') (\<lambda>labels. py_index labels ''app.kubernetes.io/name''))"

definition log_roles :: "string list" where
  "log_roles = [''relay-ingest'', ''relay-deliver'', ''sink'']"

definition container_runs :: "json \<Rightarrow> bool res" where
  "container_runs c =
     bindE (py_get c ''ready'' JNull) (\<lambda>ready.
     if \<not> truthy ready then Inr False
     else bindE (py_get c ''state'' (JObj [])) (py_str_in ''running''))"

definition names_of :: "json list \<Rightarrow> json list res" where
  "names_of cs = bindE (mapE (\<lambda>c. py_index c ''name'') cs) hash_set"

definition same_values :: "json list \<Rightarrow> json list \<Rightarrow> bool" where
  "same_values xs ys \<longleftrightarrow> list_all (\<lambda>x. list_ex (py_eq x) ys) xs \<and> list_all (\<lambda>y. list_ex (\<lambda>x. py_eq x y) xs) ys"

definition log_source_ready :: "json \<Rightarrow> bool res" where
  "log_source_ready pod =
     bindE (py_get pod ''status'' (JObj [])) (\<lambda>status.
     bindE (py_get status ''containerStatuses'' (JArr [])) (\<lambda>statuses.
     bindE (pod_runs pod) (\<lambda>running.
     if \<not> running then Inr False
     else
       bindE (py_iter statuses) (\<lambda>containers.
       bindE (names_of containers) (\<lambda>found.
       bindE (bindE (py_index pod ''spec'') (\<lambda>spec. py_index spec ''containers'')) (\<lambda>planned.
       bindE (bindE (py_iter planned) names_of) (\<lambda>wanted.
       if \<not> same_values found wanted \<or> containers = [] then Inr False
       else allE container_runs containers)))))))"

definition log_sources_ready :: "json \<Rightarrow> bool res" where
  "log_sources_ready payload =
     bindE (staying_pods payload) (\<lambda>live.
     bindE (bindE (mapE pod_role live) hash_set) (\<lambda>roles.
     if \<not> same_values roles (map JStr log_roles) then Inr False
     else allE log_source_ready live))"
end
