(* ===== verification/Capture_Load.thy ===== *)
theory Capture_Load
  imports Capture_Proof
begin

text \<open>
  The metrics of \<open>scripts/m4-live-capture.py\<close> and the load cohort: 600 events are posted by a
  pool of workers while the capture samples lag, members and replicas, releases the sink when
  the lag is gone and ends when the consumers have drained. Workers, the clock of Prometheus
  and the turns of the capture interleave, so the loop is a step relation.
\<close>

section \<open>Numbers of Prometheus\<close>

text \<open>\<open>number_of\<close> is Python's \<open>float\<close>, a parameter: its rounding to binary is not modelled.\<close>

type_synonym floats = "json \<Rightarrow> num res"

abbreviation pending :: "string \<Rightarrow> exn" where
  "pending t \<equiv> Err ObservationPending t []"

abbreviation whole_num :: "int \<Rightarrow> num" where
  "whole_num i \<equiv> Fin (dec_of_int i)"

definition finite_num :: "num \<Rightarrow> bool" where
  "finite_num n \<longleftrightarrow> (case n of Fin _ \<Rightarrow> True | _ \<Rightarrow> False)"

definition py_length :: "json \<Rightarrow> nat res" where
  "py_length v =
     (case v of JArr xs \<Rightarrow> Inr (length xs) | JObj ps \<Rightarrow> Inr (length ps) | JStr s \<Rightarrow> Inr (length s)
      | _ \<Rightarrow> py_raise TypeError)"

text \<open>\<open>v[i]\<close> with a small literal index.\<close>

definition py_nth :: "json \<Rightarrow> nat \<Rightarrow> json res" where
  "py_nth v i =
     (case v of
        JArr xs \<Rightarrow> if i < length xs then Inr (xs ! i) else py_raise IndexError
      | JStr s \<Rightarrow> if i < length s then Inr (JStr [s ! i]) else py_raise IndexError
      | JObj ps \<Rightarrow> py_raise KeyError
      | _ \<Rightarrow> py_raise TypeError)"

definition metric :: "floats \<Rightarrow> bool \<Rightarrow> json \<Rightarrow> num res" where
  "metric number_of signed v =
     bindE (py_get v ''data'' (JObj [])) (\<lambda>data.
     bindE (py_get data ''result'' (JArr [])) (\<lambda>results.
     bindE (if jget v ''status'' \<noteq> JStr ''success'' then Inr False
            else bindE (py_length results) (\<lambda>n. Inr (n = 1))) (\<lambda>unique.
     bindE (ensure unique (pending ''Prometheus did not return a unique sample'')) (\<lambda>_.
     bindE (py_nth results 0) (\<lambda>r.
     bindE (py_index r ''value'') (\<lambda>pair.
     bindE (py_nth pair 1) (\<lambda>text.
     bindE (number_of text) (\<lambda>number.
     bindE (ensure (finite_num number \<and> \<not> (num_lt number (whole_num 0) \<and> \<not> signed))
       (capt ''invalid Prometheus value'' [])) (\<lambda>_. Inr number)))))))))"

text \<open>Only missing observations and transport interruptions (\<open>OSError\<close>) are pending.\<close>

definition pending_metric :: "num res \<Rightarrow> num option res" where
  "pending_metric r =
     (case r of
        Inr n \<Rightarrow> Inr (Some n)
      | Inl (Err ObservationPending _ _) \<Rightarrow> Inr None
      | Inl (Py OSError) \<Rightarrow> Inr None
      | Inl e \<Rightarrow> Inl e)"

section \<open>Samples\<close>

definition quoted :: "string \<Rightarrow> string" where
  "quoted s = [CHR 0x22] @ s @ [CHR 0x22]"

definition queries :: "(string \<times> string) list" where
  "queries =
     (let consumers = ''{group='' @ quoted ''relay-deliver'' @ ''})'' in
      [(''lag'', ''max(relay_consumer_group_lag_total'' @ consumers),
       (''members'', ''max(relay_group_members'' @ consumers),
       (''unassigned'', ''max(relay_topic_partitions_unassigned'' @ consumers),
       (''idle'', ''max(relay_group_unassigned_members'' @ consumers),
       (''replicas'', ''kube_deployment_spec_replicas{namespace='' @ quoted ''mlp'' @ '',deployment='' @
          quoted ''relay-deliver'' @ ''}'')])"

definition sample_max_age :: "(string \<times> int) list" where
  "sample_max_age = [(''lag'', 30), (''members'', 30), (''unassigned'', 30), (''idle'', 30), (''replicas'', 60)]"

definition broker_timestamp :: string where
  "broker_timestamp = ''min(relay_lag_refreshed_timestamp_seconds and on(instance) relay_build_info{role='' @
     quoted ''ingest'' @ ''})''"

definition query_source :: "string \<Rightarrow> string" where
  "query_source query = (if starts_with query ''max('' then butlast (drop 4 query) else query)"

record sample =
  sm_captured_at :: string
  sm_refreshed :: "num option"
  sm_scraped :: "(string \<times> num) list"
  sm_values :: "(string \<times> num) list"

text \<open>The answers of one sample: a number for every query, asked with or without a sign.\<close>

type_synonym readings_of = "string \<Rightarrow> bool \<Rightarrow> num res"

definition check_broker :: "readings_of \<Rightarrow> num option \<Rightarrow> num option res" where
  "check_broker answers not_before =
     (case not_before of
        None \<Rightarrow> Inr None
      | Some boundary \<Rightarrow>
          bindE (answers broker_timestamp False) (\<lambda>refreshed.
          bindE (ensure (num_lt boundary refreshed) (pending ''broker lag snapshot predates replay resume'')) (\<lambda>_.
            Inr (Some refreshed))))"

definition check_scrape ::
  "readings_of \<Rightarrow> num option \<Rightarrow> (string \<times> num) list \<Rightarrow> string \<times> string \<Rightarrow> (string \<times> num) list res" where
  "check_scrape answers not_before scraped query =
     (let source = query_source (snd query); limit = the (map_of sample_max_age (fst query)) in
      bindE (answers (''time() - min(timestamp('' @ source @ ''))'') False) (\<lambda>age.
      bindE (ensure (\<not> num_lt (whole_num limit) age) (pending ''proof metric sample is stale'')) (\<lambda>_.
      case not_before of
        None \<Rightarrow> Inr scraped
      | Some boundary \<Rightarrow>
          bindE (answers (''min(timestamp('' @ source @ ''))'') False) (\<lambda>t.
          bindE (ensure (num_lt boundary t) (pending ''proof metric sample predates replay resume'')) (\<lambda>_.
            Inr (scraped @ [(fst query, t)]))))))"

definition take_sample :: "readings_of \<Rightarrow> string \<Rightarrow> num option \<Rightarrow> sample res" where
  "take_sample answers captured_at not_before =
     bindE (answers (''time() - '' @ broker_timestamp) True) (\<lambda>freshness.
     bindE (ensure (\<not> num_lt freshness (whole_num 0) \<and> \<not> num_lt (whole_num 30) freshness)
       (pending ''broker lag snapshot is stale or ahead of Prometheus'')) (\<lambda>_.
     bindE (check_broker answers not_before) (\<lambda>refreshed.
     bindE (foldE (check_scrape answers not_before) [] queries) (\<lambda>scraped.
     bindE (mapE (\<lambda>q. bindE (answers (snd q) False) (\<lambda>n. Inr (fst q, n))) queries) (\<lambda>values.
       Inr \<lparr>sm_captured_at = captured_at, sm_refreshed = refreshed, sm_scraped = scraped, sm_values = values\<rparr>)))))"

definition pending_sample :: "sample res \<Rightarrow> sample option res" where
  "pending_sample r =
     (case r of Inr s \<Rightarrow> Inr (Some s) | Inl (Err ObservationPending _ _) \<Rightarrow> Inr None | Inl e \<Rightarrow> Inl e)"

definition value_of :: "sample \<Rightarrow> string \<Rightarrow> num" where
  "value_of s name = the (map_of (sm_values s) name)"

definition number_is :: "num \<Rightarrow> int \<Rightarrow> bool" where
  "number_is n i \<longleftrightarrow> num_eq n (whole_num i)"

definition drained :: "sample \<Rightarrow> bool" where
  "drained s \<longleftrightarrow> number_is (value_of s ''lag'') 0 \<and> number_is (value_of s ''replicas'') 1 \<and>
     number_is (value_of s ''members'') 1"

definition drained_sample :: "sample res \<Rightarrow> sample option res" where
  "drained_sample r =
     bindE (pending_sample r) (\<lambda>found.
       Inr (case found of Some s \<Rightarrow> if drained s then Some s else None | None \<Rightarrow> None))"

text \<open>The sample as it is written to the evidence.\<close>

definition sample_json :: "sample \<Rightarrow> json" where
  "sample_json s = JObj ((''captured_at'', JStr (sm_captured_at s)) #
     (case sm_refreshed s of
        None \<Rightarrow> []
      | Some t \<Rightarrow> [(''broker_refreshed_at_seconds'', JFloat t),
          (''scraped_at_prometheus_seconds'', JObj (map (\<lambda>(n, u). (n, JFloat u)) (sm_scraped s)))]) @
     map (\<lambda>(n, u). (n, JFloat u)) (sm_values s))"

section \<open>Diagnostics of the pollers\<close>

definition kept_labels :: "string list" where
  "kept_labels = [''__name__'', ''instance'', ''pod'', ''group'', ''topic'']"

definition poller_series :: "floats \<Rightarrow> json \<Rightarrow> json res" where
  "poller_series number_of item =
     bindE (bindE (py_index item ''value'') py_iter) (\<lambda>parts.
     bindE (mapE number_of (take 3 parts)) (\<lambda>numbers.
     bindE (ensure (length numbers = 2) (Py ValueError)) (\<lambda>_.
     bindE (ensure (list_all (\<lambda>n. finite_num n \<and> \<not> num_lt n (whole_num 0)) numbers) (Py ValueError)) (\<lambda>_.
     bindE (py_index item ''metric'') (\<lambda>labels.
     bindE (ensure (is_dict labels) (Py AttributeError)) (\<lambda>_.
       Inr (JObj [(''labels'', JObj (filter (\<lambda>p. fst p \<in> set kept_labels) (obj_of labels))),
         (''evaluated_at_prometheus_seconds'', JFloat (numbers ! 0)), (''value'', JFloat (numbers ! 1))])))))))"

text \<open>The exceptions that are recorded by the name of their type; the name is a parameter.\<close>

definition recorded :: "exn \<Rightarrow> bool" where
  "recorded e \<longleftrightarrow> (case e of
     Err c _ _ \<Rightarrow> c = CaptureError \<or> c = ObservationPending
   | Py x \<Rightarrow> x \<in> {OSError, ValueError, KeyError, TypeError, AttributeError}
   | SystemExit _ _ \<Rightarrow> False)"

definition poller_result :: "floats \<Rightarrow> json res \<Rightarrow> json res" where
  "poller_result number_of answered =
     bindE answered (\<lambda>response.
     bindE (py_get response ''data'' (JObj [])) (\<lambda>data.
     bindE (py_get data ''result'' (JArr [])) (\<lambda>results.
     bindE (if jget response ''status'' \<noteq> JStr ''success'' \<or> jget data ''resultType'' \<noteq> JStr ''vector'' then Inr False
            else bindE (py_length results) (\<lambda>n. Inr (n \<le> 64))) (\<lambda>valid.
     bindE (ensure valid (Py ValueError)) (\<lambda>_.
     bindE (bindE (py_iter results) (mapE (poller_series number_of))) (\<lambda>series.
       Inr (JObj [(''result'', JStr (if series = [] then ''missing'' else ''observed'')), (''series'', JArr series)])))))))"

definition poller_diagnostics :: "floats \<Rightarrow> (exn \<Rightarrow> string) \<Rightarrow> json res \<Rightarrow> json res" where
  "poller_diagnostics number_of type_name answered =
     (case poller_result number_of answered of
        Inr v \<Rightarrow> Inr v
      | Inl e \<Rightarrow> if recorded e
          then Inr (JObj [(''result'', JStr ''unavailable''), (''error_type'', JStr (type_name e))]) else Inl e)"

section \<open>The load cohort\<close>

definition cohort_size :: nat where
  "cohort_size = 600"

text \<open>
  A turn of the capture first takes note whether every post has returned, then asks for the
  time if it has not yet done so, then samples with that time, or the start of the load, as
  the boundary. A post that has returned has an id and the time of its return.
\<close>

datatype turn = Idle | Checked bool | Bounded | Over

record load =
  ld_clock :: dec
  ld_posts :: "nat \<Rightarrow> (string \<times> dec) option"
  ld_started :: dec
  ld_submitted :: "dec option"
  ld_released :: bool
  ld_samples :: "sample list"
  ld_turn :: turn

definition load_begin :: "dec \<Rightarrow> sample \<Rightarrow> load" where
  "load_begin t baseline = \<lparr>ld_clock = t, ld_posts = (\<lambda>i. None), ld_started = t, ld_submitted = None,
     ld_released = False, ld_samples = [baseline], ld_turn = Idle\<rparr>"

definition all_posted :: "load \<Rightarrow> bool" where
  "all_posted s \<longleftrightarrow> list_all (\<lambda>i. ld_posts s i \<noteq> None) [0..<cohort_size]"

definition stamped :: "bool \<Rightarrow> dec option \<Rightarrow> load \<Rightarrow> load" where
  "stamped submitted reading s =
     s\<lparr>ld_submitted := (if submitted \<and> ld_submitted s = None then reading else ld_submitted s), ld_turn := Bounded\<rparr>"

definition boundary :: "load \<Rightarrow> dec" where
  "boundary s = (case ld_submitted s of None \<Rightarrow> ld_started s | Some t \<Rightarrow> t)"

definition observed :: "sample option \<Rightarrow> load \<Rightarrow> load" where
  "observed found s =
     (case found of
        None \<Rightarrow> s\<lparr>ld_turn := Idle\<rparr>
      | Some m \<Rightarrow>
          let empty = number_is (value_of m ''lag'') 0; submitted = ld_submitted s \<noteq> None;
              released = ld_released s \<or> (submitted \<and> empty) in
          s\<lparr>ld_samples := ld_samples s @ [m], ld_released := released,
            ld_turn := (if submitted \<and> released \<and> drained m then Over else Idle)\<rparr>)"

inductive load_step :: "load \<Rightarrow> load \<Rightarrow> bool" where
  posted: "i < cohort_size \<Longrightarrow> ld_posts s i = None \<Longrightarrow>
     load_step s (s\<lparr>ld_posts := (ld_posts s)(i \<mapsto> (event_id, ld_clock s))\<rparr>)"
| time_passes: "ld_clock s \<le> t \<Longrightarrow> load_step s (s\<lparr>ld_clock := t\<rparr>)"
| checks: "ld_turn s = Idle \<Longrightarrow> load_step s (s\<lparr>ld_turn := Checked (all_posted s)\<rparr>)"
| stamps: "ld_turn s = Checked submitted \<Longrightarrow> reading = None \<or> reading = Some (ld_clock s) \<Longrightarrow>
     load_step s (stamped submitted reading s)"
| observes: "ld_turn s = Bounded \<Longrightarrow>
     pending_sample (take_sample answers captured_at (Some (Fin (boundary s)))) = Inr found \<Longrightarrow>
     load_step s (observed found s)"

text \<open>The checks after the loop, over the samples it kept and the ids of the posts.\<close>

definition load_ids :: "load \<Rightarrow> string list" where
  "load_ids s = map (\<lambda>i. fst (the (ld_posts s i))) [0..<cohort_size]"

definition some_above :: "load \<Rightarrow> string \<Rightarrow> int \<Rightarrow> bool" where
  "some_above s name n \<longleftrightarrow> list_ex (\<lambda>m. num_lt (whole_num n) (value_of m name)) (ld_samples s)"

definition check_cohort :: "load \<Rightarrow> unit res" where
  "check_cohort s =
     ensure (card (set (load_ids s)) = cohort_size \<and> some_above s ''lag'' 0 \<and>
         some_above s ''replicas'' 1 \<and> some_above s ''members'' 1)
       (capt ''load cohort or backlog observation is incomplete'' [])"

end
