(* ===== verification/Capture_Correct.thy ===== *)
theory Capture_Correct
  imports Capture_Load "HOL-Library.Multiset"
begin

text \<open>
  An accepted trace has exactly one attempt span for every persisted attempt, and a load cohort
  that ends has seen every post return before the samples it relies on were scraped.
\<close>

section \<open>The spans of a trace\<close>

definition children :: "json \<Rightarrow> string \<Rightarrow> json list" where
  "children v key = (case iter_get v key of Inl e \<Rightarrow> [] | Inr xs \<Rightarrow> xs)"

definition trace_spans :: "json \<Rightarrow> json list" where
  "trace_spans trace =
     concat (map (\<lambda>batch. concat (map (\<lambda>scope. children scope ''spans'') (children batch ''scopeSpans'')))
       (children trace (if has_key trace ''batches'' then ''batches'' else ''resourceSpans'')))"

definition of_event :: "string \<Rightarrow> json \<Rightarrow> bool" where
  "of_event event_id sp \<longleftrightarrow> (\<exists>as. span_attributes sp = Inr as \<and> span_event as = Inr (JStr event_id))"

definition named_span :: "string \<Rightarrow> json \<Rightarrow> bool" where
  "named_span name sp \<longleftrightarrow> jget sp ''name'' = JStr name"

definition span_key :: "json \<Rightarrow> int \<times> int" where
  "span_key sp = (case bindE (span_attributes sp) attempt_key of Inl e \<Rightarrow> (0, 0) | Inr k \<Rightarrow> k)"

text \<open>The coordinates of the attempt spans of the event, once for every span.\<close>

definition attempt_spans :: "string \<Rightarrow> json \<Rightarrow> (int \<times> int) list" where
  "attempt_spans event_id trace =
     map span_key (filter (\<lambda>sp. of_event event_id sp \<and> named_span ''relay.webhook.attempt'' sp) (trace_spans trace))"

definition event_names :: "string \<Rightarrow> json \<Rightarrow> json list" where
  "event_names event_id trace = map (\<lambda>sp. jget sp ''name'') (filter (of_event event_id) (trace_spans trace))"

lemma concat_map_concat: "concat (map f (concat (map g xs))) = concat (map (\<lambda>x. concat (map f (g x))) xs)"
  by (induction xs) simp_all

lemma concat_filter: "concat (map (\<lambda>x. if p x then [f x] else []) xs) = map f (filter p xs)"
  by (induction xs) auto

definition new_names :: "string \<Rightarrow> json \<Rightarrow> json list" where
  "new_names event_id sp = (if of_event event_id sp then [jget sp ''name''] else [])"

definition new_keys :: "string \<Rightarrow> json \<Rightarrow> (int \<times> int) list" where
  "new_keys event_id sp =
     (if of_event event_id sp \<and> named_span ''relay.webhook.attempt'' sp then [span_key sp] else [])"

lemma read_span_adds:
  assumes "read_span event_id acc sp = Inr acc'"
  shows "fst acc' = fst acc @ new_names event_id sp" and "snd acc' = snd acc @ new_keys event_id sp"
proof -
  from assms obtain as event where as: "span_attributes sp = Inr as" and event: "span_event as = Inr event"
    by (auto simp: read_span_def bindE_eq_Inr)
  have own: "of_event event_id sp \<longleftrightarrow> event = JStr event_id" by (simp add: of_event_def as event)
  have key: "span_key sp = k" if "attempt_key as = Inr k" for k by (simp add: span_key_def as that)
  show "fst acc' = fst acc @ new_names event_id sp" "snd acc' = snd acc @ new_keys event_id sp"
    using assms key
    by (auto simp: read_span_def as event own new_names_def new_keys_def named_span_def bindE_eq_Inr py_index_eq_Inr
        split: if_splits)
qed

lemma read_scope_adds:
  assumes "read_scope event_id acc scope = Inr acc'"
  shows "fst acc' = fst acc @ concat (map (new_names event_id) (children scope ''spans''))"
    and "snd acc' = snd acc @ concat (map (new_keys event_id) (children scope ''spans''))"
proof -
  have run: "foldE (read_span event_id) acc (children scope ''spans'') = Inr acc'"
    using assms by (auto simp: read_scope_def children_def bindE_eq_Inr)
  show "fst acc' = fst acc @ concat (map (new_names event_id) (children scope ''spans''))"
    by (rule foldE_collect [OF run, where c = fst]) (rule read_span_adds)
  show "snd acc' = snd acc @ concat (map (new_keys event_id) (children scope ''spans''))"
    by (rule foldE_collect [OF run, where c = snd]) (rule read_span_adds)
qed

lemma read_batch_adds:
  assumes "read_batch event_id acc batch = Inr acc'"
  shows "fst acc' = fst acc @ concat (map (\<lambda>scope. concat (map (new_names event_id) (children scope ''spans'')))
      (children batch ''scopeSpans''))"
    and "snd acc' = snd acc @ concat (map (\<lambda>scope. concat (map (new_keys event_id) (children scope ''spans'')))
      (children batch ''scopeSpans''))"
proof -
  have run: "foldE (read_scope event_id) acc (children batch ''scopeSpans'') = Inr acc'"
    using assms by (auto simp: read_batch_def children_def bindE_eq_Inr)
  show "fst acc' = fst acc @ concat (map (\<lambda>scope. concat (map (new_names event_id) (children scope ''spans'')))
      (children batch ''scopeSpans''))"
    by (rule foldE_collect [OF run, where c = fst]) (rule read_scope_adds)
  show "snd acc' = snd acc @ concat (map (\<lambda>scope. concat (map (new_keys event_id) (children scope ''spans'')))
      (children batch ''scopeSpans''))"
    by (rule foldE_collect [OF run, where c = snd]) (rule read_scope_adds)
qed

lemma trace_batches:
  "read_trace event_id trace =
     bindE (iter_get trace (if has_key trace ''batches'' then ''batches'' else ''resourceSpans''))
       (foldE (read_batch event_id) ([], []))"
  by (cases "is_dict trace")
    (auto simp: read_trace_def iter_get_def py_get_def jget_or_jget split: if_splits)

lemma read_trace_spans:
  assumes "read_trace event_id trace = Inr (names, keys)"
  shows "names = event_names event_id trace" and "keys = attempt_spans event_id trace"
proof -
  let ?bs = "children trace (if has_key trace ''batches'' then ''batches'' else ''resourceSpans'')"
  have run: "foldE (read_batch event_id) ([], []) ?bs = Inr (names, keys)"
    using assms by (auto simp: trace_batches children_def bindE_eq_Inr)
  have "names = concat (map (new_names event_id) (trace_spans trace))"
    using foldE_collect [OF run, where c = fst, OF read_batch_adds(1)]
    by (simp add: trace_spans_def concat_map_concat)
  then show "names = event_names event_id trace"
    by (simp add: event_names_def new_names_def [abs_def] concat_filter)
  have "keys = concat (map (new_keys event_id) (trace_spans trace))"
    using foldE_collect [OF run, where c = snd, OF read_batch_adds(2)]
    by (simp add: trace_spans_def concat_map_concat)
  then show "keys = attempt_spans event_id trace"
    by (simp add: attempt_spans_def new_keys_def [abs_def] concat_filter)
qed

section \<open>Coordinates\<close>

definition pair_json :: "int \<times> int \<Rightarrow> json \<times> json" where
  "pair_json k = (JInt (fst k), JInt (snd k))"

definition attempt_pair :: "json \<Rightarrow> int \<times> int" where
  "attempt_pair a = (int_of (jget a ''subscription_id''), int_of (jget a ''attempt_number''))"

definition numbered :: "json \<Rightarrow> bool" where
  "numbered a \<longleftrightarrow> is_int (jget a ''subscription_id'') \<and> is_int (jget a ''attempt_number'')"

lemma same_pair_json [simp]: "same_pair (pair_json k) (pair_json l) \<longleftrightarrow> k = l"
  by (cases k; cases l) (simp add: same_pair_def pair_json_def)

lemma pair_json_map: "map (\<lambda>(s, n). (JInt s, JInt n)) ks = map pair_json ks"
  by (simp add: pair_json_def split_beta)

lemma times_in_count: "times_in (pair_json k) (map pair_json xs) = count (mset xs) k"
  by (induction xs) (auto simp: times_in_def)

lemma counters_mset: "counters_eq (map pair_json xs) (map pair_json ys) \<longleftrightarrow> mset xs = mset ys"
proof
  assume eq: "counters_eq (map pair_json xs) (map pair_json ys)"
  have "count (mset xs) k = count (mset ys) k" for k
  proof (cases "k \<in> set xs \<union> set ys")
    case True
    then have "pair_json k \<in> set (map pair_json xs @ map pair_json ys)" by auto
    with eq have "times_in (pair_json k) (map pair_json xs) = times_in (pair_json k) (map pair_json ys)"
      unfolding counters_eq_def list_all_iff by blast
    then show ?thesis by (simp add: times_in_count)
  next
    case False
    then show ?thesis by (simp add: count_eq_zero_iff [THEN iffD2])
  qed
  then show "mset xs = mset ys" by (rule multiset_eqI)
next
  assume eq: "mset xs = mset ys"
  have "times_in (pair_json k) (map pair_json xs) = times_in (pair_json k) (map pair_json ys)" for k
    by (simp only: times_in_count eq)
  then show "counters_eq (map pair_json xs) (map pair_json ys)"
    by (auto simp: counters_eq_def list_all_iff)
qed

lemma distinct_pairs_json: "distinct_pairs (map pair_json xs) \<longleftrightarrow> distinct xs"
  by (induction xs) (auto simp: list_ex_iff)

lemma attempt_keys:
  assumes "mapE attempt_coordinates as = Inr ks" and "list_all numbered as"
  shows "ks = map pair_json (map attempt_pair as)"
proof -
  have "k = pair_json (attempt_pair a)" if "attempt_coordinates a = Inr k" "numbered a" for a k
    using that by (auto simp: attempt_coordinates_def bindE_eq_Inr py_index_eq_Inr numbered_def is_int_iff
        attempt_pair_def pair_json_def split: if_splits)
  moreover have "length as = length ks" "\<forall>i < length ks. attempt_coordinates (as ! i) = Inr (ks ! i)"
    using assms(1) by (auto simp: mapE_eq_Inr list_all2_conv_all_nth)
  ultimately have "\<forall>i < length ks. ks ! i = pair_json (attempt_pair (as ! i))"
    using assms(2) unfolding list_all_length by metis
  with \<open>length as = length ks\<close> show ?thesis by (auto intro!: nth_equalityI)
qed

lemma attempts_accepted:
  assumes "assert_attempts history event_id = Inr attempts"
  shows "jget history ''attempts'' = JArr attempts" and "jget history ''event_id'' = JStr event_id"
    and "\<exists>keys. mapE attempt_coordinates attempts = Inr keys \<and> distinct_pairs keys"
    and "\<exists>a \<in> set attempts. jget a ''outcome'' = JStr ''delivered''"
    and "\<exists>a \<in> set attempts. jget a ''outcome'' = JStr ''exhausted''"
proof -
  from assms obtain v as healthy failed where v: "py_get history ''attempts'' (JArr []) = Inr v" "py_iter v = Inr attempts"
    and id: "jget history ''event_id'' = JStr event_id"
    and h: "filterE (chosen_attempt ''/hooks/ok'' ''delivered'') attempts = Inr healthy" "length healthy = 1"
    and f: "filterE (chosen_attempt ''/hooks/flaky'' ''exhausted'') attempts = Inr failed" "length failed = 1"
    and keys: "\<exists>keys. mapE attempt_coordinates attempts = Inr keys \<and> distinct_pairs keys"
    by (auto simp: assert_attempts_def bindE_eq_Inr)
  show "jget history ''event_id'' = JStr event_id" by (rule id)
  show "\<exists>keys. mapE attempt_coordinates attempts = Inr keys \<and> distinct_pairs keys" by (rule keys)
  have chosen: "\<exists>a \<in> set attempts. is_dict a \<and> jget a ''outcome'' = JStr outcome"
    if "filterE (chosen_attempt ending outcome) attempts = Inr xs" "length xs = 1" for ending outcome xs
  proof -
    from that(2) obtain a where "a \<in> set xs" by (cases xs) auto
    with filterE_eq_Inr [OF that(1)] have "a \<in> set attempts" "chosen_attempt ending outcome a = Inr True" by auto
    then show ?thesis by (auto simp: chosen_attempt_def bindE_eq_Inr py_index_eq_Inr split: if_splits)
  qed
  from chosen [OF h] chosen [OF f] show
    "\<exists>a \<in> set attempts. jget a ''outcome'' = JStr ''delivered''"
    "\<exists>a \<in> set attempts. jget a ''outcome'' = JStr ''exhausted''" by auto
  from chosen [OF h] obtain a where "a \<in> set attempts" "is_dict a" by auto
  with v have "v = JArr attempts" by (auto simp: py_iter_def split: json.splits)
  with v(1) \<open>a \<in> set attempts\<close> show "jget history ''attempts'' = JArr attempts"
    by (auto simp: py_get_eq_Inr jget_or_jget split: if_splits)
qed

text \<open>
  The accepted trace joins the history: the coordinates of the event's attempt spans are
  those of the persisted attempts, each exactly once, the event has spans of its ingestion, its
  production and its consumption, and one of the attempts was delivered and one exhausted.
\<close>

theorem trace_joins_attempts:
  assumes "assert_attempts history event_id = Inr attempts" and "assert_trace trace event_id attempts = Inr ()"
    and "list_all numbered attempts"
  shows "mset (attempt_spans event_id trace) = mset (map attempt_pair attempts) \<and>
    distinct (attempt_spans event_id trace) \<and>
    list_all (\<lambda>n. list_ex (\<lambda>sp. of_event event_id sp \<and> named_span n sp) (trace_spans trace)) joined_names \<and>
    (\<exists>a \<in> set attempts. jget a ''outcome'' = JStr ''delivered'') \<and>
    (\<exists>a \<in> set attempts. jget a ''outcome'' = JStr ''exhausted'')"
proof -
  from assms(2) obtain names keys expected where run: "read_trace event_id trace = Inr (names, keys)"
    and expected: "mapE attempt_coordinates attempts = Inr expected"
    and eq: "counters_eq (map pair_json keys) expected"
    and present: "list_all (\<lambda>n. JStr n \<in> set names) joined_names"
    by (auto simp: assert_trace_def bindE_eq_Inr pair_json_map)
  note spans = read_trace_spans [OF run] and pairs = attempt_keys [OF expected assms(3)]
  have same: "mset keys = mset (map attempt_pair attempts)"
    using eq unfolding pairs counters_mset .
  have "distinct (map attempt_pair attempts)"
    using attempts_accepted(3) [OF assms(1)] unfolding expected pairs distinct_pairs_json [symmetric] by simp
  then have "distinct keys" unfolding mset_eq_imp_distinct_iff [OF same] .
  moreover have "list_all (\<lambda>n. list_ex (\<lambda>sp. of_event event_id sp \<and> named_span n sp) (trace_spans trace)) joined_names"
    unfolding list_all_iff
  proof
    fix n
    assume "n \<in> set joined_names"
    with present have "JStr n \<in> set (event_names event_id trace)" by (auto simp: list_all_iff spans(1))
    then obtain sp where "sp \<in> set (trace_spans trace)" "of_event event_id sp" "JStr n = jget sp ''name''"
      by (auto simp: event_names_def)
    then show "list_ex (\<lambda>sp. of_event event_id sp \<and> named_span n sp) (trace_spans trace)"
      by (auto simp: list_ex_iff named_span_def)
  qed
  ultimately show ?thesis
    using same spans(2) attempts_accepted(4,5) [OF assms(1)] by simp
qed

text \<open>An event with two attempts, one trace batch with a span for each and the three other spans.\<close>

definition attribute_v :: "string \<Rightarrow> string \<Rightarrow> json \<Rightarrow> json" where
  "attribute_v key kind v = JObj [(''key'', JStr key), (''value'', JObj [(kind, v)])]"

definition span_v :: "string \<Rightarrow> json list \<Rightarrow> json" where
  "span_v name as = JObj [(''name'', JStr name),
     (''attributes'', JArr (attribute_v ''relay.event.id'' ''stringValue'' (JStr ''evt'') # as))]"

definition attempt_v :: "int \<Rightarrow> json" where
  "attempt_v n = span_v ''relay.webhook.attempt''
     [attribute_v ''relay.subscription.id'' ''intValue'' (JInt n), attribute_v ''relay.delivery.attempt'' ''intValue'' (JInt 1)]"

definition trace_v :: json where
  "trace_v = JObj [(''batches'', JArr [JObj [(''scopeSpans'', JArr [JObj [(''spans'', JArr
     [span_v ''relay.ingest'' [], span_v ''kafka.produce'' [], span_v ''relay.consume'' [], attempt_v 1, attempt_v 2])]])]])]"

definition history_v :: json where
  "history_v = JObj [(''event_id'', JStr ''evt''), (''attempts'', JArr
     [JObj [(''subscription_url'', JStr ''http://sink/hooks/ok''), (''outcome'', JStr ''delivered''),
        (''subscription_id'', JInt 1), (''attempt_number'', JInt 1)],
      JObj [(''subscription_url'', JStr ''http://sink/hooks/flaky''), (''outcome'', JStr ''exhausted''),
        (''subscription_id'', JInt 2), (''attempt_number'', JInt 1)]])]"

lemma attributes_v:
  "span_attributes (span_v name as) =
     bindE (mapE span_attribute as) (\<lambda>ks. Inr ((JStr ''relay.event.id'', JObj [(''stringValue'', JStr ''evt'')]) # ks))"
  "span_attribute (attribute_v key kind v) = Inr (JStr key, JObj [(kind, v)])"
  by (simp_all add: span_attributes_def span_v_def iter_get_def span_attribute_def attribute_v_def hashable_def bindE_assoc)

lemma plain_v: "name \<noteq> ''relay.webhook.attempt'' \<Longrightarrow> read_span ''evt'' acc (span_v name []) = Inr (fst acc @ [JStr name], snd acc)"
  by (simp add: read_span_def attributes_v span_event_def attribute_def) (simp add: span_v_def hashable_def)

lemma attempt_v_read: "read_span ''evt'' acc (attempt_v n) = Inr (fst acc @ [JStr ''relay.webhook.attempt''], snd acc @ [(n, 1)])"
  by (simp add: read_span_def attempt_v_def attributes_v span_event_def attribute_def)
    (simp add: span_v_def hashable_def attempt_key_def coordinate_def attribute_def to_int_def)

lemma trace_v_read: "read_trace ''evt'' trace_v = Inr
    (map JStr [''relay.ingest'', ''kafka.produce'', ''relay.consume'', ''relay.webhook.attempt'', ''relay.webhook.attempt''],
     [(1, 1), (2, 1)])"
  by (simp add: read_trace_def trace_v_def read_batch_def read_scope_def iter_get_def plain_v attempt_v_read)

theorem trace_joins_attempts_witness:
  "mset (attempt_spans ''evt'' trace_v) = {# (1, 1), (2, 1) #} \<and> distinct (attempt_spans ''evt'' trace_v)"
proof -
  let ?as = "items_of (jget history_v ''attempts'')"
  have a: "assert_attempts history_v ''evt'' = Inr ?as"
    by (simp add: assert_attempts_def history_v_def chosen_attempt_def ends_with_def attempt_coordinates_def hashable_def same_pair_def)
  have b: "assert_trace trace_v ''evt'' ?as = Inr ()"
    by (simp add: assert_trace_def trace_v_read history_v_def attempt_coordinates_def hashable_def joined_names_def
        counters_eq_def times_in_def same_pair_def)
  have c: "list_all numbered ?as" by (simp add: history_v_def numbered_def)
  from trace_joins_attempts [OF a b c] show ?thesis by (simp add: history_v_def attempt_pair_def)
qed
section \<open>Samples\<close>

text \<open>A sample all of whose scrapes, and whose broker snapshot, are later than a time.\<close>

definition after :: "dec \<Rightarrow> sample \<Rightarrow> bool" where
  "after t m \<longleftrightarrow> (\<exists>u. sm_refreshed m = Some u \<and> num_lt (Fin t) u) \<and> map fst (sm_scraped m) = map fst queries \<and>
     list_all (\<lambda>(name, u). num_lt (Fin t) u) (sm_scraped m)"

lemma take_sample_after:
  assumes "take_sample answers captured_at (Some (Fin t)) = Inr m"
  shows "after t m"
proof -
  from assms obtain scraped where run: "foldE (check_scrape answers (Some (Fin t))) [] queries = Inr scraped"
    and m: "sm_scraped m = scraped" "\<exists>u. sm_refreshed m = Some u \<and> num_lt (Fin t) u"
    by (auto simp: take_sample_def check_broker_def bindE_eq_Inr)
  have step: "\<exists>u. y = xs @ [(fst q, u)] \<and> num_lt (Fin t) u"
    if "check_scrape answers (Some (Fin t)) xs q = Inr y" for xs q y
    using that by (auto simp: check_scrape_def Let_def bindE_eq_Inr)
  have "map fst xs = map fst (rev (drop 0 (rev qs))) \<and> list_all (\<lambda>(name, u). num_lt (Fin t) u) xs"
    if "foldE (check_scrape answers (Some (Fin t))) [] qs = Inr xs" for qs xs
    using that
  proof (induction qs arbitrary: xs rule: rev_induct)
    case (snoc q qs)
    then obtain ys where "foldE (check_scrape answers (Some (Fin t))) [] qs = Inr ys"
      and "check_scrape answers (Some (Fin t)) ys q = Inr xs"
      by (auto simp: foldE_append bindE_eq_Inr)
    with snoc.IH step [of ys q xs] show ?case by auto
  qed simp
  from this [OF run] m show ?thesis by (simp add: after_def)
qed

section \<open>The load cohort\<close>

text \<open>
  What the interleaving keeps: the time that was asked for after every post had returned is
  not before any of them, the sink is released by a sample later than that time, and the loop
  is over after such a sample that shows the consumers drained.
\<close>

definition all_by :: "dec \<Rightarrow> load \<Rightarrow> bool" where
  "all_by t s \<longleftrightarrow> (\<forall>i < cohort_size. \<exists>event_id u. ld_posts s i = Some (event_id, u) \<and> u \<le> t)"

definition no_lag :: "sample \<Rightarrow> bool" where
  "no_lag m \<longleftrightarrow> number_is (value_of m ''lag'') 0"

definition load_inv :: "load \<Rightarrow> bool" where
  "load_inv s \<longleftrightarrow>
     (\<forall>i event_id u. ld_posts s i = Some (event_id, u) \<longrightarrow> u \<le> ld_clock s) \<and>
     (ld_turn s = Checked True \<longrightarrow> all_posted s) \<and>
     (\<forall>t. ld_submitted s = Some t \<longrightarrow> all_by t s) \<and>
     (ld_released s \<longrightarrow> (\<exists>t. ld_submitted s = Some t \<and> (\<exists>m \<in> set (ld_samples s). after t m \<and> no_lag m))) \<and>
     (ld_turn s = Over \<longrightarrow> ld_released s \<and> ld_samples s \<noteq> [] \<and> drained (last (ld_samples s)) \<and>
        (\<forall>t. ld_submitted s = Some t \<longrightarrow> after t (last (ld_samples s))))"

lemma all_posted_iff: "all_posted s \<longleftrightarrow> (\<forall>i < cohort_size. ld_posts s i \<noteq> None)"
  by (auto simp: all_posted_def list_all_iff)

lemma all_posted_by:
  assumes "load_inv s" and "all_posted s"
  shows "all_by (ld_clock s) s"
  unfolding all_by_def
proof (intro allI impI)
  fix i
  assume "i < cohort_size"
  with assms(2) obtain event_id u where "ld_posts s i = Some (event_id, u)"
    unfolding all_posted_iff by fastforce
  with assms(1) show "\<exists>event_id u. ld_posts s i = Some (event_id, u) \<and> u \<le> ld_clock s"
    unfolding load_inv_def by blast
qed

lemma load_begin_inv: "load_inv (load_begin t baseline)"
  by (simp add: load_inv_def load_begin_def)

lemma load_step_inv: "load_step s s' \<Longrightarrow> load_inv s \<Longrightarrow> load_inv s'"
proof (induction rule: load_step.induct)
  case (posted i s event_id)
  then have "\<not> all_by t s" for t unfolding all_by_def by fastforce
  with posted show ?case by (auto simp: load_inv_def all_posted_iff)
next
  case (time_passes s t)
  have "u \<le> t" if "u \<le> ld_clock s" for u using order_trans [OF that time_passes(1)] .
  with time_passes show ?case by (auto simp: load_inv_def all_posted_iff all_by_def)
next
  case (checks s)
  then show ?case by (auto simp: load_inv_def all_posted_iff all_by_def)
next
  case (stamps s submitted reading)
  have "all_by (ld_clock s) s" if submitted using all_posted_by stamps that by (auto simp: load_inv_def)
  with stamps show ?case by (auto simp: load_inv_def stamped_def all_by_def split: if_splits)
next
  case (observes s answers captured_at found)
  have fresh: "after (boundary s) m" if "found = Some m" for m
    using observes(2) that
    by (auto simp: pending_sample_def intro!: take_sample_after split: sum.splits exn.splits err_class.splits)
  show ?case
  proof (cases found)
    case None
    with observes(3) show ?thesis by (simp add: observed_def load_inv_def all_by_def)
  next
    case (Some m)
    with fresh have "after t m" if "ld_submitted s = Some t" for t using that by (simp add: boundary_def)
    with observes(1,3) Some show ?thesis
      by (auto simp: load_inv_def observed_def Let_def all_by_def no_lag_def)
  qed
qed

lemma load_reachable_inv: "load_step\<^sup>*\<^sup>* (load_begin t baseline) s \<Longrightarrow> load_inv s"
  by (induction rule: rtranclp_induct) (auto intro: load_begin_inv load_step_inv)

text \<open>A cohort: the posts return, a first sample shows the backlog, a second one that it is gone.\<close>

definition answers_c :: "int \<Rightarrow> int \<Rightarrow> string \<Rightarrow> bool \<Rightarrow> num res" where
  "answers_c lag consumers query signed = Inr (whole_num
     (if starts_with query ''time()'' then 0
      else if starts_with query ''min('' then 9
      else if starts_with query ''max(relay_consumer'' then lag else consumers))"

definition sample_c :: "int \<Rightarrow> int \<Rightarrow> sample" where
  "sample_c lag consumers = \<lparr>sm_captured_at = [], sm_refreshed = Some (whole_num 9),
     sm_scraped = map (\<lambda>q. (fst q, whole_num 9)) queries,
     sm_values = [(''lag'', whole_num lag), (''members'', whole_num consumers), (''unassigned'', whole_num consumers),
       (''idle'', whole_num consumers), (''replicas'', whole_num consumers)]\<rparr>"

definition time_c :: dec where
  "time_c = dec_of_int 1"

definition posted_c :: "nat \<Rightarrow> nat \<Rightarrow> (string \<times> dec) option" where
  "posted_c n i = (if i < n then Some (nat_str i, time_c) else None)"

lemma take_sample_c: "take_sample (answers_c lag consumers) [] (Some (Fin time_c)) = Inr (sample_c lag consumers)"
proof -
  have lt: "num_lt (Fin time_c) (whole_num 9)" "\<not> num_lt (whole_num 30) (whole_num 0)" "\<not> num_lt (whole_num 60) (whole_num 0)"
    "\<not> num_lt (whole_num 0) (whole_num 0)"
    by (simp_all add: time_c_def dec_lt_val)
  have scrape: "check_scrape (answers_c lag consumers) (Some (Fin time_c)) xs q = Inr (xs @ [(fst q, whole_num 9)])"
    if "q \<in> set queries" for xs q
  proof -
    from that have "the (map_of sample_max_age (fst q)) \<in> {30, 60}"
      by (auto simp: queries_def Let_def sample_max_age_def)
    with lt show ?thesis by (auto simp: check_scrape_def Let_def answers_c_def starts_with_def)
  qed
  have "foldE (check_scrape (answers_c lag consumers) (Some (Fin time_c))) ys qs = Inr (ys @ map (\<lambda>q. (fst q, whole_num 9)) qs)"
    if "set qs \<subseteq> set queries" for ys qs
    using that by (induction qs arbitrary: ys) (simp_all add: scrape)
  from this [of queries "[]"] lt show ?thesis
    by (simp add: take_sample_def check_broker_def sample_c_def)
      (simp add: answers_c_def broker_timestamp_def queries_def Let_def starts_with_def)
qed

definition state_c :: "nat \<Rightarrow> sample list \<Rightarrow> load" where
  "state_c n samples = (load_begin time_c (sample_c 0 1))\<lparr>ld_posts := posted_c n, ld_samples := samples\<rparr>"

lemma posts_c: "n \<le> cohort_size \<Longrightarrow> load_step\<^sup>*\<^sup>* (load_begin time_c (sample_c 0 1)) (state_c n [sample_c 0 1])"
proof (induction n)
  case 0
  have "posted_c 0 = (\<lambda>i. None)" by (simp add: posted_c_def fun_eq_iff)
  then show ?case by (simp add: state_c_def load_begin_def)
next
  case (Suc n)
  let ?s = "state_c n [sample_c 0 1]"
  have "posted_c (Suc n) = (posted_c n)(n \<mapsto> (nat_str n, time_c))" by (auto simp: posted_c_def fun_eq_iff)
  then have "state_c (Suc n) [sample_c 0 1] = ?s\<lparr>ld_posts := (ld_posts ?s)(n \<mapsto> (nat_str n, ld_clock ?s))\<rparr>"
    by (simp add: state_c_def load_begin_def)
  moreover have "load_step ?s (?s\<lparr>ld_posts := (ld_posts ?s)(n \<mapsto> (nat_str n, ld_clock ?s))\<rparr>)"
    using Suc.prems by (intro load_step.posted) (simp_all add: state_c_def posted_c_def)
  ultimately show ?case using Suc by (auto intro: rtranclp.rtrancl_into_rtrancl)
qed

lemma turn_c:
  assumes "ld_turn s = Idle" and "all_posted s" and "reading = None \<or> reading = Some (ld_clock s)"
    and "boundary (stamped True reading s) = time_c"
  shows "load_step\<^sup>*\<^sup>* s (observed (Some (sample_c lag consumers)) (stamped True reading (s\<lparr>ld_turn := Checked True\<rparr>)))"
proof -
  let ?a = "s\<lparr>ld_turn := Checked True\<rparr>"
  have "load_step s ?a" using load_step.checks [OF assms(1)] assms(2) by simp
  moreover have "load_step ?a (stamped True reading ?a)" using assms(3) by (intro load_step.stamps) auto
  moreover have "load_step (stamped True reading ?a) (observed (Some (sample_c lag consumers)) (stamped True reading ?a))"
  proof (rule load_step.observes)
    have "boundary (stamped True reading ?a) = time_c"
      using assms(4) by (cases "ld_submitted s"; cases reading) (simp_all add: stamped_def boundary_def)
    then show "pending_sample (take_sample (answers_c lag consumers) [] (Some (Fin (boundary (stamped True reading ?a))))) =
        Inr (Some (sample_c lag consumers))"
      by (simp add: take_sample_c pending_sample_def)
  qed (simp add: stamped_def)
  ultimately show ?thesis by (meson converse_rtranclp_into_rtranclp r_into_rtranclp)
qed

lemma cohort_c:
  "\<exists>s. load_step\<^sup>*\<^sup>* (load_begin time_c (sample_c 0 1)) s \<and> ld_turn s = Over \<and> check_cohort s = Inr ()"
proof -
  let ?s = "state_c cohort_size [sample_c 0 1]"
  let ?m = "observed (Some (sample_c 5 2)) (stamped True None (?s\<lparr>ld_turn := Checked True\<rparr>))"
  let ?e = "observed (Some (sample_c 0 1)) (stamped True (Some time_c) (?m\<lparr>ld_turn := Checked True\<rparr>))"
  have vals: "value_of (sample_c lag n) ''lag'' = whole_num lag" "value_of (sample_c lag n) ''members'' = whole_num n"
    "value_of (sample_c lag n) ''replicas'' = whole_num n" for lag n
    by (simp_all add: value_of_def sample_c_def)
  have posts: "all_posted ?s" by (simp add: all_posted_iff state_c_def posted_c_def)
  have m: "?m = ?s\<lparr>ld_samples := [sample_c 0 1, sample_c 5 2]\<rparr>"
    by (simp add: observed_def stamped_def state_c_def load_begin_def vals number_is_def)
  have e: "?e = ?s\<lparr>ld_samples := [sample_c 0 1, sample_c 5 2, sample_c 0 1], ld_submitted := Some time_c,
      ld_released := True, ld_turn := Over\<rparr>"
    unfolding m by (simp add: observed_def stamped_def state_c_def load_begin_def vals number_is_def drained_def)
  have "load_step\<^sup>*\<^sup>* ?s ?m"
    by (rule turn_c) (use posts in \<open>simp_all add: state_c_def load_begin_def stamped_def boundary_def\<close>)
  moreover have "load_step\<^sup>*\<^sup>* ?m ?e"
    unfolding m
    by (rule turn_c) (use posts in \<open>simp_all add: all_posted_iff state_c_def load_begin_def stamped_def boundary_def\<close>)
  ultimately have "load_step\<^sup>*\<^sup>* (load_begin time_c (sample_c 0 1)) ?e"
    using posts_c [of cohort_size] by (meson order_refl rtranclp_trans)
  moreover have "check_cohort ?e = Inr ()"
  proof -
    have ids: "load_ids ?e = map nat_str [0..<cohort_size]"
      unfolding e by (simp add: load_ids_def state_c_def posted_c_def)
    have "inj_on nat_str {0..<cohort_size}" by (rule inj_onI) simp
    then have "card (nat_str ` {0..<cohort_size}) = cohort_size" by (simp add: card_image)
    then show ?thesis
      by (simp add: check_cohort_def ids) (simp add: e some_above_def vals dec_lt_val)
  qed
  moreover have "ld_turn ?e = Over" by (simp add: e)
  ultimately show ?thesis by blast
qed

end
