(* ===== verification/Capture_Run.thy ===== *)
theory Capture_Run
  imports Capture_Load
begin

text \<open>
  The frame around the live proof of \<open>scripts/m4-live-capture.py\<close>: its guard and deadlines, the
  Job it creates in the cluster, the restoration of the local cluster, the receipt of the
  capture and its verification.
\<close>

section \<open>Arguments and start\<close>

record capture_args =
  ca_environment :: string
  ca_context :: string
  ca_run_id :: string
  ca_commit :: string
  ca_image :: string
  ca_deploy :: bool

definition on_aws :: "capture_args \<Rightarrow> bool" where
  "on_aws a \<longleftrightarrow> ca_environment a = ''aws''"

definition capture_raw :: "env \<Rightarrow> capture_args \<Rightarrow> path" where
  "capture_raw w a = root_dir w @ [''.evidence'', if on_aws a then ''m4'' else ''m4-local'', ca_run_id a]"

definition go_packet_of :: "env \<Rightarrow> capture_args \<Rightarrow> json res" where
  "go_packet_of w a = read_json_object w (capture_raw w a @ [''06-go-no-go.json'']) ''GO''"

text \<open>The profile is the only thing the constructor takes from the GO packet.\<close>

definition capture_init :: "env \<Rightarrow> capture_args \<Rightarrow> json res" where
  "capture_init w a =
     bindE (ensure (run_shape (ca_run_id a) \<and> commit_shape (ca_commit a))
       (capt ''canonical run ID and full commit are required'' [])) (\<lambda>_.
     bindE (evidence_validate_run_id (ca_run_id a)) (\<lambda>_.
     bindE (ensure_beneath w (capture_raw w a) (root_dir w)) (\<lambda>_.
     if on_aws a then bindE (go_packet_of w a) (\<lambda>packet. py_index packet ''aws_profile'') else Inr JNull)))"

definition proof_time :: int where
  "proof_time = in_seconds 1200"

section \<open>Guard and deadlines\<close>

definition live_pid :: "json \<Rightarrow> int" where
  "live_pid state = (case jget_or state ''controller_pid'' (JInt 0) of JInt i \<Rightarrow> i | _ \<Rightarrow> 0)"

definition session_deadline :: "env \<Rightarrow> capture_args \<Rightarrow> datetime res" where
  "session_deadline w a =
     bindE (read_json_object w (capture_raw w a @ [''00-session.json'']) ''session'') (\<lambda>session.
     bindE (py_index session ''destroy_deadline'') (\<lambda>v. parse_utc v ''destroy deadline''))"

definition guard_aws :: "env \<Rightarrow> capture_args \<Rightarrow> (int \<Rightarrow> bool) \<Rightarrow> int \<Rightarrow> unit res" where
  "guard_aws w a running now =
     bindE (read_json_object w (capture_raw w a @ [''controller-state.json'']) ''controller'') (\<lambda>state.
     bindE (validate_live_controller w (ca_run_id a) (ca_commit a) (live_pid state) now running ''live'') (\<lambda>_.
     bindE (ensure (jget state ''phase'' = JStr ''live'' \<and> py_eq (jget state ''apply_exit'') (JInt 0))
       (capt ''controller is no longer live after a successful apply'' [])) (\<lambda>_.
     bindE (session_deadline w a) (\<lambda>deadline.
     ensure (\<not> instant deadline \<le> now) (capt ''destroy deadline reached'' [])))))"

text \<open>\<open>now\<close> is the time of day, \<open>tick\<close> the monotonic clock the deadline is measured on.\<close>

definition guard ::
  "env \<Rightarrow> capture_args \<Rightarrow> (int \<Rightarrow> bool) \<Rightarrow> bool \<Rightarrow> int \<Rightarrow> int \<Rightarrow> int \<Rightarrow> unit res" where
  "guard w a running cancelled deadline tick now =
     bindE (ensure (\<not> cancelled) (capt ''capture has stopped'' [])) (\<lambda>_.
     bindE (ensure (\<not> deadline \<le> tick) (capt ''capture deadline reached'' [])) (\<lambda>_.
     if on_aws a then guard_aws w a running now else Inr ()))"

definition phase_deadline :: "env \<Rightarrow> capture_args \<Rightarrow> bool \<Rightarrow> int \<Rightarrow> int \<Rightarrow> int res" where
  "phase_deadline w a deployment tick now =
     (if on_aws a then
        bindE (session_deadline w a) (\<lambda>deadline.
        let remaining = instant deadline - now;
            allowance = (if deployment then remaining - proof_time else min proof_time remaining) in
        bindE (ensure (\<not> allowance \<le> 0)
          (capt ''insufficient session time for deployment and proof reserve'' [])) (\<lambda>_. Inr (tick + allowance)))
      else Inr (tick + proof_time))"

text \<open>
  \<open>wait\<close>: the loop looks at the guard and the clock before and after every probe. The clock
  is read twice in a turn, and the loop may run forever, so \<open>None\<close> is a loop that never returns.
\<close>

abbreviation late :: exn where
  "late \<equiv> capt ''expected observation did not arrive before its deadline'' []"

definition timely :: "int \<Rightarrow> int \<Rightarrow> unit res" where
  "timely end_at tick = ensure (\<not> end_at \<le> tick) late"

definition wait_turn :: "int \<Rightarrow> (nat \<Rightarrow> unit res) \<Rightarrow> (nat \<Rightarrow> int) \<Rightarrow> (nat \<Rightarrow> json res) \<Rightarrow> nat \<Rightarrow> json res" where
  "wait_turn end_at guards clock probe i =
     bindE (guards (2 * i)) (\<lambda>_.
     bindE (timely end_at (clock (2 * i))) (\<lambda>_.
     bindE (probe i) (\<lambda>v.
     bindE (guards (2 * i + 1)) (\<lambda>_.
     bindE (timely end_at (clock (2 * i + 1))) (\<lambda>_. Inr v)))))"

partial_function (option) wait_loop ::
  "int \<Rightarrow> (nat \<Rightarrow> unit res) \<Rightarrow> (nat \<Rightarrow> int) \<Rightarrow> (nat \<Rightarrow> json res) \<Rightarrow> nat \<Rightarrow> (json res) option" where
  "wait_loop end_at guards clock probe i =
     (case wait_turn end_at guards clock probe i of
        Inl e \<Rightarrow> Some (Inl e)
      | Inr v \<Rightarrow> if truthy v then Some (Inr v) else wait_loop end_at guards clock probe (Suc i))"

declare wait_loop.simps [code]

definition capture_wait ::
  "int \<Rightarrow> int \<Rightarrow> int \<Rightarrow> (nat \<Rightarrow> unit res) \<Rightarrow> (nat \<Rightarrow> int) \<Rightarrow> (nat \<Rightarrow> json res) \<Rightarrow> (json res) option" where
  "capture_wait deadline tick timeout guards clock probe =
     wait_loop (min deadline (tick + timeout)) guards clock probe 0"

section \<open>The Job in the cluster\<close>

definition replay_command :: "string \<Rightarrow> string list" where
  "replay_command since = [''/relay-replay'', ''--since'', since]"

definition capture_command :: "string \<Rightarrow> string \<Rightarrow> string \<Rightarrow> string \<Rightarrow> string \<Rightarrow> string list" where
  "capture_command operation topic starts marker event_id =
     [''/relay-capture'', ''--operation'', operation, ''--topic'', topic, ''--starts'', starts,
      ''--marker'', marker, ''--event-id'', event_id]"

definition job_container :: "string \<Rightarrow> string \<Rightarrow> string list \<Rightarrow> json" where
  "job_container img operation command = JObj
     ([(''name'', JStr ''capture''), (''image'', JStr img), (''command'', strings command),
       (''envFrom'', JArr [JObj [(''configMapRef'', JObj [(''name'', JStr ''relay-runtime'')])]]),
       (''securityContext'', JObj
         [(''allowPrivilegeEscalation'', JBool False), (''readOnlyRootFilesystem'', JBool True),
          (''capabilities'', JObj [(''drop'', JArr [JStr ''ALL''])])]),
       (''resources'', JObj
         [(''requests'', JObj [(''cpu'', JStr ''25m''), (''memory'', JStr ''32Mi'')]),
          (''limits'', JObj [(''cpu'', JStr ''250m''), (''memory'', JStr ''128Mi'')])])] @
      (if operation = ''database''
       then [(''env'', JArr [JObj [(''name'', JStr ''DATABASE_URL''),
         (''valueFrom'', JObj [(''secretKeyRef'', JObj [(''name'', JStr ''relay-secrets''), (''key'', JStr ''DATABASE_URL'')])])]])]
       else []))"

definition job_account :: "capture_args \<Rightarrow> bool \<Rightarrow> string" where
  "job_account a replay =
     (if replay then if on_aws a then ''relay-deliver'' else ''default'' else ''relay-capture'')"

definition job_document :: "capture_args \<Rightarrow> string \<Rightarrow> string \<Rightarrow> bool \<Rightarrow> string list \<Rightarrow> json" where
  "job_document a img operation replay command = JObj
     [(''apiVersion'', JStr ''batch/v1''), (''kind'', JStr ''Job''),
      (''metadata'', JObj [(''generateName'', JStr ''relay-proof-''), (''namespace'', JStr ''mlp'')]),
      (''spec'', JObj
        [(''backoffLimit'', JInt 0), (''activeDeadlineSeconds'', JInt 100), (''ttlSecondsAfterFinished'', JInt 600),
         (''template'', JObj [(''spec'', JObj
           [(''serviceAccountName'', JStr (job_account a replay)), (''restartPolicy'', JStr ''Never''),
            (''securityContext'', JObj [(''runAsNonRoot'', JBool True), (''runAsUser'', JInt 65532),
               (''seccompProfile'', JObj [(''type'', JStr ''RuntimeDefault'')])]),
            (''containers'', JArr [job_container img operation command])])])])]"

definition name_char :: "char \<Rightarrow> bool" where
  "name_char c \<longleftrightarrow> c \<in> set ''abcdefghijklmnopqrstuvwxyz0123456789-''"

text \<open>The dot of the pattern matches any character but a newline.\<close>

definition job_name_shape :: "string \<Rightarrow> bool" where
  "job_name_shape s \<longleftrightarrow> take 3 s = ''job'' \<and> 3 < length s \<and> s ! 3 \<noteq> newline \<and>
     starts_with (drop 4 s) ''batch/relay-proof-'' \<and> drop 22 s \<noteq> [] \<and> list_all name_char (drop 22 s)"

definition failed_condition :: "json \<Rightarrow> bool res" where
  "failed_condition c =
     bindE (py_get c ''type'' JNull) (\<lambda>kind. Inr (kind = JStr ''Failed'' \<and> jget c ''status'' = JStr ''True''))"

definition job_completed :: "string \<Rightarrow> json \<Rightarrow> bool res" where
  "job_completed operation job =
     bindE (py_get job ''status'' (JObj [])) (\<lambda>status.
     bindE (py_get status ''failed'' JNull) (\<lambda>failed.
     bindE (if truthy failed then Inr True else bindE (iter_get status ''conditions'') (anyE failed_condition)) (\<lambda>bad.
     bindE (ensure (\<not> bad) (capt ''{} Job failed'' [JStr operation])) (\<lambda>_.
       Inr (py_eq (jget_or status ''succeeded'' (JInt 0)) (JInt 1))))))"

section \<open>Restoring the local cluster\<close>

text \<open>The exceptions that the cleanup records: the script's own, \<open>OSError\<close> and \<open>ValueError\<close>.\<close>

definition tolerated :: "exn \<Rightarrow> bool" where
  "tolerated e \<longleftrightarrow> (case e of Err _ _ _ \<Rightarrow> True | Py x \<Rightarrow> x \<in> {OSError, ValueError} | SystemExit _ _ \<Rightarrow> False)"

definition attempt :: "bool \<Rightarrow> unit res \<Rightarrow> bool res" where
  "attempt changed outcome =
     (if \<not> changed then Inr True
      else case outcome of Inr _ \<Rightarrow> Inr True | Inl e \<Rightarrow> if tolerated e then Inr False else Inl e)"

text \<open>The controls and the annotations are read back; \<open>KeyError\<close> is tolerated here as well.\<close>

definition read_back :: "json res \<Rightarrow> json res \<Rightarrow> bool res" where
  "read_back controls scaled =
     bindE controls (\<lambda>c.
     bindE (bindE scaled (\<lambda>s. py_index s ''metadata'')) (\<lambda>metadata.
     bindE (py_get metadata ''annotations'' (JObj [])) (\<lambda>annotations.
     bindE (py_index c ''latency_ms'') (\<lambda>latency.
     if \<not> py_eq latency (JInt 0) then Inr False
     else
       bindE (py_index c ''fail_rate'') (\<lambda>rate.
       if \<not> py_eq rate (JInt 0) \<or> truthy (jget c ''latched'') then Inr False
       else bindE (py_str_in pause_annotation annotations) (\<lambda>paused. Inr (\<not> paused)))))))"

definition cleanup_local ::
  "bool \<Rightarrow> unit res \<Rightarrow> bool \<Rightarrow> unit res \<Rightarrow> json res \<Rightarrow> json res \<Rightarrow> bool res" where
  "cleanup_local changed_sink sink_restored changed_pause pause_restored controls scaled =
     bindE (attempt changed_sink sink_restored) (\<lambda>a.
     bindE (attempt changed_pause pause_restored) (\<lambda>b.
     bindE (case read_back controls scaled of
         Inr v \<Rightarrow> Inr v
       | Inl e \<Rightarrow> if tolerated e \<or> e = Py KeyError then Inr False else Inl e) (\<lambda>verified.
       Inr (verified \<and> a \<and> b))))"

section \<open>The receipt of the capture\<close>

definition result_files :: "string list" where
  "result_files = [''10-event.json'', ''11-attempts.json'', ''12-metrics.txt'', ''13-trace.json'', ''14-keda.txt'',
     ''15-dlq.json'', ''16-replay.json'', ''application-logs.txt'']"

definition hashed_files :: "env \<Rightarrow> path \<Rightarrow> obj res" where
  "hashed_files w raw =
     mapE (\<lambda>n. bindE (hash_path w (raw @ [n])) (\<lambda>h. Inr (n, JStr h)))
       (filter (\<lambda>n. is_file w (raw @ [n])) result_files)"

record capture_end =
  ce_clean :: bool
  ce_provenance :: json
  ce_stop_attempted :: bool
  ce_stop_accepted :: bool
  ce_started_at :: string
  ce_finished_at :: string

definition capture_receipt :: "capture_args \<Rightarrow> capture_end \<Rightarrow> obj \<Rightarrow> bool \<Rightarrow> string \<Rightarrow> json" where
  "capture_receipt a e hashes cleanup result = JObj
     [(''schema_version'', JInt 1), (''run_id'', JStr (ca_run_id a)), (''source_commit'', JStr (ca_commit a)),
      (''worktree_clean'', JBool (ce_clean e)), (''environment'', JStr (ca_environment a)),
      (''provenance'', ce_provenance e), (''files'', JObj hashes), (''cleanup_verified'', JBool cleanup),
      (''stop_request_attempted'', JBool (ce_stop_attempted e)),
      (''stop_request_accepted'', JBool (ce_stop_accepted e)), (''result'', JStr result),
      (''started_at'', JStr (ce_started_at e)), (''finished_at'', JStr (ce_finished_at e))]"

text \<open>Whether the proof still counts as passed after the cleanup, and whether the cleanup is verified.\<close>

definition after_cleanup :: "capture_args \<Rightarrow> bool \<Rightarrow> bool res \<Rightarrow> (bool \<times> bool) res" where
  "after_cleanup a passed cleanup =
     (if on_aws a then Inr (passed, False)
      else case cleanup of
        Inr c \<Rightarrow> Inr (passed \<and> c, c)
      | Inl e \<Rightarrow> if tolerated e then Inr (False, False) else Inl e)"

text \<open>The load observations are written when the cohort was started; a failure is remembered.\<close>

definition after_evidence :: "bool \<Rightarrow> unit res option \<Rightarrow> (bool \<times> bool) res" where
  "after_evidence passed written =
     (case written of
        Some (Inl e) \<Rightarrow> if tolerated e then Inr (False, True) else Inl e
      | _ \<Rightarrow> Inr (passed, False))"

text \<open>
  \<open>run\<close> after its claim: the outcome of setup and proof, of the cleanup and of the load
  observations, and the environment when the receipt is written. The result is the receipt, if
  it was written, and how \<open>run\<close> ends.
\<close>

definition finish_capture ::
  "env \<Rightarrow> capture_args \<Rightarrow> capture_end \<Rightarrow> unit res \<Rightarrow> bool res \<Rightarrow> unit res option \<Rightarrow> json option \<times> unit res" where
  "finish_capture w a e proof_result cleanup written =
     (let receipt = bindE (after_cleanup a (proof_result = Inr ()) cleanup) (\<lambda>(passed, cleaned).
        bindE (after_evidence passed written) (\<lambda>(passed, unsaved).
        bindE (hashed_files w (capture_raw w a)) (\<lambda>hashes.
          Inr (passed, unsaved,
            capture_receipt a e hashes cleaned (if passed then ''passed'' else ''failed''))))) in
      case receipt of
        Inl x \<Rightarrow> (None, Inl x)
      | Inr (passed, unsaved, v) \<Rightarrow>
          (Some v,
           case proof_result of
             Inl x \<Rightarrow> Inl x
           | Inr _ \<Rightarrow>
               if unsaved then Inl (capt ''load observations could not be saved'' [])
               else ensure passed (capt ''capture cleanup did not pass'' [])))"

section \<open>Verifying an output\<close>

definition check_capture_output :: "env \<Rightarrow> capture_args \<Rightarrow> string \<Rightarrow> unit res" where
  "check_capture_output w a name =
     (let raw = capture_raw w a; e = capt ''capture output is not a verified pass for this run'' [] in
      bindE (read_json_object w (raw @ [''capture-result.json'']) ''capture result'') (\<lambda>receipt.
      bindE (ensure (jget receipt ''result'' = JStr ''passed'' \<and> jget receipt ''source_commit'' = JStr (ca_commit a) \<and>
          jget receipt ''run_id'' = JStr (ca_run_id a) \<and> jget receipt ''environment'' = JStr (ca_environment a)) e) (\<lambda>_.
      bindE (py_get (jget_or receipt ''files'' (JObj [])) name JNull) (\<lambda>recorded_hash.
      bindE (hash_path w (raw @ [name])) (\<lambda>h. ensure (recorded_hash = JStr h) e)))))"

text \<open>\<open>main\<close> with \<open>--verify-output\<close>: the exit code.\<close>

definition reported :: "exn \<Rightarrow> bool" where
  "reported e \<longleftrightarrow> tolerated e \<or> e = Py KeyError"

definition verify_output :: "env \<Rightarrow> capture_args \<Rightarrow> string \<Rightarrow> int res" where
  "verify_output w a name =
     (case bindE (capture_init w a) (\<lambda>_. check_capture_output w a name) of
        Inr _ \<Rightarrow> Inr 0 | Inl e \<Rightarrow> if reported e then Inr 1 else Inl e)"

text \<open>When \<open>main\<close> fails it asks the controller to stop, unless the capture never was the owner.\<close>

definition stop_on_failure :: "env \<Rightarrow> capture_args \<Rightarrow> bool option \<Rightarrow> bool" where
  "stop_on_failure w a claimed \<longleftrightarrow> on_aws a \<and>
     (case claimed of
        Some c \<Rightarrow> c
      | None \<Rightarrow> run_shape (ca_run_id a) \<and>
          \<not> present w (root_dir w @ [''.evidence'', ''m4'', ca_run_id a, ''capture-start.json'']))"

end
