(* ===== verification/Capture_Run_Correct.thy ===== *)
theory Capture_Run_Correct
  imports Capture_Run
begin

text \<open>
  The waits of the live proof return, its guard holds only inside the paid window, a capture is
  reported as passed only when the proof passed and the local cluster was restored, and an
  output that verifies is the one such a capture hashed.
\<close>

section \<open>Waiting\<close>

text \<open>
  The contract of the loop: the clock never goes back, and between two turns it sleeps for a
  second, or up to the end.
\<close>

locale sleeping_clock =
  fixes clock :: "nat \<Rightarrow> int" and end_at :: int
  assumes forward: "clock (2 * i) \<le> clock (2 * i + 1)"
    and sleeps: "min end_at (clock (2 * i + 1) + in_seconds 1) \<le> clock (2 * i + 2)"
begin

lemma wait_turn_late: "end_at \<le> clock (2 * i) \<Longrightarrow> \<exists>x. wait_turn end_at guards clock probe i = Inl x"
  by (cases "guards (2 * i)") (auto simp: wait_turn_def timely_def bindE_def)

lemma wait_returns: "\<exists>r. wait_loop end_at guards clock probe i = Some r"
proof (induction "nat (end_at - clock (2 * i))" arbitrary: i rule: less_induct)
  case less
  show ?case
  proof (cases "end_at \<le> clock (2 * i)")
    case True
    then show ?thesis using wait_turn_late [of i guards probe] by (subst wait_loop.simps) auto
  next
    case False
    have "clock (2 * i) < clock (2 * Suc i)"
      using forward [of i] sleeps [of i] False by (auto simp: in_seconds_def min_def split: if_splits)
    with False have "nat (end_at - clock (2 * Suc i)) < nat (end_at - clock (2 * i))" by simp
    from less [OF this] show ?thesis by (subst wait_loop.simps) (auto split: sum.splits)
  qed
qed

text \<open>A value is returned only when it was seen before the end, with the guard holding after it.\<close>

lemma wait_value:
  assumes "wait_loop end_at guards clock probe i = Some (Inr v)"
  shows "\<exists>j. i \<le> j \<and> probe j = Inr v \<and> truthy v \<and> guards (2 * j + 1) = Inr () \<and> clock (2 * j + 1) < end_at"
  using assms
proof (induction "nat (end_at - clock (2 * i))" arbitrary: i rule: less_induct)
  case less
  show ?case
  proof (cases "wait_turn end_at guards clock probe i")
    case (Inl x)
    with less.prems show ?thesis by (subst (asm) wait_loop.simps) simp
  next
    case (Inr u)
    then have turn: "probe i = Inr u" "guards (2 * i + 1) = Inr ()" "clock (2 * i) < end_at" "clock (2 * i + 1) < end_at"
      by (auto simp: wait_turn_def timely_def bindE_eq_Inr)
    show ?thesis
    proof (cases "truthy u")
      case True
      with less.prems Inr turn show ?thesis by (subst (asm) wait_loop.simps) auto
    next
      case False
      with less.prems Inr have rest: "wait_loop end_at guards clock probe (Suc i) = Some (Inr v)"
        by (subst (asm) wait_loop.simps) simp
      have "clock (2 * i) < clock (2 * Suc i)"
        using forward [of i] sleeps [of i] turn(3,4) by (auto simp: in_seconds_def min_def split: if_splits)
      with turn(3) have "nat (end_at - clock (2 * Suc i)) < nat (end_at - clock (2 * i))" by simp
      from less.hyps [OF this rest] show ?thesis by (meson Suc_leD)
    qed
  qed
qed

end

text \<open>
  The readings of the capture's clock: a turn takes some time for its probe, and the sleep of
  \<open>min(1, max(0, end - now))\<close> seconds takes that long or longer.
\<close>

fun capture_clock :: "int \<Rightarrow> int \<Rightarrow> (nat \<Rightarrow> nat) \<Rightarrow> nat \<Rightarrow> int" where
  "capture_clock start end_at cost 0 = start + int (cost 0)"
| "capture_clock start end_at cost (Suc i) =
     (let now = capture_clock start end_at cost i in
      if even i then now + int (cost (Suc i))
      else now + min (in_seconds 1) (max 0 (end_at - now)) + int (cost (Suc i)))"

interpretation capture_waits: sleeping_clock "capture_clock start end_at cost" end_at for start end_at cost
proof
  fix i :: nat
  show "capture_clock start end_at cost (2 * i) \<le> capture_clock start end_at cost (2 * i + 1)"
    by (simp add: Let_def)
  have "odd (2 * i + 1)" by simp
  then show "min end_at (capture_clock start end_at cost (2 * i + 1) + in_seconds 1)
      \<le> capture_clock start end_at cost (2 * i + 2)"
    by (simp add: Let_def del: capture_clock.simps(1) add: capture_clock.simps(2) [of start end_at cost "2 * i + 1"])
qed

section \<open>Restoration\<close>

definition controls_at_baseline :: "json \<Rightarrow> bool" where
  "controls_at_baseline c \<longleftrightarrow> py_eq (jget c ''latency_ms'') (JInt 0) \<and> py_eq (jget c ''fail_rate'') (JInt 0) \<and>
     \<not> truthy (jget c ''latched'')"

definition unpaused :: "json \<Rightarrow> bool" where
  "unpaused scaled \<longleftrightarrow>
     py_str_in pause_annotation (jget_or (jget scaled ''metadata'') ''annotations'' (JObj [])) = Inr False"

lemma cleanup_verified:
  assumes "cleanup_local changed_sink sink_restored changed_pause pause_restored controls scaled = Inr True"
  shows "\<exists>c s. controls = Inr c \<and> scaled = Inr s \<and> controls_at_baseline c \<and> unpaused s"
proof -
  from assms have "read_back controls scaled = Inr True"
    by (auto simp: cleanup_local_def bindE_eq_Inr split: sum.splits if_splits)
  then show ?thesis
    by (auto simp: read_back_def controls_at_baseline_def unpaused_def bindE_eq_Inr py_index_eq_Inr py_get_eq_Inr split: if_splits)
qed

lemma finish_capture_cases:
  assumes "finish_capture w a e proof_result cleanup written = (Some v, outcome)"
  shows "jget v ''result'' = JStr ''passed'' \<longleftrightarrow> outcome = Inr ()"
    and "outcome = Inr () \<Longrightarrow> proof_result = Inr () \<and> (on_aws a \<or> cleanup = Inr True) \<and> (\<forall>x. written \<noteq> Some (Inl x))"
    and "hashed_files w (capture_raw w a) = Inr (obj_of (jget v ''files''))"
    and "jget v ''run_id'' = JStr (ca_run_id a)" and "jget v ''source_commit'' = JStr (ca_commit a)"
proof -
  from assms obtain passed cleaned passed' unsaved hashes where
    c: "after_cleanup a (proof_result = Inr ()) cleanup = Inr (passed, cleaned)"
    and u: "after_evidence passed written = Inr (passed', unsaved)"
    and h: "hashed_files w (capture_raw w a) = Inr hashes"
    and v: "v = capture_receipt a e hashes cleaned (if passed' then ''passed'' else ''failed'')"
    and outcome: "outcome = (case proof_result of Inl x \<Rightarrow> Inl x
      | Inr _ \<Rightarrow> if unsaved then Inl (capt ''load observations could not be saved'' [])
          else ensure passed' (capt ''capture cleanup did not pass'' []))"
    by (auto simp: finish_capture_def Let_def bindE_def split: sum.splits prod.splits)
  have p: "passed \<longleftrightarrow> proof_result = Inr () \<and> (on_aws a \<or> cleanup = Inr True)"
    using c by (auto simp: after_cleanup_def split: if_splits sum.splits)
  have q: "(passed' \<longleftrightarrow> passed \<and> \<not> unsaved) \<and> (unsaved \<longleftrightarrow> (\<exists>x. written = Some (Inl x)))"
    using u by (auto simp: after_evidence_def split: option.splits sum.splits if_splits)
  have r: "jget v ''result'' = JStr ''passed'' \<longleftrightarrow> passed'" by (simp add: v capture_receipt_def)
  show "jget v ''result'' = JStr ''passed'' \<longleftrightarrow> outcome = Inr ()"
    unfolding r using p q by (auto simp: outcome split: sum.splits)
  show "outcome = Inr () \<Longrightarrow> proof_result = Inr () \<and> (on_aws a \<or> cleanup = Inr True) \<and> (\<forall>x. written \<noteq> Some (Inl x))"
    using p q by (auto simp: outcome split: sum.splits if_splits)
  show "hashed_files w (capture_raw w a) = Inr (obj_of (jget v ''files''))"
    "jget v ''run_id'' = JStr (ca_run_id a)" "jget v ''source_commit'' = JStr (ca_commit a)"
    by (simp_all add: v h capture_receipt_def)
qed

text \<open>
  C29. A capture is reported as passed exactly when it ends without an error, and then its proof
  passed and its load observations were saved; on the local cluster, moreover, the sink was
  read back at its baseline and the scaler without its pause after both were restored.
\<close>

theorem passed_capture_restored:
  assumes "finish_capture w a e proof_result
      (cleanup_local changed_sink sink_restored changed_pause pause_restored controls scaled) written = (Some v, outcome)"
  shows "(jget v ''result'' = JStr ''passed'' \<longleftrightarrow> outcome = Inr ()) \<and>
    (outcome = Inr () \<longrightarrow> proof_result = Inr () \<and> (\<forall>x. written \<noteq> Some (Inl x)) \<and>
       (on_aws a \<or> (\<exists>c s. controls = Inr c \<and> scaled = Inr s \<and> controls_at_baseline c \<and> unpaused s)))"
  using finish_capture_cases(1,2) [OF assms] cleanup_verified by blast

section \<open>Outputs\<close>

lemma hashed_file:
  assumes "hashed_files w raw = Inr hs" and "map_of hs name = Some v"
  shows "name \<in> set result_files \<and> (\<exists>h. hash_path w (raw @ [name]) = Inr h \<and> v = JStr h)"
proof -
  have "(name, v) \<in> set hs" using assms(2) by (rule map_of_SomeD)
  with assms(1) show ?thesis
    by (auto simp: hashed_files_def mapE_eq_Inr bindE_eq_Inr dest!: list_all2_set2)
qed

text \<open>
  What verifies is what was captured: when the receipt of a capture is read back later and
  the verification of one of its outputs exits with zero, then the capture ended without an
  error, the output is one of the eight files, and its hash is the one it had at the capture.
\<close>

theorem verified_output_unchanged:
  assumes "finish_capture w a e proof_result cleanup written = (Some v, outcome)"
    and "read_json_object w' (capture_raw w' a @ [''capture-result.json'']) ''capture result'' = Inr v"
    and "verify_output w' a name = Inr 0"
  shows "outcome = Inr () \<and> name \<in> set result_files \<and>
    (\<exists>h. hash_path w (capture_raw w a @ [name]) = Inr h \<and> hash_path w' (capture_raw w' a @ [name]) = Inr h)"
proof -
  have "check_capture_output w' a name = Inr ()"
    using assms(3) by (auto simp: verify_output_def bindE_eq_Inr split: sum.splits if_splits)
  then obtain h where passed: "jget v ''result'' = JStr ''passed''"
    and recorded: "jget_or (jget_or v ''files'' (JObj [])) name JNull = JStr h"
    and now: "hash_path w' (capture_raw w' a @ [name]) = Inr h"
    by (auto simp: check_capture_output_def Let_def assms(2) bindE_eq_Inr py_get_eq_Inr)
  have "map_of (obj_of (jget v ''files'')) name = Some (JStr h)"
    using recorded by (simp add: jget_or_jget jget_def split: if_splits option.splits)
  with hashed_file [OF finish_capture_cases(3) [OF assms(1)]] now
  have "name \<in> set result_files \<and>
    (\<exists>h. hash_path w (capture_raw w a @ [name]) = Inr h \<and> hash_path w' (capture_raw w' a @ [name]) = Inr h)"
    by auto
  with passed finish_capture_cases(1) [OF assms(1)] show ?thesis by simp
qed

section \<open>A sample capture\<close>

definition args_r :: capture_args where
  "args_r = \<lparr>ca_environment = ''local'', ca_context = ''mlp'', ca_run_id = run_text \<lparr>yr = 2026, mo = 7, dy = 27, hh = 10, mi = 0, ss = 0\<rparr>,
     ca_commit = replicate 40 (CHR ''a''), ca_image = ''relay'', ca_deploy = False\<rparr>"

definition end_r :: capture_end where
  "end_r = \<lparr>ce_clean = True, ce_provenance = JObj [], ce_stop_attempted = False, ce_stop_accepted = False,
     ce_started_at = [], ce_finished_at = []\<rparr>"

definition controls_r :: json where
  "controls_r = JObj [(''latency_ms'', JInt 0), (''fail_rate'', JInt 0)]"

definition scaled_r :: json where
  "scaled_r = JObj [(''metadata'', JObj [])]"

text \<open>The run directory with the trace, and later with the receipt, whose text is its name.\<close>

definition raw_r :: path where
  "raw_r = [''.evidence'', ''m4-local'', ca_run_id args_r]"

definition receipt_r :: json where
  "receipt_r = capture_receipt args_r end_r [(''13-trace.json'', JStr ''spans'')] True ''passed''"

definition env_r :: "path list \<Rightarrow> env" where
  "env_r results = \<lparr>root_dir = [],
     files = (\<lambda>p. if p = raw_r @ [''13-trace.json''] then Some (regular 384 ''spans'')
       else if p \<in> set results then Some (regular 384 ''receipt'') else None),
     outside = (\<lambda>p q. False), loads = (\<lambda>s. Some receipt_r), repeats = (\<lambda>s. False), decode = Some,
     sha256 = (\<lambda>s. s), answer = (\<lambda>t e. \<lparr>returncode = 0, stdout = [], stderr = []\<rparr>)\<rparr>"

lemma cleanup_r: "cleanup_local True (Inr ()) True (Inr ()) (Inr controls_r) (Inr scaled_r) = Inr True"
  by (simp add: cleanup_local_def attempt_def read_back_def controls_r_def scaled_r_def py_str_in_def)

lemma capture_r:
  "finish_capture (env_r []) args_r end_r (Inr ())
     (cleanup_local True (Inr ()) True (Inr ()) (Inr controls_r) (Inr scaled_r)) (Some (Inr ())) = (Some receipt_r, Inr ())"
proof -
  have raw: "capture_raw (env_r rs) args_r = raw_r" for rs
    by (simp add: capture_raw_def env_r_def raw_r_def on_aws_def args_r_def)
  have "hashed_files (env_r []) raw_r = Inr [(''13-trace.json'', JStr ''spans'')]"
    by (simp add: hashed_files_def result_files_def is_file_def env_r_def hash_path_def read_bytes_def)
  then show ?thesis
    by (simp add: finish_capture_def cleanup_r raw after_cleanup_def after_evidence_def on_aws_def receipt_r_def)
      (simp add: args_r_def)
qed

theorem passed_capture_restored_witness: "jget receipt_r ''result'' = JStr ''passed'' \<and> unpaused scaled_r"
proof -
  have "\<not> on_aws args_r" by (simp add: on_aws_def args_r_def)
  then show ?thesis using passed_capture_restored [OF capture_r] by auto
qed

lemma read_r: "read_json_object (env_r [raw_r @ [''capture-result.json'']]) (raw_r @ [''capture-result.json'']) d = Inr receipt_r"
proof -
  have "is_dict receipt_r" by (simp add: receipt_r_def capture_receipt_def)
  then show ?thesis
    by (simp add: read_json_object_def read_bytes_def decode_text_def env_r_def is_dict_iff split: json.splits)
qed

lemma verify_r: "verify_output (env_r [raw_r @ [''capture-result.json'']]) args_r ''13-trace.json'' = Inr 0"
proof -
  let ?w = "env_r [raw_r @ [''capture-result.json'']]"
  have full: "full_year \<lparr>yr = 2026, mo = 7, dy = 27, hh = 10, mi = 0, ss = 0\<rparr>"
    by (simp add: full_year_def valid_time_def days_in_month_def)
  have run: "evidence_validate_run_id (ca_run_id args_r) = Inr ()" "run_shape (ca_run_id args_r)"
    using evidence_run_id.accepts_text [OF full] run_text_parts(1) [OF full] by (simp_all add: args_r_def)
  have commit: "commit_shape (ca_commit args_r)"
    by (simp add: args_r_def commit_shape_def list_all_iff is_hex_def hex16_def)
  have raw: "capture_raw ?w args_r = raw_r" by (simp add: capture_raw_def env_r_def raw_r_def on_aws_def args_r_def)
  have "\<not> is_symlink ?w q" for q by (simp add: is_symlink_def env_r_def)
  then have beneath: "ensure_beneath ?w raw_r (root_dir ?w) = Inr ()"
    unfolding ensure_beneath_def foldE_unit
    by (simp add: env_r_def foldE_unit up_to_def raw_r_def upt_rec)
  have init: "is_ok (capture_init ?w args_r)"
    by (simp add: capture_init_def run commit raw beneath) (simp add: on_aws_def args_r_def)
  have "check_capture_output ?w args_r ''13-trace.json'' = Inr ()"
    by (simp add: check_capture_output_def Let_def raw read_r)
      (simp add: env_r_def hash_path_def read_bytes_def receipt_r_def capture_receipt_def)
  with init show ?thesis by (auto simp: verify_output_def is_ok_iff)
qed

theorem verified_output_unchanged_witness:
  "\<exists>h. hash_path (env_r []) (raw_r @ [''13-trace.json'']) = Inr h"
proof -
  let ?w = "env_r [raw_r @ [''capture-result.json'']]"
  have raw: "capture_raw (env_r rs) args_r = raw_r" for rs
    by (simp add: capture_raw_def env_r_def raw_r_def on_aws_def args_r_def)
  have "read_json_object ?w (capture_raw ?w args_r @ [''capture-result.json'']) ''capture result'' = Inr receipt_r"
    by (simp add: raw read_r)
  from verified_output_unchanged [OF capture_r this verify_r] show ?thesis by (auto simp: raw)
qed
end
