(* ===== verification/Preflight_Flags.thy ===== *)
theory Preflight_Flags
  imports Evidence_Plan
begin

text \<open>
  The part of scripts/m4-preflight.py that keeps the hourly resources off: the evidence paths
  and the Terraform variables (\<open>check_hourly_flags\<close>) in the defaults, in the variable files,
  in the command line arguments and in the environment. The files of a directory and
  \<open>shlex.split\<close> are parameters. The regular expressions are matched deterministically: where
  a pattern says \<open>\s*\<close> the next character is never a space, so the run of spaces is maximal.
\<close>

abbreviation pfl :: "string \<Rightarrow> json list \<Rightarrow> exn" where
  "pfl \<equiv> Err PreflightError"

section \<open>Text and commands\<close>

definition decode_lines :: "env \<Rightarrow> string \<Rightarrow> string res" where
  "decode_lines w b = bindE (decode_text w b) (\<lambda>t. Inr (universal t))"

definition read_text :: "env \<Rightarrow> path \<Rightarrow> string res" where
  "read_text w p =
     bindE (read_bytes w p) (\<lambda>b. case b of None \<Rightarrow> py_raise OSError | Some b \<Rightarrow> decode_lines w b)"

text \<open>
  \<open>subprocess.run(args, capture_output=True, text=True)\<close> decodes both streams;
  \<open>command_output\<close> raises with the error output, or the output, of a failed command.
\<close>

definition run_text_command :: "string list \<Rightarrow> (int \<times> string \<times> string) io" where
  "run_text_command args =
     bindIO (call args None) (\<lambda>r.
     bindIO (ask (\<lambda>w. decode_lines w (stdout r))) (\<lambda>out.
     bindIO (ask (\<lambda>w. decode_lines w (stderr r))) (\<lambda>err.
     lift (Inr (returncode r, out, err)))))"

definition command_output :: "string list \<Rightarrow> string io" where
  "command_output args =
     bindIO (run_text_command args) (\<lambda>(code, out, err).
     lift (if code \<noteq> 0
       then Inl (pfl ''{} failed: {}''
         [JStr (join_words args), JStr (if strip err = [] then strip out else strip err)])
       else Inr out))"

definition preflight_run_id :: "string \<Rightarrow> unit res" where
  "preflight_run_id run_id = check_run_id PreflightError ''AWS_RUN_ID'' run_id"

interpretation preflight_ids: run_id_validator preflight_run_id
  by unfold_locales (simp add: preflight_run_id_def check_run_id_iff)

section \<open>Evidence paths\<close>

text \<open>
  What the script is given by its host: the names in a directory, the files \<open>rglob\<close> finds
  below a directory, \<open>shlex.split\<close>, \<open>shutil.which\<close>, the interpreter, the recursion limit,
  the environment variables and the text of an exception.
\<close>

record host =
  host_names :: "path \<Rightarrow> string list"
  host_yamls :: "path \<Rightarrow> path list"
  host_shlex :: "string \<Rightarrow> string list option"
  host_which :: "string \<Rightarrow> bool"
  host_python :: string
  host_depth :: nat
  host_environment :: "string \<Rightarrow> string option"
  host_text_of :: "exn \<Rightarrow> string"

definition ensure_no_symlink :: "env \<Rightarrow> path \<Rightarrow> path \<Rightarrow> unit res" where
  "ensure_no_symlink w p stop =
     foldE (\<lambda>u q.
       if is_symlink w q then Inl (pfl ''evidence path contains a symlink: {}'' [path_json q])
       else if \<not> strict_prefix stop q
       then Inl (pfl ''evidence path escapes the repository: {}'' [path_json p])
       else Inr ()) () (up_to stop p)"

definition check_evidence_roots :: "(path \<times> path) io" where
  "check_evidence_roots =
     bindIO (ask (\<lambda>w. Inr (root_dir w @ [''.evidence'', ''m4''], root_dir w @ [''docs'', ''evidence'', ''m4'']))) (\<lambda>(raw, sanitized).
     bindIO (ask (\<lambda>w. ensure_no_symlink w raw (root_dir w))) (\<lambda>_.
     bindIO (ask (\<lambda>w. ensure_no_symlink w sanitized (root_dir w))) (\<lambda>_.
     bindIO (call [''git'', ''check-ignore'', ''--quiet'', ''--'', ''.evidence/m4/preflight-probe''] None) (\<lambda>r.
     lift (if returncode r \<noteq> 0
       then Inl (pfl ''raw evidence root is not ignored by git: {}'' [path_json raw])
       else Inr (raw, sanitized))))))"

definition is_directory :: "env \<Rightarrow> path \<Rightarrow> bool" where
  "is_directory w p = (case files w p of None \<Rightarrow> False | Some n \<Rightarrow> nd_content n = Directory)"

text \<open>\<open>evidence_paths\<close> without \<open>create\<close>.\<close>

definition preflight_paths :: "host \<Rightarrow> string \<Rightarrow> (path \<times> path) io" where
  "preflight_paths h run_id =
     bindIO (lift (preflight_run_id run_id)) (\<lambda>_.
     bindIO check_evidence_roots (\<lambda>(raw_root, sanitized_root).
     let raw = raw_root @ [run_id]; sanitized = sanitized_root @ [run_id] in
     bindIO (ask (\<lambda>w. ensure_no_symlink w raw (root_dir w))) (\<lambda>_.
     bindIO (ask (\<lambda>w. ensure_no_symlink w sanitized (root_dir w))) (\<lambda>_.
     bindIO (ask (\<lambda>w. ensure (present w sanitized \<longrightarrow> is_directory w sanitized)
       (pfl ''sanitized evidence destination is not a directory: {}'' [path_json sanitized]))) (\<lambda>_.
     bindIO (ask (\<lambda>w. ensure (present w sanitized \<longrightarrow> host_names h sanitized = [])
       (pfl ''sanitized evidence destination is already populated: {}'' [path_json sanitized]))) (\<lambda>_.
     lift (Inr (raw, sanitized))))))))"

text \<open>
  \<open>raw.mkdir(parents=True, mode=0o700)\<close> and \<open>chmod\<close>: missing parents are created with
  the default mode, here 0755; a file in their place is an error.
\<close>

definition directory :: "nat \<Rightarrow> node" where
  "directory mode = \<lparr>nd_link = False, nd_mode = mode, nd_content = Directory\<rparr>"

definition make_directories :: "path \<Rightarrow> env \<Rightarrow> env" where
  "make_directories p w =
     w\<lparr>files := (\<lambda>q. if q = p then Some (directory 448)
       else if strict_prefix q p \<and> files w q = None then Some (directory 493) else files w q)\<rparr>"

definition create_raw :: "path \<Rightarrow> unit act" where
  "create_raw raw =
     bindA (reads (\<lambda>w. ensure (\<not> present w raw) (pfl ''raw evidence run id already exists: {}'' [path_json raw]))) (\<lambda>_ w.
       (if files w raw = None \<and> \<not> list_ex (is_file w) (map (\<lambda>k. take k raw) [0..<length raw])
        then (Inr (), make_directories raw w) else (py_raise OSError, w)))"

section \<open>Flags in variable files\<close>

definition hourly_flags :: "string list" where
  "hourly_flags = [''enable_eks'', ''enable_msk'', ''enable_rds'']"

type_synonym flags = "(string \<times> bool) list"

text \<open>\<open>re.sub(r"(?m)(#|//).*?$", "", text)\<close>: a comment ends before the end of its line.\<close>

function strip_comments :: "string \<Rightarrow> string" where
  "strip_comments [] = []"
| "strip_comments (c # s) =
     (if c = CHR ''#'' \<or> starts_with (c # s) ''//'' then strip_comments (dropWhile (\<lambda>d. d \<noteq> newline) s)
      else c # strip_comments s)"
  by pat_completeness auto

termination
  by (relation "measure length") (auto simp: less_Suc_eq_le length_dropWhile_le)

text \<open>\<open>^\s*FLAG\s*=\s*([^\s]+)\<close> at the start of a line: the value and the text behind it.\<close>

definition skip_spaces :: "string \<Rightarrow> string" where
  "skip_spaces s = dropWhile is_space s"

definition after_word :: "string \<Rightarrow> string \<Rightarrow> string option" where
  "after_word p s = (if starts_with s p then Some (drop (length p) s) else None)"

definition assignment :: "string \<Rightarrow> string \<Rightarrow> (string \<times> string) option" where
  "assignment flag s =
     Option.bind (after_word flag (skip_spaces s)) (\<lambda>a.
     Option.bind (after_word ''='' (skip_spaces a)) (\<lambda>b.
       let c = skip_spaces b; v = takeWhile (\<lambda>d. \<not> is_space d) c in
       if v = [] then None else Some (v, dropWhile (\<lambda>d. \<not> is_space d) c)))"

lemma skip_spaces_length: "length (skip_spaces s) \<le> length s"
  by (simp add: skip_spaces_def length_dropWhile_le)

lemma assignment_shorter:
  assumes "assignment flag s = Some (v, rest)" shows "length rest < length s"
proof -
  from assms obtain a b where a: "after_word flag (skip_spaces s) = Some a"
    and b: "after_word ''='' (skip_spaces a) = Some b"
    and v: "v = takeWhile (\<lambda>d. \<not> is_space d) (skip_spaces b)"
    and rest: "rest = dropWhile (\<lambda>d. \<not> is_space d) (skip_spaces b)"
    by (auto simp: assignment_def Let_def bind_eq_Some_conv split: if_splits)
  have "length a \<le> length s" using a skip_spaces_length [of s] by (auto simp: after_word_def split: if_splits)
  moreover have "length b < length (skip_spaces a)"
    using b by (cases "skip_spaces a") (auto simp: after_word_def starts_with_def split: if_splits)
  moreover have "length rest \<le> length b"
    unfolding rest using skip_spaces_length [of b] le_trans [OF length_dropWhile_le] by blast
  ultimately show ?thesis using skip_spaces_length [of a] by linarith
qed

text \<open>\<open>re.findall\<close>: from left to right, without overlap.\<close>

function assigned_values :: "string \<Rightarrow> bool \<Rightarrow> string \<Rightarrow> string list" where
  "assigned_values flag start [] = []"
| "assigned_values flag start (c # s) =
     (case (if start then assignment flag (c # s) else None) of
        Some (v, rest) \<Rightarrow> v # assigned_values flag False rest
      | None \<Rightarrow> assigned_values flag (c = newline) s)"
  by pat_completeness auto

termination
  by (relation "measure (\<lambda>(flag, start, s). length s)")
    (auto split: if_splits dest!: assignment_shorter)

definition truth_text :: "string \<Rightarrow> bool option" where
  "truth_text v =
     (let lowered = str_lower v in
      if lowered = ''true'' then Some True else if lowered = ''false'' then Some False else None)"

definition assign_flag :: "path \<Rightarrow> string \<Rightarrow> flags \<Rightarrow> string \<Rightarrow> flags res" where
  "assign_flag p flag values v =
     (case truth_text v of
        None \<Rightarrow> Inl (pfl ''{} has a non-boolean {} value'' [path_json p, JStr flag])
      | Some b \<Rightarrow>
          (case map_of values flag of
             Some c \<Rightarrow> if c \<noteq> b then Inl (pfl ''{} assigns {} more than once'' [path_json p, JStr flag])
                       else Inr (al_set values flag b)
           | None \<Rightarrow> Inr (al_set values flag b)))"

definition hcl_flags :: "path \<Rightarrow> string \<Rightarrow> flags res" where
  "hcl_flags p t =
     foldE (\<lambda>vs flag. foldE (assign_flag p flag) vs (assigned_values flag True (strip_comments t))) [] hourly_flags"

definition parse_hcl_flags :: "env \<Rightarrow> path \<Rightarrow> flags res" where
  "parse_hcl_flags w p = bindE (read_text w p) (\<lambda>t. hcl_flags p t)"

definition json_flag :: "path \<Rightarrow> json \<Rightarrow> flags \<Rightarrow> string \<Rightarrow> flags res" where
  "json_flag p payload values flag =
     (if \<not> has_key payload flag then Inr values
      else case jget payload flag of
        JBool b \<Rightarrow> Inr (al_set values flag b)
      | _ \<Rightarrow> Inl (pfl ''{} has a non-boolean {} value'' [path_json p, JStr flag]))"

definition parse_json_flags :: "env \<Rightarrow> path \<Rightarrow> flags res" where
  "parse_json_flags w p =
     bindE (read_text w p) (\<lambda>t.
     case loads w t of
       None \<Rightarrow> Inl (pfl ''invalid JSON variable file {}: {}'' [path_json p])
     | Some payload \<Rightarrow>
         bindE (ensure (is_dict payload) (pfl ''Terraform variable file must contain an object: {}'' [path_json p])) (\<lambda>_.
           foldE (json_flag p payload) [] hourly_flags))"

text \<open>\<open>path.suffix == ".json"\<close>: a name is not all suffix.\<close>

definition json_suffix :: "path \<Rightarrow> bool" where
  "json_suffix p \<longleftrightarrow> p \<noteq> [] \<and> ends_with (last p) ''.json'' \<and> 5 < length (last p)"

definition flag_values :: "env \<Rightarrow> path \<Rightarrow> flags res" where
  "flag_values w p = (if json_suffix p then parse_json_flags w p else parse_hcl_flags w p)"

definition active_variable_files :: "env \<Rightarrow> host \<Rightarrow> path \<Rightarrow> path list" where
  "active_variable_files w h d =
     filter (is_file w)
       ([d @ [''terraform.tfvars''], d @ [''terraform.tfvars.json'']] @
        map (\<lambda>n. d @ [n]) (sort (filter (\<lambda>n. ends_with n ''.auto.tfvars'') (host_names h d))) @
        map (\<lambda>n. d @ [n]) (sort (filter (\<lambda>n. ends_with n ''.auto.tfvars.json'') (host_names h d))))"

section \<open>Flags in arguments and in the environment\<close>

fun path_parts :: "string \<Rightarrow> string \<Rightarrow> path" where
  "path_parts acc [] = (if acc = [] \<or> acc = ''.'' then [] else [acc])"
| "path_parts acc (c # s) =
     (if c = CHR ''/'' then (if acc = [] \<or> acc = ''.'' then [] else [acc]) @ path_parts [] s
      else path_parts (acc @ [c]) s)"

definition is_absolute :: "string \<Rightarrow> bool" where
  "is_absolute s \<longleftrightarrow> starts_with s ''/''"

definition join_path :: "path \<Rightarrow> string \<Rightarrow> path" where
  "join_path d s = (if is_absolute s then path_parts [] s else d @ path_parts [] s)"

type_synonym arguments = "path list \<times> flags"

definition file_argument :: "env \<Rightarrow> path \<Rightarrow> arguments \<Rightarrow> string \<Rightarrow> arguments res" where
  "file_argument w d s item =
     (let p = join_path d item in
      if is_file w p then Inr (fst s @ [p], snd s)
      else Inl (pfl ''Terraform variable file does not exist: {}'' [path_json p]))"

definition var_argument :: "arguments \<Rightarrow> string \<Rightarrow> arguments res" where
  "var_argument s item =
     (let name = takeWhile (\<lambda>c. c \<noteq> CHR ''='') item; raw = dropWhile (\<lambda>c. c \<noteq> CHR ''='') item in
      if raw = [] then Inl (pfl ''Terraform -var must use name=value'' [])
      else if name \<in> set hourly_flags then
        (case truth_text (tl raw) of
           None \<Rightarrow> Inl (pfl ''Terraform argument has a non-boolean {} value'' [JStr name])
         | Some b \<Rightarrow> Inr (fst s, al_set (snd s) name b))
      else Inr s)"

fun argument_loop :: "env \<Rightarrow> path \<Rightarrow> arguments \<Rightarrow> string list \<Rightarrow> arguments res" where
  "argument_loop w d s [] = Inr s"
| "argument_loop w d s [a] =
     (if a = ''-var'' \<or> a = ''-var-file'' then Inl (pfl ''{} is missing its value'' [JStr a])
      else if starts_with a ''-var='' then var_argument s (drop 5 a)
      else if starts_with a ''-var-file='' then file_argument w d s (drop 10 a)
      else Inr s)"
| "argument_loop w d s (a # b # as) =
     (if a = ''-var'' then bindE (var_argument s b) (\<lambda>s. argument_loop w d s as)
      else if a = ''-var-file'' then bindE (file_argument w d s b) (\<lambda>s. argument_loop w d s as)
      else bindE (if starts_with a ''-var='' then var_argument s (drop 5 a)
                  else if starts_with a ''-var-file='' then file_argument w d s (drop 10 a)
                  else Inr s) (\<lambda>s. argument_loop w d s (b # as)))"

definition argument_variable_files ::
  "env \<Rightarrow> host \<Rightarrow> path \<Rightarrow> string \<Rightarrow> arguments res" where
  "argument_variable_files w h d v =
     (case host_shlex h v of
        None \<Rightarrow> Inl (pfl ''invalid Terraform arguments: {}'' [])
      | Some arguments \<Rightarrow> argument_loop w d ([], []) arguments)"

text \<open>
  The default in variables.tf: the first block of the variable, and in it a line
  \<open>default = false\<close>, where \<open>\s*$\<close> is met when the run of spaces reaches a line end.
\<close>

fun line_starts :: "bool \<Rightarrow> string \<Rightarrow> string list" where
  "line_starts start [] = (if start then [[]] else [])"
| "line_starts start (c # s) = (if start then [c # s] else []) @ line_starts (c = newline) s"

definition line_ends :: "string \<Rightarrow> bool" where
  "line_ends s \<longleftrightarrow> newline \<in> set (takeWhile is_space s) \<or> skip_spaces s = []"

definition default_false :: "string \<Rightarrow> bool" where
  "default_false s =
     (case Option.bind (after_word ''default'' (skip_spaces s)) (\<lambda>a.
           Option.bind (after_word ''='' (skip_spaces a)) (\<lambda>b. after_word ''false'' (skip_spaces b))) of
        None \<Rightarrow> False | Some c \<Rightarrow> line_ends c)"

definition block_header :: "string \<Rightarrow> string \<Rightarrow> string option" where
  "block_header flag s =
     Option.bind (after_word ''variable'' s) (\<lambda>a.
     if skip_spaces a = a then None
     else Option.bind (after_word ([CHR 0x22] @ flag @ [CHR 0x22]) (skip_spaces a)) (\<lambda>b.
       after_word ''{'' (skip_spaces b)))"

fun up_to_close :: "string \<Rightarrow> string option" where
  "up_to_close [] = None"
| "up_to_close (c # s) =
     (if starts_with (c # s) [newline, CHR ''}''] then Some []
      else map_option (\<lambda>b. c # b) (up_to_close s))"

fun variable_body :: "string \<Rightarrow> string \<Rightarrow> string option" where
  "variable_body flag [] = None"
| "variable_body flag (c # s) =
     (case Option.bind (block_header flag (c # s)) up_to_close of
        Some body \<Rightarrow> Some body
      | None \<Rightarrow> variable_body flag s)"

definition flag_default_false :: "string \<Rightarrow> string \<Rightarrow> bool" where
  "flag_default_false t flag =
     (case variable_body flag t of
        None \<Rightarrow> False | Some body \<Rightarrow> list_ex default_false (line_starts True body))"

text \<open>The sources of flags, each with its name, in the order the script collects them.\<close>

type_synonym sources = "(string \<times> flags) list"

definition path_text :: "path \<Rightarrow> string" where
  "path_text p = concat (map (\<lambda>c. ''/'' @ c) p)"

definition flag_directory :: "env \<Rightarrow> path" where
  "flag_directory w = root_dir w @ [''infra'', ''terraform'', ''envs'', ''dev'']"

definition file_source :: "env \<Rightarrow> string \<Rightarrow> path \<Rightarrow> (string \<times> flags) res" where
  "file_source w name p = bindE (flag_values w p) (\<lambda>f. Inr (name, f))"

definition argument_names :: "string list" where
  "argument_names = [''AWS_TF_ARGS'', ''TF_CLI_ARGS'', ''TF_CLI_ARGS_plan'', ''TF_CLI_ARGS_apply'']"

definition argument_sources :: "env \<Rightarrow> host \<Rightarrow> string \<Rightarrow> sources res" where
  "argument_sources w h name =
     (case host_environment h name of
        None \<Rightarrow> Inr []
      | Some v \<Rightarrow>
          if v = [] then Inr []
          else bindE (argument_variable_files w h (flag_directory w) v) (\<lambda>(ps, f).
            bindE (mapE (\<lambda>p. file_source w (name @ '':'' @ path_text p) p) ps) (\<lambda>more.
              Inr ((name, f) # more))))"

definition environment_flag :: "host \<Rightarrow> flags \<Rightarrow> string \<Rightarrow> flags res" where
  "environment_flag h values flag =
     (let name = ''TF_VAR_'' @ flag in
      case host_environment h name of
        None \<Rightarrow> Inr values
      | Some v \<Rightarrow>
          (case truth_text v of
             None \<Rightarrow> Inl (pfl ''{} must be true or false'' [JStr name])
           | Some b \<Rightarrow> Inr (al_set values flag b)))"

definition flag_sources :: "env \<Rightarrow> host \<Rightarrow> sources res" where
  "flag_sources w h =
     bindE (mapE (\<lambda>p. file_source w (path_text p) p) (active_variable_files w h (flag_directory w))) (\<lambda>active.
     bindE (file_source w ''terraform.tfvars.example'' (flag_directory w @ [''terraform.tfvars.example''])) (\<lambda>example.
     bindE (mapE (argument_sources w h) argument_names) (\<lambda>arguments.
     bindE (foldE (environment_flag h) [] hourly_flags) (\<lambda>set_flags.
       Inr (active @ [example] @ concat arguments @ [(''environment'', set_flags)])))))"

definition enabled_flags :: "sources \<Rightarrow> string list" where
  "enabled_flags sources =
     concat (map (\<lambda>(source, f). map (\<lambda>(flag, b). source @ '':'' @ flag) (filter snd f)) sources)"

definition check_hourly_flags :: "env \<Rightarrow> host \<Rightarrow> unit res" where
  "check_hourly_flags w h =
     bindE (read_text w (flag_directory w @ [''variables.tf''])) (\<lambda>defaults.
     bindE (foldE (\<lambda>u flag. ensure (flag_default_false defaults flag)
       (pfl ''Terraform default for {} is not false'' [JStr flag])) () hourly_flags) (\<lambda>_.
     bindE (flag_sources w h) (\<lambda>sources.
       ensure (enabled_flags sources = [])
         (pfl ''hourly AWS flags are enabled: {}'' (map JStr (enabled_flags sources))))))"

end
