(* ===== verification/Preflight_Repository.thy ===== *)
theory Preflight_Repository
  imports Preflight_Flags Stage_Images
begin

text \<open>
  The account-independent checks of scripts/m4-preflight.py on the repository: the rendered
  Kubernetes documents and the tracked manifests (no local endpoint, only pinned images), the
  recipe that destroys the stack, the closure receipt of milestone M3, and
  \<open>preflight_repository\<close>, which composes them. A generator is the list of the values it yields
  with the way it ends.
\<close>

section \<open>The strings and images of a document\<close>

type_synonym gen = "string list \<times> unit res"

definition yield_then :: "string list \<Rightarrow> gen \<Rightarrow> gen" where
  "yield_then xs g = (xs @ fst g, snd g)"

fun gen_join :: "gen list \<Rightarrow> gen" where
  "gen_join [] = ([], Inr ())"
| "gen_join (g # gs) = (case snd g of Inl e \<Rightarrow> g | Inr _ \<Rightarrow> yield_then (fst g) (gen_join gs))"

definition json_like :: "string \<Rightarrow> bool" where
  "json_like s \<longleftrightarrow> starts_with s ''{'' \<or> starts_with s ''[''"

text \<open>Strings may hold JSON themselves; the recursion is bounded by the interpreter's limit.\<close>

primrec nested_values :: "(string \<Rightarrow> json option) \<Rightarrow> nat \<Rightarrow> json \<Rightarrow> gen" where
  "nested_values parse 0 v = ([], py_raise RecursionError)"
| "nested_values parse (Suc n) v =
     (case v of
        JStr s \<Rightarrow> yield_then [s]
          (if json_like (strip s)
           then case parse (strip s) of None \<Rightarrow> ([], Inr ()) | Some inner \<Rightarrow> nested_values parse n inner
           else ([], Inr ()))
      | JObj ps \<Rightarrow> gen_join (map (\<lambda>p. nested_values parse n (snd p)) ps)
      | JArr xs \<Rightarrow> gen_join (map (nested_values parse n) xs)
      | _ \<Rightarrow> ([], Inr ()))"

text \<open>\<open>s.rsplit(c, maxsplit=1)[-1]\<close>.\<close>

definition last_part :: "char \<Rightarrow> string \<Rightarrow> string" where
  "last_part sep s = rev (takeWhile (\<lambda>c. c \<noteq> sep) (rev s))"

definition image_entries :: "string \<times> json \<Rightarrow> string list" where
  "image_entries p =
     (if fst p = ''image'' \<and> is_str (snd p) then [str_of (snd p)]
      else if fst p = ''images'' \<and> is_list (snd p)
        then map (\<lambda>v. last_part (CHR ''='') (str_of v)) (filter is_str (items_of (snd p)))
      else [])"

primrec rendered_images :: "(string \<Rightarrow> json option) \<Rightarrow> nat \<Rightarrow> json \<Rightarrow> gen" where
  "rendered_images parse 0 v = ([], py_raise RecursionError)"
| "rendered_images parse (Suc n) v =
     (case v of
        JObj ps \<Rightarrow> gen_join (map (\<lambda>p. yield_then (image_entries p) (rendered_images parse n (snd p))) ps)
      | JArr xs \<Rightarrow> gen_join (map (rendered_images parse n) xs)
      | JStr s \<Rightarrow>
          if json_like (strip s)
          then case parse (strip s) of None \<Rightarrow> ([], Inr ()) | Some inner \<Rightarrow> rendered_images parse n inner
          else ([], Inr ())
      | _ \<Rightarrow> ([], Inr ()))"

section \<open>Images and endpoints\<close>

definition lower_digits :: string where
  "lower_digits = ''abcdefghijklmnopqrstuvwxyz0123456789''"

definition alnums :: string where
  "alnums = lower_digits @ ''ABCDEFGHIJKLMNOPQRSTUVWXYZ''"

definition host_char :: "char \<Rightarrow> bool" where
  "host_char c \<longleftrightarrow> c \<in> set (lower_digits @ ''.-'')"

definition repository_char :: "char \<Rightarrow> bool" where
  "repository_char c \<longleftrightarrow> c \<in> set (lower_digits @ ''._/-'')"

definition tag_shape :: "string \<Rightarrow> bool" where
  "tag_shape s \<longleftrightarrow> s \<noteq> [] \<and> hd s \<in> set alnums \<and> (\<forall>c \<in> set s. c \<in> set (alnums @ ''._-''))"

definition all_of :: "(char \<Rightarrow> bool) \<Rightarrow> string \<Rightarrow> bool" where
  "all_of p s \<longleftrightarrow> s \<noteq> [] \<and> list_all p s"

text \<open>\<open>(?:[a-z0-9.-]+(?::[0-9]+)?/)?[a-z0-9._/-]+\<close>: a host matters only with a port.\<close>

definition repository_shape :: "string \<Rightarrow> bool" where
  "repository_shape s \<longleftrightarrow>
     (let host = takeWhile (\<lambda>c. c \<noteq> CHR '':'') s; port = drop (Suc (length host)) s in
      if host = s then all_of repository_char s
      else all_of host_char host \<and> takeWhile is_digit port \<noteq> [] \<and>
        starts_with (dropWhile is_digit port) ''/'' \<and> all_of repository_char (tl (dropWhile is_digit port)))"

definition image_reference :: "string \<Rightarrow> bool" where
  "image_reference s \<longleftrightarrow>
     (let n = length s - 72; tag = last_part (CHR '':'') s; body = take (length s - Suc (length tag)) s in
      (72 \<le> length s \<and> take 8 (drop n s) = ''@sha256:'' \<and> list_all is_hex (drop (n + 8) s) \<and>
        repository_shape (take n s)) \<or>
      (length tag < length s \<and> tag_shape tag \<and> repository_shape body))"

definition moving_tags :: "string list" where
  "moving_tags = [''dev'', ''edge'', ''latest'', ''main'', ''nightly'', ''stable'']"

definition image_is_pinned :: "string \<Rightarrow> bool" where
  "image_is_pinned s \<longleftrightarrow> image_reference s \<and>
     (contains_str s ''@sha256:'' \<or>
      (let tag = str_lower (last_part (CHR '':'') s) in list_ex is_digit tag \<and> tag \<notin> set moving_tags))"

definition endpoint_char :: "char \<Rightarrow> bool" where
  "endpoint_char c \<longleftrightarrow> c \<in> set (lower_digits @ ''.-'')"

definition service_ports :: "string list" where
  "service_ports = concat (map (\<lambda>s. map (\<lambda>p. s @ '':'' @ p) [''5432'', ''9092'', ''9094'']) [''kafka'', ''postgres''])"

text \<open>A service with its port, not inside a longer name and not before another digit.\<close>

definition port_end :: "string \<Rightarrow> bool" where
  "port_end s \<longleftrightarrow> s = [] \<or> \<not> is_digit (hd s)"

fun service_endpoint :: "bool \<Rightarrow> string \<Rightarrow> bool" where
  "service_endpoint free [] = False"
| "service_endpoint free (c # s) =
     ((free \<and> list_ex (\<lambda>p. starts_with (c # s) p \<and> port_end (drop (length p) (c # s))) service_ports) \<or>
      service_endpoint (\<not> endpoint_char c) s)"

definition local_endpoint :: "string \<Rightarrow> bool" where
  "local_endpoint s \<longleftrightarrow>
     (let t = str_lower s in
      contains_str t ''localhost'' \<or> contains_str t ''127.0.0.1'' \<or> contains_str t ''host.minikube.internal'' \<or>
      service_endpoint True t)"

definition local_value :: "string \<Rightarrow> string \<Rightarrow> exn" where
  "local_value source v = pfl ''{} contains a local-only endpoint: {}'' [JStr source, JStr v]"

definition unpinned :: "string \<Rightarrow> string \<Rightarrow> exn" where
  "unpinned source v = pfl ''{} contains an unpinned image: {}'' [JStr source, JStr v]"

definition validate_document :: "env \<Rightarrow> host \<Rightarrow> string \<times> json \<Rightarrow> unit res" where
  "validate_document w h d =
     (let source = fst d; strs = nested_values (loads w) (host_depth h) (snd d);
          imgs = rendered_images (loads w) (host_depth h) (snd d) in
      bindE (foldE (\<lambda>u v. ensure (\<not> local_endpoint v) (local_value source v)) () (fst strs)) (\<lambda>_.
      bindE (snd strs) (\<lambda>_.
      bindE (snd imgs) (\<lambda>_.
      bindE (ensure (\<not> (source \<in> {''application'', ''replay''} \<and> fst imgs = []))
        (pfl ''{} rendered no workload image'' [JStr source])) (\<lambda>_.
        foldE (\<lambda>u v. ensure (image_is_pinned v) (unpinned source v)) () (fst imgs))))))"

definition validate_rendered_documents :: "env \<Rightarrow> host \<Rightarrow> (string \<times> json) list \<Rightarrow> unit res" where
  "validate_rendered_documents w h documents = foldE (\<lambda>u d. validate_document w h d) () documents"

section \<open>Tracked manifests\<close>

text \<open>\<open>image:\<close> at the start of the content, spaces, perhaps a quote, and then the image.\<close>

definition quote_char :: "char \<Rightarrow> bool" where
  "quote_char c \<longleftrightarrow> c = CHR 0x22 \<or> c = CHR 0x27"

definition image_line :: "string \<Rightarrow> string option" where
  "image_line content =
     Option.bind (after_word ''image:'' content) (\<lambda>a.
       let c = skip_spaces a; d = (if c \<noteq> [] \<and> quote_char (hd c) then tl c else c);
           v = takeWhile (\<lambda>x. \<not> is_space x \<and> \<not> quote_char x) d in
       if v = [] then None else Some v)"

definition check_manifest_line :: "path \<Rightarrow> string \<Rightarrow> unit res" where
  "check_manifest_line p raw =
     (let content = strip (takeWhile (\<lambda>c. c \<noteq> CHR ''#'') raw) in
      if content = [] then Inr ()
      else bindE (ensure (\<not> local_endpoint content) (local_value (path_text p) content)) (\<lambda>_.
        case image_line content of
          None \<Rightarrow> Inr ()
        | Some img \<Rightarrow> ensure (image_is_pinned img) (unpinned (path_text p) img)))"

definition relative_text :: "env \<Rightarrow> path \<Rightarrow> string" where
  "relative_text w p = tl (path_text (drop (length (root_dir w)) p))"

definition manifest_files :: "env \<Rightarrow> host \<Rightarrow> path list" where
  "manifest_files w h =
     sort (host_yamls h (root_dir w @ [''k8s'', ''aws''])) @
     sort (host_yamls h (root_dir w @ [''k8s'', ''apps'', ''aws''])) @
     [root_dir w @ [''k8s'', ''monitoring-values-aws.yaml'']]"

definition check_tracked_manifest :: "env \<Rightarrow> path \<Rightarrow> json res" where
  "check_tracked_manifest w p =
     bindE (read_text w p) (\<lambda>t.
     bindE (foldE (\<lambda>u l. check_manifest_line p l) () (text_lines [] t)) (\<lambda>_.
       Inr (JStr (relative_text w p))))"

definition check_tracked_aws_manifests :: "env \<Rightarrow> host \<Rightarrow> json list res" where
  "check_tracked_aws_manifests w h = mapE (check_tracked_manifest w) (manifest_files w h)"

section \<open>Rendering\<close>

definition sample_commit :: string where
  "sample_commit = replicate 40 (CHR ''a'')"

definition sample_image :: "string \<Rightarrow> char \<Rightarrow> string" where
  "sample_image service c =
     ''123456789012.dkr.ecr.us-east-1.amazonaws.com/mlp-dev/'' @ service @ ''@sha256:'' @ replicate 64 c"

definition sample_broker :: string where
  "sample_broker = ''boot-example.c1.kafka-serverless.us-east-1.amazonaws.com:9098''"

definition render_commands :: "env \<Rightarrow> host \<Rightarrow> (string \<times> string list) list" where
  "render_commands w h =
     (let start = [host_python h, path_text (root_dir w @ [''scripts'', ''render-aws-k8s.py''])];
          relay = sample_image ''relay'' (CHR ''a''); sink = sample_image ''sink'' (CHR ''b'') in
      [(''application'', start @ [''application'', ''--commit'', sample_commit, ''--relay-image'', relay,
          ''--sink-image'', sink, ''--msk-bootstrap'', sample_broker]),
       (''runtime'', start @ [''runtime'', ''--msk-bootstrap'', sample_broker]),
       (''replay'', start @ [''replay'', ''--commit'', sample_commit, ''--relay-image'', relay])])"

definition render_document :: "string \<times> string list \<Rightarrow> (string \<times> json) io" where
  "render_document nc =
     bindIO (command_output (snd nc)) (\<lambda>out.
     ask (\<lambda>w. case loads w out of
        None \<Rightarrow> Inl (pfl ''{} renderer returned invalid JSON: {}'' [JStr (fst nc)])
      | Some v \<Rightarrow> Inr (fst nc, v)))"

definition render_documents :: "host \<Rightarrow> (string \<times> json) list io" where
  "render_documents h =
     bindIO (ask (\<lambda>w. Inr (render_commands w h))) (\<lambda>commands.
     bindIO (mapIO render_document commands) (\<lambda>documents.
     bindIO (ask (\<lambda>w. validate_rendered_documents w h documents)) (\<lambda>_.
     lift (Inr documents))))"

section \<open>The destroy recipe\<close>

fun find_text :: "string \<Rightarrow> string \<Rightarrow> nat option" where
  "find_text [] p = (if p = [] then Some 0 else None)"
| "find_text (c # s) p = (if starts_with (c # s) p then Some 0 else map_option Suc (find_text s p))"

definition recipe_order :: "string list" where
  "recipe_order = [''aws sts get-caller-identity'', ''test -f infra/terraform/envs/dev/.terraform/terraform.tfstate'',
     ''terraform destroy'', ''terraform state pull'']"

definition fragment_position :: "string \<Rightarrow> string \<Rightarrow> nat res" where
  "fragment_position out fragment =
     (case find_text out fragment of
        None \<Rightarrow> Inl (pfl ''aws-down dry run omits: {}'' [JStr fragment]) | Some n \<Rightarrow> Inr n)"

definition validate_destroy_recipe :: "string \<Rightarrow> unit res" where
  "validate_destroy_recipe out =
     bindE (mapE (fragment_position out) recipe_order) (\<lambda>positions.
     bindE (ensure (sorted positions)
       (pfl ''aws-down does not check identity, destroy, and back up state in order'' [])) (\<lambda>_.
       ensure (\<not> contains_str out ''terraform apply'') (pfl ''aws-down dry run contains terraform apply'' [])))"

section \<open>The closure of milestone M3\<close>

definition m3_commands :: "string list" where
  "m3_commands = [''make lint'', ''make test'', ''make k8s-validate'', ''make smoke'', ''make smoke-traces'', ''make relay-demo'']"

text \<open>\<open>s.issubset(xs)\<close> hashes every element of the list.\<close>

definition py_subset :: "string list \<Rightarrow> json list \<Rightarrow> bool res" where
  "py_subset wanted xs =
     (if \<exists>x \<in> set xs. is_list x \<or> is_dict x then py_raise TypeError
      else Inr (\<forall>s \<in> set wanted. JStr s \<in> set xs))"

definition m3_measured :: "json \<Rightarrow> bool" where
  "m3_measured m \<longleftrightarrow> is_dict m \<and> py_eq (jget m ''produced_events'') (JInt 600) \<and>
     py_eq (jget m ''peak_lag'') (JInt 598) \<and> py_eq (jget m ''peak_consumers'') (JInt 12) \<and>
     py_eq (jget m ''final_lag'') (JInt 0) \<and> py_eq (jget m ''final_consumers'') (JInt 1)"

definition m3_record :: "env \<Rightarrow> json \<Rightarrow> unit res" where
  "m3_record w v =
     ensure (is_str v \<and> \<not> is_absolute (str_of v) \<and> ''..'' \<notin> set (path_parts [] (str_of v)) \<and>
         is_file w (join_path (root_dir w) (str_of v)))
       (pfl ''M3 evidence points to a missing record: {}'' [v])"

abbreviation m3_incomplete :: exn where
  "m3_incomplete \<equiv> pfl ''M3 closure evidence is incomplete'' []"

definition read_m3 :: "env \<Rightarrow> json res" where
  "read_m3 w =
     (let p = root_dir w @ [''docs'', ''evidence'', ''m3'', ''20260905'', ''closure.json''] in
      bindE (ensure (is_file w p) (pfl ''M3 closure evidence is missing: {}'' [path_json p])) (\<lambda>_.
      bindE (read_text w p) (\<lambda>t.
      case loads w t of
        None \<Rightarrow> Inl (pfl ''M3 closure evidence is invalid JSON: {}'' [])
      | Some v \<Rightarrow> if is_dict v then Inr v else Inl (pfl ''M3 closure evidence must be a JSON object'' []))))"

definition validate_m3 :: "env \<Rightarrow> json \<Rightarrow> string res" where
  "validate_m3 w v =
     (let closure = jget_or v ''closure'' (JObj []); commands = jget_or v ''commands'' (JArr []);
          measured = jget_or v ''measurements'' (JObj []); records = jget_or v ''recorded_in'' (JArr []);
          commit = jget_or closure ''merge_commit'' (JStr []) in
      bindE (ensure (is_dict closure) m3_incomplete) (\<lambda>_.
      bindE (ensure (py_eq (jget v ''schema_version'') (JInt 1) \<and> jget v ''milestone'' = JStr ''M3'' \<and>
          jget v ''result'' = JStr ''passed'' \<and> py_eq (jget closure ''issue'') (JInt 90) \<and>
          py_eq (jget closure ''pull_request'') (JInt 113) \<and> is_str commit \<and> commit_shape (str_of commit) \<and>
          is_list commands) m3_incomplete) (\<lambda>_.
      bindE (py_subset m3_commands (items_of commands)) (\<lambda>covered.
      bindE (ensure (covered \<and> m3_measured measured \<and> is_list records \<and> items_of records \<noteq> []) m3_incomplete) (\<lambda>_.
      bindE (foldE (\<lambda>u r. m3_record w r) () (items_of records)) (\<lambda>_. Inr (str_of commit)))))))"

definition check_m3_receipt :: "string io" where
  "check_m3_receipt =
     bindIO (ask (\<lambda>w. bindE (read_m3 w) (validate_m3 w))) (\<lambda>commit.
     bindIO (run_text_command [''git'', ''merge-base'', ''--is-ancestor'', commit, ''HEAD'']) (\<lambda>(code, out, err).
     lift (if code \<noteq> 0
       then Inl (pfl ''M3 evidence commit is not an ancestor of HEAD: {}'' [JStr commit]) else Inr commit)))"

section \<open>The repository contract\<close>

definition preflight_repository :: "host \<Rightarrow> json io" where
  "preflight_repository h =
     bindIO check_m3_receipt (\<lambda>merge_commit.
     bindIO (ask (\<lambda>w. check_hourly_flags w h)) (\<lambda>_.
     bindIO check_evidence_roots (\<lambda>(raw, sanitized).
     bindIO (render_documents h) (\<lambda>documents.
     bindIO (ask (\<lambda>w. check_tracked_aws_manifests w h)) (\<lambda>manifests.
     bindIO (command_output [''make'', ''--dry-run'', ''aws-down'']) (\<lambda>recipe.
     bindIO (lift (validate_destroy_recipe recipe)) (\<lambda>_.
     ask (\<lambda>w. Inr (JObj
       [(''m3_merge_commit'', JStr merge_commit),
        (''evidence_roots'', JObj [(''raw'', JStr (relative_text w raw)), (''sanitized'', JStr (relative_text w sanitized))]),
        (''rendered_documents'', JArr (map JStr (sort (map fst documents)))),
        (''tracked_aws_manifests'', JArr manifests), (''destroy_command'', JStr ''make aws-down'')])))))))))"

end
