(* ===== verification/Preflight_Repository_Correct.thy ===== *)
theory Preflight_Repository_Correct
  imports Preflight_Repository
begin

text \<open>
  The scans of the rendered documents: they reach exactly the strings and image entries of a
  document, including those inside JSON text, and they come to an end. The match of an image
  reference is the regular expression of the script.
\<close>

section \<open>What a scan reaches\<close>

inductive nested :: "(string \<Rightarrow> json option) \<Rightarrow> json \<Rightarrow> json \<Rightarrow> bool" for parse where
  here: "nested parse v v"
| item: "x \<in> set xs \<Longrightarrow> nested parse x u \<Longrightarrow> nested parse (JArr xs) u"
| member: "p \<in> set ps \<Longrightarrow> nested parse (snd p) u \<Longrightarrow> nested parse (JObj ps) u"
| embedded: "json_like (strip s) \<Longrightarrow> parse (strip s) = Some inner \<Longrightarrow> nested parse inner u \<Longrightarrow>
    nested parse (JStr s) u"

inductive_simps nested_simps [simp]:
  "nested parse JNull u" "nested parse (JBool b) u" "nested parse (JInt i) u" "nested parse (JFloat n) u"

inductive_simps nested_unfold: "nested parse (JStr s) u" "nested parse (JArr xs) u" "nested parse (JObj ps) u"

lemma yield_then_simps [simp]: "fst (yield_then xs g) = xs @ fst g" "snd (yield_then xs g) = snd g"
  by (simp_all add: yield_then_def)

lemma gen_join_ends: "snd (gen_join gs) = Inr () \<longleftrightarrow> (\<forall>g \<in> set gs. snd g = Inr ())"
  by (induction gs) (auto split: sum.splits)

lemma gen_join_all: "\<forall>g \<in> set gs. snd g = Inr () \<Longrightarrow> fst (gen_join gs) = concat (map fst gs)"
  by (induction gs) auto

lemma nested_values_exact:
  "snd (nested_values parse n v) = Inr () \<Longrightarrow>
   s \<in> set (fst (nested_values parse n v)) \<longleftrightarrow> nested parse v (JStr s)"
proof (induction n arbitrary: v)
  case 0
  then show ?case by simp
next
  case (Suc n)
  show ?case
  proof (cases v)
    case (JStr t)
    with Suc show ?thesis by (auto simp: nested_unfold split: option.splits if_splits)
  next
    case (JArr xs)
    with Suc.prems have each: "\<forall>x \<in> set xs. snd (nested_values parse n x) = Inr ()" by (simp add: gen_join_ends)
    with JArr Suc.IH show ?thesis by (auto simp: gen_join_all nested_unfold)
  next
    case (JObj ps)
    with Suc.prems have each: "\<forall>p \<in> set ps. snd (nested_values parse n (snd p)) = Inr ()" by (simp add: gen_join_ends)
    with JObj Suc.IH show ?thesis by (fastforce simp: gen_join_all nested_unfold)
  qed simp_all
qed

lemma rendered_images_exact:
  "snd (rendered_images parse n v) = Inr () \<Longrightarrow>
   s \<in> set (fst (rendered_images parse n v)) \<longleftrightarrow>
   (\<exists>ps. nested parse v (JObj ps) \<and> (\<exists>p \<in> set ps. s \<in> set (image_entries p)))"
proof (induction n arbitrary: v)
  case 0
  then show ?case by simp
next
  case (Suc n)
  show ?case
  proof (cases v)
    case (JStr t)
    with Suc show ?thesis by (auto simp: nested_unfold split: option.splits if_splits)
  next
    case (JArr xs)
    with Suc.prems have each: "\<forall>x \<in> set xs. snd (rendered_images parse n x) = Inr ()" by (simp add: gen_join_ends)
    with JArr Suc.IH show ?thesis by (auto simp: gen_join_all nested_unfold)
  next
    case (JObj ps)
    with Suc.prems have each: "\<forall>p \<in> set ps. snd (rendered_images parse n (snd p)) = Inr ()" by (simp add: gen_join_ends)
    have "s \<in> set (fst (rendered_images parse (Suc n) v)) \<longleftrightarrow>
        (\<exists>p \<in> set ps. s \<in> set (image_entries p) \<or> s \<in> set (fst (rendered_images parse n (snd p))))"
      using JObj each by (auto simp: gen_join_all)
    also have "\<dots> \<longleftrightarrow> (\<exists>p \<in> set ps. s \<in> set (image_entries p) \<or>
        (\<exists>qs. nested parse (snd p) (JObj qs) \<and> (\<exists>p \<in> set qs. s \<in> set (image_entries p))))"
      using each Suc.IH by (intro bex_cong) simp_all
    also have "\<dots> \<longleftrightarrow> (\<exists>qs. nested parse v (JObj qs) \<and> (\<exists>p \<in> set qs. s \<in> set (image_entries p)))"
    proof -
      have "nested parse v (JObj qs) \<longleftrightarrow> qs = ps \<or> (\<exists>p \<in> set ps. nested parse (snd p) (JObj qs))" for qs
        unfolding JObj nested_unfold(3) json.inject(6) by (simp add: Bex_def split_paired_Ex eq_commute)
      then show ?thesis by (simp only:) blast
    qed
    finally show ?thesis .
  qed simp_all
qed

section \<open>The scans end\<close>

text \<open>The size of a value, no larger than a text it can be parsed from.\<close>

fun text_weight :: "json \<Rightarrow> nat" where
  "text_weight (JStr s) = Suc (length s)"
| "text_weight (JArr xs) = Suc (sum_list (map text_weight xs))"
| "text_weight (JObj ps) = Suc (sum_list (map (\<lambda>p. text_weight (snd p)) ps))"
| "text_weight _ = 1"

lemma text_weight_pos [simp]: "0 < text_weight v"
  by (cases v) simp_all

lemma strip_length: "length (strip s) \<le> length s"
  unfolding strip_def using length_dropWhile_le le_trans by (metis length_rev)

lemma text_weight_child:
  "x \<in> set xs \<Longrightarrow> text_weight x \<le> sum_list (map text_weight xs)"
  "p \<in> set ps \<Longrightarrow> text_weight (snd p) \<le> sum_list (map (\<lambda>p. text_weight (snd p)) ps)"
  by (auto intro!: member_le_sum_list)

lemma scans_end:
  assumes "\<And>t v. parse t = Some v \<Longrightarrow> text_weight v \<le> length t"
  shows "text_weight v \<le> n \<Longrightarrow> snd (nested_values parse n v) = Inr () \<and> snd (rendered_images parse n v) = Inr ()"
proof (induction n arbitrary: v)
  case 0
  then show ?case using text_weight_pos [of v] by simp
next
  case (Suc n)
  show ?case
  proof (cases v)
    case (JStr s)
    have "text_weight inner \<le> n" if "parse (strip s) = Some inner" for inner
      using assms [OF that] strip_length [of s] Suc.prems JStr by simp
    with JStr Suc.IH show ?thesis by (auto split: option.splits)
  next
    case (JArr xs)
    have "text_weight x \<le> n" if "x \<in> set xs" for x
      using text_weight_child(1) [OF that] Suc.prems JArr by simp
    with JArr Suc.IH show ?thesis by (simp add: gen_join_ends)
  next
    case (JObj ps)
    have "text_weight (snd p) \<le> n" if "p \<in> set ps" for p
      using text_weight_child(2) [OF that] Suc.prems JObj by simp
    with JObj Suc.IH show ?thesis by (simp add: gen_join_ends)
  qed simp_all
qed

text \<open>
  C24. The scans of a rendered document always come to an end: with a recursion limit of at least
  the size of the document, neither \<open>nested_values\<close> nor \<open>rendered_images\<close> runs into it, although
  they follow JSON text inside strings, because parsing never yields a value larger than its text.
\<close>

theorem document_scans_return:
  assumes "\<And>t v. parse t = Some v \<Longrightarrow> text_weight v \<le> length t" and "text_weight v \<le> n"
  shows "snd (nested_values parse n v) = Inr () \<and> snd (rendered_images parse n v) = Inr ()"
  by (rule scans_end [OF assms])

text \<open>
  C22. In documents that \<open>validate_rendered_documents\<close> accepts no string names a local endpoint and
  every image entry is pinned, at any depth and also inside JSON text; the application and the
  replay document have an image.
\<close>

theorem rendered_documents_clean:
  assumes "validate_rendered_documents w h documents = Inr ()" and "(source, document) \<in> set documents"
  shows "(\<forall>s. nested (loads w) document (JStr s) \<longrightarrow> \<not> local_endpoint s) \<and>
    (\<forall>ps p i. nested (loads w) document (JObj ps) \<and> p \<in> set ps \<and> i \<in> set (image_entries p) \<longrightarrow> image_is_pinned i) \<and>
    (source = ''application'' \<or> source = ''replay'' \<longrightarrow>
      (\<exists>ps p. nested (loads w) document (JObj ps) \<and> p \<in> set ps \<and> image_entries p \<noteq> []))"
proof -
  have v: "validate_document w h (source, document) = Inr ()"
    using assms by (auto simp: validate_rendered_documents_def foldE_unit)
  let ?s = "nested_values (loads w) (host_depth h) document" and ?i = "rendered_images (loads w) (host_depth h) document"
  from v have strs: "snd ?s = Inr ()" "\<forall>s \<in> set (fst ?s). \<not> local_endpoint s"
    and imgs: "snd ?i = Inr ()" "\<forall>i \<in> set (fst ?i). image_is_pinned i"
    and some: "source \<in> {''application'', ''replay''} \<Longrightarrow> fst ?i \<noteq> []"
    by (auto simp: validate_document_def Let_def bindE_eq_Inr foldE_unit)
  note s = nested_values_exact [OF strs(1)] and i = rendered_images_exact [OF imgs(1)]
  have "\<exists>ps p. nested (loads w) document (JObj ps) \<and> p \<in> set ps \<and> image_entries p \<noteq> []"
    if "source = ''application'' \<or> source = ''replay''"
  proof -
    have "fst ?i \<noteq> []" by (rule some) (use that in blast)
    then obtain x where "x \<in> set (fst ?i)" by (cases "fst ?i") auto
    with i [of x] show ?thesis by fastforce
  qed
  with strs(2) imgs(2) show ?thesis unfolding s [symmetric] using i by blast
qed

section \<open>Image references\<close>

text \<open>The regular expression, alternative by alternative.\<close>

definition port_part :: "string \<Rightarrow> bool" where
  "port_part s \<longleftrightarrow> s = [] \<or> (\<exists>ds. s = CHR '':'' # ds \<and> all_of is_digit ds)"

definition host_part :: "string \<Rightarrow> bool" where
  "host_part s \<longleftrightarrow> s = [] \<or> (\<exists>a b. s = a @ b @ ''/'' \<and> all_of host_char a \<and> port_part b)"

definition repository_regex :: "string \<Rightarrow> bool" where
  "repository_regex s \<longleftrightarrow> (\<exists>a b. s = a @ b \<and> host_part a \<and> all_of repository_char b)"

definition reference_regex :: "string \<Rightarrow> bool" where
  "reference_regex s \<longleftrightarrow> (\<exists>r. repository_regex r \<and>
     ((\<exists>d. s = r @ ''@sha256:'' @ d \<and> length d = 64 \<and> list_all is_hex d) \<or> (\<exists>t. s = r @ '':'' @ t \<and> tag_shape t)))"

lemma all_of_append: "all_of p a \<Longrightarrow> list_all p b \<Longrightarrow> all_of p (a @ b)"
  by (simp add: all_of_def)

lemma char_facts:
  "host_char c \<Longrightarrow> repository_char c" "repository_char (CHR ''/'')" "\<not> repository_char (CHR '':'')"
  "\<not> host_char (CHR '':'')" "\<not> is_digit (CHR ''/'')"
  by (auto simp: host_char_def repository_char_def is_digit_def digits10_def lower_digits_def)

lemma no_colon: "list_all repository_char s \<Longrightarrow> takeWhile (\<lambda>c. c \<noteq> CHR '':'') s = s"
  using char_facts(3) by (induction s) auto

lemma takeWhile_colon:
  "list_all host_char a \<Longrightarrow> takeWhile (\<lambda>c. c \<noteq> CHR '':'') (a @ CHR '':'' # b) = a"
  using char_facts(4) by (induction a) auto

lemma takeWhile_rest:
  assumes "takeWhile (\<lambda>c. c \<noteq> x) s \<noteq> s" shows "\<exists>z. s = takeWhile (\<lambda>c. c \<noteq> x) s @ x # z"
  using assms by (induction s) auto

lemma repository_exact: "repository_shape s \<longleftrightarrow> repository_regex s"
proof
  assume s: "repository_shape s"
  let ?h = "takeWhile (\<lambda>c. c \<noteq> CHR '':'') s"
  show "repository_regex s"
  proof (cases "?h = s")
    case True
    with s have "all_of repository_char s" by (simp add: repository_shape_def)
    then show ?thesis unfolding repository_regex_def host_part_def by (metis append_Nil)
  next
    case False
    let ?p = "drop (Suc (length ?h)) s"
    let ?d = "takeWhile is_digit ?p" and ?r = "dropWhile is_digit ?p"
    from False s have h: "all_of host_char ?h" and d: "?d \<noteq> []" and r: "starts_with ?r ''/''" "all_of repository_char (tl ?r)"
      by (simp_all add: repository_shape_def Let_def)
    obtain z where split: "s = ?h @ CHR '':'' # z" using takeWhile_rest [OF False] by blast
    have "drop (Suc (length ?h)) (?h @ CHR '':'' # z) = z" by simp
    then have p: "?p = z" unfolding split [symmetric] .
    have "?r = ''/'' @ tl ?r" using r(1) by (cases ?r) (auto simp: starts_with_def)
    then have "z = ?d @ ''/'' @ tl ?r" unfolding p by (metis takeWhile_dropWhile_id)
    then have "s = (?h @ (CHR '':'' # ?d) @ ''/'') @ tl ?r" using split by simp
    moreover have "all_of is_digit ?d" using d by (auto simp: all_of_def list_all_iff dest: set_takeWhileD)
    ultimately show ?thesis
      using h r(2) unfolding repository_regex_def host_part_def port_part_def by blast
  qed
next
  assume "repository_regex s"
  then obtain a b where s: "s = a @ b" "host_part a" "all_of repository_char b" by (auto simp: repository_regex_def)
  consider "a = []" | x where "a = x @ ''/''" "all_of host_char x"
    | x ds where "a = x @ (CHR '':'' # ds) @ ''/''" "all_of host_char x" "all_of is_digit ds"
    using s(2) by (auto simp: host_part_def port_part_def)
  then show "repository_shape s"
  proof cases
    case 1
    with s have "list_all repository_char s" "s \<noteq> []" by (auto simp: all_of_def)
    then show ?thesis using no_colon by (simp add: repository_shape_def all_of_def)
  next
    case 2
    with s char_facts(1,2) have "list_all repository_char s" "s \<noteq> []" by (auto simp: all_of_def list_all_iff)
    then show ?thesis using no_colon by (simp add: repository_shape_def all_of_def)
  next
    case 3
    have form: "s = x @ CHR '':'' # (ds @ ''/'' @ b)" using s(1) 3(1) by simp
    have h: "takeWhile (\<lambda>c. c \<noteq> CHR '':'') s = x" unfolding form by (rule takeWhile_colon) (use 3 in \<open>simp add: all_of_def\<close>)
    have port: "drop (Suc (length x)) s = ds @ CHR ''/'' # b" unfolding form by simp
    have d: "takeWhile is_digit (ds @ CHR ''/'' # b) = ds" "dropWhile is_digit (ds @ CHR ''/'' # b) = CHR ''/'' # b"
      using 3(3) char_facts(5) by (simp_all add: all_of_def list_all_iff takeWhile_append2 dropWhile_append2)
    have "x \<noteq> s" using form by (metis append_self_conv list.distinct(1))
    then show ?thesis using 3 s(3)
      by (simp add: repository_shape_def h port d Let_def) (simp add: all_of_def starts_with_def)
  qed
qed

lemma last_part_append: "sep \<notin> set t \<Longrightarrow> last_part sep (r @ sep # t) = t"
  unfolding last_part_def rev_append rev.simps(2) append_assoc by (subst takeWhile_append2) auto

lemma last_part_split:
  assumes "length (last_part sep s) < length s"
  shows "s = take (length s - Suc (length (last_part sep s))) s @ sep # last_part sep s"
proof -
  define l where "l = last_part sep s"
  have t: "takeWhile (\<lambda>c. c \<noteq> sep) (rev s) = rev l" by (simp add: l_def last_part_def)
  have "rev l \<noteq> rev s" using assms by (auto simp: l_def)
  then obtain z where "rev s = rev l @ sep # z" using takeWhile_rest [of sep "rev s"] t by auto
  then have "rev (rev s) = rev (rev l @ sep # z)" by (rule arg_cong)
  then have split: "s = rev z @ sep # l" by simp
  have "take (length s - Suc (length l)) s = rev z" unfolding split by simp
  with split show ?thesis unfolding l_def [symmetric] by simp
qed

lemma tag_no_colon: "tag_shape t \<Longrightarrow> CHR '':'' \<notin> set t"
proof -
  have "CHR '':'' \<notin> set (alnums @ ''._-'')" by (simp add: alnums_def lower_digits_def)
  then show "tag_shape t \<Longrightarrow> CHR '':'' \<notin> set t" unfolding tag_shape_def by blast
qed

text \<open>
  \<open>image_reference\<close> is the full match of \<open>IMAGE_REFERENCE_RE\<close>: an optional registry with an
  optional port, a repository, and either a digest of 64 hexadecimal digits or a tag.
\<close>

theorem image_reference_exact: "image_reference s \<longleftrightarrow> reference_regex s"
proof
  assume "image_reference s"
  then consider (digest) "72 \<le> length s" "take 8 (drop (length s - 72) s) = ''@sha256:''"
      "list_all is_hex (drop (length s - 72 + 8) s)" "repository_shape (take (length s - 72) s)"
    | (tag) "length (last_part (CHR '':'') s) < length s" "tag_shape (last_part (CHR '':'') s)"
      "repository_shape (take (length s - Suc (length (last_part (CHR '':'') s))) s)"
    by (auto simp: image_reference_def Let_def)
  then show "reference_regex s"
  proof cases
    case digest
    have "s = take (length s - 72) s @ ''@sha256:'' @ drop (length s - 72 + 8) s"
      using digest(2) by (metis add.commute append_take_drop_id drop_drop)
    moreover have "length (drop (length s - 72 + 8) s) = 64" using digest(1) by simp
    ultimately show ?thesis
      using digest(3,4) unfolding reference_regex_def repository_exact by blast
  next
    case tag
    obtain a l where l: "l = last_part (CHR '':'') s" and a: "a = take (length s - Suc (length l)) s"
      by blast
    have split: "s = a @ '':'' @ l" using last_part_split [OF tag(1)] unfolding a l by simp
    from tag(2,3) have "tag_shape l" "repository_shape a" unfolding a l by simp_all
    with split show ?thesis unfolding reference_regex_def repository_exact by blast
  qed
next
  assume "reference_regex s"
  then obtain r where r: "repository_shape r"
    and "(\<exists>d. s = r @ ''@sha256:'' @ d \<and> length d = 64 \<and> list_all is_hex d) \<or> (\<exists>t. s = r @ '':'' @ t \<and> tag_shape t)"
    by (auto simp: reference_regex_def repository_exact)
  then consider d where "s = r @ ''@sha256:'' @ d" "length d = 64" "list_all is_hex d"
    | t where "s = r @ '':'' @ t" "tag_shape t" by blast
  then show "image_reference s"
  proof cases
    case 1
    then have "length s - 72 = length r" "72 \<le> length s" by simp_all
    with 1 r show ?thesis by (simp add: image_reference_def)
  next
    case 2
    have t: "last_part (CHR '':'') s = t" using 2 last_part_append [OF tag_no_colon [OF 2(2)]] by simp
    with 2 r show ?thesis by (simp add: image_reference_def)
  qed
qed

section \<open>A sample document\<close>

text \<open>A list that holds JSON text, of which only one text parses.\<close>

definition inner_d :: string where
  "inner_d = ''{'' @ replicate 80 (CHR '' '') @ ''}''"

definition parse_d :: "string \<Rightarrow> json option" where
  "parse_d t = (if t = inner_d then Some (JObj [(''image'', JStr ''relay:1'')]) else None)"

definition document_d :: json where
  "document_d = JArr [JStr ''kafka'', JStr inner_d]"

definition env_d :: env where
  "env_d = \<lparr>root_dir = [], files = (\<lambda>p. None), outside = (\<lambda>b p. False), loads = parse_d, repeats = (\<lambda>t. False),
     decode = Some, sha256 = (\<lambda>b. b), answer = (\<lambda>t e. \<lparr>returncode = 0, stdout = [], stderr = []\<rparr>)\<rparr>"

definition host_d :: host where
  "host_d = \<lparr>host_names = (\<lambda>p. []), host_yamls = (\<lambda>p. []), host_shlex = (\<lambda>s. None), host_which = (\<lambda>n. True),
     host_python = ''python3'', host_depth = 4, host_environment = (\<lambda>n. None), host_text_of = (\<lambda>e. [])\<rparr>"

lemma inner_stripped: "strip inner_d = inner_d" "json_like inner_d"
  by (simp_all add: inner_d_def strip_def is_space_def json_like_def starts_with_def)

lemma inner_local: "\<not> local_endpoint inner_d" "\<not> local_endpoint ''kafka''" "\<not> local_endpoint ''relay:1''"
  by code_simp+

lemma plain_d: "\<not> json_like (strip ''kafka'')" "\<not> json_like (strip ''relay:1'')"
  by code_simp+

lemma document_d_valid: "validate_rendered_documents env_d host_d [(''application'', document_d)] = Inr ()"
proof -
  have "nested_values parse_d 4 document_d = ([''kafka'', inner_d, ''relay:1''], Inr ())"
    by (simp add: document_d_def eval_nat_numeral inner_stripped plain_d yield_then_def parse_d_def)
  moreover have "rendered_images parse_d 4 document_d = ([''relay:1''], Inr ())"
    by (simp add: document_d_def eval_nat_numeral inner_stripped plain_d yield_then_def parse_d_def image_entries_def)
  moreover have "image_is_pinned ''relay:1''" by code_simp
  ultimately show ?thesis
    by (simp add: validate_rendered_documents_def validate_document_def env_d_def host_d_def inner_local)
qed

theorem document_scans_return_witness:
  "snd (nested_values parse_d 100 document_d) = Inr () \<and> snd (rendered_images parse_d 100 document_d) = Inr ()"
  by (rule document_scans_return) (auto simp: parse_d_def document_d_def inner_d_def split: if_splits)

theorem rendered_documents_clean_witness:
  "\<not> local_endpoint inner_d \<and> image_is_pinned ''relay:1''"
proof -
  have "nested (loads env_d) document_d (JStr inner_d)"
    by (auto simp: document_d_def intro: nested.intros)
  moreover have "nested (loads env_d) document_d (JObj [(''image'', JStr ''relay:1'')])"
    unfolding document_d_def
    by (rule nested.item [of "JStr inner_d"], simp, rule nested.embedded)
      (auto simp: inner_stripped env_d_def parse_d_def intro: nested.here)
  moreover have "''relay:1'' \<in> set (image_entries (''image'', JStr ''relay:1''))" by (simp add: image_entries_def)
  ultimately show ?thesis
    using rendered_documents_clean [OF document_d_valid, of "''application''" document_d] by fastforce
qed

end
