(* ===== verification/Preflight_Run.thy ===== *)
theory Preflight_Run
  imports Preflight_Repository
begin

text \<open>
  The local rehearsals, the candidate commit and its images, and the preflight itself of
  scripts/m4-preflight.py. The steps of \<open>run_preflight\<close> share what the script collects for
  its receipt; a step that raises keeps what was collected, and the receipt is written in
  either case. The environment variables of the lint step are not part of a command here.
\<close>

section \<open>The local rehearsals\<close>

definition rehearsal_dir :: "env \<Rightarrow> string \<Rightarrow> path" where
  "rehearsal_dir w local_run = root_dir w @ [''.evidence'', ''m4-local'', local_run]"

definition rehearsal_names :: "string list" where
  "rehearsal_names = [''k8s-sigterm.json'', ''demo-rehearsal.json'', ''abort-rehearsal.json'', ''capture-result.json'']"

definition captured_names :: "string list" where
  "captured_names = [''10-event.json'', ''11-attempts.json'', ''12-metrics.txt'', ''13-trace.json'', ''14-keda.txt'',
     ''15-dlq.json'', ''16-replay.json'', ''application-logs.txt'']"

text \<open>\<open>path.stat().st_size\<close> of a file.\<close>

definition stat_size :: "env \<Rightarrow> path \<Rightarrow> nat" where
  "stat_size w p = (case files w p of None \<Rightarrow> 0
     | Some n \<Rightarrow> (case nd_content n of Bytes b \<Rightarrow> length b | _ \<Rightarrow> 0))"

definition parse_rehearsal :: "env \<Rightarrow> path \<Rightarrow> exn \<Rightarrow> json res" where
  "parse_rehearsal w p e =
     bindE (reraise [ValueError, OSError] e (read_text w p)) (\<lambda>t.
     case loads w t of None \<Rightarrow> Inl e | Some v \<Rightarrow> Inr v)"

definition clean_pass :: "string \<Rightarrow> json \<Rightarrow> bool" where
  "clean_pass commit v \<longleftrightarrow> is_dict v \<and> jget v ''schema_version'' = JInt 1 \<and> jget v ''result'' = JStr ''passed'' \<and>
     jget v ''source_commit'' = JStr commit \<and> jget v ''worktree_clean'' = JBool True"

text \<open>One receipt: its name, its value and the hash of its bytes.\<close>

definition read_rehearsal :: "env \<Rightarrow> path \<Rightarrow> string \<Rightarrow> string \<Rightarrow> (string \<times> json \<times> string) res" where
  "read_rehearsal w raw commit name =
     (let p = raw @ [name] in
      bindE (ensure_no_symlink w p (root_dir w)) (\<lambda>_.
      bindE (ensure (is_file w p \<and> \<not> 1048576 < stat_size w p)
        (pfl ''local rehearsal receipt missing or oversized: {}'' [JStr name])) (\<lambda>_.
      bindE (parse_rehearsal w p (pfl ''invalid local rehearsal receipt: {}'' [JStr name])) (\<lambda>v.
      bindE (ensure (clean_pass commit v)
        (pfl ''local rehearsal is not a clean pass for the candidate: {}'' [JStr name])) (\<lambda>_.
      bindE (hash_path w p) (\<lambda>h. Inr (name, v, h)))))))"

definition cleanup_fields :: "(string \<times> string list) list" where
  "cleanup_fields =
     [(''k8s-sigterm.json'', [''sink_baseline_restored'', ''keda_pause_restored'', ''port_forwards_stopped'', ''database_lock_released'']),
      (''demo-rehearsal.json'', [''keda_pause_absent'', ''sink_baseline_restored'', ''verification_port_forward_stopped''])]"

definition all_true :: "json \<Rightarrow> string list \<Rightarrow> bool" where
  "all_true v ks \<longleftrightarrow> (\<forall>k \<in> set ks. jget v k = JBool True)"

type_synonym rehearsals = "(string \<times> json \<times> string) list"

definition rehearsal_of :: "rehearsals \<Rightarrow> string \<Rightarrow> json" where
  "rehearsal_of rs name = (case map_of rs name of None \<Rightarrow> JNull | Some (v, h) \<Rightarrow> v)"

definition check_rehearsal_cleanup :: "rehearsals \<Rightarrow> unit res" where
  "check_rehearsal_cleanup rs =
     foldE (\<lambda>u (name, ks).
       let v = jget (rehearsal_of rs name) ''cleanup'' in
       ensure (is_dict v \<and> all_true v ks) (pfl ''local cleanup incomplete: {}'' [JStr name])) () cleanup_fields"

text \<open>A number that is not at most \<open>n\<close>.\<close>

definition above :: "json \<Rightarrow> int \<Rightarrow> bool" where
  "above v n \<longleftrightarrow>
     (case num_of v of
        None \<Rightarrow> False
      | Some a \<Rightarrow> \<not> num_lt a (Fin (dec_of_int n)) \<and> \<not> num_eq a (Fin (dec_of_int n)))"

definition check_demo :: "json \<Rightarrow> unit res" where
  "check_demo receipt =
     (let demo = jget_or receipt ''observations'' (JObj []) in
      bindE (py_get demo ''final_lag'' JNull) (\<lambda>lag.
      ensure (py_eq lag (JInt 0) \<and> py_eq (jget demo ''final_consumers'') (JInt 1) \<and>
          jget demo ''replay_completed'' = JBool True \<and>
          num_of (jget demo ''peak_lag'') \<noteq> None \<and> above (jget demo ''peak_lag'') 0 \<and>
          (is_int (jget demo ''peak_consumers'') \<or> is_bool (jget demo ''peak_consumers'')) \<and>
          above (jget demo ''peak_consumers'') 1)
        (pfl ''local demonstration observations are incomplete'' [])))"

definition check_abort :: "json \<Rightarrow> unit res" where
  "check_abort receipt =
     ensure (jget receipt ''signal'' = JStr ''SIGTERM'' \<and>
         all_true receipt [''resource_audit_empty'', ''temporary_credentials_removed'', ''temporary_workspace_removed'',
           ''credential_canary_absent''])
       (pfl ''local abort evidence is incomplete'' [])"

definition pod_matches :: "string \<Rightarrow> json \<Rightarrow> bool" where
  "pod_matches commit pod \<longleftrightarrow> is_dict pod \<and> jget pod ''image_revision'' = JStr commit \<and>
     (\<forall>k \<in> set [''pod'', ''pod_uid'', ''image_id'']. is_str (jget pod k) \<and> jget pod k \<noteq> JStr [])"

definition check_pods :: "string \<Rightarrow> json \<Rightarrow> unit res" where
  "check_pods commit pods =
     bindE (ensure (is_list pods \<and> items_of pods \<noteq> [])
       (pfl ''local capture image provenance is incomplete'' [])) (\<lambda>_.
     ensure (\<forall>pod \<in> set (items_of pods). pod_matches commit pod)
       (pfl ''local capture image provenance does not match'' []))"

definition check_provenance :: "string \<Rightarrow> string \<Rightarrow> json \<Rightarrow> unit res" where
  "check_provenance local_run commit receipt =
     (let provenance = jget receipt ''provenance'' in
      bindE (ensure (jget receipt ''run_id'' = JStr local_run \<and> jget receipt ''environment'' = JStr ''local'' \<and>
          jget receipt ''cleanup_verified'' = JBool True \<and> truthy provenance)
        (pfl ''local capture provenance or cleanup is incomplete'' [])) (\<lambda>_.
      bindE (ensure (is_dict provenance \<and> keys_eq provenance [''relay-ingest'', ''relay-deliver'', ''sink''])
        (pfl ''local capture image provenance is incomplete'' [])) (\<lambda>_.
        foldE (\<lambda>u p. check_pods commit (snd p)) () (obj_of provenance))))"

definition check_captured_file :: "env \<Rightarrow> path \<Rightarrow> json \<Rightarrow> string \<Rightarrow> unit res" where
  "check_captured_file w raw listed name =
     (let p = raw @ [name]; e = pfl ''local capture artifact changed or is missing'' [] in
      bindE (ensure_no_symlink w p (root_dir w)) (\<lambda>_.
      bindE (ensure (is_file w p \<and> \<not> 8388608 < stat_size w p) e) (\<lambda>_.
      bindE (hash_path w p) (\<lambda>h. ensure (jget listed name = JStr h) e))))"

definition check_captured_files :: "env \<Rightarrow> path \<Rightarrow> json \<Rightarrow> unit res" where
  "check_captured_files w raw receipt =
     (let listed = jget receipt ''files'' in
      bindE (ensure (is_dict listed \<and> keys_eq listed captured_names)
        (pfl ''local capture artifact manifest is incomplete'' [])) (\<lambda>_.
        foldE (\<lambda>u name. check_captured_file w raw listed name) () captured_names))"

definition check_local_rehearsals :: "env \<Rightarrow> string \<Rightarrow> string \<Rightarrow> json res" where
  "check_local_rehearsals w local_run commit =
     bindE (preflight_run_id local_run) (\<lambda>_.
     let raw = rehearsal_dir w local_run in
     bindE (ensure_no_symlink w raw (root_dir w)) (\<lambda>_.
     bindE (mapE (read_rehearsal w raw commit) rehearsal_names) (\<lambda>rs.
     bindE (check_rehearsal_cleanup rs) (\<lambda>_.
     bindE (check_demo (rehearsal_of rs ''demo-rehearsal.json'')) (\<lambda>_.
     bindE (check_abort (rehearsal_of rs ''abort-rehearsal.json'')) (\<lambda>_.
     bindE (check_provenance local_run commit (rehearsal_of rs ''capture-result.json'')) (\<lambda>_.
     bindE (check_captured_files w raw (rehearsal_of rs ''capture-result.json'')) (\<lambda>_.
       Inr (JObj [(''run_id'', JStr local_run), (''source_commit'', JStr commit),
         (''sha256'', JObj (map (\<lambda>(name, v, h). (name, JStr h)) rs))])))))))))"

section \<open>The candidate and its images\<close>

definition check_clean_head :: "string io" where
  "check_clean_head =
     bindIO (command_output [''git'', ''rev-parse'', ''HEAD'']) (\<lambda>head.
     let commit = strip head in
     bindIO (lift (ensure (commit_shape commit)
       (pfl ''HEAD is not a full lowercase commit SHA: {}'' [JStr commit]))) (\<lambda>_.
     bindIO (command_output [''git'', ''status'', ''--porcelain'', ''--untracked-files=all'']) (\<lambda>dirty.
     lift (if strip dirty \<noteq> []
       then Inl (pfl (''worktree must be clean before preflight:'' @ [newline] @ ''{}'') [JStr (strip dirty)])
       else Inr commit))))"

definition preflight_image_metadata :: "env \<Rightarrow> string \<Rightarrow> string \<Rightarrow> string \<Rightarrow> string \<Rightarrow> json res" where
  "preflight_image_metadata w labels_text image_id img commit =
     (case loads w labels_text of
        None \<Rightarrow> Inl (pfl ''docker returned invalid labels for {}'' [JStr img])
      | Some labels \<Rightarrow>
          (let revision = jget labels ''org.opencontainers.image.revision'' in
           bindE (ensure (revision = JStr commit)
             (pfl ''{} was built from {}, expected {}'' [JStr img, JStr (py_repr revision), JStr commit])) (\<lambda>_.
           bindE (ensure (digest_shape image_id)
             (pfl ''{} has an invalid image id: {}'' [JStr img, JStr image_id])) (\<lambda>_.
             Inr (JObj [(''id'', JStr image_id), (''revision'', revision)])))))"

definition preflight_inspect_image :: "string \<Rightarrow> string \<Rightarrow> json io" where
  "preflight_inspect_image img commit =
     bindIO (command_output [''docker'', ''image'', ''inspect'', ''--format'', ''{{json .Config.Labels}}|{{.Id}}'', img]) (\<lambda>out.
     let meta = strip out; labels = takeWhile (\<lambda>c. c \<noteq> CHR ''|'') meta; rest = dropWhile (\<lambda>c. c \<noteq> CHR ''|'') meta in
     if rest = [] then lift (Inl (pfl ''docker returned invalid metadata for {}'' [JStr img]))
     else ask (\<lambda>w. preflight_image_metadata w labels (tl rest) img commit))"

section \<open>The steps of the preflight\<close>

text \<open>What the script collects: the \<open>payload\<close> with its \<open>checks\<close> and \<open>images\<close>.\<close>

record progress =
  pg_commit :: json
  pg_repository :: json
  pg_rehearsals :: "json option"
  pg_checks :: "json list"
  pg_images :: obj

definition no_progress :: progress where
  "no_progress = \<lparr>pg_commit = JNull, pg_repository = JObj [], pg_rehearsals = None, pg_checks = [], pg_images = []\<rparr>"

type_synonym step = "progress \<Rightarrow> env \<Rightarrow> event list \<Rightarrow> progress \<times> unit res \<times> event list"

text \<open>A step that updates the progress when it succeeds.\<close>

definition step_io :: "(progress \<Rightarrow> progress io) \<Rightarrow> step" where
  "step_io f = (\<lambda>p w t. case f p w t of (Inl e, u) \<Rightarrow> (p, Inl e, u) | (Inr p', u) \<Rightarrow> (p', Inr (), u))"

definition check_entry :: "string \<Rightarrow> string \<Rightarrow> string \<Rightarrow> json" where
  "check_entry name command result =
     JObj [(''name'', JStr name), (''command'', JStr command), (''result'', JStr result)]"

definition noted :: "string \<Rightarrow> string \<Rightarrow> string \<Rightarrow> progress \<Rightarrow> progress" where
  "noted name command result p = p\<lparr>pg_checks := pg_checks p @ [check_entry name command result]\<rparr>"

text \<open>\<open>run_step\<close>: the check is recorded whether the command passes or fails.\<close>

text \<open>\<open>shlex.join\<close> of the commands of the script: no word of theirs needs quotes.\<close>

definition run_step :: "string \<Rightarrow> (progress \<Rightarrow> string list) \<Rightarrow> step" where
  "run_step name command = (\<lambda>p w t.
     let e = \<lparr>ev_command = command p, ev_input = None\<rparr>; code = returncode (answer w t e) in
     (noted name (join_words (command p)) (if code = 0 then ''passed'' else ''failed'') p,
      ensure (code = 0) (pfl ''{} failed with exit code {}'' [JStr name, JInt code]), t @ [e]))"

fun run_steps :: "step list \<Rightarrow> step" where
  "run_steps [] p w t = (p, Inr (), t)"
| "run_steps (s # rest) p w t =
     (case s p w t of
        (p', Inl e, u) \<Rightarrow> (p', Inl e, u)
      | (p', Inr _, u) \<Rightarrow> run_steps rest p' w u)"

definition required_commands :: "string list" where
  "required_commands = [''aws'', ''docker'', ''gh'', ''git'', ''go'', ''helm'', ''jq'', ''kubectl'', ''make'', ''minikube'',
     ''python3'', ''terraform'']"

definition require_commands :: "host \<Rightarrow> unit res" where
  "require_commands h =
     (let missing = filter (\<lambda>n. \<not> host_which h n) required_commands in
      ensure (missing = []) (pfl ''required command(s) missing: {}'' (map JStr missing)))"

definition tools_step :: "host \<Rightarrow> step" where
  "tools_step h = step_io (\<lambda>p. bindIO (lift (require_commands h)) (\<lambda>_.
     lift (Inr (noted ''required local tools'' ''PATH lookup'' ''passed'' p))))"

definition repository_step :: "host \<Rightarrow> step" where
  "repository_step h = step_io (\<lambda>p. bindIO (preflight_repository h) (\<lambda>r.
     lift (Inr (noted ''account-independent repository contract'' ''make aws-preflight-check'' ''passed''
       (p\<lparr>pg_repository := r\<rparr>)))))"

definition commit_step :: step where
  "commit_step = step_io (\<lambda>p. bindIO check_clean_head (\<lambda>c. lift (Inr (p\<lparr>pg_commit := JStr c\<rparr>))))"

definition local_run_of :: "host \<Rightarrow> string" where
  "local_run_of h = (case host_environment h ''M4_LOCAL_RUN_ID'' of None \<Rightarrow> [] | Some v \<Rightarrow> v)"

definition rehearsals_step :: "host \<Rightarrow> step" where
  "rehearsals_step h = step_io (\<lambda>p.
     bindIO (ask (\<lambda>w. check_local_rehearsals w (local_run_of h) (str_of (pg_commit p)))) (\<lambda>r.
     lift (Inr (noted ''clean source commit'' ''git status'' ''passed'' (p\<lparr>pg_rehearsals := Some r\<rparr>)))))"

definition image_step :: "string \<Rightarrow> step" where
  "image_step img = step_io (\<lambda>p. bindIO (preflight_inspect_image img (str_of (pg_commit p))) (\<lambda>m.
     lift (Inr (p\<lparr>pg_images := al_set (pg_images p) img m\<rparr>))))"

definition terraform :: "string \<Rightarrow> string list \<Rightarrow> progress \<Rightarrow> string list" where
  "terraform stack args p = [''terraform'', ''-chdir='' @ stack] @ args"

definition terraform_steps :: "string \<Rightarrow> step list" where
  "terraform_steps stack =
     [run_step (''Terraform init ('' @ stack @ '')'') (terraform stack [''init'', ''-backend=false'', ''-input=false'']),
      run_step (''Terraform validate ('' @ stack @ '')'') (terraform stack [''validate''])]"

definition contract_step :: "string \<Rightarrow> step" where
  "contract_step stack = run_step (''Terraform contract tests ('' @ stack @ '')'') (terraform stack [''test''])"

definition preflight_steps :: "host \<Rightarrow> step list" where
  "preflight_steps h =
     [tools_step h, repository_step h, commit_step, rehearsals_step h,
      run_step ''repository lint'' (\<lambda>p. [''make'', ''lint'']),
      run_step ''local tests'' (\<lambda>p. [''make'', ''test'']),
      run_step ''live controller rehearsal'' (\<lambda>p. [''make'', ''aws-live-rehearse'']),
      run_step ''M4 workload images'' (\<lambda>p. [''make'', ''m4-images'', ''M4_SOURCE_COMMIT='' @ str_of (pg_commit p)]),
      image_step ''relay:dev'', image_step ''sink:dev''] @
     concat (map terraform_steps [''infra/terraform/bootstrap'', ''infra/terraform/guardrails'', ''infra/terraform/envs/dev'']) @
     map contract_step [''infra/terraform/guardrails'', ''infra/terraform/envs/dev''] @
     [run_step ''rendered Kubernetes validation'' (\<lambda>p. [''make'', ''k8s-validate''])]"

section \<open>The receipt\<close>

text \<open>\<open>write_receipt\<close>: a temporary file that must not exist is written and moved to its place.\<close>

definition receipt_temporary :: "path \<Rightarrow> path" where
  "receipt_temporary p = butlast p @ [''00-preflight.tmp'']"

definition write_receipt :: "path \<Rightarrow> json \<Rightarrow> unit act" where
  "write_receipt p v =
     (\<lambda>w. if files w (receipt_temporary p) \<noteq> None then (py_raise OSError, w)
          else (Inr (), w\<lparr>files := (files w)(p \<mapsto> regular 384 (json_dump v))\<rparr>))"

definition preflight_receipt ::
  "env \<Rightarrow> host \<Rightarrow> string \<Rightarrow> path \<times> path \<Rightarrow> datetime \<Rightarrow> datetime \<Rightarrow> progress \<Rightarrow> unit res \<Rightarrow> json" where
  "preflight_receipt w h run_id paths started finished p outcome = JObj
     ([(''schema_version'', JInt 1), (''run_id'', JStr run_id), (''commit'', pg_commit p),
       (''started_at'', JStr (iso_text started)),
       (''result'', JStr (case outcome of Inl _ \<Rightarrow> ''failed'' | Inr _ \<Rightarrow> ''passed'')),
       (''repository'', pg_repository p),
       (''evidence'', JObj [(''raw'', JStr (relative_text w (fst paths))), (''sanitized'', JStr (relative_text w (snd paths)))]),
       (''checks'', JArr (pg_checks p)), (''images'', JObj (pg_images p))] @
      (case pg_rehearsals p of None \<Rightarrow> [] | Some r \<Rightarrow> [(''local_rehearsals'', r)]) @
      (case outcome of Inl e \<Rightarrow> [(''error'', JStr (host_text_of h e))] | Inr _ \<Rightarrow> []) @
      [(''finished_at'', JStr (iso_text finished))])"

text \<open>
  \<open>run_preflight\<close>: the result, the commands issued, and the environment left behind. An error
  of \<open>write_receipt\<close> replaces the one of the steps.
\<close>

definition run_preflight ::
  "host \<Rightarrow> string \<Rightarrow> datetime \<Rightarrow> datetime \<Rightarrow> env \<Rightarrow> event list \<Rightarrow> path res \<times> event list \<times> env" where
  "run_preflight h run_id started finished w t =
     (case preflight_paths h run_id w t of
        (Inl e, u) \<Rightarrow> (Inl e, u, w)
      | (Inr paths, u) \<Rightarrow>
          let target = fst paths @ [''00-preflight.json''] in
          (case bindA (create_raw (fst paths)) (\<lambda>_. reads (\<lambda>w. ensure (\<not> present w target)
               (pfl ''preflight receipt already exists: {}'' [path_json target]))) w of
             (Inl e, w') \<Rightarrow> (Inl e, u, w')
           | (Inr _, w') \<Rightarrow>
               (case run_steps (preflight_steps h) no_progress w' u of
                  (p, outcome, v) \<Rightarrow>
                    (case write_receipt target (preflight_receipt w h run_id paths started finished p outcome) w' of
                       (Inl e, w'') \<Rightarrow> (Inl e, v, w'')
                     | (Inr _, w'') \<Rightarrow> (bindE outcome (\<lambda>_. Inr target), v, w'')))))"

text \<open>\<open>main\<close>: the exit code; only the script's own exception is reported.\<close>

definition exit_code :: "'a res \<Rightarrow> int res" where
  "exit_code m = (case m of Inr _ \<Rightarrow> Inr 0 | Inl (Err PreflightError _ _) \<Rightarrow> Inr 1 | Inl e \<Rightarrow> Inl e)"

end
