(* ===== verification/Preflight_Correct.thy ===== *)
theory Preflight_Correct
  imports Preflight_Run Account_Gate Aws_Inventory Evidence_Plan_Correct Capture_Run
begin

text \<open>
  What the preflight promises to the steps after it. Its receipt has one shape however the run
  ends; a passing run issued every command of its steps and saw it exit with zero; the receipt
  of a passing run is accepted by the four programs that read it; and the local rehearsals it
  accepts are bound to the candidate commit and to the bytes of their artifacts.
\<close>

section \<open>Runs of steps\<close>

lemma run_steps_ok:
  "run_steps (s # rest) p w t = (p', Inr (), u) \<longleftrightarrow>
     (\<exists>q v. s p w t = (q, Inr (), v) \<and> run_steps rest q w v = (p', Inr (), u))"
  by (auto split: prod.splits sum.splits)

lemma run_steps_append:
  "run_steps (as @ bs) p w t = (p', Inr (), u) \<longleftrightarrow>
     (\<exists>q v. run_steps as p w t = (q, Inr (), v) \<and> run_steps bs q w v = (p', Inr (), u))"
  by (induction as arbitrary: p t) (auto split: prod.splits sum.splits)

lemma run_steps_invariant:
  assumes "run_steps steps p w t = (p', r, u)" and "P p"
    and "\<And>s q x q' r u. s \<in> set steps \<Longrightarrow> P q \<Longrightarrow> s q w x = (q', r, u) \<Longrightarrow> P q'"
  shows "P p'"
  using assms
proof (induction steps arbitrary: p t)
  case Nil
  then show ?case by simp
next
  case (Cons s rest)
  obtain q r' v where s: "s p w t = (q, r', v)" by (cases "s p w t")
  then have q: "P q" using Cons.prems(2,3) by (meson list.set_intros(1))
  show ?case
  proof (cases r')
    case (Inl e)
    with s q Cons.prems(1) show ?thesis by simp
  next
    case (Inr x)
    with s Cons.prems(1) have "run_steps rest q w v = (p', r, u)" by simp
    then show ?thesis by (rule Cons.IH [OF _ q]) (use Cons.prems(3) in \<open>meson list.set_intros(2)\<close>)
  qed
qed

lemma step_io_ok: "step_io f p w t = (p', Inr (), u) \<longleftrightarrow> returns (f p) w t p' u"
  by (auto simp: step_io_def returns_def split: prod.splits sum.splits)

lemma step_io_cases:
  assumes "step_io f p w t = (p', r, u)"
  obtains "p' = p" | "returns (f p) w t p' u"
  using assms by (auto simp: step_io_def returns_def split: prod.splits sum.splits)

lemma run_step_ok:
  "run_step name c p w t = (p', Inr (), u) \<longleftrightarrow>
     returncode (answer w t \<lparr>ev_command = c p, ev_input = None\<rparr>) = 0 \<and>
     p' = noted name (join_words (c p)) ''passed'' p \<and> u = t @ [\<lparr>ev_command = c p, ev_input = None\<rparr>]"
  by (auto simp: run_step_def Let_def)

lemma noted_simps [simp]:
  "pg_commit (noted n c r p) = pg_commit p" "pg_rehearsals (noted n c r p) = pg_rehearsals p"
  "pg_images (noted n c r p) = pg_images p" "pg_repository (noted n c r p) = pg_repository p"
  "pg_checks (noted n c r p) = pg_checks p @ [check_entry n c r]"
  by (simp_all add: noted_def)

section \<open>The shape of the receipt\<close>

definition check_type :: "json \<Rightarrow> bool" where
  "check_type v \<longleftrightarrow> (\<exists>n c r. v = check_entry n c r \<and> r \<in> {''passed'', ''failed''})"

definition image_type :: "json \<Rightarrow> bool" where
  "image_type v \<longleftrightarrow> (\<exists>i c. v = JObj [(''id'', JStr i), (''revision'', JStr c)] \<and> digest_shape i)"

definition progress_type :: "progress \<Rightarrow> bool" where
  "progress_type p \<longleftrightarrow>
     (pg_commit p = JNull \<or> (\<exists>c. pg_commit p = JStr c \<and> commit_shape c)) \<and> is_dict (pg_repository p) \<and>
     (\<forall>r. pg_rehearsals p = Some r \<longrightarrow> is_dict r) \<and> (\<forall>v \<in> set (pg_checks p). check_type v) \<and>
     distinct (map fst (pg_images p)) \<and> (\<forall>x \<in> set (pg_images p). image_type (snd x))"

definition receipt_type :: "json \<Rightarrow> bool" where
  "receipt_type v \<longleftrightarrow> is_dict v \<and> distinct (map fst (obj_of v)) \<and>
     jget v ''schema_version'' = JInt 1 \<and> is_str (jget v ''run_id'') \<and> canonical_run_id (str_of (jget v ''run_id'')) \<and>
     (jget v ''commit'' = JNull \<or> (\<exists>c. jget v ''commit'' = JStr c \<and> commit_shape c)) \<and>
     jget v ''result'' \<in> {JStr ''passed'', JStr ''failed''} \<and>
     (has_key v ''error'' \<longleftrightarrow> jget v ''result'' = JStr ''failed'') \<and> (has_key v ''error'' \<longrightarrow> is_str (jget v ''error'')) \<and>
     is_dict (jget v ''repository'') \<and> is_dict (jget v ''evidence'') \<and>
     (\<exists>cs. jget v ''checks'' = JArr cs \<and> (\<forall>c \<in> set cs. check_type c)) \<and>
     (\<exists>ms. jget v ''images'' = JObj ms \<and> distinct (map fst ms) \<and> (\<forall>m \<in> set ms. image_type (snd m))) \<and>
     (has_key v ''local_rehearsals'' \<longrightarrow> is_dict (jget v ''local_rehearsals'')) \<and>
     utc_shape (str_of (jget v ''started_at'')) \<and> utc_shape (str_of (jget v ''finished_at''))"

lemma check_type_entry [simp]:
  "check_type (check_entry n c ''passed'')" "check_type (check_entry n c ''failed'')"
  by (auto simp: check_type_def)

lemma progress_noted: "progress_type p \<Longrightarrow> r \<in> {''passed'', ''failed''} \<Longrightarrow> progress_type (noted n c r p)"
  by (auto simp: progress_type_def)

lemma clean_head_shape: "returns check_clean_head w t c u \<Longrightarrow> commit_shape c"
  by (auto simp: check_clean_head_def Let_def io_simps split: if_splits)

lemma image_metadata_type:
  assumes "preflight_image_metadata w l i img c = Inr m"
  shows "image_type m" and "jget m ''revision'' = JStr c"
  using assms
  by (auto simp: preflight_image_metadata_def Let_def bindE_eq_Inr image_type_def split: option.splits)

lemma inspected_type:
  assumes "returns (preflight_inspect_image img c) w t m u"
  shows "image_type m" and "jget m ''revision'' = JStr c"
  using assms image_metadata_type
  by (auto simp: preflight_inspect_image_def Let_def io_simps split: if_splits)

definition keeps_type :: "step \<Rightarrow> bool" where
  "keeps_type s \<longleftrightarrow> (\<forall>p w t p' r u. s p w t = (p', r, u) \<longrightarrow> progress_type p \<longrightarrow> progress_type p')"

lemma keeps_type_io:
  assumes "\<And>p w t p' u. returns (f p) w t p' u \<Longrightarrow> progress_type p \<Longrightarrow> progress_type p'"
  shows "keeps_type (step_io f)"
  unfolding keeps_type_def
proof (intro allI impI)
  fix p w t p' r u
  assume "step_io f p w t = (p', r, u)" and p: "progress_type p"
  from this(1) show "progress_type p'" by (rule step_io_cases) (use p assms in auto)
qed

lemma keeps_type_run: "keeps_type (run_step n c)"
  by (auto simp: keeps_type_def run_step_def Let_def intro: progress_noted)

lemma repository_dict: "returns (preflight_repository h) w t r u \<Longrightarrow> is_dict r"
  by (auto simp: preflight_repository_def io_simps split: prod.splits)

lemma rehearsals_dict: "check_local_rehearsals w l c = Inr r \<Longrightarrow> is_dict r"
  by (auto simp: check_local_rehearsals_def Let_def bindE_eq_Inr)

lemma keeps_type_image: "keeps_type (image_step img)"
  unfolding image_step_def
proof (rule keeps_type_io)
  fix p w t p' u
  assume "returns (bindIO (preflight_inspect_image img (str_of (pg_commit p)))
      (\<lambda>m. lift (Inr (p\<lparr>pg_images := al_set (pg_images p) img m\<rparr>)))) w t p' u" and p: "progress_type p"
  then obtain m where m: "image_type m" and p': "p' = p\<lparr>pg_images := al_set (pg_images p) img m\<rparr>"
    by (auto simp: io_simps dest: inspected_type)
  have "image_type (snd x)" if "x \<in> set (al_set (pg_images p) img m)" for x
  proof -
    have "distinct (map fst (al_set (pg_images p) img m))"
      using p by (simp add: progress_type_def distinct_al_set)
    with that have "map_of (al_set (pg_images p) img m) (fst x) = Some (snd x)"
      by (metis map_of_is_SomeI prod.collapse)
    with m p show ?thesis by (auto simp: progress_type_def split: if_splits dest: map_of_SomeD)
  qed
  with p p' distinct_al_set [of "pg_images p" img m] show "progress_type p'" by (simp add: progress_type_def)
qed

lemma keeps_type_steps:
  assumes "s \<in> set (preflight_steps h)" shows "keeps_type s"
proof -
  have tools: "keeps_type (tools_step h)"
    unfolding tools_step_def by (rule keeps_type_io) (auto simp: io_simps intro: progress_noted)
  have repository: "keeps_type (repository_step h)"
    unfolding repository_step_def
    by (rule keeps_type_io) (auto simp: io_simps progress_type_def dest: repository_dict)
  have commit: "keeps_type commit_step"
    unfolding commit_step_def
    by (rule keeps_type_io) (auto simp: io_simps progress_type_def dest: clean_head_shape)
  have rehearsals: "keeps_type (rehearsals_step h)"
    unfolding rehearsals_step_def
    by (rule keeps_type_io) (auto simp: io_simps progress_type_def dest: rehearsals_dict)
  from assms show ?thesis
    unfolding preflight_steps_def terraform_steps_def contract_step_def
    using tools repository commit rehearsals keeps_type_run keeps_type_image by auto
qed

lemma progress_of_run:
  assumes "run_steps (preflight_steps h) no_progress w t = (p, r, u)" shows "progress_type p"
proof (rule run_steps_invariant [OF assms])
  show "progress_type no_progress" by (simp add: no_progress_def progress_type_def)
qed (use keeps_type_steps keeps_type_def in blast)

section \<open>The receipt on disk\<close>

lemma preflight_paths_result:
  assumes "returns (preflight_paths h run_id) w t paths u"
  shows "paths = (run_dir w run_id, published_dir w run_id)" and "canonical_run_id run_id"
    and "\<forall>q \<in> set (up_to (root_dir w) (run_dir w run_id)). \<not> is_symlink w q \<and> strict_prefix (root_dir w) q"
proof -
  have up: "foldE (\<lambda>u q. if is_symlink w q then Inl (a q) else if \<not> strict_prefix s q then Inl b else Inr ()) () qs = Inr () \<longleftrightarrow>
      (\<forall>q \<in> set qs. \<not> is_symlink w q \<and> strict_prefix s q)" for s qs a b
    by (subst foldE_unit) auto
  from assms show "paths = (run_dir w run_id, published_dir w run_id)" "canonical_run_id run_id"
    "\<forall>q \<in> set (up_to (root_dir w) (run_dir w run_id)). \<not> is_symlink w q \<and> strict_prefix (root_dir w) q"
    by (auto simp: preflight_paths_def check_evidence_roots_def Let_def io_simps run_dir_def published_dir_def
        preflight_ids.accepts ensure_no_symlink_def up split: if_splits)
qed

lemma run_preflight_receipt:
  assumes "run_preflight h run_id started finished w t = (m, u, w')"
  obtains (early) e where "m = Inl e" and "files w' (run_dir w run_id @ [''00-preflight.json'']) = files w (run_dir w run_id @ [''00-preflight.json''])"
  | (written) p outcome w1 x where "canonical_run_id run_id" and "w1 = make_directories (run_dir w run_id) w"
      and "run_steps (preflight_steps h) no_progress w1 x = (p, outcome, u)"
      and "w' = w1\<lparr>files := (files w1)(run_dir w run_id @ [''00-preflight.json''] \<mapsto> regular 384 (json_dump
        (preflight_receipt w h run_id (run_dir w run_id, published_dir w run_id) started finished p outcome)))\<rparr>"
      and "m = bindE outcome (\<lambda>_. Inr (run_dir w run_id @ [''00-preflight.json'']))"
proof -
  let ?raw = "run_dir w run_id"
  let ?f = "?raw @ [''00-preflight.json'']"
  have untouched: "files (make_directories ?raw w) ?f = files w ?f"
    by (auto simp: make_directories_def strict_prefix_def prefix_def)
  obtain r v where pre: "preflight_paths h run_id w t = (r, v)" by (cases "preflight_paths h run_id w t")
  show ?thesis
  proof (cases r)
    case (Inl e)
    with pre assms show ?thesis by (intro early [of e]) (auto simp: run_preflight_def)
  next
    case (Inr paths)
    with pre have ret: "returns (preflight_paths h run_id) w t paths v" by (simp add: returns_def)
    note paths = preflight_paths_result [OF ret]
    let ?c = "bindA (create_raw ?raw) (\<lambda>_. reads (\<lambda>w. ensure (\<not> present w ?f)
      (pfl ''preflight receipt already exists: {}'' [path_json ?f]))) w"
    obtain c w1 where c: "?c = (c, w1)" by (cases ?c)
    have w1: "w1 = w \<or> w1 = make_directories ?raw w" "c = Inr () \<Longrightarrow> w1 = make_directories ?raw w"
      using c by (auto simp: bindA_def create_raw_def reads_def split: prod.splits sum.splits if_splits)
    show ?thesis
    proof (cases c)
      case (Inl e)
      have "files w1 ?f = files w ?f" using w1(1) untouched by auto
      with Inl pre \<open>r = Inr paths\<close> paths(1) c assms show ?thesis
        by (intro early [of e]) (auto simp: run_preflight_def)
    next
      case (Inr y)
      then have w1': "w1 = make_directories ?raw w" using w1(2) by simp
      obtain p outcome x where st: "run_steps (preflight_steps h) no_progress w1 v = (p, outcome, x)"
        by (cases "run_steps (preflight_steps h) no_progress w1 v")
      let ?v = "preflight_receipt w h run_id paths started finished p outcome"
      show ?thesis
      proof (cases "files w1 (receipt_temporary ?f) = None")
        case True
        have x: "x = u" using True Inr st pre \<open>r = Inr paths\<close> paths(1) c assms
          by (simp add: run_preflight_def write_receipt_def Let_def)
        show ?thesis
          by (rule written [OF paths(2) w1' st [unfolded x]])
            (use True Inr st pre \<open>r = Inr paths\<close> paths(1) c assms in
              \<open>simp_all add: run_preflight_def write_receipt_def Let_def\<close>)
      next
        case False
        then show ?thesis
          by (intro early [of "Py OSError"])
            (use Inr st pre \<open>r = Inr paths\<close> paths(1) c assms w1' untouched in
              \<open>simp_all add: run_preflight_def write_receipt_def Let_def\<close>)
      qed
    qed
  qed
qed

lemma receipt_keys:
  "distinct (map fst (obj_of (preflight_receipt w h run_id paths started finished p outcome)))"
  by (simp add: preflight_receipt_def split: option.splits sum.splits)

lemma receipt_fields:
  fixes w :: env and h :: host and run_id :: string and paths :: "path \<times> path" and started finished :: datetime
    and p :: progress and outcome :: "unit res"
  defines "v \<equiv> preflight_receipt w h run_id paths started finished p outcome"
  shows "jget v ''schema_version'' = JInt 1" "jget v ''run_id'' = JStr run_id" "jget v ''commit'' = pg_commit p"
    "jget v ''repository'' = pg_repository p" "is_dict (jget v ''evidence'')" "jget v ''checks'' = JArr (pg_checks p)"
    "jget v ''images'' = JObj (pg_images p)" "is_dict v"
    "jget v ''started_at'' = JStr (iso_text started)" "jget v ''finished_at'' = JStr (iso_text finished)"
    "outcome = Inr u \<Longrightarrow> jget v ''result'' = JStr ''passed'' \<and> \<not> has_key v ''error''"
    "outcome = Inl e \<Longrightarrow> jget v ''result'' = JStr ''failed'' \<and> has_key v ''error'' \<and> is_str (jget v ''error'')"
    "has_key v ''local_rehearsals'' \<longleftrightarrow> pg_rehearsals p \<noteq> None"
    "pg_rehearsals p = Some r \<Longrightarrow> jget v ''local_rehearsals'' = r"
  unfolding v_def preflight_receipt_def by (auto split: option.splits sum.splits)

lemma receipt_typed:
  assumes "progress_type p" and "canonical_run_id run_id" and "valid_time started" and "valid_time finished"
  shows "receipt_type (preflight_receipt w h run_id paths started finished p outcome)"
proof -
  let ?v = "preflight_receipt w h run_id paths started finished p outcome"
  note f = receipt_fields [where w = w and h = h and run_id = run_id and paths = paths and started = started
      and finished = finished and p = p and outcome = outcome]
  have result: "jget ?v ''result'' \<in> {JStr ''passed'', JStr ''failed''} \<and>
      (has_key ?v ''error'' \<longleftrightarrow> jget ?v ''result'' = JStr ''failed'') \<and> (has_key ?v ''error'' \<longrightarrow> is_str (jget ?v ''error''))"
    using f(11) [of "()"] f(12) by (cases outcome) auto
  have rehearsed: "has_key ?v ''local_rehearsals'' \<longrightarrow> is_dict (jget ?v ''local_rehearsals'')"
    using f(13,14) assms(1) by (auto simp: progress_type_def)
  show ?thesis
    unfolding receipt_type_def
    using assms(1,2) receipt_keys [of w h run_id paths started finished p outcome] result rehearsed
      iso_text_parses(2) [OF assms(3)] iso_text_parses(2) [OF assms(4)] f(1-10)
    by (simp add: progress_type_def)
qed

text \<open>
  C19. Every receipt \<open>run_preflight\<close> writes has the type of a preflight receipt, however the run ends:
  its keys are distinct, its commit is null or a commit hash, every check is a name, a command and
  passed or failed, every image has a digest and a revision, the times are UTC, and it has an error
  exactly when its result is failed. The result says passed exactly when the run returns the path.
\<close>

theorem preflight_receipt_typed:
  assumes "run_preflight h run_id started finished w t = (m, u, w')"
    and "files w' (run_dir w run_id @ [''00-preflight.json'']) \<noteq> files w (run_dir w run_id @ [''00-preflight.json''])"
    and "valid_time started" and "valid_time finished"
  shows "\<exists>v. files w' (run_dir w run_id @ [''00-preflight.json'']) = Some (regular 384 (json_dump v)) \<and> receipt_type v \<and>
    (jget v ''result'' = JStr ''passed'' \<longleftrightarrow> m = Inr (run_dir w run_id @ [''00-preflight.json'']))"
  using assms(1)
proof (cases rule: run_preflight_receipt)
  case (early e)
  with assms(2) show ?thesis by simp
next
  case (written p outcome w1 x)
  let ?v = "preflight_receipt w h run_id (run_dir w run_id, published_dir w run_id) started finished p outcome"
  have "receipt_type ?v" by (rule receipt_typed [OF progress_of_run [OF written(3)] written(1) assms(3,4)])
  moreover have "jget ?v ''result'' = JStr ''passed'' \<longleftrightarrow> m = Inr (run_dir w run_id @ [''00-preflight.json''])"
    using written(5) receipt_fields(11,12) [where outcome = outcome] by (cases outcome) auto
  ultimately show ?thesis using written(4) by auto
qed

section \<open>A passing run\<close>

text \<open>A command that was issued and exited with zero.\<close>

definition exited_zero :: "env \<Rightarrow> event list \<Rightarrow> string list \<Rightarrow> bool" where
  "exited_zero w u command \<longleftrightarrow>
     (\<exists>xs ys. u = xs @ \<lparr>ev_command = command, ev_input = None\<rparr> # ys \<and>
        returncode (answer w xs \<lparr>ev_command = command, ev_input = None\<rparr>) = 0)"

lemma exited_zero_append: "exited_zero w u c \<Longrightarrow> exited_zero w (u @ v) c"
  unfolding exited_zero_def by (metis append.assoc append_Cons)

lemma exited_zero_last:
  "returncode (answer w u \<lparr>ev_command = c, ev_input = None\<rparr>) = 0 \<Longrightarrow>
   exited_zero w (u @ [\<lparr>ev_command = c, ev_input = None\<rparr>]) c"
  by (auto simp: exited_zero_def)

definition all_passed :: "progress \<Rightarrow> bool" where
  "all_passed p \<longleftrightarrow> (\<forall>c \<in> set (pg_checks p). jget c ''result'' = JStr ''passed'')"

lemma all_passed_noted: "all_passed (noted n c ''passed'' p) \<longleftrightarrow> all_passed p"
  by (auto simp: all_passed_def check_entry_def)

text \<open>What the steps after the first four leave alone, and what they add.\<close>

definition extends :: "progress \<Rightarrow> progress \<Rightarrow> bool" where
  "extends p q \<longleftrightarrow> pg_commit q = pg_commit p \<and> pg_rehearsals q = pg_rehearsals p \<and>
     pg_repository q = pg_repository p \<and> (all_passed p \<longrightarrow> all_passed q)"

lemma extends_trans: "extends p q \<Longrightarrow> extends q r \<Longrightarrow> extends p r"
  by (simp add: extends_def)

lemma run_step_extends:
  assumes "run_step n c p w t = (q, Inr (), u)"
  shows "extends p q" and "pg_images q = pg_images p" and "u = t @ [\<lparr>ev_command = c p, ev_input = None\<rparr>]"
    and "exited_zero w u (c p)"
  using assms by (auto simp: run_step_ok extends_def all_passed_noted intro: exited_zero_last)

definition command_step :: "string list \<Rightarrow> progress \<Rightarrow> step \<Rightarrow> bool" where
  "command_step command p s \<longleftrightarrow> (\<exists>n c. s = run_step n c \<and> (\<forall>q. extends p q \<longrightarrow> c q = command))"

lemma command_stepI: "(\<And>q. extends p q \<Longrightarrow> c q = k) \<Longrightarrow> command_step k p (run_step n c)"
  unfolding command_step_def by blast

lemma command_step_mono:
  assumes "command_step k p s" and "extends p q" shows "command_step k q s"
proof -
  obtain n c where s: "s = run_step n c" and c: "\<forall>q. extends p q \<longrightarrow> c q = k"
    using assms(1) by (auto simp: command_step_def)
  show ?thesis unfolding s by (rule command_stepI) (use c extends_trans [OF assms(2)] in blast)
qed

lemma command_steps_run:
  assumes "run_steps steps p w t = (q, Inr (), u)" and "list_all2 (\<lambda>c s. command_step c p s) commands steps"
  shows "extends p q \<and> pg_images q = pg_images p \<and> (\<exists>es. u = t @ es) \<and> (\<forall>c \<in> set commands. exited_zero w u c)"
  using assms
proof (induction steps arbitrary: p t commands)
  case Nil
  then show ?case by (auto simp: extends_def)
next
  case (Cons s rest)
  then obtain c cs where commands: "commands = c # cs" and c: "command_step c p s"
    and cs: "list_all2 (\<lambda>c s. command_step c p s) cs rest" by (auto simp: list_all2_Cons2)
  obtain p1 v where s: "s p w t = (p1, Inr (), v)" and rest: "run_steps rest p1 w v = (q, Inr (), u)"
    using Cons.prems(1) unfolding run_steps_ok by blast
  obtain n k where k: "s = run_step n k" "\<forall>q. extends p q \<longrightarrow> k q = c" using c by (auto simp: command_step_def)
  have kp: "k p = c" using k(2) by (simp add: extends_def)
  note st = run_step_extends [OF s [unfolded k(1)]]
  have "list_all2 (\<lambda>c s. command_step c p1 s) cs rest"
    by (rule list_all2_mono [OF cs]) (rule command_step_mono [OF _ st(1)])
  from Cons.IH [OF rest this] obtain es where "extends p1 q" "pg_images q = pg_images p1" "u = v @ es"
    "\<forall>c \<in> set cs. exited_zero w u c" by blast
  moreover from this(3) have "exited_zero w u c" using exited_zero_append st(4) kp by simp
  moreover have "extends p q" by (rule extends_trans [OF st(1)]) fact
  ultimately show ?case using st(2,3) commands by simp
qed

definition make_commands :: "string \<Rightarrow> string list list" where
  "make_commands commit = [[''make'', ''lint''], [''make'', ''test''], [''make'', ''aws-live-rehearse''],
     [''make'', ''m4-images'', ''M4_SOURCE_COMMIT='' @ commit]]"

definition stack_commands :: "string list list" where
  "stack_commands =
     concat (map (\<lambda>s. [[''terraform'', ''-chdir='' @ s, ''init'', ''-backend=false'', ''-input=false''],
       [''terraform'', ''-chdir='' @ s, ''validate'']])
       [''infra/terraform/bootstrap'', ''infra/terraform/guardrails'', ''infra/terraform/envs/dev'']) @
     map (\<lambda>s. [''terraform'', ''-chdir='' @ s, ''test'']) [''infra/terraform/guardrails'', ''infra/terraform/envs/dev''] @
     [[''make'', ''k8s-validate'']]"

lemma make_steps:
  assumes "pg_commit p = JStr c"
  shows "list_all2 (\<lambda>k s. command_step k p s) (make_commands c)
    [run_step ''repository lint'' (\<lambda>p. [''make'', ''lint'']), run_step ''local tests'' (\<lambda>p. [''make'', ''test'']),
     run_step ''live controller rehearsal'' (\<lambda>p. [''make'', ''aws-live-rehearse'']),
     run_step ''M4 workload images'' (\<lambda>p. [''make'', ''m4-images'', ''M4_SOURCE_COMMIT='' @ str_of (pg_commit p)])]"
  using assms unfolding make_commands_def list_all2_Cons list_all2_Nil
  by (intro conjI TrueI command_stepI) (simp_all add: extends_def)

lemma stack_steps:
  "list_all2 (\<lambda>k s. command_step k p s) stack_commands
    (concat (map terraform_steps [''infra/terraform/bootstrap'', ''infra/terraform/guardrails'', ''infra/terraform/envs/dev'']) @
     map contract_step [''infra/terraform/guardrails'', ''infra/terraform/envs/dev''] @
     [run_step ''rendered Kubernetes validation'' (\<lambda>p. [''make'', ''k8s-validate''])])"
  unfolding stack_commands_def terraform_steps_def contract_step_def list.map concat.simps append.simps
    list_all2_Cons list_all2_Nil
  by (intro conjI TrueI command_stepI) (simp_all add: terraform_def)

lemma image_step_ok:
  assumes "image_step img p w t = (q, Inr (), u)"
  shows "\<exists>m. q = p\<lparr>pg_images := al_set (pg_images p) img m\<rparr> \<and> image_type m \<and> jget m ''revision'' = JStr (str_of (pg_commit p))"
    and "\<exists>es. u = t @ es"
proof -
  from assms obtain m where m: "returns (preflight_inspect_image img (str_of (pg_commit p))) w t m u"
    and q: "q = p\<lparr>pg_images := al_set (pg_images p) img m\<rparr>"
    by (auto simp: image_step_def step_io_ok io_simps)
  show "\<exists>m. q = p\<lparr>pg_images := al_set (pg_images p) img m\<rparr> \<and> image_type m \<and> jget m ''revision'' = JStr (str_of (pg_commit p))"
    using q inspected_type [OF m] by blast
  have "issues_only (\<lambda>_. True) (preflight_inspect_image img (str_of (pg_commit p)))"
    unfolding preflight_inspect_image_def command_output_def run_text_command_def Let_def split_beta
    by (intro io_intros TrueI)
  from issues_only_trace [OF this, of w t] m show "\<exists>es. u = t @ es" by (auto simp: returns_def)
qed

lemma passing_steps:
  assumes "run_steps (preflight_steps h) no_progress w t = (p, Inr (), u)"
  shows "\<exists>c r. pg_commit p = JStr c \<and> commit_shape c \<and> (\<exists>x y. returns check_clean_head w x c y) \<and> pg_rehearsals p = Some r \<and>
    check_local_rehearsals w (local_run_of h) c = Inr r \<and> all_passed p \<and>
    (\<forall>i \<in> {''relay:dev'', ''sink:dev''}. \<exists>m. map_of (pg_images p) i = Some m \<and> image_type m \<and> jget m ''revision'' = JStr c) \<and>
    (\<forall>k \<in> set (make_commands c @ stack_commands). exited_zero w u k)"
proof -
  let ?A = "[run_step ''repository lint'' (\<lambda>p. [''make'', ''lint'']), run_step ''local tests'' (\<lambda>p. [''make'', ''test'']),
     run_step ''live controller rehearsal'' (\<lambda>p. [''make'', ''aws-live-rehearse'']),
     run_step ''M4 workload images'' (\<lambda>p. [''make'', ''m4-images'', ''M4_SOURCE_COMMIT='' @ str_of (pg_commit p)])]"
  let ?B = "concat (map terraform_steps [''infra/terraform/bootstrap'', ''infra/terraform/guardrails'', ''infra/terraform/envs/dev'']) @
     map contract_step [''infra/terraform/guardrails'', ''infra/terraform/envs/dev''] @
     [run_step ''rendered Kubernetes validation'' (\<lambda>p. [''make'', ''k8s-validate''])]"
  have split: "preflight_steps h = [tools_step h, repository_step h, commit_step, rehearsals_step h] @ ?A @
      [image_step ''relay:dev'', image_step ''sink:dev''] @ ?B"
    unfolding preflight_steps_def by simp
  from assms obtain q1 v1 q2 v2 q3 v3 where
    first: "run_steps [tools_step h, repository_step h, commit_step, rehearsals_step h] no_progress w t = (q1, Inr (), v1)"
    and A: "run_steps ?A q1 w v1 = (q2, Inr (), v2)"
    and I: "run_steps [image_step ''relay:dev'', image_step ''sink:dev''] q2 w v2 = (q3, Inr (), v3)"
    and B: "run_steps ?B q3 w v3 = (p, Inr (), u)"
    unfolding split run_steps_append by blast
  from first obtain c r x y where head: "returns check_clean_head w x c y"
    and q1: "pg_commit q1 = JStr c" "pg_rehearsals q1 = Some r"
    "check_local_rehearsals w (local_run_of h) c = Inr r" "all_passed q1" "pg_images q1 = []"
    unfolding run_steps_ok tools_step_def repository_step_def commit_step_def rehearsals_step_def step_io_ok
    by (auto simp: io_simps all_passed_noted no_progress_def) (simp add: all_passed_def check_entry_def)
  have shape: "commit_shape c" by (rule clean_head_shape [OF head])
  note sA = command_steps_run [OF A make_steps [OF q1(1)]]
  from I obtain i1 z where i1: "image_step ''relay:dev'' q2 w v2 = (i1, Inr (), z)"
    and i2: "image_step ''sink:dev'' i1 w z = (q3, Inr (), v3)"
    unfolding run_steps_ok by auto
  note sB = command_steps_run [OF B stack_steps]
  have q2: "pg_commit q2 = JStr c" "pg_rehearsals q2 = Some r" "all_passed q2" "pg_images q2 = []"
    using sA q1 by (simp_all add: extends_def)
  obtain m1 where m1: "i1 = q2\<lparr>pg_images := al_set (pg_images q2) ''relay:dev'' m1\<rparr>" "image_type m1" "jget m1 ''revision'' = JStr c"
    using image_step_ok(1) [OF i1] q2(1) by auto
  obtain m2 where m2: "q3 = i1\<lparr>pg_images := al_set (pg_images i1) ''sink:dev'' m2\<rparr>" "image_type m2" "jget m2 ''revision'' = JStr c"
    using image_step_ok(1) [OF i2] q2(1) m1(1) by auto
  have q3: "pg_commit q3 = JStr c" "pg_rehearsals q3 = Some r" "all_passed q3"
    using q2 m1(1) m2(1) by (simp_all add: all_passed_def)
  have imgs: "map_of (pg_images q3) ''relay:dev'' = Some m1" "map_of (pg_images q3) ''sink:dev'' = Some m2"
    using m1(1) m2(1) by simp_all
  obtain e1 e2 e3 where grow: "z = v2 @ e1" "v3 = z @ e2" "u = v3 @ e3"
    using image_step_ok(2) [OF i1] image_step_ok(2) [OF i2] sB by blast
  have "exited_zero w u k" if "k \<in> set (make_commands c)" for k
    using sA that unfolding grow by (simp add: exited_zero_append)
  moreover have "pg_commit p = JStr c" "pg_rehearsals p = Some r" "all_passed p" "pg_images p = pg_images q3"
    using sB q3 by (simp_all add: extends_def)
  ultimately show ?thesis using head shape q1(3) imgs m1(2,3) m2(2,3) sB by auto
qed


section \<open>The programs that read the receipt\<close>

definition bound_fields :: "string list" where
  "bound_fields = [''schema_version'', ''run_id'', ''commit'', ''result'']"

lemma preflight_accepted:
  assumes "canonical_run_id run_id" and "commit_shape c" and p: "p = run_dir w run_id @ [''00-preflight.json'']"
    and f: "files w p = Some (regular 384 b)" and t: "decode w b = Some t" "loads w t = Some v" "\<not> repeats w t" "is_dict v"
    and fields: "jget v ''schema_version'' = JInt 1" "jget v ''run_id'' = JStr run_id" "jget v ''commit'' = JStr c"
      "jget v ''result'' = JStr ''passed''"
    and beneath: "ensure_beneath w p (root_dir w) = Inr ()"
  shows "stage_require_preflight w run_id c = Inr v" and "account_require_preflight w run_id c = Inr ()"
    and "inventory_preflight w run_id c = Inr ()" and "validate_preflight w (run_dir w run_id) run_id = Inr v"
proof -
  have load: "load_file w a e p = Inr v" for a e by (simp add: load_file_Inr f t)
  have "stage_validate_run_id run_id = Inr ()" using assms(1) by (simp add: stage_run_id.accepts)
  then show "stage_require_preflight w run_id c = Inr v"
    using assms(2) load [unfolded p] fields t(4) by (simp add: stage_require_preflight_def)
  show "account_require_preflight w run_id c = Inr ()"
    using assms(2) load [unfolded p] fields t(4) by (simp add: account_require_preflight_def)
  show "inventory_preflight w run_id c = Inr ()"
    using assms(2) load [unfolded p] fields t(4) by (simp add: inventory_preflight_def)
  have "\<not> is_symlink w p" "is_file w p" using f by (simp_all add: is_symlink_def is_file_def)
  moreover have "read_json_object w p d = Inr v" for d
    using f t by (simp add: read_json_object_def read_bytes_def decode_text_def)
  moreover have "take (length (run_dir w run_id) - 3) (run_dir w run_id) = root_dir w" by (simp add: run_dir_def)
  moreover have "evidence_commit_shape (JStr c)" using assms(2) by (simp add: evidence_commit_shape_def commit_shape_def)
  ultimately show "validate_preflight w (run_dir w run_id) run_id = Inr v"
    using fields beneath by (simp add: validate_preflight_def p)
qed

text \<open>
  C18. The receipt of a preflight that returned names the commit that was HEAD of a clean worktree and
  is accepted by all four programs that ask for it, the image staging and GO decision, the account
  gate, the resource inventory and the evidence steps, for its run id and this commit, in every later environment where the file still has its bytes and
  they parse to a dict with its schema version, run id, commit and result.
\<close>

theorem preflight_receipt_accepted:
  assumes "run_preflight h run_id started finished w t = (Inr target, u, w')"
    and "root_dir later = root_dir w" and "files later target = files w' target"
    and "ensure_beneath later target (root_dir later) = Inr ()"
  shows "\<exists>v c. files later target = Some (regular 384 (json_dump v)) \<and>
    jget v ''schema_version'' = JInt 1 \<and> jget v ''run_id'' = JStr run_id \<and> jget v ''result'' = JStr ''passed'' \<and>
    jget v ''commit'' = JStr c \<and> (\<exists>x y. returns check_clean_head (make_directories (run_dir w run_id) w) x c y) \<and>
    (\<forall>s r. decode later (json_dump v) = Some s \<and> loads later s = Some r \<and> \<not> repeats later s \<and> is_dict r \<and>
        (\<forall>k \<in> set bound_fields. jget r k = jget v k) \<longrightarrow>
      stage_require_preflight later run_id c = Inr r \<and> account_require_preflight later run_id c = Inr () \<and>
      inventory_preflight later run_id c = Inr () \<and> validate_preflight later (run_dir later run_id) run_id = Inr r)"
  using assms(1)
proof (cases rule: run_preflight_receipt)
  case (early e)
  then show ?thesis by simp
next
  case (written p outcome w1 x)
  have out: "outcome = Inr ()" and target: "target = run_dir w run_id @ [''00-preflight.json'']"
    using written(5) by (cases outcome; simp)+
  let ?v = "preflight_receipt w h run_id (run_dir w run_id, published_dir w run_id) started finished p outcome"
  from passing_steps [OF written(3) [unfolded out]] obtain c where c: "pg_commit p = JStr c" "commit_shape c"
    and head: "\<exists>x y. returns check_clean_head w1 x c y" by blast
  have f: "files later target = Some (regular 384 (json_dump ?v))" using assms(3) by (simp add: written(4) target)
  have path: "target = run_dir later run_id @ [''00-preflight.json'']" using target assms(2) by (simp add: run_dir_def)
  have "stage_require_preflight later run_id c = Inr r \<and> account_require_preflight later run_id c = Inr () \<and>
      inventory_preflight later run_id c = Inr () \<and> validate_preflight later (run_dir later run_id) run_id = Inr r"
    if s: "decode later (json_dump ?v) = Some s" "loads later s = Some r" "\<not> repeats later s" "is_dict r"
      and r: "\<forall>k \<in> set bound_fields. jget r k = jget ?v k" for s r
  proof -
    have "jget r ''schema_version'' = JInt 1" "jget r ''run_id'' = JStr run_id" "jget r ''commit'' = JStr c"
      "jget r ''result'' = JStr ''passed''"
      using r c(1) receipt_fields(11) [OF out, of w h run_id "(run_dir w run_id, published_dir w run_id)" started finished p]
      by (simp_all add: bound_fields_def receipt_fields(1-3))
    from preflight_accepted [OF written(1) c(2) path f s this assms(4)] show ?thesis by blast
  qed
  then show ?thesis
    using f c(1) head written(2) receipt_fields(11) [OF out, of w h run_id "(run_dir w run_id, published_dir w run_id)" started finished p]
    by (intro exI [of _ ?v] exI [of _ c]) (simp add: receipt_fields(1-3))
qed

section \<open>The local rehearsals\<close>

definition receipt_at :: "env \<Rightarrow> path \<Rightarrow> json \<Rightarrow> bool" where
  "receipt_at w p v \<longleftrightarrow> (\<exists>s. read_text w p = Inr s \<and> loads w s = Some v)"

lemma read_rehearsal_ok:
  assumes "read_rehearsal w raw commit name = Inr x"
  shows "\<exists>v h. x = (name, v, h) \<and> receipt_at w (raw @ [name]) v \<and> clean_pass commit v \<and>
    hash_path w (raw @ [name]) = Inr h \<and> stat_size w (raw @ [name]) \<le> 1048576"
  using assms
  by (auto simp: read_rehearsal_def Let_def bindE_eq_Inr parse_rehearsal_def reraise_eq_Inr receipt_at_def not_less
      split: option.splits)

lemma captured_file_ok:
  "check_captured_file w raw fs name = Inr () \<longleftrightarrow>
     ensure_no_symlink w (raw @ [name]) (root_dir w) = Inr () \<and> is_file w (raw @ [name]) \<and>
     stat_size w (raw @ [name]) \<le> 8388608 \<and> (\<exists>h. hash_path w (raw @ [name]) = Inr h \<and> jget fs name = JStr h)"
  by (auto simp: check_captured_file_def Let_def bindE_eq_Inr not_less)

text \<open>
  C20. Rehearsals that \<open>check_local_rehearsals\<close> accepts are four receipts of at most a mebibyte, each
  a clean pass for the candidate commit and recorded by the hash of its bytes; the SIGTERM and the
  demonstration receipt say their cleanup was complete, the abort receipt that nothing was left
  behind; and the capture receipt is of this local run, was cleaned up, ran images of the commit, and
  lists for each of its eight artifacts the hash the file has now.
\<close>

theorem local_rehearsals_bound:
  assumes "check_local_rehearsals w local_run commit = Inr r"
  shows "\<exists>sigterm demo abort capture. canonical_run_id local_run \<and>
    list_all2 (\<lambda>name v. receipt_at w (rehearsal_dir w local_run @ [name]) v \<and> clean_pass commit v \<and>
        stat_size w (rehearsal_dir w local_run @ [name]) \<le> 1048576 \<and>
        (\<exists>h. hash_path w (rehearsal_dir w local_run @ [name]) = Inr h \<and> jget (jget r ''sha256'') name = JStr h))
      rehearsal_names [sigterm, demo, abort, capture] \<and>
    list_all2 (\<lambda>(name, ks) v. all_true (jget v ''cleanup'') ks) cleanup_fields [sigterm, demo] \<and>
    jget abort ''signal'' = JStr ''SIGTERM'' \<and> all_true abort [''resource_audit_empty'', ''temporary_credentials_removed'',
      ''temporary_workspace_removed'', ''credential_canary_absent''] \<and>
    jget capture ''run_id'' = JStr local_run \<and> jget capture ''environment'' = JStr ''local'' \<and>
    jget capture ''cleanup_verified'' = JBool True \<and>
    (\<forall>pods \<in> snd ` set (obj_of (jget capture ''provenance'')). items_of pods \<noteq> [] \<and>
      (\<forall>pod \<in> set (items_of pods). jget pod ''image_revision'' = JStr commit)) \<and>
    (\<forall>name \<in> set captured_names. \<exists>h. hash_path w (rehearsal_dir w local_run @ [name]) = Inr h \<and>
      jget (jget capture ''files'') name = JStr h)"
proof -
  let ?d = "rehearsal_dir w local_run"
  obtain rs where id: "preflight_run_id local_run = Inr ()"
    and rs: "mapE (read_rehearsal w ?d commit) rehearsal_names = Inr rs"
    and cleanup: "check_rehearsal_cleanup rs = Inr ()"
    and abort: "check_abort (rehearsal_of rs ''abort-rehearsal.json'') = Inr ()"
    and prov: "check_provenance local_run commit (rehearsal_of rs ''capture-result.json'') = Inr ()"
    and artifacts: "check_captured_files w ?d (rehearsal_of rs ''capture-result.json'') = Inr ()"
    and r: "r = JObj [(''run_id'', JStr local_run), (''source_commit'', JStr commit),
      (''sha256'', JObj (map (\<lambda>(name, v, h). (name, JStr h)) rs))]"
    using assms by (auto simp: check_local_rehearsals_def Let_def bindE_eq_Inr)
  from rs obtain x1 x2 x3 x4 where x: "rs = [x1, x2, x3, x4]"
    "read_rehearsal w ?d commit ''k8s-sigterm.json'' = Inr x1" "read_rehearsal w ?d commit ''demo-rehearsal.json'' = Inr x2"
    "read_rehearsal w ?d commit ''abort-rehearsal.json'' = Inr x3" "read_rehearsal w ?d commit ''capture-result.json'' = Inr x4"
    by (auto simp: rehearsal_names_def bindE_eq_Inr)
  obtain v1 h1 v2 h2 v3 h3 v4 h4 where
    v1: "x1 = (''k8s-sigterm.json'', v1, h1)" "receipt_at w (?d @ [''k8s-sigterm.json'']) v1" "clean_pass commit v1"
      "hash_path w (?d @ [''k8s-sigterm.json'']) = Inr h1" "stat_size w (?d @ [''k8s-sigterm.json'']) \<le> 1048576" and
    v2: "x2 = (''demo-rehearsal.json'', v2, h2)" "receipt_at w (?d @ [''demo-rehearsal.json'']) v2" "clean_pass commit v2"
      "hash_path w (?d @ [''demo-rehearsal.json'']) = Inr h2" "stat_size w (?d @ [''demo-rehearsal.json'']) \<le> 1048576" and
    v3: "x3 = (''abort-rehearsal.json'', v3, h3)" "receipt_at w (?d @ [''abort-rehearsal.json'']) v3" "clean_pass commit v3"
      "hash_path w (?d @ [''abort-rehearsal.json'']) = Inr h3" "stat_size w (?d @ [''abort-rehearsal.json'']) \<le> 1048576" and
    v4: "x4 = (''capture-result.json'', v4, h4)" "receipt_at w (?d @ [''capture-result.json'']) v4" "clean_pass commit v4"
      "hash_path w (?d @ [''capture-result.json'']) = Inr h4" "stat_size w (?d @ [''capture-result.json'']) \<le> 1048576"
    using read_rehearsal_ok [OF x(2)] read_rehearsal_ok [OF x(3)] read_rehearsal_ok [OF x(4)] read_rehearsal_ok [OF x(5)]
    by blast
  have of_name: "rehearsal_of rs ''k8s-sigterm.json'' = v1" "rehearsal_of rs ''demo-rehearsal.json'' = v2"
    "rehearsal_of rs ''abort-rehearsal.json'' = v3" "rehearsal_of rs ''capture-result.json'' = v4"
    by (simp_all add: rehearsal_of_def x(1) v1(1) v2(1) v3(1) v4(1))
  have "list_all2 (\<lambda>(name, ks) v. all_true (jget v ''cleanup'') ks) cleanup_fields [v1, v2]"
    using cleanup unfolding check_rehearsal_cleanup_def foldE_unit by (simp add: cleanup_fields_def of_name Let_def)
  moreover have "items_of pods \<noteq> [] \<and> (\<forall>pod \<in> set (items_of pods). jget pod ''image_revision'' = JStr commit)"
    if "pods \<in> snd ` set (obj_of (jget v4 ''provenance''))" for pods
    using prov that unfolding of_name check_provenance_def Let_def
    by (auto simp: bindE_eq_Inr foldE_unit check_pods_def pod_matches_def)
  moreover have "\<exists>h. hash_path w (?d @ [name]) = Inr h \<and> jget (jget v4 ''files'') name = JStr h"
    if "name \<in> set captured_names" for name
    using artifacts that unfolding of_name check_captured_files_def Let_def
    by (auto simp: bindE_eq_Inr foldE_unit captured_file_ok)
  moreover have "canonical_run_id local_run" using id by (simp add: preflight_ids.accepts)
  moreover have "jget v4 ''run_id'' = JStr local_run" "jget v4 ''environment'' = JStr ''local''"
    "jget v4 ''cleanup_verified'' = JBool True"
    using prov unfolding of_name check_provenance_def Let_def by (auto simp: bindE_eq_Inr)
  moreover have "jget v3 ''signal'' = JStr ''SIGTERM''" "all_true v3 [''resource_audit_empty'', ''temporary_credentials_removed'',
      ''temporary_workspace_removed'', ''credential_canary_absent'']"
    using abort unfolding of_name check_abort_def by simp_all
  moreover have "jget (jget r ''sha256'') ''k8s-sigterm.json'' = JStr h1" "jget (jget r ''sha256'') ''demo-rehearsal.json'' = JStr h2"
    "jget (jget r ''sha256'') ''abort-rehearsal.json'' = JStr h3" "jget (jget r ''sha256'') ''capture-result.json'' = JStr h4"
    by (simp_all add: r x(1) v1(1) v2(1) v3(1) v4(1))
  ultimately show ?thesis
    using v1(2-5) v2(2-5) v3(2-5) v4(2-5)
    by (intro exI [of _ v1] exI [of _ v2] exI [of _ v3] exI [of _ v4]) (simp add: rehearsal_names_def)
qed


end
