(* ===== verification/Preflight_Flags_Correct.thy ===== *)
theory Preflight_Flags_Correct
  imports Preflight_Flags
begin

text \<open>
  What a passing \<open>check_hourly_flags\<close> establishes: no source of Terraform variables the
  script reads sets an hourly flag. The scan of an HCL file finds every assignment that stands
  at the start of a line, or meets a value that is no boolean and raises.
\<close>

section \<open>Assignments of an HCL file\<close>

text \<open>The parts of a text whose first line is an assignment.\<close>

lemma assignment_parts:
  assumes "assignment flag s = Some (v, rest)"
  obtains a b c where "s = a @ flag @ b @ ''='' @ c @ v @ rest"
    and "\<forall>x \<in> set (a @ b @ c). is_space x" and "\<forall>x \<in> set v. \<not> is_space x" and "v \<noteq> []"
    and "rest \<noteq> [] \<Longrightarrow> is_space (hd rest)"
proof -
  from assms obtain x y where x: "after_word flag (skip_spaces s) = Some x"
    and y: "after_word ''='' (skip_spaces x) = Some y"
    and v: "v = takeWhile (\<lambda>d. \<not> is_space d) (skip_spaces y)" "v \<noteq> []"
    and rest: "rest = dropWhile (\<lambda>d. \<not> is_space d) (skip_spaces y)"
    by (auto simp: assignment_def Let_def bind_eq_Some_conv split: if_splits)
  have word: "u = p @ z" if "after_word p u = Some z" for p u z
    using that by (auto simp: after_word_def starts_with_def split: if_splits) (metis append_take_drop_id)
  have "s = takeWhile is_space s @ flag @ x"
    using word [OF x] by (metis skip_spaces_def takeWhile_dropWhile_id)
  moreover have "x = takeWhile is_space x @ ''='' @ y"
    using word [OF y] by (metis skip_spaces_def takeWhile_dropWhile_id)
  moreover have "y = takeWhile is_space y @ v @ rest"
    unfolding v(1) rest by (metis skip_spaces_def takeWhile_dropWhile_id)
  ultimately have "s = takeWhile is_space s @ flag @ takeWhile is_space x @ ''='' @ takeWhile is_space y @ v @ rest"
    by (metis append.assoc)
  moreover have "\<forall>z \<in> set (takeWhile is_space s @ takeWhile is_space x @ takeWhile is_space y). is_space z"
    by (auto dest: set_takeWhileD)
  moreover have "\<forall>z \<in> set v. \<not> is_space z" unfolding v(1) by (auto dest: set_takeWhileD)
  moreover have "is_space (hd rest)" if "rest \<noteq> []" using that hd_dropWhile unfolding rest by blast
  ultimately show ?thesis using that v(2) by blast
qed

lemma skip_spaces_append: "\<forall>x \<in> set a. is_space x \<Longrightarrow> skip_spaces (a @ s) = skip_spaces s"
  by (simp add: skip_spaces_def dropWhile_append1 dropWhile_append2)

lemma skip_no_space: "s \<noteq> [] \<Longrightarrow> \<not> is_space (hd s) \<Longrightarrow> skip_spaces s = s"
  by (cases s) (simp_all add: skip_spaces_def)

lemma after_word_append [simp]: "after_word p (p @ s) = Some s" "after_word [x] (x # s) = Some s"
  by (simp_all add: after_word_def starts_with_def)

lemma prefix_split:
  assumes "u @ z = p @ r"
  obtains k where "p = u @ k" and "z = k @ r" | k where "u = p @ k" and "k @ z = r" and "k \<noteq> []"
proof (cases "length u \<le> length p")
  case True
  then have "p = u @ drop (length u) p"
    using assms by (metis append_eq_append_conv_if append_take_drop_id)
  moreover from this have "z = drop (length u) p @ r"
    using assms by (metis append.assoc same_append_eq)
  ultimately show ?thesis by (rule that(1))
next
  case False
  then have u: "u = p @ drop (length p) u"
    using assms by (metis append_eq_append_conv_if append_take_drop_id nat_le_linear)
  then have "drop (length p) u @ z = r"
    using assms by (metis append.assoc same_append_eq)
  then show ?thesis by (rule that(2) [OF u]) (use False in simp)
qed

lemma assignment_build:
  assumes "\<forall>x \<in> set (a @ b @ c). is_space x" and "\<forall>x \<in> set v. \<not> is_space x" and "v \<noteq> []"
    and "rest \<noteq> [] \<Longrightarrow> is_space (hd rest)" and "flag \<noteq> []" and "\<not> is_space (hd flag)"
  shows "assignment flag (a @ flag @ b @ ''='' @ c @ v @ rest) = Some (v, rest)"
proof -
  have "skip_spaces (a @ flag @ b @ ''='' @ c @ v @ rest) = flag @ b @ ''='' @ c @ v @ rest"
    using assms by (simp add: skip_spaces_append skip_no_space)
  moreover have "skip_spaces (b @ ''='' @ c @ v @ rest) = ''='' @ c @ v @ rest"
    using assms(1) skip_spaces_append [of b] skip_no_space [of "''='' @ c @ v @ rest"] by (simp add: is_space_def)
  moreover have "skip_spaces (c @ v @ rest) = v @ rest"
    using assms(1-3) skip_spaces_append [of c] skip_no_space [of "v @ rest"] by simp
  moreover have "takeWhile (\<lambda>d. \<not> is_space d) (v @ rest) = v" "dropWhile (\<lambda>d. \<not> is_space d) (v @ rest) = rest"
    using assms(2,4) by (cases rest; simp add: takeWhile_append2 dropWhile_append2)+
  ultimately show ?thesis using assms(3) by (simp add: assignment_def Let_def)
qed

text \<open>Where a suffix of an assignment can begin a line of its own.\<close>

definition flag_word :: "string \<Rightarrow> bool" where
  "flag_word flag \<longleftrightarrow> flag \<noteq> [] \<and> (\<forall>x \<in> set flag. \<not> is_space x) \<and> hd flag \<noteq> CHR ''=''"

lemma assignment_skip:
  "assignment flag z = Some q \<Longrightarrow> flag_word flag \<Longrightarrow> \<exists>s. skip_spaces z = flag @ s"
  by (auto simp: assignment_def Let_def bind_eq_Some_conv after_word_def starts_with_iff split: if_splits)

lemma newline_space: "is_space newline"
  by (simp add: is_space_def newline_def)

lemma suffix_in_assignment:
  assumes s: "s = a @ flag @ b @ ''='' @ c @ v @ rest"
    and sp: "\<forall>x \<in> set (a @ b @ c). is_space x" and v: "\<forall>x \<in> set v. \<not> is_space x" "v \<noteq> []"
    and end_v: "rest \<noteq> [] \<Longrightarrow> is_space (hd rest)" and flag: "flag_word flag"
    and z: "s = y @ z" "y = [] \<or> last y = newline" "assignment flag z = Some (v', rest')"
  shows "v' = v \<or> (\<exists>u. v = flag @ u) \<or> (\<exists>u. rest = u @ z \<and> u \<noteq> [] \<and> last u = newline)"
proof -
  obtain t where t: "skip_spaces z = flag @ t" using assignment_skip [OF z(3) flag] by blast
  have fl: "flag \<noteq> []" "\<not> is_space (hd flag)" "\<forall>x \<in> set flag. \<not> is_space x" "hd flag \<noteq> CHR ''=''"
    using flag by (auto simp: flag_word_def)
  have no: "\<not> (y \<noteq> [] \<and> \<not> is_space (last y))" using z(2) newline_space by auto
  consider (A) u where "a = y @ u" "z = u @ flag @ b @ ''='' @ c @ v @ rest"
    | (F) u where "y = a @ u" "u @ z = flag @ b @ ''='' @ c @ v @ rest" "u \<noteq> []"
    using prefix_split [OF trans [OF z(1) [symmetric] s]] by metis
  then show ?thesis
  proof cases
    case A
    have "\<forall>x \<in> set (u @ b @ c). is_space x" using sp A by auto
    from assignment_build [OF this v end_v fl(1,2)] z(3) A show ?thesis by simp
  next
    case F
    consider (in_flag) u' where "flag = u @ u'"
      | (B) u' where "u = flag @ u'" "u' @ z = b @ ''='' @ c @ v @ rest" "u' \<noteq> []"
      using prefix_split [OF F(2)] by metis
    then show ?thesis
    proof cases
      case in_flag
      have "last y \<in> set flag" using in_flag F by simp
      with no fl(3) F show ?thesis by auto
    next
      case B
      consider (in_b) u'' where "b = u' @ u''" "z = u'' @ ''='' @ c @ v @ rest"
        | (E) u'' where "u' = b @ u''" "u'' @ z = ''='' @ c @ v @ rest" "u'' \<noteq> []"
        using prefix_split [OF B(2)] by metis
      then show ?thesis
      proof cases
        case in_b
        have "skip_spaces z = ''='' @ c @ v @ rest"
          using in_b sp skip_spaces_append [of u''] skip_no_space [of "''='' @ c @ v @ rest"] by (simp add: is_space_def)
        with t fl(1,4) show ?thesis by (cases flag) auto
      next
        case E
        then obtain u3 where u3: "u'' = CHR ''='' # u3" "u3 @ z = c @ v @ rest" by (cases u'') auto
        consider (in_c) k where "c = u3 @ k" "z = k @ v @ rest"
          | (V) k where "u3 = c @ k" "k @ z = v @ rest" "k \<noteq> []"
          using prefix_split [OF u3(2)] by metis
        then show ?thesis
        proof cases
          case in_c
          have "skip_spaces z = v @ rest"
            using in_c sp v skip_spaces_append [of k] skip_no_space [of "v @ rest"] by simp
          with t have "v @ rest = flag @ t" by simp
          then have "(\<exists>u. v = flag @ u) \<or> (\<exists>u. flag = v @ u \<and> u \<noteq> [] \<and> rest = u @ t)"
            by (auto simp: append_eq_append_conv2)
          moreover have False if "flag = v @ u" "u \<noteq> []" "rest = u @ t" for u
            using that end_v fl(3) by (cases u) auto
          ultimately show ?thesis by blast
        next
          case V
          consider (in_v) k' where "v = k @ k'" | (R) k' where "k = v @ k'" "k' @ z = rest" "k' \<noteq> []"
            using prefix_split [OF V(2)] by metis
          then show ?thesis
          proof cases
            case in_v
            have "last y \<in> set v" using in_v V E B F u3 by simp
            with no v(1) F show ?thesis by auto
          next
            case R
            have "last y = last k'" "y \<noteq> []" using R V E B F u3 by simp_all
            with z(2) R show ?thesis by auto
          qed
        qed
      qed
    qed
  qed
qed

text \<open>The scan meets every assignment at the start of a line, or a value that begins with the flag.\<close>

lemma scan_meets:
  shows "flag_word flag \<Longrightarrow> s = y @ z \<Longrightarrow> (if y = [] then start else last y = newline) \<Longrightarrow> assignment flag z = Some (v, rest) \<Longrightarrow>
    v \<in> set (assigned_values flag start s) \<or> (\<exists>u. flag @ u \<in> set (assigned_values flag start s))"
proof (induction flag start s arbitrary: y z rule: assigned_values.induct)
  case (1 flag start)
  then have "z = []" by simp
  with 1 show ?case using assignment_shorter [of flag "[]" v rest] by simp
next
  case (2 flag start c s)
  show ?case
  proof (cases "if start then assignment flag (c # s) else None")
    case None
    then have "y \<noteq> []" using 2(4-6) by (auto split: if_splits)
    then obtain y' where y: "y = c # y'" "s = y' @ z" using 2(4) by (cases y) auto
    have "if y' = [] then (c = newline) else last y' = newline" using 2(5) y by (auto split: if_splits)
    from 2(1) [OF None 2(3) y(2) this 2(6)] None show ?thesis by simp
  next
    case (Some q)
    obtain w r where q: "q = (w, r)" by (cases q)
    with Some have start: "start" and w: "assignment flag (c # s) = Some (w, r)" by (auto split: if_splits)
    from 2(5) have y: "y = [] \<or> last y = newline" by (auto split: if_splits)
    obtain a b e where parts: "c # s = a @ flag @ b @ ''='' @ e @ w @ r" "\<forall>x \<in> set (a @ b @ e). is_space x"
      "\<forall>x \<in> set w. \<not> is_space x" "w \<noteq> []" "r \<noteq> [] \<Longrightarrow> is_space (hd r)"
      using assignment_parts [OF w] by blast
    from suffix_in_assignment [OF parts 2(3) 2(4) y 2(6)]
    consider "v = w" | u where "w = flag @ u" | u where "r = u @ z" "u \<noteq> []" "last u = newline" by blast
    then show ?thesis
    proof cases
      case 3
      have "if u = [] then False else last u = newline" using 3 by simp
      from 2(2) [OF Some q [symmetric] 2(3) 3(1) this 2(6)] Some q show ?thesis by auto
    qed (use Some q in auto)
  qed
qed

text \<open>A value that is no boolean ends the check, and so does a second value.\<close>

lemma truth_text_iff:
  "truth_text v = Some b \<longleftrightarrow> str_lower v = (if b then ''true'' else ''false'')"
  by (auto simp: truth_text_def Let_def)

lemma flag_word_no_truth:
  assumes "flag \<in> set hourly_flags" shows "truth_text (flag @ u) = None" "flag_word flag"
proof -
  have "str_lower (flag @ u) = flag @ str_lower u"
    using assms by (auto simp: hourly_flags_def str_lower_def to_lower_char_def)
  then show "truth_text (flag @ u) = None"
    using assms by (auto simp: truth_text_def Let_def hourly_flags_def)
  show "flag_word flag" using assms by (auto simp: flag_word_def hourly_flags_def is_space_def)
qed

lemma assign_flag_ok:
  "assign_flag p k vs v = Inr vs' \<Longrightarrow> \<exists>b. truth_text v = Some b \<and> map_of vs' k = Some b"
  by (auto simp: assign_flag_def split: option.splits if_splits)

lemma assign_flag_keeps:
  "assign_flag p k vs v = Inr vs' \<Longrightarrow> map_of vs flag = Some b \<Longrightarrow> map_of vs' flag = Some b"
  by (auto simp: assign_flag_def split: option.splits if_splits)

lemma hcl_flags_hold:
  assumes "hcl_flags p t = Inr f" and "flag \<in> set hourly_flags"
    and "v \<in> set (assigned_values flag True (strip_comments t))"
  shows "\<exists>b. truth_text v = Some b \<and> map_of f flag = Some b"
proof -
  let ?P = "\<lambda>f. \<exists>b. truth_text v = Some b \<and> map_of f flag = Some b"
  show ?thesis
  proof (rule foldE_reaches [OF assms(1) [unfolded hcl_flags_def] assms(2), where P = ?P])
    fix u x
    assume "foldE (assign_flag p flag) u (assigned_values flag True (strip_comments t)) = Inr x"
    then show "?P x"
      by (rule foldE_reaches [OF _ assms(3)]) (blast dest: assign_flag_ok assign_flag_keeps)+
  next
    fix u k x
    assume u: "?P u" and "foldE (assign_flag p k) u (assigned_values k True (strip_comments t)) = Inr x"
    from this(2) show "?P x"
      by (rule foldE_invariant [where P = ?P]) (use u assign_flag_keeps in blast)+
  qed
qed

section \<open>What a passing check establishes\<close>

definition hcl_off :: "string \<Rightarrow> string \<Rightarrow> bool" where
  "hcl_off t flag \<longleftrightarrow>
     (\<forall>y z v rest. strip_comments t = y @ z \<longrightarrow> y = [] \<or> last y = newline \<longrightarrow>
        assignment flag z = Some (v, rest) \<longrightarrow> str_lower v = ''false'')"

definition file_off :: "env \<Rightarrow> string \<Rightarrow> path \<Rightarrow> bool" where
  "file_off w flag p \<longleftrightarrow>
     (\<exists>t. read_text w p = Inr t \<and>
       (if json_suffix p
        then \<exists>payload. loads w t = Some payload \<and> (has_key payload flag \<longrightarrow> jget payload flag = JBool False)
        else hcl_off t flag))"

lemma none_set: "filter snd f = [] \<Longrightarrow> map_of f k \<noteq> Some True"
  by (fastforce simp: filter_empty_conv dest: map_of_SomeD)

lemma hcl_flags_off:
  assumes "hcl_flags p t = Inr f" and "filter snd f = []" and "flag \<in> set hourly_flags"
  shows "hcl_off t flag"
  unfolding hcl_off_def
proof (intro allI impI)
  fix y z v rest
  assume y: "strip_comments t = y @ z" "y = [] \<or> last y = newline" and z: "assignment flag z = Some (v, rest)"
  have "if y = [] then True else last y = newline" using y(2) by auto
  from scan_meets [OF flag_word_no_truth(2) [OF assms(3)] y(1) this z]
  consider "v \<in> set (assigned_values flag True (strip_comments t))"
    | u where "flag @ u \<in> set (assigned_values flag True (strip_comments t))" by blast
  then show "str_lower v = ''false''"
  proof cases
    case 1
    from hcl_flags_hold [OF assms(1,3) 1] none_set [OF assms(2), of flag]
    show ?thesis by (auto simp: truth_text_iff split: if_splits)
  next
    case 2
    from hcl_flags_hold [OF assms(1,3) 2] flag_word_no_truth(1) [OF assms(3)] show ?thesis by simp
  qed
qed

lemma json_flag_ok:
  assumes "json_flag p payload vs k = Inr vs'"
  shows "has_key payload k \<Longrightarrow> \<exists>b. jget payload k = JBool b \<and> map_of vs' k = Some b"
    and "k' \<noteq> k \<Longrightarrow> map_of vs' k' = map_of vs k'"
  using assms by (auto simp: json_flag_def split: if_splits json.splits)

lemma json_flags_off:
  assumes "foldE (json_flag p payload) [] hourly_flags = Inr f" and "filter snd f = []"
    and "flag \<in> set hourly_flags" and "has_key payload flag"
  shows "jget payload flag = JBool False"
proof -
  have "\<exists>b. jget payload flag = JBool b \<and> map_of f flag = Some b"
  proof (rule foldE_reaches [OF assms(1,3)])
    show "\<exists>b. jget payload flag = JBool b \<and> map_of x flag = Some b" if "json_flag p payload u flag = Inr x" for u x
      by (rule json_flag_ok(1) [OF that assms(4)])
  next
    fix u k x
    assume "\<exists>b. jget payload flag = JBool b \<and> map_of u flag = Some b" and "json_flag p payload u k = Inr x"
    then show "\<exists>b. jget payload flag = JBool b \<and> map_of x flag = Some b"
      using json_flag_ok assms(4) by (cases "k = flag") metis+
  qed
  with none_set [OF assms(2), of flag] show ?thesis by auto
qed

lemma flag_values_off:
  assumes "flag_values w p = Inr f" and "filter snd f = []" and "flag \<in> set hourly_flags"
  shows "file_off w flag p"
  using assms hcl_flags_off json_flags_off
  by (fastforce simp: flag_values_def parse_hcl_flags_def parse_json_flags_def file_off_def bindE_eq_Inr
      split: if_splits option.splits)

lemma enabled_none: "enabled_flags sources = [] \<longleftrightarrow> (\<forall>x \<in> set sources. filter snd (snd x) = [])"
  by (auto simp: enabled_flags_def split: prod.splits)

lemma environment_off:
  assumes "foldE (environment_flag h) [] hourly_flags = Inr f" and "filter snd f = []"
    and "flag \<in> set hourly_flags" and "host_environment h (''TF_VAR_'' @ flag) = Some v"
  shows "str_lower v = ''false''"
proof -
  have "\<exists>b. truth_text v = Some b \<and> map_of f flag = Some b"
  proof (rule foldE_reaches [OF assms(1,3)])
    show "\<exists>b. truth_text v = Some b \<and> map_of x flag = Some b" if "environment_flag h u flag = Inr x" for u x
      using that assms(4) by (auto simp: environment_flag_def split: option.splits)
  next
    fix u k x
    assume "\<exists>b. truth_text v = Some b \<and> map_of u flag = Some b" and "environment_flag h u k = Inr x"
    then show "\<exists>b. truth_text v = Some b \<and> map_of x flag = Some b"
      using assms(4) by (auto simp: environment_flag_def Let_def split: option.splits)
  qed
  with none_set [OF assms(2), of flag] show ?thesis by (auto simp: truth_text_iff split: if_splits)
qed

lemma argument_sources_off:
  assumes "argument_sources w h name = Inr srcs" and "\<forall>x \<in> set srcs. filter snd (snd x) = []"
    and "host_environment h name = Some v" and "v \<noteq> []" and "flag \<in> set hourly_flags"
  shows "\<exists>ps f. argument_variable_files w h (flag_directory w) v = Inr (ps, f) \<and> map_of f flag \<noteq> Some True \<and>
    (\<forall>p \<in> set ps. file_off w flag p)"
proof -
  from assms(1,3,4) obtain ps f more where a: "argument_variable_files w h (flag_directory w) v = Inr (ps, f)"
    and m: "mapE (\<lambda>p. file_source w (name @ '':'' @ path_text p) p) ps = Inr more" and srcs: "srcs = (name, f) # more"
    by (auto simp: argument_sources_def bindE_eq_Inr)
  have "file_off w flag p" if p: "p \<in> set ps" for p
  proof -
    obtain x where x: "x \<in> set more" "file_source w (name @ '':'' @ path_text p) p = Inr x"
      using list_all2_set1 [OF m [unfolded mapE_eq_Inr] p] by blast
    then obtain g where "flag_values w p = Inr g" "snd x = g" by (auto simp: file_source_def bindE_eq_Inr)
    with assms(2,5) srcs x(1) show ?thesis by (intro flag_values_off [of w p g]) auto
  qed
  moreover have "map_of f flag \<noteq> Some True" by (rule none_set) (use assms(2) srcs in simp)
  ultimately show ?thesis using a by blast
qed

lemma source_off:
  assumes "mapE (\<lambda>p. file_source w (n p) p) ps = Inr srcs" and "\<forall>x \<in> set srcs. filter snd (snd x) = []"
    and "p \<in> set ps" and "flag \<in> set hourly_flags"
  shows "file_off w flag p"
proof -
  obtain x where x: "x \<in> set srcs" "file_source w (n p) p = Inr x"
    using list_all2_set1 [OF assms(1) [unfolded mapE_eq_Inr] assms(3)] by blast
  then obtain g where "flag_values w p = Inr g" "snd x = g" by (auto simp: file_source_def bindE_eq_Inr)
  with assms(2,4) x(1) show ?thesis by (intro flag_values_off [of w p g]) auto
qed


section \<open>Spellings the check does not see\<close>


section \<open>A sample of variables\<close>

definition block_f :: "string \<Rightarrow> string" where
  "block_f flag = ''variable '' @ [CHR 0x22] @ flag @ [CHR 0x22] @ '' {'' @ [newline] @
     ''  type = bool'' @ [newline] @ ''  default = false'' @ [newline] @ ''}'' @ [newline]"

definition defaults_f :: string where
  "defaults_f = concat (map block_f hourly_flags)"

definition off_f :: string where
  "off_f = ''# hourly'' @ [newline] @ ''enable_eks = False # later'' @ [newline] @ ''region = 1'' @ [newline]"

definition terraform_f :: path where
  "terraform_f = [''infra'', ''terraform'', ''envs'', ''dev'']"

definition env_f :: env where
  "env_f = \<lparr>root_dir = [],
     files = (\<lambda>p. if p = terraform_f @ [''variables.tf''] then Some (regular 420 defaults_f)
       else if p \<in> {terraform_f @ [''terraform.tfvars''], terraform_f @ [''terraform.tfvars.example'']}
         then Some (regular 420 off_f) else None),
     outside = (\<lambda>b p. False), loads = (\<lambda>t. None), repeats = (\<lambda>t. False), decode = Some, sha256 = (\<lambda>b. b),
     answer = (\<lambda>t e. \<lparr>returncode = 0, stdout = [], stderr = []\<rparr>)\<rparr>"

definition host_f :: host where
  "host_f = \<lparr>host_names = (\<lambda>p. []), host_yamls = (\<lambda>p. []), host_shlex = (\<lambda>s. Some [s]), host_which = (\<lambda>n. True),
     host_python = ''python3'', host_depth = 1000,
     host_environment = (\<lambda>n. if n = ''TF_VAR_enable_eks'' then Some ''FALSE''
       else if n = ''TF_CLI_ARGS'' then Some ''-var=enable_eks=false'' else None),
     host_text_of = (\<lambda>e. '''')\<rparr>"

lemma defaults_off:
  assumes "flag \<in> set hourly_flags" shows "flag_default_false defaults_f flag"
proof -
  have "flag_default_false defaults_f ''enable_eks''" "flag_default_false defaults_f ''enable_msk''"
    "flag_default_false defaults_f ''enable_rds''" by code_simp+
  with assms show ?thesis by (auto simp: hourly_flags_def)
qed

lemma universal_f: "universal defaults_f = defaults_f" "universal off_f = off_f"
  by (rule universal_id; simp add: defaults_f_def off_f_def block_f_def hourly_flags_def newline_def)+

lemma off_values: "hcl_flags p off_f = Inr [(''enable_eks'', False)]"
proof -
  have v: "assigned_values ''enable_eks'' True (strip_comments off_f) = [''False'']"
    "assigned_values ''enable_msk'' True (strip_comments off_f) = []"
    "assigned_values ''enable_rds'' True (strip_comments off_f) = []"
    by code_simp+
  have t: "truth_text ''False'' = Some False" by code_simp
  show ?thesis by (simp add: hcl_flags_def hourly_flags_def v assign_flag_def t)
qed

lemma check_f: "check_hourly_flags env_f host_f = Inr ()"
proof -
  have dir: "flag_directory env_f = terraform_f" by (simp add: flag_directory_def env_f_def terraform_f_def)
  have read_f: "read_text env_f (terraform_f @ [''variables.tf'']) = Inr defaults_f"
    "read_text env_f (terraform_f @ [''terraform.tfvars'']) = Inr off_f"
    "read_text env_f (terraform_f @ [''terraform.tfvars.example'']) = Inr off_f"
    by (simp_all add: read_text_def read_bytes_def decode_lines_def decode_text_def env_f_def universal_f)
  have suffixes: "\<not> json_suffix (terraform_f @ [''terraform.tfvars''])" "\<not> json_suffix (terraform_f @ [''terraform.tfvars.example''])"
    by (simp_all add: json_suffix_def ends_with_def)
  have active: "active_variable_files env_f host_f terraform_f = [terraform_f @ [''terraform.tfvars'']]"
    by (simp add: active_variable_files_def host_f_def is_file_def env_f_def)
  have low: "truth_text ''FALSE'' = Some False" "truth_text ''false'' = Some False" by code_simp+
  have args: "argument_variable_files env_f host_f terraform_f ''-var=enable_eks=false'' = Inr ([], [(''enable_eks'', False)])"
    by (simp add: argument_variable_files_def host_f_def starts_with_def var_argument_def hourly_flags_def low)
  have vars: "host_environment host_f n = (if n = ''TF_VAR_enable_eks'' then Some ''FALSE''
      else if n = ''TF_CLI_ARGS'' then Some ''-var=enable_eks=false'' else None)" for n
    by (simp add: host_f_def)
  let ?off = "[(''enable_eks'', False)]"
  have one_file: "file_source env_f n (terraform_f @ [''terraform.tfvars'']) = Inr (n, ?off)"
    "file_source env_f n (terraform_f @ [''terraform.tfvars.example'']) = Inr (n, ?off)" for n
    by (simp_all add: file_source_def flag_values_def suffixes parse_hcl_flags_def read_f off_values)
  have envs: "foldE (environment_flag host_f) [] hourly_flags = Inr ?off"
    by (simp add: environment_flag_def hourly_flags_def host_f_def low)
  have cli: "mapE (argument_sources env_f host_f) argument_names = Inr [[], [(''TF_CLI_ARGS'', ?off)], [], []]"
    using args by (simp add: argument_names_def argument_sources_def dir vars)
  have "flag_sources env_f host_f = Inr [(path_text (terraform_f @ [''terraform.tfvars'']), ?off),
      (''terraform.tfvars.example'', ?off), (''TF_CLI_ARGS'', ?off), (''environment'', ?off)]"
    by (simp add: flag_sources_def dir active one_file envs cli)
  moreover have "foldE (\<lambda>u flag. ensure (flag_default_false defaults_f flag)
      (pfl ''Terraform default for {} is not false'' [JStr flag])) () hourly_flags = Inr ()"
    unfolding foldE_unit by (simp add: defaults_off)
  ultimately show ?thesis
    by (simp add: check_hourly_flags_def dir read_f enabled_flags_def)
qed

text \<open>Defaults and example alone, without variables in the environment.\<close>

lemma check_plain:
  assumes "root_dir w = []" and "read_text w (terraform_f @ [''variables.tf'']) = Inr defaults_f"
    and "read_text w (terraform_f @ [''terraform.tfvars.example'']) = Inr off_f"
    and "\<not> is_file w (terraform_f @ [''terraform.tfvars''])" and "\<not> is_file w (terraform_f @ [''terraform.tfvars.json''])"
    and "\<And>p. host_names h p = []" and "\<And>f. host_environment h (''TF_VAR_'' @ f) = None"
    and "\<forall>n \<in> set argument_names. host_environment h n = None"
  shows "check_hourly_flags w h = Inr ()"
proof -
  have dir: "flag_directory w = terraform_f" using assms(1) by (simp add: flag_directory_def terraform_f_def)
  have "\<not> json_suffix (terraform_f @ [''terraform.tfvars.example''])" by (simp add: json_suffix_def ends_with_def)
  then have example: "file_source w n (terraform_f @ [''terraform.tfvars.example'']) = Inr (n, [(''enable_eks'', False)])" for n
    by (simp add: file_source_def flag_values_def parse_hcl_flags_def assms(3) off_values)
  have active: "active_variable_files w h terraform_f = []"
    using assms(4-6) by (simp add: active_variable_files_def)
  have envs: "foldE (environment_flag h) [] hourly_flags = Inr []"
    using assms(7) by (simp only: environment_flag_def hourly_flags_def foldE.simps Let_def option.case bindE_Inr)
  have "mapE (argument_sources w h) argument_names = Inr [[], [], [], []]"
    using assms(8) by (simp add: argument_names_def argument_sources_def)
  then have "flag_sources w h = Inr [(''terraform.tfvars.example'', [(''enable_eks'', False)]), (''environment'', [])]"
    by (simp add: flag_sources_def dir active example envs)
  moreover have "foldE (\<lambda>u flag. ensure (flag_default_false defaults_f flag)
      (pfl ''Terraform default for {} is not false'' [JStr flag])) () hourly_flags = Inr ()"
    unfolding foldE_unit by (simp add: defaults_off)
  ultimately show ?thesis
    using assms(2) by (simp add: check_hourly_flags_def dir enabled_flags_def)
qed


end
