(* ===== verification/Preflight_Sample.thy ===== *)
theory Preflight_Sample
  imports Preflight_Correct Preflight_Flags_Correct
begin

text \<open>
  A repository in which the preflight passes: the closure receipt, the Terraform defaults, one
  manifest without images, the four receipts of the local rehearsals with the eight artifacts, and
  tools that answer as the script expects.
\<close>

definition local_p :: string where "local_p = ''20260101T000000Z''"
definition run_p :: string where "run_p = ''20260102T000000Z''"
definition commit_p :: string where "commit_p = replicate 40 (CHR ''0'')"
definition rehearsed_p :: path where "rehearsed_p = [''.evidence'', ''m4-local'', local_p]"
definition raw_p :: path where "raw_p = [''.evidence'', ''m4'', run_p]"

definition at_p :: datetime where
  "at_p = \<lparr>yr = 2026, mo = 1, dy = 2, hh = 0, mi = 0, ss = 0\<rparr>"

definition closure_p :: json where
  "closure_p = JObj [(''schema_version'', JInt 1), (''milestone'', JStr ''M3''), (''result'', JStr ''passed''),
     (''closure'', JObj [(''issue'', JInt 90), (''pull_request'', JInt 113), (''merge_commit'', JStr commit_p)]),
     (''commands'', JArr (map JStr m3_commands)),
     (''measurements'', JObj [(''produced_events'', JInt 600), (''peak_lag'', JInt 598), (''peak_consumers'', JInt 12),
        (''final_lag'', JInt 0), (''final_consumers'', JInt 1)]),
     (''recorded_in'', JArr [JStr ''infra/terraform/envs/dev/variables.tf''])]"

definition pass_p :: "obj \<Rightarrow> json" where
  "pass_p ps = JObj ([(''schema_version'', JInt 1), (''result'', JStr ''passed''), (''source_commit'', JStr commit_p),
     (''worktree_clean'', JBool True)] @ ps)"

definition flags_p :: "string list \<Rightarrow> obj" where
  "flags_p ks = map (\<lambda>k. (k, JBool True)) ks"

definition sigterm_p :: json where
  "sigterm_p = pass_p [(''cleanup'', JObj (flags_p [''sink_baseline_restored'', ''keda_pause_restored'',
     ''port_forwards_stopped'', ''database_lock_released'']))]"

definition demo_p :: json where
  "demo_p = pass_p [(''cleanup'', JObj (flags_p [''keda_pause_absent'', ''sink_baseline_restored'',
      ''verification_port_forward_stopped''])),
     (''observations'', JObj [(''final_lag'', JInt 0), (''final_consumers'', JInt 1), (''replay_completed'', JBool True),
        (''peak_lag'', JInt 598), (''peak_consumers'', JInt 12)])]"

definition abort_p :: json where
  "abort_p = pass_p ((''signal'', JStr ''SIGTERM'') # flags_p [''resource_audit_empty'', ''temporary_credentials_removed'',
     ''temporary_workspace_removed'', ''credential_canary_absent''])"

definition pod_p :: json where
  "pod_p = JArr [JObj [(''image_revision'', JStr commit_p), (''pod'', JStr ''p''), (''pod_uid'', JStr ''u''), (''image_id'', JStr ''i'')]]"

definition provenance_p :: json where
  "provenance_p = JObj [(''relay-ingest'', pod_p), (''relay-deliver'', pod_p), (''sink'', pod_p)]"

definition capture_p :: json where
  "capture_p = pass_p [(''run_id'', JStr local_p), (''environment'', JStr ''local''), (''cleanup_verified'', JBool True),
     (''provenance'', provenance_p), (''files'', JObj (map (\<lambda>n. (n, JStr ''x'')) captured_names))]"

definition workload_p :: json where
  "workload_p = JObj [(''image'', JStr ''relay:1'')]"

definition labels_p :: json where
  "labels_p = JObj [(''org.opencontainers.image.revision'', JStr commit_p)]"

text \<open>A file holds a name, and parsing a name gives the value it stands for.\<close>

definition table_p :: "(string \<times> json) list" where
  "table_p = [(''k8s-sigterm.json'', sigterm_p), (''demo-rehearsal.json'', demo_p), (''abort-rehearsal.json'', abort_p),
     (''capture-result.json'', capture_p), (''closure.json'', closure_p), (''workload'', workload_p), (''labels'', labels_p)]"

definition recipe_p :: string where
  "recipe_p = ''aws sts get-caller-identity; test -f infra/terraform/envs/dev/.terraform/terraform.tfstate; terraform destroy; terraform state pull''"

definition file_p :: "path \<Rightarrow> string option" where
  "file_p p =
     (if p \<in> set (map (\<lambda>n. rehearsed_p @ [n]) rehearsal_names) \<or>
         p = [''docs'', ''evidence'', ''m3'', ''20260905'', ''closure.json''] then Some (last p)
      else if p \<in> set (map (\<lambda>n. rehearsed_p @ [n]) captured_names) then Some ''x''
      else if p = terraform_f @ [''variables.tf''] then Some defaults_f
      else if p = terraform_f @ [''terraform.tfvars.example''] then Some off_f
      else if p = [''k8s'', ''monitoring-values-aws.yaml''] then Some [] else None)"

definition image_p :: string where "image_p = ''sha256:'' @ replicate 64 (CHR ''0'')"
definition meta_p :: string where "meta_p = ''labels|'' @ image_p"

definition output_p :: "string list \<Rightarrow> string" where
  "output_p c =
     (if c = [''git'', ''rev-parse'', ''HEAD''] then commit_p
      else if take 1 c = [''python3''] then ''workload''
      else if c = [''make'', ''--dry-run'', ''aws-down''] then recipe_p
      else if take 1 c = [''docker''] then meta_p else [])"

definition env_p :: env where
  "env_p = \<lparr>root_dir = [], files = (\<lambda>p. map_option (regular 420) (file_p p)), outside = (\<lambda>b p. False),
     loads = map_of table_p, repeats = (\<lambda>t. False), decode = Some, sha256 = (\<lambda>b. b),
     answer = (\<lambda>t e. \<lparr>returncode = 0, stdout = output_p (ev_command e), stderr = []\<rparr>)\<rparr>"

definition host_p :: host where
  "host_p = \<lparr>host_names = (\<lambda>p. []), host_yamls = (\<lambda>p. []), host_shlex = (\<lambda>s. None), host_which = (\<lambda>n. True),
     host_python = ''python3'', host_depth = 5,
     host_environment = (\<lambda>n. if n = ''M4_LOCAL_RUN_ID'' then Some local_p else None), host_text_of = (\<lambda>e. [])\<rparr>"

definition begun_p :: env where
  "begun_p = make_directories raw_p env_p"

lemma begun_simps [simp]:
  "root_dir begun_p = []" "loads begun_p = map_of table_p" "decode begun_p = Some" "sha256 begun_p = (\<lambda>b. b)"
  "returncode (answer begun_p t e) = 0" "stdout (answer begun_p t e) = output_p (ev_command e)"
  "stderr (answer begun_p t e) = []"
  by (simp_all add: begun_p_def make_directories_def env_p_def)

lemma begun_unlinked [simp]: "\<not> is_symlink begun_p p"
  by (simp add: is_symlink_def begun_p_def make_directories_def directory_def env_p_def split: option.splits)

lemma begun_file:
  assumes "file_p p = Some b" shows "files begun_p p = Some (regular 420 b)"
proof -
  have "p \<noteq> raw_p" using assms by (auto simp: file_p_def raw_p_def rehearsed_p_def terraform_f_def split: if_splits)
  then show ?thesis using assms by (simp add: begun_p_def make_directories_def env_p_def)
qed

lemma begun_reads:
  assumes "file_p p = Some b"
  shows "is_file begun_p p" "hash_path begun_p p = Inr b" "stat_size begun_p p = length b"
    "read_text begun_p p = Inr (universal b)"
  using begun_file [OF assms]
  by (simp_all add: is_file_def hash_path_def stat_size_def read_text_def read_bytes_def decode_lines_def decode_text_def)

lemma begun_beneath [simp]: "ensure_no_symlink begun_p p [] = Inr ()"
proof -
  have "[] \<noteq> q" if "q \<in> set (up_to [] p)" for q
    using set_takeWhileD [OF that [unfolded up_to_def]] by auto
  then show ?thesis unfolding ensure_no_symlink_def by (subst foldE_unit) (simp add: strict_prefix_def)
qed

lemma file_p_rehearsal: "n \<in> set rehearsal_names \<Longrightarrow> file_p (rehearsed_p @ [n]) = Some n"
  and file_p_capture: "n \<in> set captured_names \<Longrightarrow> file_p (rehearsed_p @ [n]) = Some ''x''"
proof -
  show "n \<in> set rehearsal_names \<Longrightarrow> file_p (rehearsed_p @ [n]) = Some n" by (simp add: file_p_def)
  assume n: "n \<in> set captured_names"
  have "set captured_names \<inter> set rehearsal_names = {}" by (simp add: captured_names_def rehearsal_names_def)
  with n show "file_p (rehearsed_p @ [n]) = Some ''x''"
    by (auto simp: file_p_def rehearsed_p_def)
qed

section \<open>The rehearsals\<close>

lemma local_id: "preflight_run_id local_p = Inr ()" "preflight_run_id run_p = Inr ()"
  by code_simp+

lemma universal_plain: "universal s = s" if "list_all (\<lambda>c. c \<noteq> CHR 0x0D) s"
  using that by (intro universal_id) (auto simp: list_all_iff)

lemma commit_shape_p: "commit_shape commit_p"
  by code_simp

lemma rehearsals_p:
  "mapE (read_rehearsal begun_p rehearsed_p commit_p) rehearsal_names = Inr
     [(''k8s-sigterm.json'', sigterm_p, ''k8s-sigterm.json''), (''demo-rehearsal.json'', demo_p, ''demo-rehearsal.json''),
      (''abort-rehearsal.json'', abort_p, ''abort-rehearsal.json''), (''capture-result.json'', capture_p, ''capture-result.json'')]"
proof -
  have one: "read_rehearsal begun_p rehearsed_p commit_p n = Inr (n, v, n)"
    if "n \<in> set rehearsal_names" "map_of table_p n = Some v" "clean_pass commit_p v" "length n \<le> 30" "list_all (\<lambda>c. c \<noteq> CHR 0x0D) n" for n v
    using begun_reads [OF file_p_rehearsal [OF that(1)]] that
    by (simp add: read_rehearsal_def parse_rehearsal_def universal_plain)
  have pass: "clean_pass commit_p (pass_p ps)" for ps by (simp add: clean_pass_def pass_p_def)
  have "read_rehearsal begun_p rehearsed_p commit_p ''k8s-sigterm.json'' = Inr (''k8s-sigterm.json'', sigterm_p, ''k8s-sigterm.json'')"
    by (rule one) (simp_all add: rehearsal_names_def table_p_def sigterm_p_def pass)
  moreover have "read_rehearsal begun_p rehearsed_p commit_p ''demo-rehearsal.json'' = Inr (''demo-rehearsal.json'', demo_p, ''demo-rehearsal.json'')"
    by (rule one) (simp_all add: rehearsal_names_def table_p_def demo_p_def pass)
  moreover have "read_rehearsal begun_p rehearsed_p commit_p ''abort-rehearsal.json'' = Inr (''abort-rehearsal.json'', abort_p, ''abort-rehearsal.json'')"
    by (rule one) (simp_all add: rehearsal_names_def table_p_def abort_p_def pass)
  moreover have "read_rehearsal begun_p rehearsed_p commit_p ''capture-result.json'' = Inr (''capture-result.json'', capture_p, ''capture-result.json'')"
    by (rule one) (simp_all add: rehearsal_names_def table_p_def capture_p_def pass)
  ultimately show ?thesis by (simp add: rehearsal_names_def)
qed

lemma provenance_ok:
  "check_pods commit_p pod_p = Inr ()" "keys_eq provenance_p [''relay-ingest'', ''relay-deliver'', ''sink'']"
  by (simp_all add: check_pods_def pod_p_def pod_matches_def provenance_p_def keys_eq_def)

lemma accepted_p: "is_ok (check_local_rehearsals begun_p local_p commit_p)"
proof -
  let ?rs = "[(''k8s-sigterm.json'', sigterm_p, ''k8s-sigterm.json''), (''demo-rehearsal.json'', demo_p, ''demo-rehearsal.json''),
      (''abort-rehearsal.json'', abort_p, ''abort-rehearsal.json''), (''capture-result.json'', capture_p, ''capture-result.json'')]"
  have dir: "rehearsal_dir begun_p local_p = rehearsed_p" by (simp add: rehearsal_dir_def rehearsed_p_def)
  have cleanup: "check_rehearsal_cleanup ?rs = Inr ()"
    by (simp add: check_rehearsal_cleanup_def cleanup_fields_def rehearsal_of_def sigterm_p_def demo_p_def pass_p_def
        flags_p_def all_true_def)
  have demo: "check_demo demo_p = Inr ()"
    by (simp add: check_demo_def demo_p_def pass_p_def above_def dec_lt_val)
  have abort: "check_abort abort_p = Inr ()"
    by (simp add: check_abort_def abort_p_def pass_p_def flags_p_def all_true_def)
  have "foldE (\<lambda>u p. check_pods commit_p (snd p)) () (obj_of provenance_p) = Inr ()"
    unfolding foldE_unit by (simp add: provenance_p_def provenance_ok(1))
  moreover have "jget capture_p ''provenance'' = provenance_p" "truthy provenance_p" "is_dict provenance_p"
    by (simp_all add: capture_p_def pass_p_def provenance_p_def)
  ultimately have prov: "check_provenance local_p commit_p capture_p = Inr ()"
    by (simp add: check_provenance_def provenance_ok(2)) (simp add: capture_p_def pass_p_def)
  have listed: "jget capture_p ''files'' = JObj (map (\<lambda>n. (n, JStr ''x'')) captured_names)"
    by (simp add: capture_p_def pass_p_def)
  have "check_captured_file begun_p rehearsed_p (JObj (map (\<lambda>n. (n, JStr ''x'')) captured_names)) n = Inr ()"
    if n: "n \<in> set captured_names" for n
    using begun_reads [OF file_p_capture [OF n]] n
    by (auto simp: captured_file_ok jget_def map_of_map_restrict restrict_map_def)
  then have "foldE (\<lambda>u n. check_captured_file begun_p rehearsed_p (JObj (map (\<lambda>n. (n, JStr ''x'')) captured_names)) n) ()
      captured_names = Inr ()"
    unfolding foldE_unit by blast
  then have files: "check_captured_files begun_p rehearsed_p capture_p = Inr ()"
    by (simp add: check_captured_files_def listed keys_eq_def image_image)
  show ?thesis
    using cleanup demo abort prov files
    by (simp add: check_local_rehearsals_def local_id dir rehearsals_p rehearsal_of_def)
qed

section \<open>The repository\<close>

lemma command_p: "returns (run_text_command c) begun_p t (0, universal (output_p c), []) (t @ [\<lparr>ev_command = c, ev_input = None\<rparr>])"
  by (simp add: run_text_command_def io_simps decode_lines_def decode_text_def)

lemma output_returns: "returns (command_output c) begun_p t (universal (output_p c)) (t @ [\<lparr>ev_command = c, ev_input = None\<rparr>])"
  unfolding command_output_def returns_bind
  by (rule exI [of _ "(0, universal (output_p c), [])"]) (use command_p in \<open>auto simp: io_simps\<close>)

lemma m3_p: "read_m3 begun_p = Inr closure_p" "validate_m3 begun_p closure_p = Inr commit_p"
proof -
  let ?p = "[''docs'', ''evidence'', ''m3'', ''20260905'', ''closure.json'']"
  have "file_p ?p = Some ''closure.json''" by (simp add: file_p_def rehearsed_p_def rehearsal_names_def)
  note r = begun_reads [OF this]
  show "read_m3 begun_p = Inr closure_p"
    using r by (simp add: read_m3_def universal_plain table_p_def closure_p_def)
  have parts: "path_parts [] ''infra/terraform/envs/dev/variables.tf'' = terraform_f @ [''variables.tf'']"
    unfolding terraform_f_def by code_simp
  have "file_p (terraform_f @ [''variables.tf'']) = Some defaults_f"
    by (simp add: file_p_def rehearsed_p_def terraform_f_def rehearsal_names_def captured_names_def)
  from begun_reads(1) [OF this] have "m3_record begun_p (JStr ''infra/terraform/envs/dev/variables.tf'') = Inr ()"
    by (simp add: m3_record_def is_absolute_def starts_with_def join_path_def parts) (simp add: terraform_f_def)
  moreover have "m3_measured (jget closure_p ''measurements'')" by (simp add: m3_measured_def closure_p_def)
  moreover have "py_subset m3_commands (map JStr m3_commands) = Inr True" by (simp add: py_subset_def m3_commands_def)
  ultimately show "validate_m3 begun_p closure_p = Inr commit_p"
    by (simp add: validate_m3_def closure_p_def commit_shape_p)
qed

lemma hourly_p: "check_hourly_flags begun_p host_p = Inr ()"
proof (rule check_plain)
  have v: "file_p (terraform_f @ [''variables.tf'']) = Some defaults_f"
    "file_p (terraform_f @ [''terraform.tfvars.example'']) = Some off_f"
    by (simp_all add: file_p_def rehearsed_p_def terraform_f_def rehearsal_names_def captured_names_def)
  show "read_text begun_p (terraform_f @ [''variables.tf'']) = Inr defaults_f"
    "read_text begun_p (terraform_f @ [''terraform.tfvars.example'']) = Inr off_f"
    using begun_reads(4) [OF v(1)] begun_reads(4) [OF v(2)] by (simp_all add: universal_f)
  show "\<not> is_file begun_p (terraform_f @ [''terraform.tfvars''])" "\<not> is_file begun_p (terraform_f @ [''terraform.tfvars.json''])"
    by (simp_all add: is_file_def begun_p_def make_directories_def env_p_def terraform_f_def raw_p_def file_p_def
        rehearsed_p_def rehearsal_names_def captured_names_def strict_prefix_def)
qed (simp_all add: host_p_def argument_names_def)

lemma roots_p: "\<exists>u. returns check_evidence_roots begun_p t ([''.evidence'', ''m4''], [''docs'', ''evidence'', ''m4'']) u"
  by (simp add: check_evidence_roots_def io_simps)

lemma workload_scan: "validate_document begun_p host_p (n, workload_p) = Inr ()"
proof -
  have "\<not> json_like (strip ''relay:1'')" "image_is_pinned ''relay:1''" "\<not> local_endpoint ''relay:1''" by code_simp+
  then show ?thesis
    by (simp add: validate_document_def host_p_def workload_p_def eval_nat_numeral yield_then_def image_entries_def)
qed

lemma documents_p: "\<exists>ds u. returns (render_documents host_p) begun_p t ds u"
proof -
  have one: "returns (render_document (n, ''python3'' # c)) begun_p t (n, workload_p)
      (t @ [\<lparr>ev_command = ''python3'' # c, ev_input = None\<rparr>])" for n c t
    unfolding render_document_def returns_bind
    by (rule exI [of _ "''workload''"], rule exI [of _ "t @ [\<lparr>ev_command = ''python3'' # c, ev_input = None\<rparr>]"])
      (use output_returns [of "''python3'' # c" t] in \<open>simp add: io_simps output_p_def universal_plain table_p_def\<close>)
  have "\<exists>u. returns (mapIO render_document (map (\<lambda>(n, c). (n, ''python3'' # c)) ncs)) begun_p t (map (\<lambda>nc. (fst nc, workload_p)) ncs) u" for ncs
  proof (induction ncs arbitrary: t)
    case Nil
    then show ?case by (simp add: io_simps)
  next
    case (Cons nc ncs)
    obtain n c where nc: "nc = (n, c)" by (cases nc)
    obtain u where "returns (mapIO render_document (map (\<lambda>(n, c). (n, ''python3'' # c)) ncs)) begun_p
        (t @ [\<lparr>ev_command = ''python3'' # c, ev_input = None\<rparr>]) (map (\<lambda>nc. (fst nc, workload_p)) ncs) u"
      using Cons.IH by blast
    with one [of n c t] show ?case unfolding nc by (auto simp: io_simps)
  qed
  note mapped = this
  have cmds: "render_commands begun_p host_p =
      map (\<lambda>(n, c). (n, ''python3'' # c)) (map (\<lambda>(n, c). (n, tl c)) (render_commands begun_p host_p))"
    by (simp add: render_commands_def host_p_def Let_def)
  obtain u where "returns (mapIO render_document (render_commands begun_p host_p)) begun_p t
      (map (\<lambda>nc. (fst nc, workload_p)) (map (\<lambda>(n, c). (n, tl c)) (render_commands begun_p host_p))) u"
    using mapped cmds by metis
  moreover have "validate_rendered_documents begun_p host_p
      (map (\<lambda>nc. (fst nc, workload_p)) (map (\<lambda>(n, c). (n, tl c)) (render_commands begun_p host_p))) = Inr ()"
    unfolding validate_rendered_documents_def foldE_unit by (auto simp: workload_scan)
  ultimately show ?thesis by (auto simp: render_documents_def io_simps)
qed

lemma manifests_p: "\<exists>ms. check_tracked_aws_manifests begun_p host_p = Inr ms"
proof -
  have "file_p [''k8s'', ''monitoring-values-aws.yaml''] = Some []"
    by (simp add: file_p_def rehearsed_p_def terraform_f_def rehearsal_names_def captured_names_def)
  from begun_reads(4) [OF this] show ?thesis
    by (simp add: check_tracked_aws_manifests_def manifest_files_def host_p_def check_tracked_manifest_def)
qed

lemma recipe_ok: "validate_destroy_recipe (universal recipe_p) = Inr ()"
  by code_simp

lemma repository_p: "\<exists>r u. returns (preflight_repository host_p) begun_p t r u"
proof -
  obtain u1 where 1: "returns check_m3_receipt begun_p t commit_p u1"
  proof -
    note c = command_p [of "[''git'', ''merge-base'', ''--is-ancestor'', commit_p, ''HEAD'']" t]
    have "\<exists>u. returns check_m3_receipt begun_p t commit_p u"
      by (simp add: check_m3_receipt_def io_simps m3_p) (use c in blast)
    then show thesis using that by blast
  qed
  obtain u2 where 2: "returns check_evidence_roots begun_p u1 ([''.evidence'', ''m4''], [''docs'', ''evidence'', ''m4'']) u2"
    using roots_p by blast
  obtain ds u3 where 3: "returns (render_documents host_p) begun_p u2 ds u3" using documents_p by blast
  obtain ms where 4: "check_tracked_aws_manifests begun_p host_p = Inr ms" using manifests_p by blast
  obtain u5 where 5: "returns (command_output [''make'', ''--dry-run'', ''aws-down'']) begun_p u3 (universal recipe_p) u5"
    using output_returns [of "[''make'', ''--dry-run'', ''aws-down'']" u3] by (auto simp: output_p_def)
  show ?thesis
    unfolding preflight_repository_def
    by (simp add: io_simps split_beta)
      (use 1 2 3 4 5 hourly_p recipe_ok in \<open>metis fst_conv snd_conv\<close>)
qed

section \<open>The run\<close>

lemma clean_head_p: "\<exists>u. returns check_clean_head begun_p t commit_p u"
proof -
  have u: "universal commit_p = commit_p" "strip commit_p = commit_p" by code_simp+
  obtain u1 where 1: "returns (command_output [''git'', ''rev-parse'', ''HEAD'']) begun_p t commit_p u1"
    using output_returns [of "[''git'', ''rev-parse'', ''HEAD'']" t] by (auto simp: output_p_def u)
  obtain u2 where 2: "returns (command_output [''git'', ''status'', ''--porcelain'', ''--untracked-files=all'']) begun_p u1 [] u2"
    using output_returns [of "[''git'', ''status'', ''--porcelain'', ''--untracked-files=all'']" u1] by (auto simp: output_p_def)
  show ?thesis
    unfolding check_clean_head_def Let_def
    by (simp add: io_simps) (use 1 2 u(2) commit_shape_p in \<open>force simp: strip_def\<close>)
qed

lemma inspected_p: "\<exists>m u. returns (preflight_inspect_image img commit_p) begun_p t m u"
proof -
  let ?c = "[''docker'', ''image'', ''inspect'', ''--format'', ''{{json .Config.Labels}}|{{.Id}}'', img]"
  have u: "universal meta_p = meta_p" "strip meta_p = meta_p" "takeWhile (\<lambda>c. c \<noteq> CHR ''|'') meta_p = ''labels''"
    "dropWhile (\<lambda>c. c \<noteq> CHR ''|'') meta_p = CHR ''|'' # image_p" "digest_shape image_p"
    by code_simp+
  have o: "output_p ?c = meta_p" by (simp add: output_p_def)
  have 1: "returns (command_output ?c) begun_p t meta_p (t @ [\<lparr>ev_command = ?c, ev_input = None\<rparr>])"
    using output_returns [of ?c t] unfolding o u(1) .
  have 2: "preflight_image_metadata begun_p ''labels'' image_p img commit_p =
      Inr (JObj [(''id'', JStr image_p), (''revision'', JStr commit_p)])"
    using u(5) by (simp add: preflight_image_metadata_def table_p_def labels_p_def)
  have "returns (let meta = strip meta_p; labels = takeWhile (\<lambda>c. c \<noteq> CHR ''|'') meta; rest = dropWhile (\<lambda>c. c \<noteq> CHR ''|'') meta in
      if rest = [] then lift (Inl (pfl ''docker returned invalid metadata for {}'' [JStr img]))
      else ask (\<lambda>w. preflight_image_metadata w labels (tl rest) img commit_p)) begun_p v
      (JObj [(''id'', JStr image_p), (''revision'', JStr commit_p)]) v" for v
    unfolding Let_def u by (simp add: returns_ask 2)
  with 1 show ?thesis unfolding preflight_inspect_image_def returns_bind by blast
qed

lemma step_ioI: "returns (f p) w t q u \<Longrightarrow> step_io f p w t = (q, Inr (), u)"
  by (simp add: step_io_ok)

lemma first_steps_p:
  "\<exists>p u. run_steps [tools_step host_p, repository_step host_p, commit_step, rehearsals_step host_p] no_progress begun_p t = (p, Inr (), u) \<and>
     pg_commit p = JStr commit_p"
proof -
  have req: "require_commands host_p = Inr ()" by (simp add: require_commands_def host_p_def required_commands_def)
  have "\<exists>p1 u1. tools_step host_p no_progress begun_p t = (p1, Inr (), u1)"
    by (simp add: tools_step_def step_io_ok io_simps req)
  then obtain p1 u1 where 1: "tools_step host_p no_progress begun_p t = (p1, Inr (), u1)" by blast
  obtain r u2 where "returns (preflight_repository host_p) begun_p u1 r u2" using repository_p by blast
  then have "\<exists>p2. repository_step host_p p1 begun_p u1 = (p2, Inr (), u2)"
    by (auto simp: repository_step_def step_io_ok io_simps)
  then obtain p2 where 2: "repository_step host_p p1 begun_p u1 = (p2, Inr (), u2)" by blast
  obtain u3 where "returns check_clean_head begun_p u2 commit_p u3" using clean_head_p by blast
  then have 3: "commit_step p2 begun_p u2 = (p2\<lparr>pg_commit := JStr commit_p\<rparr>, Inr (), u3)"
    by (auto simp: commit_step_def io_simps intro!: step_ioI)
  obtain r where r: "check_local_rehearsals begun_p (local_run_of host_p) commit_p = Inr r"
    using accepted_p by (auto simp: is_ok_iff local_run_of_def host_p_def)
  have 4: "\<exists>p4. rehearsals_step host_p (p2\<lparr>pg_commit := JStr commit_p\<rparr>) begun_p u3 = (p4, Inr (), u3) \<and> pg_commit p4 = JStr commit_p"
  proof -
    have "rehearsals_step host_p (p2\<lparr>pg_commit := JStr commit_p\<rparr>) begun_p u3 =
        (noted ''clean source commit'' ''git status'' ''passed'' (p2\<lparr>pg_commit := JStr commit_p, pg_rehearsals := Some r\<rparr>), Inr (), u3)"
      unfolding rehearsals_step_def by (rule step_ioI) (simp add: io_simps r)
    then show ?thesis by simp
  qed
  from 1 2 3 4 show ?thesis by auto
qed

lemma later_steps_p:
  assumes "\<forall>s \<in> set steps. (\<exists>n c. s = run_step n c) \<or> (\<exists>img. s = image_step img)" and "pg_commit p = JStr commit_p"
  shows "\<exists>q u. run_steps steps p begun_p t = (q, Inr (), u)"
  using assms
proof (induction steps arbitrary: p t)
  case Nil
  then show ?case by simp
next
  case (Cons s rest)
  have "\<exists>q u. s p begun_p t = (q, Inr (), u) \<and> pg_commit q = JStr commit_p"
  proof -
    from Cons.prems(1) consider n c where "s = run_step n c" | img where "s = image_step img" by auto
    then show ?thesis
    proof cases
      case 1
      with Cons.prems(2) show ?thesis by (simp add: run_step_def)
    next
      case 2
      obtain m u where "returns (preflight_inspect_image img commit_p) begun_p t m u" using inspected_p by blast
      then have "returns (bindIO (preflight_inspect_image img (str_of (pg_commit p)))
          (\<lambda>m. lift (Inr (p\<lparr>pg_images := al_set (pg_images p) img m\<rparr>)))) begun_p t (p\<lparr>pg_images := al_set (pg_images p) img m\<rparr>) u"
        using Cons.prems(2) by (auto simp: io_simps)
      then have "image_step img p begun_p t = (p\<lparr>pg_images := al_set (pg_images p) img m\<rparr>, Inr (), u)"
        by (simp add: image_step_def step_io_ok)
      then show ?thesis using 2 Cons.prems(2) by auto
    qed
  qed
  then obtain q u where s: "s p begun_p t = (q, Inr (), u)" and q: "pg_commit q = JStr commit_p" by blast
  obtain q' u' where "run_steps rest q begun_p u = (q', Inr (), u')"
    using Cons.IH [OF _ q] Cons.prems(1) by (meson list.set_intros(2))
  with s show ?case by simp
qed

lemma steps_p: "\<exists>p u. run_steps (preflight_steps host_p) no_progress begun_p t = (p, Inr (), u)"
proof -
  obtain p u where first: "run_steps [tools_step host_p, repository_step host_p, commit_step, rehearsals_step host_p]
      no_progress begun_p t = (p, Inr (), u)" and p: "pg_commit p = JStr commit_p"
    using first_steps_p by blast
  define later where "later = drop 4 (preflight_steps host_p)"
  have split: "preflight_steps host_p =
      [tools_step host_p, repository_step host_p, commit_step, rehearsals_step host_p] @ later"
    by (simp add: preflight_steps_def later_def)
  have "\<forall>s \<in> set later. (\<exists>n c. s = run_step n c) \<or> (\<exists>img. s = image_step img)"
    by (auto simp: later_def preflight_steps_def terraform_steps_def contract_step_def)
  from later_steps_p [OF this p] obtain q v where "run_steps later p begun_p u = (q, Inr (), v)" by blast
  with first show ?thesis unfolding split run_steps_append by blast
qed

lemma run_p: "\<exists>u w'. run_preflight host_p run_p at_p at_p env_p [] = (Inr (raw_p @ [''00-preflight.json'']), u, w')"
proof -
  have unlinked: "\<not> is_symlink env_p p" for p
    by (simp add: is_symlink_def env_p_def split: option.splits)
  have beneath: "ensure_no_symlink env_p p [] = Inr ()" for p
  proof -
    have "[] \<noteq> q" if "q \<in> set (up_to [] p)" for q
      using set_takeWhileD [OF that [unfolded up_to_def]] by auto
    then show ?thesis unfolding ensure_no_symlink_def by (subst foldE_unit) (simp add: strict_prefix_def unlinked)
  qed
  have root: "root_dir env_p = []" by (simp add: env_p_def)
  have none: "file_p (raw_p @ [n]) = None" "file_p raw_p = None" "file_p [''docs'', ''evidence'', ''m4'', run_p] = None"
    "file_p (take k raw_p) = None" for n k
  proof -
    show "file_p (raw_p @ [n]) = None" "file_p raw_p = None" "file_p [''docs'', ''evidence'', ''m4'', run_p] = None"
      by (auto simp: file_p_def raw_p_def rehearsed_p_def terraform_f_def)
    have "length (take k raw_p) \<le> 3" by (simp add: raw_p_def)
    then show "file_p (take k raw_p) = None"
      by (auto simp: file_p_def rehearsed_p_def terraform_f_def raw_p_def take_Cons' split: if_splits)
  qed
  have paths: "\<exists>u. returns (preflight_paths host_p run_p) env_p [] (raw_p, [''docs'', ''evidence'', ''m4'', run_p]) u"
    by (simp add: preflight_paths_def check_evidence_roots_def io_simps beneath root local_id Let_def)
      (simp add: env_p_def present_def none raw_p_def)
  then obtain u where u: "preflight_paths host_p run_p env_p [] = (Inr (raw_p, [''docs'', ''evidence'', ''m4'', run_p]), u)"
    by (auto simp: returns_def)
  have gone: "files env_p raw_p = None" "\<not> present env_p raw_p" "\<not> is_file env_p (take k raw_p)" for k
    by (simp_all add: env_p_def none present_def is_file_def)
  have fresh: "files begun_p (raw_p @ [n]) = None" for n
    by (simp add: begun_p_def make_directories_def env_p_def none strict_prefix_def)
  have create: "create_raw raw_p env_p = (Inr (), begun_p)"
    using gone by (simp add: create_raw_def bindA_def reads_def begun_p_def list_ex_iff)
  obtain p v where st: "run_steps (preflight_steps host_p) no_progress begun_p u = (p, Inr (), v)" using steps_p by blast
  show ?thesis
    using u create st fresh
    by (simp add: run_preflight_def bindA_def reads_def present_def write_receipt_def receipt_temporary_def Let_def butlast_append)
qed

section \<open>Witnesses\<close>


theorem preflight_receipt_typed_witness:
  "\<exists>v. receipt_type v \<and> jget v ''result'' = JStr ''passed''"
proof -
  obtain u w' where r: "run_preflight host_p run_p at_p at_p env_p [] = (Inr (raw_p @ [''00-preflight.json'']), u, w')"
    using run_p by blast
  have dir: "run_dir env_p run_p = raw_p" by (simp add: run_dir_def env_p_def raw_p_def)
  have time: "valid_time at_p" by code_simp
  have "files env_p (raw_p @ [''00-preflight.json'']) = None"
    by (auto simp: env_p_def file_p_def raw_p_def rehearsed_p_def terraform_f_def)
  moreover have "files w' (raw_p @ [''00-preflight.json'']) \<noteq> None"
    using r by (cases rule: run_preflight_receipt) (simp_all add: dir)
  ultimately show ?thesis
    using preflight_receipt_typed [OF r _ time time] unfolding dir by auto
qed

theorem local_rehearsals_bound_witness:
  "\<exists>v h. receipt_at begun_p (rehearsed_p @ [''abort-rehearsal.json'']) v \<and> clean_pass commit_p v \<and>
    hash_path begun_p (rehearsed_p @ [''abort-rehearsal.json'']) = Inr h"
proof -
  obtain r where r: "check_local_rehearsals begun_p local_p commit_p = Inr r" using accepted_p by (auto simp: is_ok_iff)
  have dir: "rehearsal_dir begun_p local_p = rehearsed_p" by (simp add: rehearsal_dir_def rehearsed_p_def)
  from local_rehearsals_bound [OF r] show ?thesis unfolding dir rehearsal_names_def by auto
qed

theorem preflight_receipt_accepted_witness:
  "\<exists>w r. stage_require_preflight w run_p commit_p = Inr r \<and> account_require_preflight w run_p commit_p = Inr () \<and>
    inventory_preflight w run_p commit_p = Inr () \<and> validate_preflight w (run_dir w run_p) run_p = Inr r"
proof -
  obtain u w' where r: "run_preflight host_p run_p at_p at_p env_p [] = (Inr (raw_p @ [''00-preflight.json'']), u, w')"
    using run_p by blast
  have dir: "run_dir env_p run_p = raw_p" by (simp add: run_dir_def env_p_def raw_p_def)
  define v where "v = JObj [(''schema_version'', JInt 1), (''run_id'', JStr run_p), (''commit'', JStr commit_p), (''result'', JStr ''passed'')]"
  define later where "later = w'\<lparr>loads := (\<lambda>s. Some v), decode := Some, repeats := (\<lambda>s. False), outside := (\<lambda>b p. False)\<rparr>"
  have w': "root_dir w' = []"
    using r by (cases rule: run_preflight_receipt) (simp_all add: make_directories_def env_p_def)
  have unlinked: "\<not> is_symlink w' p" for p
    using r by (cases rule: run_preflight_receipt)
      (auto simp: make_directories_def env_p_def is_symlink_def directory_def split: option.splits)
  have later: "root_dir later = []" "\<not> is_symlink later p" "\<not> outside later b p" for b p
    using w' unlinked by (simp_all add: later_def is_symlink_def)
  have beneath: "ensure_beneath later (raw_p @ [''00-preflight.json'']) (root_dir later) = Inr ()"
    using beneath_root [OF later(1,3,2)] later(1) by simp
  have "\<exists>rec c. files later (raw_p @ [''00-preflight.json'']) = Some (regular 384 (json_dump rec)) \<and>
      jget rec ''schema_version'' = JInt 1 \<and> jget rec ''run_id'' = JStr run_p \<and> jget rec ''result'' = JStr ''passed'' \<and>
      jget rec ''commit'' = JStr c \<and> (\<exists>x y. returns check_clean_head begun_p x c y) \<and>
      (\<forall>s q. decode later (json_dump rec) = Some s \<and> loads later s = Some q \<and> \<not> repeats later s \<and> is_dict q \<and>
        (\<forall>k \<in> set bound_fields. jget q k = jget rec k) \<longrightarrow>
      stage_require_preflight later run_p c = Inr q \<and> account_require_preflight later run_p c = Inr () \<and>
      inventory_preflight later run_p c = Inr () \<and> validate_preflight later (run_dir later run_p) run_p = Inr q)"
    using preflight_receipt_accepted [OF r, of later] later(1) beneath dir
    by (simp add: later_def begun_p_def env_p_def [THEN arg_cong, of root_dir])
  then obtain rec c where rec: "jget rec ''schema_version'' = JInt 1" "jget rec ''run_id'' = JStr run_p"
      "jget rec ''result'' = JStr ''passed''" "jget rec ''commit'' = JStr c"
    and head: "\<exists>x y. returns check_clean_head begun_p x c y"
    and ok: "\<forall>s q. decode later (json_dump rec) = Some s \<and> loads later s = Some q \<and> \<not> repeats later s \<and> is_dict q \<and>
        (\<forall>k \<in> set bound_fields. jget q k = jget rec k) \<longrightarrow>
      stage_require_preflight later run_p c = Inr q \<and> account_require_preflight later run_p c = Inr () \<and>
      inventory_preflight later run_p c = Inr () \<and> validate_preflight later (run_dir later run_p) run_p = Inr q" by blast
  have c: "c = commit_p"
  proof -
    obtain x y where xy: "returns check_clean_head begun_p x c y" using head by blast
    moreover obtain z where "returns check_clean_head begun_p x commit_p z" using clean_head_p by blast
    ultimately show ?thesis by (simp add: returns_def)
  qed
  have "\<forall>k \<in> set bound_fields. jget v k = jget rec k" using rec c by (simp add: bound_fields_def v_def)
  then show ?thesis
    using ok [rule_format, of "json_dump rec" v] c by (auto simp: later_def v_def)
qed


end
