(* ===== verification/Renderer.thy ===== *)
theory Renderer
  imports Stage_Images Py_World
begin

text \<open>
  scripts/render-aws-k8s.py: the untracked documents of the AWS run. The root Application of
  Argo CD, with the images and the brokers as JSON text inside Kustomize patches, the replay Job,
  and the runtime ConfigMap. The inputs are checked by shape and, when a GO packet is given,
  against the packet.
\<close>

section \<open>Arguments\<close>

text \<open>
  The attributes of the parsed arguments; \<open>None\<close> is an option that was not given or that the
  command does not have.
\<close>

record render_args =
  ra_commit :: string
  ra_relay_image :: string
  ra_sink_image :: "string option"
  ra_run_id :: "string option"
  ra_go_no_go :: "path option"
  ra_msk_bootstrap :: string
  ra_repo_url :: string
  ra_since :: string

datatype render_command = Application | Replay | Runtime

text \<open>\<open>fail\<close>.\<close>

definition fail :: "string \<Rightarrow> json list \<Rightarrow> exn" where
  "fail t args = SystemExit t args"

section \<open>Shapes\<close>

definition ecr_prefix :: string where
  "ecr_prefix = ''.dkr.ecr.us-east-1.amazonaws.com/mlp-dev/''"

text \<open>The groups of \<open>ECR_IMAGE_RE.fullmatch\<close>: the account and the name.\<close>

definition ecr_image :: "string \<Rightarrow> (string \<times> string) option" where
  "ecr_image s =
     (let account = take 12 s; after_account = drop 12 s; body = drop (length ecr_prefix) after_account;
          name = takeWhile (\<lambda>c. c \<noteq> CHR ''@'') body; digest = drop (length name) body in
      if length account = 12 \<and> list_all is_digit account \<and> starts_with after_account ecr_prefix \<and>
         name \<in> {''relay'', ''sink''} \<and> digest \<noteq> [] \<and> digest_shape (tl digest)
      then Some (account, name) else None)"

definition broker_char :: "char \<Rightarrow> bool" where
  "broker_char c \<longleftrightarrow> c \<in> set (''abcdefghijklmnopqrstuvwxyz'' @ ''ABCDEFGHIJKLMNOPQRSTUVWXYZ'' @ digits10 @ ''.-'')"

definition broker_suffix :: string where
  "broker_suffix = ''.kafka-serverless.us-east-1.amazonaws.com:9098''"

definition broker :: "string \<Rightarrow> bool" where
  "broker s \<longleftrightarrow> ends_with s broker_suffix \<and> remove_suffix s broker_suffix \<noteq> [] \<and>
     list_all broker_char (remove_suffix s broker_suffix)"

text \<open>\<open>MSK_RE.fullmatch\<close>: no broker contains a comma.\<close>

definition msk_brokers :: "string \<Rightarrow> bool" where
  "msk_brokers s \<longleftrightarrow> list_all broker (split_at (CHR '','') s)"

text \<open>
  \<open>REPO_RE.fullmatch\<close>: an owner and a name; the optional \<open>.git\<close> consists of characters a name
  may have anyway.
\<close>

definition repo_char :: "char \<Rightarrow> bool" where
  "repo_char c \<longleftrightarrow> broker_char c \<or> c = CHR ''_''"

definition repo_url :: "string \<Rightarrow> bool" where
  "repo_url s \<longleftrightarrow> starts_with s ''https://github.com/'' \<and>
     (case split_at (CHR ''/'') (drop 19 s) of
        [account, name] \<Rightarrow> account \<noteq> [] \<and> list_all repo_char account \<and> name \<noteq> [] \<and> list_all repo_char name
      | _ \<Rightarrow> False)"

section \<open>Inputs\<close>

text \<open>\<open>image\<close>.\<close>

definition check_image_argument :: "string \<Rightarrow> string \<Rightarrow> (string \<times> string) res" where
  "check_image_argument v name =
     (case ecr_image v of
        Some (account, found) \<Rightarrow>
          if found = name then Inr (v, account)
          else Inl (fail ''{0} image must be the us-east-1 mlp-dev/{0} ECR repository selected by a sha256 digest'' [JStr name])
      | None \<Rightarrow>
          Inl (fail ''{0} image must be the us-east-1 mlp-dev/{0} ECR repository selected by a sha256 digest'' [JStr name]))"

text \<open>A string argument that counts as given: \<open>if getattr(args, "sink_image", None)\<close>.\<close>

definition given :: "string option \<Rightarrow> string option" where
  "given a = (case a of Some s \<Rightarrow> if s = [] then None else Some s | None \<Rightarrow> None)"

definition packet_approves :: "json \<Rightarrow> string \<Rightarrow> string \<Rightarrow> bool res" where
  "packet_approves packet run_id commit =
     (if \<not> is_dict packet \<or> jget packet ''run_id'' \<noteq> JStr run_id \<or> jget packet ''source_commit'' \<noteq> JStr commit \<or>
         jget packet ''decision'' \<noteq> JStr ''go''
      then Inr False
      else bindE (py_get (jget_or packet ''gate'' (JObj [])) ''passed'' JNull) (\<lambda>p. Inr (p = JBool True)))"

definition check_render_packet :: "env \<Rightarrow> render_args \<Rightarrow> string \<Rightarrow> path \<Rightarrow> unit res" where
  "check_render_packet w a run_id p =
     bindE (ensure (\<not> is_symlink w p) (fail ''go/no-go packet must not be a symlink'' [])) (\<lambda>_.
     bindE (load_file w (fail ''cannot read go/no-go packet: {}'' [path_json p])
              (fail ''cannot read go/no-go packet: {}'' [path_json p]) p) (\<lambda>packet.
     bindE (packet_approves packet run_id (ra_commit a)) (\<lambda>approved.
     bindE (ensure approved (fail ''go/no-go packet does not approve this run and commit'' [])) (\<lambda>_.
     let references = jget packet ''image_references'' in
     bindE (ensure (is_dict references \<and> jget references ''relay'' = JStr (ra_relay_image a))
       (fail ''relay image does not match the go/no-go packet'' [])) (\<lambda>_.
       case given (ra_sink_image a) of
         None \<Rightarrow> Inr ()
       | Some sink \<Rightarrow> ensure (jget references ''sink'' = JStr sink)
           (fail ''sink image does not match the go/no-go packet'' []))))))"

text \<open>\<open>inputs\<close>.\<close>

definition render_inputs :: "env \<Rightarrow> render_args \<Rightarrow> (string \<times> string) res" where
  "render_inputs w a =
     bindE (ensure (commit_shape (ra_commit a)) (fail ''commit must be a full lowercase 40-character git SHA'' [])) (\<lambda>_.
     bindE (check_image_argument (ra_relay_image a) ''relay'') (\<lambda>relay.
     bindE (case given (ra_sink_image a) of
              None \<Rightarrow> Inr ()
            | Some sink \<Rightarrow> bindE (check_image_argument sink ''sink'') (\<lambda>found.
                ensure (snd found = snd relay) (fail ''relay and sink images must come from the same ECR registry'' []))) (\<lambda>_.
     bindE (ensure ((ra_go_no_go a = None) = (ra_run_id a = None))
       (fail ''run id and go/no-go packet must be supplied together'' [])) (\<lambda>_.
     bindE (case (ra_go_no_go a, ra_run_id a) of
              (Some p, Some r) \<Rightarrow> check_render_packet w a r p
            | _ \<Rightarrow> Inr ()) (\<lambda>_.
       Inr relay)))))"

section \<open>Compact JSON text\<close>

definition compact_block :: "char \<Rightarrow> char \<Rightarrow> string list \<Rightarrow> string" where
  "compact_block a z parts =
     (case parts of [] \<Rightarrow> [a, z] | p # ps \<Rightarrow> [a] @ p @ concat (map (\<lambda>q. '','' @ q) ps) @ [z])"

text \<open>\<open>json.dumps(v, separators=(",", ":"))\<close>.\<close>

fun json_compact :: "json \<Rightarrow> string" where
  "json_compact JNull = ''null''"
| "json_compact (JBool b) = (if b then ''true'' else ''false'')"
| "json_compact (JInt i) = int_str i"
| "json_compact (JFloat n) = json_float n"
| "json_compact (JStr s) = json_string s"
| "json_compact (JArr xs) = compact_block (CHR ''['') (CHR '']'') (map json_compact xs)"
| "json_compact (JObj ps) = compact_block (CHR ''{'') (CHR ''}'')
     (map (\<lambda>p. json_string (fst p) @ '':'' @ json_compact (snd p)) ps)"

section \<open>Documents\<close>

definition json_patch :: "string \<Rightarrow> string \<Rightarrow> json \<Rightarrow> json" where
  "json_patch op p v = JObj [(''op'', JStr op), (''path'', JStr p), (''value'', v)]"

definition revision_patch :: "render_args \<Rightarrow> json" where
  "revision_patch a = JArr
     [json_patch ''replace'' ''/spec/source/repoURL'' (JStr (ra_repo_url a)),
      json_patch ''replace'' ''/spec/source/targetRevision'' (JStr (ra_commit a))]"

definition brokers_patch :: "render_args \<Rightarrow> json" where
  "brokers_patch a =
     JArr [json_patch ''replace'' ''/spec/triggers/0/metadata/bootstrapServers'' (JStr (ra_msk_bootstrap a))]"

definition relay_source :: "render_args \<Rightarrow> string \<Rightarrow> json" where
  "relay_source a relay = JObj
     [(''images'', JArr [JStr (''example.invalid/mlp-dev/relay='' @ relay)]),
      (''patches'', JArr [JObj
        [(''target'', JObj [(''group'', JStr ''keda.sh''), (''version'', JStr ''v1alpha1''),
           (''kind'', JStr ''ScaledObject''), (''name'', JStr ''relay-deliver'')]),
         (''patch'', JStr (json_compact (brokers_patch a)))]])]"

definition relay_patch :: "render_args \<Rightarrow> string \<Rightarrow> json" where
  "relay_patch a relay = JArr [json_patch ''add'' ''/spec/source/kustomize'' (relay_source a relay)]"

definition sink_patch :: "string \<Rightarrow> json" where
  "sink_patch sink = JArr [json_patch ''add'' ''/spec/source/kustomize''
     (JObj [(''images'', JArr [JStr (''example.invalid/mlp-dev/sink='' @ sink)])])]"

definition application_target :: "(string \<times> json) list \<Rightarrow> json \<Rightarrow> json" where
  "application_target name patch =
     JObj [(''target'', JObj ([(''group'', JStr ''argoproj.io''), (''kind'', JStr ''Application'')] @ name)),
           (''patch'', JStr (json_compact patch))]"

definition application_document :: "render_args \<Rightarrow> string \<Rightarrow> string \<Rightarrow> json" where
  "application_document a relay sink = JObj
     [(''apiVersion'', JStr ''argoproj.io/v1alpha1''),
      (''kind'', JStr ''Application''),
      (''metadata'', JObj
        [(''name'', JStr ''root''), (''namespace'', JStr ''argocd''),
         (''annotations'', JObj
           [(''mlp.dev/runtime-config-map'', JStr ''relay-runtime''),
            (''mlp.dev/runtime-secret'', JStr ''relay-secrets'')]),
         (''finalizers'', JArr [JStr ''resources-finalizer.argocd.argoproj.io''])]),
      (''spec'', JObj
        [(''project'', JStr ''mlp-root''),
         (''source'', JObj
           [(''repoURL'', JStr (ra_repo_url a)),
            (''targetRevision'', JStr (ra_commit a)),
            (''path'', JStr ''k8s/apps/aws''),
            (''kustomize'', JObj [(''patches'', JArr
              [application_target [] (revision_patch a),
               application_target [(''name'', JStr ''relay'')] (relay_patch a relay),
               application_target [(''name'', JStr ''sink'')] (sink_patch sink)])])]),
         (''destination'', JObj
           [(''server'', JStr ''https://kubernetes.default.svc''), (''namespace'', JStr ''argocd'')]),
         (''syncPolicy'', JObj [(''automated'', JObj [(''prune'', JBool True), (''selfHeal'', JBool True)])])])]"

definition check_brokers :: "render_args \<Rightarrow> unit res" where
  "check_brokers a = ensure (msk_brokers (ra_msk_bootstrap a))
     (fail ''MSK bootstrap must be one or more us-east-1 Serverless IAM brokers on port 9098'' [])"

text \<open>The command line requires the sink image of this command; an empty one is no image.\<close>

definition root_application :: "env \<Rightarrow> render_args \<Rightarrow> json res" where
  "root_application w a =
     bindE (render_inputs w a) (\<lambda>relay.
     bindE (check_image_argument (case ra_sink_image a of Some s \<Rightarrow> s | None \<Rightarrow> []) ''sink'') (\<lambda>sink.
     bindE (check_brokers a) (\<lambda>_.
     bindE (ensure (repo_url (ra_repo_url a)) (fail ''repo URL must be an HTTPS GitHub repository URL'' [])) (\<lambda>_.
       Inr (application_document a (fst relay) (fst sink))))))"

definition replay_labels :: json where
  "replay_labels = JObj [(''app.kubernetes.io/name'', JStr ''relay-replay''),
     (''app.kubernetes.io/part-of'', JStr ''my-local-platform'')]"

definition replay_container :: "render_args \<Rightarrow> string \<Rightarrow> json" where
  "replay_container a relay = JObj
     [(''name'', JStr ''replay''),
      (''image'', JStr relay),
      (''imagePullPolicy'', JStr ''IfNotPresent''),
      (''command'', JArr [JStr ''/relay-replay'']),
      (''args'', JArr [JStr ''--group=relay-deliver'', JStr ''--topic=mlp.relay.deliveries'',
         JStr (''--since='' @ ra_since a), JStr ''--wait=30s'']),
      (''envFrom'', JArr [JObj [(''configMapRef'', JObj [(''name'', JStr ''relay-runtime'')])]]),
      (''securityContext'', JObj
        [(''allowPrivilegeEscalation'', JBool False), (''readOnlyRootFilesystem'', JBool True),
         (''capabilities'', JObj [(''drop'', JArr [JStr ''ALL''])])]),
      (''resources'', JObj
        [(''requests'', JObj [(''cpu'', JStr ''10m''), (''memory'', JStr ''32Mi'')]),
         (''limits'', JObj [(''memory'', JStr ''128Mi'')])])]"

definition replay_document :: "render_args \<Rightarrow> string \<Rightarrow> json" where
  "replay_document a relay = JObj
     [(''apiVersion'', JStr ''batch/v1''),
      (''kind'', JStr ''Job''),
      (''metadata'', JObj
        [(''generateName'', JStr ''relay-replay-''), (''namespace'', JStr ''mlp''),
         (''annotations'', JObj [(''mlp.dev/source-commit'', JStr (ra_commit a))]),
         (''labels'', replay_labels)]),
      (''spec'', JObj
        [(''backoffLimit'', JInt 0),
         (''activeDeadlineSeconds'', JInt 90),
         (''template'', JObj
           [(''metadata'', JObj [(''labels'', replay_labels)]),
            (''spec'', JObj
              [(''serviceAccountName'', JStr ''relay-deliver''),
               (''restartPolicy'', JStr ''Never''),
               (''securityContext'', JObj
                 [(''runAsNonRoot'', JBool True), (''runAsUser'', JInt 65532),
                  (''seccompProfile'', JObj [(''type'', JStr ''RuntimeDefault'')])]),
               (''containers'', JArr [replay_container a relay])])])])]"

definition replay_job :: "env \<Rightarrow> render_args \<Rightarrow> json res" where
  "replay_job w a =
     bindE (render_inputs w a) (\<lambda>relay.
     bindE (ensure (ra_since a = ''earliest'' \<or> parse_stamp (ra_since a) \<noteq> None)
       (fail ''since must be earliest or an RFC3339 UTC timestamp'' [])) (\<lambda>_.
       Inr (replay_document a (fst relay))))"

definition runtime_document :: "render_args \<Rightarrow> json" where
  "runtime_document a = JObj
     [(''apiVersion'', JStr ''v1''),
      (''kind'', JStr ''ConfigMap''),
      (''metadata'', JObj
        [(''name'', JStr ''relay-runtime''), (''namespace'', JStr ''mlp''),
         (''labels'', JObj [(''app.kubernetes.io/part-of'', JStr ''my-local-platform'')])]),
      (''data'', JObj
        [(''KAFKA_BOOTSTRAP'', JStr (ra_msk_bootstrap a)),
         (''KAFKA_AUTH_MODE'', JStr ''aws_msk_iam''),
         (''AWS_REGION'', JStr ''us-east-1''),
         (''DEPLOYMENT_ENVIRONMENT'', JStr ''aws''),
         (''RELAY_TOPIC'', JStr ''mlp.relay.deliveries''),
         (''RELAY_DLQ_TOPIC'', JStr ''mlp.relay.deliveries.dlq''),
         (''RELAY_CONSUMER_GROUP'', JStr ''relay-deliver''),
         (''RELAY_RETRY_DELAYS'', JStr ''demo''),
         (''RELAY_DELIVERY_TIMEOUT'', JStr ''2s''),
         (''RELAY_RETRY_JITTER'', JStr ''true''),
         (''OTEL_EXPORTER_OTLP_ENDPOINT'', JStr ''http://otel-collector:4317'')])]"

definition runtime_config :: "render_args \<Rightarrow> json res" where
  "runtime_config a = bindE (check_brokers a) (\<lambda>_. Inr (runtime_document a))"

text \<open>The document that \<open>main\<close> prints for a command.\<close>

definition rendered :: "env \<Rightarrow> render_command \<Rightarrow> render_args \<Rightarrow> json res" where
  "rendered w c a =
     (case c of Application \<Rightarrow> root_application w a | Replay \<Rightarrow> replay_job w a | Runtime \<Rightarrow> runtime_config a)"

end
