(* ===== verification/Renderer_Correct.thy ===== *)
theory Renderer_Correct
  imports Renderer Preflight_Repository_Correct Stage_Go_Sample Preflight_Sample
begin

text \<open>
  The renderer against its neighbours. The scan of m4-preflight.py finds exactly the given images
  in a rendered document, although two of them lie in JSON text inside JSON text, and they are
  pinned; the GO packet of m4-stage.py approves exactly its own images.
\<close>

section \<open>Images\<close>

lemma ecr_image_parts:
  assumes "ecr_image s = Some (account, name)"
  obtains d where "s = account @ ecr_prefix @ name @ ''@'' @ d" "digest_shape d" "length account = 12"
    "list_all is_digit account" "name \<in> {''relay'', ''sink''}"
proof -
  define body where "body = drop (length ecr_prefix) (drop 12 s)"
  define digest where "digest = drop (length name) body"
  from assms have acc: "account = take 12 s" "length account = 12" "list_all is_digit account"
      "starts_with (drop 12 s) ecr_prefix"
    and name: "name = takeWhile (\<lambda>c. c \<noteq> CHR ''@'') body" "name \<in> {''relay'', ''sink''}"
    and d: "digest \<noteq> []" "digest_shape (tl digest)"
    unfolding ecr_image_def Let_def body_def digest_def by (auto simp del: drop_drop split: if_splits)
  have "digest = dropWhile (\<lambda>c. c \<noteq> CHR ''@'') body"
    unfolding digest_def name(1) by (simp add: dropWhile_eq_drop)
  with d(1) have "hd digest = CHR ''@''" using hd_dropWhile [of "\<lambda>c. c \<noteq> CHR ''@''" body] by simp
  with d(1) have "digest = ''@'' @ tl digest" by (cases digest) auto
  moreover have "body = name @ digest"
    unfolding digest_def name(1) by (metis append_eq_conv_conj takeWhile_dropWhile_id)
  moreover have "s = account @ ecr_prefix @ body"
    using acc(1,4) unfolding body_def by (metis append_take_drop_id starts_with_iff append_eq_conv_conj)
  ultimately show ?thesis using that acc name d(2) by (metis append.assoc)
qed

lemma ecr_image_whole:
  assumes "length account = 12" "list_all is_digit account" "name \<in> {''relay'', ''sink''}" "digest_shape d"
  shows "ecr_image (account @ ecr_prefix @ name @ ''@'' @ d) = Some (account, name)"
  using assms by (auto simp: ecr_image_def Let_def)

lemma hex_repository: "is_hex c \<Longrightarrow> c \<noteq> CHR '':''" "is_digit c \<Longrightarrow> repository_char c \<and> c \<noteq> CHR '':''"
  by (auto simp: is_hex_def is_digit_def hex16_def digits10_def repository_char_def lower_digits_def)

lemma ecr_prefix_chars: "c \<in> set ecr_prefix \<Longrightarrow> repository_char c \<and> c \<noteq> CHR '':''"
  by (auto simp: ecr_prefix_def repository_char_def lower_digits_def)

lemma ecr_name_chars:
  "name \<in> {''relay'', ''sink''} \<Longrightarrow> c \<in> set name \<Longrightarrow> repository_char c \<and> c \<noteq> CHR '':''"
  by (auto simp: repository_char_def lower_digits_def)

lemma ecr_image_pinned:
  assumes "ecr_image s = Some (account, name)"
  shows "image_is_pinned s"
proof -
  from assms obtain d where s: "s = account @ ecr_prefix @ name @ ''@'' @ d" and d: "digest_shape d"
    and acc: "length account = 12" "list_all is_digit account" and name: "name \<in> {''relay'', ''sink''}"
    by (rule ecr_image_parts)
  from d have h: "d = ''sha256:'' @ drop 7 d" "length (drop 7 d) = 64" "list_all is_hex (drop 7 d)"
    using append_take_drop_id [of 7 d] by (simp_all add: digest_shape_def)
  define h where "h = drop 7 d"
  note h = h [folded h_def]
  let ?host = "account @ ecr_prefix @ name"
  have whole: "s = ?host @ ''@sha256:'' @ h" using s h(1) by simp
  then have len: "length s - 72 = length ?host" "72 \<le> length s" using h(2) by simp_all
  have plain: "\<forall>c \<in> set ?host. repository_char c \<and> c \<noteq> CHR '':''"
    using acc(2) ecr_name_chars [OF name] hex_repository(2) ecr_prefix_chars by (auto simp: list_all_iff)
  then have "takeWhile (\<lambda>c. c \<noteq> CHR '':'') ?host = ?host" by (auto simp: takeWhile_eq_all_conv)
  moreover have "all_of repository_char ?host" using plain name by (auto simp: all_of_def list_all_iff)
  ultimately have "repository_shape ?host" by (simp add: repository_shape_def)
  then have "image_reference s"
    unfolding image_reference_def Let_def len(1) using len(2) h(2,3) by (simp add: whole del: append_assoc)
  moreover have "contains_str s ''@sha256:''" unfolding contains_str_iff whole by blast
  ultimately show ?thesis by (simp add: image_is_pinned_def)
qed

section \<open>Rendered documents\<close>

lemma equals_digest:
  assumes "d = ''sha256:'' @ h" and "list_all is_hex h" and "\<not> is_hex (CHR ''='')"
  shows "CHR ''='' \<notin> set d"
  using assms by (auto simp: list_all_iff)

lemma ecr_image_no_equals:
  assumes "ecr_image s = Some (account, name)"
  shows "CHR ''='' \<notin> set s" and "s \<noteq> []" and "is_digit (hd s)"
proof -
  from assms obtain d where s: "s = account @ ecr_prefix @ name @ ''@'' @ d" and d: "digest_shape d"
    and acc: "length account = 12" "list_all is_digit account" and name: "name \<in> {''relay'', ''sink''}"
    by (rule ecr_image_parts)
  have "d = ''sha256:'' @ drop 7 d" "list_all is_hex (drop 7 d)"
    using d append_take_drop_id [of 7 d] by (simp_all add: digest_shape_def)
  moreover have "\<not> is_hex (CHR ''='')" "\<not> is_digit (CHR ''='')" by code_simp+
  ultimately have "CHR ''='' \<notin> set d" by (metis equals_digest)
  then show "CHR ''='' \<notin> set s"
    using acc(2) name \<open>\<not> is_digit (CHR ''='')\<close> unfolding s by (auto simp: list_all_iff ecr_prefix_def)
  from acc obtain c cs where "account = c # cs" "is_digit c" by (cases account) auto
  then show "s \<noteq> []" "is_digit (hd s)" by (simp_all add: s)
qed

lemma last_part_after: "c \<notin> set s \<Longrightarrow> last_part c (p @ c # s) = s"
  unfolding last_part_def by (simp add: takeWhile_append)

lemma plain_string:
  assumes "s \<noteq> []" and "\<not> is_space (hd s)" and "hd s \<noteq> CHR ''{''" and "hd s \<noteq> CHR ''[''"
  shows "\<not> json_like (strip s)"
proof -
  from assms have "dropWhile is_space s = s" by (cases s) auto
  then have "s = strip s @ rev (takeWhile is_space (rev s))"
    unfolding strip_def by (metis rev_append rev_rev_ident takeWhile_dropWhile_id)
  then have "strip s \<noteq> [] \<Longrightarrow> hd (strip s) = hd s" by (metis hd_append2)
  with assms show ?thesis by (cases "strip s") (auto simp: json_like_def starts_with_def)
qed

lemma compact_array:
  shows "strip (json_compact (JArr (x # xs))) = json_compact (JArr (x # xs))"
    and "json_like (json_compact (JArr (x # xs)))"
proof -
  have "\<not> is_space (CHR ''['')" "\<not> is_space (CHR '']'')" by code_simp+
  then show "strip (json_compact (JArr (x # xs))) = json_compact (JArr (x # xs))"
    by (simp add: compact_block_def strip_def)
  show "json_like (json_compact (JArr (x # xs)))" by (simp add: compact_block_def json_like_def starts_with_def)
qed

definition application_patches :: "render_args \<Rightarrow> json list" where
  "application_patches a = (let sink = (case ra_sink_image a of Some s \<Rightarrow> s | None \<Rightarrow> []) in
     [revision_patch a, brokers_patch a, relay_patch a (ra_relay_image a), sink_patch sink])"

lemma check_image_argument_ok:
  "check_image_argument v name = Inr r \<longleftrightarrow> (\<exists>account. ecr_image v = Some (account, name) \<and> r = (v, account))"
  by (auto simp: check_image_argument_def split: option.splits)

lemma render_inputs_ok:
  assumes "render_inputs w a = Inr r"
  obtains account where "r = (ra_relay_image a, account)" "ecr_image (ra_relay_image a) = Some (account, ''relay'')"
    "commit_shape (ra_commit a)"
    "\<And>s. given (ra_sink_image a) = Some s \<Longrightarrow> ecr_image s = Some (account, ''sink'')"
    "\<And>p i. ra_go_no_go a = Some p \<Longrightarrow> ra_run_id a = Some i \<Longrightarrow> check_render_packet w a i p = Inr ()"
  using assms unfolding render_inputs_def
  by (auto simp: bindE_eq_Inr check_image_argument_ok split: option.splits)

lemma root_application_ok:
  assumes "root_application w a = Inr doc"
  obtains sink account where "ra_sink_image a = Some sink" "ecr_image (ra_relay_image a) = Some (account, ''relay'')"
    "ecr_image sink = Some (account, ''sink'')" "msk_brokers (ra_msk_bootstrap a)" "repo_url (ra_repo_url a)"
    "doc = application_document a (ra_relay_image a) sink" "commit_shape (ra_commit a)"
proof -
  from assms obtain relay sink where inputs: "render_inputs w a = Inr relay"
    and sink: "check_image_argument (case ra_sink_image a of Some s \<Rightarrow> s | None \<Rightarrow> []) ''sink'' = Inr sink"
    and rest: "msk_brokers (ra_msk_bootstrap a)" "repo_url (ra_repo_url a)"
      "doc = application_document a (fst relay) (fst sink)"
    by (auto simp: root_application_def bindE_eq_Inr check_brokers_def)
  have "ecr_image [] = None" by (simp add: ecr_image_def Let_def)
  with sink obtain s other where s: "ra_sink_image a = Some s" "ecr_image s = Some (other, ''sink'')" "sink = (s, other)"
    by (auto simp: check_image_argument_ok split: option.splits)
  with \<open>ecr_image [] = None\<close> have "given (ra_sink_image a) = Some s" by (auto simp: given_def)
  note sink_given = this
  from inputs obtain account where "relay = (ra_relay_image a, account)" "commit_shape (ra_commit a)"
      "ecr_image (ra_relay_image a) = Some (account, ''relay'')"
      "\<And>s. given (ra_sink_image a) = Some s \<Longrightarrow> ecr_image s = Some (account, ''sink'')"
    using render_inputs_ok [OF inputs] by blast
  with that [of s account] s sink_given rest show ?thesis by simp
qed

lemma split_at_start:
  assumes "hd (split_at sep s) = y # ys"
  shows "s \<noteq> [] \<and> hd s = y"
  using assms by (cases s) (simp_all split: if_splits list.splits)

lemma broker_parts:
  assumes "broker s"
  obtains b where "s = b @ broker_suffix" "b \<noteq> []" "list_all broker_char b"
proof -
  from assms obtain b where "s = b @ broker_suffix" by (auto simp: broker_def ends_with_iff)
  with assms that show ?thesis by (simp add: broker_def)
qed

lemma plain_commit: "commit_shape c \<Longrightarrow> \<not> json_like (strip c)"
proof -
  assume "commit_shape c"
  then obtain x xs where "c = x # xs" "is_hex x" by (cases c) (auto simp: commit_shape_def)
  then show "\<not> json_like (strip c)" by (intro plain_string) (auto simp: is_hex_def hex16_def is_space_def)
qed

lemma plain_arguments:
  assumes "commit_shape c" and "msk_brokers m" and "repo_url r"
  shows "\<not> json_like (strip c)" "\<not> json_like (strip m)" "\<not> json_like (strip r)"
proof -
  show "\<not> json_like (strip c)" by (rule plain_commit [OF assms(1)])
  from assms(3) obtain q where "r = ''https://github.com/'' @ q" by (auto simp: repo_url_def starts_with_iff)
  then show "\<not> json_like (strip r)" by (intro plain_string) (auto simp: is_space_def)
  have name: "broker_char x \<Longrightarrow> \<not> is_space x \<and> x \<noteq> CHR ''{'' \<and> x \<noteq> CHR ''[''" for x
    by (auto simp: broker_char_def digits10_def is_space_def)
  have "split_at (CHR '','') m \<noteq> []" by (cases m) (auto split: list.splits)
  with assms(2) have "broker (hd (split_at (CHR '','') m))"
    unfolding msk_brokers_def by (cases "split_at (CHR '','') m") auto
  then obtain b where "hd (split_at (CHR '','') m) = b @ broker_suffix" "b \<noteq> []" "list_all broker_char b"
    by (rule broker_parts)
  then obtain y ys where y: "hd (split_at (CHR '','') m) = y # ys" "broker_char y" by (cases b) auto
  from split_at_start [OF y(1)] have "m \<noteq> [] \<and> hd m = y" .
  with name y(2) show "\<not> json_like (strip m)" by (intro plain_string) auto
qed

lemma image_entry_other: "k \<noteq> ''image'' \<Longrightarrow> k \<noteq> ''images'' \<Longrightarrow> image_entries (k, v) = []"
  by (simp add: image_entries_def)

lemma image_entry_kustomize:
  "CHR ''='' \<notin> set s \<Longrightarrow> image_entries (''images'', JArr [JStr (p @ CHR ''='' # s)]) = [s]"
  by (simp add: image_entries_def last_part_after)

lemma image_entry_container: "image_entries (''image'', JStr s) = [s]"
  by (simp add: image_entries_def)

lemma scan_patch:
  assumes "parse (json_compact v) = Some v" and "is_list v" and "items_of v \<noteq> []"
  shows "rendered_images parse (Suc n) (JStr (json_compact v)) = rendered_images parse n v"
    "nested_values parse (Suc n) (JStr (json_compact v)) = yield_then [json_compact v] (nested_values parse n v)"
proof -
  from assms(2,3) obtain x xs where v: "v = JArr (x # xs)" by (cases v; cases "items_of v") auto
  show "rendered_images parse (Suc n) (JStr (json_compact v)) = rendered_images parse n v"
    "nested_values parse (Suc n) (JStr (json_compact v)) = yield_then [json_compact v] (nested_values parse n v)"
    using assms(1) unfolding v
    by (simp_all only: rendered_images.simps nested_values.simps json.case compact_array simp_thms if_True option.case)
qed

lemma scan_plain:
  assumes "\<not> json_like (strip s)"
  shows "rendered_images parse (Suc n) (JStr s) = ([], Inr ())"
    "nested_values parse (Suc n) (JStr s) = ([s], Inr ())"
  using assms by (simp_all add: yield_then_def)

lemma scan_literal:
  assumes "\<not> is_space c" and "c \<noteq> CHR ''{''" and "c \<noteq> CHR ''[''"
  shows "rendered_images parse (Suc n) (JStr (c # s)) = ([], Inr ())"
    "nested_values parse (Suc n) (JStr (c # s)) = ([c # s], Inr ())"
  using scan_plain [OF plain_string [of "c # s"]] assms by simp_all

lemma scan_object:
  "rendered_images parse (Suc n) (JObj ps) =
     gen_join (map (\<lambda>p. yield_then (image_entries p) (rendered_images parse n (snd p))) ps)"
  "nested_values parse (Suc n) (JObj ps) = gen_join (map (\<lambda>p. nested_values parse n (snd p)) ps)"
  by simp_all

lemma scan_array:
  "rendered_images parse (Suc n) (JArr xs) = gen_join (map (rendered_images parse n) xs)"
  "nested_values parse (Suc n) (JArr xs) = gen_join (map (nested_values parse n) xs)"
  by simp_all

lemma scan_scalar:
  "rendered_images parse (Suc n) (JBool b) = ([], Inr ())" "nested_values parse (Suc n) (JBool b) = ([], Inr ())"
  "rendered_images parse (Suc n) (JInt i) = ([], Inr ())" "nested_values parse (Suc n) (JInt i) = ([], Inr ())"
  by simp_all

lemma scan_join:
  "gen_join [] = ([], Inr ())"
  "gen_join ((xs, Inr ()) # gs) = (xs @ fst (gen_join gs), snd (gen_join gs))"
  "yield_then ys (xs, r) = (ys @ xs, r)"
  by (simp_all add: yield_then_def)

lemmas scan = scan_literal scan_object scan_array scan_scalar scan_join image_entry_other list.map snd_conv fst_conv
  append_Nil append_Nil2 append.assoc append_Cons is_space_def

lemma brokers_scan:
  assumes "\<not> json_like (strip (ra_msk_bootstrap a))"
  shows "rendered_images parse (Suc (Suc (Suc n))) (brokers_patch a) = ([], Inr ())"
    "snd (nested_values parse (Suc (Suc (Suc n))) (brokers_patch a)) = Inr ()"
  by (simp_all add: brokers_patch_def json_patch_def scan scan_plain [OF assms]
      del: rendered_images.simps nested_values.simps)

lemma revision_scan:
  assumes "\<not> json_like (strip (ra_repo_url a))" "\<not> json_like (strip (ra_commit a))"
  shows "rendered_images parse (Suc (Suc (Suc n))) (revision_patch a) = ([], Inr ())"
    "snd (nested_values parse (Suc (Suc (Suc n))) (revision_patch a)) = Inr ()"
  by (simp_all add: revision_patch_def json_patch_def scan scan_plain [OF assms(1)] scan_plain [OF assms(2)]
      del: rendered_images.simps nested_values.simps)

lemma patch_arrays:
  "is_list (brokers_patch a)" "items_of (brokers_patch a) \<noteq> []"
  "is_list (revision_patch a)" "items_of (revision_patch a) \<noteq> []"
  "is_list (relay_patch a r)" "items_of (relay_patch a r) \<noteq> []"
  "is_list (sink_patch r)" "items_of (sink_patch r) \<noteq> []"
  by (simp_all add: brokers_patch_def revision_patch_def relay_patch_def sink_patch_def)

lemma kustomize_entry:
  assumes "CHR ''='' \<notin> set r"
  shows "image_entries (''images'', JArr [JStr (''example.invalid/mlp-dev/relay='' @ r)]) = [r]"
    "image_entries (''images'', JArr [JStr (''example.invalid/mlp-dev/sink='' @ r)]) = [r]"
  using image_entry_kustomize [OF assms, of "''example.invalid/mlp-dev/relay''"]
    image_entry_kustomize [OF assms, of "''example.invalid/mlp-dev/sink''"] by simp_all

lemma sink_scan:
  assumes "CHR ''='' \<notin> set r"
  shows "rendered_images parse (Suc (Suc (Suc (Suc (Suc n))))) (sink_patch r) = ([r], Inr ())"
    "snd (nested_values parse (Suc (Suc (Suc (Suc (Suc n))))) (sink_patch r)) = Inr ()"
  using kustomize_entry(2) [OF assms]
  by (simp_all add: sink_patch_def json_patch_def scan del: rendered_images.simps nested_values.simps)

lemma brokers_text_scan:
  assumes "\<not> json_like (strip (ra_msk_bootstrap a))" "parse (json_compact (brokers_patch a)) = Some (brokers_patch a)"
  shows "rendered_images parse (Suc (Suc (Suc (Suc n)))) (JStr (json_compact (brokers_patch a))) = ([], Inr ())"
    "snd (nested_values parse (Suc (Suc (Suc (Suc n)))) (JStr (json_compact (brokers_patch a)))) = Inr ()"
  using brokers_scan [OF assms(1)] by (simp_all only: scan_patch [where parse = parse, OF assms(2) patch_arrays(1,2)] yield_then_simps)

lemmas scan_ends = scan gen_join_ends list.pred_inject(2) ball_simps

abbreviation deep :: "nat \<Rightarrow> nat" where
  "deep n \<equiv> Suc (Suc (Suc (Suc n)))"

lemma relay_scan:
  assumes "CHR ''='' \<notin> set r" "\<not> json_like (strip (ra_msk_bootstrap a))"
    "parse (json_compact (brokers_patch a)) = Some (brokers_patch a)"
  shows "rendered_images parse (deep (deep (Suc (Suc n)))) (relay_patch a r) = ([r], Inr ())"
    "snd (nested_values parse (deep (deep (Suc (Suc n)))) (relay_patch a r)) = Inr ()"
  using kustomize_entry(1) [OF assms(1)] brokers_text_scan [where parse = parse, OF assms(2,3)]
  by (simp_all add: relay_patch_def relay_source_def json_patch_def scan_ends
      del: rendered_images.simps nested_values.simps gen_join.simps(2))

lemma target_scan:
  assumes "parse (json_compact v) = Some v" and "is_list v" and "items_of v \<noteq> []"
    and "rendered_images parse (deep n) v = (xs, Inr ())" and "snd (nested_values parse (deep n) v) = Inr ()"
    and "name \<in> {[], [(''name'', JStr ''relay'')], [(''name'', JStr ''sink'')]}"
  shows "rendered_images parse (Suc (Suc (deep n))) (application_target name v) = (xs, Inr ())"
    "snd (nested_values parse (Suc (Suc (deep n))) (application_target name v)) = Inr ()"
  using assms(4-6) scan_patch [where parse = parse, OF assms(1-3)]
  by (auto simp add: application_target_def scan_ends simp del: rendered_images.simps nested_values.simps gen_join.simps(2))

lemma application_scan:
  fixes n :: nat
  defines "k \<equiv> deep (deep (Suc (Suc n)))"
  assumes relay: "CHR ''='' \<notin> set r" and sink: "CHR ''='' \<notin> set q"
    and plain: "\<not> json_like (strip (ra_msk_bootstrap a))" "\<not> json_like (strip (ra_repo_url a))"
      "\<not> json_like (strip (ra_commit a))"
    and texts: "\<forall>v \<in> {revision_patch a, brokers_patch a, relay_patch a r, sink_patch q}. parse (json_compact v) = Some v"
  shows "rendered_images parse (Suc (Suc (Suc (deep k)))) (application_document a r q) = ([r, q], Inr ())"
    "snd (nested_values parse (Suc (Suc (Suc (deep k)))) (application_document a r q)) = Inr ()"
proof -
  let ?T = "\<lambda>xs name v. rendered_images parse (Suc (Suc k)) (application_target name v) = (xs, Inr ()) \<and>
    snd (nested_values parse (Suc (Suc k)) (application_target name v)) = Inr ()"
  have "?T [] [] (revision_patch a)"
    using target_scan [where parse = parse and v = "revision_patch a" and xs = "[]" and name = "[]" and n = "deep (Suc (Suc n))"]
      revision_scan [where parse = parse, OF plain(2,3)] texts patch_arrays by (simp add: k_def del: rendered_images.simps nested_values.simps)
  moreover have "?T [r] [(''name'', JStr ''relay'')] (relay_patch a r)"
    using target_scan [where parse = parse and v = "relay_patch a r" and xs = "[r]" and name = "[(''name'', JStr ''relay'')]"
        and n = "deep (Suc (Suc n))"]
      relay_scan [where parse = parse and a = a, OF relay plain(1)] texts patch_arrays by (simp add: k_def del: rendered_images.simps nested_values.simps)
  moreover have "?T [q] [(''name'', JStr ''sink'')] (sink_patch q)"
    using target_scan [where parse = parse and v = "sink_patch q" and xs = "[q]" and name = "[(''name'', JStr ''sink'')]"
        and n = "deep (Suc (Suc n))"]
      sink_scan [where parse = parse, OF sink] texts patch_arrays by (simp add: k_def del: rendered_images.simps nested_values.simps)
  ultimately show "rendered_images parse (Suc (Suc (Suc (deep k)))) (application_document a r q) = ([r, q], Inr ())"
    "snd (nested_values parse (Suc (Suc (Suc (deep k)))) (application_document a r q)) = Inr ()"
    by (simp_all add: application_document_def scan_ends scan_plain [OF plain(2)] scan_plain [OF plain(3)] k_def
        del: rendered_images.simps nested_values.simps gen_join.simps(2))
qed

lemma deep_enough: "17 \<le> n \<Longrightarrow> \<exists>m. n = Suc (Suc (Suc (deep (deep (deep (Suc (Suc m)))))))"
  by presburger

text \<open>The preflight check of a document whose scans end: only a local endpoint or an image can fail it.\<close>

lemma validate_document_iff:
  assumes "rendered_images (loads w) (host_depth h) doc = (images, Inr ())" and "images \<noteq> []"
    and "\<forall>i \<in> set images. image_is_pinned i"
    and strs: "snd (nested_values (loads w) (host_depth h) doc) = Inr ()"
  shows "validate_document w h (source, doc) = Inr () \<longleftrightarrow>
    (\<forall>s. nested (loads w) doc (JStr s) \<longrightarrow> \<not> local_endpoint s)"
  using assms by (simp add: validate_document_def Let_def bindE_eq_Inr foldE_unit Ball_def nested_values_exact [OF strs, symmetric])

text \<open>
  C26. The root Application against the preflight scan. A rendered Application deploys exactly the
  two given images, although they lie in JSON text inside patches: both are pinned, and both come
  from one registry. \<open>validate_rendered_documents\<close> of m4-preflight.py therefore accepts the
  document exactly when no string it reaches is a local endpoint. The hypotheses: the
  JSON parser reads back the four patches, and the recursion limit allows 17 levels.
\<close>

theorem application_images:
  assumes "root_application w a = Inr doc"
    and "\<forall>p \<in> set (application_patches a). loads w (json_compact p) = Some p" and "17 \<le> host_depth h"
  shows "\<exists>sink account. ra_sink_image a = Some sink \<and>
    ecr_image (ra_relay_image a) = Some (account, ''relay'') \<and> ecr_image sink = Some (account, ''sink'') \<and>
    image_is_pinned (ra_relay_image a) \<and> image_is_pinned sink \<and>
    rendered_images (loads w) (host_depth h) doc = ([ra_relay_image a, sink], Inr ()) \<and>
    (validate_document w h (''application'', doc) = Inr () \<longleftrightarrow>
      (\<forall>s. nested (loads w) doc (JStr s) \<longrightarrow> \<not> local_endpoint s))"
proof -
  from assms(1) obtain sink account where sink: "ra_sink_image a = Some sink"
    and images: "ecr_image (ra_relay_image a) = Some (account, ''relay'')" "ecr_image sink = Some (account, ''sink'')"
    and args: "commit_shape (ra_commit a)" "msk_brokers (ra_msk_bootstrap a)" "repo_url (ra_repo_url a)"
    and doc: "doc = application_document a (ra_relay_image a) sink"
    by (rule root_application_ok)
  note plain = plain_arguments [OF args]
  note equals = ecr_image_no_equals(1) [OF images(1)] ecr_image_no_equals(1) [OF images(2)]
  have texts: "\<forall>v \<in> {revision_patch a, brokers_patch a, relay_patch a (ra_relay_image a), sink_patch sink}.
      loads w (json_compact v) = Some v"
    using assms(2) by (simp add: application_patches_def Let_def sink)
  obtain m where "host_depth h = Suc (Suc (Suc (deep (deep (deep (Suc (Suc m)))))))"
    using deep_enough [OF assms(3)] by blast
  with application_scan [where parse = "loads w", OF equals plain(2,3,1) texts, of m]
  have scan: "rendered_images (loads w) (host_depth h) doc = ([ra_relay_image a, sink], Inr ())"
    "snd (nested_values (loads w) (host_depth h) doc) = Inr ()"
    by (simp_all only: doc)
  from validate_document_iff [OF scan(1) _ _ scan(2), of "''application''"] ecr_image_pinned [OF images(1)]
    ecr_image_pinned [OF images(2)] sink images scan(1)
  show ?thesis by auto
qed

lemma replay_job_ok:
  assumes "replay_job w a = Inr doc"
  obtains account where "ecr_image (ra_relay_image a) = Some (account, ''relay'')" "commit_shape (ra_commit a)"
    "doc = replay_document a (ra_relay_image a)" "ra_since a = ''earliest'' \<or> parse_stamp (ra_since a) \<noteq> None"
proof -
  from assms obtain r where inputs: "render_inputs w a = Inr r" and
    doc: "doc = replay_document a (fst r)" "ra_since a = ''earliest'' \<or> parse_stamp (ra_since a) \<noteq> None"
    unfolding replay_job_def bindE_eq_Inr ensure_eq_Inr by blast
  from inputs show ?thesis by (rule render_inputs_ok) (use doc in \<open>auto intro!: that\<close>)
qed

lemma replay_scan:
  fixes n :: nat
  defines "k \<equiv> deep (deep (Suc (Suc (Suc n))))"
  assumes r: "\<not> json_like (strip r)" and c: "\<not> json_like (strip (ra_commit a))"
  shows "rendered_images parse k (replay_document a r) = ([r], Inr ())"
    "snd (nested_values parse k (replay_document a r)) = Inr ()"
  by (simp_all add: k_def replay_document_def replay_container_def replay_labels_def scan_ends image_entry_container
      scan_plain [OF r] scan_plain [OF c] del: rendered_images.simps nested_values.simps gen_join.simps(2))

text \<open>
  The replay Job against the preflight scan: its one image is the given relay image, it is
  pinned, and the check of m4-preflight.py accepts the document exactly when no string it reaches
  is a local endpoint. The recursion limit has to allow 11 levels.
\<close>

theorem replay_image:
  assumes "replay_job w a = Inr doc" and "11 \<le> host_depth h"
  shows "image_is_pinned (ra_relay_image a) \<and>
    rendered_images (loads w) (host_depth h) doc = ([ra_relay_image a], Inr ()) \<and>
    (validate_document w h (''replay'', doc) = Inr () \<longleftrightarrow>
      (\<forall>s. nested (loads w) doc (JStr s) \<longrightarrow> \<not> local_endpoint s))"
proof -
  from assms(1) obtain account where relay: "ecr_image (ra_relay_image a) = Some (account, ''relay'')"
    and commit: "commit_shape (ra_commit a)" and doc: "doc = replay_document a (ra_relay_image a)"
    by (rule replay_job_ok)
  have "is_digit x \<Longrightarrow> \<not> is_space x \<and> x \<noteq> CHR ''{'' \<and> x \<noteq> CHR ''[''" for x
    by (auto simp: is_digit_def digits10_def is_space_def)
  with ecr_image_no_equals(2,3) [OF relay] have r: "\<not> json_like (strip (ra_relay_image a))"
    by (intro plain_string) auto
  obtain m where "host_depth h = deep (deep (Suc (Suc (Suc m))))"
    using assms(2) by (auto dest!: le_Suc_ex)
  with replay_scan [OF r plain_commit [OF commit], of "loads w" m] have
    scan: "rendered_images (loads w) (host_depth h) doc = ([ra_relay_image a], Inr ())"
      "snd (nested_values (loads w) (host_depth h) doc) = Inr ()"
    by (simp_all only: doc)
  from validate_document_iff [OF scan(1) _ _ scan(2), of "''replay''"] ecr_image_pinned [OF relay] scan(1)
  show ?thesis by auto
qed

text \<open>
  The message of the replay command asks for an RFC 3339 time stamp; \<open>strptime\<close> also takes fields
  without a leading zero and small letters.
\<close>

lemma loose_since: "parse_stamp ''2026-1-2t3:4:5z'' = Some \<lparr>yr = 2026, mo = 1, dy = 2, hh = 3, mi = 4, ss = 5\<rparr>"
  by code_simp

text \<open>
  C27. The GO packet and the renderer. The packet that \<open>build_go_no_go\<close> of m4-stage.py returns for
  us-east-1, once written and read back, approves exactly its own images: with this run id,
  commit and packet the inputs of a render are accepted if and only if the relay image is the
  packet's and the sink image, where one is given, is the packet's.
\<close>

theorem packet_approves_own_images:
  assumes "returns (build_go_no_go run_id commit ''us-east-1'' owner clock) w t packet u"
    and "files e p = Some (regular mode (json_dump packet))" and "reads_back e packet"
    and "ra_commit a = commit" "ra_run_id a = Some run_id" "ra_go_no_go a = Some p"
  shows "\<exists>relay sink. jget packet ''image_references'' = JObj [(''relay'', JStr relay), (''sink'', JStr sink)] \<and>
    (is_ok (render_inputs e a) \<longleftrightarrow>
      ra_relay_image a = relay \<and> (given (ra_sink_image a) = None \<or> given (ra_sink_image a) = Some sink))"
proof -
  obtain r claims order hashes where inputs: "read_inputs w run_id commit ''us-east-1'' (clock 0) = Inr r"
    and checks: "check_receipts r run_id commit ''us-east-1'' clock = Inr (claims, order)"
    and packet: "packet = go_packet r claims order hashes run_id commit ''us-east-1'' owner (clock 4)"
    by (rule build_go_no_go_ok [OF assms(1)]) (rule that)
  define account where "account = str_of (jget (jget (rc_identity r) ''aws'') ''account_id'')"
  from checks have "check_identity (rc_identity r) (clock 3) = Inr ()" by (rule check_receipts_ok)
  then have account: "length account = 12" "list_all is_digit account"
    unfolding check_identity_def check_caller_def account_def Let_def
    by (auto simp: bindE_eq_Inr account_shape_def digits_def)
  from inputs have commit: "commit_shape commit"
    by (rule read_inputs_ok) (auto simp: stage_require_preflight_def bindE_eq_Inr Let_def)
  from checks have ok: "check_images (rc_images r) commit ''us-east-1'' account = Inr claims"
    unfolding account_def by (rule check_receipts_ok)
  from check_images_ok(1) [OF ok] obtain x y where claims: "claims = [x, y]"
    "ic_service x = ''relay''" "ic_service y = ''sink''"
    by (auto simp: services_def map_eq_Cons_conv)
  let ?relay = "ic_reference x" and ?sink = "ic_reference y"
  have refs: "jget packet ''image_references'' = JObj [(''relay'', JStr ?relay), (''sink'', JStr ?sink)]"
    by (simp add: packet go_packet_def claims)
  from check_images_ok(3) [OF ok] claims have images:
    "ecr_image ?relay = Some (account, ''relay'')" "ecr_image ?sink = Some (account, ''sink'')"
    using ecr_image_whole [OF account, of "''relay''" "ic_digest x"] ecr_image_whole [OF account, of "''sink''" "ic_digest y"]
    by (simp_all add: pinned_def ecr_prefix_def)
  from images(2) have "?sink \<noteq> []" by (rule ecr_image_no_equals)
  have "load_file e missing invalid p = Inr packet" for missing invalid
    using assms(2,3) by (simp add: load_file_Inr reads_back_def)
  moreover have "\<not> is_symlink e p" using assms(2) by (simp add: is_symlink_def)
  moreover have "packet_approves packet run_id commit = Inr True"
    by (simp add: packet_approves_def packet go_packet_def py_get_def jget_or_def)
  ultimately have "check_render_packet e a run_id p = Inr () \<longleftrightarrow>
      ra_relay_image a = ?relay \<and> (\<forall>s. given (ra_sink_image a) = Some s \<longrightarrow> s = ?sink)"
    using refs assms(4) by (auto simp: check_render_packet_def bindE_eq_Inr split: option.splits)
  then have "is_ok (render_inputs e a) \<longleftrightarrow>
      ra_relay_image a = ?relay \<and> (given (ra_sink_image a) = None \<or> given (ra_sink_image a) = Some ?sink)"
    using commit assms(4-6) images
    by (cases "given (ra_sink_image a)")
       (auto simp: is_ok_iff render_inputs_def bindE_eq_Inr check_image_argument_ok)
  with refs show ?thesis by blast
qed

section \<open>Concrete documents\<close>

definition args_r :: render_args where
  "args_r = \<lparr>ra_commit = commit_a, ra_relay_image = ''123456789012'' @ ecr_prefix @ ''relay@'' @ digest_a,
     ra_sink_image = Some (''123456789012'' @ ecr_prefix @ ''sink@'' @ digest_b), ra_run_id = None,
     ra_go_no_go = None, ra_msk_bootstrap = ''boot-1.kafka-serverless.us-east-1.amazonaws.com:9098'',
     ra_repo_url = ''https://github.com/lilabrooks/my-local-platform.git'', ra_since = ''earliest''\<rparr>"

text \<open>A JSON parser that knows the texts of the four patches.\<close>

definition env_r :: env where
  "env_r = env_a\<lparr>loads := map_of (map (\<lambda>v. (json_compact v, v)) (application_patches args_r))\<rparr>"

lemma map_of_inverse: "distinct (map f xs) \<Longrightarrow> v \<in> set xs \<Longrightarrow> map_of (map (\<lambda>v. (f v, v)) xs) (f v) = Some v"
  by (induction xs) (auto simp: image_iff)

lemma patch_texts_r: "\<forall>p \<in> set (application_patches args_r). loads env_r (json_compact p) = Some p"
proof -
  have "distinct (map json_compact (application_patches args_r))" by code_simp
  then show ?thesis by (simp add: env_r_def map_of_inverse del: map_map)
qed

lemma images_r:
  "ecr_image (''123456789012'' @ ecr_prefix @ ''relay@'' @ digest_a) = Some (''123456789012'', ''relay'')"
  "ecr_image (''123456789012'' @ ecr_prefix @ ''sink@'' @ digest_b) = Some (''123456789012'', ''sink'')"
  by code_simp+

lemma application_r:
  "root_application env_r args_r = Inr (application_document args_r (ra_relay_image args_r)
     (''123456789012'' @ ecr_prefix @ ''sink@'' @ digest_b))"
proof -
  define sink where "sink = ''123456789012'' @ ecr_prefix @ ''sink@'' @ digest_b"
  have "msk_brokers (ra_msk_bootstrap args_r)" "repo_url (ra_repo_url args_r)" by code_simp+
  moreover have "sink \<noteq> []" by (simp add: sink_def)
  then have "given (ra_sink_image args_r) = Some sink" "ra_sink_image args_r = Some sink"
    unfolding sink_def by (simp_all add: given_def args_r_def)
  moreover have "ecr_image sink = Some (''123456789012'', ''sink'')" unfolding sink_def by (rule images_r)
  moreover have "ecr_image (ra_relay_image args_r) = Some (''123456789012'', ''relay'')" using images_r by (simp add: args_r_def)
  moreover have "ra_go_no_go args_r = None" "ra_run_id args_r = None" "ra_commit args_r = commit_a" by (simp_all add: args_r_def)
  ultimately show ?thesis
    unfolding sink_def [symmetric]
    using commit_shape_a by (simp add: root_application_def render_inputs_def check_image_argument_def check_brokers_def)
qed

lemma application_images_witness:
  "fst (rendered_images (loads env_r) (host_depth (host_p\<lparr>host_depth := 100\<rparr>))
     (application_document args_r (ra_relay_image args_r) (''123456789012'' @ ecr_prefix @ ''sink@'' @ digest_b))) =
   [ra_relay_image args_r, ''123456789012'' @ ecr_prefix @ ''sink@'' @ digest_b]"
proof -
  have "17 \<le> host_depth (host_p\<lparr>host_depth := 100\<rparr>)" by simp
  from application_images [OF application_r patch_texts_r this] show ?thesis by (auto simp: args_r_def)
qed

lemma packet_approves_own_images_witness:
  "\<exists>relay. is_ok (render_inputs (env_a\<lparr>files := (\<lambda>p. Some (regular 384 (json_dump packet_a))), loads := (\<lambda>t. Some packet_a)\<rparr>)
     (args_r\<lparr>ra_relay_image := relay, ra_sink_image := None, ra_run_id := Some run_a, ra_go_no_go := Some [''go'']\<rparr>))"
proof -
  let ?e = "env_a\<lparr>files := (\<lambda>p. Some (regular 384 (json_dump packet_a))), loads := (\<lambda>t. Some packet_a)\<rparr>"
  let ?a = "\<lambda>relay. args_r\<lparr>ra_relay_image := relay, ra_sink_image := None, ra_run_id := Some run_a, ra_go_no_go := Some [''go'']\<rparr>"
  from decision_a obtain u where
    decided: "returns (build_go_no_go run_a commit_a ''us-east-1'' ''operator'' (\<lambda>_. sample_time)) env_a [] packet_a u" ..
  have "reads_back ?e packet_a" by (simp add: reads_back_def env_a_def)
  then have approves: "ra_commit a = commit_a \<Longrightarrow> ra_run_id a = Some run_a \<Longrightarrow> ra_go_no_go a = Some [''go''] \<Longrightarrow>
      \<exists>relay sink. jget packet_a ''image_references'' = JObj [(''relay'', JStr relay), (''sink'', JStr sink)] \<and>
      (is_ok (render_inputs ?e a) \<longleftrightarrow>
        ra_relay_image a = relay \<and> (given (ra_sink_image a) = None \<or> given (ra_sink_image a) = Some sink))" for a
    by (intro packet_approves_own_images [OF decided, where mode = 384]) simp_all
  have args: "ra_commit (?a relay) = commit_a" "ra_run_id (?a relay) = Some run_a" "ra_go_no_go (?a relay) = Some [''go'']"
    "given (ra_sink_image (?a relay)) = None" "ra_relay_image (?a relay) = relay" for relay
    by (simp_all add: given_def args_r_def)
  from approves [OF args(1,2,3)] obtain relay sink where
    refs: "jget packet_a ''image_references'' = JObj [(''relay'', JStr relay), (''sink'', JStr sink)]" by blast
  with approves [OF args(1,2,3), of relay] have "is_ok (render_inputs ?e (?a relay))" by (auto simp only: args json.inject list.inject prod.inject)
  then show ?thesis ..
qed

lemma replay_image_witness:
  "rendered_images (loads env_r) (host_depth (host_p\<lparr>host_depth := 100\<rparr>)) (replay_document args_r (ra_relay_image args_r)) =
   ([ra_relay_image args_r], Inr ())"
proof -
  from application_r obtain relay where inputs: "render_inputs env_r args_r = Inr relay"
    unfolding root_application_def bindE_eq_Inr by blast
  then have "fst relay = ra_relay_image args_r" by (rule render_inputs_ok) simp
  with inputs have "replay_job env_r args_r = Inr (replay_document args_r (ra_relay_image args_r))"
    by (simp add: replay_job_def) (simp add: args_r_def)
  from replay_image [OF this, of "host_p\<lparr>host_depth := 100\<rparr>"] show ?thesis by simp
qed

end
