(* ===== verification/Evidence_Redact.thy ===== *)
theory Evidence_Redact
  imports Evidence_Scan Evidence_Receipts
begin

text \<open>
  Sanitization in scripts/m4-evidence.py: the patterns of sensitive identifiers, their
  replacement in a text, and the search for what a text still contains. Texts are lists of code
  points here, since the placeholders of protected identifiers lie in the private use area. The
  regular expressions are data, and matching them is backtracking with Python's priorities.
\<close>

type_synonym points = "nat list"

definition points_of :: "string \<Rightarrow> points" where
  "points_of s = map of_char s"

text \<open>
  What the standard library decides about a text: whether a dotted address parses and is
  global (\<open>ipaddress\<close>), and whether \<open>json.loads\<close> accepts it.
\<close>

record text_library =
  public_address :: "points \<Rightarrow> bool"
  accepts_json :: "points \<Rightarrow> bool"

section \<open>Regular expressions\<close>

datatype rx =
    Empty
  | One "nat \<Rightarrow> bool"
  | Cat rx rx
  | Or rx rx
  | Star rx
  | Boundary  \<comment> \<open>\<open>\b\<close>\<close>
  | NotBehind "nat \<Rightarrow> bool"  \<comment> \<open>\<open>(?<![...])\<close>\<close>
  | NotAhead "nat \<Rightarrow> bool"  \<comment> \<open>\<open>(?![...])\<close>\<close>

definition lower_letter :: "nat \<Rightarrow> bool" where
  "lower_letter c \<longleftrightarrow> 97 \<le> c \<and> c \<le> 122"

definition upper_letter :: "nat \<Rightarrow> bool" where
  "upper_letter c \<longleftrightarrow> 65 \<le> c \<and> c \<le> 90"

definition digit_point :: "nat \<Rightarrow> bool" where
  "digit_point c \<longleftrightarrow> 48 \<le> c \<and> c \<le> 57"

text \<open>\<open>\w\<close>: the letters, digits and numeric characters among the code points below 256.\<close>

definition word_point :: "nat \<Rightarrow> bool" where
  "word_point c \<longleftrightarrow> lower_letter c \<or> upper_letter c \<or> digit_point c \<or> c = 95 \<or>
     c \<in> {170, 178, 179, 181, 185, 186, 188, 189, 190} \<or> (192 \<le> c \<and> c \<le> 255 \<and> c \<noteq> 215 \<and> c \<noteq> 247)"

definition one_of :: "string \<Rightarrow> nat \<Rightarrow> bool" where
  "one_of s c \<longleftrightarrow> c \<in> set (points_of s)"

text \<open>A position in a text: the code point before it and the rest.\<close>

type_synonym place = "nat option \<times> points"

definition at_boundary :: "place \<Rightarrow> bool" where
  "at_boundary p \<longleftrightarrow>
     ((case fst p of Some c \<Rightarrow> word_point c | None \<Rightarrow> False) \<noteq> (snd p \<noteq> [] \<and> word_point (hd (snd p))))"

text \<open>The places where a match may end, in the order in which Python tries them.\<close>

function ends :: "rx \<Rightarrow> place \<Rightarrow> place list" where
  "ends Empty p = [p]"
| "ends (One q) p = (case snd p of [] \<Rightarrow> [] | c # cs \<Rightarrow> if q c then [(Some c, cs)] else [])"
| "ends (Cat r s) p = concat (map (ends s) (ends r p))"
| "ends (Or r s) p = ends r p @ ends s p"
| "ends (Star r) p =
     concat (map (ends (Star r)) (filter (\<lambda>q. length (snd q) < length (snd p)) (ends r p))) @ [p]"
| "ends Boundary p = (if at_boundary p then [p] else [])"
| "ends (NotBehind q) p = (case fst p of Some c \<Rightarrow> if q c then [] else [p] | None \<Rightarrow> [p])"
| "ends (NotAhead q) p = (if snd p \<noteq> [] \<and> q (hd (snd p)) then [] else [p])"
  by pat_completeness auto

termination
  by (relation "measures [\<lambda>(r, p). size r, \<lambda>(r, p). length (snd p)]") auto

text \<open>
  The matches of \<open>finditer\<close> and \<open>sub\<close>, with the code points between them. The patterns here
  match no empty text; an empty match would be passed over.
\<close>

datatype segment = Between nat | Match nat points  \<comment> \<open>with the position where it starts\<close>

function segments :: "rx \<Rightarrow> nat \<Rightarrow> place \<Rightarrow> segment list" where
  "segments r i (before, []) = []"
| "segments r i (before, c # cs) =
     (case ends r (before, c # cs) of
        [] \<Rightarrow> Between c # segments r (Suc i) (Some c, cs)
      | (b, rest) # _ \<Rightarrow>
          if length rest \<le> length cs
          then Match i (take (Suc (length cs) - length rest) (c # cs)) #
            segments r (i + (Suc (length cs) - length rest)) (b, drop (Suc (length cs) - length rest) (c # cs))
          else Between c # segments r (Suc i) (Some c, cs))"
  by pat_completeness auto

termination
  by (relation "measure (\<lambda>(r, i, p). length (snd p))") auto

definition found :: "rx \<Rightarrow> points \<Rightarrow> segment list" where
  "found r t = segments r 0 (None, t)"

definition matches :: "rx \<Rightarrow> points \<Rightarrow> points list" where
  "matches r t = concat (map (\<lambda>s. case s of Match i m \<Rightarrow> [m] | Between c \<Rightarrow> []) (found r t))"

definition substitute :: "rx \<Rightarrow> (points \<Rightarrow> points) \<Rightarrow> points \<Rightarrow> points" where
  "substitute r f t = concat (map (\<lambda>s. case s of Match i m \<Rightarrow> f m | Between c \<Rightarrow> [c]) (found r t))"

section \<open>The patterns\<close>

fun in_turn :: "rx list \<Rightarrow> rx" where
  "in_turn [] = Empty"
| "in_turn [r] = r"
| "in_turn (r # rs) = Cat r (in_turn rs)"

definition times :: "nat \<Rightarrow> rx \<Rightarrow> rx" where
  "times n r = in_turn (replicate n r)"

definition plus_rx :: "rx \<Rightarrow> rx" where
  "plus_rx r = Cat r (Star r)"

definition optional_rx :: "rx \<Rightarrow> rx" where
  "optional_rx r = Or r Empty"

text \<open>Under \<open>IGNORECASE\<close> a class also takes the other case of its letters.\<close>

definition other_case :: "nat \<Rightarrow> nat" where
  "other_case c = (if lower_letter c then c - 32 else if upper_letter c then c + 32 else c)"

definition any_case :: "(nat \<Rightarrow> bool) \<Rightarrow> nat \<Rightarrow> bool" where
  "any_case q c \<longleftrightarrow> q c \<or> q (other_case c)"

definition exact :: "string \<Rightarrow> rx" where
  "exact s = in_turn (map (\<lambda>c. One (any_case (\<lambda>d. d = c))) (points_of s))"

definition digit_rx :: rx where
  "digit_rx = One digit_point"

definition label_point :: "nat \<Rightarrow> bool" where  \<comment> \<open>\<open>[a-z0-9-]\<close>\<close>
  "label_point = any_case (\<lambda>c. lower_letter c \<or> digit_point c \<or> one_of ''-'' c)"

definition label_rx :: rx where
  "label_rx = plus_rx (One label_point)"

definition amazon_rx :: rx where  \<comment> \<open>\<open>\.amazonaws\.com(?:\.cn)?\b\<close>\<close>
  "amazon_rx = in_turn [exact ''.amazonaws.com'', optional_rx (exact ''.cn''), Boundary]"

definition arn_account_rx :: rx where
  "arn_account_rx = in_turn
     [Boundary, exact ''arn:'', Or (exact ''aws'') (Or (exact ''aws-us-gov'') (exact ''aws-cn'')), exact '':'',
      Star (One label_point), exact '':'', Star (One label_point), exact '':'', times 12 digit_rx, exact '':'']"

definition ecr_rx :: rx where
  "ecr_rx = in_turn [Boundary, times 12 digit_rx, exact ''.dkr.ecr.'', label_rx, amazon_rx]"

definition rds_rx :: rx where
  "rds_rx = in_turn [Boundary, label_rx, exact ''.'', label_rx, exact ''.'', label_rx, exact ''.rds'', amazon_rx]"

definition msk_rx :: rx where
  "msk_rx = in_turn [Boundary, plus_rx (Cat label_rx (exact ''.'')),
     Or (exact ''kafka'') (exact ''kafka-serverless''), exact ''.'', label_rx, amazon_rx]"

definition mail_point :: "nat \<Rightarrow> bool" where  \<comment> \<open>\<open>[\w.+-]\<close>\<close>
  "mail_point c \<longleftrightarrow> word_point c \<or> one_of ''.+-'' c"

definition email_rx :: rx where
  "email_rx = in_turn [NotBehind mail_point, plus_rx (One mail_point), exact ''@'',
     plus_rx (One (any_case (\<lambda>c. lower_letter c \<or> digit_point c \<or> one_of ''.-'' c))), exact ''.'',
     One (any_case lower_letter), plus_rx (One (any_case lower_letter)),
     NotAhead (\<lambda>c. word_point c \<or> one_of ''.-'' c)]"

definition octet_rx :: rx where  \<comment> \<open>\<open>\d{1,3}\<close>\<close>
  "octet_rx = Cat digit_rx (optional_rx (Cat digit_rx (optional_rx digit_rx)))"

definition ipv4_rx :: rx where
  "ipv4_rx = in_turn [NotBehind (\<lambda>c. digit_point c \<or> one_of ''.'' c),
     times 3 (Cat octet_rx (exact ''.'')), octet_rx, NotAhead (\<lambda>c. digit_point c \<or> one_of ''.'' c)]"

definition hex_point :: "nat \<Rightarrow> bool" where
  "hex_point = any_case (\<lambda>c. digit_point c \<or> one_of ''abcdef'' c)"

definition bare_hex :: "nat \<Rightarrow> rx" where
  "bare_hex n = in_turn [NotBehind hex_point, times n (One hex_point), NotAhead hex_point]"

definition preserved_rx :: rx where
  "preserved_rx =
     Or (Cat (exact ''sha256:'') (times 64 (One hex_point)))
    (Or (bare_hex 40)
    (Or (bare_hex 32)
    (Or (in_turn [Boundary, exact ''evt_'',
          plus_rx (One (\<lambda>c. lower_letter c \<or> upper_letter c \<or> digit_point c \<or> one_of ''_-'' c)), Boundary])
        (in_turn [times 4 digit_rx, exact ''-'', times 2 digit_rx, exact ''-'', times 2 digit_rx, exact ''T'',
          times 2 digit_rx, exact '':'', times 2 digit_rx, exact '':'', times 2 digit_rx,
          optional_rx (Cat (exact ''.'') (plus_rx digit_rx)), exact ''Z'']))))"

section \<open>Protected identifiers\<close>

type_synonym redactions = "(string \<times> string) list"

definition begins :: "points \<Rightarrow> points \<Rightarrow> bool" where
  "begins v t \<longleftrightarrow> take (length v) t = v"

text \<open>The positions \<open>text.find\<close> reports when each search starts behind the last one.\<close>

definition occurrences :: "points \<Rightarrow> points \<Rightarrow> nat list" where
  "occurrences v t = filter (\<lambda>i. begins v (drop i t)) [0..<Suc (length t)]"

definition sensitive_spans :: "redactions \<Rightarrow> points \<Rightarrow> (nat \<times> nat) list" where
  "sensitive_spans rs t = concat (map (\<lambda>nv. map (\<lambda>i. (i, i + length (snd nv))) (occurrences (points_of (snd nv)) t))
     (filter (\<lambda>nv. fst nv \<noteq> ''ACCOUNT_ID'') rs))"

definition marker :: "nat \<Rightarrow> points" where
  "marker n = [0xE000] @ points_of (nat_str n) @ [0xE001]"

definition overlaps :: "(nat \<times> nat) list \<Rightarrow> nat \<Rightarrow> points \<Rightarrow> bool" where
  "overlaps spans i m \<longleftrightarrow> list_ex (\<lambda>(start, stop). i < stop \<and> start < i + length m) spans"

fun protect :: "(nat \<times> nat) list \<Rightarrow> nat \<Rightarrow> segment list \<Rightarrow> points \<times> points list" where
  "protect spans n [] = ([], [])"
| "protect spans n (Between c # segs) = (let (t, kept) = protect spans n segs in (c # t, kept))"
| "protect spans n (Match i m # segs) =
     (if overlaps spans i m then (let (t, kept) = protect spans n segs in (m @ t, kept))
      else (let (t, kept) = protect spans (Suc n) segs in (marker n @ t, m # kept)))"

definition protect_identifiers :: "points \<Rightarrow> redactions \<Rightarrow> points \<times> points list" where
  "protect_identifiers t rs = protect (sensitive_spans rs t) 0 (found preserved_rx t)"

text \<open>\<open>text.replace(old, new)\<close> for a text that is not empty.\<close>

function replace_all :: "points \<Rightarrow> points \<Rightarrow> points \<Rightarrow> points" where
  "replace_all old new [] = []"
| "replace_all old new (c # cs) =
     (if old \<noteq> [] \<and> begins old (c # cs) then new @ replace_all old new (drop (length old) (c # cs))
      else c # replace_all old new cs)"
  by pat_completeness auto

termination
  by (relation "measure (\<lambda>(old, new, t). length t)") auto

definition restore_identifiers :: "points \<Rightarrow> points list \<Rightarrow> points" where
  "restore_identifiers t kept = fold (\<lambda>(i, m) t. replace_all (marker i) m t) (enumerate 0 kept) t"

section \<open>Sanitization\<close>

definition label_for :: "string \<Rightarrow> points" where
  "label_for name = points_of (''[REDACTED:'' @ name @ '']'')"

text \<open>\<open>replace_public_ipv4\<close>.\<close>

definition replace_public_ipv4 :: "text_library \<Rightarrow> points \<Rightarrow> points" where
  "replace_public_ipv4 lib m = (if public_address lib m then label_for ''PUBLIC_IP'' else m)"

definition by_length :: "redactions \<Rightarrow> redactions" where
  "by_length rs = sort_key (\<lambda>nv. - int (length (snd nv))) rs"

definition sanitize_text :: "text_library \<Rightarrow> points \<Rightarrow> redactions \<Rightarrow> points" where
  "sanitize_text lib t rs =
     (let (t0, kept) = protect_identifiers t rs;
          t1 = substitute ecr_rx (\<lambda>m. label_for ''ECR_REGISTRY'') t0;
          t2 = substitute rds_rx (\<lambda>m. label_for ''RDS_ENDPOINT'') t1;
          t3 = substitute msk_rx (\<lambda>m. label_for ''MSK_ENDPOINT'') t2;
          t4 = substitute email_rx (\<lambda>m. label_for ''EMAIL'') t3;
          t5 = substitute ipv4_rx (replace_public_ipv4 lib) t4;
          t6 = fold (\<lambda>nv t. replace_all (points_of (snd nv)) (label_for (fst nv)) t) (by_length rs) t5
      in restore_identifiers t6 kept)"

text \<open>\<open>value in text\<close>.\<close>

fun contains :: "points \<Rightarrow> points \<Rightarrow> bool" where
  "contains v [] = (v = [])"
| "contains v (c # cs) = (begins v (c # cs) \<or> contains v cs)"

definition structural :: "(string \<times> rx) list" where
  "structural = [(''ACCOUNT_ARN'', arn_account_rx), (''ECR_REGISTRY'', ecr_rx), (''RDS_ENDPOINT'', rds_rx),
     (''MSK_ENDPOINT'', msk_rx), (''EMAIL'', email_rx)]"

definition sensitive_matches :: "text_library \<Rightarrow> points \<Rightarrow> redactions \<Rightarrow> string list" where
  "sensitive_matches lib t rs =
     (let scan_text = fst (protect_identifiers t rs) in
      sort (remdups
        (map fst (filter (\<lambda>nv. contains (points_of (snd nv)) scan_text) rs) @
         map fst (filter (\<lambda>p. matches (snd p) scan_text \<noteq> []) structural) @
         map (\<lambda>m. ''PUBLIC_IP'') (filter (public_address lib) (matches ipv4_rx scan_text)))))"

section \<open>One file\<close>

definition utf8_point :: "nat \<Rightarrow> string" where
  "utf8_point c =
     (if c < 128 then [char_of c]
      else if c < 2048 then [char_of (192 + c div 64), char_of (128 + c mod 64)]
      else [char_of (224 + c div 4096), char_of (128 + c div 64 mod 64), char_of (128 + c mod 64)])"

definition utf8_text :: "points \<Rightarrow> string" where
  "utf8_text t = concat (map utf8_point t)"

text \<open>\<open>path.suffix == ".json"\<close>.\<close>

definition is_json :: "string \<Rightarrow> bool" where
  "is_json name \<longleftrightarrow> ends_with name ''.json'' \<and> 5 < length name"

definition source_text :: "env \<Rightarrow> path \<Rightarrow> points res" where
  "source_text w p =
     bindE (ensure (\<not> is_symlink w p \<and> is_file w p)
       (Err EvidenceError ''raw evidence is missing or is not a regular file: {}'' [path_json p])) (\<lambda>_.
     bindE (read_bytes w p) (\<lambda>b.
     case b of
       None \<Rightarrow> py_raise OSError
     | Some b \<Rightarrow> (case decode w b of
           None \<Rightarrow> raise EvidenceError ''text evidence is not UTF-8: {}'' [path_json p]
         | Some t \<Rightarrow> Inr (points_of (universal t)))))"

definition sanitized :: "text_library \<Rightarrow> redactions \<Rightarrow> path \<Rightarrow> points \<Rightarrow> points res" where
  "sanitized lib rs p raw =
     (let t = sanitize_text lib raw rs; leaks = sensitive_matches lib t rs in
      bindE (ensure (leaks = [])
        (Err EvidenceError ''sanitized evidence still contains {}: {}'' [JArr (map JStr leaks), JStr (last p)])) (\<lambda>_.
      bindE (ensure (\<not> is_json (last p) \<or> accepts_json lib t)
        (Err EvidenceError ''sanitization broke JSON in {}: {}'' [JStr (last p)])) (\<lambda>_.
        Inr t)))"

text \<open>The text is written through whatever is at the destination; the mode is set afterwards.\<close>

definition write_text :: "path \<Rightarrow> points \<Rightarrow> unit act" where
  "write_text p t = (\<lambda>w. (Inr (), w\<lparr>files := (files w)(p \<mapsto> regular 420 (utf8_text t))\<rparr>))"

definition sanitize_one :: "text_library \<Rightarrow> redactions \<Rightarrow> path \<Rightarrow> path \<Rightarrow> unit act" where
  "sanitize_one lib rs source destination =
     bindA (reads (\<lambda>w. bindE (source_text w source) (sanitized lib rs source))) (write_text destination)"

end
