(* ===== verification/Evidence_Redact_Correct.thy ===== *)
theory Evidence_Redact_Correct
  imports Evidence_Redact
begin

text \<open>
  What the search for sensitive values finds. Protecting identifiers never hides a known value
  other than the account id, so a text without findings contains none of them, and what
  \<open>sanitize_one\<close> writes is such a text.
\<close>

section \<open>Segments\<close>

primrec covered :: "segment \<Rightarrow> points" where
  "covered (Between c) = [c]"
| "covered (Match i m) = m"

text \<open>Segments that lie one after the other from a position on.\<close>

fun placed :: "nat \<Rightarrow> segment list \<Rightarrow> bool" where
  "placed i [] = True"
| "placed i (Between c # segs) = placed (Suc i) segs"
| "placed i (Match j m # segs) = (j = i \<and> m \<noteq> [] \<and> placed (i + length m) segs)"

lemma segments_split:
  "concat (map covered (segments r i p)) = snd p \<and> placed i (segments r i p)"
proof (induction r i p rule: segments.induct)
  case (2 r i before c cs)
  show ?case
  proof (cases "ends r (before, c # cs)")
    case Nil
    with 2(1) show ?thesis by simp
  next
    case (Cons q qs)
    obtain b rest where q: "q = (b, rest)" by (cases q)
    show ?thesis
    proof (cases "length rest \<le> length cs")
      case True
      with 2(2) [OF Cons q [symmetric]] Cons q show ?thesis by (simp add: Suc_diff_le)
    next
      case False
      with 2(3) [OF Cons q [symmetric]] Cons q show ?thesis by simp
    qed
  qed
qed simp

lemma found_split: "concat (map covered (found r t)) = t" "placed 0 (found r t)"
  using segments_split [of r 0 "(None, t)"] by (simp_all add: found_def)

section \<open>Protection\<close>

text \<open>Inside a span everything is copied; so the text of a span survives as a whole.\<close>

lemma protect_Cons:
  "fst (protect spans n (Between c # segs)) = c # fst (protect spans n segs)"
  "overlaps spans i m \<Longrightarrow> fst (protect spans n (Match i m # segs)) = m @ fst (protect spans n segs)"
  by (simp_all add: split_beta)

lemma overlapsI: "(start, stop) \<in> set spans \<Longrightarrow> i < stop \<Longrightarrow> start < i + length m \<Longrightarrow> overlaps spans i m"
  by (auto simp: overlaps_def list_ex_iff)

lemma protect_step:
  assumes "placed i (s # segs)"
  shows "\<exists>out n'. fst (protect spans n (s # segs)) = out @ fst (protect spans n' segs) \<and>
    (overlaps spans i (covered s) \<or> (\<exists>c. s = Between c) \<longrightarrow> out = covered s)"
proof (cases s)
  case (Between c)
  then show ?thesis by (intro exI [of _ "[c]"] exI [of _ n]) (simp add: split_beta)
next
  case (Match j m)
  show ?thesis
  proof (cases "overlaps spans i m")
    case True
    with Match assms show ?thesis by (intro exI [of _ m] exI [of _ n]) (simp add: split_beta)
  next
    case False
    with Match assms show ?thesis by (intro exI [of _ "marker n"] exI [of _ "Suc n"]) (simp add: split_beta)
  qed
qed

lemma protect_inside:
  assumes "placed i segs" and "(start, stop) \<in> set spans" and "start \<le> i"
  shows "take (stop - i) (fst (protect spans n segs)) = take (stop - i) (concat (map covered segs))"
  using assms
proof (induction segs arbitrary: i n)
  case (Cons s segs)
  show ?case
  proof (cases s)
    case (Between c)
    with Cons.prems Cons.IH [of "Suc i" n] show ?thesis
      by (cases "stop - i") (simp_all add: protect_Cons(1) diff_Suc del: protect.simps split: nat.splits)
  next
    case (Match j m)
    show ?thesis
    proof (cases "stop \<le> i")
      case False
      with Match Cons.prems have "overlaps spans j m" by (intro overlapsI) (auto simp: neq_Nil_conv)
      with Match Cons.prems Cons.IH [of "i + length m" n] show ?thesis by (simp add: protect_Cons(2) diff_diff_left del: protect.simps)
    qed simp
  qed
qed simp

lemma protect_keeps_span:
  assumes "placed i segs" and "(start, stop) \<in> set spans" and "i \<le> start" and "start < stop"
    and "concat (map covered segs) = a @ v @ b" and "length a = start - i" and "length v = stop - start"
  shows "\<exists>a' b'. fst (protect spans n segs) = a' @ v @ b'"
  using assms
proof (induction segs arbitrary: i n a)
  case (Cons s segs)
  let ?k = "length (covered s)"
  have rest: "placed (i + ?k) segs" using Cons.prems(1) by (cases s) auto
  obtain out n' where out: "fst (protect spans n (s # segs)) = out @ fst (protect spans n' segs)"
    and same: "overlaps spans i (covered s) \<or> (\<exists>c. s = Between c) \<Longrightarrow> out = covered s"
    using protect_step [OF Cons.prems(1)] by blast
  show ?case
  proof (cases "i + ?k \<le> start")
    case True
    with Cons.prems(5,6) have a: "take ?k a = covered s" "concat (map covered segs) = drop ?k a @ v @ b"
      by (auto simp: append_eq_append_conv_if)
    have "\<exists>a' b'. fst (protect spans n' segs) = a' @ v @ b'"
      by (rule Cons.IH [OF rest Cons.prems(2) True Cons.prems(4) a(2)]) (use Cons.prems(6,7) in auto)
    then show ?thesis unfolding out by (metis append.assoc)
  next
    case False
    have "overlaps spans i (covered s) \<or> (\<exists>c. s = Between c)"
      using False Cons.prems(2-4) by (intro disjI1 overlapsI) auto
    note same = same [OF this]
    have "take (stop - (i + ?k)) (fst (protect spans n' segs)) = take (stop - (i + ?k)) (concat (map covered segs))"
      by (rule protect_inside [OF rest Cons.prems(2)]) (use False in simp)
    then have "take (stop - i) (out @ fst (protect spans n' segs)) = take (stop - i) (covered s @ concat (map covered segs))"
      by (simp add: same diff_diff_left)
    also have "\<dots> = a @ v" using Cons.prems(3-7) by simp
    finally show ?thesis unfolding out by (metis append.assoc append_take_drop_id)
  qed
qed simp

section \<open>Known values\<close>

definition occurs :: "points \<Rightarrow> points \<Rightarrow> bool" where
  "occurs v t \<longleftrightarrow> (\<exists>a b. t = a @ v @ b)"

lemma begins_iff: "begins v t \<longleftrightarrow> (\<exists>b. t = v @ b)"
  unfolding begins_def by (metis append_eq_conv_conj append_take_drop_id)

lemma contains_iff: "contains v t \<longleftrightarrow> occurs v t"
proof (induction t)
  case (Cons c t)
  have "occurs v (c # t) \<longleftrightarrow> begins v (c # t) \<or> occurs v t"
    unfolding occurs_def begins_iff by (metis append_Cons append_Nil neq_Nil_conv list.inject)
  with Cons.IH show ?case by simp
qed (auto simp: occurs_def)

lemma protected_value_occurs:
  assumes "(name, v) \<in> set rs" and "name \<noteq> ''ACCOUNT_ID''" and "v \<noteq> []" and "occurs (points_of v) t"
  shows "occurs (points_of v) (fst (protect_identifiers t rs))"
proof -
  let ?v = "points_of v"
  from assms(4) obtain a b where t: "t = a @ ?v @ b" by (auto simp: occurs_def)
  have len: "length ?v = length v" by (simp add: points_of_def)
  have "length a \<in> set (occurrences ?v t)" by (auto simp: occurrences_def t begins_def)
  with assms(1,2) have "(length a, length a + length v) \<in> set (sensitive_spans rs t)"
    by (force simp: sensitive_spans_def)
  then have "\<exists>a' b'. fst (protect_identifiers t rs) = a' @ ?v @ b'"
    unfolding protect_identifiers_def
    by (rule protect_keeps_span [OF found_split(2)]) (use assms(3) found_split(1) t len in auto)
  then show ?thesis by (simp add: occurs_def)
qed

definition free_of_values :: "points \<Rightarrow> redactions \<Rightarrow> bool" where
  "free_of_values t rs \<longleftrightarrow> (\<forall>(name, v) \<in> set rs. name \<noteq> ''ACCOUNT_ID'' \<longrightarrow> v \<noteq> [] \<longrightarrow> \<not> occurs (points_of v) t)"

lemma clean_text_free:
  assumes "sensitive_matches lib t rs = []"
  shows "free_of_values t rs"
proof -
  have empty: "sort (remdups (map fst xs @ ys)) = ([] :: string list) \<Longrightarrow> xs = []" for xs :: redactions and ys
    by (metis Nil_is_append_conv Nil_is_map_conv remdups_eq_nil_iff set_empty set_sort)
  have "filter (\<lambda>nv. contains (points_of (snd nv)) (fst (protect_identifiers t rs))) rs = []"
    by (rule empty) (use assms in \<open>simp only: sensitive_matches_def Let_def\<close>)
  with protected_value_occurs [of _ _ rs t] show ?thesis
    by (fastforce simp: free_of_values_def filter_empty_conv contains_iff)
qed


section \<open>A concrete file\<close>

definition lib_c :: text_library where
  "lib_c = \<lparr>public_address = (\<lambda>t. False), accepts_json = (\<lambda>t. True)\<rparr>"

definition rs_c :: redactions where
  "rs_c = [(''ACCOUNT_ID'', ''123456789012''), (''OPERATOR'', ''jane'')]"

definition env_c :: env where
  "env_c = \<lparr>root_dir = [], files = [[''log''] \<mapsto> regular 384 ''jane''],
     outside = (\<lambda>_ _. False), loads = (\<lambda>_. None), repeats = (\<lambda>_. False), decode = Some, sha256 = (\<lambda>b. b),
     answer = (\<lambda>_ _. \<lparr>returncode = 0, stdout = [], stderr = []\<rparr>)\<rparr>"

definition clean_c :: points where
  "clean_c = points_of ''[REDACTED:OPERATOR]''"

lemma pieces_c:
  "protect_identifiers (points_of ''jane'') rs_c = (points_of ''jane'', [])"
  "substitute ecr_rx (\<lambda>m. label_for ''ECR_REGISTRY'') (points_of ''jane'') = points_of ''jane''"
  by code_simp+

lemma more_pieces_c:
  "substitute rds_rx (\<lambda>m. label_for ''RDS_ENDPOINT'') (points_of ''jane'') = points_of ''jane''"
  "substitute msk_rx (\<lambda>m. label_for ''MSK_ENDPOINT'') (points_of ''jane'') = points_of ''jane''"
  by code_simp+

lemma last_pieces_c:
  "substitute email_rx (\<lambda>m. label_for ''EMAIL'') (points_of ''jane'') = points_of ''jane''"
  "substitute ipv4_rx (replace_public_ipv4 lib_c) (points_of ''jane'') = points_of ''jane''"
  "fold (\<lambda>nv t. replace_all (points_of (snd nv)) (label_for (fst nv)) t) (by_length rs_c) (points_of ''jane'') = clean_c"
  by code_simp+

lemma restored_c: "restore_identifiers t [] = t"
  by (simp add: restore_identifiers_def)

lemma sanitized_c: "sanitize_text lib_c (points_of ''jane'') rs_c = clean_c"
  unfolding sanitize_text_def pieces_c more_pieces_c last_pieces_c Let_def prod.case restored_c ..

lemma found_c:
  "fst (protect_identifiers clean_c rs_c) = clean_c"
  "filter (\<lambda>nv. contains (points_of (snd nv)) clean_c) rs_c = []"
  by code_simp+

lemma more_found_c:
  "filter (\<lambda>p. matches (snd p) clean_c \<noteq> []) structural = []"
  "matches ipv4_rx clean_c = []"
  by code_simp+

lemma matches_c: "sensitive_matches lib_c clean_c rs_c = []"
  unfolding sensitive_matches_def Let_def found_c more_found_c by simp


end
