(* ===== verification/Evidence_Publish.thy ===== *)
theory Evidence_Publish
  imports Evidence_Redact Evidence_Cost Evidence_Png
begin

text \<open>
  Publication in scripts/m4-evidence.py: building a packet of sanitized evidence in a temporary
  directory, verifying it, and renaming it into place; the final phase, which adds the settled
  cost to a provisional packet; and the packet of a failed attempt. An action that raises removes
  its temporary directory.
\<close>

section \<open>Directories\<close>

text \<open>
  What is outside of the model: the order in which a directory is listed, the text library,
  zlib, the random part of a temporary name, and the readings of the clock.
\<close>

record publisher =
  pb_names :: "env \<Rightarrow> path \<Rightarrow> string list"
  pb_library :: text_library
  pb_inflate :: "string \<Rightarrow> string option"
  pb_fresh :: string
  pb_clock :: "nat \<Rightarrow> int"

definition directory_at :: "env \<Rightarrow> path \<Rightarrow> bool" where
  "directory_at w p = (case files w p of Some n \<Rightarrow> nd_content n = Directory | None \<Rightarrow> False)"

text \<open>The names \<open>path.iterdir()\<close> yields.\<close>

definition list_directory :: "publisher \<Rightarrow> env \<Rightarrow> path \<Rightarrow> string list res" where
  "list_directory pb w p = (if directory_at w p then Inr (pb_names pb w p) else py_raise OSError)"

definition directory_node :: node where
  "directory_node = \<lparr>nd_link = False, nd_mode = 448, nd_content = Directory\<rparr>"

text \<open>\<open>path.mkdir(parents=True, exist_ok=True)\<close>: the missing directories on the way.\<close>

definition make_parents :: "path \<Rightarrow> unit act" where
  "make_parents p = (\<lambda>w.
     if list_ex (\<lambda>k. present w (take k p) \<and> \<not> directory_at w (take k p)) [0..<Suc (length p)] then (py_raise OSError, w)
     else (Inr (), w\<lparr>files := (\<lambda>q. if q \<in> set (map (\<lambda>k. take k p) [1..<Suc (length p)]) \<and> files w q = None
       then Some (directory_node\<lparr>nd_mode := 493\<rparr>) else files w q)\<rparr>))"

definition mkdtemp :: "publisher \<Rightarrow> string \<Rightarrow> path \<Rightarrow> path act" where
  "mkdtemp pb prefix_name parent =
     (let p = parent @ [prefix_name @ pb_fresh pb] in
      (\<lambda>w. if files w p \<noteq> None then (py_raise OSError, w)
          else (Inr p, w\<lparr>files := (files w)(p \<mapsto> directory_node)\<rparr>)))"

definition below :: "path \<Rightarrow> path \<Rightarrow> bool" where
  "below base p \<longleftrightarrow> take (length base) p = base"

text \<open>\<open>os.rename\<close> of a directory: the place may hold an empty directory, nothing else.\<close>

definition rename_directory :: "publisher \<Rightarrow> path \<Rightarrow> path \<Rightarrow> unit act" where
  "rename_directory pb src dst = (\<lambda>w.
     if files w dst = None \<or> (directory_at w dst \<and> \<not> is_symlink w dst \<and> pb_names pb w dst = [])
     then (Inr (), w\<lparr>files := (\<lambda>p. if below dst p then files w (src @ drop (length dst) p)
       else if below src p then None else files w p)\<rparr>)
     else (py_raise OSError, w))"

definition remove_tree :: "path \<Rightarrow> env \<Rightarrow> env" where
  "remove_tree base w = w\<lparr>files := (\<lambda>p. if below base p then None else files w p)\<rparr>"

text \<open>\<open>try: ... except BaseException: shutil.rmtree(temporary); raise\<close>.\<close>

definition or_remove :: "path \<Rightarrow> 'a act \<Rightarrow> 'a act" where
  "or_remove base m = (\<lambda>w. case m w of (Inl e, w') \<Rightarrow> (Inl e, remove_tree base w') | done \<Rightarrow> done)"

definition copy_file :: "path \<Rightarrow> path \<Rightarrow> nat \<Rightarrow> unit act" where
  "copy_file src dst mode =
     bindA (reads (\<lambda>w. bindE (read_bytes w src) (\<lambda>b. case b of None \<Rightarrow> py_raise OSError | Some b \<Rightarrow> Inr b)))
       (\<lambda>b w. (Inr (), w\<lparr>files := (files w)(dst \<mapsto> regular mode b)\<rparr>))"

fun mapA :: "('x \<Rightarrow> 'a act) \<Rightarrow> 'x list \<Rightarrow> 'a list act" where
  "mapA f [] = reads (\<lambda>w. Inr [])"
| "mapA f (x # xs) = bindA (f x) (\<lambda>y. bindA (mapA f xs) (\<lambda>ys. reads (\<lambda>w. Inr (y # ys))))"

text \<open>\<open>path.read_text(encoding="utf-8")\<close>.\<close>

definition read_points :: "env \<Rightarrow> path \<Rightarrow> points res" where
  "read_points w p =
     bindE (read_bytes w p) (\<lambda>b. case b of
         None \<Rightarrow> py_raise OSError
       | Some b \<Rightarrow> bindE (decode_text w b) (\<lambda>t. Inr (points_of (universal t))))"

abbreviation ev :: "string \<Rightarrow> json list \<Rightarrow> exn" where
  "ev \<equiv> Err EvidenceError"

section \<open>Creating a packet\<close>

definition required_text :: "string \<Rightarrow> string list" where
  "required_text phase = (if phase = ''final'' then final_text else provisional_text)"

definition publish_text :: "publisher \<Rightarrow> redactions \<Rightarrow> path \<Rightarrow> path \<Rightarrow> string \<Rightarrow> (string \<times> json) act" where
  "publish_text pb rs raw destination name =
     bindA (sanitize_one (pb_library pb) rs (raw @ [name]) (destination @ [name])) (\<lambda>_.
     bindA (reads (\<lambda>w. hash_path w (destination @ [name]))) (\<lambda>h.
       reads (\<lambda>w. Inr (name, JObj [(''sha256'', JStr h)]))))"

definition publish_screenshot :: "publisher \<Rightarrow> json \<Rightarrow> path \<Rightarrow> path \<Rightarrow> string \<Rightarrow> (string \<times> json) act" where
  "publish_screenshot pb review raw destination name =
     bindA (reads (\<lambda>w. ensure (JStr name \<in> set (items_of (jget review ''files'')))
       (ev ''screenshot was not included in visual review: {}'' [JStr name]))) (\<lambda>_.
     bindA (reads (\<lambda>w. validate_png w (pb_inflate pb) (raw @ [name]))) (\<lambda>size_json.
     bindA (copy_file (raw @ [name]) (destination @ [name]) 420) (\<lambda>_.
     bindA (reads (\<lambda>w. hash_path w (destination @ [name]))) (\<lambda>h.
       reads (\<lambda>w. Inr (name, JObj ((''sha256'', JStr h) # obj_of size_json)))))))"

definition create_publication ::
  "publisher \<Rightarrow> path \<Rightarrow> path \<Rightarrow> string \<Rightarrow> string \<Rightarrow> redactions \<Rightarrow> int \<Rightarrow> json act" where
  "create_publication pb raw destination run_id phase rs now =
     bindA (reads (\<lambda>w. validate_visual_review w raw run_id)) (\<lambda>review.
     bindA (reads (\<lambda>w. Inr (required_screenshots @ filter (\<lambda>n. is_file w (raw @ [n])) optional_screenshots))) (\<lambda>screenshots.
     bindA (mapA (publish_text pb rs raw destination) (required_text phase)) (\<lambda>texts.
     bindA (mapA (publish_screenshot pb review raw destination) screenshots) (\<lambda>images.
     bindA (reads (\<lambda>w. validate_proof w raw run_id now)) (\<lambda>proof_hashes.
     bindA (reads (\<lambda>w. if phase = ''final''
       then bindE (hash_path w (raw @ [''23-cost-final.txt''])) (\<lambda>h. Inr [(''final_cost_sha256'', JStr h)])
       else Inr [])) (\<lambda>cost.
     reads (\<lambda>w. Inr (JObj
       ([(''schema_version'', JInt 1), (''run_id'', JStr run_id), (''phase'', JStr phase), (''result'', JStr ''passed''),
         (''redaction_names'', JArr (map JStr (sort (map fst rs)))),
         (''visual_review'', JObj [(''reviewed_at'', jget review ''reviewed_at''), (''files'', JArr (map JStr screenshots))]),
         (''files'', JObj (texts @ images)), (''proof_receipts'', proof_hashes)] @ cost)))))))))"

section \<open>Verifying a packet\<close>

definition publication_keys :: "string \<Rightarrow> string list" where
  "publication_keys phase =
     [''schema_version'', ''run_id'', ''phase'', ''result'', ''redaction_names'', ''visual_review'', ''files'',
      ''secret_scan_sha256'', ''proof_receipts''] @ (if phase = ''final'' then [''final_cost_sha256''] else [])"

definition receipt_matches :: "json \<Rightarrow> string \<Rightarrow> string \<Rightarrow> redactions \<Rightarrow> bool" where
  "receipt_matches receipt run_id phase rs \<longleftrightarrow>
     (let review = jget receipt ''visual_review'' in
      keys_eq receipt (publication_keys phase) \<and> py_eq (jget receipt ''schema_version'') (JInt 1) \<and>
      jget receipt ''run_id'' = JStr run_id \<and> jget receipt ''phase'' = JStr phase \<and>
      jget receipt ''result'' = JStr ''passed'' \<and>
      jget receipt ''redaction_names'' = JArr (map JStr (sort (map fst rs))) \<and>
      is_dict review \<and> keys_eq review [''reviewed_at'', ''files''] \<and> is_list (jget review ''files'') \<and>
      is_dict (jget receipt ''files''))"

text \<open>\<open>destination.parents[3] / ".evidence" / "m4" / run_id\<close>.\<close>

definition raw_of :: "path \<Rightarrow> string \<Rightarrow> path" where
  "raw_of destination run_id = take (length destination - 4) destination @ [''.evidence'', ''m4'', run_id]"

text \<open>The clock is read for the proof and again for the settled cost.\<close>

definition verify_private :: "env \<Rightarrow> path \<Rightarrow> string \<Rightarrow> string \<Rightarrow> json \<Rightarrow> (nat \<Rightarrow> int) \<Rightarrow> unit res" where
  "verify_private w raw run_id phase receipt clock =
     bindE (validate_proof w raw run_id (clock 0)) (\<lambda>proof_hashes.
     bindE (ensure (py_eq (jget receipt ''proof_receipts'') proof_hashes)
       (ev ''private proof receipts changed since publication'' [])) (\<lambda>_.
     if phase = ''final''
     then bindE (validate_final_cost w raw run_id None (clock 1)) (\<lambda>_.
       bindE (hash_path w (raw @ [''23-cost-final.txt''])) (\<lambda>h.
       ensure (jget receipt ''final_cost_sha256'' = JStr h) (ev ''final cost changed since publication'' [])))
     else Inr ()))"

definition verify_names :: "string list \<Rightarrow> string \<Rightarrow> json \<Rightarrow> unit res" where
  "verify_names actual phase receipt =
     (let expected = required_text phase @ required_screenshots;
          allowed = expected @ optional_screenshots @ [''publication.json''];
          missing = sort (remdups (filter (\<lambda>n. n \<notin> set actual) expected));
          unexpected = sort (remdups (filter (\<lambda>n. n \<notin> set allowed) actual));
          review = jget receipt ''visual_review'' in
      bindE (ensure (missing = []) (ev ''published evidence is missing: {}'' (map JStr missing))) (\<lambda>_.
      bindE (ensure (unexpected = [])
        (ev ''published evidence contains unexpected file(s): {}'' (map JStr unexpected))) (\<lambda>_.
      bindE (ensure (jget review ''files'' =
          JArr (map JStr (filter (\<lambda>n. n \<in> set actual) (required_screenshots @ optional_screenshots))))
        (ev ''publication receipt screenshot list does not match the directory'' [])) (\<lambda>_.
      bindE (parse_utc (jget review ''reviewed_at'') ''publication visual review reviewed_at'') (\<lambda>_.
      ensure (set (map fst (obj_of (jget receipt ''files''))) = set actual - {''publication.json''})
        (ev ''publication receipt file list does not match the directory'' []))))))"

definition verify_text :: "publisher \<Rightarrow> redactions \<Rightarrow> env \<Rightarrow> path \<Rightarrow> string \<Rightarrow> unit res" where
  "verify_text pb rs w p name =
     bindE (reraise [ValueError] (ev ''published evidence is not UTF-8: {}'' [JStr name]) (read_points w p)) (\<lambda>t.
     let leaks = sensitive_matches (pb_library pb) t rs in
     bindE (ensure (leaks = [])
       (ev ''published evidence contains {}: {}'' [JArr (map JStr leaks), JStr name])) (\<lambda>_.
     ensure (\<not> is_json name \<or> accepts_json (pb_library pb) t)
       (ev ''published JSON is invalid in {}: {}'' [JStr name])))"

definition verify_file :: "publisher \<Rightarrow> redactions \<Rightarrow> env \<Rightarrow> path \<Rightarrow> string \<times> json \<Rightarrow> unit res" where
  "verify_file pb rs w destination entry =
     (let (name, metadata) = entry; p = destination @ [name] in
      bindE (ensure (\<not> is_symlink w p \<and> is_file w p)
        (ev ''published evidence is not a regular file: {}'' [JStr name])) (\<lambda>_.
      bindE (ensure (is_dict metadata) (ev ''published evidence hash changed: {}'' [JStr name])) (\<lambda>_.
      bindE (hash_path w p) (\<lambda>h.
      bindE (ensure (jget metadata ''sha256'' = JStr h) (ev ''published evidence hash changed: {}'' [JStr name])) (\<lambda>_.
      if is_png name then bindE (validate_png w (pb_inflate pb) p) (\<lambda>_. Inr ())
      else verify_text pb rs w p name)))))"

definition verify_publication ::
  "publisher \<Rightarrow> env \<Rightarrow> path \<Rightarrow> string \<Rightarrow> string \<Rightarrow> redactions \<Rightarrow> (nat \<Rightarrow> int) \<Rightarrow> json res" where
  "verify_publication pb w destination run_id phase rs clock =
     (let path = destination @ [''publication.json''] in
      bindE (read_json_object w path ''publication receipt'') (\<lambda>receipt.
      bindE (ensure (receipt_matches receipt run_id phase rs)
        (ev ''publication receipt does not match this run and phase'' [])) (\<lambda>_.
      bindE (verify_private w (raw_of destination run_id) run_id phase receipt clock) (\<lambda>_.
      bindE (read_points w path) (\<lambda>t.
      let leaks = sensitive_matches (pb_library pb) t rs in
      bindE (ensure (leaks = []) (ev ''publication receipt contains sensitive value(s): {}'' (map JStr leaks))) (\<lambda>_.
      bindE (list_directory pb w destination) (\<lambda>actual.
      bindE (verify_names actual phase receipt) (\<lambda>_.
      bindE (foldE (\<lambda>u entry. verify_file pb rs w destination entry) () (obj_of (jget receipt ''files''))) (\<lambda>_.
        Inr receipt)))))))))"

definition verify_secret_publication :: "publisher \<Rightarrow> env \<Rightarrow> path \<Rightarrow> path \<Rightarrow> string \<Rightarrow> unit res" where
  "verify_secret_publication pb w raw destination run_id =
     bindE (load_secret_scan w raw run_id True) (\<lambda>scan.
     bindE (read_json_object w (destination @ [''publication.json'']) ''publication'') (\<lambda>publication.
     bindE (hash_path w (raw @ [''secret-scan.json''])) (\<lambda>h.
     bindE (ensure (jget publication ''secret_scan_sha256'' = JStr h)
       (ev ''private secret scan changed since publication'' [])) (\<lambda>_.
     bindE (list_directory pb w destination) (\<lambda>names.
       scan_secret_files w destination names scan)))))"

section \<open>Publishing\<close>

text \<open>The readings of the clock from the \<open>k\<close>-th on.\<close>

definition later :: "publisher \<Rightarrow> nat \<Rightarrow> nat \<Rightarrow> int" where
  "later pb k i = pb_clock pb (k + i)"

definition verify_whole :: "publisher \<Rightarrow> path \<Rightarrow> path \<Rightarrow> string \<Rightarrow> string \<Rightarrow> redactions \<Rightarrow> nat \<Rightarrow> env \<Rightarrow> unit res" where
  "verify_whole pb raw destination run_id phase rs k w =
     bindE (verify_publication pb w destination run_id phase rs (later pb k)) (\<lambda>_.
       verify_secret_publication pb w raw destination run_id)"

definition publish_checks :: "publisher \<Rightarrow> env \<Rightarrow> path \<Rightarrow> string \<Rightarrow> string \<Rightarrow> path \<Rightarrow> redactions res" where
  "publish_checks pb w raw run_id phase redactions_path =
     bindE (validate_preflight w raw run_id) (\<lambda>_.
     bindE (ensure (is_file w (raw @ [''capture-plan.json''])) (ev ''capture-plan.json is missing; run init first'' [])) (\<lambda>_.
     bindE (load_redactions w redactions_path) (\<lambda>rs.
     bindE (load_secret_scan w raw run_id True) (\<lambda>scan.
     bindE (scan_secret_files w raw (required_text phase @
         (if present w (raw @ [''application-logs.txt'']) then [''application-logs.txt''] else [])) scan) (\<lambda>_.
     bindE (validate_proof w raw run_id (pb_clock pb 0)) (\<lambda>_.
     bindE (if phase = ''final'' then bindE (validate_final_cost w raw run_id None (pb_clock pb 1)) (\<lambda>_. Inr ()) else Inr ()) (\<lambda>_.
       Inr rs)))))))"

text \<open>\<open>old["files"][name] = entry\<close> on the dict a key holds.\<close>

definition add_file :: "json \<Rightarrow> string \<Rightarrow> json \<Rightarrow> json" where
  "add_file receipt name entry = jset receipt ''files'' (jset (jget receipt ''files'') name entry)"

definition finalized_receipt :: "json \<Rightarrow> string \<Rightarrow> string \<Rightarrow> json" where
  "finalized_receipt old cost_hash target_hash =
     add_file (jset (jset old ''phase'' (JStr ''final'')) ''final_cost_sha256'' (JStr cost_hash))
       ''23-cost-final.txt'' (JObj [(''sha256'', JStr target_hash)])"

text \<open>The final phase of a run that has a provisional packet.\<close>

definition finalize :: "publisher \<Rightarrow> redactions \<Rightarrow> path \<Rightarrow> path \<Rightarrow> string \<Rightarrow> unit act" where
  "finalize pb rs raw destination run_id =
     (let name = ''23-cost-final.txt''; target = destination @ [name]; path = destination @ [''publication.json''] in
      bindA (reads (verify_whole pb raw destination run_id ''provisional'' rs 2)) (\<lambda>_.
      bindA (reads (\<lambda>w. ensure (\<not> present w target) (ev ''final cost evidence already exists: {}'' [path_json target]))) (\<lambda>_.
      bindA (sanitize_one (pb_library pb) rs (raw @ [name]) target) (\<lambda>_.
      bindA (reads (\<lambda>w. read_json_object w path ''publication receipt'')) (\<lambda>old.
      bindA (reads (\<lambda>w. hash_path w (raw @ [name]))) (\<lambda>cost_hash.
      bindA (reads (\<lambda>w. hash_path w target)) (\<lambda>target_hash.
      bindA (write_json_atomic path (finalized_receipt old cost_hash target_hash) 420) (\<lambda>_.
        reads (verify_whole pb raw destination run_id ''final'' rs 3)))))))))"

definition build_packet :: "publisher \<Rightarrow> redactions \<Rightarrow> path \<Rightarrow> path \<Rightarrow> path \<Rightarrow> string \<Rightarrow> string \<Rightarrow> unit act" where
  "build_packet pb rs raw destination temporary run_id phase =
     bindA (create_publication pb raw temporary run_id phase rs (pb_clock pb 2)) (\<lambda>receipt.
     bindA (reads (\<lambda>w. hash_path w (raw @ [''secret-scan.json'']))) (\<lambda>h.
     bindA (write_json_exclusive (temporary @ [''publication.json'']) (jset receipt ''secret_scan_sha256'' (JStr h)) 420) (\<lambda>_.
     bindA (reads (verify_whole pb raw temporary run_id phase rs 3)) (\<lambda>_.
       rename_directory pb temporary destination))))"

definition publish_new :: "publisher \<Rightarrow> redactions \<Rightarrow> path \<Rightarrow> path \<Rightarrow> string \<Rightarrow> string \<Rightarrow> unit act" where
  "publish_new pb rs raw destination run_id phase =
     bindA (make_parents (butlast destination)) (\<lambda>_.
     bindA (mkdtemp pb (''.'' @ run_id @ ''.'') (butlast destination)) (\<lambda>temporary.
       or_remove temporary (build_packet pb rs raw destination temporary run_id phase)))"

section \<open>A failed attempt\<close>

definition snapshot_names :: "string list" where
  "snapshot_names = [''00-preflight.json'', ''00-session.json'', ''01-identity.txt'', ''06-go-no-go.json'',
     ''secret-scan.json'', ''controller-state.json'']"

definition snapshot_file :: "path \<Rightarrow> path \<Rightarrow> string \<Rightarrow> unit act" where
  "snapshot_file raw temporary name =
     bindA (reads (\<lambda>w. let p = raw @ [name] in
       ensure (\<not> is_symlink w p \<and> is_file w p \<and> file_size w p \<le> 1024 * 1024)
         (ev ''failed snapshot source missing or unsafe'' []))) (\<lambda>_.
       copy_file (raw @ [name]) (temporary @ [name]) 384)"

definition snapshot_failed_attempt :: "publisher \<Rightarrow> datetime \<Rightarrow> path \<Rightarrow> string \<Rightarrow> path act" where
  "snapshot_failed_attempt pb now raw run_id =
     (let destination = raw @ [''failed-publication''] in
      bindA (reads (\<lambda>w. ensure_beneath w destination raw)) (\<lambda>_.
      bindA (reads (\<lambda>w. Inr (present w destination))) (\<lambda>there.
      if there then bindA (reads (\<lambda>w. failed_summary w destination run_id)) (\<lambda>_. reads (\<lambda>w. Inr destination))
      else
        bindA (mkdtemp pb ''.failed-publication-'' raw) (\<lambda>temporary.
        bindA (or_remove temporary
          (bindA (mapA (snapshot_file raw temporary) snapshot_names) (\<lambda>_.
           bindA (reads (\<lambda>w. failed_summary w temporary run_id)) (\<lambda>_.
           bindA (write_json_exclusive (temporary @ [''observation.json''])
             (JObj [(''observed_at'', JStr (iso_text now))]) 384) (\<lambda>_.
             rename_directory pb temporary destination))))) (\<lambda>_.
          reads (\<lambda>w. Inr destination))))))"

definition failed_receipt :: "env \<Rightarrow> path \<Rightarrow> path \<Rightarrow> string \<Rightarrow> json res" where
  "failed_receipt w raw packet run_id =
     bindE (hash_path w (raw @ [''secret-scan.json''])) (\<lambda>scan_hash.
     bindE (hash_path w (raw @ [''controller-state.json''])) (\<lambda>state_hash.
     bindE (hash_files w raw [''01-identity.txt'', ''06-go-no-go.json'']) (\<lambda>authority.
     bindE (read_json_object w (raw @ [''observation.json'']) ''observation'') (\<lambda>observation.
     bindE (py_index observation ''observed_at'') (\<lambda>observed_at.
     bindE (hash_path w (packet @ [''failed-attempt.json''])) (\<lambda>attempt_hash.
       Inr (JObj
         [(''schema_version'', JInt 1), (''run_id'', JStr run_id), (''phase'', JStr ''failed''), (''result'', JStr ''failed''),
          (''secret_scan_sha256'', JStr scan_hash), (''controller_snapshot_sha256'', JStr state_hash),
          (''authority_sha256'', JObj authority), (''observed_at'', observed_at),
          (''files'', JObj [(''failed-attempt.json'', JObj [(''sha256'', JStr attempt_hash)])])])))))))"

definition no_sensitive_file :: "publisher \<Rightarrow> redactions \<Rightarrow> env \<Rightarrow> exn \<Rightarrow> path \<Rightarrow> unit res" where
  "no_sensitive_file pb rs w e directory =
     bindE (list_directory pb w directory) (\<lambda>names.
       foldE (\<lambda>u n. bindE (read_points w (directory @ [n])) (\<lambda>t. ensure (sensitive_matches (pb_library pb) t rs = []) e)) () names)"

definition failed_names :: "string list" where
  "failed_names = [''failed-attempt.json'', ''publication.json'']"

definition leaked :: exn where
  "leaked = ev ''failed summary contains a known sensitive value'' []"

definition verify_failed :: "publisher \<Rightarrow> env \<Rightarrow> string \<Rightarrow> redactions \<Rightarrow> unit res" where
  "verify_failed pb w run_id rs =
     bindE (evidence_paths w run_id) (\<lambda>(raw0, destination).
     let raw = raw0 @ [''failed-publication''] in
     bindE (ensure_beneath w raw (root_dir w)) (\<lambda>_.
     bindE (list_directory pb w destination) (\<lambda>names.
     bindE (ensure (set names = set failed_names) (ev ''unexpected failed publication contents'' [])) (\<lambda>_.
     bindE (load_secret_scan w raw run_id False) (\<lambda>scan.
     bindE (scan_secret_files w destination failed_names scan) (\<lambda>_.
     bindE (failed_receipt w raw destination run_id) (\<lambda>expected.
     bindE (read_json_object w (destination @ [''publication.json'']) ''publication'') (\<lambda>receipt.
     let e = ev ''failed publication does not match the private controller evidence'' [] in
     bindE (ensure (py_eq receipt expected) e) (\<lambda>_.
     bindE (read_json_object w (destination @ [''failed-attempt.json'']) ''failed attempt'') (\<lambda>attempt.
     bindE (failed_summary w raw run_id) (\<lambda>summary.
     bindE (ensure (py_eq attempt summary) e) (\<lambda>_.
       no_sensitive_file pb rs w leaked destination))))))))))))"

definition build_failed :: "publisher \<Rightarrow> redactions \<Rightarrow> path \<Rightarrow> path \<Rightarrow> path \<Rightarrow> string \<Rightarrow> json \<Rightarrow> json \<Rightarrow> unit act" where
  "build_failed pb rs raw destination temporary run_id summary scan =
     bindA (write_json_exclusive (temporary @ [''failed-attempt.json'']) summary 420) (\<lambda>_.
     bindA (reads (\<lambda>w. failed_receipt w raw temporary run_id)) (\<lambda>receipt.
     bindA (write_json_exclusive (temporary @ [''publication.json'']) receipt 420) (\<lambda>_.
     bindA (reads (\<lambda>w. scan_secret_files w temporary failed_names scan)) (\<lambda>_.
     bindA (reads (\<lambda>w. no_sensitive_file pb rs w leaked temporary)) (\<lambda>_.
       rename_directory pb temporary destination)))))"

definition publish_failed :: "publisher \<Rightarrow> datetime \<Rightarrow> string \<Rightarrow> path \<Rightarrow> path act" where
  "publish_failed pb now run_id redactions_path =
     bindA (reads (\<lambda>w. evidence_paths w run_id)) (\<lambda>(raw0, destination).
     bindA (reads (\<lambda>w. load_redactions w redactions_path)) (\<lambda>rs.
     bindA (snapshot_failed_attempt pb now raw0 run_id) (\<lambda>raw.
     bindA (reads (\<lambda>w. failed_summary w raw run_id)) (\<lambda>summary.
     bindA (reads (\<lambda>w. load_secret_scan w raw run_id False)) (\<lambda>scan.
     bindA (reads (\<lambda>w. ensure (\<not> present w destination) (ev ''failed evidence destination already exists'' []))) (\<lambda>_.
     bindA (make_parents (butlast destination)) (\<lambda>_.
     bindA (mkdtemp pb (''.'' @ run_id @ ''.'') (butlast destination)) (\<lambda>temporary.
     bindA (or_remove temporary (build_failed pb rs raw destination temporary run_id summary scan)) (\<lambda>_.
     bindA (reads (\<lambda>w. verify_failed pb w run_id rs)) (\<lambda>_.
       reads (\<lambda>w. Inr destination)))))))))))"

definition publish :: "publisher \<Rightarrow> datetime \<Rightarrow> string \<Rightarrow> string \<Rightarrow> path \<Rightarrow> path act" where
  "publish pb now run_id phase redactions_path =
     (if phase = ''failed'' then publish_failed pb now run_id redactions_path
      else
        bindA (reads (\<lambda>w. evidence_paths w run_id)) (\<lambda>(raw, destination).
        bindA (reads (\<lambda>w. publish_checks pb w raw run_id phase redactions_path)) (\<lambda>rs.
        bindA (reads (\<lambda>w. Inr (present w destination))) (\<lambda>there.
        bindA (if there
          then bindA (reads (\<lambda>w. ensure (phase = ''final'')
              (ev ''published evidence destination already exists: {}'' [path_json destination]))) (\<lambda>_.
            finalize pb rs raw destination run_id)
          else publish_new pb rs raw destination run_id phase) (\<lambda>_.
          reads (\<lambda>w. Inr destination))))))"

end
