(* ===== verification/Evidence_Publish_Correct.thy ===== *)
theory Evidence_Publish_Correct
  imports Evidence_Publish Evidence_Redact_Correct
begin

text \<open>
  Publication keeps its promises also when it fails: a packet with a known value is never
  accepted, a failed publication leaves nothing behind, and the final phase changes two files of
  the provisional packet and nothing else.
\<close>

section \<open>Leaking packets\<close>

lemma verify_names_listed:
  assumes "verify_names actual phase receipt = Inr ()" and "n \<in> set actual" and "n \<noteq> ''publication.json''"
  obtains metadata where "(n, metadata) \<in> set (obj_of (jget receipt ''files''))"
proof -
  have "set (map fst (obj_of (jget receipt ''files''))) = set actual - {''publication.json''}"
    using assms(1) unfolding verify_names_def Let_def bindE_eq_Inr ensure_eq_Inr by blast
  with assms(2,3) have "n \<in> fst ` set (obj_of (jget receipt ''files''))" by auto
  then show ?thesis using that by force
qed

lemma verify_publication_ok:
  assumes "verify_publication pb w destination run_id phase rs clock = Inr receipt"
  obtains t names where "read_points w (destination @ [''publication.json'']) = Inr t"
    "sensitive_matches (pb_library pb) t rs = []" "list_directory pb w destination = Inr names"
    "verify_names names phase receipt = Inr ()"
    "\<forall>entry \<in> set (obj_of (jget receipt ''files'')). verify_file pb rs w destination entry = Inr ()"
    "receipt_matches receipt run_id phase rs"
    "verify_private w (raw_of destination run_id) run_id phase receipt clock = Inr ()"
  using assms unfolding verify_publication_def Let_def bindE_eq_Inr ensure_eq_Inr
  by (auto simp: foldE_unit intro: that)

lemma verified_text:
  assumes "verify_publication pb w destination run_id phase rs clock = Inr receipt"
    and "list_directory pb w destination = Inr names" and "n \<in> set names" and "\<not> is_png n"
  obtains t where "read_points w (destination @ [n]) = Inr t" "sensitive_matches (pb_library pb) t rs = []"
proof (cases "n = ''publication.json''")
  case True
  with assms(1) that show ?thesis by (auto elim: verify_publication_ok)
next
  case False
  from assms(1,2) have names: "verify_names names phase receipt = Inr ()"
    and each: "\<forall>entry \<in> set (obj_of (jget receipt ''files'')). verify_file pb rs w destination entry = Inr ()"
    by (auto elim!: verify_publication_ok)
  obtain metadata where "(n, metadata) \<in> set (obj_of (jget receipt ''files''))"
    by (rule verify_names_listed [OF names assms(3) False])
  with each have "verify_file pb rs w destination (n, metadata) = Inr ()" by blast
  with assms(4) have "verify_text pb rs w (destination @ [n]) n = Inr ()"
    by (auto simp: verify_file_def Let_def bindE_eq_Inr)
  with that show ?thesis by (auto simp: verify_text_def Let_def bindE_eq_Inr reraise_eq_Inr)
qed


section \<open>Failure leaves nothing\<close>

text \<open>Whatever an action does to the files, it does below a directory.\<close>

definition confined :: "path \<Rightarrow> 'a act \<Rightarrow> bool" where
  "confined base m \<longleftrightarrow> (\<forall>w p. \<not> below base p \<longrightarrow> files (snd (m w)) p = files w p)"

named_theorems confined_intros "rules for actions confined to a directory"

lemma confined_reads [confined_intros]: "confined base (reads f)"
  by (simp add: confined_def reads_def)

lemma confined_bind [confined_intros]:
  "confined base m \<Longrightarrow> (\<And>x. confined base (f x)) \<Longrightarrow> confined base (bindA m f)"
  unfolding confined_def bindA_def by (auto split: prod.splits sum.splits) (metis snd_conv)+

lemma confined_mapA [confined_intros]: "(\<And>x. confined base (f x)) \<Longrightarrow> confined base (mapA f xs)"
  by (induction xs) (auto intro: confined_intros)

lemma below_child [simp]: "below base (base @ p)"
  by (simp add: below_def)

lemma confined_exclusive [confined_intros]: "below base p \<Longrightarrow> confined base (write_json_exclusive p v mode)"
  by (auto simp: confined_def write_json_exclusive_def)

lemma confined_write_text: "below base p \<Longrightarrow> confined base (write_text p t)"
  by (auto simp: confined_def write_text_def)

lemma confined_sanitize [confined_intros]: "below base p \<Longrightarrow> confined base (sanitize_one lib rs source p)"
  unfolding sanitize_one_def by (intro confined_intros confined_write_text)

lemma confined_copy [confined_intros]: "below base p \<Longrightarrow> confined base (copy_file src p mode)"
  unfolding copy_file_def by (intro confined_intros) (auto simp: confined_def)

lemma confined_publication: "confined base (create_publication pb raw base run_id phase rs now)"
  unfolding create_publication_def publish_text_def publish_screenshot_def
  by (intro confined_intros below_child)

text \<open>
  An action that is confined but for renaming the directory at its end, and removes the directory
  when it raises, has then changed nothing.
\<close>

lemma below_length: "below base p \<Longrightarrow> length base \<le> length p"
  unfolding below_def by (drule arg_cong [of _ _ length]) simp

lemma rename_fails: "rename_directory pb src dst w = (Inl e, w') \<Longrightarrow> w' = w"
  by (simp add: rename_directory_def split: if_splits)

lemma or_remove_clean:
  assumes "confined base m" and "\<And>p. below base p \<Longrightarrow> p \<noteq> base \<Longrightarrow> files w p = None"
    and "or_remove base (bindA m (\<lambda>_. rename_directory pb base dst)) w = (Inl e, w')"
  shows "files w' = (files w)(base := None)"
proof -
  obtain r u where u: "bindA m (\<lambda>_. rename_directory pb base dst) w = (r, u)" by fastforce
  with assms(3) have r: "r = Inl e" "w' = remove_tree base u"
    by (auto simp: or_remove_def split: sum.splits)
  have "files u p = files w p" if "\<not> below base p" for p
  proof (cases "m w")
    case (Pair q w1)
    with assms(1) that have "files w1 p = files w p" by (metis confined_def snd_conv)
    moreover from Pair u r(1) have "u = w1"
      by (cases q) (auto simp: bindA_def dest: rename_fails)
    ultimately show ?thesis by simp
  qed
  then show ?thesis using assms(2) by (auto simp: r(2) remove_tree_def below_def fun_eq_iff)
qed

lemma bindA_assoc: "bindA (bindA m f) g = bindA m (\<lambda>x. bindA (f x) g)"
  by (rule ext) (auto simp: bindA_def split: prod.splits sum.splits)

definition verified_packet :: "publisher \<Rightarrow> redactions \<Rightarrow> path \<Rightarrow> path \<Rightarrow> string \<Rightarrow> string \<Rightarrow> unit act" where
  "verified_packet pb rs raw temporary run_id phase =
     bindA (create_publication pb raw temporary run_id phase rs (pb_clock pb 2)) (\<lambda>receipt.
     bindA (reads (\<lambda>w. hash_path w (raw @ [''secret-scan.json'']))) (\<lambda>h.
     bindA (write_json_exclusive (temporary @ [''publication.json'']) (jset receipt ''secret_scan_sha256'' (JStr h)) 420) (\<lambda>_.
       reads (verify_whole pb raw temporary run_id phase rs 3))))"

lemma build_packet_rename:
  "build_packet pb rs raw destination temporary run_id phase =
     bindA (verified_packet pb rs raw temporary run_id phase) (\<lambda>_. rename_directory pb temporary destination)"
  by (simp add: build_packet_def verified_packet_def bindA_assoc)

lemma confined_packet: "confined base (verified_packet pb rs raw base run_id phase)"
  unfolding verified_packet_def by (intro confined_intros confined_publication below_child)

text \<open>
  C12. A publication that fails leaves nothing behind. When building, verifying or renaming the
  packet raises, for whatever reason, every file is as before; at most missing directories above
  the destination have been created. The hypothesis is that of \<open>mkdtemp\<close>: nothing lies below
  a name that is not taken.
\<close>

theorem failed_publish_leaves_nothing:
  assumes "publish_new pb rs raw destination run_id phase w = (Inl e, w')"
    and "\<And>p. below (butlast destination @ [''.'' @ run_id @ ''.'' @ pb_fresh pb]) p \<Longrightarrow> files w p = None"
  shows "files w' p = files w p \<or>
    (files w p = None \<and> files w' p = Some (directory_node\<lparr>nd_mode := 493\<rparr>) \<and> below p (butlast destination))"
proof -
  let ?parent = "butlast destination" and ?tmp = "butlast destination @ [''.'' @ run_id @ ''.'' @ pb_fresh pb]"
  obtain r0 w0 where w0: "make_parents ?parent w = (r0, w0)" by fastforce
  have parents: "files w0 p = files w p \<or>
      (files w p = None \<and> files w0 p = Some (directory_node\<lparr>nd_mode := 493\<rparr>) \<and> below p ?parent)" for p
    using w0 by (auto simp: make_parents_def below_def split: if_splits)
  have tmp: "files w0 p = None" if "below ?tmp p" for p
  proof -
    have "length p \<le> length ?parent" if "below p ?parent" using below_length [OF that] .
    moreover have "length ?parent < length p" using below_length [OF that] by simp
    ultimately show ?thesis using parents [of p] assms(2) [OF that] by auto
  qed
  show ?thesis
  proof (cases r0)
    case (Inl e0)
    with assms(1) w0 have "w' = w0" by (simp add: publish_new_def bindA_def)
    with parents show ?thesis by simp
  next
    case (Inr x)
    define w1 where "w1 = w0\<lparr>files := (files w0)(?tmp \<mapsto> directory_node)\<rparr>"
    have "mkdtemp pb (''.'' @ run_id @ ''.'') ?parent w0 = (Inr ?tmp, w1)"
      using tmp [of ?tmp] by (simp add: mkdtemp_def w1_def below_def Let_def)
    with assms(1) w0 Inr have "or_remove ?tmp (build_packet pb rs raw destination ?tmp run_id phase) w1 = (Inl e, w')"
      by (simp add: publish_new_def bindA_def)
    note failed = this [unfolded build_packet_rename]
    have "files w' = (files w1)(?tmp := None)"
      by (rule or_remove_clean [OF confined_packet _ failed]) (auto simp: w1_def tmp)
    also have "\<dots> = files w0" using tmp [of ?tmp] by (auto simp: w1_def below_def)
    finally show ?thesis using parents by simp
  qed
qed

section \<open>The final phase\<close>

text \<open>Actions that write only two given places.\<close>

definition writes_two :: "path \<Rightarrow> path \<Rightarrow> 'a act \<Rightarrow> bool" where
  "writes_two a b m \<longleftrightarrow> (\<forall>w. \<exists>x y. files (snd (m w)) = (files w)(a := x, b := y))"

lemma writes_two_reads: "writes_two a b (reads f)"
proof -
  have "files w = (files w)(a := files w a, b := files w b)" for w :: env by simp
  then show ?thesis unfolding writes_two_def reads_def snd_conv by blast
qed

lemma writes_two_bind:
  assumes "writes_two a b m" and "\<And>x. writes_two a b (f x)"
  shows "writes_two a b (bindA m f)"
  unfolding writes_two_def
proof
  fix w
  obtain r u where u: "m w = (r, u)" by fastforce
  from assms(1) u obtain x y where xy: "files u = (files w)(a := x, b := y)" by (metis writes_two_def snd_conv)
  show "\<exists>x y. files (snd (bindA m f w)) = (files w)(a := x, b := y)"
  proof (cases r)
    case (Inl e)
    with u xy show ?thesis by (auto simp: bindA_def)
  next
    case (Inr z)
    obtain x' y' where "files (snd (f z u)) = (files u)(a := x', b := y')"
      using assms(2) unfolding writes_two_def by blast
    then have "files (snd (f z u)) = (files w)(a := x', b := y')" unfolding xy by (auto simp: fun_eq_iff)
    with u Inr show ?thesis by (auto simp: bindA_def)
  qed
qed

lemma writes_two_single: "(\<And>w. \<exists>x. files (snd (m w)) = (files w)(c := x)) \<Longrightarrow> c \<in> {a, b} \<Longrightarrow> writes_two a b m"
  unfolding writes_two_def by (metis fun_upd_triv fun_upd_twist fun_upd_upd insertE singletonD)

text \<open>
  C13. The final phase adds to a provisional packet and changes nothing else: whether it finishes
  or raises, only \<open>23-cost-final.txt\<close> and \<open>publication.json\<close> of the packet can differ
  afterwards.
\<close>

theorem finalize_keeps_packet:
  "\<exists>cost receipt. files (snd (finalize pb rs raw destination run_id w)) =
    (files w)(destination @ [''23-cost-final.txt''] := cost, destination @ [''publication.json''] := receipt)"
proof -
  let ?t = "destination @ [''23-cost-final.txt'']" and ?p = "destination @ [''publication.json'']"
  have upd: "\<exists>x. files w = (files w)(c := x)" for w :: env and c by (rule exI [of _ "files w c"]) simp
  have "writes_two ?t ?p (write_text ?t t)" for t
    by (rule writes_two_single [of _ ?t]) (auto simp: write_text_def)
  then have s: "writes_two ?t ?p (sanitize_one lib rs src ?t)" for lib src
    unfolding sanitize_one_def by (intro writes_two_bind writes_two_reads)
  have j: "writes_two ?t ?p (write_json_atomic ?p v mode)" for v mode
    by (rule writes_two_single [of _ ?p]) (auto simp: write_json_atomic_def)
  have "writes_two ?t ?p (finalize pb rs raw destination run_id)"
    unfolding finalize_def Let_def by (intro writes_two_bind writes_two_reads s j)
  then show ?thesis unfolding writes_two_def by blast
qed

section \<open>Concrete packets\<close>

definition publisher_c :: publisher where
  "publisher_c = \<lparr>pb_names = (\<lambda>w p. [''12-metrics.txt'']), pb_library = lib_c, pb_inflate = (\<lambda>b. None),
     pb_fresh = ''x'', pb_clock = (\<lambda>n. 0)\<rparr>"

definition packet_c :: env where
  "packet_c = env_c\<lparr>files := [[''out''] \<mapsto> directory_node, [''out'', ''12-metrics.txt''] \<mapsto> regular 420 ''evt_jane'']\<rparr>"


lemma failed_publish_leaves_nothing_witness:
  "\<exists>w'. publish_new publisher_c rs_c [''raw''] [''docs'', ''run''] ''run'' ''provisional'' env_c = (Inl (ev ''{} is missing: {}''
      [JStr ''visual review'', path_json [''raw'', ''visual-review.json'']]), w') \<and>
    files w' [''log''] = Some (regular 384 ''jane'') \<and> files w' [''docs'', ''run''] = None"
proof -
  let ?run = "publish_new publisher_c rs_c [''raw''] [''docs'', ''run''] ''run'' ''provisional'' env_c"
  have e: "fst ?run = Inl (ev ''{} is missing: {}'' [JStr ''visual review'', path_json [''raw'', ''visual-review.json'']])"
    by (simp add: publish_new_def bindA_def make_parents_def mkdtemp_def env_c_def present_def publisher_c_def
        or_remove_def build_packet_def create_publication_def reads_def validate_visual_review_def
        read_json_object_def read_bytes_def Let_def)
  then obtain w' where run: "?run = (Inl (ev ''{} is missing: {}'' [JStr ''visual review'', path_json [''raw'', ''visual-review.json'']]), w')"
    by (cases ?run) auto
  have free: "files env_c p = None" if "below (butlast [''docs'', ''run''] @ [''.'' @ ''run'' @ ''.'' @ pb_fresh publisher_c]) p" for p
    using that by (auto simp: env_c_def below_def)
  note clean = failed_publish_leaves_nothing [OF run free]
  have "files w' [''log''] = Some (regular 384 ''jane'')" using clean [of "[''log'']"] by (simp add: env_c_def)
  moreover have "files w' [''docs'', ''run''] = None"
    using clean [of "[''docs'', ''run'']"] by (auto simp: env_c_def below_def)
  ultimately show ?thesis using run by blast
qed

end
