(* ===== verification/Publication_Extra.thy ===== *)
theory Publication_Extra
  imports Evidence_Publish Stage_Go Aws_Inventory
begin

text \<open>
  Publication of historical staging and of recovery evidence, scripts/m4-publication-extra.py,
  and the read-only AWS queries of scripts/m4-evidence.py with the collection of the settled
  cost. Staging publishes sanitized copies of the inputs of a GO packet; recovery observes, after a
  failed attempt, that nothing of it is left. Sets that are iterated are lists here.
\<close>

section \<open>Runs\<close>

text \<open>Computations that issue commands and change files.\<close>

type_synonym 'a run = "env \<Rightarrow> event list \<Rightarrow> 'a res \<times> env \<times> event list"

definition bindR :: "'a run \<Rightarrow> ('a \<Rightarrow> 'b run) \<Rightarrow> 'b run" where
  "bindR m f = (\<lambda>w t. case m w t of (Inl e, r) \<Rightarrow> (Inl e, r) | (Inr x, w', t') \<Rightarrow> f x w' t')"

definition acts :: "'a act \<Rightarrow> 'a run" where
  "acts m = (\<lambda>w t. case m w of (r, w') \<Rightarrow> (r, w', t))"

definition asks :: "'a io \<Rightarrow> 'a run" where
  "asks m = (\<lambda>w t. case m w t of (r, t') \<Rightarrow> (r, w, t'))"

definition gets :: "(env \<Rightarrow> 'a res) \<Rightarrow> 'a run" where
  "gets f = acts (reads f)"

text \<open>\<open>try: m except (...): pass\<close>.\<close>

definition attempt_run :: "(exn \<Rightarrow> bool) \<Rightarrow> unit run \<Rightarrow> unit run" where
  "attempt_run caught m = (\<lambda>w t. case m w t of
     (Inl e, r) \<Rightarrow> (if caught e then Inr () else Inl e, r) | done \<Rightarrow> done)"

section \<open>Read-only AWS queries\<close>

text \<open>\<open>private_aws_json\<close>, with the profile of the GO packet; diagnostics are withheld.\<close>

definition query_failed :: exn where
  "query_failed = ev ''read-only AWS evidence query failed; diagnostics withheld'' []"

definition aws_result :: "env \<Rightarrow> string \<Rightarrow> json res" where
  "aws_result w out =
     bindE (ensure (length out \<le> max_evidence_bytes) (ev ''AWS result exceeds evidence limit'' [])) (\<lambda>_.
     case decode w out of
       None \<Rightarrow> Inl query_failed
     | Some t \<Rightarrow>
         if repeats w t then raise EvidenceError ''duplicate JSON object key'' []
         else case loads w t of
           None \<Rightarrow> Inl query_failed
         | Some v \<Rightarrow> bindE (ensure (is_dict v) (ev ''AWS result is not an object'' [])) (\<lambda>_. Inr v))"

definition private_aws_json :: "path \<Rightarrow> string list \<Rightarrow> json io" where
  "private_aws_json raw arguments =
     bindIO (ask (\<lambda>w. read_json_object w (raw @ [''06-go-no-go.json'']) ''GO'')) (\<lambda>packet.
     bindIO (lift (let profile = jget packet ''aws_profile'' in
       ensure (is_str profile \<and> str_of profile \<noteq> []) (ev ''AWS profile binding is missing'' []))) (\<lambda>_.
     bindIO (call ([''aws''] @ arguments @ [''--output'', ''json'', ''--cli-connect-timeout'', ''10'', ''--cli-read-timeout'', ''30'']) None) (\<lambda>r.
     bindIO (lift (ensure (returncode r = 0) query_failed)) (\<lambda>_.
       ask (\<lambda>w. aws_result w (stdout r))))))"

section \<open>The settled cost\<close>

definition line_block :: "char \<Rightarrow> char \<Rightarrow> string list \<Rightarrow> string" where
  "line_block a z texts =
     (case texts of [] \<Rightarrow> [a, z] | p # ps \<Rightarrow> [a] @ p @ concat (map (\<lambda>q. '', '' @ q) ps) @ [z])"

text \<open>\<open>json.dumps(v)\<close>.\<close>

fun dump_line :: "json \<Rightarrow> string" where
  "dump_line JNull = ''null''"
| "dump_line (JBool b) = (if b then ''true'' else ''false'')"
| "dump_line (JInt i) = int_str i"
| "dump_line (JFloat n) = json_float n"
| "dump_line (JStr s) = json_string s"
| "dump_line (JArr xs) = line_block (CHR ''['') (CHR '']'') (map dump_line xs)"
| "dump_line (JObj ps) = line_block (CHR ''{'') (CHR ''}'')
     (map (\<lambda>p. json_string (fst p) @ '': '' @ dump_line (snd p)) ps)"

definition cost_arguments :: "json \<Rightarrow> json \<Rightarrow> string list" where
  "cost_arguments query token =
     [''ce'', ''get-cost-and-usage'', ''--no-paginate'', ''--cli-input-json'', dump_line query] @
     (if truthy token then [''--next-page-token'', str_of token] else [])"

text \<open>At most \<open>n\<close> pages; a page without a token is the last one.\<close>

fun cost_pages :: "path \<Rightarrow> json \<Rightarrow> nat \<Rightarrow> json list \<Rightarrow> string list \<Rightarrow> json \<Rightarrow> json list io" where
  "cost_pages raw query 0 pages tokens token = lift (Inr pages)"
| "cost_pages raw query (Suc n) pages tokens token =
     bindIO (private_aws_json raw (cost_arguments query token)) (\<lambda>page.
       let next_token = jget page ''NextPageToken'' in
       if \<not> truthy next_token then lift (Inr (pages @ [page]))
       else bindIO (lift (ensure (is_str next_token \<and> str_of next_token \<notin> set tokens)
           (ev ''repeated or invalid cost pagination token'' []))) (\<lambda>_.
         cost_pages raw query n (pages @ [page]) (str_of next_token # tokens) next_token))"

definition cost_receipt :: "env \<Rightarrow> path \<Rightarrow> string \<Rightarrow> cost_frame \<Rightarrow> json list \<Rightarrow> datetime \<Rightarrow> json res" where
  "cost_receipt w raw run_id frame pages collected =
     bindE (hash_path w (raw @ [''00-session.json''])) (\<lambda>session_hash.
     bindE (hash_path w (raw @ [''controller-state.json''])) (\<lambda>state_hash.
       Inr (JObj
         [(''schema_version'', JInt 1), (''run_id'', JStr run_id),
          (''source_commit'', jget (cf_preflight frame) ''commit''),
          (''session_sha256'', JStr session_hash), (''controller_sha256'', JStr state_hash),
          (''collected_at'', JStr (iso_text collected)),
          (''attribution'', JStr ''account-wide daily service totals; not exact M4 attribution''),
          (''tag_filter_used'', JBool False), (''query'', cf_query frame), (''pages'', JArr pages)])))"

text \<open>The clock is read before the queries, for the receipt, and when it is validated.\<close>

definition collect_final_cost :: "string \<Rightarrow> int \<Rightarrow> datetime \<Rightarrow> int \<Rightarrow> path run" where
  "collect_final_cost run_id now collected checked =
     bindR (gets (\<lambda>w. evidence_paths w run_id)) (\<lambda>(raw, _).
     bindR (gets (\<lambda>w. cost_context w raw run_id)) (\<lambda>frame.
     bindR (gets (\<lambda>w. add_minutes (cf_finish frame) (48 * 60))) (\<lambda>settled.
     bindR (gets (\<lambda>w. ensure (\<not> now < instant settled)
       (ev ''wait at least 48 hours after cleanup before final cost collection'' []))) (\<lambda>_.
     bindR (asks (private_aws_json raw [''sts'', ''get-caller-identity''])) (\<lambda>identity.
     bindR (gets (\<lambda>w. bindE (cost_account w raw) (\<lambda>account.
       ensure (jget identity ''Account'' = JStr account)
         (ev ''cost collection identity does not match the run'' [])))) (\<lambda>_.
     bindR (asks (cost_pages raw (cf_query frame) 100 [] [] JNull)) (\<lambda>pages.
     bindR (gets (\<lambda>w. cost_receipt w raw run_id frame pages collected)) (\<lambda>v.
     bindR (gets (\<lambda>w. validate_final_cost w raw run_id (Some v) checked)) (\<lambda>_.
     let path = raw @ [''23-cost-final.txt''] in
     bindR (acts (write_json_exclusive path v 384)) (\<lambda>_. gets (\<lambda>w. Inr path)))))))))))"

section \<open>Staging\<close>

definition staging_inputs :: "(string \<times> string) list" where
  "staging_inputs = [(''preflight'', ''00-preflight.json''), (''identity'', ''01-identity.txt''),
     (''prices_markdown'', ''02-prices.md''), (''prices'', ''02-prices.json''), (''plan'', ''03-plan-summary.json''),
     (''inventory'', ''04-inventory-before.json''), (''images'', ''05-images.json''), (''capture_plan'', ''capture-plan.json'')]"

definition staging_names :: "string list" where
  "staging_names = map snd staging_inputs @ [''06-go-no-go.json'']"

text \<open>\<open>safe\<close>.\<close>

definition safe :: "env \<Rightarrow> path \<Rightarrow> path res" where
  "safe w p = bindE (ensure (\<not> is_symlink w p \<and> is_file w p \<and> file_size w p \<le> max_evidence_bytes)
     (ev ''evidence input is missing or unsafe'' [])) (\<lambda>_. Inr p)"

definition safe_hash :: "env \<Rightarrow> path \<Rightarrow> string res" where
  "safe_hash w p = bindE (safe w p) (hash_path w)"

definition destination_of :: "env \<Rightarrow> path \<Rightarrow> string \<Rightarrow> string \<Rightarrow> string \<Rightarrow> path res" where
  "destination_of w base phase run_id observation =
     bindE (evidence_validate_run_id run_id) (\<lambda>_.
     bindE (if observation = [] then Inr () else evidence_validate_run_id observation) (\<lambda>_.
     let p = base @ [''docs'', ''evidence'', ''m4-'' @ phase, run_id] @ (if observation = [] then [] else [observation]) in
     bindE (ensure_beneath w p base) (\<lambda>_. Inr p)))"

text \<open>\<open>set(v)\<close> for a JSON value, compared with a set of names.\<close>

definition same_names :: "json \<Rightarrow> string list \<Rightarrow> bool res" where
  "same_names v names =
     bindE (py_iter v) (\<lambda>xs.
       if list_ex (\<lambda>x. is_dict x \<or> is_list x) xs then py_raise TypeError
       else Inr (set xs = JStr ` set names))"

definition staging_bound :: "json \<Rightarrow> json \<Rightarrow> string \<Rightarrow> bool" where
  "staging_bound receipt packet run_id \<longleftrightarrow>
     jget receipt ''phase'' = JStr ''staging'' \<and> jget receipt ''result'' = JStr ''staged'' \<and>
     jget receipt ''run_id'' = JStr run_id \<and> py_eq (jget receipt ''source_commit'') (jget packet ''source_commit'') \<and>
     jget receipt ''execution_authorized'' = JBool False \<and>
     py_eq (jget receipt ''input_sha256'') (jget packet ''input_sha256'')"

definition staged_copy :: "publisher \<Rightarrow> redactions \<Rightarrow> env \<Rightarrow> path \<Rightarrow> json \<Rightarrow> string \<Rightarrow> unit res" where
  "staged_copy pb rs w target receipt name =
     (let p = target @ [name]; e = ev ''staging publication changed or contains sensitive data'' [] in
      bindE (safe w p) (\<lambda>_.
      bindE (py_index (jget receipt ''files'') name) (\<lambda>recorded.
      bindE (hash_path w p) (\<lambda>h.
      bindE (ensure (recorded = JStr h) e) (\<lambda>_.
      bindE (read_points w p) (\<lambda>t.
        ensure (sensitive_matches (pb_library pb) t rs = []) e))))))"

definition verify_staging :: "publisher \<Rightarrow> env \<Rightarrow> string list \<Rightarrow> string \<Rightarrow> redactions \<Rightarrow> path \<Rightarrow> path res" where
  "verify_staging pb w names run_id rs output_root =
     bindE (evidence_paths w run_id) (\<lambda>(raw, _).
     bindE (destination_of w output_root ''staging'' run_id []) (\<lambda>target.
     bindE (read_json_object w (target @ [''publication.json'']) ''staging publication'') (\<lambda>receipt.
     bindE (read_json_object w (raw @ [''06-go-no-go.json'']) ''GO'') (\<lambda>packet.
     bindE (ensure (staging_bound receipt packet run_id) (ev ''staging receipt binding mismatch'' [])) (\<lambda>_.
     bindE (same_names (jget_or receipt ''files'' (JObj [])) names) (\<lambda>listed_all.
     let e = ev ''staging file manifest mismatch'' [] in
     bindE (ensure listed_all e) (\<lambda>_.
     bindE (list_directory pb w target) (\<lambda>actual.
     bindE (ensure (set actual = insert ''publication.json'' (set names)) e) (\<lambda>_.
     bindE (mapE (\<lambda>n. bindE (safe_hash w (raw @ [n])) (\<lambda>h. Inr (n, JStr h))) names) (\<lambda>sources.
     bindE (ensure (py_eq (JObj sources) (jget receipt ''raw_sha256''))
       (ev ''staging source changed after publication'' [])) (\<lambda>_.
     bindE (foldE (\<lambda>u n. staged_copy pb rs w target receipt n) () names) (\<lambda>_.
     bindE (read_points w (target @ [''publication.json''])) (\<lambda>t.
     bindE (ensure (sensitive_matches (pb_library pb) t rs = []) (ev ''staging receipt contains sensitive data'' [])) (\<lambda>_.
       Inr target))))))))))))))"

text \<open>A source commit that is not a string is outside of the model.\<close>

definition check_staging_sources :: "env \<Rightarrow> path \<Rightarrow> string list \<Rightarrow> string \<Rightarrow> json \<Rightarrow> unit res" where
  "check_staging_sources w raw names run_id packet =
     bindE (py_index packet ''source_commit'') (\<lambda>commit.
     bindE (ensure (is_str commit) (Py TypeError)) (\<lambda>_.
     bindE (bindE (py_index packet ''generated_at'') (\<lambda>v. parse_utc v ''GO time'')) (\<lambda>generated.
     bindE (verify_go_receipt w run_id (str_of commit) ''us-east-1'' (raw @ [''06-go-no-go.json''])
       (raw @ [''03-plan-summary.json'']) (instant generated)) (\<lambda>_.
     bindE (foldE (\<lambda>u n. bindE (safe w (raw @ [n])) (\<lambda>_. Inr ())) () names) (\<lambda>_.
     if present w (raw @ [''00-session.json''])
     then bindE (load_secret_scan w raw run_id False) (\<lambda>scan. scan_secret_files w raw names scan)
     else Inr ())))))"

definition staging_receipt :: "env \<Rightarrow> path \<Rightarrow> path \<Rightarrow> string list \<Rightarrow> string \<Rightarrow> json \<Rightarrow> datetime \<Rightarrow> json res" where
  "staging_receipt w raw temporary names run_id packet published =
     bindE (py_index packet ''input_sha256'') (\<lambda>inputs.
     bindE (hash_files w raw names) (\<lambda>sources.
     bindE (hash_files w temporary names) (\<lambda>copies.
       Inr (JObj
         [(''schema_version'', JInt 1), (''phase'', JStr ''staging''), (''run_id'', JStr run_id),
          (''source_commit'', jget packet ''source_commit''), (''result'', JStr ''staged''),
          (''execution_authorized'', JBool False), (''staged_at'', jget packet ''generated_at''),
          (''published_at'', JStr (iso_text published)), (''input_sha256'', inputs),
          (''raw_sha256'', JObj sources), (''files'', JObj copies)]))))"

definition build_staging ::
  "publisher \<Rightarrow> redactions \<Rightarrow> path \<Rightarrow> path \<Rightarrow> path \<Rightarrow> string list \<Rightarrow> string \<Rightarrow> json \<Rightarrow> datetime \<Rightarrow> unit act" where
  "build_staging pb rs raw target temporary names run_id packet published =
     bindA (mapA (\<lambda>n. sanitize_one (pb_library pb) rs (raw @ [n]) (temporary @ [n])) names) (\<lambda>_.
     bindA (reads (\<lambda>w. staging_receipt w raw temporary names run_id packet published)) (\<lambda>receipt.
     bindA (write_json_exclusive (temporary @ [''publication.json'']) receipt 420) (\<lambda>_.
       rename_directory pb temporary target)))"

definition publish_staging :: "publisher \<Rightarrow> string list \<Rightarrow> string \<Rightarrow> path \<Rightarrow> path \<Rightarrow> datetime \<Rightarrow> path act" where
  "publish_staging pb names run_id redactions_path output_root published =
     bindA (reads (\<lambda>w. ensure (root_dir w \<noteq> output_root)
       (ev ''publish staging from a separate checkout to preserve the candidate'' []))) (\<lambda>_.
     bindA (reads (\<lambda>w. evidence_paths w run_id)) (\<lambda>(raw, _).
     bindA (reads (\<lambda>w. load_redactions w redactions_path)) (\<lambda>rs.
     bindA (reads (\<lambda>w. read_json_object w (raw @ [''06-go-no-go.json'']) ''GO'')) (\<lambda>packet.
     bindA (reads (\<lambda>w. check_staging_sources w raw names run_id packet)) (\<lambda>_.
     bindA (reads (\<lambda>w. destination_of w output_root ''staging'' run_id [])) (\<lambda>target.
     bindA (reads (\<lambda>w. ensure (\<not> present w target) (ev ''staging publication already exists'' []))) (\<lambda>_.
     bindA (make_parents (butlast target)) (\<lambda>_.
     bindA (mkdtemp pb ''.staging-'' (butlast target)) (\<lambda>temporary.
     bindA (or_remove temporary (build_staging pb rs raw target temporary names run_id packet published)) (\<lambda>_.
       reads (\<lambda>w. verify_staging pb w names run_id rs output_root)))))))))))"

section \<open>Recovery\<close>

definition recovery_path :: "env \<Rightarrow> string \<Rightarrow> string \<Rightarrow> (path \<times> path) res" where
  "recovery_path w run_id observation =
     bindE (evidence_paths w run_id) (\<lambda>(raw, _).
     bindE (evidence_validate_run_id observation) (\<lambda>_.
     let p = raw @ [''recovery'', observation] in
     bindE (ensure_beneath w p (root_dir w)) (\<lambda>_. Inr (raw, p))))"

definition expected_backend :: "json \<Rightarrow> obj" where
  "expected_backend account =
     [(''type'', JStr ''s3''), (''bucket'', JStr (''mlp-tfstate-'' @ py_str account)),
      (''key'', JStr ''envs/dev/terraform.tfstate''), (''region'', JStr ''us-east-1''), (''workspace'', JStr ''default''),
      (''encrypt'', JBool True), (''use_lockfile'', JBool True)]"

definition required_backend :: "json \<Rightarrow> obj" where
  "required_backend account = filter (\<lambda>p. fst p \<notin> {''type'', ''workspace''}) (expected_backend account)"

text \<open>\<open>value in (None, "", False, {}, [])\<close>: also \<open>0\<close>, which equals \<open>False\<close>.\<close>

definition blank :: "json \<Rightarrow> bool" where
  "blank v \<longleftrightarrow> v = JNull \<or> v = JStr [] \<or> py_eq v (JBool False) \<or> v = JObj [] \<or> v = JArr []"

definition config_allowed :: "obj \<Rightarrow> string \<times> json \<Rightarrow> bool" where
  "config_allowed allowed p \<longleftrightarrow> blank (snd p) \<or>
     (case map_of allowed (fst p) of Some v \<Rightarrow> py_eq (snd p) v | None \<Rightarrow> False)"

definition config_bound :: "json \<Rightarrow> json \<Rightarrow> json \<Rightarrow> bool" where
  "config_bound config account profile \<longleftrightarrow>
     list_all (\<lambda>(k, v). py_eq (jget config k) v) (required_backend account) \<and>
     list_all (config_allowed (required_backend account @
       [(''profile'', profile), (''workspace_key_prefix'', JStr ''env:'')])) (obj_of config)"

definition metadata_path :: "env \<Rightarrow> path" where
  "metadata_path w = root_dir w @ [''infra'', ''terraform'', ''envs'', ''dev'', ''.terraform'', ''terraform.tfstate'']"

definition recovery_backend :: "env \<Rightarrow> json \<Rightarrow> json \<Rightarrow> json res" where
  "recovery_backend w account profile =
     (let metadata = metadata_path w in
      bindE (ensure_beneath w metadata (root_dir w)) (\<lambda>_.
      bindE (bindE (safe w metadata) (\<lambda>p. read_json_object w p ''backend metadata'')) (\<lambda>state.
      let backend = jget_or state ''backend'' (JObj []) in
      bindE (py_get backend ''config'' (JObj [])) (\<lambda>config.
      bindE (ensure (jget backend ''type'' = JStr ''s3'' \<and> is_dict config)
        (ev ''recovery requires the initialized dev S3 backend'' [])) (\<lambda>_.
      bindE (ensure (config_bound config account profile)
        (ev ''recovery backend binding or credential/endpoint override mismatch'' [])) (\<lambda>_.
      bindE (hash_path w metadata) (\<lambda>h.
        Inr (JObj (expected_backend account @ [(''metadata_sha256'', JStr h)])))))))))"

text \<open>The record names the failed attempt by its hashes.\<close>

definition recovery_bound :: "env \<Rightarrow> path \<Rightarrow> string \<Rightarrow> string \<Rightarrow> json \<Rightarrow> unit res" where
  "recovery_bound w raw run_id observation record =
     (let e = ev ''recovery does not match the original failed attempt'' []; snapshot = raw @ [''failed-publication''] in
      bindE (ensure (jget record ''run_id'' = JStr run_id \<and> jget record ''observation_id'' = JStr observation) e) (\<lambda>_.
      bindE (validate_preflight w raw run_id) (\<lambda>preflight.
      bindE (ensure (py_eq (jget record ''source_commit'') (jget preflight ''commit'')) e) (\<lambda>_.
      bindE (safe_hash w (published_dir w run_id @ [''publication.json''])) (\<lambda>h.
      bindE (ensure (jget record ''original_publication_sha256'' = JStr h) e) (\<lambda>_.
      bindE (safe_hash w (snapshot @ [''controller-state.json''])) (\<lambda>h.
      bindE (ensure (jget record ''controller_snapshot_sha256'' = JStr h) e) (\<lambda>_.
      bindE (safe_hash w (snapshot @ [''00-session.json''])) (\<lambda>h.
        ensure (jget record ''session_sha256'' = JStr h) e)))))))))"

definition recovery_times :: "env \<Rightarrow> path \<Rightarrow> json \<Rightarrow> int \<Rightarrow> (datetime \<times> datetime) res" where
  "recovery_times w snapshot record now =
     bindE (parse_utc (jget record ''observed_at'') ''recovery observation'') (\<lambda>observed.
     bindE (parse_utc (jget record ''collection_started_at'') ''recovery start'') (\<lambda>started.
     bindE (read_json_object w (snapshot @ [''observation.json'']) ''failed observation'') (\<lambda>failure.
     bindE (bindE (py_index failure ''observed_at'') (\<lambda>v. parse_utc v ''failed observation'')) (\<lambda>failed_at.
     bindE (ensure (instant failed_at \<le> instant started \<and> instant started \<le> instant observed)
       (ev ''recovery must follow the original failed observation'' [])) (\<lambda>_.
     bindE (ensure (\<not> now < instant observed) (ev ''recovery observation is in the future'' [])) (\<lambda>_.
       Inr (started, observed)))))))"

definition recovery_names :: "string list" where
  "recovery_names = [''identity.json'', ''state.json'', ''inventory.json'']"

definition check_recovery_files :: "env \<Rightarrow> path \<Rightarrow> json \<Rightarrow> unit res" where
  "check_recovery_files w p recorded =
     bindE (ensure (is_dict recorded \<and> list_all (\<lambda>q. fst q \<in> set recovery_names) (obj_of recorded))
       (ev ''invalid recovery evidence manifest'' [])) (\<lambda>_.
     foldE (\<lambda>u q. bindE (safe_hash w (p @ [fst q])) (\<lambda>h.
       ensure (snd q = JStr h) (ev ''recovery evidence changed'' []))) () (obj_of recorded))"

text \<open>A file that was not recorded counts as an empty object.\<close>

definition recorded_object :: "env \<Rightarrow> path \<Rightarrow> json \<Rightarrow> string \<Rightarrow> string \<Rightarrow> json res" where
  "recorded_object w p recorded name description =
     (if has_key recorded name then read_json_object w (p @ [name]) description else Inr (JObj []))"

definition recovery_account :: "env \<Rightarrow> path \<Rightarrow> json res" where
  "recovery_account w snapshot =
     bindE (read_json_object w (snapshot @ [''01-identity.txt'']) ''identity'') (\<lambda>identity.
     bindE (py_index identity ''aws'') (\<lambda>aws. py_index aws ''account_id''))"

fun services_empty :: "json \<Rightarrow> json \<Rightarrow> string list \<Rightarrow> bool res" where
  "services_empty counts resources [] = Inr True"
| "services_empty counts resources (k # ks) =
     bindE (py_get counts k JNull) (\<lambda>c.
       if c \<noteq> JInt 0 then Inr False
       else bindE (py_get resources k JNull) (\<lambda>r.
         if r \<noteq> JArr [] then Inr False else services_empty counts resources ks))"

definition recovered_inventory :: "json \<Rightarrow> bool res" where
  "recovered_inventory inventory =
     bindE (services_empty (jget_or inventory ''counts'' (JObj [])) (jget_or inventory ''resources'' (JObj []))
       (runtime_services @ [''ecr''])) (\<lambda>none.
     Inr (none \<and> jget inventory ''schema_version'' = JInt 1 \<and> jget inventory ''region'' = JStr ''us-east-1'' \<and>
       jget inventory ''project'' = JStr ''my-local-platform''))"

definition fresh_capture :: "json \<Rightarrow> string \<Rightarrow> exn \<Rightarrow> datetime \<Rightarrow> datetime \<Rightarrow> unit res" where
  "fresh_capture v description e started observed =
     (if \<not> truthy v then Inr ()
      else bindE (parse_utc (jget v ''captured_at'') description) (\<lambda>captured.
        ensure (instant started \<le> instant captured \<and> instant captured \<le> instant observed \<and>
          instant observed - instant captured \<le> minutes 10) e))"

definition state_empty :: "json \<Rightarrow> json \<Rightarrow> bool" where
  "state_empty state account \<longleftrightarrow>
     (let backend = jget state ''backend''; h = py_str (jget_or backend ''metadata_sha256'' (JStr [])) in
      jget state ''exit'' = JInt 0 \<and> jget state ''resources'' = JArr [] \<and> is_dict backend \<and>
      list_all (\<lambda>(k, v). py_eq (jget backend k) v) (expected_backend account) \<and>
      length h = 64 \<and> list_all is_hex h)"

definition recovery_result :: "json \<Rightarrow> string \<Rightarrow> string \<Rightarrow> bool \<Rightarrow> bool \<Rightarrow> json" where
  "recovery_result record run_id observation identity_ok none = JObj
     [(''schema_version'', JInt 1), (''run_id'', JStr run_id), (''observation_id'', JStr observation),
      (''source_commit'', jget record ''source_commit''), (''observed_at'', jget record ''observed_at''),
      (''result'', JStr (if none then ''recovered'' else ''cleanup_unverified'')),
      (''demonstration_passed'', JBool False), (''identity_verified'', JBool identity_ok),
      (''cleanup_verified'', JBool none),
      (''original_publication_sha256'', jget record ''original_publication_sha256''),
      (''controller_snapshot_sha256'', jget record ''controller_snapshot_sha256''),
      (''session_sha256'', jget record ''session_sha256''), (''evidence_sha256'', jget record ''files'')]"

definition recovery_summary :: "env \<Rightarrow> string \<Rightarrow> string \<Rightarrow> int \<Rightarrow> json res" where
  "recovery_summary w run_id observation now =
     bindE (recovery_path w run_id observation) (\<lambda>(raw, p).
     bindE (bindE (safe w (p @ [''recovery-result.json''])) (\<lambda>q. read_json_object w q ''recovery result'')) (\<lambda>record.
     let snapshot = raw @ [''failed-publication'']; recorded = jget record ''files'' in
     bindE (recovery_bound w raw run_id observation record) (\<lambda>_.
     bindE (recovery_times w snapshot record now) (\<lambda>(started, observed).
     bindE (check_recovery_files w p recorded) (\<lambda>_.
     bindE (recorded_object w p recorded ''identity.json'' ''recovery identity'') (\<lambda>identity.
     bindE (recovery_account w snapshot) (\<lambda>account.
     bindE (recorded_object w p recorded ''state.json'' ''state check'') (\<lambda>state.
     bindE (recorded_object w p recorded ''inventory.json'' ''inventory check'') (\<lambda>inventory.
     bindE (recovered_inventory inventory) (\<lambda>none.
     bindE (fresh_capture inventory ''recovery inventory capture''
       (ev ''recovery inventory is not fresh for the observation'' []) started observed) (\<lambda>_.
     bindE (fresh_capture state ''recovery state capture''
       (ev ''recovery state check is not fresh for the observation'' []) started observed) (\<lambda>_.
     let identity_ok = py_eq (jget identity ''Account'') account in
     Inr (recovery_result record run_id observation identity_ok
       (identity_ok \<and> state_empty state account \<and> none))))))))))))))"

section \<open>Collecting and publishing recovery\<close>

text \<open>\<open>Path(p).name\<close>.\<close>

definition path_name :: "string \<Rightarrow> string" where
  "path_name s = (let names = filter (\<lambda>n. n \<noteq> [] \<and> n \<noteq> ''.'') (split_at (CHR ''/'') s) in if names = [] then [] else last names)"

definition require_quiet_controller :: "(int \<Rightarrow> bool) \<Rightarrow> path \<Rightarrow> unit run" where
  "require_quiet_controller running raw =
     bindR (gets (\<lambda>w. read_json_object w (raw @ [''controller-state.json'']) ''controller'')) (\<lambda>controller.
     let pid = jget controller ''controller_pid'' in
     bindR (gets (\<lambda>w. ensure (is_int pid \<and> 0 < int_of pid \<and> \<not> running (int_of pid))
       (ev ''controller process status is active or unknown'' []))) (\<lambda>_.
     bindR (asks (call [''ps'', ''-axo'', ''comm=''] None)) (\<lambda>r.
     bindR (gets (\<lambda>w. ensure (returncode r = 0) (ev ''cannot establish local Terraform process status'' []))) (\<lambda>_.
     bindR (gets (\<lambda>w. decode_text w (stdout r))) (\<lambda>t.
       gets (\<lambda>w. ensure (\<not> list_ex (\<lambda>l. path_name (strip l) = ''terraform'') (text_lines [] t))
         (ev ''a local Terraform process is still active'' [])))))))"

definition state_command :: "env \<Rightarrow> string list" where
  "state_command w = [''terraform'', ''-chdir='' @ str_of (path_json (root_dir w @ [''infra'', ''terraform'', ''envs'', ''dev''])),
     ''state'', ''list'']"

definition state_record :: "env \<Rightarrow> reply \<Rightarrow> json \<Rightarrow> datetime \<Rightarrow> json res" where
  "state_record w r bound_backend now =
     bindE (if returncode r = 0
            then bindE (decode_text w (stdout r)) (\<lambda>t. Inr (JArr (map JStr (text_lines [] t)))) else Inr JNull) (\<lambda>resources.
       Inr (JObj [(''exit'', JInt (returncode r)), (''backend'', bound_backend), (''captured_at'', JStr (iso_text now)),
         (''resources'', resources)]))"

text \<open>What is observed, in order; a failure keeps the files written before it.\<close>

definition observe_recovery :: "path \<Rightarrow> path \<Rightarrow> datetime \<Rightarrow> unit run" where
  "observe_recovery snapshot p now =
     bindR (asks (private_aws_json snapshot [''sts'', ''get-caller-identity''])) (\<lambda>identity.
     bindR (acts (write_json_exclusive (p @ [''identity.json'']) identity 384)) (\<lambda>_.
     bindR (gets (\<lambda>w. recovery_account w snapshot)) (\<lambda>expected.
     bindR (gets (\<lambda>w. ensure (py_eq (jget identity ''Account'') expected) (ev ''recovery account mismatch'' []))) (\<lambda>_.
     bindR (gets (\<lambda>w. read_json_object w (snapshot @ [''06-go-no-go.json'']) ''GO'')) (\<lambda>packet.
     let profile = jget packet ''aws_profile'' in
     bindR (gets (\<lambda>w. ensure (is_str profile \<and> str_of profile \<noteq> []) (ev ''recovery profile binding missing'' []))) (\<lambda>_.
     bindR (gets (\<lambda>w. recovery_backend w expected profile)) (\<lambda>backend.
     bindR (\<lambda>w. asks (call (state_command w) None) w) (\<lambda>r.
     bindR (gets (\<lambda>w. recovery_backend w expected profile)) (\<lambda>after.
     bindR (gets (\<lambda>w. ensure (py_eq after backend) (ev ''backend changed during recovery observation'' []))) (\<lambda>_.
     bindR (gets (\<lambda>w. state_record w r backend now)) (\<lambda>state.
     bindR (acts (write_json_exclusive (p @ [''state.json'']) state 384)) (\<lambda>_.
     bindR (asks (collect_with (private_aws_json snapshot) ''us-east-1'' now)) (\<lambda>inventory.
       acts (write_json_exclusive (p @ [''inventory.json'']) (require_cleanup_inventory inventory [''21-inventory-after.json'']) 384))))))))))))))"

fun observation_caught :: "exn \<Rightarrow> bool" where
  "observation_caught (Err c m args) = (c = EvidenceError \<or> c = InventoryError)"
| "observation_caught (Py x) = (x = OSError \<or> x = ValueError)"
| "observation_caught (SystemExit m args) = False"

text \<open>\<open>path.mkdir(parents=True, mode=0o700, exist_ok=False)\<close>.\<close>

definition make_new_directory :: "path \<Rightarrow> unit act" where
  "make_new_directory p =
     bindA (make_parents (butlast p)) (\<lambda>_ w.
       if files w p \<noteq> None then (py_raise OSError, w)
       else (Inr (), w\<lparr>files := (files w)(p \<mapsto> directory_node)\<rparr>))"

definition recovery_record ::
  "env \<Rightarrow> path \<Rightarrow> string \<Rightarrow> string \<Rightarrow> datetime \<Rightarrow> obj res" where
  "recovery_record w raw run_id observation started =
     bindE (validate_preflight w raw run_id) (\<lambda>preflight.
     bindE (hash_path w (published_dir w run_id @ [''publication.json''])) (\<lambda>published.
     bindE (hash_path w (raw @ [''failed-publication'', ''controller-state.json''])) (\<lambda>controller.
     bindE (hash_path w (raw @ [''failed-publication'', ''00-session.json''])) (\<lambda>session.
       Inr [(''schema_version'', JInt 1), (''run_id'', JStr run_id), (''observation_id'', JStr observation),
         (''source_commit'', jget preflight ''commit''), (''collection_started_at'', JStr (iso_text started)),
         (''files'', JObj []), (''original_publication_sha256'', JStr published),
         (''controller_snapshot_sha256'', JStr controller), (''session_sha256'', JStr session)]))))"

definition finished_record :: "publisher \<Rightarrow> env \<Rightarrow> path \<Rightarrow> obj \<Rightarrow> datetime \<Rightarrow> json res" where
  "finished_record pb w p record observed =
     bindE (list_directory pb w p) (\<lambda>names.
     bindE (hash_files w p (filter (\<lambda>n. is_file w (p @ [n])) names)) (\<lambda>hashes.
       Inr (jset (jset (JObj record) ''observed_at'' (JStr (iso_text observed))) ''files'' (JObj hashes))))"

text \<open>The clock is read at the start, during the observation, after it, and for the summary.\<close>

definition collect_recovery ::
  "publisher \<Rightarrow> (int \<Rightarrow> bool) \<Rightarrow> string \<Rightarrow> string \<Rightarrow> path \<Rightarrow> datetime \<Rightarrow> datetime \<Rightarrow> datetime \<Rightarrow> int \<Rightarrow> json run" where
  "collect_recovery pb running run_id observation redactions_path started during observed now =
     bindR (gets (\<lambda>w. recovery_path w run_id observation)) (\<lambda>(raw, p).
     bindR (gets (\<lambda>w. bindE (load_redactions w redactions_path) (verify_failed pb w run_id))) (\<lambda>_.
     bindR (require_quiet_controller running raw) (\<lambda>_.
     bindR (acts (make_new_directory p)) (\<lambda>_.
     bindR (gets (\<lambda>w. recovery_record w raw run_id observation started)) (\<lambda>record.
     bindR (attempt_run observation_caught (observe_recovery (raw @ [''failed-publication'']) p during)) (\<lambda>_.
     bindR (gets (\<lambda>w. finished_record pb w p record observed)) (\<lambda>done.
     bindR (acts (write_json_exclusive (p @ [''recovery-result.json'']) done 384)) (\<lambda>_.
       gets (\<lambda>w. recovery_summary w run_id observation now)))))))))"

definition recovery_files :: "string list" where
  "recovery_files = [''recovery.json'', ''publication.json'']"

definition build_recovery ::
  "publisher \<Rightarrow> redactions \<Rightarrow> path \<Rightarrow> path \<Rightarrow> path \<Rightarrow> string \<Rightarrow> json \<Rightarrow> json \<Rightarrow> unit act" where
  "build_recovery pb rs raw target temporary run_id summary receipt =
     bindA (write_json_exclusive (temporary @ [''recovery.json'']) summary 420) (\<lambda>_.
     bindA (write_json_exclusive (temporary @ [''publication.json'']) receipt 420) (\<lambda>_.
     bindA (reads (\<lambda>w. load_secret_scan w (raw @ [''failed-publication'']) run_id False)) (\<lambda>scan.
     bindA (reads (\<lambda>w. scan_secret_files w temporary recovery_files scan)) (\<lambda>_.
     bindA (reads (\<lambda>w. no_sensitive_file pb rs w (ev ''recovery summary contains sensitive data'' []) temporary)) (\<lambda>_.
       rename_directory pb temporary target)))))"

definition verify_recovery_packet :: "publisher \<Rightarrow> env \<Rightarrow> path \<Rightarrow> json \<Rightarrow> json \<Rightarrow> unit res" where
  "verify_recovery_packet pb w target summary receipt =
     (let e = ev ''recovery publication changed'' [] in
      bindE (list_directory pb w target) (\<lambda>names.
      bindE (ensure (set names = set recovery_files) e) (\<lambda>_.
      bindE (bindE (safe w (target @ [''recovery.json''])) (\<lambda>p. read_json_object w p ''recovery'')) (\<lambda>v.
      bindE (ensure (py_eq v summary) e) (\<lambda>_.
      bindE (bindE (safe w (target @ [''publication.json''])) (\<lambda>p. read_json_object w p ''publication'')) (\<lambda>v.
        ensure (py_eq v receipt) e))))))"

definition publish_recovery ::
  "publisher \<Rightarrow> string \<Rightarrow> string \<Rightarrow> path \<Rightarrow> int \<Rightarrow> bool \<Rightarrow> path act" where
  "publish_recovery pb run_id observation redactions_path now verify =
     bindA (reads (\<lambda>w. recovery_path w run_id observation)) (\<lambda>(raw, p).
     bindA (reads (\<lambda>w. load_redactions w redactions_path)) (\<lambda>rs.
     bindA (reads (\<lambda>w. verify_failed pb w run_id rs)) (\<lambda>_.
     bindA (reads (\<lambda>w. recovery_summary w run_id observation now)) (\<lambda>summary.
     bindA (reads (\<lambda>w. destination_of w (root_dir w) ''recovery'' run_id observation)) (\<lambda>target.
     bindA (reads (\<lambda>w. hash_path w (p @ [''recovery-result.json'']))) (\<lambda>h.
     let receipt = JObj [(''schema_version'', JInt 1), (''phase'', JStr ''recovery''), (''run_id'', JStr run_id),
           (''recovery_receipt_sha256'', JStr h)] in
     bindA (if verify then reads (\<lambda>w. Inr ())
       else
         bindA (reads (\<lambda>w. ensure (\<not> present w target) (ev ''recovery publication already exists'' []))) (\<lambda>_.
         bindA (make_parents (butlast target)) (\<lambda>_.
         bindA (mkdtemp pb ''.recovery-'' (butlast target)) (\<lambda>temporary.
           or_remove temporary (build_recovery pb rs raw target temporary run_id summary receipt))))) (\<lambda>_.
     bindA (reads (\<lambda>w. verify_recovery_packet pb w target summary receipt)) (\<lambda>_.
       reads (\<lambda>w. Inr target)))))))))"

section \<open>The exit code\<close>

text \<open>The exceptions \<open>main\<close> turns into exit code 1; every other one ends the script.\<close>

fun publication_caught :: "exn \<Rightarrow> bool" where
  "publication_caught (Err c m args) = (c = EvidenceError \<or> c = StageError)"
| "publication_caught (Py x) = (x \<in> {OSError, ValueError, KeyError})"
| "publication_caught (SystemExit m args) = False"

definition publication_exit :: "'a res \<Rightarrow> int res" where
  "publication_exit r = (case r of Inr _ \<Rightarrow> Inr 0 | Inl e \<Rightarrow> if publication_caught e then Inr 1 else Inl e)"

end
