(* ===== verification/Publication_Extra_Correct.thy ===== *)
theory Publication_Extra_Correct
  imports Publication_Extra Evidence_Publish_Correct Evidence_Plan_Correct Aws_Inventory_Correct
begin

text \<open>
  Recovery observes and changes nothing but its own directory; a recovery that is reported as
  verified saw an empty account; and a staging packet whose sources or copies changed is refused.
\<close>

section \<open>Observing only\<close>

definition runs_only :: "(event \<Rightarrow> bool) \<Rightarrow> 'a run \<Rightarrow> bool" where
  "runs_only P m \<longleftrightarrow> (\<forall>w t. \<exists>es. snd (snd (m w t)) = t @ es \<and> list_all P es)"

named_theorems run_intros "rules for the commands and the files of a run"

lemma runs_acts [run_intros]: "runs_only P (acts m)"
  by (simp add: runs_only_def acts_def split: prod.splits)

lemma runs_gets [run_intros]: "runs_only P (gets f)"
  unfolding gets_def by (rule runs_acts)

lemma runs_asks [run_intros]: "issues_only P m \<Longrightarrow> runs_only P (asks m)"
  unfolding runs_only_def issues_only_def asks_def by (auto split: prod.splits) (metis snd_conv)

lemma runs_bind [run_intros]:
  assumes "runs_only P m" and "\<And>x. runs_only P (f x)"
  shows "runs_only P (bindR m f)"
  unfolding runs_only_def
proof (intro allI)
  fix w t
  obtain r w' u where m: "m w t = (r, w', u)" by (cases "m w t")
  obtain es where es: "u = t @ es" "list_all P es"
    using assms(1) m unfolding runs_only_def by (metis snd_conv)
  show "\<exists>es. snd (snd (bindR m f w t)) = t @ es \<and> list_all P es"
  proof (cases r)
    case (Inl e)
    with m es show ?thesis by (simp add: bindR_def)
  next
    case (Inr x)
    obtain fs where "snd (snd (f x w' u)) = u @ fs" "list_all P fs"
      using assms(2) [of x] unfolding runs_only_def by blast
    with m es Inr show ?thesis by (auto simp: bindR_def)
  qed
qed

lemma runs_attempt [run_intros]: "runs_only P m \<Longrightarrow> runs_only P (attempt_run caught m)"
  unfolding runs_only_def attempt_run_def by (auto split: prod.splits sum.splits) (metis snd_conv)+

lemma runs_prod [run_intros]: "(\<And>a b. runs_only P (f a b)) \<Longrightarrow> runs_only P (case p of (a, b) \<Rightarrow> f a b)"
  by (cases p) simp

text \<open>The read-only commands of the recovery: AWS reads, the process list, the Terraform state list.\<close>

definition recovery_reads :: "event \<Rightarrow> bool" where
  "recovery_reads e \<longleftrightarrow> reads_only e \<or> ev_command e = [''ps'', ''-axo'', ''comm=''] \<or>
     (case ev_command e of [tool, chdir, a, b] \<Rightarrow> tool = ''terraform'' \<and> a = ''state'' \<and> b = ''list'' | _ \<Rightarrow> False)"

lemma private_aws_reads [io_intros]:
  "read_verb verb \<Longrightarrow> issues_only recovery_reads (private_aws_json raw (service # verb # rest))"
  unfolding private_aws_json_def append_Cons
  by (intro io_intros) (simp add: recovery_reads_def reads_only_def)

lemma collect_reads [io_intros]:
  "issues_only recovery_reads (collect_with (private_aws_json raw) region now)"
  unfolding collect_with_def Let_def append_Cons by (intro io_intros; simp add: verb_defs)

lemma identity_reads [io_intros]:
  "issues_only recovery_reads (private_aws_json raw [''sts'', ''get-caller-identity''])"
  by (intro io_intros) (simp add: verb_defs)

lemma state_reads [run_intros]: "runs_only recovery_reads (\<lambda>w. asks (call (state_command w) None) w)"
proof -
  have "runs_only recovery_reads (asks (call (state_command w) None))" for w
    by (intro run_intros io_intros) (simp add: recovery_reads_def state_command_def)
  then show ?thesis unfolding runs_only_def by blast
qed

lemma observe_reads [run_intros]: "runs_only recovery_reads (observe_recovery snapshot p now)"
  unfolding observe_recovery_def Let_def by (intro run_intros io_intros)

lemma quiet_reads [run_intros]: "runs_only recovery_reads (require_quiet_controller running raw)"
  unfolding require_quiet_controller_def Let_def
  by (intro run_intros io_intros) (simp add: recovery_reads_def)

lemma collect_recovery_reads:
  "runs_only recovery_reads (collect_recovery pb running run_id observation redactions_path started during observed now)"
  unfolding collect_recovery_def by (intro run_intros)

text \<open>What a computation changes lies below a directory, or is a directory that was missing.\<close>

definition made_below :: "path \<Rightarrow> env \<Rightarrow> env \<Rightarrow> bool" where
  "made_below base w w' \<longleftrightarrow> (\<forall>p. below base p \<or> files w' p = files w p \<or> (files w p = None \<and> directory_at w' p))"

lemma made_below_refl [simp]: "made_below base w w"
  by (simp add: made_below_def)

lemma made_below_trans: "made_below base u v \<Longrightarrow> made_below base v w \<Longrightarrow> made_below base u w"
  unfolding made_below_def directory_at_def by (metis option.simps(4))

definition run_below :: "path \<Rightarrow> 'a run \<Rightarrow> bool" where
  "run_below base m \<longleftrightarrow> (\<forall>w t. made_below base w (fst (snd (m w t))))"

named_theorems below_intros "rules for what a run changes"

lemma below_bind [below_intros]:
  assumes "run_below base m" and "\<And>x. run_below base (f x)"
  shows "run_below base (bindR m f)"
  unfolding run_below_def
proof (intro allI)
  fix w t
  obtain r w' u where m: "m w t = (r, w', u)" by (cases "m w t")
  have one: "made_below base w w'" using assms(1) m unfolding run_below_def by (metis fst_conv snd_conv)
  show "made_below base w (fst (snd (bindR m f w t)))"
  proof (cases r)
    case (Inl e)
    with m one show ?thesis by (simp add: bindR_def)
  next
    case (Inr x)
    have "made_below base w' (fst (snd (f x w' u)))" using assms(2) unfolding run_below_def by blast
    with one have "made_below base w (fst (snd (f x w' u)))" by (rule made_below_trans)
    with m Inr show ?thesis by (simp add: bindR_def)
  qed
qed

lemma below_asks [below_intros]: "run_below base (asks m)" "run_below base (\<lambda>w. asks (g w) w)"
  by (simp_all add: run_below_def asks_def split: prod.splits)

lemma below_gets [below_intros]: "run_below base (gets f)"
  by (simp add: run_below_def gets_def acts_def reads_def)

lemma below_acts [below_intros]: "confined base m \<Longrightarrow> run_below base (acts m)"
  unfolding run_below_def acts_def made_below_def confined_def by (simp add: split_beta) blast

lemma below_attempt [below_intros]: "run_below base m \<Longrightarrow> run_below base (attempt_run caught m)"
  unfolding run_below_def attempt_run_def by (auto split: prod.splits sum.splits) (metis fst_conv snd_conv)+

lemma below_observe [below_intros]: "run_below base (observe_recovery snapshot base now)"
  unfolding observe_recovery_def Let_def by (intro below_intros confined_intros below_child)

lemma below_quiet [below_intros]: "run_below base (require_quiet_controller running raw)"
  unfolding require_quiet_controller_def Let_def by (intro below_intros)

lemma below_new_directory [below_intros]: "run_below base (acts (make_new_directory base))"
proof -
  have "made_below base w (snd (make_new_directory base w))" for w
  proof -
    obtain r u where u: "make_parents (butlast base) w = (r, u)" by fastforce
    then have "made_below base w u"
      by (auto simp: made_below_def make_parents_def directory_at_def directory_node_def split: if_splits)
    moreover have "made_below base u (u\<lparr>files := (files u)(base \<mapsto> directory_node)\<rparr>)"
      by (simp add: made_below_def below_def)
    ultimately show ?thesis
      using made_below_trans u by (cases r) (auto simp: make_new_directory_def bindA_def)
  qed
  then show ?thesis by (simp add: run_below_def acts_def split_beta)
qed

lemma bind_gets: "bindR (gets f) g w t = (case f w of Inl e \<Rightarrow> (Inl e, w, t) | Inr x \<Rightarrow> g x w t)"
  by (simp add: bindR_def gets_def acts_def reads_def split: sum.splits)

lemma recovery_path_ok:
  assumes "recovery_path w run_id observation = Inr (raw, p)"
  shows "raw = run_dir w run_id" "p = run_dir w run_id @ [''recovery'', observation]"
  using assms by (auto simp: recovery_path_def evidence_paths_def Let_def bindE_eq_Inr)

text \<open>
  C15. Collecting recovery evidence observes and repairs nothing. Whether it finishes or raises,
  every command it issues is an AWS read, the process list or the Terraform state list, and
  every file outside of its own observation directory is as before; only missing directories
  on the way to it are created.
\<close>

theorem recovery_observes_only:
  "\<exists>es. snd (snd (collect_recovery pb running run_id observation redactions_path started during observed now w t)) = t @ es \<and>
    list_all recovery_reads es \<and>
    made_below (run_dir w run_id @ [''recovery'', observation]) w
      (fst (snd (collect_recovery pb running run_id observation redactions_path started during observed now w t)))"
proof -
  let ?run = "collect_recovery pb running run_id observation redactions_path started during observed now w t"
  have "made_below (run_dir w run_id @ [''recovery'', observation]) w (fst (snd ?run))"
  proof (cases "recovery_path w run_id observation")
    case (Inl e)
    then show ?thesis by (simp add: collect_recovery_def bind_gets)
  next
    case (Inr rp)
    obtain raw p where rp: "rp = (raw, p)" by (cases rp)
    define rest where "rest =
      bindR (gets (\<lambda>w. bindE (load_redactions w redactions_path) (verify_failed pb w run_id))) (\<lambda>_.
      bindR (require_quiet_controller running raw) (\<lambda>_.
      bindR (acts (make_new_directory p)) (\<lambda>_.
      bindR (gets (\<lambda>w. recovery_record w raw run_id observation started)) (\<lambda>record.
      bindR (attempt_run observation_caught (observe_recovery (raw @ [''failed-publication'']) p during)) (\<lambda>_.
      bindR (gets (\<lambda>w. finished_record pb w p record observed)) (\<lambda>done.
      bindR (acts (write_json_exclusive (p @ [''recovery-result.json'']) done 384)) (\<lambda>_.
        gets (\<lambda>w. recovery_summary w run_id observation now))))))))"
    have "?run = rest w t" using Inr rp by (simp add: collect_recovery_def bind_gets rest_def)
    moreover have "run_below p rest"
      unfolding rest_def by (intro below_intros confined_intros below_child)
    ultimately show ?thesis using recovery_path_ok(2) Inr rp unfolding run_below_def by metis
  qed
  with collect_recovery_reads [of pb running run_id observation redactions_path started during observed now]
  show ?thesis unfolding runs_only_def by blast
qed

section \<open>Staging\<close>

lemma verify_staging_ok:
  assumes "verify_staging pb w names run_id rs output_root = Inr result"
  obtains receipt sources where
    "read_json_object w ((output_root @ [''docs'', ''evidence'', ''m4-staging'', run_id]) @ [''publication.json'']) ''staging publication'' = Inr receipt"
    "mapE (\<lambda>n. bindE (safe_hash w (run_dir w run_id @ [n])) (\<lambda>h. Inr (n, JStr h))) names = Inr sources"
    "py_eq (JObj sources) (jget receipt ''raw_sha256'')"
    "\<forall>n \<in> set names. staged_copy pb rs w (output_root @ [''docs'', ''evidence'', ''m4-staging'', run_id]) receipt n = Inr ()"
proof -
  from assms obtain rp where rp: "evidence_paths w run_id = Inr rp"
    unfolding verify_staging_def bindE_eq_Inr by blast
  obtain raw published where paths: "evidence_paths w run_id = Inr (raw, published)" using rp by (cases rp) simp
  note found = assms [unfolded verify_staging_def paths bindE_Inr prod.case]
  then obtain target where target: "destination_of w output_root ''staging'' run_id [] = Inr target"
    unfolding verify_staging_def bindE_eq_Inr by blast
  from paths have raw: "raw = run_dir w run_id" by (auto simp: evidence_paths_def Let_def bindE_eq_Inr)
  from target have target': "target = output_root @ [''docs'', ''evidence'', ''m4-staging'', run_id]"
    by (auto simp: destination_of_def Let_def bindE_eq_Inr)
  note rest = assms [unfolded verify_staging_def paths target bindE_Inr prod.case Let_def bindE_eq_Inr ensure_eq_Inr]
  show ?thesis
    using rest unfolding raw target'
    by (elim exE conjE) (rule that; (assumption | simp add: foldE_unit))
qed

lemma mapE_hashed:
  assumes "mapE (\<lambda>n. bindE (f n) (\<lambda>h. Inr (n, JStr h))) names = Inr sources" and "n \<in> set names"
  obtains h where "f n = Inr h" "(n, JStr h) \<in> set sources"
  using assms by (auto simp: mapE_eq_Inr bindE_eq_Inr dest!: list_all2_set1)

lemma mapE_names:
  assumes "mapE (\<lambda>n. bindE (f n) (\<lambda>h. Inr (n, JStr h))) names = Inr sources"
  shows "map fst sources = names"
proof -
  have "list_all2 (\<lambda>n s. bindE (f n) (\<lambda>h. Inr (n, JStr h)) = Inr s) names sources" using assms by (simp add: mapE_eq_Inr)
  then show ?thesis by induction (auto simp: bindE_eq_Inr)
qed


section \<open>Recovery\<close>

definition service_empty :: "json \<Rightarrow> string \<Rightarrow> bool" where
  "service_empty inventory s \<longleftrightarrow>
     jget (jget inventory ''counts'') s = JInt 0 \<and> jget (jget inventory ''resources'') s = JArr []"

lemma services_empty_True:
  assumes "services_empty counts resources ks = Inr True"
  shows "list_all (\<lambda>s. jget counts s = JInt 0 \<and> jget resources s = JArr []) ks"
  using assms
  by (induction ks) (auto simp: bindE_eq_Inr py_get_def jget_or_def jget_def split: if_splits option.splits)

lemma recovered_inventory_True:
  assumes "recovered_inventory inventory = Inr True"
  shows "list_all (service_empty inventory) (runtime_services @ [''ecr'']) \<and> jget inventory ''region'' = JStr ''us-east-1''"
proof -
  from assms have all: "services_empty (jget_or inventory ''counts'' (JObj [])) (jget_or inventory ''resources'' (JObj []))
      (runtime_services @ [''ecr'']) = Inr True"
    and region: "jget inventory ''region'' = JStr ''us-east-1''"
    by (auto simp: recovered_inventory_def bindE_eq_Inr)
  have same: "jget (jget_or v k (JObj [])) s = jget (jget v k) s" for v k s
    by (simp add: jget_or_def jget_def split: option.splits)
  show ?thesis using services_empty_True [OF all] region by (simp add: same service_empty_def list_all_iff)
qed

lemma fresh_capture_ok:
  assumes "fresh_capture v d e started observed = Inr ()" and "truthy v"
  obtains captured where "parse_utc (jget v ''captured_at'') d = Inr captured" "instant started \<le> instant captured"
    "instant captured \<le> instant observed" "instant observed - instant captured \<le> minutes 10"
  using assms by (auto simp: fresh_capture_def bindE_eq_Inr)

lemma jget_empty_object: "jget v k \<noteq> JNull \<Longrightarrow> is_dict v \<Longrightarrow> truthy v"
  by (cases v) (auto simp: jget_def split: option.splits)

lemma recorded_read:
  assumes "recorded_object w p recorded name d = Inr v" and "jget v k \<noteq> JNull"
  shows "read_json_object w (p @ [name]) d = Inr v \<and> truthy v"
proof (cases "has_key recorded name")
  case True
  with assms(1) have "read_json_object w (p @ [name]) d = Inr v" by (simp add: recorded_object_def)
  moreover from this have "is_dict v" by (auto simp: read_json_object_def bindE_eq_Inr split: option.splits if_splits)
  ultimately show ?thesis using jget_empty_object [OF assms(2)] by simp
next
  case False
  with assms(1) have "v = JObj []" by (simp add: recorded_object_def)
  with assms(2) have False by (simp add: jget_def)
  then show ?thesis ..
qed

text \<open>The evidence a verified recovery rests on.\<close>

definition seen_between :: "json \<Rightarrow> string \<Rightarrow> datetime \<Rightarrow> datetime \<Rightarrow> bool" where
  "seen_between v d started observed \<longleftrightarrow>
     (\<exists>t. parse_utc (jget v ''captured_at'') d = Inr t \<and> instant started \<le> instant t \<and> instant t \<le> instant observed \<and>
       instant observed - instant t \<le> minutes 10)"

definition empty_state_seen :: "env \<Rightarrow> path \<Rightarrow> json \<Rightarrow> datetime \<Rightarrow> datetime \<Rightarrow> bool" where
  "empty_state_seen w p account started observed \<longleftrightarrow>
     (\<exists>state. read_json_object w (p @ [''state.json'']) ''state check'' = Inr state \<and>
       jget state ''exit'' = JInt 0 \<and> jget state ''resources'' = JArr [] \<and>
       (\<forall>(k, v) \<in> set (expected_backend account). py_eq (jget (jget state ''backend'') k) v) \<and>
       seen_between state ''recovery state capture'' started observed)"

definition empty_inventory_seen :: "env \<Rightarrow> path \<Rightarrow> datetime \<Rightarrow> datetime \<Rightarrow> bool" where
  "empty_inventory_seen w p started observed \<longleftrightarrow>
     (\<exists>inventory. read_json_object w (p @ [''inventory.json'']) ''inventory check'' = Inr inventory \<and>
       list_all (service_empty inventory) (runtime_services @ [''ecr'']) \<and> jget inventory ''region'' = JStr ''us-east-1'' \<and>
       seen_between inventory ''recovery inventory capture'' started observed)"

lemma fresh_capture_seen:
  assumes "fresh_capture v d e started observed = Inr ()" and "truthy v"
  shows "seen_between v d started observed"
  using fresh_capture_ok [OF assms] unfolding seen_between_def by blast

lemma recovery_times_ok:
  assumes "recovery_times w snapshot rcd now = Inr clocked"
  obtains failure failed where "read_json_object w (snapshot @ [''observation.json'']) ''failed observation'' = Inr failure"
    "py_index failure ''observed_at'' = Inr failed" "parse_utc (jget rcd ''observed_at'') ''recovery observation'' = Inr (snd clocked)"
    "\<exists>t. parse_utc failed ''failed observation'' = Inr t \<and> instant t \<le> instant (fst clocked)"
    "instant (snd clocked) \<le> now"
  using assms unfolding recovery_times_def
  by (elim bindE_InrE) (rule that; (assumption | force))

lemma recovery_summary_ok:
  assumes "recovery_summary w run_id observation now = Inr v"
  obtains rcd clocked identity account state inventory none where
    "recovery_times w (run_dir w run_id @ [''failed-publication'']) rcd now = Inr clocked"
    "read_json_object w (run_dir w run_id @ [''recovery'', observation, ''recovery-result.json'']) ''recovery result'' = Inr rcd"
    "recovery_account w (run_dir w run_id @ [''failed-publication'']) = Inr account"
    "recorded_object w (run_dir w run_id @ [''recovery'', observation]) (jget rcd ''files'') ''identity.json'' ''recovery identity'' = Inr identity"
    "recorded_object w (run_dir w run_id @ [''recovery'', observation]) (jget rcd ''files'') ''state.json'' ''state check'' = Inr state"
    "recorded_object w (run_dir w run_id @ [''recovery'', observation]) (jget rcd ''files'') ''inventory.json'' ''inventory check'' = Inr inventory"
    "recovered_inventory inventory = Inr none"
    "fresh_capture inventory ''recovery inventory capture'' (ev ''recovery inventory is not fresh for the observation'' []) (fst clocked) (snd clocked) = Inr ()"
    "fresh_capture state ''recovery state capture'' (ev ''recovery state check is not fresh for the observation'' []) (fst clocked) (snd clocked) = Inr ()"
    "recovery_result rcd run_id observation (py_eq (jget identity ''Account'') account)
      (py_eq (jget identity ''Account'') account \<and> state_empty state account \<and> none) = v"
proof -
  from assms obtain rp where rp: "recovery_path w run_id observation = Inr rp"
    unfolding recovery_summary_def bindE_eq_Inr by blast
  obtain raw p where rp': "rp = (raw, p)" by (cases rp)
  note raw = recovery_path_ok [OF rp [unfolded rp']]
  note found = assms [unfolded recovery_summary_def rp rp' bindE_Inr case_prod_unfold fst_conv snd_conv Let_def raw safe_def]
  from found obtain rcd where rcd:
    "read_json_object w (run_dir w run_id @ [''recovery'', observation, ''recovery-result.json'']) ''recovery result'' = Inr rcd"
    and later: "bindE (recovery_times w (run_dir w run_id @ [''failed-publication'']) rcd now) (\<lambda>p.
      bindE (check_recovery_files w (run_dir w run_id @ [''recovery'', observation]) (jget rcd ''files'')) (\<lambda>_.
      bindE (recorded_object w (run_dir w run_id @ [''recovery'', observation]) (jget rcd ''files'') ''identity.json'' ''recovery identity'') (\<lambda>identity.
      bindE (recovery_account w (run_dir w run_id @ [''failed-publication''])) (\<lambda>account.
      bindE (recorded_object w (run_dir w run_id @ [''recovery'', observation]) (jget rcd ''files'') ''state.json'' ''state check'') (\<lambda>state.
      bindE (recorded_object w (run_dir w run_id @ [''recovery'', observation]) (jget rcd ''files'') ''inventory.json'' ''inventory check'') (\<lambda>inventory.
      bindE (recovered_inventory inventory) (\<lambda>none.
      bindE (fresh_capture inventory ''recovery inventory capture'' (ev ''recovery inventory is not fresh for the observation'' []) (fst p) (snd p)) (\<lambda>_.
      bindE (fresh_capture state ''recovery state capture'' (ev ''recovery state check is not fresh for the observation'' []) (fst p) (snd p)) (\<lambda>_.
      Inr (recovery_result rcd run_id observation (py_eq (jget identity ''Account'') account)
        (py_eq (jget identity ''Account'') account \<and> state_empty state account \<and> none))))))))))) = Inr v"
    by (auto simp: bindE_eq_Inr simp del: bindE_assoc)
  from later show ?thesis
    by (elim bindE_InrE) (rule that [OF _ rcd]; (assumption | simp))
qed

text \<open>
  C14. A recovery that counts as verified saw an empty account. When \<open>recovery_summary\<close> reports
  \<open>cleanup_verified\<close>, the recorded Terraform state was read without error from the backend bound to
  the account and listed no resource; the recorded inventory of us-east-1 lists nothing for any
  runtime service nor for ECR; both were captured after the failure was observed and at most ten
  minutes before the recovery was, which is not in the future; and the caller was the account of
  the failed run.
\<close>

theorem recovered_means_empty:
  assumes "recovery_summary w run_id observation now = Inr v" and "jget v ''cleanup_verified'' = JBool True"
    and "packet = run_dir w run_id @ [''failed-publication'']" and "dir = run_dir w run_id @ [''recovery'', observation]"
  shows "\<exists>rcd account identity failure failed started observed.
    read_json_object w (dir @ [''recovery-result.json'']) ''recovery result'' = Inr rcd \<and>
    recovery_account w packet = Inr account \<and>
    recorded_object w dir (jget rcd ''files'') ''identity.json'' ''recovery identity'' = Inr identity \<and>
    py_eq (jget identity ''Account'') account \<and>
    read_json_object w (packet @ [''observation.json'']) ''failed observation'' = Inr failure \<and>
    parse_utc (jget failure ''observed_at'') ''failed observation'' = Inr failed \<and>
    parse_utc (jget rcd ''observed_at'') ''recovery observation'' = Inr observed \<and>
    instant failed \<le> instant started \<and> instant observed \<le> now \<and>
    empty_state_seen w dir account started observed \<and> empty_inventory_seen w dir started observed"
proof -
  obtain rcd clocked identity account state inventory none where
    window_at: "recovery_times w packet rcd now = Inr clocked"
    and found: "read_json_object w (dir @ [''recovery-result.json'']) ''recovery result'' = Inr rcd"
      "recovery_account w packet = Inr account"
      "recorded_object w dir (jget rcd ''files'') ''identity.json'' ''recovery identity'' = Inr identity"
    and state: "recorded_object w dir (jget rcd ''files'') ''state.json'' ''state check'' = Inr state"
    and inventory: "recorded_object w dir (jget rcd ''files'') ''inventory.json'' ''inventory check'' = Inr inventory"
    and none: "recovered_inventory inventory = Inr none"
    and fresh: "fresh_capture inventory ''recovery inventory capture'' (ev ''recovery inventory is not fresh for the observation'' []) (fst clocked) (snd clocked) = Inr ()"
      "fresh_capture state ''recovery state capture'' (ev ''recovery state check is not fresh for the observation'' []) (fst clocked) (snd clocked) = Inr ()"
    and v: "recovery_result rcd run_id observation (py_eq (jget identity ''Account'') account)
      (py_eq (jget identity ''Account'') account \<and> state_empty state account \<and> none) = v"
    by (rule recovery_summary_ok [OF assms(1)], rule that) (simp_all add: assms(3,4))
  from assms(2) v have seen: "py_eq (jget identity ''Account'') account" "state_empty state account" "none"
    by (auto simp: recovery_result_def jget_def)
  note empty = recovered_inventory_True [OF none [unfolded seen(3) [THEN eqTrueI]]]
  have s: "jget state ''exit'' \<noteq> JNull" using seen(2) by (simp add: state_empty_def Let_def)
  have i: "jget inventory ''region'' \<noteq> JNull" using empty by simp
  note state' = recorded_read [OF state s] and inventory' = recorded_read [OF inventory i]
  have "jget state ''exit'' = JInt 0 \<and> jget state ''resources'' = JArr [] \<and>
      (\<forall>(k, v) \<in> set (expected_backend account). py_eq (jget (jget state ''backend'') k) v)"
    using seen(2) by (auto simp: state_empty_def Let_def list_all_iff)
  then have "empty_state_seen w dir account (fst clocked) (snd clocked)"
    unfolding empty_state_seen_def using state' fresh_capture_seen [OF fresh(2)] by blast
  moreover have "empty_inventory_seen w dir (fst clocked) (snd clocked)"
    unfolding empty_inventory_seen_def using inventory' empty fresh_capture_seen [OF fresh(1)] by blast
  moreover obtain failure failed where failure: "read_json_object w (packet @ [''observation.json'']) ''failed observation'' = Inr failure"
      "py_index failure ''observed_at'' = Inr failed" "parse_utc (jget rcd ''observed_at'') ''recovery observation'' = Inr (snd clocked)"
      "\<exists>t. parse_utc failed ''failed observation'' = Inr t \<and> instant t \<le> instant (fst clocked)"
      "instant (snd clocked) \<le> now"
    by (rule recovery_times_ok [OF window_at])
  moreover have "failed = jget failure ''observed_at''"
    using failure(2) by (auto simp: py_index_def jget_def split: json.splits option.splits)
  ultimately show ?thesis using found seen(1) by blast
qed

section \<open>Concrete inputs\<close>

text \<open>Files are given by labels, which stand for their content and for its hash.\<close>

definition env_of :: "(path \<times> string) list \<Rightarrow> (string \<times> json) list \<Rightarrow> env" where
  "env_of table parsed = \<lparr>root_dir = [], files = (\<lambda>p. map_option (regular 384) (map_of table p)),
     outside = (\<lambda>_ _. False), loads = map_of parsed, repeats = (\<lambda>_. False), decode = Some,
     sha256 = (\<lambda>b. b), answer = (\<lambda>t e. \<lparr>returncode = 0, stdout = [], stderr = []\<rparr>)\<rparr>"

lemma env_of_paths [simp]: "root_dir (env_of table parsed) = []" "run_dir (env_of table parsed) r = [''.evidence'', ''m4'', r]"
  "published_dir (env_of table parsed) r = [''docs'', ''evidence'', ''m4'', r]"
  by (simp_all add: env_of_def run_dir_def published_dir_def)

lemma env_of_links [simp]: "\<not> is_symlink (env_of table parsed) p"
  by (simp add: env_of_def is_symlink_def split: option.splits)

lemma env_of_beneath [simp]: "ensure_beneath (env_of table parsed) p [] = Inr ()"
  by (rule beneath_root) (simp_all, simp add: env_of_def)

lemma env_of_file:
  assumes "map_of table p = Some l"
  shows "is_file (env_of table parsed) p" "hash_path (env_of table parsed) p = Inr l"
    "length l \<le> max_evidence_bytes \<Longrightarrow> safe (env_of table parsed) p = Inr p"
    "map_of parsed l = Some v \<Longrightarrow> is_dict v \<Longrightarrow> read_json_object (env_of table parsed) p d = Inr v"
  using assms
  by (simp_all add: safe_def is_file_def file_size_def hash_path_def read_bytes_def read_json_object_def decode_text_def)
     (simp_all add: env_of_def is_file_def decode_text_def)

definition staged_env :: env where
  "staged_env = env_of [([''docs'', ''evidence'', ''m4-staging'', run_e, ''publication.json''], ''publication''),
       ([''.evidence'', ''m4'', run_e, ''02-prices.json''], ''new prices'')]
     [(''publication'', JObj [(''raw_sha256'', JObj [(''02-prices.json'', JStr ''old prices'')])])]"


definition recovered_backend :: json where
  "recovered_backend = JObj (expected_backend (JStr ''123456789012'') @ [(''metadata_sha256'', JStr (replicate 64 CHR ''0''))])"

definition recovered_resources :: "obj" where
  "recovered_resources = map (\<lambda>s. (s, JArr [])) (runtime_services @ [''ecr''])"

definition recovered_files :: "(string \<times> json) list" where
  "recovered_files =
     [(''preflight'', preflight_e), (''observation'', JObj [(''observed_at'', JStr start_e)]),
      (''account'', JObj [(''aws'', JObj [(''account_id'', JStr ''123456789012'')])]),
      (''identity'', JObj [(''Account'', JStr ''123456789012'')]),
      (''state'', JObj [(''exit'', JInt 0), (''resources'', JArr []), (''backend'', recovered_backend), (''captured_at'', JStr start_e)]),
      (''inventory'', JObj [(''schema_version'', JInt 1), (''region'', JStr ''us-east-1''), (''project'', JStr ''my-local-platform''),
         (''counts'', JObj (map (\<lambda>s. (s, JInt 0)) (runtime_services @ [''ecr'']))),
         (''resources'', JObj recovered_resources), (''captured_at'', JStr start_e)]),
      (''recovery'', JObj [(''run_id'', JStr run_e), (''observation_id'', JStr run_e), (''source_commit'', JStr commit_e),
         (''original_publication_sha256'', JStr ''published''), (''controller_snapshot_sha256'', JStr ''controller''),
         (''session_sha256'', JStr ''session''), (''observed_at'', JStr start_e), (''collection_started_at'', JStr start_e),
         (''files'', JObj [(''identity.json'', JStr ''identity''), (''state.json'', JStr ''state''), (''inventory.json'', JStr ''inventory'')])])]"

definition recovered_table :: "(path \<times> string) list" where
  "recovered_table =
     [([''docs'', ''evidence'', ''m4'', run_e, ''publication.json''], ''published''),
      ([''.evidence'', ''m4'', run_e, ''00-preflight.json''], ''preflight''),
      ([''.evidence'', ''m4'', run_e, ''failed-publication'', ''controller-state.json''], ''controller''),
      ([''.evidence'', ''m4'', run_e, ''failed-publication'', ''00-session.json''], ''session''),
      ([''.evidence'', ''m4'', run_e, ''failed-publication'', ''observation.json''], ''observation''),
      ([''.evidence'', ''m4'', run_e, ''failed-publication'', ''01-identity.txt''], ''account''),
      ([''.evidence'', ''m4'', run_e, ''recovery'', run_e, ''recovery-result.json''], ''recovery''),
      ([''.evidence'', ''m4'', run_e, ''recovery'', run_e, ''identity.json''], ''identity''),
      ([''.evidence'', ''m4'', run_e, ''recovery'', run_e, ''state.json''], ''state''),
      ([''.evidence'', ''m4'', run_e, ''recovery'', run_e, ''inventory.json''], ''inventory'')]"

definition recovered_env :: env where
  "recovered_env = env_of recovered_table recovered_files"

lemmas recovered_defs = recovered_env_def recovered_table_def recovered_files_def

lemma recovered_reads:
  "read_json_object recovered_env [''.evidence'', ''m4'', run_e, ''00-preflight.json''] d = Inr (the (map_of recovered_files ''preflight''))"
  "read_json_object recovered_env [''.evidence'', ''m4'', run_e, ''failed-publication'', ''observation.json''] d =
     Inr (the (map_of recovered_files ''observation''))"
  "read_json_object recovered_env [''.evidence'', ''m4'', run_e, ''failed-publication'', ''01-identity.txt''] d =
     Inr (the (map_of recovered_files ''account''))"
  "read_json_object recovered_env [''.evidence'', ''m4'', run_e, ''recovery'', run_e, ''recovery-result.json''] d =
     Inr (the (map_of recovered_files ''recovery''))"
  "read_json_object recovered_env [''.evidence'', ''m4'', run_e, ''recovery'', run_e, ''identity.json''] d =
     Inr (the (map_of recovered_files ''identity''))"
  "read_json_object recovered_env [''.evidence'', ''m4'', run_e, ''recovery'', run_e, ''state.json''] d =
     Inr (the (map_of recovered_files ''state''))"
  "read_json_object recovered_env [''.evidence'', ''m4'', run_e, ''recovery'', run_e, ''inventory.json''] d =
     Inr (the (map_of recovered_files ''inventory''))"
  unfolding recovered_env_def
  by (rule env_of_file(4), simp add: recovered_table_def, simp add: recovered_files_def, simp add: recovered_files_def preflight_e_def)+

lemma recovered_hashes:
  "safe_hash recovered_env [''docs'', ''evidence'', ''m4'', run_e, ''publication.json''] = Inr ''published''"
  "safe_hash recovered_env [''.evidence'', ''m4'', run_e, ''failed-publication'', ''controller-state.json''] = Inr ''controller''"
  "safe_hash recovered_env [''.evidence'', ''m4'', run_e, ''failed-publication'', ''00-session.json''] = Inr ''session''"
  "safe_hash recovered_env [''.evidence'', ''m4'', run_e, ''recovery'', run_e, ''identity.json''] = Inr ''identity''"
  "safe_hash recovered_env [''.evidence'', ''m4'', run_e, ''recovery'', run_e, ''state.json''] = Inr ''state''"
  "safe_hash recovered_env [''.evidence'', ''m4'', run_e, ''recovery'', run_e, ''inventory.json''] = Inr ''inventory''"
  "safe recovered_env [''.evidence'', ''m4'', run_e, ''recovery'', run_e, ''recovery-result.json''] =
     Inr [''.evidence'', ''m4'', run_e, ''recovery'', run_e, ''recovery-result.json'']"
  unfolding recovered_env_def safe_hash_def
  by (subst env_of_file(3), (simp add: recovered_table_def; fail), (simp add: max_evidence_bytes_def; fail),
    simp add: env_of_file recovered_table_def)+

lemma recovered_preflight: "validate_preflight recovered_env [''.evidence'', ''m4'', run_e] run_e = Inr preflight_e"
proof -
  have "is_file recovered_env [''.evidence'', ''m4'', run_e, ''00-preflight.json'']"
    unfolding recovered_env_def by (rule env_of_file(1)) (simp add: recovered_table_def)
  moreover have "\<not> is_symlink recovered_env p" "ensure_beneath recovered_env p [] = Inr ()" for p
    by (simp_all add: recovered_env_def)
  moreover have "the (map_of recovered_files ''preflight'') = preflight_e" by (simp add: recovered_files_def)
  ultimately show ?thesis
    using commit_e_ok by (simp add: validate_preflight_def recovered_reads Let_def) (simp add: preflight_e_def)
qed

lemma recovered_fields:
  "jget (the (map_of recovered_files ''recovery'')) ''run_id'' = JStr run_e"
  "jget (the (map_of recovered_files ''recovery'')) ''observation_id'' = JStr run_e"
  "py_eq (jget (the (map_of recovered_files ''recovery'')) ''source_commit'') (jget preflight_e ''commit'')"
  "jget (the (map_of recovered_files ''recovery'')) ''original_publication_sha256'' = JStr ''published''"
  "jget (the (map_of recovered_files ''recovery'')) ''controller_snapshot_sha256'' = JStr ''controller''"
  "jget (the (map_of recovered_files ''recovery'')) ''session_sha256'' = JStr ''session''"
  "jget (the (map_of recovered_files ''recovery'')) ''observed_at'' = JStr start_e"
  "jget (the (map_of recovered_files ''recovery'')) ''collection_started_at'' = JStr start_e"
  "jget (the (map_of recovered_files ''recovery'')) ''files'' =
     JObj [(''identity.json'', JStr ''identity''), (''state.json'', JStr ''state''), (''inventory.json'', JStr ''inventory'')]"
  "py_index (the (map_of recovered_files ''observation'')) ''observed_at'' = Inr (JStr start_e)"
  "bindE (py_index (the (map_of recovered_files ''account'')) ''aws'') (\<lambda>aws. py_index aws ''account_id'') = Inr (JStr ''123456789012'')"
  "jget (the (map_of recovered_files ''identity'')) ''Account'' = JStr ''123456789012''"
  "jget (the (map_of recovered_files ''state'')) ''captured_at'' = JStr start_e"
  "jget (the (map_of recovered_files ''inventory'')) ''captured_at'' = JStr start_e"
  "state_empty (the (map_of recovered_files ''state'')) (JStr ''123456789012'')"
  "recovered_inventory (the (map_of recovered_files ''inventory'')) = Inr True"
  by code_simp+

lemma recovered_summary:
  "\<exists>v. recovery_summary recovered_env run_e run_e (instant (at_e 0 0)) = Inr v \<and> jget v ''cleanup_verified'' = JBool True"
proof -
  note evaluated = recovered_reads recovered_hashes recovered_fields start_e_ok
  have root: "run_dir recovered_env run_e = [''.evidence'', ''m4'', run_e]"
    "published_dir recovered_env run_e = [''docs'', ''evidence'', ''m4'', run_e]"
    by (simp_all add: recovered_env_def)
  have path: "recovery_path recovered_env run_e run_e = Inr ([''.evidence'', ''m4'', run_e], [''.evidence'', ''m4'', run_e, ''recovery'', run_e])"
    by (simp add: recovery_path_def evidence_paths_def run_e_ok recovered_env_def)
  moreover have "recovery_bound recovered_env [''.evidence'', ''m4'', run_e] run_e run_e (the (map_of recovered_files ''recovery'')) = Inr ()"
    by (simp add: recovery_bound_def Let_def evaluated root recovered_preflight)
  moreover have "recovery_times recovered_env [''.evidence'', ''m4'', run_e, ''failed-publication''] (the (map_of recovered_files ''recovery''))
      (instant (at_e 0 0)) = Inr (at_e 0 0, at_e 0 0)"
    by (simp add: recovery_times_def evaluated)
  moreover have "check_recovery_files recovered_env [''.evidence'', ''m4'', run_e, ''recovery'', run_e]
      (jget (the (map_of recovered_files ''recovery'')) ''files'') = Inr ()"
    by (simp add: check_recovery_files_def evaluated recovery_names_def)
  moreover have "recovery_account recovered_env [''.evidence'', ''m4'', run_e, ''failed-publication''] = Inr (JStr ''123456789012'')"
    by (simp add: recovery_account_def evaluated)
  moreover have "fresh_capture v d e (at_e 0 0) (at_e 0 0) = Inr ()" if "jget v ''captured_at'' = JStr start_e" for v d e
    by (simp add: fresh_capture_def that start_e_ok minutes_def)
  ultimately show ?thesis
    by (simp add: recovery_summary_def Let_def evaluated recorded_object_def recovery_result_def)
qed

lemma recovered_means_empty_witness:
  "\<exists>account started observed.
     empty_state_seen recovered_env (run_dir recovered_env run_e @ [''recovery'', run_e]) account started observed \<and>
     empty_inventory_seen recovered_env (run_dir recovered_env run_e @ [''recovery'', run_e]) started observed \<and>
     instant observed \<le> instant (at_e 0 0)"
proof -
  obtain v where "recovery_summary recovered_env run_e run_e (instant (at_e 0 0)) = Inr v" "jget v ''cleanup_verified'' = JBool True"
    using recovered_summary by blast
  from recovered_means_empty [OF this refl refl] show ?thesis by blast
qed

end
