(* ===== verification/Spec2Isabelle.thy ===== *)
theory Spec2Isabelle
  imports Plan_Gate_Correct Stage_Go_Sample Stage_Images_Correct Evidence_Plan_Correct Evidence_Receipts_Correct Account_Gate_Correct Evidence_Scan_Correct
    Evidence_Png_Correct Sigterm_Correct Aws_Inventory_Correct Capture_Correct Capture_Run_Correct Preflight_Repository_Correct Preflight_Sample Renderer_Correct Evidence_Redact_Correct Evidence_Publish_Correct Publication_Extra_Correct
begin

text \<open>
  The verification development of the scripts that guard the paid AWS run (milestone M4) of
  my-local-platform. The repository runs an event relay (Go services, Terraform, Kubernetes
  manifests); what decides whether money is spent, and what may be claimed afterwards, is a
  chain of Python scripts under \<open>src/scripts\<close>, and these are what is modelled.

  \<^bold>\<open>The chain.\<close> \<open>m4-preflight.py\<close> writes a preflight receipt below \<open>.evidence/m4/<run>\<close>;
  \<open>m4-aws-account.py\<close> writes the account receipt, \<open>m4-stage.py\<close> the price receipt and the
  staged images, \<open>m4-aws-inventory.py\<close> the inventory, \<open>check-aws-plan.py\<close> the plan summary and
  \<open>m4-evidence.py\<close> the capture plan. \<open>m4-stage.py\<close> joins these into the GO packet,
  \<open>m4-evidence.py\<close> starts the paid session and gives the live controller its permits, and
  after the run checks, redacts and publishes the evidence: cost, secret scan, screenshots.
  \<open>m4-publication-extra.py\<close> publishes what was staged and observes the recovery of a failed
  run. \<open>render-aws-k8s.py\<close> renders what is deployed, \<open>verify-k8s-sigterm.py\<close> and
  \<open>m4-live-capture.py\<close> observe the running system. The scripts meet only through the JSON
  files they write and read, so composition theorems say that what one writes is accepted by
  the next.

  \<^bold>\<open>Foundations.\<close> \<open>Prelude\<close>: results that may raise (\<open>'e + 'a\<close>), loops with early exit,
  strings, decimal notation. \<open>Py_Decimal\<close>, \<open>Py_Decimal_Error\<close>: the \<open>decimal\<close> module as far as
  it is used, with its precision of 28 digits, rounding and the rounding error. \<open>Py_Value\<close>:
  values of \<open>json.loads\<close> with Python's equality, truth, dict access and exceptions, and the
  locales \<open>py_dict\<close> and \<open>gate\<close>. \<open>Py_Clock\<close>: calendar, timestamps, run ids and the locale
  \<open>run_id_validator\<close>, interpreted by the validator of every script. \<open>Py_Files\<close>: the environment
  (files, links, and as parameters JSON parsing, UTF-8 decoding, SHA-256 and the answer of
  every command) and the computations that issue commands. \<open>Py_World\<close>: computations that
  change files, JSON text, exclusive and atomic writes. \<open>Polling\<close>: polling loops as
  \<open>partial_function\<close> over a clock, with the locale \<open>pausing_clock\<close>.

  \<^bold>\<open>Components\<close> (model; theorems).
  \<^item> \<open>check-aws-plan.py\<close>: \<open>Plan_Gate\<close>; \<open>Plan_Gate_Correct\<close>.
  \<^item> \<open>m4-stage.py\<close>: \<open>Stage_Prices\<close> (price template, validation, receipt), \<open>Stage_Images\<close>
    (preflight, ECR, staging), \<open>Stage_Go\<close> (building and verifying the GO packet);
    \<open>Stage_Prices_Correct\<close>, \<open>Stage_Images_Correct\<close>, \<open>Stage_Go_Correct\<close>, \<open>Stage_Go_Sample\<close>.
  \<^item> \<open>m4-evidence.py\<close>: \<open>Evidence_Plan\<close> (capture protocol, session, controller permit),
    \<open>Evidence_Receipts\<close> (failure summary, controller ledger, secret-scan receipt),
    \<open>Evidence_Cost\<close> (Cost Explorer pages), \<open>Evidence_Scan\<close> (search for credentials),
    \<open>Evidence_Png\<close> (screenshots), \<open>Evidence_Redact\<close> (the regular expressions and the redaction
    of text), \<open>Evidence_Publish\<close> (building, verifying, finishing and replacing packets);
    \<open>Evidence_Plan_Correct\<close>, \<open>Evidence_Receipts_Correct\<close> (receipts and cost), \<open>Evidence_Scan_Correct\<close>,
    \<open>Evidence_Png_Correct\<close>, \<open>Evidence_Redact_Correct\<close>, \<open>Evidence_Publish_Correct\<close>.
  \<^item> \<open>m4-publication-extra.py\<close>, and the cost collection of \<open>m4-evidence.py\<close>: \<open>Publication_Extra\<close>;
    \<open>Publication_Extra_Correct\<close>.
  \<^item> \<open>m4-preflight.py\<close>: \<open>Preflight_Flags\<close> (hourly flags, rendered documents),
    \<open>Preflight_Repository\<close> (repository and rehearsal receipts), \<open>Preflight_Run\<close> (steps, images,
    receipt); \<open>Preflight_Flags_Correct\<close>, \<open>Preflight_Repository_Correct\<close>, \<open>Preflight_Correct\<close> and
    \<open>Preflight_Sample\<close> (a whole run on concrete answers).
  \<^item> \<open>m4-live-capture.py\<close>: \<open>Capture_Proof\<close> (assertions over traces, attempts and metrics),
    \<open>Capture_Load\<close> (the load cohort as a step relation), \<open>Capture_Run\<close> (guard, cleanup, receipt);
    \<open>Capture_Correct\<close>, \<open>Capture_Run_Correct\<close>.
  \<^item> \<open>render-aws-k8s.py\<close>: \<open>Renderer\<close>; \<open>Renderer_Correct\<close>.
  \<^item> \<open>m4-aws-account.py\<close>: \<open>Account_Gate\<close>; \<open>Account_Gate_Correct\<close>.
  \<^item> \<open>m4-aws-inventory.py\<close>: \<open>Aws_Inventory\<close>; \<open>Aws_Inventory_Correct\<close>.
  \<^item> \<open>verify-k8s-sigterm.py\<close>: \<open>Sigterm\<close>; \<open>Sigterm_Correct\<close>.

  \<^bold>\<open>What the theorems show.\<close> Gates are sound: a passed plan gate, a GO packet, a permit, a
  clean scan, an accepted screenshot, a complete inventory, a graceful termination, a preflight
  receipt, accepted rehearsals, a load cohort, a rendered document, a published packet and a
  verified recovery imply what they are meant to imply, in terms that do not mention the order or the error cases of the
  code. Receipts compose: what the price step, the account gate, the inventory and the GO
  decision, the preflight and the local capture write is accepted by their readers while it is
  fresh. Reading steps and the recovery read only, a run id is spent by its session, a failed
  publication leaves nothing, polling returns and notices, and two errors are proved: the
  receipt of a tiny price, and the spellings of a flag that the preflight does not see.

  \<^bold>\<open>Conventions.\<close> One character stands for one code point below 256. A message is its
  template with its arguments. Times are microseconds since year 1 in UTC; clocks that are read
  repeatedly are functions of the reading. Text that is searched with regular expressions is a
  list of code points, so that the marks of protected identifiers are outside of it. Python sets that are iterated are lists whose order
  is a parameter. Exceptions of Python are values \<open>Py\<close>, without their text.

  \<^bold>\<open>Bounds.\<close> The search for credentials terminates by a multiset order on the depths of the
  pending values (at most four), the PNG walk by the length of the rest, JSON text and equality
  by the size of the value, the regular expressions by the length of the rest and the size of
  the expression, because a repetition that consumed nothing ends. The one bound is Python's
  recursion limit, a parameter of the scans of rendered documents, which are proved to return
  when it exceeds the size of the document. Polling loops are partial functions whose
  termination is a theorem about clocks that advance while the loop pauses.

  \<^bold>\<open>Parameters.\<close> \<open>json.loads\<close>, UTF-8 decoding, SHA-256, zlib and the answers of git, docker,
  kubectl, terraform, AWS and GitHub are functions of the environment or arguments; so are
  directory listings, \<open>rglob\<close>, \<open>shlex.split\<close>, the search of PATH, \<open>ipaddress\<close>, the name that \<open>mkdtemp\<close> chooses and the running processes. Theorems assume
  nothing of them unless a hypothesis says so.

  \<^bold>\<open>Not modelled.\<close> Argument parsing, printing, environment variables of subprocesses, threads
  and signals, port forwards and HTTP transport (their answers are arguments); the Terraform
  call of the plan gate; the process control of the live capture and of the SIGTERM check;
  \<open>m4-local-abort.py\<close>, \<open>m4-local-demo.py\<close> and \<open>with-compose-env.py\<close>, which are process control;
  the Go services, Terraform, shell scripts and manifests, which are other languages.
\<close>

end
